(* ===== verification/Prelude.thy ===== *)
theory Prelude
  imports Main "HOL-Library.Char_ord" "HOL-Library.List_Lexorder"
begin

text \<open>
  Shared vocabulary of the development: HTTP errors as values, the state-and-exception
  programs the service methods are written in with their weakest preconditions, the tables
  of the database, the JavaScript string operations the services use (on ASCII text), JSON
  values, and the collections (\<open>wp\<close>, \<open>tables\<close>) the component proofs simplify with.
\<close>

named_theorems wp \<open>weakest preconditions of the program combinators\<close>
named_theorems tables \<open>lookups in updated tables\<close>

section \<open>Errors and results\<close>

text \<open>
  One constructor per exception class of NestJS the services throw; \<open>Blocked\<close> is the
  \<open>BadRequestException\<close> whose body carries blocker codes, and \<open>Prisma\<close> an uncaught
  error of the database layer with its code and \<open>Crash\<close> any other uncaught exception (both are
  answered as status 500).
\<close>

datatype http_error =
    BadRequest string
  | NotFound string
  | Forbidden string
  | Conflict string
  | Unauthorized string
  | ServiceUnavailable string
  | Blocked string "string list"
  | Prisma string
  | Crash string

type_synonym 'a result = "http_error + 'a"

definition ensure :: "bool \<Rightarrow> http_error \<Rightarrow> unit result" where
  "ensure c e = (if c then Inr () else Inl e)"

definition orElse :: "'a option \<Rightarrow> http_error \<Rightarrow> 'a result" where
  "orElse x e = (case x of None \<Rightarrow> Inl e | Some y \<Rightarrow> Inr y)"

definition andThen :: "'a result \<Rightarrow> ('a \<Rightarrow> 'b result) \<Rightarrow> 'b result" where
  "andThen r f = (case r of Inl e \<Rightarrow> Inl e | Inr x \<Rightarrow> f x)"

lemma ensure_Inr [simp]: "ensure c e = Inr u \<longleftrightarrow> c"
  by (simp add: ensure_def)

lemma ensure_Inl [simp]: "ensure c e = Inl e' \<longleftrightarrow> \<not> c \<and> e' = e"
  by (auto simp: ensure_def)

lemma orElse_Inr [simp]: "orElse x e = Inr y \<longleftrightarrow> x = Some y"
  by (auto simp: orElse_def split: option.splits)

lemma orElse_Inl [simp]: "orElse x e = Inl e' \<longleftrightarrow> x = None \<and> e' = e"
  by (auto simp: orElse_def split: option.splits)

lemma andThen_Inr: "andThen r f = Inr y \<longleftrightarrow> (\<exists>x. r = Inr x \<and> f x = Inr y)"
  by (auto simp: andThen_def split: sum.splits)

lemma andThen_Inl: "andThen r f = Inl e \<longleftrightarrow> r = Inl e \<or> (\<exists>x. r = Inr x \<and> f x = Inl e)"
  by (auto simp: andThen_def split: sum.splits)

lemma andThen_simps [simp]:
  "andThen (Inl e) f = Inl e"
  "andThen (Inr x) f = f x"
  by (simp_all add: andThen_def)

lemma ensure_simps [simp]:
  "ensure True e = Inr ()"
  "ensure False e = Inl e"
  by (simp_all add: ensure_def)

lemma orElse_simps [simp]:
  "orElse None e = Inl e"
  "orElse (Some y) e = Inr y"
  by (simp_all add: orElse_def)

fun isInr :: "'a + 'b \<Rightarrow> bool" where
  "isInr (Inl _) = False"
| "isInr (Inr _) = True"

lemma isInr_iff: "isInr r \<longleftrightarrow> (\<exists>x. r = Inr x)"
  by (cases r) auto

lemma isInr_pair: "isInr (fst run) \<Longrightarrow> \<exists>v. run = (Inr v, snd run)"
  by (cases run) (auto simp: isInr_iff)

section \<open>Programs: state with exceptions\<close>

text \<open>
  A service method reads and writes the database and may throw; what it wrote before
  throwing stays, unless the writes are inside a transaction, which restores the state.
\<close>

type_synonym ('s, 'a) prog = "'s \<Rightarrow> 'a result \<times> 's"

definition ret :: "'a \<Rightarrow> ('s, 'a) prog" where
  "ret x = (\<lambda>s. (Inr x, s))"

definition throw :: "http_error \<Rightarrow> ('s, 'a) prog" where
  "throw e = (\<lambda>s. (Inl e, s))"

definition bnd :: "('s, 'a) prog \<Rightarrow> ('a \<Rightarrow> ('s, 'b) prog) \<Rightarrow> ('s, 'b) prog" where
  "bnd m f = (\<lambda>s. case m s of (Inl e, s') \<Rightarrow> (Inl e, s') | (Inr x, s') \<Rightarrow> f x s')"

definition andDo :: "('s, 'a) prog \<Rightarrow> ('s, 'b) prog \<Rightarrow> ('s, 'b) prog" where
  "andDo m k = bnd m (\<lambda>_. k)"

definition gets :: "('s \<Rightarrow> 'a) \<Rightarrow> ('s, 'a) prog" where
  "gets f = (\<lambda>s. (Inr (f s), s))"

definition asks :: "('s \<Rightarrow> 'a result) \<Rightarrow> ('s, 'a) prog" where
  "asks f = (\<lambda>s. (f s, s))"

definition modify :: "('s \<Rightarrow> 's) \<Rightarrow> ('s, unit) prog" where
  "modify f = (\<lambda>s. (Inr (), f s))"

definition transaction :: "('s, 'a) prog \<Rightarrow> ('s, 'a) prog" where
  "transaction m = (\<lambda>s. case m s of (Inl e, _) \<Rightarrow> (Inl e, s) | (Inr x, s') \<Rightarrow> (Inr x, s'))"

definition catch :: "('s, 'a) prog \<Rightarrow> (http_error \<Rightarrow> ('s, 'a) prog) \<Rightarrow> ('s, 'a) prog" where
  "catch m h = (\<lambda>s. case m s of (Inl e, s') \<Rightarrow> h e s' | (Inr x, s') \<Rightarrow> (Inr x, s'))"

fun mapProg :: "('a \<Rightarrow> ('s, 'b) prog) \<Rightarrow> 'a list \<Rightarrow> ('s, 'b list) prog" where
  "mapProg f [] = ret []"
| "mapProg f (x # xs) = bnd (f x) (\<lambda>y. bnd (mapProg f xs) (\<lambda>ys. ret (y # ys)))"

subsection \<open>Weakest preconditions\<close>

definition wpre :: "('s, 'a) prog \<Rightarrow> ('a \<Rightarrow> 's \<Rightarrow> bool) \<Rightarrow> (http_error \<Rightarrow> 's \<Rightarrow> bool) \<Rightarrow> 's \<Rightarrow> bool" where
  "wpre m Q E s = (case m s of (Inl e, s') \<Rightarrow> E e s' | (Inr x, s') \<Rightarrow> Q x s')"

lemma wpre_ret [wp]: "wpre (ret x) Q E s = Q x s"
  by (simp add: wpre_def ret_def)

lemma wpre_throw [wp]: "wpre (throw e) Q E s = E e s"
  by (simp add: wpre_def throw_def)

lemma wpre_bnd [wp]: "wpre (bnd m f) Q E s = wpre m (\<lambda>x s'. wpre (f x) Q E s') E s"
  by (auto simp: wpre_def bnd_def split: prod.splits sum.splits)

lemma wpre_andDo [wp]: "wpre (andDo m k) Q E s = wpre m (\<lambda>_ s'. wpre k Q E s') E s"
  by (simp add: andDo_def wpre_bnd)

lemma wpre_gets [wp]: "wpre (gets f) Q E s = Q (f s) s"
  by (simp add: wpre_def gets_def)

lemma wpre_asks [wp]:
  "wpre (asks f) Q E s = ((\<forall>e. f s = Inl e \<longrightarrow> E e s) \<and> (\<forall>x. f s = Inr x \<longrightarrow> Q x s))"
  by (simp add: wpre_def asks_def split: sum.splits)

lemma wpre_modify [wp]: "wpre (modify f) Q E s = Q () (f s)"
  by (simp add: wpre_def modify_def)

lemma wpre_transaction [wp]: "wpre (transaction m) Q E s = wpre m Q (\<lambda>e _. E e s) s"
  by (auto simp: wpre_def transaction_def split: prod.splits sum.splits)

lemma wpre_catch [wp]: "wpre (catch m h) Q E s = wpre m Q (\<lambda>e s'. wpre (h e) Q E s') s"
  by (auto simp: wpre_def catch_def split: prod.splits sum.splits)

lemma wpre_if [wp]:
  "wpre (if c then m else k) Q E s = ((c \<longrightarrow> wpre m Q E s) \<and> (\<not> c \<longrightarrow> wpre k Q E s))"
  by simp

lemma wpre_case_option [wp]:
  "wpre (case x of None \<Rightarrow> m | Some y \<Rightarrow> k y) Q E s =
     ((x = None \<longrightarrow> wpre m Q E s) \<and> (\<forall>y. x = Some y \<longrightarrow> wpre (k y) Q E s))"
  by (cases x) auto

lemma wpre_let [wp]: "wpre (let x = t in m x) Q E s = wpre (m t) Q E s"
  by simp

lemma wpre_mono:
  assumes "wpre m Q E s"
    and "\<And>x s'. m s = (Inr x, s') \<Longrightarrow> Q x s' \<Longrightarrow> Q' x s'"
    and "\<And>e s'. m s = (Inl e, s') \<Longrightarrow> E e s' \<Longrightarrow> E' e s'"
  shows "wpre m Q' E' s"
  using assms by (auto simp: wpre_def split: prod.splits sum.splits)

text \<open>From a weakest precondition to the run of the program.\<close>

lemma wpre_run: "wpre m (\<lambda>x s'. P (Inr x) s') (\<lambda>e s'. P (Inl e) s') s \<longleftrightarrow> P (fst (m s)) (snd (m s))"
  by (auto simp: wpre_def split: prod.splits sum.splits)

lemma wpre_success:
  "wpre m Q (\<lambda>_ _. True) s \<Longrightarrow> m s = (Inr x, s') \<Longrightarrow> Q x s'"
  by (simp add: wpre_def)

lemma wpre_failure:
  "wpre m (\<lambda>_ _. True) E s \<Longrightarrow> m s = (Inl e, s') \<Longrightarrow> E e s'"
  by (simp add: wpre_def)

lemma wpre_successI:
  "(\<And>x s'. m s = (Inr x, s') \<Longrightarrow> Q x s') \<Longrightarrow> wpre m Q (\<lambda>_ _. True) s"
  by (auto simp: wpre_def split: prod.splits sum.splits)

text \<open>A state predicate that a program keeps whatever its outcome.\<close>

definition keeps :: "('s \<Rightarrow> bool) \<Rightarrow> ('s, 'a) prog \<Rightarrow> 's \<Rightarrow> bool" where
  "keeps I m s \<longleftrightarrow> wpre m (\<lambda>_. I) (\<lambda>_. I) s"

lemma keeps_run: "keeps I m s \<longleftrightarrow> I (snd (m s))"
  by (auto simp: keeps_def wpre_def split: prod.splits sum.splits)

lemma keeps_andDo_ret: "keeps I m s \<Longrightarrow> keeps I (andDo m (ret ())) s"
  by (simp add: keeps_def wp)

lemma keeps_mapProg:
  assumes "\<And>x s. x \<in> set xs \<Longrightarrow> I s \<Longrightarrow> keeps I (f x) s" and "I s"
  shows "keeps I (mapProg f xs) s"
  using assms
proof (induction xs arbitrary: s)
  case Nil
  then show ?case by (simp add: keeps_def wp)
next
  case (Cons x xs)
  have "wpre (f x) (\<lambda>_. I) (\<lambda>_. I) s"
    using Cons.prems by (simp add: keeps_def)
  then have "wpre (f x) (\<lambda>_ s'. wpre (mapProg f xs) (\<lambda>_. I) (\<lambda>_. I) s') (\<lambda>_. I) s"
    by (rule wpre_mono) (use Cons in \<open>auto simp: keeps_def\<close>)
  then show ?case
    by (simp add: keeps_def wp)
qed

subsection \<open>Evaluation on a concrete state\<close>

lemma run_simps [simp]:
  "ret x s = (Inr x, s)"
  "throw e s = (Inl e, s)"
  "gets f s = (Inr (f s), s)"
  "asks f s = (f s, s)"
  "modify g s = (Inr (), g s)"
  by (simp_all add: ret_def throw_def gets_def asks_def modify_def)

lemma run_bnd [simp]:
  "m s = (Inl e, s') \<Longrightarrow> bnd m f s = (Inl e, s')"
  "m s = (Inr x, s') \<Longrightarrow> bnd m f s = f x s'"
  by (simp_all add: bnd_def)

lemma run_andDo [simp]:
  "m s = (Inl e, s') \<Longrightarrow> andDo m k s = (Inl e, s')"
  "m s = (Inr x, s') \<Longrightarrow> andDo m k s = k s'"
  by (simp_all add: andDo_def)

lemma run_catch [simp]:
  "m s = (Inl e, s') \<Longrightarrow> catch m h s = h e s'"
  "m s = (Inr x, s') \<Longrightarrow> catch m h s = (Inr x, s')"
  by (simp_all add: catch_def)

lemma run_transaction [simp]:
  "m s = (Inl e, s') \<Longrightarrow> transaction m s = (Inl e, s)"
  "m s = (Inr x, s') \<Longrightarrow> transaction m s = (Inr x, s')"
  by (simp_all add: transaction_def)

end
