(* ===== verification/Js_Date.thy ===== *)
theory Js_Date
  imports Prelude
begin

text \<open>
  Dates of the language: a \<open>Date\<close> is its time value, an integer number of milliseconds
  since 1970-01-01T00:00Z, and \<open>toISOString\<close> prints it from the proleptic Gregorian
  calendar as ECMA-262 defines it. The theory ends with the fact the pricing code relies on:
  on years 0 to 9999, comparing two printed dates as strings compares the days themselves.
\<close>

type_synonym time = int

abbreviation ms_per_day :: int where
  "ms_per_day \<equiv> 86400000"

definition day_of :: "time \<Rightarrow> int" where
  "day_of t = t div ms_per_day"

section \<open>Years\<close>

definition day_from_year :: "int \<Rightarrow> int" where
  "day_from_year y = 365 * (y - 1970) + (y - 1969) div 4 - (y - 1901) div 100 + (y - 1601) div 400"

definition leap_year :: "int \<Rightarrow> bool" where
  "leap_year y \<longleftrightarrow> y mod 4 = 0 \<and> (y mod 100 \<noteq> 0 \<or> y mod 400 = 0)"

definition year_from_day :: "int \<Rightarrow> int" where
  "year_from_day d =
     (let y = 1970 + (d * 400) div 146097
      in if d < day_from_year y then y - 1
         else if day_from_year (y + 1) \<le> d then y + 1
         else y)"

lemma div_bounds:
  assumes "0 < (k::int)"
  shows "k * (z div k) \<le> z" "z \<le> k * (z div k) + (k - 1)"
proof -
  have "z = k * (z div k) + z mod k" by simp
  moreover have "0 \<le> z mod k" "z mod k < k" using assms by auto
  ultimately show "k * (z div k) \<le> z" "z \<le> k * (z div k) + (k - 1)" by linarith+
qed

lemma div_succ:
  assumes "0 < (k::int)"
  shows "(z + 1) div k = z div k + (if (z + 1) mod k = 0 then 1 else 0)"
proof -
  have z: "z = k * (z div k) + z mod k" by simp
  have m: "0 \<le> z mod k" "z mod k < k" using assms by auto
  show ?thesis
  proof (cases "z mod k = k - 1")
    case True
    with z have "z + 1 = k * (z div k) + k" by linarith
    then have e: "z + 1 = k * (z div k + 1)" by (simp add: distrib_left)
    have "(z + 1) mod k = 0" unfolding e by simp
    moreover have "(z + 1) div k = z div k + 1" unfolding e using assms by simp
    ultimately show ?thesis by simp
  next
    case False
    then have lt: "z mod k + 1 < k" using m by simp
    have e: "z + 1 = (z mod k + 1) + k * (z div k)" using z by linarith
    have "(z + 1) mod k = z mod k + 1"
      unfolding e using lt m by (simp only: mod_mult_self2) simp
    moreover have "(z + 1) div k = z div k"
    proof -
      have "((z mod k + 1) + k * (z div k)) div k = z div k + (z mod k + 1) div k"
        using assms by (intro div_mult_self2) simp
      moreover have "(z mod k + 1) div k = 0" using lt m by (intro div_pos_pos_trivial) simp_all
      ultimately show ?thesis by (simp only: e [symmetric] add_0_right)
    qed
    ultimately show ?thesis using m by simp
  qed
qed

lemma shift_mod:
  "(y + 1 - 1969) mod 4 = y mod (4::int)"
  "(y + 1 - 1901) mod 100 = y mod (100::int)"
  "(y + 1 - 1601) mod 400 = y mod (400::int)"
proof -
  have "((y + 1 - 1969) + 4 * 492) mod 4 = (y + 1 - 1969) mod 4"
    "((y + 1 - 1901) + 100 * 19) mod 100 = (y + 1 - 1901) mod 100"
    "((y + 1 - 1601) + 400 * 4) mod 400 = (y + 1 - 1601) mod 400"
    by (simp_all only: mod_mult_self2)
  then show "(y + 1 - 1969) mod 4 = y mod (4::int)"
    "(y + 1 - 1901) mod 100 = y mod (100::int)"
    "(y + 1 - 1601) mod 400 = y mod (400::int)"
    by simp_all
qed

lemma year_length:
  "day_from_year (y + 1) = day_from_year y + (if leap_year y then 366 else 365)"
proof -
  have s: "y + 1 - 1969 = (y - 1969) + 1" "y + 1 - 1901 = (y - 1901) + 1" "y + 1 - 1601 = (y - 1601) + 1"
    by simp_all
  define i4 i100 i400 :: int
    where "i4 = (if y mod 4 = 0 then 1 else 0)"
      and "i100 = (if y mod 100 = 0 then 1 else 0)"
      and "i400 = (if y mod 400 = 0 then 1 else 0)"
  have e: "(y + 1 - 1969) div 4 = (y - 1969) div 4 + i4"
    "(y + 1 - 1901) div 100 = (y - 1901) div 100 + i100"
    "(y + 1 - 1601) div 400 = (y - 1601) div 400 + i400"
    by (simp_all only: s div_succ [OF zero_less_numeral] shift_mod [of y, unfolded s] i4_def i100_def i400_def)
  have "day_from_year (y + 1) = day_from_year y + 365 + i4 - i100 + i400"
    unfolding day_from_year_def e by simp
  moreover have "i4 - i100 + i400 = (if leap_year y then 1 else 0)"
  proof -
    have b: "(if a then 1 else 0) - (if b then 1 else 0) + (if c then 1 else 0) =
        (if a \<and> (\<not> b \<or> c) then 1 else (0::int))" if "b \<longrightarrow> a" "c \<longrightarrow> b" for a b c
      using that by (cases a; cases b; cases c) simp_all
    have "y mod 100 = 0 \<longrightarrow> y mod 4 = 0" "y mod 400 = 0 \<longrightarrow> y mod 100 = 0"
      unfolding mod_eq_0_iff_dvd by (rule impI, erule dvd_trans [rotated], simp)+
    from b [OF this] show ?thesis
      by (simp only: i4_def i100_def i400_def leap_year_def)
  qed
  ultimately show ?thesis by (cases "leap_year y") simp_all
qed

lemma day_from_year_bounds:
  "400 * day_from_year y \<le> 146097 * (y - 1970) + 589"
  "146097 * (y - 1970) - 506 \<le> 400 * day_from_year y"
proof -
  obtain a b c where abc: "a = (y - 1969) div 4" "b = (y - 1901) div 100" "c = (y - 1601) div 400"
    by blast
  have "4 * a \<le> y - 1969" "y - 1969 \<le> 4 * a + (4 - 1)"
    "100 * b \<le> y - 1901" "y - 1901 \<le> 100 * b + (100 - 1)"
    "400 * c \<le> y - 1601" "y - 1601 \<le> 400 * c + (400 - 1)"
    unfolding abc by (rule div_bounds, simp)+
  moreover have "day_from_year y = 365 * (y - 1970) + a - b + c"
    unfolding day_from_year_def abc by (rule refl)
  ultimately show "400 * day_from_year y \<le> 146097 * (y - 1970) + 589"
    and "146097 * (y - 1970) - 506 \<le> 400 * day_from_year y"
    by (simp_all add: algebra_simps)
qed

lemma year_from_day_bounds:
  "day_from_year (year_from_day d) \<le> d"
  "d < day_from_year (year_from_day d + 1)"
proof -
  define q where "q = (d * 400) div 146097"
  have q: "146097 * q \<le> d * 400" "d * 400 \<le> 146097 * q + 146096"
    using div_bounds(1) [of 146097 "d * 400"] div_bounds(2) [of 146097 "d * 400"]
    unfolding q_def by simp_all
  have y: "year_from_day d =
      (if d < day_from_year (1970 + q) then 1970 + q - 1
       else if day_from_year (1970 + q + 1) \<le> d then 1970 + q + 1 else 1970 + q)"
    by (simp only: year_from_day_def q_def Let_def)
  have lo: "day_from_year (1970 + q - 1) \<le> d"
  proof -
    define y where "y = 1970 + q - 1"
    have "400 * day_from_year y \<le> 146097 * (q - 1) + 589"
      using day_from_year_bounds(1) [of y] by (simp add: y_def)
    with q have "day_from_year y \<le> d" by (simp add: right_diff_distrib)
    then show ?thesis by (simp only: y_def)
  qed
  have hi: "d < day_from_year (1970 + q + 1 + 1)"
  proof -
    define y where "y = 1970 + q + 1 + 1"
    have "146097 * (q + 2) - 506 \<le> 400 * day_from_year y"
      using day_from_year_bounds(2) [of y] by (simp add: y_def algebra_simps)
    with q have "d < day_from_year y" by (simp add: distrib_left)
    then show ?thesis by (simp only: y_def)
  qed
  show "day_from_year (year_from_day d) \<le> d" "d < day_from_year (year_from_day d + 1)"
    unfolding y using lo hi by (auto simp only: split: if_splits) simp_all
qed

lemma day_from_year_mono_step: "day_from_year y < day_from_year (y + 1)"
  by (simp add: year_length)

lemma day_from_year_mono: "y \<le> y' \<Longrightarrow> day_from_year y \<le> day_from_year y'"
proof (induction y' rule: int_ge_induct)
  case base
  then show ?case by simp
next
  case (step i)
  then show ?case using day_from_year_mono_step [of i] by simp
qed

lemma year_from_day_mono: "d \<le> d' \<Longrightarrow> year_from_day d \<le> year_from_day d'"
proof (rule ccontr)
  assume "d \<le> d'" and "\<not> year_from_day d \<le> year_from_day d'"
  then have "day_from_year (year_from_day d' + 1) \<le> day_from_year (year_from_day d)"
    by (intro day_from_year_mono) simp
  then show False
    using \<open>d \<le> d'\<close> year_from_day_bounds [of d] year_from_day_bounds [of d'] by simp
qed

section \<open>Months and days\<close>

text \<open>Month (1 to 12) and day of the month (from 1) of the n-th day of a year, from 0.\<close>

definition month_day :: "bool \<Rightarrow> int \<Rightarrow> int \<times> int" where
  "month_day leap n =
     (let l = if leap then 1 else 0
      in if n < 31 then (1, n + 1)
         else if n < 59 + l then (2, n - 30)
         else if n < 90 + l then (3, n - 58 - l)
         else if n < 120 + l then (4, n - 89 - l)
         else if n < 151 + l then (5, n - 119 - l)
         else if n < 181 + l then (6, n - 150 - l)
         else if n < 212 + l then (7, n - 180 - l)
         else if n < 243 + l then (8, n - 211 - l)
         else if n < 273 + l then (9, n - 242 - l)
         else if n < 304 + l then (10, n - 272 - l)
         else if n < 334 + l then (11, n - 303 - l)
         else (12, n - 333 - l))"

definition md_code :: "bool \<Rightarrow> int \<Rightarrow> int" where
  "md_code leap n = 100 * fst (month_day leap n) + snd (month_day leap n)"

definition ymd :: "int \<Rightarrow> int \<times> int \<times> int" where
  "ymd d = (let y = year_from_day d in (y, month_day (leap_year y) (d - day_from_year y)))"

lemma month_day_range:
  assumes "0 \<le> n" "n < (if leap then 366 else 365)"
  shows "1 \<le> fst (month_day leap n)" "fst (month_day leap n) \<le> 12"
    "1 \<le> snd (month_day leap n)" "snd (month_day leap n) \<le> 31"
  using assms by (simp_all add: month_day_def Let_def split: if_splits)

lemma md_code_step: "0 \<le> n \<Longrightarrow> md_code leap n < md_code leap (n + 1)"
  by (cases leap) (simp_all add: md_code_def month_day_def Let_def)

lemma md_code_strict: "n < n' \<Longrightarrow> 0 \<le> n \<Longrightarrow> md_code leap n < md_code leap n'"
proof (induction n' rule: int_gr_induct)
  case base
  then show ?case by (simp add: md_code_step)
next
  case (step i)
  then show ?case using md_code_step [of i leap] by simp
qed

lemma md_code_less_iff: "0 \<le> n \<Longrightarrow> 0 \<le> n' \<Longrightarrow> md_code leap n < md_code leap n' \<longleftrightarrow> n < n'"
  by (metis linorder_less_linear md_code_strict order_less_asym)

lemma day_in_year:
  "0 \<le> d - day_from_year (year_from_day d)"
  "d - day_from_year (year_from_day d) < (if leap_year (year_from_day d) then 366 else 365)"
  using year_from_day_bounds [of d] year_length [of "year_from_day d"] by auto

section \<open>Decimal digits\<close>

lemma last_digit_less:
  "(a::int) < b \<longleftrightarrow> a div 10 < b div 10 \<or> a div 10 = b div 10 \<and> a mod 10 < b mod 10"
proof -
  have "a = 10 * (a div 10) + a mod 10" "b = 10 * (b div 10) + b mod 10" by simp_all
  moreover have "0 \<le> a mod 10" "a mod 10 < 10" "0 \<le> b mod 10" "b mod 10 < 10" by simp_all
  ultimately show ?thesis by linarith
qed

lemma last_digit_eq: "(a::int) = b \<longleftrightarrow> a div 10 = b div 10 \<and> a mod 10 = b mod 10"
  by (metis div_mult_mod_eq)

definition digit :: "int \<Rightarrow> char" where
  "digit n = char_of (nat (48 + n))"

lemma digit_code [code]:
  "digit n = (if n \<in> {0..<10} then ''0123456789'' ! nat n else char_of (nat (48 + n)))"
proof (cases "n \<in> {0..<10}")
  case True
  have "list_all (\<lambda>k. digit k = ''0123456789'' ! nat k) [0..9]"
    by (simp add: upto_rec1 digit_def char_of_def bit_0)
  then have "digit n = ''0123456789'' ! nat n" using True by (auto simp: list_all_iff)
  then show ?thesis using True by simp
qed (simp add: digit_def del: atLeastLessThan_iff)

fun pad :: "nat \<Rightarrow> int \<Rightarrow> string" where
  "pad 0 n = []"
| "pad (Suc k) n = pad k (n div 10) @ [digit (n mod 10)]"

lemma of_char_digit: "0 \<le> n \<Longrightarrow> n < 10 \<Longrightarrow> of_char (digit n) = nat (48 + n)"
  by (simp add: digit_def)

lemma digit_less: "0 \<le> a \<Longrightarrow> a < 10 \<Longrightarrow> 0 \<le> b \<Longrightarrow> b < 10 \<Longrightarrow> digit a < digit b \<longleftrightarrow> a < b"
  by (simp add: less_char_def of_char_digit)

lemma digit_inj: "0 \<le> a \<Longrightarrow> a < 10 \<Longrightarrow> 0 \<le> b \<Longrightarrow> b < 10 \<Longrightarrow> digit a = digit b \<longleftrightarrow> a = b"
  by (metis digit_less linorder_neq_iff)

lemma length_pad [simp]: "length (pad k n) = k"
  by (induction k arbitrary: n) auto

lemma append_less_append:
  fixes xs ys :: "'a::linorder list"
  assumes "length xs = length ys"
  shows "xs @ us < ys @ vs \<longleftrightarrow> xs < ys \<or> xs = ys \<and> us < vs"
  using assms by (induction xs ys rule: list_induct2) auto

lemma pad_eq_iff:
  "0 \<le> a \<Longrightarrow> a < 10 ^ k \<Longrightarrow> 0 \<le> b \<Longrightarrow> b < 10 ^ k \<Longrightarrow> pad k a = pad k b \<longleftrightarrow> a = b"
proof (induction k arbitrary: a b)
  case 0
  then show ?case by simp
next
  case (Suc k)
  have "a div 10 < 10 ^ k" "b div 10 < 10 ^ k" using Suc.prems by auto
  then have "pad k (a div 10) = pad k (b div 10) \<longleftrightarrow> a div 10 = b div 10"
    using Suc by simp
  then have "pad (Suc k) a = pad (Suc k) b \<longleftrightarrow> a div 10 = b div 10 \<and> a mod 10 = b mod 10"
    by (simp add: digit_inj)
  also have "\<dots> \<longleftrightarrow> a = b" by (rule last_digit_eq [symmetric])
  finally show ?case .
qed

lemma pad_less_iff:
  "0 \<le> a \<Longrightarrow> a < 10 ^ k \<Longrightarrow> 0 \<le> b \<Longrightarrow> b < 10 ^ k \<Longrightarrow> pad k a < pad k b \<longleftrightarrow> a < b"
proof (induction k arbitrary: a b)
  case 0
  then show ?case by simp
next
  case (Suc k)
  have lt: "a div 10 < 10 ^ k" "b div 10 < 10 ^ k" using Suc.prems by auto
  then have "pad k (a div 10) < pad k (b div 10) \<longleftrightarrow> a div 10 < b div 10"
    using Suc by simp
  moreover have "pad k (a div 10) = pad k (b div 10) \<longleftrightarrow> a div 10 = b div 10"
    using Suc.prems lt by (simp add: pad_eq_iff)
  ultimately have "pad (Suc k) a < pad (Suc k) b \<longleftrightarrow>
      a div 10 < b div 10 \<or> a div 10 = b div 10 \<and> a mod 10 < b mod 10"
    by (simp add: append_less_append digit_less)
  also have "\<dots> \<longleftrightarrow> a < b" by (rule last_digit_less [symmetric])
  finally show ?case .
qed

section \<open>Printed dates\<close>

definition iso_year :: "int \<Rightarrow> string" where
  "iso_year y =
     (if 0 \<le> y \<and> y \<le> 9999 then pad 4 y
      else (if y < 0 then ''-'' else ''+'') @ pad 6 \<bar>y\<bar>)"

definition iso_date :: "time \<Rightarrow> string" where
  "iso_date t =
     (case ymd (day_of t) of (y, m, d) \<Rightarrow> iso_year y @ ''-'' @ pad 2 m @ ''-'' @ pad 2 d)"

definition toISOString :: "time \<Rightarrow> string" where
  "toISOString t =
     (let ms = t mod ms_per_day
      in iso_date t @ ''T'' @ pad 2 (ms div 3600000) @ '':'' @ pad 2 (ms div 60000 mod 60)
         @ '':'' @ pad 2 (ms div 1000 mod 60) @ ''.'' @ pad 3 (ms mod 1000) @ ''Z'')"

definition four_digit_year :: "time \<Rightarrow> bool" where
  "four_digit_year t \<longleftrightarrow> 0 \<le> year_from_day (day_of t) \<and> year_from_day (day_of t) \<le> 9999"

lemma toISOString_prefix:
  assumes "four_digit_year t"
  shows "take 10 (toISOString t) = iso_date t"
proof -
  have "length (iso_date t) = 10"
    using assms by (simp add: iso_date_def iso_year_def four_digit_year_def ymd_def Let_def split: prod.splits)
  then show ?thesis by (simp add: toISOString_def Let_def)
qed

lemma iso_date_less_iff:
  assumes "four_digit_year a" "four_digit_year b"
  shows "iso_date a < iso_date b \<longleftrightarrow> day_of a < day_of b"
proof -
  define ya where "ya = year_from_day (day_of a)"
  define yb where "yb = year_from_day (day_of b)"
  define na where "na = day_of a - day_from_year ya"
  define nb where "nb = day_of b - day_from_year yb"
  obtain ma da where mda: "month_day (leap_year ya) na = (ma, da)" by fastforce
  obtain mb db where mdb: "month_day (leap_year yb) nb = (mb, db)" by fastforce
  have na: "0 \<le> na" "na < (if leap_year ya then 366 else 365)"
    and nb: "0 \<le> nb" "nb < (if leap_year yb then 366 else 365)"
    using day_in_year by (auto simp: na_def nb_def ya_def yb_def)
  have ra: "1 \<le> ma" "ma \<le> 12" "1 \<le> da" "da \<le> 31"
    using month_day_range [OF na] mda by auto
  have rb: "1 \<le> mb" "mb \<le> 12" "1 \<le> db" "db \<le> 31"
    using month_day_range [OF nb] mdb by auto
  have y: "0 \<le> ya" "ya < 10 ^ 4" "0 \<le> yb" "yb < 10 ^ 4"
    using assms by (auto simp: four_digit_year_def ya_def yb_def)
  have "iso_date a < iso_date b \<longleftrightarrow>
      ya < yb \<or> ya = yb \<and> (ma < mb \<or> ma = mb \<and> da < db)"
    using y ra rb mda mdb
    by (simp add: iso_date_def iso_year_def ymd_def Let_def append_less_append pad_less_iff pad_eq_iff
        flip: ya_def yb_def na_def nb_def)
  also have "\<dots> \<longleftrightarrow> ya < yb \<or> ya = yb \<and> na < nb"
  proof (cases "ya = yb")
    case True
    have "(ma < mb \<or> ma = mb \<and> da < db) \<longleftrightarrow> 100 * ma + da < 100 * mb + db"
      using ra rb by auto
    also have "\<dots> \<longleftrightarrow> na < nb"
      using md_code_less_iff [OF na(1) nb(1), of "leap_year ya"] mda mdb True
      by (simp add: md_code_def)
    finally show ?thesis using True by simp
  qed simp
  also have "\<dots> \<longleftrightarrow> day_of a < day_of b"
  proof (cases ya yb rule: linorder_cases)
    case less
    then have "day_from_year (ya + 1) \<le> day_from_year yb" by (intro day_from_year_mono) simp
    then have "day_of a < day_of b"
      using year_from_day_bounds [of "day_of a"] year_from_day_bounds [of "day_of b"]
      by (simp add: ya_def yb_def)
    with less show ?thesis by simp
  next
    case equal
    then show ?thesis by (auto simp: na_def nb_def)
  next
    case greater
    then have "day_from_year (yb + 1) \<le> day_from_year ya" by (intro day_from_year_mono) simp
    then have "day_of b < day_of a"
      using year_from_day_bounds [of "day_of a"] year_from_day_bounds [of "day_of b"]
      by (simp add: ya_def yb_def)
    with greater show ?thesis by simp
  qed
  finally show ?thesis .
qed

lemma four_digit_year_mono:
  assumes "four_digit_year a" "four_digit_year b" "a \<le> t" "t \<le> b"
  shows "four_digit_year t"
proof -
  have "day_of a \<le> day_of t" "day_of t \<le> day_of b"
    using assms by (simp_all add: day_of_def zdiv_mono1)
  then have "year_from_day (day_of a) \<le> year_from_day (day_of t)"
    "year_from_day (day_of t) \<le> year_from_day (day_of b)"
    by (simp_all add: year_from_day_mono)
  then show ?thesis using assms by (simp add: four_digit_year_def)
qed

lemma toISOString_2024_leap_day: "toISOString 1709208000000 = ''2024-02-29T12:00:00.000Z''"
  by code_simp

end
