(* ===== verification/Js_Text.thy ===== *)
theory Js_Text
  imports Js_Date
begin

text \<open>
  Strings of the language as the services use them, on ASCII text (one \<open>char\<close> per code
  unit): trimming, case mapping, prefixes, decimal numerals, and JSON values with the canonical
  printing that idempotency hashes are taken of.
\<close>

section \<open>String operations\<close>

definition code :: "char \<Rightarrow> nat" where
  "code c = of_char c"

definition isSpace :: "char \<Rightarrow> bool" where
  "isSpace c \<longleftrightarrow> code c = 32 \<or> (9 \<le> code c \<and> code c \<le> 13)"

definition trim :: "string \<Rightarrow> string" where
  "trim s = rev (dropWhile isSpace (rev (dropWhile isSpace s)))"

definition lowerChar :: "char \<Rightarrow> char" where
  "lowerChar c = (if 65 \<le> code c \<and> code c \<le> 90 then char_of (code c + 32) else c)"

definition upperChar :: "char \<Rightarrow> char" where
  "upperChar c = (if 97 \<le> code c \<and> code c \<le> 122 then char_of (code c - 32) else c)"

definition toLowerCase :: "string \<Rightarrow> string" where
  "toLowerCase s = map lowerChar s"

definition toUpperCase :: "string \<Rightarrow> string" where
  "toUpperCase s = map upperChar s"

definition isDigit :: "char \<Rightarrow> bool" where
  "isDigit c \<longleftrightarrow> 48 \<le> code c \<and> code c \<le> 57"

definition isLetter :: "char \<Rightarrow> bool" where
  "isLetter c \<longleftrightarrow> (65 \<le> code c \<and> code c \<le> 90) \<or> (97 \<le> code c \<and> code c \<le> 122)"

definition startsWith :: "string \<Rightarrow> string \<Rightarrow> bool" where
  "startsWith p s \<longleftrightarrow> take (length p) s = p"

text \<open>A value of an optional string is used as a condition: absent and empty are false.\<close>

fun truthy :: "string option \<Rightarrow> bool" where
  "truthy None = False"
| "truthy (Some s) = (s \<noteq> [])"

lemma truthy_iff: "truthy x \<longleftrightarrow> (\<exists>s. x = Some s \<and> s \<noteq> [])"
  by (cases x) auto

lemma set_trim: "set (trim s) \<subseteq> set s"
  unfolding trim_def by (metis set_dropWhileD set_rev subsetI)

lemma dropWhile_rev_hd:
  "xs = [] \<or> \<not> P (hd xs) \<Longrightarrow> ys = rev (dropWhile P (rev xs)) \<Longrightarrow> ys = [] \<or> \<not> P (hd ys)"
  by (metis dropWhile_eq_self_iff dropWhile_append3 hd_append2 rev_is_Nil_conv rev_rev_ident
      takeWhile_dropWhile_id rev_append)

lemma trim_idem [simp]: "trim (trim s) = trim s"
proof -
  define u where "u = dropWhile isSpace s"
  define v where "v = rev (dropWhile isSpace (rev u))"
  have u: "u = [] \<or> \<not> isSpace (hd u)"
    unfolding u_def using hd_dropWhile by blast
  have v1: "v = [] \<or> \<not> isSpace (hd v)"
    using dropWhile_rev_hd [OF u v_def] .
  then have "dropWhile isSpace v = v" by (cases v) auto
  moreover have "dropWhile isSpace (rev v) = rev v"
    unfolding v_def by (simp add: dropWhile_idem)
  moreover have "trim s = v" by (simp add: trim_def u_def v_def)
  ultimately show ?thesis by (simp add: trim_def)
qed

lemma code_char_of [simp]: "n < 256 \<Longrightarrow> code (char_of n) = n"
  by (simp add: code_def)

lemma code_less: "code c < 256"
  by (simp add: code_def)

lemma lowerChar_idem [simp]: "lowerChar (lowerChar c) = lowerChar c"
  by (simp add: lowerChar_def)

lemma toLowerCase_idem [simp]: "toLowerCase (toLowerCase s) = toLowerCase s"
  by (simp add: toLowerCase_def)

lemma upperChar_idem [simp]: "upperChar (upperChar c) = upperChar c"
  by (auto simp: upperChar_def)

lemma toUpperCase_idem [simp]: "toUpperCase (toUpperCase s) = toUpperCase s"
  by (simp add: toUpperCase_def)

section \<open>Numerals\<close>

fun show_nat :: "nat \<Rightarrow> string" where
  "show_nat n = (if n < 10 then [digit (int n)] else show_nat (n div 10) @ [digit (int (n mod 10))])"

declare show_nat.simps [simp del]

definition show_int :: "int \<Rightarrow> string" where
  "show_int i = (if i < 0 then ''-'' @ show_nat (nat (- i)) else show_nat (nat i))"

text \<open>The same on integers, for evaluation.\<close>

function show_pos :: "int \<Rightarrow> string" where
  "show_pos i = (if i < 10 then [digit i] else show_pos (i div 10) @ [digit (i mod 10)])"
  by auto
termination by (relation "measure nat") auto

declare show_pos.simps [simp del]

lemma show_pos_nat: "show_pos (int n) = show_nat n"
proof (induction n rule: show_nat.induct)
  case (1 n)
  show ?case
    using 1 by (subst show_pos.simps, subst show_nat.simps) (simp add: zdiv_int zmod_int)
qed

lemma show_int_code [code]: "show_int i = (if i < 0 then ''-'' @ show_pos (- i) else show_pos i)"
proof (cases "i < 0")
  case True
  then show ?thesis using show_pos_nat [of "nat (- i)"] by (simp add: show_int_def)
next
  case False
  then show ?thesis using show_pos_nat [of "nat i"] by (simp add: show_int_def)
qed

text \<open>
  \<open>Number.parseInt(s, 10)\<close>: leading white space, an optional sign, then the longest
  run of digits; no digit at all gives \<open>NaN\<close>, here \<open>None\<close>.
\<close>

definition digitVal :: "char \<Rightarrow> int" where
  "digitVal c = int (code c) - 48"

definition parseDigits :: "string \<Rightarrow> int option" where
  "parseDigits s =
     (let ds = takeWhile isDigit s
      in if ds = [] then None else Some (fold (\<lambda>c a. 10 * a + digitVal c) ds 0))"

definition parseInt10 :: "string \<Rightarrow> int option" where
  "parseInt10 s =
     (case dropWhile isSpace s of
        [] \<Rightarrow> None
      | c # cs \<Rightarrow>
          if c = CHR ''-'' then map_option uminus (parseDigits cs)
          else if c = CHR ''+'' then parseDigits cs
          else parseDigits (c # cs))"

lemma isDigit_not_space: "isDigit c \<Longrightarrow> \<not> isSpace c"
  by (simp add: isDigit_def isSpace_def)

lemma trim_no_space:
  assumes "list_all (\<lambda>c. \<not> isSpace c) s" shows "trim s = s"
proof -
  have "dropWhile isSpace s = s"
    using assms by (cases s) auto
  moreover have "dropWhile isSpace (rev s) = rev s"
    using assms by (cases s rule: rev_cases) auto
  ultimately show ?thesis by (simp add: trim_def)
qed

text \<open>
  \<open>new Date(`${s}T00:00:00.000Z`)\<close> for a string of the form \<open>YYYY-MM-DD\<close>: the engine
  accepts a day of 1 to 31 in every month and lets it run into the next one.
\<close>

definition days_before_month :: "bool \<Rightarrow> int \<Rightarrow> int" where
  "days_before_month leap m =
     [0, 31, 59, 90, 120, 151, 181, 212, 243, 273, 304, 334] ! nat (m - 1) + (if leap \<and> m > 2 then 1 else 0)"

definition parseUtcDay :: "string \<Rightarrow> time option" where
  "parseUtcDay s =
     (if length s = 10 \<and> s ! 4 = CHR ''-'' \<and> s ! 7 = CHR ''-'' \<and>
         list_all isDigit (take 4 s @ take 2 (drop 5 s) @ drop 8 s)
      then let val = (\<lambda>ds. fold (\<lambda>c a. 10 * a + digitVal c) ds 0);
               y = val (take 4 s); m = val (take 2 (drop 5 s)); dd = val (drop 8 s)
           in if 1 \<le> m \<and> m \<le> 12 \<and> 1 \<le> dd \<and> dd \<le> 31
              then Some ((day_from_year y + days_before_month (leap_year y) m + dd - 1) * ms_per_day)
              else None
      else None)"

text \<open>\<open>split\<close> at a character.\<close>

fun split_on :: "char \<Rightarrow> string \<Rightarrow> string list" where
  "split_on c [] = [[]]"
| "split_on c (x # xs) =
     (if x = c then [] # split_on c xs
      else case split_on c xs of [] \<Rightarrow> [[x]] | y # ys \<Rightarrow> (x # y) # ys)"

lemma split_on_app: "c \<notin> set xs \<Longrightarrow> split_on c (xs @ c # ys) = xs # split_on c ys"
  by (induction xs) auto

lemma split_on_none: "c \<notin> set xs \<Longrightarrow> split_on c xs = [xs]"
  by (induction xs) auto

text \<open>Printing a number and reading it back.\<close>

lemma code_digit: "0 \<le> k \<Longrightarrow> k < 10 \<Longrightarrow> code (digit k) = nat (48 + k)"
  by (simp add: code_def of_char_digit)

lemma show_nat_digits: "list_all isDigit (show_nat n) \<and> show_nat n \<noteq> []"
proof (induction n rule: show_nat.induct)
  case (1 n)
  have d: "isDigit (digit (int k))" if "k < 10" for k
    using that by (simp add: isDigit_def code_digit nat_add_distrib)
  show ?case
    using 1 d [of "n mod 10"] d [of n] by (subst (1 2) show_nat.simps) auto
qed

lemma digitVal_digit: "0 \<le> k \<Longrightarrow> k < 10 \<Longrightarrow> digitVal (digit k) = k"
  by (simp add: digitVal_def code_digit)

lemma fold_show_nat: "fold (\<lambda>c a. 10 * a + digitVal c) (show_nat n) 0 = int n"
proof (induction n rule: show_nat.induct)
  case (1 n)
  then show ?case
    by (subst show_nat.simps) (auto simp: digitVal_digit zdiv_int zmod_int)
qed

lemma parseDigits_show_nat: "parseDigits (show_nat n) = Some (int n)"
proof -
  have "takeWhile isDigit (show_nat n) = show_nat n"
    using show_nat_digits [of n] by (simp add: takeWhile_eq_all_conv list_all_iff)
  then show ?thesis
    by (simp only: parseDigits_def Let_def) (simp add: show_nat_digits fold_show_nat)
qed

section \<open>JSON values\<close>

text \<open>
  Values as \<open>JSON.stringify\<close> and the JSON columns of the database see them; numbers are
  integers, as every number in the modelled payloads is. \<open>JUndefined\<close> is a property that is
  present with value \<open>undefined\<close>, and \<open>JDate\<close> a \<open>Date\<close>.
\<close>

datatype json =
    JNull
  | JUndefined
  | JBool bool
  | JNum int
  | JStr string
  | JDate time
  | JArr "json list"
  | JObj "(string \<times> json) list"

definition ostr :: "string option \<Rightarrow> json" where
  "ostr x = (case x of None \<Rightarrow> JNull | Some s \<Rightarrow> JStr s)"

definition oint :: "int option \<Rightarrow> json" where
  "oint x = (case x of None \<Rightarrow> JNull | Some i \<Rightarrow> JNum i)"

text \<open>\<open>JSON.stringify\<close> of a string: quotes, backslashes and control characters are escaped.\<close>

definition hexDigit :: "nat \<Rightarrow> char" where
  "hexDigit n = (if n < 10 then char_of (48 + n) else char_of (87 + n))"

definition json_char :: "char \<Rightarrow> string" where
  "json_char c =
     (if code c = 34 then [char_of (92::nat), char_of (34::nat)]
      else if code c = 92 then [char_of (92::nat), char_of (92::nat)]
      else if code c = 8 then [char_of (92::nat), CHR ''b'']
      else if code c = 9 then [char_of (92::nat), CHR ''t'']
      else if code c = 10 then [char_of (92::nat), CHR ''n'']
      else if code c = 12 then [char_of (92::nat), CHR ''f'']
      else if code c = 13 then [char_of (92::nat), CHR ''r'']
      else if code c < 32 then [char_of (92::nat)] @ ''u00'' @ [hexDigit (code c div 16), hexDigit (code c mod 16)]
      else [c])"

definition json_string :: "string \<Rightarrow> string" where
  "json_string s = [char_of (34::nat)] @ concat (map json_char s) @ [char_of (34::nat)]"

fun joinWith :: "string \<Rightarrow> string list \<Rightarrow> string" where
  "joinWith sep [] = []"
| "joinWith sep [x] = x"
| "joinWith sep (x # y # xs) = x @ sep @ joinWith sep (y # xs)"

text \<open>
  \<open>JSON.stringify\<close> of a value: an undefined element of an array prints as \<open>null\<close>, an
  undefined property is left out, a date prints as its ISO string.
\<close>

fun stringify :: "json \<Rightarrow> string"
  and stringify_items :: "json list \<Rightarrow> string list"
  and stringify_fields :: "(string \<times> json) list \<Rightarrow> string list" where
  "stringify JNull = ''null''"
| "stringify JUndefined = ''null''"
| "stringify (JBool b) = (if b then ''true'' else ''false'')"
| "stringify (JNum n) = show_int n"
| "stringify (JStr s) = json_string s"
| "stringify (JDate t) = json_string (toISOString t)"
| "stringify (JArr vs) = ''['' @ joinWith '','' (stringify_items vs) @ '']''"
| "stringify (JObj fs) = ''{'' @ joinWith '','' (stringify_fields fs) @ ''}''"
| "stringify_items [] = []"
| "stringify_items (v # vs) = stringify v # stringify_items vs"
| "stringify_fields [] = []"
| "stringify_fields ((k, v) # fs) =
     (if v = JUndefined then stringify_fields fs
      else (json_string k @ '':'' @ stringify v) # stringify_fields fs)"

text \<open>
  \<open>stableStringify\<close> of \<open>reservation.service.ts\<close>: the same value always prints the same,
  whatever the order of its keys.
\<close>

fun stableStringify :: "json \<Rightarrow> string"
  and stable_items :: "json list \<Rightarrow> string list"
  and stable_fields :: "(string \<times> json) list \<Rightarrow> (string \<times> string) list" where
  "stableStringify JNull = ''null''"
| "stableStringify JUndefined = ''undefined''"
| "stableStringify (JBool b) = (if b then ''true'' else ''false'')"
| "stableStringify (JNum n) = show_int n"
| "stableStringify (JStr s) = json_string s"
| "stableStringify (JDate t) = json_string (toISOString t)"
| "stableStringify (JArr vs) = ''['' @ joinWith '','' (stable_items vs) @ '']''"
| "stableStringify (JObj fs) =
     ''{'' @ joinWith '','' (map (\<lambda>(k, v). json_string k @ '':'' @ v) (sort_key fst (stable_fields fs))) @ ''}''"
| "stable_items [] = []"
| "stable_items (v # vs) = stableStringify v # stable_items vs"
| "stable_fields [] = []"
| "stable_fields ((k, v) # fs) = (k, stableStringify v) # stable_fields fs"

end
