(* ===== verification/Italian_Fiscal.thy ===== *)
theory Italian_Fiscal
  imports Js_Text
begin

text \<open>
  \<open>packages/shared/src/italian-fiscal.ts\<close>: the pattern check of the codice fiscale, the
  normalisation of a partita IVA to its eleven digits and its check digit. The regular
  expressions are written out as matchers over the characters.
\<close>

section \<open>Codice fiscale\<close>

definition stripSpaces :: "string \<Rightarrow> string" where
  "stripSpaces s = filter (\<lambda>c. \<not> isSpace c) s"

definition isUpper :: "char \<Rightarrow> bool" where
  "isUpper c \<longleftrightarrow> 65 \<le> code c \<and> code c \<le> 90"

text \<open>
  \<open>IT_CF_RE\<close>, one matcher for each character; it is case-insensitive, so every
  character is compared in upper case.
\<close>

definition monthLetter :: "char \<Rightarrow> bool" where
  "monthLetter c \<longleftrightarrow> c \<in> set ''ABCDEHLMPRST''"

definition cf_pattern :: "(char \<Rightarrow> bool) list" where
  "cf_pattern =
     replicate 6 isUpper @ replicate 2 isDigit @ [monthLetter] @ replicate 2 isDigit @
     [isUpper] @ replicate 3 isDigit @ [isUpper]"

fun matches :: "(char \<Rightarrow> bool) list \<Rightarrow> string \<Rightarrow> bool" where
  "matches [] [] = True"
| "matches (p # ps) (c # cs) = (p c \<and> matches ps cs)"
| "matches _ _ = False"

definition isValidItalianFiscalCode :: "string option \<Rightarrow> bool" where
  "isValidItalianFiscalCode raw =
     (case raw of
        None \<Rightarrow> True
      | Some r \<Rightarrow>
          if r = [] then True
          else let s = stripSpaces (toUpperCase (trim r))
               in if length s \<noteq> 16 then False else matches cf_pattern (map upperChar s))"

section \<open>Partita IVA\<close>

definition elevenDigits :: "string \<Rightarrow> bool" where
  "elevenDigits s \<longleftrightarrow> length s = 11 \<and> list_all isDigit s"

definition normalizeItalianVatDigits :: "string option \<Rightarrow> string option" where
  "normalizeItalianVatDigits raw =
     (case raw of
        None \<Rightarrow> None
      | Some r \<Rightarrow>
          if r = [] then None
          else let s = stripSpaces (toUpperCase (trim r));
                   s = (if startsWith ''IT'' s then drop 2 s else s)
               in if elevenDigits s then Some s else None)"

definition vat_term :: "nat \<Rightarrow> char \<Rightarrow> int" where
  "vat_term i c =
     (let n = int (code c) - 48
      in if i mod 2 = 1 then (if n * 2 > 9 then n * 2 - 9 else n * 2) else n)"

fun vat_sum :: "nat \<Rightarrow> string \<Rightarrow> int" where
  "vat_sum i [] = 0"
| "vat_sum i (c # cs) = vat_term i c + vat_sum (Suc i) cs"

definition isValidItalianVatNumber :: "string option \<Rightarrow> bool" where
  "isValidItalianVatNumber raw =
     (case raw of
        None \<Rightarrow> True
      | Some r \<Rightarrow>
          if r = [] then True
          else (case normalizeItalianVatDigits raw of
                  None \<Rightarrow> False
                | Some d \<Rightarrow>
                    let s = vat_sum 0 (take 10 d);
                        check = (10 - s mod 10) mod 10
                    in check = int (code (d ! 10)) - 48))"

section \<open>Normalisation\<close>

lemma upperChar_digit: "isDigit c \<Longrightarrow> upperChar c = c"
  by (simp add: isDigit_def upperChar_def)

lemma digits_clean:
  assumes "list_all isDigit d"
  shows "trim d = d" "toUpperCase d = d" "stripSpaces d = d"
proof -
  have "list_all (\<lambda>c. \<not> isSpace c) d"
    using assms by (auto simp: list_all_iff isDigit_not_space)
  then show "trim d = d" "stripSpaces d = d"
    by (simp_all add: trim_no_space stripSpaces_def list_all_iff)
  show "toUpperCase d = d"
    using assms unfolding toUpperCase_def
    by (induction d) (auto simp: upperChar_digit)
qed

lemma digits_no_prefix: "list_all isDigit d \<Longrightarrow> \<not> startsWith ''IT'' d"
  by (cases d) (auto simp: startsWith_def isDigit_def code_def)

lemma normalize_digits:
  assumes "elevenDigits d" shows "normalizeItalianVatDigits (Some d) = Some d"
proof -
  have a: "list_all isDigit d" "d \<noteq> []"
    using assms by (auto simp: elevenDigits_def)
  then show ?thesis
    using assms digits_clean [OF a(1)] digits_no_prefix [OF a(1)]
    by (simp add: normalizeItalianVatDigits_def Let_def)
qed

lemma normalize_Some:
  "normalizeItalianVatDigits raw = Some d \<Longrightarrow> elevenDigits d"
  by (auto simp: normalizeItalianVatDigits_def Let_def split: option.splits if_splits)

text \<open>
  The normalisation of a VAT number returns eleven digits or nothing, and the number it
  returns is normal: normalising it again changes nothing.
\<close>

theorem normalize_vat_canonical:
  assumes "normalizeItalianVatDigits raw = Some d"
  shows "length d = 11 \<and> list_all isDigit d \<and> normalizeItalianVatDigits (Some d) = Some d"
  using normalize_Some [OF assms] normalize_digits by (simp add: elevenDigits_def)

theorem normalize_vat_canonical_witness:
  "normalizeItalianVatDigits (Some ''01234567890'') = Some ''01234567890''"
  using normalize_vat_canonical [of "Some '' it 0123 4567 890''" "''01234567890''"]
  by (simp add: normalizeItalianVatDigits_def stripSpaces_def toUpperCase_def upperChar_def code_def
      trim_def isSpace_def startsWith_def elevenDigits_def isDigit_def)

section \<open>The check digit\<close>

lemma vat_sum_append: "vat_sum i (xs @ ys) = vat_sum i xs + vat_sum (i + length xs) ys"
  by (induction xs arbitrary: i) auto

lemma vat_sum_update:
  assumes "k < length xs"
  shows "vat_sum i (xs[k := c]) = vat_sum i xs - vat_term (i + k) (xs ! k) + vat_term (i + k) c"
  using assms
proof (induction xs arbitrary: i k)
  case Nil
  then show ?case by simp
next
  case (Cons x xs)
  show ?case
  proof (cases k)
    case 0
    then show ?thesis by simp
  next
    case (Suc j)
    then have "j < length xs" using Cons.prems by simp
    from Cons.IH [OF this, of "Suc i"] show ?thesis by (simp add: Suc)
  qed
qed

lemma digit_value: "isDigit c \<Longrightarrow> 0 \<le> int (code c) - 48 \<and> int (code c) - 48 \<le> 9"
  by (simp add: isDigit_def)

text \<open>A term is a digit, and different digits have different terms (9 doubles to 9 again).\<close>

lemma vat_term_range: "isDigit c \<Longrightarrow> 0 \<le> vat_term i c \<and> vat_term i c \<le> 9"
  using digit_value [of c] by (auto simp: vat_term_def Let_def)

lemma code_inj: "code c = code c' \<Longrightarrow> c = c'"
  by (simp add: code_def)

lemma vat_term_inj:
  assumes "isDigit c" "isDigit c'" "vat_term i c = vat_term i c'"
  shows "c = c'"
proof -
  have parity: "9 + int m * 2 \<noteq> int n * 2" for m n by presburger
  have "code c = code c'"
    using assms digit_value [of c] digit_value [of c']
    by (auto simp: vat_term_def Let_def parity parity [symmetric] split: if_splits)
  then show ?thesis by (rule code_inj)
qed

lemma check_digit:
  assumes "0 \<le> c" "c \<le> (9::int)"
  shows "(10 - s mod 10) mod 10 = c \<longleftrightarrow> (s + c) mod 10 = 0"
proof -
  define r where "r = s mod 10"
  have r: "0 \<le> r" "r \<le> 9" by (simp_all add: r_def)
  have "(s + c) mod 10 = (r + c) mod 10" by (simp add: r_def mod_add_left_eq)
  moreover have "(10 - r) mod 10 = c \<longleftrightarrow> (r + c) mod 10 = 0"
  proof (cases "r = 0")
    case True
    then show ?thesis using assms by auto
  next
    case False
    then have "(10 - r) mod 10 = 10 - r" using r by (intro mod_pos_pos_trivial) simp_all
    moreover have "(r + c) mod 10 = 0 \<longleftrightarrow> r + c = 10"
      using False r assms by presburger
    ultimately show ?thesis by auto
  qed
  ultimately show ?thesis by (simp add: r_def)
qed

lemma digits_mod_eq: "(a - b) mod 10 = (0::int) \<Longrightarrow> 0 \<le> a \<Longrightarrow> a \<le> 9 \<Longrightarrow> 0 \<le> b \<Longrightarrow> b \<le> 9 \<Longrightarrow> a = b"
  by presburger

lemma valid_vat_digits:
  assumes "elevenDigits d"
  shows "isValidItalianVatNumber (Some d) \<longleftrightarrow>
           (vat_sum 0 (take 10 d) + (int (code (d ! 10)) - 48)) mod 10 = 0"
proof -
  define s where "s = vat_sum 0 (take 10 d)"
  define c where "c = int (code (d ! 10)) - 48"
  have "d \<noteq> []" and "isDigit (d ! 10)"
    using assms by (auto simp: elevenDigits_def list_all_length)
  then have c: "0 \<le> c" "c \<le> 9" using digit_value [of "d ! 10"] by (simp_all add: c_def)
  have "(10 - s mod 10) mod 10 = c \<longleftrightarrow> (s + c) mod 10 = 0"
    using c by (rule check_digit)
  then show ?thesis
    using \<open>d \<noteq> []\<close> normalize_digits [OF assms]
    by (simp add: isValidItalianVatNumber_def Let_def s_def c_def)
qed

text \<open>
  The check digit detects every error in a single digit: of a valid number of eleven digits,
  changing one digit into a different one gives an invalid number.
\<close>

theorem vat_single_digit_error:
  assumes "elevenDigits d" "isValidItalianVatNumber (Some d)"
    and "k < 11" "isDigit c" "c \<noteq> d ! k"
  shows "\<not> isValidItalianVatNumber (Some (d[k := c]))"
proof
  assume bad: "isValidItalianVatNumber (Some (d[k := c]))"
  have len: "length d = 11" and dig: "\<And>i. i < 11 \<Longrightarrow> isDigit (d ! i)"
    using assms(1) by (auto simp: elevenDigits_def list_all_length)
  have e: "elevenDigits (d[k := c])"
    using assms(1,4) by (auto simp: elevenDigits_def list_all_iff dest: set_update_subset_insert [THEN subsetD])
  define s where "s = vat_sum 0 (take 10 d)"
  define p where "p = int (code (d ! 10)) - 48"
  have v: "(s + p) mod 10 = 0"
    using assms(2) valid_vat_digits [OF assms(1)] by (simp add: s_def p_def)
  show False
  proof (cases "k = 10")
    case True
    define q where "q = int (code c) - 48"
    have w: "(s + q) mod 10 = 0"
      using bad valid_vat_digits [OF e] True len by (simp add: s_def q_def)
    have "(p - q) mod 10 = 0" using v w by presburger
    then have "p = q"
      using digits_mod_eq [of p q] digit_value [OF assms(4)] digit_value [OF dig [of 10]]
      by (simp add: p_def q_def)
    then have "c = d ! 10" by (simp add: p_def q_def code_inj)
    then show False using assms(5) True by simp
  next
    case False
    then have k: "k < 10" using assms(3) by simp
    define t where "t = vat_term k (d ! k)"
    define u where "u = vat_term k c"
    have "take 10 (d[k := c]) = (take 10 d)[k := c]" by (simp add: take_update_swap)
    then have "vat_sum 0 (take 10 (d[k := c])) = s - t + u"
      using k len by (simp add: vat_sum_update s_def t_def u_def)
    moreover have "d[k := c] ! 10 = d ! 10" using k by simp
    ultimately have w: "(s - t + u + p) mod 10 = 0"
      using bad valid_vat_digits [OF e] by (simp add: p_def)
    have "10 dvd (s + p) - (s - t + u + p)" using v w by (intro dvd_diff) (simp_all add: mod_eq_0_iff_dvd)
    then have "(t - u) mod 10 = 0" by (simp add: mod_eq_0_iff_dvd)
    then have "t = u"
      using digits_mod_eq [of t u] vat_term_range [OF assms(4)] vat_term_range [OF dig [OF assms(3)]]
      by (simp add: t_def u_def)
    then show False
      using vat_term_inj [OF assms(4) dig [OF assms(3)], of k] assms(5) by (simp add: t_def u_def)
  qed
qed

theorem vat_single_digit_error_witness:
  "\<not> isValidItalianVatNumber (Some ''12345679903'')"
proof -
  have a: "elevenDigits ''12345678903''" by code_simp
  have b: "isValidItalianVatNumber (Some ''12345678903'')" by code_simp
  have c: "isDigit (CHR ''9'')" by code_simp
  have d: "CHR ''9'' \<noteq> ''12345678903'' ! 7" by simp
  have e: "''12345678903'' [7 := CHR ''9''] = ''12345679903''" by simp
  show ?thesis
    using vat_single_digit_error [OF a b _ c d] by (simp add: e)
qed

end
