(* ===== verification/Class_Rent.thy ===== *)
theory Class_Rent
  imports Js_Date "HOL-Library.Product_Lexorder"
begin

text \<open>
  \<open>packages/shared/src/rental-days.ts\<close> and \<open>class-rent.ts\<close>: the number of
  24-hour rental days of a window and the rent of a vehicle class over it, with the seasonal
  rates that win by priority. The rent is compared with a specification on day numbers, without
  printed dates and without sorting.
\<close>

section \<open>Rental days\<close>

text \<open>
  \<open>Math.ceil(diff / MS_PER_DAY)\<close>: a \<open>Date\<close> is within 8.64e15 ms of the epoch, where the
  double quotient is a whole number only if the exact quotient is, so the ceiling is exact.
\<close>

definition countRentalDays24h :: "time \<Rightarrow> time \<Rightarrow> int" where
  "countRentalDays24h pickup returnAt =
     (if \<not> returnAt > pickup then 0
      else let diff = returnAt - pickup in max 1 (- ((- diff) div ms_per_day)))"

lemma countRentalDays24h_zero_iff: "countRentalDays24h p r = 0 \<longleftrightarrow> r \<le> p"
  by (auto simp: countRentalDays24h_def Let_def)

lemma countRentalDays24h_nonneg: "0 \<le> countRentalDays24h p r"
  unfolding countRentalDays24h_def Let_def by (simp only: le_max_iff_disj split: if_splits) simp

lemma ceiling_bounds:
  assumes "0 < (k::int)"
  shows "z \<le> k * (- ((- z) div k))" "k * (- ((- z) div k) - 1) < z"
proof -
  have "k * ((- z) div k) \<le> - z" "- z \<le> k * ((- z) div k) + (k - 1)"
    using div_bounds [OF assms, of "- z"] by auto
  then show "z \<le> k * (- ((- z) div k))" "k * (- ((- z) div k) - 1) < z"
    by (simp_all add: algebra_simps)
qed

lemma countRentalDays24h_bounds:
  assumes "p < r"
  shows "1 \<le> countRentalDays24h p r"
    "r - p \<le> ms_per_day * countRentalDays24h p r"
    "ms_per_day * (countRentalDays24h p r - 1) < r - p"
proof -
  define n where "n = - ((- (r - p)) div ms_per_day)"
  have c: "countRentalDays24h p r = max 1 n"
    using assms by (simp only: countRentalDays24h_def n_def Let_def) simp
  have b: "r - p \<le> ms_per_day * n" "ms_per_day * (n - 1) < r - p"
    unfolding n_def by (rule ceiling_bounds, simp)+
  have "1 \<le> n"
  proof (rule ccontr)
    assume "\<not> 1 \<le> n"
    then have "ms_per_day * n \<le> 0" by simp
    with b assms show False by simp
  qed
  with c b show "1 \<le> countRentalDays24h p r"
    "r - p \<le> ms_per_day * countRentalDays24h p r"
    "ms_per_day * (countRentalDays24h p r - 1) < r - p"
    by simp_all
qed

lemma countRentalDays24h_mono:
  assumes "r \<le> r'"
  shows "countRentalDays24h p r \<le> countRentalDays24h p r'"
proof (cases "p < r")
  case True
  with assms have "ms_per_day * (countRentalDays24h p r - 1) < ms_per_day * countRentalDays24h p r'"
    using countRentalDays24h_bounds(3) [of p r] countRentalDays24h_bounds(2) [of p r'] by linarith
  then have "countRentalDays24h p r - 1 < countRentalDays24h p r'"
    by (simp only: mult_less_cancel_left_pos zero_less_numeral)
  then show ?thesis by simp
next
  case False
  then have "countRentalDays24h p r = 0" by (simp add: countRentalDays24h_zero_iff)
  then show ?thesis by (simp add: countRentalDays24h_nonneg)
qed

text \<open>
  C37: the number of billed days of a rental is the least number of 24-hour blocks that covers
  it: the blocks cover the window, one block less does not.
\<close>

theorem rental_days_least_cover:
  assumes "pickup < returnAt"
  shows "countRentalDays24h pickup returnAt = n \<longleftrightarrow>
    returnAt - pickup \<le> ms_per_day * n \<and> ms_per_day * (n - 1) < returnAt - pickup"
proof
  assume "countRentalDays24h pickup returnAt = n"
  then show "returnAt - pickup \<le> ms_per_day * n \<and> ms_per_day * (n - 1) < returnAt - pickup"
    using countRentalDays24h_bounds(2,3) [OF assms] by simp
next
  assume n: "returnAt - pickup \<le> ms_per_day * n \<and> ms_per_day * (n - 1) < returnAt - pickup"
  let ?m = "countRentalDays24h pickup returnAt"
  have m: "returnAt - pickup \<le> ms_per_day * ?m" "ms_per_day * (?m - 1) < returnAt - pickup"
    using countRentalDays24h_bounds(2,3) [OF assms] by simp_all
  have "ms_per_day * (n - 1) < ms_per_day * ?m" "ms_per_day * (?m - 1) < ms_per_day * n"
    using n m by linarith+
  then have "n - 1 < ?m" "?m - 1 < n"
    by (simp_all only: mult_less_cancel_left_pos zero_less_numeral)
  then show "?m = n" by simp
qed

theorem rental_days_least_cover_witness:
  "countRentalDays24h 0 90000000 = 2"
proof -
  have "(0::int) < 90000000" by simp
  from rental_days_least_cover [OF this, of 2] show ?thesis by simp
qed

section \<open>Class rent\<close>

record season =
  s_validFrom :: time
  s_validTo :: time
  s_dailyCents :: int
  s_priority :: int

definition isoDateUtc :: "time \<Rightarrow> string" where
  "isoDateUtc d = take 10 (toISOString d)"

definition season_candidates :: "season list \<Rightarrow> time \<Rightarrow> season list" where
  "season_candidates seasons t =
     (let dStr = isoDateUtc t
      in filter (\<lambda>s. dStr \<ge> isoDateUtc (s_validFrom s) \<and> dStr \<le> isoDateUtc (s_validTo s)) seasons)"

definition day_rate :: "int option \<Rightarrow> season list \<Rightarrow> time \<Rightarrow> int option" where
  "day_rate defaultDailyCents seasons t =
     (case sort_key (\<lambda>s. (- s_priority s, - s_dailyCents s)) (season_candidates seasons t) of
        [] \<Rightarrow> defaultDailyCents
      | c # _ \<Rightarrow> Some (s_dailyCents c))"

text \<open>The loop over the days: \<open>k\<close> iterations are left, \<open>i\<close> is the loop variable.\<close>

fun rent_loop :: "int option \<Rightarrow> season list \<Rightarrow> time \<Rightarrow> nat \<Rightarrow> int \<Rightarrow> int \<Rightarrow> int option" where
  "rent_loop dflt seasons pickup 0 i acc = Some acc"
| "rent_loop dflt seasons pickup (Suc k) i acc =
     (case day_rate dflt seasons (pickup + i * ms_per_day) of
        None \<Rightarrow> None
      | Some r \<Rightarrow> rent_loop dflt seasons pickup k (i + 1) (acc + r))"

definition sumClassRentCents24h ::
    "int option \<Rightarrow> season list \<Rightarrow> time \<Rightarrow> time \<Rightarrow> int option" where
  "sumClassRentCents24h defaultDailyCents seasons pickup returnAt =
     (let numDays = countRentalDays24h pickup returnAt
      in if numDays = 0 then None
         else rent_loop defaultDailyCents seasons pickup (nat numDays) 0 0)"

subsection \<open>Specification\<close>

definition covers_day :: "int \<Rightarrow> season \<Rightarrow> bool" where
  "covers_day d s \<longleftrightarrow> day_of (s_validFrom s) \<le> d \<and> d \<le> day_of (s_validTo s)"

definition best_rate :: "int option \<Rightarrow> season list \<Rightarrow> int \<Rightarrow> int option" where
  "best_rate dflt seasons d =
     (let cs = {s \<in> set seasons. covers_day d s}
      in if cs = {} then dflt
         else Some (snd (Max ((\<lambda>s. (s_priority s, s_dailyCents s)) ` cs))))"

definition rent_spec :: "int option \<Rightarrow> season list \<Rightarrow> int \<Rightarrow> int \<Rightarrow> int option" where
  "rent_spec dflt seasons d0 n =
     (if n = 0 \<or> (\<exists>i \<in> {0..<n}. best_rate dflt seasons (d0 + i) = None) then None
      else Some (\<Sum>i \<in> {0..<n}. the (best_rate dflt seasons (d0 + i))))"

lemma day_of_add_days: "day_of (t + i * ms_per_day) = day_of t + i"
  by (simp add: day_of_def)

lemma hd_sort_key:
  assumes "sort_key f xs = c # cs"
  shows "c \<in> set xs" "\<And>y. y \<in> set xs \<Longrightarrow> f c \<le> f y"
proof -
  have "set (c # cs) = set xs" by (metis assms set_sort)
  moreover have "sorted (map f (c # cs))" using assms sorted_sort_key [of f xs] by simp
  ultimately show "c \<in> set xs" "\<And>y. y \<in> set xs \<Longrightarrow> f c \<le> f y" by auto
qed

definition seasons_in_range :: "season list \<Rightarrow> bool" where
  "seasons_in_range seasons \<longleftrightarrow>
     (\<forall>s \<in> set seasons. four_digit_year (s_validFrom s) \<and> four_digit_year (s_validTo s))"

lemma season_candidates_set:
  assumes "four_digit_year t" "seasons_in_range seasons"
  shows "set (season_candidates seasons t) = {s \<in> set seasons. covers_day (day_of t) s}"
proof -
  have "isoDateUtc t \<ge> isoDateUtc (s_validFrom s) \<and> isoDateUtc t \<le> isoDateUtc (s_validTo s)
      \<longleftrightarrow> covers_day (day_of t) s" if "s \<in> set seasons" for s
    using that assms
    by (auto simp: isoDateUtc_def toISOString_prefix seasons_in_range_def covers_day_def
        iso_date_less_iff not_less [symmetric])
  then show ?thesis by (auto simp: season_candidates_def Let_def)
qed

lemma day_rate_best_rate:
  assumes "four_digit_year t" "seasons_in_range seasons"
  shows "day_rate dflt seasons t = best_rate dflt seasons (day_of t)"
proof -
  let ?f = "\<lambda>s. (- s_priority s, - s_dailyCents s)" and ?g = "\<lambda>s. (s_priority s, s_dailyCents s)"
  let ?cs = "season_candidates seasons t"
  have set_cs: "set ?cs = {s \<in> set seasons. covers_day (day_of t) s}"
    using assms by (rule season_candidates_set)
  show ?thesis
  proof (cases "sort_key ?f ?cs")
    case Nil
    then have "set ?cs = {}" by (metis set_empty set_sort)
    with Nil set_cs show ?thesis by (simp add: day_rate_def best_rate_def)
  next
    case (Cons c cs)
    have c: "c \<in> set ?cs" "\<And>y. y \<in> set ?cs \<Longrightarrow> ?f c \<le> ?f y"
      using hd_sort_key [OF Cons] by blast+
    have "Max (?g ` set ?cs) = ?g c"
    proof (rule Max_eqI)
      show "y \<le> ?g c" if "y \<in> ?g ` set ?cs" for y
        using that c(2) by (fastforce simp: less_eq_prod_def)
    qed (use c(1) in auto)
    moreover have "set ?cs \<noteq> {}" using c(1) by auto
    ultimately show ?thesis
      using Cons set_cs unfolding day_rate_def best_rate_def Let_def by auto
  qed
qed

lemma rent_loop_spec:
  assumes "\<And>j. i \<le> j \<Longrightarrow> j < i + int k \<Longrightarrow>
    day_rate dflt seasons (pickup + j * ms_per_day) = g j"
  shows "rent_loop dflt seasons pickup k i acc =
    (if \<exists>j \<in> {i..<i + int k}. g j = None then None
     else Some (acc + (\<Sum>j \<in> {i..<i + int k}. the (g j))))"
  using assms
proof (induction k arbitrary: i acc)
  case 0
  then show ?case by simp
next
  case (Suc k)
  have split: "{i..<i + int (Suc k)} = insert i {i + 1..<i + 1 + int k}" by auto
  have "day_rate dflt seasons (pickup + i * ms_per_day) = g i"
    using Suc.prems by simp
  moreover have "rent_loop dflt seasons pickup k (i + 1) (acc + r) =
      (if \<exists>j \<in> {i + 1..<i + 1 + int k}. g j = None then None
       else Some (acc + r + (\<Sum>j \<in> {i + 1..<i + 1 + int k}. the (g j))))" for r
    by (rule Suc.IH) (use Suc.prems in auto)
  ultimately show ?case
    unfolding split by (auto split: option.splits)
qed

text \<open>
  C38: on years 0 to 9999 the rent of a class, computed by comparing printed dates and sorting
  the seasons, is the specified one: every billed day takes the rate of the covering season that
  is greatest by priority and then by rate, or the default; the total is their sum, and there is
  no total exactly when some day has no rate.
\<close>

theorem sumClassRent_spec:
  assumes "pickup < returnAt" "four_digit_year pickup" "four_digit_year returnAt"
    and "seasons_in_range seasons"
  shows "sumClassRentCents24h dflt seasons pickup returnAt =
    rent_spec dflt seasons (day_of pickup) (countRentalDays24h pickup returnAt)"
proof -
  define n where "n = countRentalDays24h pickup returnAt"
  have n: "1 \<le> n" "ms_per_day * (n - 1) < returnAt - pickup"
    using countRentalDays24h_bounds [OF assms(1)] by (simp_all add: n_def)
  have rate: "day_rate dflt seasons (pickup + j * ms_per_day) =
      best_rate dflt seasons (day_of pickup + j)" if "0 \<le> j" "j < n" for j
  proof -
    have "j * ms_per_day \<le> ms_per_day * (n - 1)" using that by simp
    then have "four_digit_year (pickup + j * ms_per_day)"
      using assms(2,3) that n by (intro four_digit_year_mono [OF assms(2,3)]) simp_all
    from day_rate_best_rate [OF this assms(4)] show ?thesis by (simp only: day_of_add_days)
  qed
  have "sumClassRentCents24h dflt seasons pickup returnAt = rent_loop dflt seasons pickup (nat n) 0 0"
    using n by (simp add: sumClassRentCents24h_def n_def Let_def)
  also have "\<dots> = rent_spec dflt seasons (day_of pickup) n"
    using n by (subst rent_loop_spec [where g = "\<lambda>j. best_rate dflt seasons (day_of pickup + j)"])
      (simp_all add: rate rent_spec_def)
  finally show ?thesis by (simp add: n_def)
qed

definition example_seasons :: "season list" where
  "example_seasons =
     [\<lparr>s_validFrom = 0, s_validTo = 864000000, s_dailyCents = 5000, s_priority = 1\<rparr>,
      \<lparr>s_validFrom = 86400000, s_validTo = 86400000, s_dailyCents = 9000, s_priority = 2\<rparr>]"

theorem sumClassRent_spec_witness:
  "sumClassRentCents24h (Some 3000) example_seasons 3600000 180000000 = Some 19000 \<and>
   rent_spec (Some 3000) example_seasons (day_of 3600000) (countRentalDays24h 3600000 180000000) = Some 19000"
proof -
  have h: "(3600000::int) < 180000000" "four_digit_year 3600000" "four_digit_year 180000000"
    "seasons_in_range example_seasons"
    by (code_simp, code_simp, code_simp, code_simp)
  have "sumClassRentCents24h (Some 3000) example_seasons 3600000 180000000 = Some 19000"
    by code_simp
  with sumClassRent_spec [OF h, of "Some 3000"] show ?thesis by simp
qed

subsection \<open>Longer rentals cost no less\<close>

lemma day_rate_nonneg:
  assumes "\<forall>r. dflt = Some r \<longrightarrow> 0 \<le> r" "\<forall>s \<in> set seasons. 0 \<le> s_dailyCents s"
    and "day_rate dflt seasons t = Some r"
  shows "0 \<le> r"
proof (cases "sort_key (\<lambda>s. (- s_priority s, - s_dailyCents s)) (season_candidates seasons t)")
  case Nil
  then show ?thesis using assms by (simp add: day_rate_def)
next
  case (Cons c cs)
  have "c \<in> set (season_candidates seasons t)" using hd_sort_key(1) [OF Cons] .
  then have "c \<in> set seasons" by (simp add: season_candidates_def Let_def)
  moreover have "r = s_dailyCents c" using Cons assms(3) by (simp add: day_rate_def)
  ultimately show ?thesis using assms(2) by simp
qed

lemma rent_loop_ge:
  assumes "\<And>t r. day_rate dflt seasons t = Some r \<Longrightarrow> 0 \<le> r"
  shows "rent_loop dflt seasons pickup k i acc = Some a \<Longrightarrow> acc \<le> a"
proof (induction k arbitrary: i acc)
  case (Suc k)
  from Suc.prems obtain r where r: "day_rate dflt seasons (pickup + i * ms_per_day) = Some r"
    "rent_loop dflt seasons pickup k (i + 1) (acc + r) = Some a"
    by (auto split: option.splits)
  have "acc + r \<le> a" using Suc.IH [OF r(2)] .
  moreover have "0 \<le> r" using assms [OF r(1)] .
  ultimately show ?case by simp
qed simp

lemma rent_loop_mono:
  assumes "\<And>t r. day_rate dflt seasons t = Some r \<Longrightarrow> 0 \<le> r"
  shows "k \<le> k' \<Longrightarrow> rent_loop dflt seasons pickup k i acc = Some a \<Longrightarrow>
    rent_loop dflt seasons pickup k' i acc = Some b \<Longrightarrow> a \<le> b"
proof (induction k arbitrary: i acc k')
  case 0
  then show ?case using rent_loop_ge [OF assms] by simp
next
  case (Suc k)
  then obtain k'' where k': "k' = Suc k''" "k \<le> k''" by (cases k') auto
  from Suc.prems(2) obtain r where "day_rate dflt seasons (pickup + i * ms_per_day) = Some r"
    "rent_loop dflt seasons pickup k (i + 1) (acc + r) = Some a"
    by (auto split: option.splits)
  with Suc.prems(3) k' show ?case using Suc.IH [OF k'(2)] by simp
qed

text \<open>
  with rates that are not negative, returning later never makes a priced rental cheaper.
\<close>

theorem sumClassRent_mono:
  assumes "returnAt \<le> returnAt'"
    and "\<forall>r. dflt = Some r \<longrightarrow> 0 \<le> r" "\<forall>s \<in> set seasons. 0 \<le> s_dailyCents s"
    and "sumClassRentCents24h dflt seasons pickup returnAt = Some a"
    and "sumClassRentCents24h dflt seasons pickup returnAt' = Some b"
  shows "a \<le> b"
proof -
  have "nat (countRentalDays24h pickup returnAt) \<le> nat (countRentalDays24h pickup returnAt')"
    using countRentalDays24h_mono [OF assms(1), of pickup] by (rule nat_mono)
  with assms(4,5) show ?thesis
    by (auto simp: sumClassRentCents24h_def Let_def split: if_splits
        intro: rent_loop_mono [OF day_rate_nonneg [OF assms(2,3)]])
qed

theorem sumClassRent_mono_witness: "(6000::int) \<le> 9000"
proof -
  have "sumClassRentCents24h (Some 3000) [] 0 172800000 = Some 6000"
    "sumClassRentCents24h (Some 3000) [] 0 172800001 = Some 9000"
    by code_simp+
  from sumClassRent_mono [OF _ _ _ this] show ?thesis by simp
qed

end
