(* ===== verification/Company_Access.thy ===== *)
theory Company_Access
  imports Js_Text
begin

text \<open>
  \<open>apps/api/src/auth/company-access.ts\<close> and \<open>types.ts\<close>, \<open>roles.guard.ts\<close>: who may
  see and change which rows. The environment of the process is a partial map from variable names;
  \<open>ENFORCE_STAFF_SINGLE_COMPANY\<close> makes administrators company-bound.
\<close>

type_synonym env = "string \<Rightarrow> string option"

datatype user_role = ADMIN | BRANCH_MANAGER | AGENT | READONLY_ACCOUNTING

record jwt_user =
  u_sub :: string
  u_companyId :: string
  u_role :: user_role
  u_stationId :: "string option"

definition enforceStaffSingleCompany :: "env \<Rightarrow> bool" where
  "enforceStaffSingleCompany env =
     (case env ''ENFORCE_STAFF_SINGLE_COMPANY'' of
        None \<Rightarrow> False
      | Some raw \<Rightarrow> let v = toLowerCase (trim raw) in v = ''1'' \<or> v = ''true'' \<or> v = ''yes'')"

definition isAdminCrossCompany :: "env \<Rightarrow> jwt_user \<Rightarrow> bool" where
  "isAdminCrossCompany env user \<longleftrightarrow> u_role user = ADMIN \<and> \<not> enforceStaffSingleCompany env"

definition isAgentStationScoped :: "jwt_user \<Rightarrow> bool" where
  "isAgentStationScoped user \<longleftrightarrow> u_role user = AGENT \<and> u_stationId user \<noteq> None"

definition assertAgentReservationInScope :: "jwt_user \<Rightarrow> string \<Rightarrow> string \<Rightarrow> string \<Rightarrow> unit result" where
  "assertAgentReservationInScope user pickupStationId returnStationId notFoundMessage =
     (if \<not> isAgentStationScoped user then Inr ()
      else if Some pickupStationId = u_stationId user \<or> Some returnStationId = u_stationId user then Inr ()
      else Inl (NotFound notFoundMessage))"

definition assertAgentMayUsePickupStation :: "jwt_user \<Rightarrow> string \<Rightarrow> unit result" where
  "assertAgentMayUsePickupStation user pickupStationId =
     (if \<not> isAgentStationScoped user then Inr ()
      else if Some pickupStationId \<noteq> u_stationId user
      then Inl (Forbidden ''Reservation pickup must be at your assigned station'')
      else Inr ())"

definition assertAgentVehicleHomeBranch :: "jwt_user \<Rightarrow> string \<Rightarrow> string \<Rightarrow> unit result" where
  "assertAgentVehicleHomeBranch user homeStationId notFoundMessage =
     (if \<not> isAgentStationScoped user then Inr ()
      else if Some homeStationId \<noteq> u_stationId user then Inl (NotFound notFoundMessage)
      else Inr ())"

definition assertAgentAvailabilityStation :: "jwt_user \<Rightarrow> string \<Rightarrow> unit result" where
  "assertAgentAvailabilityStation user stationId =
     (if \<not> isAgentStationScoped user then Inr ()
      else if Some stationId \<noteq> u_stationId user
      then Inl (Forbidden ''You can only query availability for your assigned station'')
      else Inr ())"

text \<open>The company filter of a list query: \<open>None\<close> is the empty filter (every company).\<close>

definition effectiveListCompanyFilter :: "env \<Rightarrow> jwt_user \<Rightarrow> string option \<Rightarrow> string option result" where
  "effectiveListCompanyFilter env user queryCompanyId =
     (if isAdminCrossCompany env user then
        Inr (if truthy queryCompanyId then queryCompanyId else None)
      else if truthy queryCompanyId \<and> queryCompanyId \<noteq> Some (u_companyId user)
      then Inl (Forbidden ''Not allowed to access this company'')
      else Inr (Some (u_companyId user)))"

definition assertSameCompany :: "env \<Rightarrow> jwt_user \<Rightarrow> string \<Rightarrow> string \<Rightarrow> unit result" where
  "assertSameCompany env user resourceCompanyId notFoundMessage =
     (if isAdminCrossCompany env user then Inr ()
      else if resourceCompanyId \<noteq> u_companyId user then Inl (NotFound notFoundMessage)
      else Inr ())"

definition assertCreateBodyCompanyId :: "env \<Rightarrow> jwt_user \<Rightarrow> string \<Rightarrow> unit result" where
  "assertCreateBodyCompanyId env user bodyCompanyId =
     (if isAdminCrossCompany env user then Inr ()
      else if bodyCompanyId \<noteq> u_companyId user
      then Inl (Forbidden ''Not allowed to create for another company'')
      else Inr ())"

definition assertCanPatchCompany :: "jwt_user \<Rightarrow> string \<Rightarrow> unit result" where
  "assertCanPatchCompany user companyId =
     (if u_role user = BRANCH_MANAGER \<and> companyId \<noteq> u_companyId user
      then Inl (Forbidden ''Not allowed to modify this company'')
      else Inr ())"

text \<open>\<open>RolesGuard\<close>: the roles a route requires (none: open), and the user of the request.\<close>

definition rolesGuard :: "user_role list option \<Rightarrow> jwt_user option \<Rightarrow> bool" where
  "rolesGuard required user =
     (case required of
        None \<Rightarrow> True
      | Some [] \<Rightarrow> True
      | Some rs \<Rightarrow> (case user of None \<Rightarrow> False | Some u \<Rightarrow> u_role u \<in> set rs))"

section \<open>What the checks guarantee\<close>

text \<open>Visible tenants and branches, as predicates on the user alone.\<close>

definition may_see_company :: "env \<Rightarrow> jwt_user \<Rightarrow> string \<Rightarrow> bool" where
  "may_see_company env user c \<longleftrightarrow> isAdminCrossCompany env user \<or> c = u_companyId user"

definition branch_ok :: "jwt_user \<Rightarrow> string \<Rightarrow> bool" where
  "branch_ok user st \<longleftrightarrow> (isAgentStationScoped user \<longrightarrow> u_stationId user = Some st)"

lemma assertSameCompany_Inr [simp]: "assertSameCompany env user c m = Inr u \<longleftrightarrow> may_see_company env user c"
  by (auto simp: assertSameCompany_def may_see_company_def)

lemma assertCreateBodyCompanyId_Inr [simp]:
  "assertCreateBodyCompanyId env user c = Inr u \<longleftrightarrow> may_see_company env user c"
  by (auto simp: assertCreateBodyCompanyId_def may_see_company_def)

lemma assertAgentMayUsePickupStation_Inr [simp]:
  "assertAgentMayUsePickupStation user st = Inr u \<longleftrightarrow> branch_ok user st"
  by (auto simp: assertAgentMayUsePickupStation_def branch_ok_def)

lemma assertAgentVehicleHomeBranch_Inr [simp]:
  "assertAgentVehicleHomeBranch user st m = Inr u \<longleftrightarrow> branch_ok user st"
  by (auto simp: assertAgentVehicleHomeBranch_def branch_ok_def)

lemma assertAgentAvailabilityStation_Inr [simp]:
  "assertAgentAvailabilityStation user st = Inr u \<longleftrightarrow> branch_ok user st"
  by (auto simp: assertAgentAvailabilityStation_def branch_ok_def)

lemma assertAgentReservationInScope_Inr [simp]:
  "assertAgentReservationInScope user p r m = Inr u \<longleftrightarrow> branch_ok user p \<or> branch_ok user r"
  by (auto simp: assertAgentReservationInScope_def branch_ok_def)

lemma effectiveListCompanyFilter_Inr:
  "effectiveListCompanyFilter env user q = Inr f \<Longrightarrow> \<not> isAdminCrossCompany env user \<Longrightarrow>
    f = Some (u_companyId user)"
  by (auto simp: effectiveListCompanyFilter_def split: if_splits)

section \<open>The tenancy contract of a guarded handler\<close>

text \<open>
  A handler that looks a row up and then applies the tenant and branch checks, as an interface:
  the row's company and the stations it touches, and the lookup with the guards. Its users get
  isolation once for every guarded component.
\<close>

locale guarded_rows =
  fixes fetch :: "'d \<Rightarrow> env \<Rightarrow> jwt_user \<Rightarrow> string \<Rightarrow> 'r result"
    and stored :: "'d \<Rightarrow> string \<Rightarrow> 'r option"
    and company :: "'r \<Rightarrow> string"
    and touches :: "'r \<Rightarrow> string \<Rightarrow> bool"
  assumes fetch_stored: "fetch d env user i = Inr r \<Longrightarrow> stored d i = Some r"
    and fetch_company: "fetch d env user i = Inr r \<Longrightarrow> may_see_company env user (company r)"
    and fetch_branch: "fetch d env user i = Inr r \<Longrightarrow> isAgentStationScoped user \<Longrightarrow>
      \<exists>st. u_stationId user = Some st \<and> touches r st"
    and fetch_hidden: "fetch d env user i = Inl e \<Longrightarrow> \<exists>m. e = NotFound m"
begin

text \<open>Two users of different companies never both fetch the same row.\<close>

lemma isolation:
  assumes "fetch d env u1 i = Inr r" "\<not> isAdminCrossCompany env u1"
    and "u_companyId u2 \<noteq> u_companyId u1" "\<not> isAdminCrossCompany env u2"
  shows "\<exists>m. fetch d env u2 i = Inl (NotFound m)"
proof (cases "fetch d env u2 i")
  case (Inl e)
  then show ?thesis using fetch_hidden by blast
next
  case (Inr r')
  have "r' = r" using fetch_stored [OF Inr] fetch_stored [OF assms(1)] by simp
  then show ?thesis
    using fetch_company [OF Inr] fetch_company [OF assms(1)] assms by (simp add: may_see_company_def)
qed

text \<open>The answer for a foreign row is the one for a row that does not exist: a 404.\<close>

lemma no_leak:
  assumes "stored d i = Some r" "\<not> may_see_company env user (company r)"
  shows "\<exists>m. fetch d env user i = Inl (NotFound m)"
  using assms fetch_stored fetch_company fetch_hidden by (cases "fetch d env user i") fastforce+

end

end
