(* ===== verification/Schema.thy ===== *)
theory Schema
  imports Class_Rent Company_Access
begin

text \<open>
  \<open>apps/api/prisma/schema.prisma\<close>: the models and enums the services work on, one record
  per model with a field per column (relations are the foreign keys; the seasonal rates of a class
  and the extra lines of a reservation are kept in their parent row), and the database as a record
  of tables. A table is the list of its rows in the order a query without an explicit order returns
  them. Mails handed to the mailer, requests sent to Stripe, the files on the local disk (path and length)
  and the objects deleted from the bucket are recorded in the state too, so that the properties can speak about them.
\<close>

section \<open>Organisation\<close>

datatype cargos_adapter = ADAPTER_MOCK | ADAPTER_HTTP | ADAPTER_OFF

datatype sdi_adapter = SDI_OFF | SDI_MOCK | SDI_HTTP

record company =
  co_id :: string
  co_name :: string
  co_oneWayFeeCents :: "int option"
  co_cargosInScope :: bool
  co_cargosAdapter :: cargos_adapter
  co_cargosHttpUrl :: "string option"
  co_cargosCutoffMinutesBeforePickup :: "int option"
  co_sdiAdapter :: sdi_adapter
  co_sdiHttpUrl :: "string option"
  co_fiscalCode :: "string option"
  co_vatNumber :: "string option"
  co_sdiRecipientCode :: "string option"
  co_pec :: "string option"

record station =
  st_id :: string
  st_companyId :: string
  st_name :: string
  st_code :: string
  st_city :: string
  st_cargosLocationCode :: "string option"

section \<open>Fleet\<close>

record seasonal_rate =
  sr_id :: string
  sr_validFrom :: time
  sr_validTo :: time
  sr_dailyCents :: int
  sr_priority :: int

record vehicle_class =
  vc_id :: string
  vc_companyId :: string
  vc_name :: string
  vc_code :: string
  vc_defaultDailyCents :: "int option"
  vc_defaultDepositCents :: "int option"
  vc_seasonalRates :: "seasonal_rate list"

datatype vehicle_type = CAR | SCOOTER | VAN | OTHER_TYPE

datatype vehicle_status = AVAILABLE | RENTED | MAINTENANCE | OUT_OF_FLEET | TRANSIT

datatype rent_pricing_mode = USE_CLASS | FIXED_DAILY | FLAT_TRIP

record vehicle =
  v_id :: string
  v_companyId :: string
  v_vehicleClassId :: string
  v_homeStationId :: string
  v_vin :: "string option"
  v_licensePlate :: string
  v_vehicleType :: vehicle_type
  v_status :: vehicle_status
  v_odometerKm :: int
  v_acquiredAt :: "time option"
  v_nextServiceDueOdometerKm :: "int option"
  v_autoServiceBlockHours :: "int option"
  v_serviceDueAutoBlockedForKm :: "int option"
  v_fuelType :: "string option"
  v_modelLabel :: "string option"
  v_coverImageUrl :: "string option"
  v_rentPricingMode :: rent_pricing_mode
  v_rentOverrideDailyCents :: "int option"
  v_flatTripRentCents :: "int option"

datatype block_type = BLOCK_MAINTENANCE | BLOCK_BUFFER | BLOCK_HOLD | BLOCK_OTHER

record calendar_block =
  cb_id :: string
  cb_vehicleId :: string
  cb_startsAt :: time
  cb_endsAt :: time
  cb_type :: block_type
  cb_reason :: "string option"

section \<open>Customers\<close>

record privacy_notice =
  pn_id :: string
  pn_companyId :: string
  pn_version :: string
  pn_policyUrl :: "string option"
  pn_effectiveFrom :: "time option"
  pn_notes :: "string option"

record customer =
  cu_id :: string
  cu_companyId :: string
  cu_name :: string
  cu_email :: string
  cu_phone :: string
  cu_privacyNoticeVersion :: "string option"
  cu_privacyNoticeAcceptedAt :: "time option"
  cu_marketingEmailOptIn :: bool
  cu_marketingOptInAt :: "time option"
  cu_anonymizedAt :: "time option"
  cu_notes :: "string option"
  cu_fiscalCode :: "string option"
  cu_vatNumber :: "string option"
  cu_sdiRecipientCode :: "string option"
  cu_pec :: "string option"

datatype ocr_status = OCR_NONE | OCR_PENDING | OCR_READY | OCR_FAILED

datatype document_type = ID_CARD | DRIVING_LICENSE | PASSPORT | OTHER_DOCUMENT

datatype attachment_storage = LOCAL | S3

record customer_document =
  cd_id :: string
  cd_companyId :: string
  cd_customerId :: string
  cd_docType :: document_type
  cd_storage :: attachment_storage
  cd_uploadCompletedAt :: "time option"
  cd_retentionUntil :: "time option"
  cd_verifiedAt :: "time option"
  cd_verifiedByUserId :: "string option"
  cd_originalName :: string
  cd_mimeType :: string
  cd_sizeBytes :: int
  cd_storageKey :: string
  cd_uploadedByUserId :: "string option"
  cd_ocrStatus :: ocr_status
  cd_ocrSuggestion :: "json option"
  cd_ocrCompletedAt :: "time option"
  cd_ocrVendor :: "string option"
  cd_ocrError :: "string option"
  cd_ocrAppliedAt :: "time option"
  cd_ocrAppliedByUserId :: "string option"
  cd_createdAt :: time

section \<open>Reservations\<close>

datatype reservation_status =
    QUOTE | PENDING_PAYMENT | CONFIRMED | IN_PROGRESS | COMPLETED | NO_SHOW | CANCELLED

fun status_name :: "reservation_status \<Rightarrow> string" where
  "status_name QUOTE = ''QUOTE''"
| "status_name PENDING_PAYMENT = ''PENDING_PAYMENT''"
| "status_name CONFIRMED = ''CONFIRMED''"
| "status_name IN_PROGRESS = ''IN_PROGRESS''"
| "status_name COMPLETED = ''COMPLETED''"
| "status_name NO_SHOW = ''NO_SHOW''"
| "status_name CANCELLED = ''CANCELLED''"

datatype deposit_status = DEP_NONE | DEP_PENDING | DEP_UNCAPTURED | DEP_CAPTURED | DEP_CANCELED | DEP_FAILED

datatype reservation_source = STAFF | PUBLIC_WEB | PARTNER

record extra_line =
  xl_label :: string
  xl_amountCents :: int
  xl_sortOrder :: nat

record checklist_item =
  ci_key :: string
  ci_label :: string
  ci_ok :: bool

record reservation =
  r_id :: string
  r_companyId :: string
  r_vehicleId :: string
  r_pickupStationId :: string
  r_returnStationId :: string
  r_pickupAt :: time
  r_returnAt :: time
  r_status :: reservation_status
  r_source :: reservation_source
  r_createdByPartnerApiKeyId :: "string option"
  r_customerId :: "string option"
  r_customerName :: string
  r_customerEmail :: string
  r_customerPhone :: string
  r_totalCents :: "int option"
  r_currency :: string
  r_stripeCheckoutSessionId :: "string option"
  r_paidAt :: "time option"
  r_stripeDepositCheckoutSessionId :: "string option"
  r_stripeDepositPaymentIntentId :: "string option"
  r_depositHoldCents :: "int option"
  r_depositHoldStatus :: deposit_status
  r_notes :: "string option"
  r_publicViewToken :: "string option"
  r_publicViewTokenAt :: "time option"
  r_rentPaymentReminderSentAt :: "time option"
  r_odometerOutKm :: "int option"
  r_odometerInKm :: "int option"
  r_cargosHandoverOverrideAt :: "time option"
  r_cargosHandoverOverrideById :: "string option"
  r_cargosHandoverOverrideReason :: "string option"
  r_createdAt :: time
  r_updatedAt :: time
  r_extraLines :: "extra_line list"
  r_fuelOutPercent :: "int option"
  r_fuelInPercent :: "int option"
  r_handoverChecklist :: "checklist_item list option"
  r_returnChecklist :: "checklist_item list option"
  r_handoverOpsNotes :: "string option"
  r_returnOpsNotes :: "string option"

section \<open>Agreements, CaRGOS, partners, payments, audit\<close>

datatype agreement_status = AGREEMENT_DRAFT | AGREEMENT_SIGNED | AGREEMENT_VOID

record rental_agreement =
  ra_id :: string
  ra_companyId :: string
  ra_reservationId :: string
  ra_status :: agreement_status
  ra_agreementTemplateVersion :: "string option"
  ra_body :: string
  ra_signedAt :: "time option"
  ra_signedByName :: "string option"
  ra_signedClientIp :: "string option"
  ra_signedUserAgent :: "string option"

datatype cargos_status = CG_PENDING | CG_PROCESSING | CG_MOCK_SENT | CG_SKIPPED | CG_FAILED

record cargos_submission =
  cs_id :: string
  cs_companyId :: string
  cs_reservationId :: string
  cs_status :: cargos_status
  cs_errorMessage :: "string option"
  cs_attemptCount :: int
  cs_processedAt :: "time option"
  cs_createdAt :: time
  cs_updatedAt :: time

record partner_api_key =
  pk_id :: string
  pk_companyId :: string
  pk_revokedAt :: "time option"
  pk_webhookUrl :: "string option"
  pk_webhookSigningSecret :: "string option"
  pk_allowedIpCidrs :: "string option"
  pk_name :: string
  pk_keyHash :: string
  pk_lastUsedAt :: "time option"
  pk_createdByUserId :: "string option"
  pk_createdAt :: time
  pk_oauthClientSecretHash :: "string option"

record partner_idempotency =
  id_partnerApiKeyId :: string
  id_keyHash :: string
  id_bodyHash :: string
  id_reservationId :: string

datatype delivery_status = WH_PENDING | WH_PROCESSING | WH_SUCCEEDED | WH_DEAD

record webhook_delivery =
  wd_id :: string
  wd_partnerApiKeyId :: string
  wd_reservationId :: string
  wd_event :: string
  wd_bodyJson :: string
  wd_status :: delivery_status
  wd_attemptCount :: int
  wd_maxAttempts :: int
  wd_nextAttemptAt :: time
  wd_lastAttemptAt :: "time option"
  wd_lastHttpStatus :: "int option"
  wd_lastError :: "string option"
  wd_succeededAt :: "time option"
  wd_createdAt :: time
  wd_updatedAt :: time

datatype refund_kind = REFUND_RENTAL | REFUND_DEPOSIT

record refund_entry =
  rf_id :: string
  rf_companyId :: string
  rf_reservationId :: string
  rf_stripeRefundId :: string
  rf_amountCents :: int
  rf_currency :: string
  rf_kind :: refund_kind
  rf_createdByUserId :: "string option"
  rf_createdAt :: time

record stripe_event_row =
  se_id :: string
  se_type :: string
  se_createdAt :: time

datatype damage_status = DAMAGE_DRAFT | DAMAGE_CLOSED

record damage_line =
  dl_area :: string
  dl_description :: string
  dl_estimatedFeeCents :: "int option"
  dl_sortOrder :: nat

record damage_report =
  dm_id :: string
  dm_companyId :: string
  dm_reservationId :: string
  dm_status :: damage_status
  dm_notes :: "string option"
  dm_suggestedCaptureCents :: "int option"
  dm_createdByUserId :: string
  dm_lines :: "damage_line list"

datatype invoice_kind = INVOICE | CREDIT_NOTE

datatype invoice_status = INV_DRAFT | INV_ISSUED | INV_VOID

record invoice =
  in_id :: string
  in_companyId :: string
  in_reservationId :: "string option"
  in_kind :: invoice_kind
  in_status :: invoice_status
  in_creditedInvoiceId :: "string option"
  in_issueYear :: "int option"
  in_issueSequence :: "int option"
  in_documentNumber :: "string option"
  in_subtotalCents :: int
  in_vatRateBps :: int
  in_vatCents :: int
  in_totalCents :: int
  in_currency :: string
  in_description :: "string option"
  in_issuedAt :: "time option"
  in_createdAt :: time

record fiscal_sequence =
  fq_companyId :: string
  fq_year :: int
  fq_lastIssued :: int

datatype sdi_status = SD_PENDING | SD_PROCESSING | SD_MOCK_SENT | SD_SKIPPED | SD_FAILED | SD_SENT

record sdi_submission =
  sd_id :: string
  sd_companyId :: string
  sd_invoiceId :: string
  sd_status :: sdi_status
  sd_idTracciatura :: "string option"
  sd_errorMessage :: "string option"
  sd_attemptCount :: int
  sd_processedAt :: "time option"
  sd_createdAt :: time

text \<open>
  Attachments of agreements, photos of a handover or return and photos of a damage report have the same columns;
  only the photos of a reservation have a phase.
\<close>

datatype photo_phase = HANDOVER_PHOTO | RETURN_PHOTO

record stored_file =
  sf_id :: string
  sf_companyId :: string
  sf_ownerId :: string
  sf_phase :: "photo_phase option"
  sf_originalName :: string
  sf_mimeType :: string
  sf_sizeBytes :: int
  sf_storageKey :: string
  sf_storage :: attachment_storage
  sf_uploadCompletedAt :: "time option"
  sf_uploadedByUserId :: "string option"
  sf_createdAt :: time

section \<open>Staff and audit\<close>

record staff_user =
  su_id :: string
  su_companyId :: string
  su_stationId :: "string option"
  su_email :: string
  su_passwordHash :: string
  su_firstName :: string
  su_lastName :: string
  su_role :: user_role
  su_isActive :: bool
  su_lastLoginAt :: "time option"
  su_failedLoginAttempts :: int
  su_lockedUntil :: "time option"
  su_mfaEnabled :: bool
  su_mfaSecret :: "string option"
  su_mfaBackupCodeHashes :: "string list option"
  su_createdAt :: time

record reset_token =
  pr_id :: string
  pr_userId :: string
  pr_tokenHash :: string
  pr_expiresAt :: time
  pr_usedAt :: "time option"

record audit_log =
  al_userId :: "string option"
  al_action :: string
  al_entity :: string
  al_entityId :: "string option"
  al_metadata :: json
  al_ip :: "string option"
  al_userAgent :: "string option"

text \<open>A mail handed to the mailer: which template, to whom, about which reservation, with which link.\<close>

record mail =
  m_kind :: string
  m_to :: string
  m_reservationId :: string
  m_link :: "string option"

text \<open>
  Requests to Stripe that ask for or move money: checkout sessions (kind, amount and reservation),
  captures, cancellations and refunds.
\<close>

datatype stripe_call =
    CreateSession string int string
  | CaptureIntent string "int option"
  | CancelIntent string
  | RefundIntent string "int option"

section \<open>The database\<close>

record db =
  d_companies :: "company list"
  d_stations :: "station list"
  d_classes :: "vehicle_class list"
  d_vehicles :: "vehicle list"
  d_blocks :: "calendar_block list"
  d_customers :: "customer list"
  d_notices :: "privacy_notice list"
  d_documents :: "customer_document list"
  d_reservations :: "reservation list"
  d_agreements :: "rental_agreement list"
  d_cargos :: "cargos_submission list"
  d_keys :: "partner_api_key list"
  d_idempotencies :: "partner_idempotency list"
  d_deliveries :: "webhook_delivery list"
  d_stripeEvents :: "stripe_event_row list"
  d_refunds :: "refund_entry list"
  d_audit :: "audit_log list"
  d_mails :: "mail list"
  d_stripeCalls :: "stripe_call list"
  d_texts :: "(string \<times> string) list"
  d_damages :: "damage_report list"
  d_invoices :: "invoice list"
  d_sequences :: "fiscal_sequence list"
  d_sdi :: "sdi_submission list"
  d_attachments :: "stored_file list"
  d_photos :: "stored_file list"
  d_damagePhotos :: "stored_file list"
  d_users :: "staff_user list"
  d_resets :: "reset_token list"
  d_disk :: "(string \<times> int) list"
  d_bucketDeletes :: "string list"

definition empty_db :: db where
  "empty_db =
     \<lparr>d_companies = [], d_stations = [], d_classes = [], d_vehicles = [], d_blocks = [],
      d_customers = [], d_notices = [], d_documents = [], d_reservations = [], d_agreements = [],
      d_cargos = [], d_keys = [], d_idempotencies = [], d_deliveries = [], d_stripeEvents = [],
      d_refunds = [], d_audit = [], d_mails = [], d_stripeCalls = [],
      d_texts = [], d_damages = [], d_invoices = [], d_sequences = [], d_sdi = [], d_attachments = [],
      d_photos = [], d_damagePhotos = [], d_users = [], d_resets = [], d_disk = [], d_bucketDeletes = []\<rparr>"

text \<open>
  What a request runs with: the environment of the process, the clock, whether the mailer is
  configured, and the client's address and agent.
\<close>

record ctx =
  c_env :: env
  c_now :: time
  c_mailOn :: bool
  c_ip :: "string option"
  c_userAgent :: "string option"

type_synonym 'a dbprog = "(db, 'a) prog"

section \<open>Rows by key\<close>

text \<open>
  The client's single-row operations: a lookup by primary key, an insert (the key is unique, an
  occupied one is error \<open>P2002\<close>), an update and a delete of one row (\<open>P2025\<close> when
  there is none).
\<close>

definition find_row :: "('r \<Rightarrow> string) \<Rightarrow> string \<Rightarrow> 'r list \<Rightarrow> 'r option" where
  "find_row key i rows = List.find (\<lambda>r. key r = i) rows"

definition update_row :: "('r \<Rightarrow> string) \<Rightarrow> string \<Rightarrow> ('r \<Rightarrow> 'r) \<Rightarrow> 'r list \<Rightarrow> 'r list" where
  "update_row key i f rows = map (\<lambda>r. if key r = i then f r else r) rows"

definition delete_row :: "('r \<Rightarrow> string) \<Rightarrow> string \<Rightarrow> 'r list \<Rightarrow> 'r list" where
  "delete_row key i rows = filter (\<lambda>r. key r \<noteq> i) rows"

definition keyed :: "('r \<Rightarrow> string) \<Rightarrow> 'r list \<Rightarrow> bool" where
  "keyed key rows \<longleftrightarrow> distinct (map key rows)"

lemma find_row_append [tables]:
  "find_row key i (xs @ ys) = (case find_row key i xs of None \<Rightarrow> find_row key i ys | Some r \<Rightarrow> Some r)"
  by (induction xs) (auto simp: find_row_def)

lemma find_row_Nil [tables]: "find_row key i [] = None"
  by (simp add: find_row_def)

lemma find_row_Cons [tables]: "find_row key i (r # rs) = (if key r = i then Some r else find_row key i rs)"
  by (simp add: find_row_def)

lemma find_row_update_row [tables]:
  assumes "\<And>r. key (f r) = key r"
  shows "find_row key j (update_row key i f rows) =
           (if j = i then map_option f (find_row key j rows) else find_row key j rows)"
  using assms by (induction rows) (auto simp: find_row_def update_row_def)

lemma find_row_delete_row [tables]:
  "find_row key j (delete_row key i rows) = (if j = i then None else find_row key j rows)"
  by (induction rows) (auto simp: find_row_def delete_row_def)

text \<open>
  A table of the database as an interface: reading its rows and changing them, with the law that
  the changed rows are read back.
\<close>

locale table =
  fixes rows :: "'d \<Rightarrow> 'r list"
    and change :: "('r list \<Rightarrow> 'r list) \<Rightarrow> 'd \<Rightarrow> 'd"
    and key :: "'r \<Rightarrow> string"
  assumes rows_change: "rows (change f d) = f (rows d)"
begin

lemma find_Some: "find_row key i (rows d) = Some r \<Longrightarrow> r \<in> set (rows d) \<and> key r = i"
  by (auto simp: find_row_def find_Some_iff)

lemma find_None: "find_row key i (rows d) = None \<longleftrightarrow> i \<notin> key ` set (rows d)"
  by (auto simp: find_row_def find_None_iff)

lemma find_keyed:
  assumes "keyed key (rows d)" "r \<in> set (rows d)" "key r = i"
  shows "find_row key i (rows d) = Some r"
proof (cases "find_row key i (rows d)")
  case None
  then show ?thesis using assms find_None by blast
next
  case (Some r')
  then have "r' \<in> set (rows d)" "key r' = key r" using find_Some assms(3) by blast+
  then have "r' = r" using assms(1,2) by (auto simp: keyed_def distinct_map inj_on_def)
  then show ?thesis using Some by simp
qed

lemma find_insert:
  assumes "find_row key (key r) (rows d) = None"
  shows "find_row key (key r) (rows (change (\<lambda>rs. rs @ [r]) d)) = Some r"
    and "i \<noteq> key r \<Longrightarrow> find_row key i (rows (change (\<lambda>rs. rs @ [r]) d)) = find_row key i (rows d)"
  using assms by (simp_all add: rows_change tables split: option.splits)

lemma find_update:
  assumes "\<And>r. key (f r) = key r"
  shows "find_row key j (rows (change (update_row key i f) d)) =
           (if j = i then map_option f (find_row key j (rows d)) else find_row key j (rows d))"
  using assms by (simp add: rows_change tables)

lemma find_delete:
  "find_row key j (rows (change (delete_row key i) d)) = (if j = i then None else find_row key j (rows d))"
  by (simp add: rows_change tables)

lemma keyed_insert:
  assumes "keyed key (rows d)" "find_row key (key r) (rows d) = None"
  shows "keyed key (rows (change (\<lambda>rs. rs @ [r]) d))"
  using assms find_None by (auto simp: keyed_def rows_change)

lemma keyed_update:
  assumes "keyed key (rows d)" "\<And>r. key (f r) = key r"
  shows "keyed key (rows (change (update_row key i f) d))"
proof -
  have "map key (update_row key i f (rows d)) = map key (rows d)"
    using assms(2) by (simp add: update_row_def)
  then show ?thesis using assms(1) by (simp add: keyed_def rows_change)
qed

lemma keyed_delete: "keyed key (rows d) \<Longrightarrow> keyed key (rows (change (delete_row key i) d))"
  by (auto simp: keyed_def rows_change delete_row_def distinct_map inj_on_def)

lemma set_update:
  "r \<in> set (rows (change (update_row key i f) d)) \<Longrightarrow>
     (\<exists>r0 \<in> set (rows d). key r0 = i \<and> r = f r0) \<or> (r \<in> set (rows d) \<and> key r \<noteq> i)"
  by (auto simp: rows_change update_row_def split: if_splits)

end

interpretation reservations: table d_reservations d_reservations_update r_id
  by unfold_locales simp

interpretation vehicles: table d_vehicles d_vehicles_update v_id
  by unfold_locales simp

interpretation classes: table d_classes d_classes_update vc_id
  by unfold_locales simp

interpretation blocks: table d_blocks d_blocks_update cb_id
  by unfold_locales simp

interpretation customers: table d_customers d_customers_update cu_id
  by unfold_locales simp

interpretation cargos: table d_cargos d_cargos_update cs_id
  by unfold_locales simp

interpretation invoices: table d_invoices d_invoices_update in_id
  by unfold_locales simp

interpretation agreements: table d_agreements d_agreements_update ra_id
  by unfold_locales simp

interpretation deliveries: table d_deliveries d_deliveries_update wd_id
  by unfold_locales simp

interpretation partner_keys: table d_keys d_keys_update pk_id
  by unfold_locales simp

interpretation sdi: table d_sdi d_sdi_update sd_id
  by unfold_locales simp

interpretation attachments: table d_attachments d_attachments_update sf_id
  by unfold_locales simp

interpretation photos: table d_photos d_photos_update sf_id
  by unfold_locales simp

interpretation damage_photos: table d_damagePhotos d_damagePhotos_update sf_id
  by unfold_locales simp

interpretation users: table d_users d_users_update su_id
  by unfold_locales simp

interpretation resets: table d_resets d_resets_update pr_id
  by unfold_locales simp

subsection \<open>Queries of the models\<close>

definition find_company :: "db \<Rightarrow> string \<Rightarrow> company option" where
  "find_company d i = find_row co_id i (d_companies d)"

definition find_station :: "db \<Rightarrow> string \<Rightarrow> station option" where
  "find_station d i = find_row st_id i (d_stations d)"

definition find_class :: "db \<Rightarrow> string \<Rightarrow> vehicle_class option" where
  "find_class d i = find_row vc_id i (d_classes d)"

definition find_vehicle :: "db \<Rightarrow> string \<Rightarrow> vehicle option" where
  "find_vehicle d i = find_row v_id i (d_vehicles d)"

definition find_block :: "db \<Rightarrow> string \<Rightarrow> calendar_block option" where
  "find_block d i = find_row cb_id i (d_blocks d)"

definition find_customer :: "db \<Rightarrow> string \<Rightarrow> customer option" where
  "find_customer d i = find_row cu_id i (d_customers d)"

definition find_reservation :: "db \<Rightarrow> string \<Rightarrow> reservation option" where
  "find_reservation d i = find_row r_id i (d_reservations d)"

definition find_invoice :: "db \<Rightarrow> string \<Rightarrow> invoice option" where
  "find_invoice d i = find_row in_id i (d_invoices d)"

definition find_agreement :: "db \<Rightarrow> string \<Rightarrow> rental_agreement option" where
  "find_agreement d i = find_row ra_id i (d_agreements d)"

definition find_user :: "db \<Rightarrow> string \<Rightarrow> staff_user option" where
  "find_user d i = find_row su_id i (d_users d)"

definition find_key :: "db \<Rightarrow> string \<Rightarrow> partner_api_key option" where
  "find_key d i = find_row pk_id i (d_keys d)"

subsection \<open>Writes\<close>

definition insert_reservation :: "reservation \<Rightarrow> reservation dbprog" where
  "insert_reservation r =
     andDo (asks (\<lambda>d. ensure (find_reservation d (r_id r) = None) (Prisma ''P2002'')))
       (andDo (modify (d_reservations_update (\<lambda>rs. rs @ [r]))) (ret r))"

definition stamped :: "time \<Rightarrow> (reservation \<Rightarrow> reservation) \<Rightarrow> reservation \<Rightarrow> reservation" where
  "stamped now f r = (f r)\<lparr>r_updatedAt := now\<rparr>"

definition update_reservation :: "time \<Rightarrow> string \<Rightarrow> (reservation \<Rightarrow> reservation) \<Rightarrow> reservation dbprog" where
  "update_reservation now i f =
     bnd (asks (\<lambda>d. orElse (find_reservation d i) (Prisma ''P2025'')))
       (\<lambda>r. andDo (modify (d_reservations_update (update_row r_id i (stamped now f)))) (ret (stamped now f r)))"

text \<open>\<open>AuditService.log\<close> and \<open>MailService.send\<close>.\<close>

definition audit :: "audit_log \<Rightarrow> unit dbprog" where
  "audit a = modify (d_audit_update (\<lambda>as. as @ [a]))"

definition send_mail :: "mail \<Rightarrow> unit dbprog" where
  "send_mail m = modify (d_mails_update (\<lambda>ms. ms @ [m]))"

section \<open>Frames\<close>

text \<open>Audit rows and mails touch no table the invariants are about.\<close>

lemma wpre_audit [wp]: "wpre (audit a) Q E d = Q () (d_audit_update (\<lambda>as. as @ [a]) d)"
  by (simp add: audit_def wp)

lemma wpre_send_mail [wp]: "wpre (send_mail m) Q E d = Q () (d_mails_update (\<lambda>ms. ms @ [m]) d)"
  by (simp add: send_mail_def wp)

lemma wpre_insert_reservation [wp]:
  "wpre (insert_reservation r) Q E d =
     ((find_reservation d (r_id r) \<noteq> None \<longrightarrow> E (Prisma ''P2002'') d) \<and>
      (find_reservation d (r_id r) = None \<longrightarrow> Q r (d_reservations_update (\<lambda>rs. rs @ [r]) d)))"
  by (simp add: insert_reservation_def wp)

lemma wpre_update_reservation [wp]:
  "wpre (update_reservation now i f) Q E d =
     ((find_reservation d i = None \<longrightarrow> E (Prisma ''P2025'') d) \<and>
      (\<forall>r. find_reservation d i = Some r \<longrightarrow>
        Q (stamped now f r) (d_reservations_update (update_row r_id i (stamped now f)) d)))"
  by (auto simp: update_reservation_def wp)

lemma find_reservation_id: "find_reservation d i = Some r \<Longrightarrow> r_id r = i \<and> r \<in> set (d_reservations d)"
  using reservations.find_Some [of i d r] by (simp add: find_reservation_def)

lemma find_vehicle_id: "find_vehicle d i = Some v \<Longrightarrow> v_id v = i \<and> v \<in> set (d_vehicles d)"
  using vehicles.find_Some [of i d v] by (simp add: find_vehicle_def)

end
