(* ===== verification/Schedule.thy ===== *)
theory Schedule
  imports Schema
begin

text \<open>
  \<open>apps/api/src/fleet/intervals.ts\<close> and the contract both calendars of the program share:
  a resource is never taken twice at the same time. Calendar blocks and reservations are the two
  providers; each interprets the locale with its own conflict check.
\<close>

definition halfOpenRangesOverlap :: "time \<Rightarrow> time \<Rightarrow> time \<Rightarrow> time \<Rightarrow> bool" where
  "halfOpenRangesOverlap aStart aEnd bStart bEnd \<longleftrightarrow> aStart < bEnd \<and> bStart < aEnd"

lemma overlap_sym: "halfOpenRangesOverlap a b c d \<longleftrightarrow> halfOpenRangesOverlap c d a b"
  by (auto simp: halfOpenRangesOverlap_def)

text \<open>For proper intervals the test is exactly that they share an instant.\<close>

lemma overlap_iff_common:
  assumes "a < b" "c < d"
  shows "halfOpenRangesOverlap a b c d \<longleftrightarrow> (\<exists>t. a \<le> t \<and> t < b \<and> c \<le> t \<and> t < d)"
  using assms by (auto simp: halfOpenRangesOverlap_def intro: exI [of _ "max a c"])

section \<open>Slots\<close>

type_synonym slot = "string \<times> time \<times> time"

fun clash :: "slot \<Rightarrow> slot \<Rightarrow> bool" where
  "clash (v, a, b) (w, c, d) \<longleftrightarrow> v = w \<and> halfOpenRangesOverlap a b c d"

lemma clash_sym: "clash s t \<longleftrightarrow> clash t s"
  by (cases s; cases t) (auto simp: overlap_sym)

definition disjoint_slots :: "slot list \<Rightarrow> bool" where
  "disjoint_slots ss \<longleftrightarrow> sorted_wrt (\<lambda>s t. \<not> clash s t) ss"

lemma disjoint_append:
  "disjoint_slots (xs @ ys) \<longleftrightarrow>
     disjoint_slots xs \<and> disjoint_slots ys \<and> (\<forall>x\<in>set xs. \<forall>y\<in>set ys. \<not> clash x y)"
  by (simp add: disjoint_slots_def sorted_wrt_append)

lemma disjoint_Cons [simp]:
  "disjoint_slots (x # xs) \<longleftrightarrow> (\<forall>y\<in>set xs. \<not> clash x y) \<and> disjoint_slots xs"
  by (simp add: disjoint_slots_def)

lemma disjoint_Nil [simp]: "disjoint_slots []"
  by (simp add: disjoint_slots_def)

text \<open>The slots that the live rows of a table take.\<close>

definition taken :: "('r \<Rightarrow> bool) \<Rightarrow> ('r \<Rightarrow> slot) \<Rightarrow> 'r list \<Rightarrow> slot list" where
  "taken live slot rows = map slot (filter live rows)"

lemma taken_simps [simp]:
  "taken live slot [] = []"
  "taken live slot (r # rs) = (if live r then slot r # taken live slot rs else taken live slot rs)"
  "taken live slot (rs @ rs') = taken live slot rs @ taken live slot rs'"
  by (simp_all add: taken_def)

lemma set_taken: "set (taken live slot rows) = {slot r |r. r \<in> set rows \<and> live r}"
  by (auto simp: taken_def)

lemma disjoint_filter: "disjoint_slots (taken live slot rows) \<Longrightarrow> disjoint_slots (taken live slot (filter p rows))"
proof (induction rows)
  case (Cons r rs)
  have "set (taken live slot (filter p rs)) \<subseteq> set (taken live slot rs)"
    by (auto simp: set_taken)
  then show ?case using Cons by (auto split: if_splits)
qed simp

text \<open>Rows that are updated in place: those that stay live keep their slot.\<close>

lemma disjoint_map_shrink:
  assumes "disjoint_slots (taken live slot rows)"
    and "\<And>r. r \<in> set rows \<Longrightarrow> live (g r) \<Longrightarrow> live r \<and> slot (g r) = slot r"
  shows "disjoint_slots (taken live slot (map g rows))"
  using assms
proof (induction rows)
  case Nil
  then show ?case by simp
next
  case (Cons r rs)
  have sub: "set (taken live slot (map g rs)) \<subseteq> set (taken live slot rs)"
    using Cons.prems(2) by (force simp: set_taken)
  then show ?case
    using Cons by (auto split: if_splits)
qed

lemma disjoint_map_move:
  assumes "disjoint_slots (taken live slot rows)" "keyed key rows"
    and "\<And>r. r \<in> set rows \<Longrightarrow> key r \<noteq> i \<Longrightarrow> live r \<Longrightarrow> \<not> clash s (slot r)"
    and "\<And>r. r \<in> set rows \<Longrightarrow> key r = i \<Longrightarrow> live (f r) \<Longrightarrow> slot (f r) = s"
  shows "disjoint_slots (taken live slot (update_row key i f rows))"
  using assms
proof (induction rows)
  case Nil
  then show ?case by (simp add: update_row_def)
next
  case (Cons r rs)
  have IH: "disjoint_slots (taken live slot (update_row key i f rs))"
    using Cons by (auto simp: keyed_def split: if_splits)
  have rest: "t = s \<or> t \<in> set (taken live slot rs)"
    if "t \<in> set (taken live slot (update_row key i f rs))" for t
    using that Cons.prems(4) by (auto simp: set_taken update_row_def split: if_splits)
  show ?case
  proof (cases "key r = i")
    case True
    then have "i \<notin> key ` set rs"
      using Cons.prems(2) by (simp add: keyed_def)
    then have other: "key x \<noteq> i" if "x \<in> set rs" for x
      using that by blast
    then have "update_row key i f rs = rs"
      by (simp add: update_row_def map_idI)
    moreover have "\<forall>t\<in>set (taken live slot rs). \<not> clash s t"
    proof
      fix t assume "t \<in> set (taken live slot rs)"
      then obtain x where "x \<in> set rs" "live x" "t = slot x"
        unfolding set_taken by blast
      then show "\<not> clash s t" using Cons.prems(3) [of x] other by simp
    qed
    ultimately show ?thesis
      using Cons.prems(4) [of r] IH True by (simp add: update_row_def)
  next
    case False
    have "\<not> clash (slot r) s" if "live r"
      using Cons.prems(3) [of r] False that clash_sym by simp
    then show ?thesis
      using IH rest Cons.prems(1) False by (auto simp: update_row_def split: if_splits)
  qed
qed

section \<open>The contract of a calendar\<close>

text \<open>
  \<open>free d s ex\<close> is the provider's conflict check for slot \<open>s\<close>, ignoring the row
  with key \<open>ex\<close>. The law: when it accepts, no live row, that one apart, takes a clashing
  slot. A client that asks before it writes keeps the calendar free of clashes.
\<close>

locale schedule =
  fixes rows :: "'d \<Rightarrow> 'r list"
    and live :: "'r \<Rightarrow> bool"
    and slot :: "'r \<Rightarrow> slot"
    and key :: "'r \<Rightarrow> string"
    and free :: "'d \<Rightarrow> slot \<Rightarrow> string option \<Rightarrow> unit result"
  assumes free_sound: "free d s ex = Inr u \<Longrightarrow> r \<in> set (rows d) \<Longrightarrow> live r \<Longrightarrow>
      ex \<noteq> Some (key r) \<Longrightarrow> \<not> clash s (slot r)"
begin

lemma book:
  assumes "disjoint_slots (taken live slot (rows d))"
    and "free d (slot r) None = Inr u"
  shows "disjoint_slots (taken live slot (rows d @ [r]))"
  using assms free_sound [OF assms(2)] clash_sym
  by (fastforce simp: disjoint_append set_taken)

lemma rebook:
  assumes "disjoint_slots (taken live slot (rows d))" "keyed key (rows d)"
    and "free d s (Some i) = Inr u"
    and "\<And>r. r \<in> set (rows d) \<Longrightarrow> key r = i \<Longrightarrow> live (f r) \<Longrightarrow> slot (f r) = s"
  shows "disjoint_slots (taken live slot (update_row key i f (rows d)))"
  using assms free_sound [OF assms(3)] by (intro disjoint_map_move [where s = s]) auto

lemma retire:
  assumes "disjoint_slots (taken live slot (rows d))"
    and "\<And>r. r \<in> set (rows d) \<Longrightarrow> key r = i \<Longrightarrow> live (f r) \<Longrightarrow> live r \<and> slot (f r) = slot r"
  shows "disjoint_slots (taken live slot (update_row key i f (rows d)))"
  unfolding update_row_def using assms by (intro disjoint_map_shrink) auto

lemma cancel:
  assumes "disjoint_slots (taken live slot (rows d))"
  shows "disjoint_slots (taken live slot (delete_row key i (rows d)))"
  using assms by (simp add: delete_row_def disjoint_filter)

end

end
