(* ===== verification/Fixtures.thy ===== *)
theory Fixtures
  imports Schedule
begin

text \<open>
  A small fleet that the concrete instances of the theorems run on: one company with a station, a
  class, two vehicles, a customer with documents, a partner key, and users of
  each kind. Times are milliseconds since the epoch; \<open>demo_now\<close> is 2024-01-01T00:00:00Z.
\<close>

definition demo_now :: time where
  "demo_now = 1704067200000"

abbreviation day_at :: "int \<Rightarrow> time" where
  "day_at n \<equiv> 1704067200000 + n * 86400000"

definition demo_env :: env where
  "demo_env x = None"

definition demo_ctx :: ctx where
  "demo_ctx = \<lparr>c_env = demo_env, c_now = demo_now, c_mailOn = True, c_ip = Some ''10.0.0.1'', c_userAgent = None\<rparr>"

definition demo_admin :: jwt_user where
  "demo_admin = \<lparr>u_sub = ''admin'', u_companyId = ''acme'', u_role = ADMIN, u_stationId = None\<rparr>"

definition demo_agent :: jwt_user where
  "demo_agent = \<lparr>u_sub = ''agent'', u_companyId = ''acme'', u_role = AGENT, u_stationId = Some ''rome''\<rparr>"

definition demo_manager :: jwt_user where
  "demo_manager = \<lparr>u_sub = ''boss'', u_companyId = ''acme'', u_role = BRANCH_MANAGER, u_stationId = None\<rparr>"

definition demo_stranger :: jwt_user where
  "demo_stranger = \<lparr>u_sub = ''other'', u_companyId = ''rival'', u_role = BRANCH_MANAGER, u_stationId = None\<rparr>"

definition demo_company :: company where
  "demo_company = \<lparr>co_id = ''acme'', co_name = ''Acme'', co_oneWayFeeCents = Some 1500,
     co_cargosInScope = True, co_cargosAdapter = ADAPTER_MOCK, co_cargosHttpUrl = None,
     co_cargosCutoffMinutesBeforePickup = None, co_sdiAdapter = SDI_HTTP,
     co_sdiHttpUrl = Some ''https://sdi.example'', co_fiscalCode = None, co_vatNumber = Some ''12345678903'',
     co_sdiRecipientCode = None, co_pec = None\<rparr>"

definition demo_station :: station where
  "demo_station = \<lparr>st_id = ''rome'', st_companyId = ''acme'', st_name = ''Roma'', st_code = ''ROM'',
     st_city = ''Roma'', st_cargosLocationCode = None\<rparr>"

definition demo_station2 :: station where
  "demo_station2 = \<lparr>st_id = ''milan'', st_companyId = ''acme'', st_name = ''Milano'', st_code = ''MIL'',
     st_city = ''Milano'', st_cargosLocationCode = None\<rparr>"

definition demo_class :: vehicle_class where
  "demo_class = \<lparr>vc_id = ''eco'', vc_companyId = ''acme'', vc_name = ''Economy'', vc_code = ''ECO'',
     vc_defaultDailyCents = Some 3000, vc_defaultDepositCents = Some 20000,
     vc_seasonalRates = []\<rparr>"

definition demo_vehicle :: vehicle where
  "demo_vehicle = \<lparr>v_id = ''v1'', v_companyId = ''acme'', v_vehicleClassId = ''eco'', v_homeStationId = ''rome'',
     v_vin = None, v_licensePlate = ''AB123CD'', v_vehicleType = CAR, v_status = AVAILABLE, v_odometerKm = 100,
     v_acquiredAt = None, v_nextServiceDueOdometerKm = None, v_autoServiceBlockHours = None,
     v_serviceDueAutoBlockedForKm = None, v_fuelType = None, v_modelLabel = None, v_coverImageUrl = None,
     v_rentPricingMode = USE_CLASS, v_rentOverrideDailyCents = None, v_flatTripRentCents = None\<rparr>"

definition demo_vehicle2 :: vehicle where
  "demo_vehicle2 = demo_vehicle\<lparr>v_id := ''v2'', v_licensePlate := ''EF456GH''\<rparr>"

definition demo_customer :: customer where
  "demo_customer = \<lparr>cu_id = ''c1'', cu_companyId = ''acme'', cu_name = ''Mario Rossi'',
     cu_email = ''mario@rossi.it'', cu_phone = ''+39061'', cu_privacyNoticeVersion = None,
     cu_privacyNoticeAcceptedAt = None, cu_marketingEmailOptIn = False, cu_marketingOptInAt = None,
     cu_anonymizedAt = None, cu_notes = None, cu_fiscalCode = None, cu_vatNumber = None,
     cu_sdiRecipientCode = None, cu_pec = None\<rparr>"

definition demo_document :: "string \<Rightarrow> document_type \<Rightarrow> customer_document" where
  "demo_document i t = \<lparr>cd_id = i, cd_companyId = ''acme'', cd_customerId = ''c1'', cd_docType = t,
     cd_storage = S3, cd_uploadCompletedAt = Some demo_now, cd_retentionUntil = None, cd_verifiedAt = None, cd_verifiedByUserId = None,
     cd_originalName = ''id.jpg'', cd_mimeType = ''image/jpeg'', cd_sizeBytes = 1000, cd_storageKey = ''acme/'' @ i,
     cd_uploadedByUserId = None, cd_ocrStatus = OCR_NONE, cd_ocrSuggestion = None, cd_ocrCompletedAt = None,
     cd_ocrVendor = None, cd_ocrError = None, cd_ocrAppliedAt = None, cd_ocrAppliedByUserId = None,
     cd_createdAt = demo_now\<rparr>"

definition demo_key :: partner_api_key where
  "demo_key = \<lparr>pk_id = ''key1'', pk_companyId = ''acme'', pk_revokedAt = None,
     pk_webhookUrl = None, pk_webhookSigningSecret = None,
     pk_allowedIpCidrs = None, pk_name = ''Fleet portal'', pk_keyHash = ''hash'', pk_lastUsedAt = None,
     pk_createdByUserId = None, pk_createdAt = demo_now, pk_oauthClientSecretHash = None\<rparr>"

definition demo_reservation :: reservation where
  "demo_reservation = \<lparr>r_id = ''r1'', r_companyId = ''acme'', r_vehicleId = ''v1'',
     r_pickupStationId = ''rome'', r_returnStationId = ''rome'', r_pickupAt = day_at 2, r_returnAt = day_at 4,
     r_status = CONFIRMED, r_source = STAFF, r_createdByPartnerApiKeyId = None, r_customerId = Some ''c1'',
     r_customerName = ''Mario Rossi'', r_customerEmail = ''mario@rossi.it'', r_customerPhone = ''+39061'',
     r_totalCents = Some 10000, r_currency = ''EUR'', r_stripeCheckoutSessionId = None, r_paidAt = None,
     r_stripeDepositCheckoutSessionId = None, r_stripeDepositPaymentIntentId = None,
     r_depositHoldCents = None, r_depositHoldStatus = DEP_NONE, r_notes = None, r_publicViewToken = None,
     r_publicViewTokenAt = None, r_rentPaymentReminderSentAt = None, r_odometerOutKm = None,
     r_odometerInKm = None, r_cargosHandoverOverrideAt = None, r_cargosHandoverOverrideById = None,
     r_cargosHandoverOverrideReason = None, r_createdAt = demo_now, r_updatedAt = demo_now,
     r_extraLines = [], r_fuelOutPercent = None, r_fuelInPercent = None, r_handoverChecklist = None,
     r_returnChecklist = None, r_handoverOpsNotes = None, r_returnOpsNotes = None\<rparr>"

definition demo_db :: db where
  "demo_db = empty_db\<lparr>d_companies := [demo_company], d_stations := [demo_station, demo_station2],
     d_classes := [demo_class], d_vehicles := [demo_vehicle, demo_vehicle2],
     d_customers := [demo_customer],
     d_documents := [demo_document ''d1'' ID_CARD, demo_document ''d2'' DRIVING_LICENSE],
     d_reservations := [demo_reservation], d_keys := [demo_key]\<rparr>"

end
