(* ===== verification/Fleet_Blocks.thy ===== *)
theory Fleet_Blocks
  imports Fixtures
begin

text \<open>
  \<open>apps/api/src/fleet/calendar-block/calendar-block.service.ts\<close>: maintenance and buffer
  windows of a vehicle. A block is always read together with its vehicle, whose company and home
  station decide who sees it. The calendar of blocks interprets the schedule contract and the
  guarded lookup the tenancy contract.
\<close>

record create_block_input =
  cbi_vehicleId :: string
  cbi_startsAt :: time
  cbi_endsAt :: time
  cbi_type :: "block_type option"
  cbi_reason :: "string option"

text \<open>Absent fields are \<open>None\<close>; \<open>Some None\<close> is a reason of \<open>null\<close>.\<close>

record update_block_input =
  ubi_startsAt :: "time option"
  ubi_endsAt :: "time option"
  ubi_type :: "block_type option"
  ubi_reason :: "string option option"

section \<open>Operations\<close>

definition blockTimeOrder :: "time \<Rightarrow> time \<Rightarrow> unit result" where
  "blockTimeOrder startsAt endsAt =
     ensure (\<not> startsAt \<ge> endsAt) (BadRequest ''endsAt must be after startsAt'')"

fun no_block_overlap :: "calendar_block list \<Rightarrow> time \<Rightarrow> time \<Rightarrow> string option \<Rightarrow> unit result" where
  "no_block_overlap [] startsAt endsAt excludeId = Inr ()"
| "no_block_overlap (b # bs) startsAt endsAt excludeId =
     (if truthy excludeId \<and> excludeId = Some (cb_id b) then no_block_overlap bs startsAt endsAt excludeId
      else if halfOpenRangesOverlap startsAt endsAt (cb_startsAt b) (cb_endsAt b)
      then Inl (Conflict ''Calendar block overlaps an existing block for this vehicle'')
      else no_block_overlap bs startsAt endsAt excludeId)"

definition assertNoBlockOverlap ::
  "db \<Rightarrow> string \<Rightarrow> time \<Rightarrow> time \<Rightarrow> string option \<Rightarrow> unit result" where
  "assertNoBlockOverlap d vehicleId startsAt endsAt excludeId =
     no_block_overlap (filter (\<lambda>b. cb_vehicleId b = vehicleId) (d_blocks d)) startsAt endsAt excludeId"

text \<open>A block together with its vehicle (the foreign key guarantees there is one).\<close>

definition find_block_vehicle :: "db \<Rightarrow> string \<Rightarrow> (calendar_block \<times> vehicle) option" where
  "find_block_vehicle d i =
     (case find_block d i of
        None \<Rightarrow> None
      | Some b \<Rightarrow> map_option (\<lambda>v. (b, v)) (find_vehicle d (cb_vehicleId b)))"

definition block_row :: "db \<Rightarrow> env \<Rightarrow> jwt_user \<Rightarrow> string \<Rightarrow> (calendar_block \<times> vehicle) result" where
  "block_row d env user i =
     (let msg = ''Calendar block not found: '' @ i
      in andThen (orElse (find_block_vehicle d i) (NotFound msg)) (\<lambda>row.
           andThen (assertSameCompany env user (v_companyId (snd row)) msg) (\<lambda>_.
           andThen (assertAgentVehicleHomeBranch user (v_homeStationId (snd row)) msg) (\<lambda>_.
           Inr row))))"

definition block_getOne :: "db \<Rightarrow> env \<Rightarrow> jwt_user \<Rightarrow> string \<Rightarrow> calendar_block result" where
  "block_getOne d env user i = andThen (block_row d env user i) (\<lambda>row. Inr (fst row))"

text \<open>The vehicle of a request, with the checks that hide it from other tenants and branches.\<close>

definition block_vehicle :: "db \<Rightarrow> env \<Rightarrow> jwt_user \<Rightarrow> string \<Rightarrow> vehicle result" where
  "block_vehicle d env user vehicleId =
     (let msg = ''Vehicle not found: '' @ vehicleId
      in andThen (orElse (find_vehicle d vehicleId) (NotFound msg)) (\<lambda>v.
           andThen (assertSameCompany env user (v_companyId v) msg) (\<lambda>_.
           andThen (assertAgentVehicleHomeBranch user (v_homeStationId v) msg) (\<lambda>_.
           Inr v))))"

definition block_list ::
  "db \<Rightarrow> env \<Rightarrow> jwt_user \<Rightarrow> string option \<Rightarrow> string option \<Rightarrow> calendar_block list result" where
  "block_list d env user vehicleId companyId =
     (if truthy vehicleId then
        andThen (block_vehicle d env user (the vehicleId)) (\<lambda>_.
          Inr (sort_key cb_startsAt (filter (\<lambda>b. Some (cb_vehicleId b) = vehicleId) (d_blocks d))))
      else
        let q = map_option trim companyId;
            rows = (\<lambda>company. Inr (sort_key cb_startsAt
                     (filter (\<lambda>b. case find_vehicle d (cb_vehicleId b) of
                                    None \<Rightarrow> False
                                  | Some v \<Rightarrow> v_companyId v = company \<and>
                                      (isAgentStationScoped user \<longrightarrow> Some (v_homeStationId v) = u_stationId user))
                             (d_blocks d))))
        in if isAdminCrossCompany env user then (if truthy q then rows (the q) else Inr [])
           else if truthy q \<and> q \<noteq> Some (u_companyId user)
           then Inl (Forbidden ''Not allowed to access this company'')
           else rows (u_companyId user))"

definition new_block :: "string \<Rightarrow> create_block_input \<Rightarrow> calendar_block" where
  "new_block newId inp =
     \<lparr>cb_id = newId, cb_vehicleId = cbi_vehicleId inp, cb_startsAt = cbi_startsAt inp,
      cb_endsAt = cbi_endsAt inp,
      cb_type = (case cbi_type inp of None \<Rightarrow> BLOCK_MAINTENANCE | Some t \<Rightarrow> t),
      cb_reason = cbi_reason inp\<rparr>"

definition block_create :: "env \<Rightarrow> jwt_user \<Rightarrow> string \<Rightarrow> create_block_input \<Rightarrow> calendar_block dbprog" where
  "block_create env user newId inp =
     andDo (asks (\<lambda>_. blockTimeOrder (cbi_startsAt inp) (cbi_endsAt inp)))
     (bnd (asks (\<lambda>d. block_vehicle d env user (cbi_vehicleId inp))) (\<lambda>v.
      andDo (asks (\<lambda>d. assertNoBlockOverlap d (v_id v) (cbi_startsAt inp) (cbi_endsAt inp) None))
     (andDo (asks (\<lambda>d. ensure (find_block d newId = None) (Prisma ''P2002'')))
     (andDo (modify (d_blocks_update (\<lambda>bs. bs @ [new_block newId inp])))
     (ret (new_block newId inp))))))"

definition block_patch :: "update_block_input \<Rightarrow> calendar_block \<Rightarrow> calendar_block" where
  "block_patch inp b =
     b\<lparr>cb_startsAt := (case ubi_startsAt inp of None \<Rightarrow> cb_startsAt b | Some t \<Rightarrow> t),
       cb_endsAt := (case ubi_endsAt inp of None \<Rightarrow> cb_endsAt b | Some t \<Rightarrow> t),
       cb_type := (case ubi_type inp of None \<Rightarrow> cb_type b | Some t \<Rightarrow> t),
       cb_reason := (case ubi_reason inp of None \<Rightarrow> cb_reason b | Some t \<Rightarrow> t)\<rparr>"

definition block_patch_empty :: "update_block_input \<Rightarrow> bool" where
  "block_patch_empty inp \<longleftrightarrow>
     ubi_startsAt inp = None \<and> ubi_endsAt inp = None \<and> ubi_type inp = None \<and> ubi_reason inp = None"

definition block_update ::
  "env \<Rightarrow> jwt_user \<Rightarrow> string \<Rightarrow> update_block_input \<Rightarrow> calendar_block dbprog" where
  "block_update env user i inp =
     bnd (asks (\<lambda>d. block_getOne d env user i)) (\<lambda>current.
       let startsAt = cb_startsAt (block_patch inp current);
           endsAt = cb_endsAt (block_patch inp current)
       in andDo (asks (\<lambda>_. blockTimeOrder startsAt endsAt))
         (andDo (asks (\<lambda>d. assertNoBlockOverlap d (cb_vehicleId current) startsAt endsAt (Some i)))
         (if block_patch_empty inp then asks (\<lambda>d. block_getOne d env user i)
          else andDo (modify (d_blocks_update (update_row cb_id i (block_patch inp))))
                 (ret (block_patch inp current)))))"

definition block_remove :: "env \<Rightarrow> jwt_user \<Rightarrow> string \<Rightarrow> unit dbprog" where
  "block_remove env user i =
     andDo (asks (\<lambda>d. block_getOne d env user i))
     (andDo (asks (\<lambda>d. ensure (find_block d i \<noteq> None) (NotFound (''Calendar block not found: '' @ i))))
     (modify (d_blocks_update (delete_row cb_id i))))"

section \<open>Tenancy\<close>

lemma block_row_Inr:
  "block_row d env user i = Inr (b, v) \<longleftrightarrow>
     find_block_vehicle d i = Some (b, v) \<and> may_see_company env user (v_companyId v) \<and>
     branch_ok user (v_homeStationId v)"
  by (auto simp: block_row_def Let_def andThen_Inr)

lemma block_getOne_find: "block_getOne d env user i = Inr b \<Longrightarrow> find_block d i = Some b"
  by (auto simp: block_getOne_def andThen_Inr block_row_Inr find_block_vehicle_def split: option.splits)

interpretation block_rows: guarded_rows block_row find_block_vehicle
  "\<lambda>row. v_companyId (snd row)" "\<lambda>row st. v_homeStationId (snd row) = st"
proof unfold_locales
  fix d env user i row
  assume a: "block_row d env user i = Inr row"
  then show "find_block_vehicle d i = Some row"
    by (cases row) (simp add: block_row_Inr)
  from a show "may_see_company env user (v_companyId (snd row))"
    by (cases row) (simp add: block_row_Inr)
  assume "isAgentStationScoped user"
  with a show "\<exists>st. u_stationId user = Some st \<and> v_homeStationId (snd row) = st"
    by (cases row) (auto simp: block_row_Inr branch_ok_def)
next
  fix d env user i e
  assume "block_row d env user i = Inl e"
  then show "\<exists>m. e = NotFound m"
    by (auto simp: block_row_def Let_def andThen_Inl assertSameCompany_def
        assertAgentVehicleHomeBranch_def split: if_splits)
qed

text \<open>
  A list of blocks asked for without a vehicle shows a user only blocks of vehicles of the
  companies the user may see, and a counter agent only those of vehicles based at the agent's station.
\<close>

theorem block_list_scoped:
  assumes "block_list d env user None company = Inr bs" "b \<in> set bs"
  shows "\<exists>v. find_vehicle d (cb_vehicleId b) = Some v \<and> may_see_company env user (v_companyId v) \<and>
             branch_ok user (v_homeStationId v)"
  using assms
  by (auto simp: block_list_def Let_def may_see_company_def branch_ok_def
      split: if_splits option.splits)

definition demo_blocks :: db where
  "demo_blocks = demo_db\<lparr>d_blocks :=
     [\<lparr>cb_id = ''b1'', cb_vehicleId = ''v1'', cb_startsAt = day_at 6, cb_endsAt = day_at 7,
       cb_type = BLOCK_MAINTENANCE, cb_reason = None\<rparr>]\<rparr>"

theorem block_list_scoped_witness:
  "\<exists>b v. block_list demo_blocks demo_env demo_agent None None = Inr [b] \<and>
     find_vehicle demo_blocks (cb_vehicleId b) = Some v \<and> branch_ok demo_agent (v_homeStationId v)"
proof -
  let ?b = "hd (d_blocks demo_blocks)"
  have "block_list demo_blocks demo_env demo_agent None None = Inr [?b]" by code_simp
  then show ?thesis
    using block_list_scoped [of demo_blocks demo_env demo_agent None "[?b]" ?b] by auto
qed

section \<open>Blocks of a vehicle never overlap\<close>

definition block_slot :: "calendar_block \<Rightarrow> slot" where
  "block_slot b = (cb_vehicleId b, cb_startsAt b, cb_endsAt b)"

definition blocks_disjoint :: "db \<Rightarrow> bool" where
  "blocks_disjoint d \<longleftrightarrow> disjoint_slots (taken (\<lambda>_. True) block_slot (d_blocks d))"

definition blocks_ok :: "db \<Rightarrow> bool" where
  "blocks_ok d \<longleftrightarrow> keyed cb_id (d_blocks d) \<and> blocks_disjoint d \<and>
     list_all (\<lambda>b. cb_startsAt b < cb_endsAt b) (d_blocks d)"

lemma no_block_overlap_Inr:
  "no_block_overlap bs a b ex = Inr u \<longleftrightarrow>
     (\<forall>x\<in>set bs. truthy ex \<and> ex = Some (cb_id x) \<or> \<not> halfOpenRangesOverlap a b (cb_startsAt x) (cb_endsAt x))"
  by (induction bs) auto

definition block_free :: "db \<Rightarrow> slot \<Rightarrow> string option \<Rightarrow> unit result" where
  "block_free d s ex = (case s of (v, a, b) \<Rightarrow> assertNoBlockOverlap d v a b ex)"

interpretation block_calendar: schedule d_blocks "\<lambda>_. True" block_slot cb_id block_free
proof unfold_locales
  fix d s ex u b
  assume "block_free d s ex = Inr u" "b \<in> set (d_blocks d)" "ex \<noteq> Some (cb_id b)"
  then show "\<not> clash s (block_slot b)"
    by (cases s) (auto simp: block_free_def assertNoBlockOverlap_def no_block_overlap_Inr block_slot_def)
qed

lemma block_vehicle_Inr:
  "block_vehicle d env user i = Inr v \<longleftrightarrow>
     find_vehicle d i = Some v \<and> may_see_company env user (v_companyId v) \<and> branch_ok user (v_homeStationId v)"
  by (auto simp: block_vehicle_def Let_def andThen_Inr)

lemma block_create_keeps:
  assumes "blocks_ok d" shows "keeps blocks_ok (block_create env user newId inp) d"
proof -
  have "blocks_ok (d_blocks_update (\<lambda>bs. bs @ [new_block newId inp]) d)"
    if "blockTimeOrder (cbi_startsAt inp) (cbi_endsAt inp) = Inr ()" "find_vehicle d (cbi_vehicleId inp) = Some v"
      "assertNoBlockOverlap d (v_id v) (cbi_startsAt inp) (cbi_endsAt inp) None = Inr ()"
      "find_block d newId = None" for v
  proof -
    have s: "block_slot (new_block newId inp) = (v_id v, cbi_startsAt inp, cbi_endsAt inp)"
      using find_vehicle_id [OF that(2)] by (simp add: block_slot_def new_block_def)
    have "disjoint_slots (taken (\<lambda>_. True) block_slot (d_blocks d @ [new_block newId inp]))"
      using assms that(3) by (intro block_calendar.book) (auto simp: blocks_ok_def blocks_disjoint_def s block_free_def)
    moreover have "keyed cb_id (d_blocks d @ [new_block newId inp])"
      using assms that(4) blocks.keyed_insert [of d "new_block newId inp"]
      by (simp add: blocks_ok_def find_block_def new_block_def)
    ultimately show ?thesis
      using assms that(1) by (simp add: blocks_ok_def blocks_disjoint_def blockTimeOrder_def new_block_def)
  qed
  then show ?thesis
    using assms by (auto simp: keeps_def block_create_def wp block_vehicle_Inr)
qed

lemma block_update_keeps:
  assumes "blocks_ok d" shows "keeps blocks_ok (block_update env user i inp) d"
proof -
  have "blocks_ok (d_blocks_update (update_row cb_id i (block_patch inp)) d)"
    if one: "find_block d i = Some b"
      and ord: "blockTimeOrder (cb_startsAt (block_patch inp b)) (cb_endsAt (block_patch inp b)) = Inr ()"
      and free: "assertNoBlockOverlap d (cb_vehicleId b) (cb_startsAt (block_patch inp b))
        (cb_endsAt (block_patch inp b)) (Some i) = Inr ()" for b
  proof -
    have only: "c = b" if "c \<in> set (d_blocks d)" "cb_id c = i" for c
      using blocks.find_keyed [of d c i] one assms that by (simp add: blocks_ok_def find_block_def)
    have s: "block_free d (block_slot (block_patch inp b)) (Some i) = Inr ()"
      using free by (simp add: block_free_def block_slot_def block_patch_def)
    have "disjoint_slots (taken (\<lambda>_. True) block_slot (update_row cb_id i (block_patch inp) (d_blocks d)))"
      using assms only by (intro block_calendar.rebook [OF _ _ s]) (auto simp: blocks_ok_def blocks_disjoint_def)
    moreover have "keyed cb_id (update_row cb_id i (block_patch inp) (d_blocks d))"
      using assms blocks.keyed_update [of d "block_patch inp" i] by (simp add: blocks_ok_def block_patch_def)
    moreover have "list_all (\<lambda>c. cb_startsAt c < cb_endsAt c) (update_row cb_id i (block_patch inp) (d_blocks d))"
      using assms only ord by (auto simp: list_all_iff update_row_def blocks_ok_def blockTimeOrder_def)
    ultimately show ?thesis
      by (simp add: blocks_ok_def blocks_disjoint_def)
  qed
  then show ?thesis
    using assms by (auto simp: keeps_def block_update_def wp Let_def dest: block_getOne_find)
qed

lemma block_remove_keeps:
  assumes "blocks_ok d" shows "keeps blocks_ok (block_remove env user i) d"
proof -
  have "blocks_ok (d_blocks_update (delete_row cb_id i) d)"
    using assms block_calendar.cancel [of d i] blocks.keyed_delete [of d i]
    by (auto simp: blocks_ok_def blocks_disjoint_def list_all_iff delete_row_def)
  then show ?thesis
    using assms by (simp add: keeps_def block_remove_def wp)
qed

text \<open>Every request on the blocks, as one program.\<close>

datatype block_request =
    CreateBlock string create_block_input
  | UpdateBlock string update_block_input
  | RemoveBlock string

fun block_handle :: "env \<Rightarrow> jwt_user \<Rightarrow> block_request \<Rightarrow> unit dbprog" where
  "block_handle env user (CreateBlock newId inp) = andDo (block_create env user newId inp) (ret ())"
| "block_handle env user (UpdateBlock i inp) = andDo (block_update env user i inp) (ret ())"
| "block_handle env user (RemoveBlock i) = block_remove env user i"

fun block_run :: "env \<Rightarrow> (jwt_user \<times> block_request) list \<Rightarrow> db \<Rightarrow> db" where
  "block_run env [] d = d"
| "block_run env ((user, req) # reqs) d = block_run env reqs (snd (block_handle env user req d))"

lemma block_handle_keeps: "blocks_ok d \<Longrightarrow> blocks_ok (snd (block_handle env user req d))"
  using keeps_andDo_ret [OF block_create_keeps] keeps_andDo_ret [OF block_update_keeps] block_remove_keeps
  by (cases req) (simp_all add: keeps_run)

text \<open>
  C36: Whatever sequence of requests to create, change or remove a block users of any company send to the block
  service, accepted or refused, the calendar blocks of one vehicle do not come to overlap, every block ends after
  it starts, and identifiers stay unique. (The job that blocks vehicles due for service writes past this service.)
\<close>

theorem blocks_never_overlap:
  assumes "blocks_ok d"
  shows "blocks_ok (block_run env reqs d)"
  using assms by (induction env reqs d rule: block_run.induct) (auto simp: block_handle_keeps)

definition demo_block_requests :: "(jwt_user \<times> block_request) list" where
  "demo_block_requests =
     [(demo_agent, CreateBlock ''b2'' \<lparr>cbi_vehicleId = ''v1'', cbi_startsAt = day_at 8, cbi_endsAt = day_at 9,
        cbi_type = None, cbi_reason = None\<rparr>),
      (demo_admin, CreateBlock ''b3'' \<lparr>cbi_vehicleId = ''v1'', cbi_startsAt = day_at 6, cbi_endsAt = day_at 9,
        cbi_type = None, cbi_reason = None\<rparr>),
      (demo_admin, UpdateBlock ''b1'' \<lparr>ubi_startsAt = None, ubi_endsAt = Some (day_at 8), ubi_type = None,
        ubi_reason = None\<rparr>)]"

theorem blocks_never_overlap_witness:
  "blocks_ok (block_run demo_env demo_block_requests demo_blocks) \<and>
   map block_slot (d_blocks (block_run demo_env demo_block_requests demo_blocks)) =
     [(''v1'', day_at 6, day_at 8), (''v1'', day_at 8, day_at 9)]"
proof
  have "blocks_ok demo_blocks" by code_simp
  then show "blocks_ok (block_run demo_env demo_block_requests demo_blocks)"
    by (rule blocks_never_overlap)
  show "map block_slot (d_blocks (block_run demo_env demo_block_requests demo_blocks)) =
     [(''v1'', day_at 6, day_at 8), (''v1'', day_at 8, day_at 9)]"
    by code_simp
qed

end
