(* ===== verification/Fleet_Vehicles.thy ===== *)
theory Fleet_Vehicles
  imports Fixtures
begin

text \<open>
  \<open>apps/api/src/fleet/vehicle/vehicle.service.ts\<close> and
  \<open>apps/api/src/fleet/vehicle-class/vehicle-class.service.ts\<close>: the fleet master data.
  The invariant is that the pricing columns of a vehicle agree with its pricing mode and that its
  class and home station belong to its company.
\<close>

section \<open>Vehicles\<close>

text \<open>Inputs: an absent field is \<open>None\<close>; a field that may be \<open>null\<close> is nested.\<close>

record create_vehicle_input =
  cvi_companyId :: string
  cvi_vehicleClassId :: string
  cvi_homeStationId :: string
  cvi_licensePlate :: string
  cvi_vehicleType :: vehicle_type
  cvi_vin :: "string option"
  cvi_status :: "vehicle_status option"
  cvi_odometerKm :: "int option"
  cvi_acquiredAt :: "time option"
  cvi_nextServiceDueOdometerKm :: "int option"
  cvi_autoServiceBlockHours :: "int option"
  cvi_fuelType :: "string option"
  cvi_modelLabel :: "string option"
  cvi_coverImageUrl :: "string option"
  cvi_rentPricingMode :: "rent_pricing_mode option"
  cvi_rentOverrideDailyCents :: "int option"
  cvi_flatTripRentCents :: "int option"

record update_vehicle_input =
  uvi_vehicleClassId :: "string option"
  uvi_homeStationId :: "string option"
  uvi_licensePlate :: "string option"
  uvi_vehicleType :: "vehicle_type option"
  uvi_vin :: "string option option"
  uvi_status :: "vehicle_status option"
  uvi_odometerKm :: "int option"
  uvi_acquiredAt :: "time option option"
  uvi_nextServiceDueOdometerKm :: "int option option"
  uvi_autoServiceBlockHours :: "int option option"
  uvi_fuelType :: "string option option"
  uvi_modelLabel :: "string option option"
  uvi_coverImageUrl :: "string option option"
  uvi_rentPricingMode :: "rent_pricing_mode option"
  uvi_rentOverrideDailyCents :: "int option option"
  uvi_flatTripRentCents :: "int option option"

definition negative_or_null :: "int option \<Rightarrow> bool" where
  "negative_or_null x = (case x of None \<Rightarrow> True | Some n \<Rightarrow> n < 0)"

definition assertMergedPricing :: "rent_pricing_mode \<Rightarrow> int option \<Rightarrow> int option \<Rightarrow> unit result" where
  "assertMergedPricing mode ovr flat =
     (case mode of
        USE_CLASS \<Rightarrow>
          ensure (\<not> (ovr \<noteq> None \<or> flat \<noteq> None))
            (BadRequest ''Per-vehicle rent amounts apply only to FIXED_DAILY or FLAT_TRIP; use class pricing or clear amounts'')
      | FIXED_DAILY \<Rightarrow>
          if negative_or_null ovr
          then Inl (BadRequest ''FIXED_DAILY requires rentOverrideDailyCents (>= 0 cents per 24h day)'')
          else ensure (flat = None) (BadRequest ''FIXED_DAILY cannot set flatTripRentCents'')
      | FLAT_TRIP \<Rightarrow>
          if negative_or_null flat
          then Inl (BadRequest ''FLAT_TRIP requires flatTripRentCents (>= 0 cents for the trip)'')
          else ensure (ovr = None) (BadRequest ''FLAT_TRIP cannot set rentOverrideDailyCents''))"

definition assertCompanyCoherence :: "db \<Rightarrow> string \<Rightarrow> string \<Rightarrow> string \<Rightarrow> unit result" where
  "assertCompanyCoherence d companyId classId stationId =
     andThen (orElse (find_class d classId) (NotFound (''Vehicle class not found: '' @ classId))) (\<lambda>vClass.
     andThen (orElse (find_station d stationId) (NotFound (''Station not found: '' @ stationId))) (\<lambda>station.
     andThen (ensure (vc_companyId vClass = companyId)
       (BadRequest ''Vehicle class does not belong to the same company as the vehicle'')) (\<lambda>_.
     ensure (st_companyId station = companyId)
       (BadRequest ''Home station does not belong to the same company as the vehicle''))))"

definition vehicle_list ::
  "db \<Rightarrow> env \<Rightarrow> jwt_user \<Rightarrow> string option \<Rightarrow> string option \<Rightarrow> string option \<Rightarrow> vehicle list result" where
  "vehicle_list d env user companyId homeStationId vehicleClassId =
     andThen (effectiveListCompanyFilter env user companyId) (\<lambda>c.
     andThen (ensure (\<not> (isAgentStationScoped user \<and> truthy homeStationId \<and> homeStationId \<noteq> u_stationId user))
       (Forbidden ''List vehicles only for your assigned station'')) (\<lambda>_.
     let home = (if isAgentStationScoped user then u_stationId user else homeStationId)
     in Inr (sort_key (\<lambda>v. (v_homeStationId v, v_licensePlate v))
          (filter (\<lambda>v. (case c of None \<Rightarrow> True | Some co \<Rightarrow> v_companyId v = co) \<and>
                       (truthy home \<longrightarrow> Some (v_homeStationId v) = home) \<and>
                       (truthy vehicleClassId \<longrightarrow> Some (v_vehicleClassId v) = vehicleClassId))
             (d_vehicles d)))))"

definition vehicle_getOne :: "db \<Rightarrow> env \<Rightarrow> jwt_user \<Rightarrow> string \<Rightarrow> vehicle result" where
  "vehicle_getOne d env user i =
     (let msg = ''Vehicle not found: '' @ i
      in andThen (orElse (find_vehicle d i) (NotFound msg)) (\<lambda>row.
           andThen (assertSameCompany env user (v_companyId row) msg) (\<lambda>_.
           andThen (assertAgentVehicleHomeBranch user (v_homeStationId row) msg) (\<lambda>_.
           Inr row))))"

text \<open>The unique index on company and licence plate, checked by the database on a write.\<close>

definition plate_free :: "db \<Rightarrow> string \<Rightarrow> vehicle \<Rightarrow> bool" where
  "plate_free d i v \<longleftrightarrow>
     list_all (\<lambda>w. v_id w = i \<or> v_companyId w \<noteq> v_companyId v \<or> v_licensePlate w \<noteq> v_licensePlate v) (d_vehicles d)"

definition new_vehicle :: "string \<Rightarrow> create_vehicle_input \<Rightarrow> rent_pricing_mode \<Rightarrow> int option \<Rightarrow> int option \<Rightarrow> vehicle" where
  "new_vehicle newId inp mode ovr flat =
     \<lparr>v_id = newId, v_companyId = cvi_companyId inp, v_vehicleClassId = cvi_vehicleClassId inp,
      v_homeStationId = cvi_homeStationId inp, v_vin = cvi_vin inp,
      v_licensePlate = toUpperCase (cvi_licensePlate inp), v_vehicleType = cvi_vehicleType inp,
      v_status = (case cvi_status inp of None \<Rightarrow> AVAILABLE | Some s \<Rightarrow> s),
      v_odometerKm = (case cvi_odometerKm inp of None \<Rightarrow> 0 | Some k \<Rightarrow> k),
      v_acquiredAt = cvi_acquiredAt inp, v_nextServiceDueOdometerKm = cvi_nextServiceDueOdometerKm inp,
      v_autoServiceBlockHours = cvi_autoServiceBlockHours inp, v_serviceDueAutoBlockedForKm = None,
      v_fuelType = cvi_fuelType inp, v_modelLabel = cvi_modelLabel inp,
      v_coverImageUrl = (case cvi_coverImageUrl inp of None \<Rightarrow> None
                         | Some u \<Rightarrow> if trim u = [] then None else Some (trim u)),
      v_rentPricingMode = mode, v_rentOverrideDailyCents = ovr, v_flatTripRentCents = flat\<rparr>"

definition vehicle_create :: "env \<Rightarrow> jwt_user \<Rightarrow> string \<Rightarrow> create_vehicle_input \<Rightarrow> vehicle dbprog" where
  "vehicle_create env user newId inp =
     andDo (asks (\<lambda>_. assertCreateBodyCompanyId env user (cvi_companyId inp)))
     (andDo (asks (\<lambda>_. assertAgentVehicleHomeBranch user (cvi_homeStationId inp)
         (''Station not found: '' @ cvi_homeStationId inp)))
     (andDo (asks (\<lambda>d. assertCompanyCoherence d (cvi_companyId inp) (cvi_vehicleClassId inp) (cvi_homeStationId inp)))
     (let mode = (case cvi_rentPricingMode inp of None \<Rightarrow> USE_CLASS | Some m \<Rightarrow> m);
          ovr = (if mode = FIXED_DAILY then cvi_rentOverrideDailyCents inp else None);
          flat = (if mode = FLAT_TRIP then cvi_flatTripRentCents inp else None);
          row = new_vehicle newId inp mode ovr flat
      in andDo (asks (\<lambda>_. assertMergedPricing mode ovr flat))
        (andDo (asks (\<lambda>d. ensure (find_vehicle d newId = None \<and> plate_free d newId row)
            (Conflict ''License plate must be unique within the company'')))
        (andDo (modify (d_vehicles_update (\<lambda>vs. vs @ [row]))) (ret row))))))"

text \<open>The columns other than pricing that an update writes.\<close>

definition vehicle_patch :: "update_vehicle_input \<Rightarrow> vehicle \<Rightarrow> vehicle" where
  "vehicle_patch inp v =
     v\<lparr>v_vehicleClassId := (case uvi_vehicleClassId inp of None \<Rightarrow> v_vehicleClassId v | Some x \<Rightarrow> x),
       v_homeStationId := (case uvi_homeStationId inp of None \<Rightarrow> v_homeStationId v | Some x \<Rightarrow> x),
       v_licensePlate := (case uvi_licensePlate inp of None \<Rightarrow> v_licensePlate v | Some x \<Rightarrow> toUpperCase x),
       v_vehicleType := (case uvi_vehicleType inp of None \<Rightarrow> v_vehicleType v | Some x \<Rightarrow> x),
       v_vin := (case uvi_vin inp of None \<Rightarrow> v_vin v | Some x \<Rightarrow> x),
       v_status := (case uvi_status inp of None \<Rightarrow> v_status v | Some x \<Rightarrow> x),
       v_odometerKm := (case uvi_odometerKm inp of None \<Rightarrow> v_odometerKm v | Some x \<Rightarrow> x),
       v_acquiredAt := (case uvi_acquiredAt inp of None \<Rightarrow> v_acquiredAt v | Some x \<Rightarrow> x),
       v_nextServiceDueOdometerKm :=
         (case uvi_nextServiceDueOdometerKm inp of None \<Rightarrow> v_nextServiceDueOdometerKm v | Some x \<Rightarrow> x),
       v_autoServiceBlockHours :=
         (case uvi_autoServiceBlockHours inp of None \<Rightarrow> v_autoServiceBlockHours v | Some x \<Rightarrow> x),
       v_serviceDueAutoBlockedForKm :=
         (if uvi_nextServiceDueOdometerKm inp \<noteq> None \<or> uvi_autoServiceBlockHours inp = Some None then None
          else v_serviceDueAutoBlockedForKm v),
       v_fuelType := (case uvi_fuelType inp of None \<Rightarrow> v_fuelType v | Some x \<Rightarrow> x),
       v_modelLabel := (case uvi_modelLabel inp of None \<Rightarrow> v_modelLabel v | Some x \<Rightarrow> x),
       v_coverImageUrl :=
         (case uvi_coverImageUrl inp of
            None \<Rightarrow> v_coverImageUrl v
          | Some None \<Rightarrow> None
          | Some (Some u) \<Rightarrow> if trim u = [] then None else Some (trim u))\<rparr>"

definition pricing_touched :: "update_vehicle_input \<Rightarrow> bool" where
  "pricing_touched inp \<longleftrightarrow> uvi_rentPricingMode inp \<noteq> None \<or> uvi_rentOverrideDailyCents inp \<noteq> None \<or>
     uvi_flatTripRentCents inp \<noteq> None"

definition vehicle_patch_empty :: "update_vehicle_input \<Rightarrow> bool" where
  "vehicle_patch_empty inp \<longleftrightarrow>
     uvi_vehicleClassId inp = None \<and> uvi_homeStationId inp = None \<and> uvi_licensePlate inp = None \<and>
     uvi_vehicleType inp = None \<and> uvi_vin inp = None \<and> uvi_status inp = None \<and> uvi_odometerKm inp = None \<and>
     uvi_acquiredAt inp = None \<and> uvi_nextServiceDueOdometerKm inp = None \<and>
     uvi_autoServiceBlockHours inp = None \<and> uvi_fuelType inp = None \<and> uvi_modelLabel inp = None \<and>
     uvi_coverImageUrl inp = None \<and> \<not> pricing_touched inp"

text \<open>Mode, daily override and flat price after an update that touches the pricing.\<close>

definition merged_pricing :: "update_vehicle_input \<Rightarrow> vehicle \<Rightarrow> rent_pricing_mode \<times> int option \<times> int option" where
  "merged_pricing inp v =
     (let mode = (case uvi_rentPricingMode inp of None \<Rightarrow> v_rentPricingMode v | Some m \<Rightarrow> m);
          ovr = (case uvi_rentOverrideDailyCents inp of None \<Rightarrow> v_rentOverrideDailyCents v | Some x \<Rightarrow> x);
          flat = (case uvi_flatTripRentCents inp of None \<Rightarrow> v_flatTripRentCents v | Some x \<Rightarrow> x)
      in case uvi_rentPricingMode inp of
           Some USE_CLASS \<Rightarrow> (mode, None, None)
         | Some FIXED_DAILY \<Rightarrow> (mode, ovr, None)
         | Some FLAT_TRIP \<Rightarrow> (mode, None, flat)
         | None \<Rightarrow> (mode, ovr, flat))"

definition vehicle_pricing :: "update_vehicle_input \<Rightarrow> vehicle \<Rightarrow> (vehicle \<Rightarrow> vehicle) result" where
  "vehicle_pricing inp v =
     (if pricing_touched inp then
        case merged_pricing inp v of (mode, ovr, flat) \<Rightarrow>
          andThen (assertMergedPricing mode ovr flat) (\<lambda>_.
            Inr (\<lambda>w. w\<lparr>v_rentPricingMode := mode, v_rentOverrideDailyCents := ovr, v_flatTripRentCents := flat\<rparr>))
      else Inr id)"

definition vehicle_update :: "env \<Rightarrow> jwt_user \<Rightarrow> string \<Rightarrow> update_vehicle_input \<Rightarrow> vehicle dbprog" where
  "vehicle_update env user i inp =
     bnd (asks (\<lambda>d. vehicle_getOne d env user i)) (\<lambda>existing.
       let classId = (case uvi_vehicleClassId inp of None \<Rightarrow> v_vehicleClassId existing | Some x \<Rightarrow> x);
           stationId = (case uvi_homeStationId inp of None \<Rightarrow> v_homeStationId existing | Some x \<Rightarrow> x)
       in andDo (asks (\<lambda>_. case uvi_homeStationId inp of None \<Rightarrow> Inr ()
             | Some h \<Rightarrow> assertAgentVehicleHomeBranch user h (''Station not found: '' @ h)))
         (andDo (asks (\<lambda>d. assertCompanyCoherence d (v_companyId existing) classId stationId))
         (bnd (asks (\<lambda>_. vehicle_pricing inp existing)) (\<lambda>price.
         (if vehicle_patch_empty inp then ret existing
          else
            let row = price (vehicle_patch inp existing)
            in andDo (asks (\<lambda>d. ensure (plate_free d i row)
                 (Conflict ''License plate must be unique within the company'')))
               (andDo (modify (d_vehicles_update (update_row v_id i (\<lambda>_. row)))) (ret row)))))))"

text \<open>
  The database refuses to delete a vehicle that reservations refer to, with an error the method
  does not translate; otherwise the blocks of the vehicle go with it.
\<close>

definition vehicle_remove :: "env \<Rightarrow> jwt_user \<Rightarrow> string \<Rightarrow> unit dbprog" where
  "vehicle_remove env user i =
     andDo (asks (\<lambda>d. vehicle_getOne d env user i))
     (andDo (asks (\<lambda>d. ensure (find_vehicle d i \<noteq> None) (NotFound (''Vehicle not found: '' @ i))))
     (andDo (asks (\<lambda>d. ensure (\<not> list_ex (\<lambda>r. r_vehicleId r = i) (d_reservations d)) (Prisma ''P2003'')))
     (modify (\<lambda>d. d_blocks_update (filter (\<lambda>b. cb_vehicleId b \<noteq> i)) (d_vehicles_update (delete_row v_id i) d)))))"

section \<open>Vehicle classes\<close>

record create_class_input =
  cci_companyId :: string
  cci_name :: string
  cci_code :: string
  cci_defaultDailyCents :: "int option"
  cci_defaultDepositCents :: "int option"

record update_class_input =
  uci_name :: "string option"
  uci_code :: "string option"
  uci_defaultDailyCents :: "int option"
  uci_defaultDepositCents :: "int option"

definition class_list :: "db \<Rightarrow> env \<Rightarrow> jwt_user \<Rightarrow> string option \<Rightarrow> vehicle_class list result" where
  "class_list d env user companyId =
     andThen (effectiveListCompanyFilter env user companyId) (\<lambda>f.
       Inr (sort_key (\<lambda>c. (vc_companyId c, vc_name c))
         (filter (\<lambda>c. case f of None \<Rightarrow> True | Some co \<Rightarrow> vc_companyId c = co) (d_classes d))))"

definition rates_ordered :: "vehicle_class \<Rightarrow> vehicle_class" where
  "rates_ordered c = c\<lparr>vc_seasonalRates := sort_key (\<lambda>r. (- sr_priority r, sr_validFrom r)) (vc_seasonalRates c)\<rparr>"

definition class_getOne :: "db \<Rightarrow> env \<Rightarrow> jwt_user \<Rightarrow> string \<Rightarrow> vehicle_class result" where
  "class_getOne d env user i =
     (let msg = ''Vehicle class not found: '' @ i
      in andThen (orElse (find_class d i) (NotFound msg)) (\<lambda>row.
           andThen (assertSameCompany env user (vc_companyId row) msg) (\<lambda>_. Inr (rates_ordered row))))"

definition code_free :: "db \<Rightarrow> string \<Rightarrow> string \<Rightarrow> string \<Rightarrow> bool" where
  "code_free d i companyId c \<longleftrightarrow>
     list_all (\<lambda>w. vc_id w = i \<or> vc_companyId w \<noteq> companyId \<or> vc_code w \<noteq> c) (d_classes d)"

definition class_create :: "env \<Rightarrow> jwt_user \<Rightarrow> string \<Rightarrow> create_class_input \<Rightarrow> vehicle_class dbprog" where
  "class_create env user newId inp =
     andDo (asks (\<lambda>_. assertCreateBodyCompanyId env user (cci_companyId inp)))
     (andDo (asks (\<lambda>d. ensure (find_company d (cci_companyId inp) \<noteq> None)
         (NotFound (''Company not found: '' @ cci_companyId inp))))
     (let row = \<lparr>vc_id = newId, vc_companyId = cci_companyId inp, vc_name = cci_name inp,
                 vc_code = toUpperCase (cci_code inp), vc_defaultDailyCents = cci_defaultDailyCents inp,
                 vc_defaultDepositCents = cci_defaultDepositCents inp, vc_seasonalRates = []\<rparr>
      in andDo (asks (\<lambda>d. ensure (find_class d newId = None \<and> code_free d newId (vc_companyId row) (vc_code row))
            (Prisma ''P2002'')))
        (andDo (modify (d_classes_update (\<lambda>cs. cs @ [row]))) (ret row))))"

definition class_patch :: "update_class_input \<Rightarrow> vehicle_class \<Rightarrow> vehicle_class" where
  "class_patch inp c =
     c\<lparr>vc_name := (case uci_name inp of None \<Rightarrow> vc_name c | Some x \<Rightarrow> x),
       vc_code := (case uci_code inp of None \<Rightarrow> vc_code c | Some x \<Rightarrow> toUpperCase x),
       vc_defaultDailyCents := (case uci_defaultDailyCents inp of None \<Rightarrow> vc_defaultDailyCents c | Some x \<Rightarrow> Some x),
       vc_defaultDepositCents :=
         (case uci_defaultDepositCents inp of None \<Rightarrow> vc_defaultDepositCents c | Some x \<Rightarrow> Some x)\<rparr>"

definition class_update :: "env \<Rightarrow> jwt_user \<Rightarrow> string \<Rightarrow> update_class_input \<Rightarrow> vehicle_class dbprog" where
  "class_update env user i inp =
     andDo (asks (\<lambda>d. class_getOne d env user i))
     (bnd (asks (\<lambda>d. orElse (find_class d i) (Prisma ''P2025''))) (\<lambda>c.
      andDo (asks (\<lambda>d. ensure (code_free d i (vc_companyId c) (vc_code (class_patch inp c)))
        (Conflict ''Vehicle class code must be unique within the company'')))
     (andDo (modify (d_classes_update (update_row vc_id i (class_patch inp)))) (ret (class_patch inp c)))))"

definition class_remove :: "env \<Rightarrow> jwt_user \<Rightarrow> string \<Rightarrow> unit dbprog" where
  "class_remove env user i =
     andDo (asks (\<lambda>d. class_getOne d env user i))
     (andDo (asks (\<lambda>d. ensure (\<not> list_ex (\<lambda>v. v_vehicleClassId v = i) (d_vehicles d))
        (Conflict ''Cannot delete class: vehicles still reference it'')))
     (andDo (asks (\<lambda>d. ensure (find_class d i \<noteq> None) (NotFound (''Vehicle class not found: '' @ i))))
     (modify (d_classes_update (delete_row vc_id i)))))"

subsection \<open>Seasonal rates\<close>

record rate_input =
  ri_validFrom :: string
  ri_validTo :: string
  ri_dailyCents :: int
  ri_priority :: int

text \<open>The request schema: both dates parse, and as strings the first is not after the second.\<close>

definition rate_input_ok :: "rate_input \<Rightarrow> bool" where
  "rate_input_ok r \<longleftrightarrow> parseUtcDay (ri_validFrom r) \<noteq> None \<and> parseUtcDay (ri_validTo r) \<noteq> None \<and>
     \<not> ri_validFrom r > ri_validTo r \<and> 0 \<le> ri_dailyCents r \<and> 0 \<le> ri_priority r"

definition seasonal_row :: "string \<Rightarrow> rate_input \<Rightarrow> seasonal_rate" where
  "seasonal_row newId r =
     \<lparr>sr_id = newId, sr_validFrom = the (parseUtcDay (ri_validFrom r)), sr_validTo = the (parseUtcDay (ri_validTo r)),
      sr_dailyCents = ri_dailyCents r, sr_priority = ri_priority r\<rparr>"

definition replaceSeasonalRates ::
  "env \<Rightarrow> jwt_user \<Rightarrow> (nat \<Rightarrow> string) \<Rightarrow> string \<Rightarrow> rate_input list \<Rightarrow> vehicle_class dbprog" where
  "replaceSeasonalRates env user newIds i rates =
     (let msg = ''Vehicle class not found: '' @ i
      in bnd (asks (\<lambda>d. orElse (find_class d i) (NotFound msg))) (\<lambda>row.
         andDo (asks (\<lambda>_. assertSameCompany env user (vc_companyId row) msg))
         (let creates = map (\<lambda>(n, r). seasonal_row (newIds n) r) (enumerate 0 rates)
          in transaction
             (andDo (modify (d_classes_update (update_row vc_id i (vc_seasonalRates_update (\<lambda>_. [])))))
             (andDo (modify (d_classes_update (update_row vc_id i (vc_seasonalRates_update (\<lambda>rs. rs @ creates)))))
             (bnd (asks (\<lambda>d. orElse (find_class d i) (Prisma ''P2025''))) (\<lambda>c. ret (rates_ordered c))))))))"

section \<open>Well-formed fleet\<close>

definition pricing_ok :: "vehicle \<Rightarrow> bool" where
  "pricing_ok v =
     (case v_rentPricingMode v of
        USE_CLASS \<Rightarrow> v_rentOverrideDailyCents v = None \<and> v_flatTripRentCents v = None
      | FIXED_DAILY \<Rightarrow> \<not> negative_or_null (v_rentOverrideDailyCents v) \<and> v_flatTripRentCents v = None
      | FLAT_TRIP \<Rightarrow> \<not> negative_or_null (v_flatTripRentCents v) \<and> v_rentOverrideDailyCents v = None)"

definition same_company :: "db \<Rightarrow> vehicle \<Rightarrow> bool" where
  "same_company d v \<longleftrightarrow>
     (case (find_class d (v_vehicleClassId v), find_station d (v_homeStationId v)) of
        (Some c, Some s) \<Rightarrow> vc_companyId c = v_companyId v \<and> st_companyId s = v_companyId v
      | _ \<Rightarrow> False)"

definition fleet_ok :: "db \<Rightarrow> bool" where
  "fleet_ok d \<longleftrightarrow> list_all (\<lambda>v. pricing_ok v \<and> same_company d v) (d_vehicles d)"

lemma assertMergedPricing_Inr:
  "assertMergedPricing mode ovr flat = Inr u \<longleftrightarrow>
     pricing_ok (v\<lparr>v_rentPricingMode := mode, v_rentOverrideDailyCents := ovr, v_flatTripRentCents := flat\<rparr>)"
  by (cases mode) (auto simp: assertMergedPricing_def pricing_ok_def)

lemma assertCompanyCoherence_Inr:
  "assertCompanyCoherence d c k s = Inr u \<longleftrightarrow>
     (\<exists>vc st. find_class d k = Some vc \<and> find_station d s = Some st \<and> vc_companyId vc = c \<and> st_companyId st = c)"
  by (auto simp: assertCompanyCoherence_def andThen_Inr)

lemma vehicle_getOne_Inr:
  "vehicle_getOne d env user i = Inr v \<longleftrightarrow>
     find_vehicle d i = Some v \<and> may_see_company env user (v_companyId v) \<and> branch_ok user (v_homeStationId v)"
  by (auto simp: vehicle_getOne_def Let_def andThen_Inr)

interpretation vehicle_rows: guarded_rows vehicle_getOne find_vehicle v_companyId "\<lambda>v st. v_homeStationId v = st"
proof unfold_locales
  fix d env user i e
  assume "vehicle_getOne d env user i = Inl e"
  then show "\<exists>m. e = NotFound m"
    by (auto simp: vehicle_getOne_def Let_def andThen_Inl assertSameCompany_def
        assertAgentVehicleHomeBranch_def split: if_splits)
qed (auto simp: vehicle_getOne_Inr branch_ok_def)

text \<open>Changes of other tables do not matter to the fleet.\<close>

lemma fleet_ok_cong:
  "d_vehicles d' = d_vehicles d \<Longrightarrow> d_classes d' = d_classes d \<Longrightarrow> d_stations d' = d_stations d \<Longrightarrow>
     fleet_ok d' = fleet_ok d"
  by (simp add: fleet_ok_def same_company_def find_class_def find_station_def cong: option.case_cong)

lemma same_company_frame [simp]:
  "same_company (d_vehicles_update f d) v = same_company d v"
  "same_company (d_blocks_update g d) v = same_company d v"
  by (simp_all add: same_company_def find_class_def find_station_def)

lemma fleet_ok_change_vehicles:
  "fleet_ok (d_vehicles_update f d) \<longleftrightarrow> list_all (\<lambda>v. pricing_ok v \<and> same_company d v) (f (d_vehicles d))"
  by (simp add: fleet_ok_def same_company_def find_class_def find_station_def)

lemma vehicle_create_keeps:
  assumes "fleet_ok d" shows "keeps fleet_ok (vehicle_create env user newId inp) d"
proof -
  have "pricing_ok (new_vehicle newId inp mode ovr flat)"
    if "assertMergedPricing mode ovr flat = Inr ()" for mode ovr flat
    using that assertMergedPricing_Inr [of mode ovr flat _ "new_vehicle newId inp mode ovr flat"]
    by (simp add: new_vehicle_def)
  moreover have "same_company d (new_vehicle newId inp mode ovr flat)"
    if "assertCompanyCoherence d (cvi_companyId inp) (cvi_vehicleClassId inp) (cvi_homeStationId inp) = Inr ()"
    for mode ovr flat
    using that by (auto simp: assertCompanyCoherence_Inr same_company_def new_vehicle_def)
  ultimately show ?thesis
    using assms unfolding keeps_def vehicle_create_def Let_def
    by (simp add: wp fleet_ok_change_vehicles) (simp add: fleet_ok_def)
qed

lemma vehicle_patch_frame [simp]:
  "v_id (vehicle_patch inp v) = v_id v"
  "v_companyId (vehicle_patch inp v) = v_companyId v"
  "v_rentPricingMode (vehicle_patch inp v) = v_rentPricingMode v"
  "v_rentOverrideDailyCents (vehicle_patch inp v) = v_rentOverrideDailyCents v"
  "v_flatTripRentCents (vehicle_patch inp v) = v_flatTripRentCents v"
  by (simp_all add: vehicle_patch_def)

lemma vehicle_pricing_keeps:
  assumes "vehicle_pricing inp v = Inr price" "pricing_ok v"
  shows "pricing_ok (price (vehicle_patch inp v)) \<and> v_companyId (price (vehicle_patch inp v)) = v_companyId v \<and>
    v_vehicleClassId (price (vehicle_patch inp v)) = v_vehicleClassId (vehicle_patch inp v) \<and>
    v_homeStationId (price (vehicle_patch inp v)) = v_homeStationId (vehicle_patch inp v) \<and>
    v_id (price (vehicle_patch inp v)) = v_id v"
proof (cases "pricing_touched inp")
  case True
  obtain mode ovr flat where m: "merged_pricing inp v = (mode, ovr, flat)" by (cases "merged_pricing inp v")
  have e: "assertMergedPricing mode ovr flat = Inr ()"
    "price = (\<lambda>w. w\<lparr>v_rentPricingMode := mode, v_rentOverrideDailyCents := ovr, v_flatTripRentCents := flat\<rparr>)"
    using assms(1) True m by (auto simp: vehicle_pricing_def andThen_Inr)
  then show ?thesis
    using assertMergedPricing_Inr [of mode ovr flat "()" "vehicle_patch inp v"] by simp
next
  case False
  then show ?thesis
    using assms by (simp add: vehicle_pricing_def pricing_ok_def split: rent_pricing_mode.splits)
qed

lemma vehicle_update_keeps:
  assumes "fleet_ok d" shows "keeps fleet_ok (vehicle_update env user i inp) d"
proof -
  have "fleet_ok (d_vehicles_update (update_row v_id i (\<lambda>_. price (vehicle_patch inp v))) d)"
    if v: "find_vehicle d i = Some v" and p: "vehicle_pricing inp v = Inr price"
      and c: "assertCompanyCoherence d (v_companyId v) (v_vehicleClassId (vehicle_patch inp v))
        (v_homeStationId (vehicle_patch inp v)) = Inr ()" for v price
  proof -
    have "pricing_ok v" using assms find_vehicle_id [OF v] by (simp add: fleet_ok_def list_all_iff)
    note k = vehicle_pricing_keeps [OF p this]
    then have "same_company d (price (vehicle_patch inp v))"
      using c by (auto simp: assertCompanyCoherence_Inr same_company_def)
    then show ?thesis
      using assms k by (auto simp: fleet_ok_change_vehicles update_row_def list_all_iff fleet_ok_def)
  qed
  then show ?thesis
    using assms unfolding keeps_def vehicle_update_def Let_def
    by (simp add: wp vehicle_getOne_Inr vehicle_patch_def)
qed

lemma vehicle_remove_keeps:
  assumes "fleet_ok d" shows "keeps fleet_ok (vehicle_remove env user i) d"
proof -
  have "fleet_ok (d_blocks_update f (d_vehicles_update (delete_row v_id i) d))" for f
    using assms by (simp add: fleet_ok_def delete_row_def list_all_iff)
  then show ?thesis
    using assms by (simp add: keeps_def vehicle_remove_def wp)
qed

text \<open>A change of the classes keeps the fleet if the classes in use stay, in their company.\<close>

lemma fleet_ok_change_classes:
  assumes "fleet_ok d"
    and "\<And>v c. v \<in> set (d_vehicles d) \<Longrightarrow> find_class d (v_vehicleClassId v) = Some c \<Longrightarrow>
      \<exists>c'. find_class (d_classes_update f d) (v_vehicleClassId v) = Some c' \<and> vc_companyId c' = vc_companyId c"
  shows "fleet_ok (d_classes_update f d)"
proof -
  have "same_company (d_classes_update f d) v" if "v \<in> set (d_vehicles d)" for v
  proof -
    have "same_company d v" using assms(1) that by (simp add: fleet_ok_def list_all_iff)
    then show ?thesis
      using assms(2) [OF that] by (fastforce simp: same_company_def find_station_def split: option.splits)
  qed
  then show ?thesis using assms(1) by (simp add: fleet_ok_def list_all_iff)
qed

lemma fleet_ok_update_class:
  assumes "fleet_ok d" "\<And>c. vc_id (g c) = vc_id c" "\<And>c. vc_companyId (g c) = vc_companyId c"
  shows "fleet_ok (d_classes_update (update_row vc_id i g) d)"
  using assms by (intro fleet_ok_change_classes) (auto simp: find_class_def tables)

lemma class_create_keeps:
  assumes "fleet_ok d" shows "keeps fleet_ok (class_create env user newId inp) d"
proof -
  have "fleet_ok (d_classes_update (\<lambda>cs. cs @ [row]) d)" if "find_class d (vc_id row) = None" for row
  proof (rule fleet_ok_change_classes [OF assms])
    fix v c
    assume "find_class d (v_vehicleClassId v) = Some c"
    then show "\<exists>c'. find_class (d_classes_update (\<lambda>cs. cs @ [row]) d) (v_vehicleClassId v) = Some c' \<and>
        vc_companyId c' = vc_companyId c"
      using that by (simp add: find_class_def tables)
  qed
  then show ?thesis
    using assms by (simp add: keeps_def class_create_def Let_def wp)
qed

lemma class_update_keeps:
  assumes "fleet_ok d" shows "keeps fleet_ok (class_update env user i inp) d"
  using assms fleet_ok_update_class [OF assms, of "class_patch inp" i]
  by (simp add: keeps_def class_update_def wp class_patch_def)

lemma class_remove_keeps:
  assumes "fleet_ok d" shows "keeps fleet_ok (class_remove env user i) d"
proof -
  have "fleet_ok (d_classes_update (delete_row vc_id i) d)"
    if "\<not> list_ex (\<lambda>v. v_vehicleClassId v = i) (d_vehicles d)"
    using that by (intro fleet_ok_change_classes [OF assms])
      (auto simp: find_class_def tables list_ex_iff)
  then show ?thesis
    using assms by (simp add: keeps_def class_remove_def wp)
qed

lemma replaceSeasonalRates_keeps:
  assumes "fleet_ok d" shows "keeps fleet_ok (replaceSeasonalRates env user newIds i rates) d"
proof -
  have u: "fleet_ok (d_classes_update (update_row vc_id i (vc_seasonalRates_update f)) e)" if "fleet_ok e" for f e
    using that by (rule fleet_ok_update_class) simp_all
  show ?thesis
    using assms u [OF u [OF assms]] unfolding keeps_def replaceSeasonalRates_def Let_def by (simp add: wp)
qed

text \<open>The requests that write the fleet.\<close>

datatype fleet_request =
    CreateVehicle string create_vehicle_input
  | UpdateVehicle string update_vehicle_input
  | RemoveVehicle string
  | CreateClass string create_class_input
  | UpdateClass string update_class_input
  | RemoveClass string
  | PutSeasonalRates "nat \<Rightarrow> string" string "rate_input list"

fun fleet_handle :: "env \<Rightarrow> jwt_user \<Rightarrow> fleet_request \<Rightarrow> unit dbprog" where
  "fleet_handle env user (CreateVehicle newId inp) = andDo (vehicle_create env user newId inp) (ret ())"
| "fleet_handle env user (UpdateVehicle i inp) = andDo (vehicle_update env user i inp) (ret ())"
| "fleet_handle env user (RemoveVehicle i) = vehicle_remove env user i"
| "fleet_handle env user (CreateClass newId inp) = andDo (class_create env user newId inp) (ret ())"
| "fleet_handle env user (UpdateClass i inp) = andDo (class_update env user i inp) (ret ())"
| "fleet_handle env user (RemoveClass i) = class_remove env user i"
| "fleet_handle env user (PutSeasonalRates newIds i rates) =
     andDo (replaceSeasonalRates env user newIds i rates) (ret ())"

lemma fleet_handle_keeps: "fleet_ok d \<Longrightarrow> keeps fleet_ok (fleet_handle env user req) d"
  by (cases req)
    (simp_all add: keeps_andDo_ret vehicle_create_keeps vehicle_update_keeps vehicle_remove_keeps class_create_keeps
      class_update_keeps class_remove_keeps replaceSeasonalRates_keeps)

fun fleet_run :: "env \<Rightarrow> (jwt_user \<times> fleet_request) list \<Rightarrow> db \<Rightarrow> db" where
  "fleet_run env [] d = d"
| "fleet_run env ((user, req) # reqs) d = fleet_run env reqs (snd (fleet_handle env user req d))"

text \<open>
  Whatever sequence of requests changes vehicles, classes and seasonal rates, every vehicle
  keeps a class and a home station of its own company, and pricing columns that agree with its
  pricing mode: a daily override exactly in mode FIXED_DAILY, a trip price exactly in FLAT_TRIP,
  neither negative.
\<close>

theorem fleet_stays_ok:
  assumes "fleet_ok d"
  shows "fleet_ok (fleet_run env reqs d)"
  using assms
  by (induction env reqs d rule: fleet_run.induct) (auto simp: fleet_handle_keeps [unfolded keeps_run])

definition no_vehicle_change :: update_vehicle_input where
  "no_vehicle_change = \<lparr>uvi_vehicleClassId = None, uvi_homeStationId = None, uvi_licensePlate = None,
     uvi_vehicleType = None, uvi_vin = None, uvi_status = None, uvi_odometerKm = None, uvi_acquiredAt = None,
     uvi_nextServiceDueOdometerKm = None, uvi_autoServiceBlockHours = None, uvi_fuelType = None,
     uvi_modelLabel = None, uvi_coverImageUrl = None, uvi_rentPricingMode = None,
     uvi_rentOverrideDailyCents = None, uvi_flatTripRentCents = None\<rparr>"

definition demo_fleet_requests :: "(jwt_user \<times> fleet_request) list" where
  "demo_fleet_requests =
     [(demo_manager, UpdateVehicle ''v1'' (no_vehicle_change\<lparr>uvi_rentPricingMode := Some FIXED_DAILY,
        uvi_rentOverrideDailyCents := Some (Some 4500)\<rparr>)),
      (demo_manager, UpdateVehicle ''v1'' (no_vehicle_change\<lparr>uvi_flatTripRentCents := Some (Some 9)\<rparr>)),
      (demo_stranger, RemoveVehicle ''v2''), (demo_manager, RemoveVehicle ''v2''), (demo_admin, RemoveClass ''eco'')]"

theorem fleet_stays_ok_witness:
  "fleet_ok (fleet_run demo_env demo_fleet_requests demo_db) \<and>
   map (\<lambda>v. (v_id v, v_rentOverrideDailyCents v, v_flatTripRentCents v))
     (d_vehicles (fleet_run demo_env demo_fleet_requests demo_db)) = [(''v1'', Some 4500, None)]"
proof
  have "fleet_ok demo_db" by code_simp
  then show "fleet_ok (fleet_run demo_env demo_fleet_requests demo_db)" by (rule fleet_stays_ok)
  show "map (\<lambda>v. (v_id v, v_rentOverrideDailyCents v, v_flatTripRentCents v))
     (d_vehicles (fleet_run demo_env demo_fleet_requests demo_db)) = [(''v1'', Some 4500, None)]"
    by code_simp
qed

end
