(* ===== verification/Booking_Calendar.thy ===== *)
theory Booking_Calendar
  imports Fixtures
begin

text \<open>
  The private checks of \<open>apps/api/src/reservation/reservation.service.ts\<close> that every booking
  path goes through (time order, company coherence, the vehicle being free) and the automatic
  total, and \<open>apps/api/src/fleet/availability/availability.service.ts\<close>, which lists the
  vehicles a booking may use. Reservations interpret the schedule contract.
\<close>

section \<open>Checks of a booking\<close>

definition assertTimeOrder :: "time \<Rightarrow> time \<Rightarrow> unit result" where
  "assertTimeOrder pickup return =
     ensure (\<not> pickup \<ge> return) (BadRequest ''returnAt must be after pickupAt'')"

definition assertCompanyCoherent :: "db \<Rightarrow> string \<Rightarrow> string \<Rightarrow> string \<Rightarrow> string \<Rightarrow> unit result" where
  "assertCompanyCoherent d companyId vehicleId pickupStationId returnStationId =
     (case find_vehicle d vehicleId of
        None \<Rightarrow> Inl (NotFound (''Vehicle not found: '' @ vehicleId))
      | Some vehicle \<Rightarrow>
          (case (find_station d pickupStationId, find_station d returnStationId) of
             (Some pickup, Some back) \<Rightarrow>
               if v_companyId vehicle \<noteq> companyId
               then Inl (BadRequest ''Vehicle does not belong to this company'')
               else if st_companyId pickup \<noteq> companyId \<or> st_companyId back \<noteq> companyId
               then Inl (BadRequest ''Stations must belong to the same company as the reservation'')
               else Inr ()
           | _ \<Rightarrow> Inl (NotFound ''Pickup or return station not found'')))"

text \<open>Statuses that hold the vehicle: all but \<open>reservationNonBlockingStatusValues\<close>.\<close>

definition reservationNonBlockingStatusValues :: "reservation_status list" where
  "reservationNonBlockingStatusValues = [CANCELLED, COMPLETED, NO_SHOW]"

definition active_status :: "reservation_status \<Rightarrow> bool" where
  "active_status s \<longleftrightarrow> s \<notin> set reservationNonBlockingStatusValues"

definition clashing_reservation ::
  "db \<Rightarrow> string \<Rightarrow> time \<Rightarrow> time \<Rightarrow> string option \<Rightarrow> reservation option" where
  "clashing_reservation d vehicleId from till excludeId =
     List.find (\<lambda>r. r_vehicleId r = vehicleId \<and> (truthy excludeId \<longrightarrow> Some (r_id r) \<noteq> excludeId) \<and>
         active_status (r_status r) \<and> r_pickupAt r < till \<and> r_returnAt r > from)
       (d_reservations d)"

fun blocked_window :: "calendar_block list \<Rightarrow> time \<Rightarrow> time \<Rightarrow> unit result" where
  "blocked_window [] from till = Inr ()"
| "blocked_window (b # bs) from till =
     (if halfOpenRangesOverlap from till (cb_startsAt b) (cb_endsAt b)
      then Inl (Conflict ''Rental window overlaps a calendar block (e.g. maintenance) on this vehicle'')
      else blocked_window bs from till)"

definition assertVehicleFreeTx :: "db \<Rightarrow> string \<Rightarrow> time \<Rightarrow> time \<Rightarrow> string option \<Rightarrow> unit result" where
  "assertVehicleFreeTx d vehicleId from till excludeId =
     (case find_vehicle d vehicleId of
        None \<Rightarrow> Inl (NotFound (''Vehicle not found: '' @ vehicleId))
      | Some vehicle \<Rightarrow>
          if v_status vehicle = MAINTENANCE \<or> v_status vehicle = OUT_OF_FLEET
          then Inl (Conflict ''Vehicle is not available for rental (fleet status)'')
          else
            andThen (blocked_window (filter (\<lambda>b. cb_vehicleId b = vehicleId) (d_blocks d)) from till) (\<lambda>_.
              case clashing_reservation d vehicleId from till excludeId of
                None \<Rightarrow> Inr ()
              | Some c \<Rightarrow> Inl (Conflict
                  (''Vehicle already has an active reservation in this period ('' @ r_id c @ '')''))))"

definition assertVehicleFree :: "db \<Rightarrow> string \<Rightarrow> time \<Rightarrow> time \<Rightarrow> string option \<Rightarrow> unit result" where
  "assertVehicleFree d vehicleId from till excludeId = assertVehicleFreeTx d vehicleId from till excludeId"

section \<open>The automatic total\<close>

definition season_of :: "seasonal_rate \<Rightarrow> season" where
  "season_of s = \<lparr>s_validFrom = sr_validFrom s, s_validTo = sr_validTo s, s_dailyCents = sr_dailyCents s,
     s_priority = sr_priority s\<rparr>"

text \<open>The rent of a vehicle by its pricing mode; the class row is there by its foreign key.\<close>

definition vehicle_rent :: "db \<Rightarrow> vehicle \<Rightarrow> time \<Rightarrow> time \<Rightarrow> int option" where
  "vehicle_rent d v pickupAt returnAt =
     (case v_rentPricingMode v of
        FLAT_TRIP \<Rightarrow> v_flatTripRentCents v
      | FIXED_DAILY \<Rightarrow>
          (case v_rentOverrideDailyCents v of
             None \<Rightarrow> None
           | Some c \<Rightarrow> Some (c * countRentalDays24h pickupAt returnAt))
      | USE_CLASS \<Rightarrow>
          (case find_class d (v_vehicleClassId v) of
             None \<Rightarrow> None
           | Some c \<Rightarrow> sumClassRentCents24h (vc_defaultDailyCents c) (map season_of (vc_seasonalRates c))
               pickupAt returnAt))"

definition one_way_cents :: "db \<Rightarrow> string \<Rightarrow> string \<Rightarrow> string \<Rightarrow> int" where
  "one_way_cents d companyId pickupStationId returnStationId =
     (if pickupStationId \<noteq> returnStationId then
        case find_company d companyId of
          None \<Rightarrow> 0
        | Some c \<Rightarrow> (case co_oneWayFeeCents c of None \<Rightarrow> 0 | Some f \<Rightarrow> f)
      else 0)"

definition computeAutoTotalCents ::
  "db \<Rightarrow> string \<Rightarrow> string \<Rightarrow> time \<Rightarrow> time \<Rightarrow> string \<Rightarrow> string \<Rightarrow> int list \<Rightarrow> int option" where
  "computeAutoTotalCents d companyId vehicleId pickupAt returnAt pickupStationId returnStationId extras =
     (case find_vehicle d vehicleId of
        None \<Rightarrow> None
      | Some v \<Rightarrow>
          let oneWay = one_way_cents d companyId pickupStationId returnStationId;
              extraSum = foldl (+) 0 extras
          in case vehicle_rent d v pickupAt returnAt of
               None \<Rightarrow> if oneWay + extraSum > 0 then Some (oneWay + extraSum) else None
             | Some rent \<Rightarrow> Some (rent + oneWay + extraSum))"

section \<open>Availability\<close>

record availability_query =
  aq_stationId :: string
  aq_from :: time
  aq_to :: time
  aq_vehicleClassId :: "string option"
  aq_excludeReservationId :: "string option"

record availability =
  av_from :: time
  av_to :: time
  av_stationId :: string
  av_vehicleClassId :: "string option"
  av_vehicles :: "vehicle list"
  av_count :: nat

definition availability_class_check :: "db \<Rightarrow> station \<Rightarrow> string option \<Rightarrow> unit result" where
  "availability_class_check d station classId =
     (if truthy classId then
        andThen (orElse (find_class d (the classId)) (NotFound (''Vehicle class not found: '' @ the classId))) (\<lambda>cls.
          ensure (vc_companyId cls = st_companyId station)
            (BadRequest ''Vehicle class does not belong to the same company as the station''))
      else Inr ())"

text \<open>The candidates of a station, then those without an overlapping block, then those without a clash.\<close>

definition station_candidates :: "db \<Rightarrow> availability_query \<Rightarrow> station \<Rightarrow> vehicle list" where
  "station_candidates d q station =
     filter (\<lambda>v. v_homeStationId v = aq_stationId q \<and> v_companyId v = st_companyId station \<and>
         v_status v = AVAILABLE \<and>
         (truthy (aq_vehicleClassId q) \<longrightarrow> Some (v_vehicleClassId v) = aq_vehicleClassId q))
       (d_vehicles d)"

definition has_block_overlap :: "db \<Rightarrow> availability_query \<Rightarrow> vehicle \<Rightarrow> bool" where
  "has_block_overlap d q v \<longleftrightarrow>
     list_ex (\<lambda>b. halfOpenRangesOverlap (aq_from q) (aq_to q) (cb_startsAt b) (cb_endsAt b))
       (filter (\<lambda>b. cb_vehicleId b = v_id v) (d_blocks d))"

definition busy_vehicles :: "db \<Rightarrow> availability_query \<Rightarrow> vehicle list \<Rightarrow> string list" where
  "busy_vehicles d q free =
     map r_vehicleId
       (filter (\<lambda>r. r_vehicleId r \<in> v_id ` set free \<and>
           (truthy (aq_excludeReservationId q) \<longrightarrow> Some (r_id r) \<noteq> aq_excludeReservationId q) \<and>
           active_status (r_status r) \<and> r_pickupAt r < aq_to q \<and> r_returnAt r > aq_from q)
         (d_reservations d))"

definition availability_payload :: "availability_query \<Rightarrow> vehicle list \<Rightarrow> availability" where
  "availability_payload q vs =
     \<lparr>av_from = aq_from q, av_to = aq_to q, av_stationId = aq_stationId q,
      av_vehicleClassId = aq_vehicleClassId q, av_vehicles = vs, av_count = length vs\<rparr>"

definition runAvailabilityForStation :: "db \<Rightarrow> availability_query \<Rightarrow> station \<Rightarrow> availability" where
  "runAvailabilityForStation d q station =
     (let vehicles = station_candidates d q station
      in if vehicles = [] then availability_payload q []
         else
           let free = filter (\<lambda>v. \<not> has_block_overlap d q v) vehicles
           in if free = [] then availability_payload q []
              else
                let busy = busy_vehicles d q free
                in availability_payload q (filter (\<lambda>v. v_id v \<notin> set busy) free))"

definition listAvailableVehicles ::
  "db \<Rightarrow> env \<Rightarrow> jwt_user \<Rightarrow> availability_query \<Rightarrow> availability result" where
  "listAvailableVehicles d env user q =
     andThen (ensure (\<not> aq_from q \<ge> aq_to q) (BadRequest ''from must be before to'')) (\<lambda>_.
     andThen (orElse (find_station d (aq_stationId q)) (NotFound (''Station not found: '' @ aq_stationId q))) (\<lambda>station.
     andThen (assertSameCompany env user (st_companyId station) (''Station not found: '' @ aq_stationId q)) (\<lambda>_.
     andThen (assertAgentAvailabilityStation user (aq_stationId q)) (\<lambda>_.
     andThen (availability_class_check d station (aq_vehicleClassId q)) (\<lambda>_.
     Inr (runAvailabilityForStation d q station))))))"

definition listAvailableVehiclesPublic :: "db \<Rightarrow> string \<Rightarrow> availability_query \<Rightarrow> availability result" where
  "listAvailableVehiclesPublic d companyId q =
     andThen (ensure (\<not> aq_from q \<ge> aq_to q) (BadRequest ''from must be before to'')) (\<lambda>_.
     andThen (orElse (find_station d (aq_stationId q)) (NotFound (''Station not found: '' @ aq_stationId q))) (\<lambda>station.
     andThen (ensure (st_companyId station = companyId) (NotFound (''Station not found: '' @ aq_stationId q))) (\<lambda>_.
     andThen (availability_class_check d station (aq_vehicleClassId q)) (\<lambda>_.
     Inr (runAvailabilityForStation d q station)))))"

section \<open>Slots of reservations\<close>

definition booking_slot :: "reservation \<Rightarrow> slot" where
  "booking_slot r = (r_vehicleId r, r_pickupAt r, r_returnAt r)"

definition holds :: "reservation \<Rightarrow> bool" where
  "holds r \<longleftrightarrow> active_status (r_status r)"

definition no_double_booking :: "db \<Rightarrow> bool" where
  "no_double_booking d \<longleftrightarrow> disjoint_slots (taken holds booking_slot (d_reservations d))"

definition bookings_ok :: "db \<Rightarrow> bool" where
  "bookings_ok d \<longleftrightarrow> keyed r_id (d_reservations d) \<and> no_double_booking d \<and>
     list_all (\<lambda>r. r_pickupAt r < r_returnAt r) (d_reservations d)"

definition booking_free :: "db \<Rightarrow> slot \<Rightarrow> string option \<Rightarrow> unit result" where
  "booking_free d s ex = (case s of (v, a, b) \<Rightarrow> assertVehicleFree d v a b ex)"

lemma blocked_window_Inr:
  "blocked_window bs a b = Inr u \<longleftrightarrow> (\<forall>x\<in>set bs. \<not> halfOpenRangesOverlap a b (cb_startsAt x) (cb_endsAt x))"
  by (induction bs) auto

lemma clashing_reservation_None:
  "clashing_reservation d v a b ex = None \<longleftrightarrow>
     (\<forall>r\<in>set (d_reservations d). r_vehicleId r = v \<and> active_status (r_status r) \<and>
        (truthy ex \<longrightarrow> Some (r_id r) \<noteq> ex) \<longrightarrow> \<not> halfOpenRangesOverlap a b (r_pickupAt r) (r_returnAt r))"
  by (auto simp: clashing_reservation_def find_None_iff halfOpenRangesOverlap_def)

lemma assertVehicleFree_Inr:
  "assertVehicleFree d v a b ex = Inr u \<longleftrightarrow>
     (\<exists>x. find_vehicle d v = Some x \<and> v_status x \<noteq> MAINTENANCE \<and> v_status x \<noteq> OUT_OF_FLEET) \<and>
     (\<forall>k\<in>set (d_blocks d). cb_vehicleId k = v \<longrightarrow> \<not> halfOpenRangesOverlap a b (cb_startsAt k) (cb_endsAt k)) \<and>
     clashing_reservation d v a b ex = None"
  by (auto simp: assertVehicleFree_def assertVehicleFreeTx_def andThen_Inr blocked_window_Inr
      split: option.splits)

interpretation booking_calendar: schedule d_reservations holds booking_slot r_id booking_free
proof unfold_locales
  fix d s ex u r
  assume "booking_free d s ex = Inr u" "r \<in> set (d_reservations d)" "holds r" "ex \<noteq> Some (r_id r)"
  then show "\<not> clash s (booking_slot r)"
    by (cases s) (auto simp: booking_free_def assertVehicleFree_Inr clashing_reservation_None booking_slot_def holds_def)
qed

text \<open>
  The booking check accepts a vehicle and a window exactly when the vehicle exists and is neither
  in maintenance nor out of the fleet, no instant of the window lies in a calendar block of the
  vehicle, and none lies in the window of another active reservation of it.
\<close>

theorem vehicle_free_iff:
  assumes "from < till" "list_all (\<lambda>b. cb_startsAt b < cb_endsAt b) (d_blocks d)"
    and "list_all (\<lambda>r. r_pickupAt r < r_returnAt r) (d_reservations d)" "excludeId \<noteq> Some []"
  shows "isInr (assertVehicleFree d vehicleId from till excludeId) \<longleftrightarrow>
    (\<exists>v. find_vehicle d vehicleId = Some v \<and> v_status v \<noteq> MAINTENANCE \<and> v_status v \<noteq> OUT_OF_FLEET) \<and>
    (\<forall>t. from \<le> t \<and> t < till \<longrightarrow>
      (\<forall>b\<in>set (d_blocks d). cb_vehicleId b = vehicleId \<longrightarrow> \<not> (cb_startsAt b \<le> t \<and> t < cb_endsAt b)) \<and>
      (\<forall>r\<in>set (d_reservations d). r_vehicleId r = vehicleId \<and> active_status (r_status r) \<and>
         Some (r_id r) \<noteq> excludeId \<longrightarrow> \<not> (r_pickupAt r \<le> t \<and> t < r_returnAt r)))"
proof -
  have b: "halfOpenRangesOverlap from till (cb_startsAt k) (cb_endsAt k) \<longleftrightarrow>
      (\<exists>t. from \<le> t \<and> t < till \<and> cb_startsAt k \<le> t \<and> t < cb_endsAt k)" if "k \<in> set (d_blocks d)" for k
    using assms(1,2) that by (intro overlap_iff_common) (auto simp: list_all_iff)
  have r: "halfOpenRangesOverlap from till (r_pickupAt x) (r_returnAt x) \<longleftrightarrow>
      (\<exists>t. from \<le> t \<and> t < till \<and> r_pickupAt x \<le> t \<and> t < r_returnAt x)" if "x \<in> set (d_reservations d)" for x
    using assms(1,3) that by (intro overlap_iff_common) (auto simp: list_all_iff)
  have ex: "(truthy excludeId \<longrightarrow> Some i \<noteq> excludeId) \<longleftrightarrow> Some i \<noteq> excludeId" for i
    using assms(4) by (cases excludeId) auto
  have "isInr (assertVehicleFree d vehicleId from till excludeId) \<longleftrightarrow>
    (\<exists>v. find_vehicle d vehicleId = Some v \<and> v_status v \<noteq> MAINTENANCE \<and> v_status v \<noteq> OUT_OF_FLEET) \<and>
    (\<forall>k\<in>set (d_blocks d). cb_vehicleId k = vehicleId \<longrightarrow>
        \<not> (\<exists>t. from \<le> t \<and> t < till \<and> cb_startsAt k \<le> t \<and> t < cb_endsAt k)) \<and>
    (\<forall>x\<in>set (d_reservations d). r_vehicleId x = vehicleId \<and> active_status (r_status x) \<and>
        Some (r_id x) \<noteq> excludeId \<longrightarrow> \<not> (\<exists>t. from \<le> t \<and> t < till \<and> r_pickupAt x \<le> t \<and> t < r_returnAt x))"
    by (simp add: isInr_iff assertVehicleFree_Inr clashing_reservation_None ex b r cong: ball_cong)
  then show ?thesis by blast
qed

theorem vehicle_free_iff_witness:
  "isInr (assertVehicleFree demo_db ''v1'' (day_at 4) (day_at 5) None) \<and>
   \<not> isInr (assertVehicleFree demo_db ''v1'' (day_at 3) (day_at 5) None)"
proof -
  have b: "list_all (\<lambda>b. cb_startsAt b < cb_endsAt b) (d_blocks demo_db)"
    and r: "list_all (\<lambda>r. r_pickupAt r < r_returnAt r) (d_reservations demo_db)" by code_simp+
  have v: "find_vehicle demo_db ''v1'' = Some demo_vehicle" "v_status demo_vehicle = AVAILABLE"
    by code_simp+
  have s: "set (d_blocks demo_db) = {}" "set (d_reservations demo_db) = {demo_reservation}"
    by (simp_all add: demo_db_def empty_db_def)
  show ?thesis
  proof
    show "isInr (assertVehicleFree demo_db ''v1'' (day_at 4) (day_at 5) None)"
      using vehicle_free_iff [OF _ b r, of "day_at 4" "day_at 5" None "''v1''"] v
      by (simp add: s demo_reservation_def)
    have "\<exists>t. day_at 3 \<le> t \<and> t < day_at 5 \<and> r_pickupAt demo_reservation \<le> t \<and> t < r_returnAt demo_reservation"
      by (rule exI [of _ "day_at 3"]) (simp add: demo_reservation_def)
    moreover have "active_status (r_status demo_reservation)" "r_vehicleId demo_reservation = ''v1''" by code_simp+
    ultimately show "\<not> isInr (assertVehicleFree demo_db ''v1'' (day_at 3) (day_at 5) None)"
      using vehicle_free_iff [OF _ b r, of "day_at 3" "day_at 5" None "''v1''"] by (auto simp: s)
  qed
qed

text \<open>
  C27: The availability listing and the booking check agree on the vehicles that are AVAILABLE: the list for a station
  holds exactly the vehicles based there, of the requested class and in status AVAILABLE, that a booking
  of the same window would be accepted for. (A vehicle that is RENTED or in TRANSIT may be booked and is not listed.)
\<close>

theorem availability_agrees_with_booking:
  assumes "keyed v_id (d_vehicles d)" "find_station d (aq_stationId q) = Some station"
  shows "set (av_vehicles (runAvailabilityForStation d q station)) =
    {v \<in> set (d_vehicles d). v_homeStationId v = aq_stationId q \<and> v_companyId v = st_companyId station \<and>
       v_status v = AVAILABLE \<and> (truthy (aq_vehicleClassId q) \<longrightarrow> Some (v_vehicleClassId v) = aq_vehicleClassId q) \<and>
       isInr (assertVehicleFree d (v_id v) (aq_from q) (aq_to q) (aq_excludeReservationId q))}"
proof -
  define P :: "vehicle \<Rightarrow> bool" where "P v \<longleftrightarrow> v_homeStationId v = aq_stationId q \<and> v_companyId v = st_companyId station \<and>
       v_status v = AVAILABLE \<and> (truthy (aq_vehicleClassId q) \<longrightarrow> Some (v_vehicleClassId v) = aq_vehicleClassId q)" for v
  define free where "free = filter (\<lambda>v. \<not> has_block_overlap d q v) (station_candidates d q station)"
  have A: "set (av_vehicles (runAvailabilityForStation d q station)) =
      {v \<in> set free. v_id v \<notin> set (busy_vehicles d q free)}"
    by (auto simp: runAvailabilityForStation_def Let_def free_def availability_payload_def filter_empty_conv)
  have B: "v_id v \<notin> set (busy_vehicles d q free) \<longleftrightarrow>
      clashing_reservation d (v_id v) (aq_from q) (aq_to q) (aq_excludeReservationId q) = None"
    if "v \<in> set free" for v
  proof -
    have "v_id v \<in> v_id ` set free" using that by (rule imageI)
    then show ?thesis
      unfolding busy_vehicles_def clashing_reservation_def find_None_iff set_map set_filter
      by (smt (verit) image_iff mem_Collect_eq)
  qed
  have C: "v \<in> set free \<longleftrightarrow> v \<in> set (d_vehicles d) \<and> P v \<and>
      (\<forall>k\<in>set (d_blocks d). cb_vehicleId k = v_id v \<longrightarrow>
         \<not> halfOpenRangesOverlap (aq_from q) (aq_to q) (cb_startsAt k) (cb_endsAt k))" for v
    by (auto simp: free_def station_candidates_def has_block_overlap_def list_ex_iff P_def)
  have D: "isInr (assertVehicleFree d (v_id v) a b ex) \<longleftrightarrow>
      (\<forall>k\<in>set (d_blocks d). cb_vehicleId k = v_id v \<longrightarrow> \<not> halfOpenRangesOverlap a b (cb_startsAt k) (cb_endsAt k)) \<and>
      clashing_reservation d (v_id v) a b ex = None"
    if "v \<in> set (d_vehicles d)" "P v" for v a b ex
    using vehicles.find_keyed [OF assms(1) that(1) refl] that(2)
    by (simp add: isInr_iff assertVehicleFree_Inr find_vehicle_def P_def)
  have "v \<in> set (av_vehicles (runAvailabilityForStation d q station)) \<longleftrightarrow>
      v \<in> set (d_vehicles d) \<and> P v \<and>
      isInr (assertVehicleFree d (v_id v) (aq_from q) (aq_to q) (aq_excludeReservationId q))" for v
    unfolding A mem_Collect_eq
    using B [of v] C [of v] D [of v "aq_from q" "aq_to q" "aq_excludeReservationId q"] by argo
  then show ?thesis unfolding P_def by (simp add: set_eq_iff)
qed

definition demo_query :: availability_query where
  "demo_query = \<lparr>aq_stationId = ''rome'', aq_from = day_at 3, aq_to = day_at 5, aq_vehicleClassId = None,
     aq_excludeReservationId = None\<rparr>"

theorem availability_agrees_with_booking_witness:
  "demo_vehicle2 \<in> set (av_vehicles (runAvailabilityForStation demo_db demo_query demo_station)) \<and>
   demo_vehicle \<notin> set (av_vehicles (runAvailabilityForStation demo_db demo_query demo_station))"
proof -
  have k: "keyed v_id (d_vehicles demo_db)" by code_simp
  have s: "find_station demo_db (aq_stationId demo_query) = Some demo_station" by code_simp
  have c: "isInr (assertVehicleFree demo_db (v_id demo_vehicle2) (aq_from demo_query) (aq_to demo_query)
      (aq_excludeReservationId demo_query))"
    "\<not> isInr (assertVehicleFree demo_db (v_id demo_vehicle) (aq_from demo_query) (aq_to demo_query)
      (aq_excludeReservationId demo_query))" by code_simp+
  show ?thesis
    unfolding availability_agrees_with_booking [OF k s] using c
    by (simp add: demo_db_def demo_vehicle2_def demo_vehicle_def demo_query_def demo_station_def)
qed

section \<open>Writes that keep the calendar\<close>

lemma bookings_ok_insert:
  assumes "bookings_ok d" "find_reservation d (r_id r) = None" "r_pickupAt r < r_returnAt r"
    and "assertVehicleFree d (r_vehicleId r) (r_pickupAt r) (r_returnAt r) None = Inr ()"
  shows "bookings_ok (d_reservations_update (\<lambda>rs. rs @ [r]) d)"
  using assms booking_calendar.book [of d r] reservations.keyed_insert [of d r]
  by (simp add: bookings_ok_def no_double_booking_def find_reservation_def booking_free_def booking_slot_def)

lemma bookings_ok_update_same:
  assumes "bookings_ok d" "\<And>r. r_id (f r) = r_id r" "\<And>r. booking_slot (f r) = booking_slot r"
    and "\<And>r. r \<in> set (d_reservations d) \<Longrightarrow> r_id r = i \<Longrightarrow> holds (f r) \<Longrightarrow> holds r"
  shows "bookings_ok (d_reservations_update (update_row r_id i f) d)"
proof -
  have "r_pickupAt (f r) < r_returnAt (f r) \<longleftrightarrow> r_pickupAt r < r_returnAt r" for r
    using assms(3) [of r] by (simp add: booking_slot_def)
  then have "list_all (\<lambda>r. r_pickupAt r < r_returnAt r) (update_row r_id i f (d_reservations d))"
    using assms(1) by (auto simp: bookings_ok_def update_row_def list_all_iff)
  then show ?thesis
    using assms booking_calendar.retire [of d i f] reservations.keyed_update [of d f i]
    by (simp add: bookings_ok_def no_double_booking_def)
qed

lemma bookings_ok_update_moved:
  assumes "bookings_ok d" "\<And>r. r_id (f r) = r_id r"
    and "find_reservation d i = Some r0" "booking_slot (f r0) = s" "r_pickupAt (f r0) < r_returnAt (f r0)"
    and "booking_free d s (Some i) = Inr ()"
  shows "bookings_ok (d_reservations_update (update_row r_id i f) d)"
proof -
  have only: "r = r0" if "r \<in> set (d_reservations d)" "r_id r = i" for r
    using reservations.find_keyed [of d r i] assms(1,3) that by (simp add: bookings_ok_def find_reservation_def)
  have "disjoint_slots (taken holds booking_slot (update_row r_id i f (d_reservations d)))"
    using assms only by (intro booking_calendar.rebook [OF _ _ assms(6)]) (auto simp: bookings_ok_def no_double_booking_def)
  moreover have "list_all (\<lambda>r. r_pickupAt r < r_returnAt r) (update_row r_id i f (d_reservations d))"
    using assms(1,5) only by (auto simp: bookings_ok_def update_row_def list_all_iff)
  ultimately show ?thesis
    using assms reservations.keyed_update [of d f i] by (simp add: bookings_ok_def no_double_booking_def)
qed

lemma bookings_ok_delete:
  "bookings_ok d \<Longrightarrow> bookings_ok (d_reservations_update (delete_row r_id i) d)"
  using booking_calendar.cancel [of d i] reservations.keyed_delete [of d i]
  by (auto simp: bookings_ok_def no_double_booking_def list_all_iff delete_row_def)

lemma bookings_ok_cong:
  "d_reservations d' = d_reservations d \<Longrightarrow> bookings_ok d' = bookings_ok d"
  by (simp add: bookings_ok_def no_double_booking_def)

end
