(* ===== verification/Handover.thy ===== *)
theory Handover
  imports Fixtures
begin

text \<open>
  \<open>apps/api/src/reservation/reservation-handover.util.ts\<close>,
  \<open>reservation-return-completion.util.ts\<close> and
  \<open>apps/api/src/organization/customer/customer-b4-email.util.ts\<close>: the gates a rental passes
  before the keys are handed over, before it is completed, and before a desk mail goes out.
\<close>

section \<open>Flags of the environment\<close>

definition envOn :: "env \<Rightarrow> string \<Rightarrow> bool \<Rightarrow> bool" where
  "envOn env nm defaultOn =
     (case env nm of
        None \<Rightarrow> defaultOn
      | Some v \<Rightarrow>
          if v = ''0'' \<or> v = ''false'' \<or> v = ''no'' \<or> v = ''off'' then False
          else if v = ''1'' \<or> v = ''true'' \<or> v = ''yes'' \<or> v = ''on'' then True
          else defaultOn)"

definition handoverRequiresVerifiedIdDocuments :: "env \<Rightarrow> bool" where
  "handoverRequiresVerifiedIdDocuments env = envOn env ''HANDOVER_REQUIRE_VERIFIED_ID_DOCUMENTS'' False"

definition ID_STYLE_DOCUMENT_TYPES :: "document_type list" where
  "ID_STYLE_DOCUMENT_TYPES = [DRIVING_LICENSE, ID_CARD, PASSPORT]"

section \<open>The handover gate\<close>

datatype handover_blocker =
    AGREEMENT_NOT_SIGNED | CARGOS_REQUIRED | CARGOS_ENQUEUE_CUTOFF | ID_DOCS_UPLOAD | ID_DOCS_LINK_CUSTOMER

fun handover_code :: "handover_blocker \<Rightarrow> string" where
  "handover_code AGREEMENT_NOT_SIGNED = ''AGREEMENT_NOT_SIGNED''"
| "handover_code CARGOS_REQUIRED = ''CARGOS_REQUIRED''"
| "handover_code CARGOS_ENQUEUE_CUTOFF = ''CARGOS_ENQUEUE_CUTOFF''"
| "handover_code ID_DOCS_UPLOAD = ''ID_DOCS_UPLOAD''"
| "handover_code ID_DOCS_LINK_CUSTOMER = ''ID_DOCS_LINK_CUSTOMER''"

record gate_slice =
  gs_pickupAt :: time
  gs_cutoffMinutes :: "int option"
  gs_customerId :: "string option"
  gs_agreement :: "agreement_status option"
  gs_overrideAt :: "time option"
  gs_submissions :: "cargos_status list"

record handover_gate =
  hg_ready :: bool
  hg_blockerCodes :: "handover_blocker list"
  hg_agreementSigned :: bool
  hg_cargosOk :: bool
  hg_cargosOverridden :: bool
  hg_idDocumentsOk :: bool
  hg_requireIdDocuments :: bool
  hg_requireVerifiedIdDocuments :: bool
  hg_requireCargos :: bool
  hg_cargosTransmissionRequired :: bool
  hg_requireSignedAgreement :: bool

definition isPastCargosEnqueueCutoff :: "time \<Rightarrow> int option \<Rightarrow> time \<Rightarrow> bool" where
  "isPastCargosEnqueueCutoff pickupAt cutoffMinutes now =
     (case cutoffMinutes of
        None \<Rightarrow> False
      | Some m \<Rightarrow> if m \<le> 0 then False else now > pickupAt - m * 60000)"

datatype override_intent = OverrideUnchanged | OverrideClear | OverrideSet

definition handover_blockers ::
  "env \<Rightarrow> time \<Rightarrow> gate_slice \<Rightarrow> bool \<Rightarrow> bool \<Rightarrow> bool \<Rightarrow> bool \<Rightarrow> bool \<Rightarrow> handover_blocker list" where
  "handover_blockers env now r agreementSigned hasResolvedCargos cargosOverridden transmissionRequired idDocumentsOk =
     (if envOn env ''HANDOVER_REQUIRE_SIGNED_AGREEMENT'' True \<and> \<not> agreementSigned
      then [AGREEMENT_NOT_SIGNED] else []) @
     (if transmissionRequired \<and> \<not> hasResolvedCargos \<and> \<not> cargosOverridden
      then (if isPastCargosEnqueueCutoff (gs_pickupAt r) (gs_cutoffMinutes r) now
            then [CARGOS_ENQUEUE_CUTOFF] else [CARGOS_REQUIRED]) else []) @
     (if envOn env ''HANDOVER_REQUIRE_ID_DOCUMENTS'' False \<and> \<not> idDocumentsOk
      then (if truthy (gs_customerId r) then [ID_DOCS_UPLOAD] else [ID_DOCS_LINK_CUSTOMER]) else [])"

definition computeHandoverGate ::
  "env \<Rightarrow> time \<Rightarrow> gate_slice \<Rightarrow> nat \<Rightarrow> company \<Rightarrow> override_intent \<Rightarrow> handover_gate" where
  "computeHandoverGate env now r completedIdStyleDocCount companyCargos overrideIntent =
     (let requireSignedAgreement = envOn env ''HANDOVER_REQUIRE_SIGNED_AGREEMENT'' True;
          requireCargos = envOn env ''HANDOVER_REQUIRE_CARGOS'' True;
          requireIdDocuments = envOn env ''HANDOVER_REQUIRE_ID_DOCUMENTS'' False;
          requireVerifiedIdDocuments = envOn env ''HANDOVER_REQUIRE_VERIFIED_ID_DOCUMENTS'' False;
          agreementSigned = (gs_agreement r = Some AGREEMENT_SIGNED);
          hasResolvedCargos = list_ex (\<lambda>s. s = CG_MOCK_SENT \<or> s = CG_SKIPPED) (gs_submissions r);
          cargosOverridden =
            (case overrideIntent of
               OverrideUnchanged \<Rightarrow> gs_overrideAt r \<noteq> None
             | OverrideClear \<Rightarrow> False
             | OverrideSet \<Rightarrow> True);
          cargosTransmissionRequired =
            (requireCargos \<and> co_cargosInScope companyCargos \<and> co_cargosAdapter companyCargos \<noteq> ADAPTER_OFF);
          cargosOk = (\<not> cargosTransmissionRequired \<or> hasResolvedCargos \<or> cargosOverridden);
          idDocumentsOk =
            (\<not> requireIdDocuments \<or> (gs_customerId r \<noteq> None \<and> completedIdStyleDocCount > 0));
          blockerCodes = handover_blockers env now r agreementSigned hasResolvedCargos cargosOverridden
            cargosTransmissionRequired idDocumentsOk
      in \<lparr>hg_ready = (length blockerCodes = 0), hg_blockerCodes = blockerCodes,
          hg_agreementSigned = agreementSigned, hg_cargosOk = cargosOk, hg_cargosOverridden = cargosOverridden,
          hg_idDocumentsOk = idDocumentsOk, hg_requireIdDocuments = requireIdDocuments,
          hg_requireVerifiedIdDocuments = requireVerifiedIdDocuments, hg_requireCargos = requireCargos,
          hg_cargosTransmissionRequired = cargosTransmissionRequired,
          hg_requireSignedAgreement = requireSignedAgreement\<rparr>)"

definition assertInProgressHandoverGates ::
  "env \<Rightarrow> time \<Rightarrow> gate_slice \<Rightarrow> nat \<Rightarrow> company \<Rightarrow> override_intent \<Rightarrow> unit result" where
  "assertInProgressHandoverGates env now r docs companyCargos intent =
     (let g = computeHandoverGate env now r docs companyCargos intent
      in if \<not> hg_ready g then Inl (Blocked ''HANDOVER_BLOCKED'' (map handover_code (hg_blockerCodes g)))
         else Inr ())"

lemma gate_ready_iff:
  "isInr (assertInProgressHandoverGates env now r docs policy intent) \<longleftrightarrow>
     (gs_agreement r = Some AGREEMENT_SIGNED \<or> \<not> envOn env ''HANDOVER_REQUIRE_SIGNED_AGREEMENT'' True) \<and>
     (CG_MOCK_SENT \<in> set (gs_submissions r) \<or> CG_SKIPPED \<in> set (gs_submissions r) \<or> intent = OverrideSet \<or>
        intent = OverrideUnchanged \<and> gs_overrideAt r \<noteq> None \<or>
        \<not> envOn env ''HANDOVER_REQUIRE_CARGOS'' True \<or> \<not> co_cargosInScope policy \<or>
        co_cargosAdapter policy = ADAPTER_OFF) \<and>
     (gs_customerId r \<noteq> None \<and> 0 < docs \<or> \<not> envOn env ''HANDOVER_REQUIRE_ID_DOCUMENTS'' False)"
proof -
  have "list_ex (\<lambda>s. s = CG_MOCK_SENT \<or> s = CG_SKIPPED) xs \<longleftrightarrow> CG_MOCK_SENT \<in> set xs \<or> CG_SKIPPED \<in> set xs" for xs
    by (auto simp: list_ex_iff)
  then show ?thesis
    by (cases intent)
      (simp_all add: assertInProgressHandoverGates_def computeHandoverGate_def handover_blockers_def Let_def, blast+)
qed

text \<open>
  The handover gate opens exactly when every requirement the environment switches on is met:
  a signed agreement (required by default), a CaRGOS transmission that succeeded or was skipped or
  is overridden (required by default for a company in scope with an adapter), and, when asked for,
  a linked customer with at least one completed identity document.
\<close>

theorem handover_gate_ready_iff:
  "isInr (assertInProgressHandoverGates env now r docs policy intent) \<longleftrightarrow>
     (gs_agreement r = Some AGREEMENT_SIGNED \<or> \<not> envOn env ''HANDOVER_REQUIRE_SIGNED_AGREEMENT'' True) \<and>
     (CG_MOCK_SENT \<in> set (gs_submissions r) \<or> CG_SKIPPED \<in> set (gs_submissions r) \<or> intent = OverrideSet \<or>
        intent = OverrideUnchanged \<and> gs_overrideAt r \<noteq> None \<or>
        \<not> envOn env ''HANDOVER_REQUIRE_CARGOS'' True \<or> \<not> co_cargosInScope policy \<or>
        co_cargosAdapter policy = ADAPTER_OFF) \<and>
     (gs_customerId r \<noteq> None \<and> 0 < docs \<or> \<not> envOn env ''HANDOVER_REQUIRE_ID_DOCUMENTS'' False)"
  by (rule gate_ready_iff)

theorem handover_gate_ready_iff_witness:
  "isInr (assertInProgressHandoverGates demo_env 0 \<lparr>gs_pickupAt = 10, gs_cutoffMinutes = None, gs_customerId = None,
       gs_agreement = Some AGREEMENT_SIGNED, gs_overrideAt = None, gs_submissions = [CG_MOCK_SENT]\<rparr> 0 demo_company OverrideUnchanged)"
  by (simp add: handover_gate_ready_iff envOn_def demo_env_def)

section \<open>The return gate\<close>

definition returnRequireOdometerIn :: "env \<Rightarrow> bool" where
  "returnRequireOdometerIn env = envOn env ''RETURN_REQUIRE_ODOMETER_IN'' False"

definition returnRequireReturnChecklist :: "env \<Rightarrow> bool" where
  "returnRequireReturnChecklist env = envOn env ''RETURN_REQUIRE_RETURN_CHECKLIST'' False"

definition returnRequireFuelIn :: "env \<Rightarrow> bool" where
  "returnRequireFuelIn env = envOn env ''RETURN_REQUIRE_FUEL_IN'' False"

datatype return_blocker = ODOMETER_IN_REQUIRED | RETURN_CHECKLIST_INCOMPLETE | FUEL_IN_REQUIRED

fun return_code :: "return_blocker \<Rightarrow> string" where
  "return_code ODOMETER_IN_REQUIRED = ''ODOMETER_IN_REQUIRED''"
| "return_code RETURN_CHECKLIST_INCOMPLETE = ''RETURN_CHECKLIST_INCOMPLETE''"
| "return_code FUEL_IN_REQUIRED = ''FUEL_IN_REQUIRED''"

record return_gate =
  rg_relevant :: bool
  rg_ready :: bool
  rg_blockerCodes :: "return_blocker list"
  rg_requireOdometerIn :: bool
  rg_requireReturnChecklist :: bool
  rg_requireFuelIn :: bool
  rg_odometerInOk :: bool
  rg_checklistOk :: bool
  rg_fuelInOk :: bool

definition isReturnChecklistComplete :: "checklist_item list option \<Rightarrow> bool" where
  "isReturnChecklistComplete raw =
     (case raw of None \<Rightarrow> False | Some items \<Rightarrow> if items = [] then False else list_all ci_ok items)"

definition fuelInPresent :: "int option \<Rightarrow> bool" where
  "fuelInPresent fuelInPercent = (case fuelInPercent of None \<Rightarrow> False | Some f \<Rightarrow> f \<ge> 0 \<and> f \<le> 100)"

definition odometerInPresent :: "int option \<Rightarrow> bool" where
  "odometerInPresent odometerInKm = (case odometerInKm of None \<Rightarrow> False | Some k \<Rightarrow> k \<ge> 0)"

definition computeReturnCompletionGate ::
  "env \<Rightarrow> int option \<Rightarrow> int option \<Rightarrow> checklist_item list option \<Rightarrow> return_gate" where
  "computeReturnCompletionGate env odometerInKm fuelInPercent returnChecklist =
     (let requireOdometerIn = returnRequireOdometerIn env;
          requireReturnChecklist = returnRequireReturnChecklist env;
          requireFuelIn = returnRequireFuelIn env;
          blockerCodes =
            (if requireOdometerIn \<and> \<not> odometerInPresent odometerInKm then [ODOMETER_IN_REQUIRED] else []) @
            (if requireReturnChecklist \<and> \<not> isReturnChecklistComplete returnChecklist
             then [RETURN_CHECKLIST_INCOMPLETE] else []) @
            (if requireFuelIn \<and> \<not> fuelInPresent fuelInPercent then [FUEL_IN_REQUIRED] else [])
      in \<lparr>rg_relevant = (requireOdometerIn \<or> requireReturnChecklist \<or> requireFuelIn),
          rg_ready = (length blockerCodes = 0), rg_blockerCodes = blockerCodes,
          rg_requireOdometerIn = requireOdometerIn, rg_requireReturnChecklist = requireReturnChecklist,
          rg_requireFuelIn = requireFuelIn,
          rg_odometerInOk = (\<not> requireOdometerIn \<or> odometerInPresent odometerInKm),
          rg_checklistOk = (\<not> requireReturnChecklist \<or> isReturnChecklistComplete returnChecklist),
          rg_fuelInOk = (\<not> requireFuelIn \<or> fuelInPresent fuelInPercent)\<rparr>)"

definition assertReturnCompletionGates ::
  "env \<Rightarrow> int option \<Rightarrow> int option \<Rightarrow> checklist_item list option \<Rightarrow> unit result" where
  "assertReturnCompletionGates env odometerInKm fuelInPercent returnChecklist =
     (let g = computeReturnCompletionGate env odometerInKm fuelInPercent returnChecklist
      in if \<not> rg_ready g then Inl (Blocked ''RETURN_BLOCKED'' (map return_code (rg_blockerCodes g)))
         else Inr ())"

lemma assertReturnCompletionGates_Inr:
  "assertReturnCompletionGates env k f c = Inr u \<longleftrightarrow>
     (returnRequireOdometerIn env \<longrightarrow> odometerInPresent k) \<and>
     (returnRequireReturnChecklist env \<longrightarrow> isReturnChecklistComplete c) \<and>
     (returnRequireFuelIn env \<longrightarrow> fuelInPresent f)"
  by (simp add: assertReturnCompletionGates_def computeReturnCompletionGate_def Let_def)

text \<open>The view shown at the desk and the blockers the update refuses with say the same.\<close>

lemma return_gate_view:
  "rg_ready (computeReturnCompletionGate env k f c) \<longleftrightarrow>
     rg_odometerInOk (computeReturnCompletionGate env k f c) \<and>
     rg_checklistOk (computeReturnCompletionGate env k f c) \<and>
     rg_fuelInOk (computeReturnCompletionGate env k f c)"
  by (simp add: computeReturnCompletionGate_def Let_def)

section \<open>Consent before a desk mail\<close>

record b4_snapshot =
  b4_privacyNoticeVersion :: "string option"
  b4_privacyNoticeAcceptedAt :: "string option"
  b4_marketingEmailOptIn :: bool
  b4_marketingOptInAt :: "string option"

definition b4Snapshot :: "customer \<Rightarrow> b4_snapshot" where
  "b4Snapshot row =
     \<lparr>b4_privacyNoticeVersion = cu_privacyNoticeVersion row,
      b4_privacyNoticeAcceptedAt = map_option toISOString (cu_privacyNoticeAcceptedAt row),
      b4_marketingEmailOptIn = cu_marketingEmailOptIn row,
      b4_marketingOptInAt = map_option toISOString (cu_marketingOptInAt row)\<rparr>"

definition assertDeskEmailB4ForReservation ::
  "db \<Rightarrow> string \<Rightarrow> string option \<Rightarrow> (b4_snapshot option \<times> string option) result" where
  "assertDeskEmailB4ForReservation d companyId customerId =
     (let notices = filter (\<lambda>n. pn_companyId n = companyId) (d_notices d)
      in if length notices = 0 then Inr (None, customerId)
         else if \<not> truthy customerId
         then Inl (BadRequest ''Link a customer with an accepted privacy notice (B4) before emailing this guest. The company privacy register requires a recorded notice version on the customer profile.'')
         else
           case find_customer d (the customerId) of
             None \<Rightarrow> Inl (BadRequest ''Linked customer not found for this company.'')
           | Some c \<Rightarrow>
               if cu_companyId c \<noteq> companyId
               then Inl (BadRequest ''Linked customer not found for this company.'')
               else if cu_anonymizedAt c \<noteq> None
               then Inl (BadRequest ''Cannot email an anonymized customer profile (B4).'')
               else
                 let version = map_option trim (cu_privacyNoticeVersion c)
                 in if \<not> truthy version \<or> cu_privacyNoticeAcceptedAt c = None
                    then Inl (BadRequest ''Customer must have privacyNoticeVersion and acceptance recorded (B4) before emailing.'')
                    else if \<not> list_ex (\<lambda>n. Some (pn_version n) = version) notices
                    then Inl (BadRequest ''Customer privacy notice version must match an entry in the company privacy register (B4).'')
                    else Inr (Some (b4Snapshot c), customerId))"

text \<open>
  Where a company keeps a privacy register, a desk mail is let through only for a linked, not
  anonymised customer of that company with a recorded acceptance of a version in the register.
\<close>

theorem desk_email_needs_consent:
  assumes "assertDeskEmailB4ForReservation d companyId customerId = Inr (snapshot, c)"
    and "n \<in> set (d_notices d)" "pn_companyId n = companyId"
  shows "\<exists>i cust v. customerId = Some i \<and> find_customer d i = Some cust \<and> cu_companyId cust = companyId \<and>
    cu_anonymizedAt cust = None \<and> cu_privacyNoticeAcceptedAt cust \<noteq> None \<and>
    map_option trim (cu_privacyNoticeVersion cust) = Some v \<and>
    (\<exists>m\<in>set (d_notices d). pn_companyId m = companyId \<and> pn_version m = v)"
proof -
  have "filter (\<lambda>n. pn_companyId n = companyId) (d_notices d) \<noteq> []"
    using assms(2,3) by (auto simp: filter_empty_conv)
  then show ?thesis
    using assms(1)
    by (auto simp: assertDeskEmailB4ForReservation_def Let_def truthy_iff list_ex_iff split: if_splits option.splits)
qed

definition demo_register :: db where
  "demo_register = demo_db\<lparr>d_notices := [\<lparr>pn_id = ''n1'', pn_companyId = ''acme'', pn_version = ''2025-10'',
     pn_policyUrl = None, pn_effectiveFrom = None, pn_notes = None\<rparr>],
     d_customers := [demo_customer\<lparr>cu_privacyNoticeVersion := Some '' 2025-10'',
       cu_privacyNoticeAcceptedAt := Some 0\<rparr>]\<rparr>"

theorem desk_email_needs_consent_witness:
  "\<exists>cust. find_customer demo_register ''c1'' = Some cust \<and> cu_privacyNoticeAcceptedAt cust \<noteq> None \<and>
     cu_companyId cust = ''acme''"
proof -
  let ?c = "demo_customer\<lparr>cu_privacyNoticeVersion := Some '' 2025-10'', cu_privacyNoticeAcceptedAt := Some 0\<rparr>"
  have "assertDeskEmailB4ForReservation demo_register ''acme'' (Some ''c1'') = Inr (Some (b4Snapshot ?c), Some ''c1'')"
    by code_simp
  from desk_email_needs_consent [OF this, of "\<lparr>pn_id = ''n1'', pn_companyId = ''acme'', pn_version = ''2025-10'',
     pn_policyUrl = None, pn_effectiveFrom = None, pn_notes = None\<rparr>"]
  show ?thesis by (auto simp: demo_register_def)
qed

end
