(* ===== verification/Reservation_Core.thy ===== *)
theory Reservation_Core
  imports Booking_Calendar Handover
begin

text \<open>
  The staff side of \<open>apps/api/src/reservation/reservation.service.ts\<close> except the update: the
  scoped lookup, the lists, the detail view with its gates, the creation, the summary mail and
  the deletion of drafts. \<open>sha256\<close> is the hash of the runtime's crypto library.
\<close>

section \<open>Reading\<close>

definition getScopedReservationRecord :: "db \<Rightarrow> env \<Rightarrow> jwt_user \<Rightarrow> string \<Rightarrow> reservation result" where
  "getScopedReservationRecord d env user i =
     (let msg = ''Reservation not found: '' @ i
      in andThen (orElse (find_reservation d i) (NotFound msg)) (\<lambda>r.
           andThen (assertSameCompany env user (r_companyId r) msg) (\<lambda>_.
           andThen (assertAgentReservationInScope user (r_pickupStationId r) (r_returnStationId r) msg) (\<lambda>_.
           Inr r))))"

lemma getScoped_Inr:
  "getScopedReservationRecord d env user i = Inr r \<longleftrightarrow>
     find_reservation d i = Some r \<and> may_see_company env user (r_companyId r) \<and>
     (branch_ok user (r_pickupStationId r) \<or> branch_ok user (r_returnStationId r))"
  by (auto simp: getScopedReservationRecord_def Let_def andThen_Inr)

interpretation reservation_rows: guarded_rows getScopedReservationRecord find_reservation r_companyId
  "\<lambda>r st. r_pickupStationId r = st \<or> r_returnStationId r = st"
proof unfold_locales
  fix d env user i e
  assume "getScopedReservationRecord d env user i = Inl e"
  then show "\<exists>m. e = NotFound m"
    by (auto simp: getScopedReservationRecord_def Let_def andThen_Inl assertSameCompany_def
        assertAgentReservationInScope_def split: if_splits)
qed (auto simp: getScoped_Inr branch_ok_def)

record reservation_filter =
  rf_q_companyId :: "string option"
  rf_q_vehicleId :: "string option"
  rf_q_customerId :: "string option"
  rf_q_status :: "reservation_status option"
  rf_q_statuses :: "reservation_status list"
  rf_q_from :: "time option"
  rf_q_to :: "time option"
  rf_q_source :: "reservation_source option"

definition list_company :: "env \<Rightarrow> jwt_user \<Rightarrow> string option \<Rightarrow> string option result" where
  "list_company env user companyId =
     (if isAdminCrossCompany env user then Inr companyId
      else if truthy companyId \<and> companyId \<noteq> Some (u_companyId user)
      then Inl (Forbidden ''Not allowed to access this company'')
      else Inr (Some (u_companyId user)))"

text \<open>The customer filter is checked against the company, and sets it for an unbound administrator.\<close>

definition list_customer :: "db \<Rightarrow> env \<Rightarrow> jwt_user \<Rightarrow> string option \<Rightarrow> string option \<Rightarrow> string option result" where
  "list_customer d env user customerId companyId =
     (if truthy customerId then
        (let msg = ''Customer not found: '' @ the customerId
         in andThen (orElse (find_customer d (the customerId)) (NotFound msg)) (\<lambda>cust.
            andThen (assertSameCompany env user (cu_companyId cust) msg) (\<lambda>_.
            if truthy companyId \<and> companyId \<noteq> Some (cu_companyId cust)
            then Inl (BadRequest ''customerId does not belong to the requested company'')
            else if \<not> truthy companyId \<and> isAdminCrossCompany env user
            then Inr (Some (cu_companyId cust))
            else Inr companyId)))
      else Inr companyId)"

definition window_overlaps :: "time option \<Rightarrow> time option \<Rightarrow> reservation \<Rightarrow> bool" where
  "window_overlaps from till r =
     (case (from, till) of
        (Some a, Some b) \<Rightarrow> r_pickupAt r < b \<and> r_returnAt r > a
      | _ \<Rightarrow> True)"

definition list_matches :: "reservation_filter \<Rightarrow> jwt_user \<Rightarrow> string option \<Rightarrow> reservation \<Rightarrow> bool" where
  "list_matches q user companyId r \<longleftrightarrow>
     (truthy companyId \<longrightarrow> Some (r_companyId r) = companyId) \<and>
     (truthy (rf_q_vehicleId q) \<longrightarrow> Some (r_vehicleId r) = rf_q_vehicleId q) \<and>
     (truthy (rf_q_customerId q) \<longrightarrow> r_customerId r = rf_q_customerId q) \<and>
     (if rf_q_statuses q \<noteq> [] then r_status r \<in> set (rf_q_statuses q)
      else (case rf_q_status q of None \<Rightarrow> True | Some s \<Rightarrow> r_status r = s)) \<and>
     (case rf_q_source q of None \<Rightarrow> True | Some s \<Rightarrow> r_source r = s) \<and>
     window_overlaps (rf_q_from q) (rf_q_to q) r \<and>
     (u_role user = AGENT \<and> truthy (u_stationId user) \<longrightarrow>
        Some (r_pickupStationId r) = u_stationId user \<or> Some (r_returnStationId r) = u_stationId user)"

definition list_unfiltered :: "reservation_filter \<Rightarrow> jwt_user \<Rightarrow> string option \<Rightarrow> bool" where
  "list_unfiltered q user companyId \<longleftrightarrow>
     \<not> truthy companyId \<and> \<not> truthy (rf_q_vehicleId q) \<and> \<not> truthy (rf_q_customerId q) \<and>
     rf_q_statuses q = [] \<and> rf_q_status q = None \<and> rf_q_source q = None \<and>
     (rf_q_from q = None \<or> rf_q_to q = None) \<and> \<not> (u_role user = AGENT \<and> truthy (u_stationId user))"

definition reservation_list :: "db \<Rightarrow> env \<Rightarrow> jwt_user \<Rightarrow> reservation_filter \<Rightarrow> reservation list result" where
  "reservation_list d env user q =
     andThen (list_company env user (rf_q_companyId q)) (\<lambda>companyId0.
     andThen (ensure (\<not> (rf_q_source q \<noteq> None \<and> \<not> truthy companyId0))
       (BadRequest ''companyId is required when filtering by source'')) (\<lambda>_.
     andThen (list_customer d env user (rf_q_customerId q) companyId0) (\<lambda>companyId.
     andThen (ensure (\<not> list_unfiltered q user companyId)
       (BadRequest ''Provide at least one filter, e.g. companyId, vehicleId, or from+to'')) (\<lambda>_.
     Inr (sort_key r_pickupAt (filter (list_matches q user companyId) (d_reservations d)))))))"

definition reservationStatusValues :: "reservation_status list" where
  "reservationStatusValues = [QUOTE, PENDING_PAYMENT, CONFIRMED, IN_PROGRESS, COMPLETED, NO_SHOW, CANCELLED]"

record reservation_summary =
  rs_companyId :: string
  rs_byStatus :: "(reservation_status \<times> nat) list"
  rs_publicWebOpenQuotes :: nat
  rs_upcomingPickupsNext7Days :: nat

definition getSummary :: "db \<Rightarrow> env \<Rightarrow> time \<Rightarrow> jwt_user \<Rightarrow> string \<Rightarrow> reservation_summary result" where
  "getSummary d env now user companyId =
     (if \<not> isAdminCrossCompany env user \<and> companyId \<noteq> u_companyId user
      then Inl (Forbidden ''Not allowed to access this company'')
      else
        let rows = filter (\<lambda>r. r_companyId r = companyId \<and>
              (u_role user = AGENT \<and> truthy (u_stationId user) \<longrightarrow>
                 Some (r_pickupStationId r) = u_stationId user \<or> Some (r_returnStationId r) = u_stationId user))
              (d_reservations d);
            in7d = now + 7 * 24 * 60 * 60 * 1000;
            num = (\<lambda>p. length (filter p rows))
        in Inr \<lparr>rs_companyId = companyId,
             rs_byStatus = map (\<lambda>s. (s, num (\<lambda>r. r_status r = s))) reservationStatusValues,
             rs_publicWebOpenQuotes = num (\<lambda>r. r_source r = PUBLIC_WEB \<and> r_status r = QUOTE),
             rs_upcomingPickupsNext7Days =
               num (\<lambda>r. r_status r \<in> set [PENDING_PAYMENT, CONFIRMED, IN_PROGRESS] \<and>
                        r_pickupAt r \<ge> now \<and> r_pickupAt r < in7d)\<rparr>)"

definition countCompletedIdStyleDocuments :: "db \<Rightarrow> env \<Rightarrow> string \<Rightarrow> string \<Rightarrow> nat" where
  "countCompletedIdStyleDocuments d env companyId customerId =
     length (filter (\<lambda>c. cd_companyId c = companyId \<and> cd_customerId c = customerId \<and>
         cd_docType c \<in> set ID_STYLE_DOCUMENT_TYPES \<and>
         (cd_storage c = LOCAL \<or> cd_uploadCompletedAt c \<noteq> None) \<and>
         (handoverRequiresVerifiedIdDocuments env \<longrightarrow> cd_verifiedAt c \<noteq> None))
       (d_documents d))"

text \<open>What the gate reads of a reservation: its agreement, its transmissions (newest first), its company.\<close>

definition agreement_of :: "db \<Rightarrow> string \<Rightarrow> rental_agreement option" where
  "agreement_of d i = List.find (\<lambda>a. ra_reservationId a = i) (d_agreements d)"

definition submissions_of :: "db \<Rightarrow> string \<Rightarrow> cargos_submission list" where
  "submissions_of d i = sort_key (\<lambda>s. - cs_createdAt s) (filter (\<lambda>s. cs_reservationId s = i) (d_cargos d))"

definition gate_slice_of :: "db \<Rightarrow> company \<Rightarrow> reservation \<Rightarrow> gate_slice" where
  "gate_slice_of d c r =
     \<lparr>gs_pickupAt = r_pickupAt r, gs_cutoffMinutes = co_cargosCutoffMinutesBeforePickup c,
      gs_customerId = r_customerId r, gs_agreement = map_option ra_status (agreement_of d (r_id r)),
      gs_overrideAt = r_cargosHandoverOverrideAt r, gs_submissions = map cs_status (submissions_of d (r_id r))\<rparr>"

definition id_count :: "db \<Rightarrow> env \<Rightarrow> reservation \<Rightarrow> nat" where
  "id_count d env r =
     (if truthy (r_customerId r) then countCompletedIdStyleDocuments d env (r_companyId r) (the (r_customerId r)) else 0)"

record reservation_view =
  rv_row :: reservation
  rv_handoverGate :: handover_gate
  rv_returnGate :: return_gate

definition reservation_getOne :: "db \<Rightarrow> env \<Rightarrow> time \<Rightarrow> jwt_user \<Rightarrow> string \<Rightarrow> reservation_view result" where
  "reservation_getOne d env now user i =
     andThen (getScopedReservationRecord d env user i) (\<lambda>r.
     andThen (orElse (find_company d (r_companyId r)) (Crash ''company'')) (\<lambda>c.
     Inr \<lparr>rv_row = r,
          rv_handoverGate = computeHandoverGate env now (gate_slice_of d c r) (id_count d env r) c OverrideUnchanged,
          rv_returnGate = computeReturnCompletionGate env (r_odometerInKm r) (r_fuelInPercent r) (r_returnChecklist r)\<rparr>))"

section \<open>Creating\<close>

record create_reservation_input =
  nr_companyId :: string
  nr_vehicleId :: string
  nr_pickupStationId :: string
  nr_returnStationId :: string
  nr_pickupAt :: time
  nr_returnAt :: time
  nr_status :: "reservation_status option"
  nr_customerId :: "string option"
  nr_customerName :: "string option"
  nr_customerEmail :: "string option"
  nr_customerPhone :: "string option"
  nr_totalCents :: "int option"
  nr_currency :: string
  nr_notes :: "string option"
  nr_extraLines :: "(string \<times> int) list option"

record contact =
  ct_customerId :: "string option"
  ct_name :: string
  ct_email :: string
  ct_phone :: string

definition find_company_customer :: "db \<Rightarrow> string \<Rightarrow> string \<Rightarrow> customer option" where
  "find_company_customer d i companyId =
     (case find_customer d i of
        None \<Rightarrow> None
      | Some c \<Rightarrow> if cu_companyId c = companyId then Some c else None)"

definition or_else :: "'a option \<Rightarrow> 'a \<Rightarrow> 'a" where
  "or_else x y = (case x of None \<Rightarrow> y | Some z \<Rightarrow> z)"

definition resolveCustomerContactForCreate :: "db \<Rightarrow> create_reservation_input \<Rightarrow> contact result" where
  "resolveCustomerContactForCreate d inp =
     (if truthy (nr_customerId inp) then
        andThen (orElse (find_company_customer d (the (nr_customerId inp)) (nr_companyId inp))
          (NotFound ''Customer not found for this company'')) (\<lambda>c.
        Inr \<lparr>ct_customerId = Some (cu_id c), ct_name = trim (or_else (nr_customerName inp) (cu_name c)),
             ct_email = toLowerCase (trim (or_else (nr_customerEmail inp) (cu_email c))),
             ct_phone = trim (or_else (nr_customerPhone inp) (cu_phone c))\<rparr>)
      else case (nr_customerName inp, nr_customerEmail inp, nr_customerPhone inp) of
             (Some nm, Some em, Some ph) \<Rightarrow>
               Inr \<lparr>ct_customerId = None, ct_name = trim nm, ct_email = toLowerCase (trim em), ct_phone = trim ph\<rparr>
           | _ \<Rightarrow> Inl (Crash ''TypeError''))"

definition resolveTotalCents :: "db \<Rightarrow> create_reservation_input \<Rightarrow> int option" where
  "resolveTotalCents d inp =
     (case nr_totalCents inp of
        Some t \<Rightarrow> Some t
      | None \<Rightarrow>
          computeAutoTotalCents d (nr_companyId inp) (nr_vehicleId inp) (nr_pickupAt inp) (nr_returnAt inp)
            (nr_pickupStationId inp) (nr_returnStationId inp) (map snd (or_else (nr_extraLines inp) [])))"

definition line_creates :: "(string \<times> int) list \<Rightarrow> extra_line list" where
  "line_creates es =
     map (\<lambda>(i, (l, a)). \<lparr>xl_label = l, xl_amountCents = a, xl_sortOrder = i\<rparr>) (enumerate 0 es)"

text \<open>The row written for a booking, with the defaults of the columns it does not set.\<close>

definition new_reservation ::
  "string \<Rightarrow> time \<Rightarrow> create_reservation_input \<Rightarrow> reservation_source \<Rightarrow> string option \<Rightarrow> contact \<Rightarrow> int option \<Rightarrow> reservation" where
  "new_reservation newId now inp src keyId contact totalCents =
     \<lparr>r_id = newId, r_companyId = nr_companyId inp, r_vehicleId = nr_vehicleId inp,
      r_pickupStationId = nr_pickupStationId inp, r_returnStationId = nr_returnStationId inp,
      r_pickupAt = nr_pickupAt inp, r_returnAt = nr_returnAt inp, r_status = or_else (nr_status inp) QUOTE,
      r_source = src, r_createdByPartnerApiKeyId = keyId, r_customerId = ct_customerId contact,
      r_customerName = ct_name contact, r_customerEmail = ct_email contact, r_customerPhone = ct_phone contact,
      r_totalCents = totalCents, r_currency = nr_currency inp, r_stripeCheckoutSessionId = None, r_paidAt = None,
      r_stripeDepositCheckoutSessionId = None, r_stripeDepositPaymentIntentId = None,
      r_depositHoldCents = None, r_depositHoldStatus = DEP_NONE, r_notes = nr_notes inp, r_publicViewToken = None,
      r_publicViewTokenAt = None, r_rentPaymentReminderSentAt = None, r_odometerOutKm = None,
      r_odometerInKm = None, r_cargosHandoverOverrideAt = None, r_cargosHandoverOverrideById = None,
      r_cargosHandoverOverrideReason = None, r_createdAt = now, r_updatedAt = now,
      r_extraLines = line_creates (or_else (nr_extraLines inp) []), r_fuelOutPercent = None,
      r_fuelInPercent = None, r_handoverChecklist = None, r_returnChecklist = None,
      r_handoverOpsNotes = None, r_returnOpsNotes = None\<rparr>"

lemma new_reservation_sel [simp]:
  "r_id (new_reservation newId now inp src keyId contact totalCents) = newId"
  "r_companyId (new_reservation newId now inp src keyId contact totalCents) = nr_companyId inp"
  "r_vehicleId (new_reservation newId now inp src keyId contact totalCents) = nr_vehicleId inp"
  "r_pickupAt (new_reservation newId now inp src keyId contact totalCents) = nr_pickupAt inp"
  "r_returnAt (new_reservation newId now inp src keyId contact totalCents) = nr_returnAt inp"
  "r_source (new_reservation newId now inp src keyId contact totalCents) = src"
  "r_status (new_reservation newId now inp src keyId contact totalCents) = or_else (nr_status inp) QUOTE"
  "r_totalCents (new_reservation newId now inp src keyId contact totalCents) = totalCents"
  by (simp_all add: new_reservation_def)

text \<open>The checks every booking of a given vehicle goes through, in the order of the code.\<close>

definition check_booking :: "db \<Rightarrow> create_reservation_input \<Rightarrow> contact result" where
  "check_booking d inp =
     andThen (assertTimeOrder (nr_pickupAt inp) (nr_returnAt inp)) (\<lambda>_.
     andThen (assertCompanyCoherent d (nr_companyId inp) (nr_vehicleId inp) (nr_pickupStationId inp)
       (nr_returnStationId inp)) (\<lambda>_.
     andThen (assertVehicleFree d (nr_vehicleId inp) (nr_pickupAt inp) (nr_returnAt inp) None) (\<lambda>_.
     resolveCustomerContactForCreate d inp)))"

definition status_json :: "reservation \<Rightarrow> json" where
  "status_json r = JObj [(''status'', JStr (status_name (r_status r))), (''vehicleId'', JStr (r_vehicleId r))]"

definition audit_entry :: "ctx \<Rightarrow> string option \<Rightarrow> string \<Rightarrow> string \<Rightarrow> string \<Rightarrow> json \<Rightarrow> audit_log" where
  "audit_entry ctx actor action entity entityId metadata =
     \<lparr>al_userId = actor, al_action = action, al_entity = entity, al_entityId = Some entityId,
      al_metadata = metadata, al_ip = c_ip ctx, al_userAgent = c_userAgent ctx\<rparr>"

definition reservation_create ::
  "ctx \<Rightarrow> jwt_user \<Rightarrow> string \<Rightarrow> string \<Rightarrow> create_reservation_input \<Rightarrow> reservation dbprog" where
  "reservation_create ctx user actor newId inp =
     andDo (asks (\<lambda>_. assertCreateBodyCompanyId (c_env ctx) user (nr_companyId inp)))
     (andDo (asks (\<lambda>_. assertAgentMayUsePickupStation user (nr_pickupStationId inp)))
     (bnd (asks (\<lambda>d. check_booking d inp)) (\<lambda>contact.
      bnd (gets (\<lambda>d. resolveTotalCents d inp)) (\<lambda>totalCents.
      bnd (insert_reservation (new_reservation newId (c_now ctx) inp STAFF None contact totalCents)) (\<lambda>created.
      andDo (audit (audit_entry ctx (Some actor) ''reservation.create'' ''Reservation'' (r_id created)
        (status_json created)))
      (ret created))))))"

section \<open>Deleting a draft\<close>

definition bare_audit :: "string option \<Rightarrow> string \<Rightarrow> string \<Rightarrow> string \<Rightarrow> json \<Rightarrow> audit_log" where
  "bare_audit actor action entity entityId metadata =
     \<lparr>al_userId = actor, al_action = action, al_entity = entity, al_entityId = Some entityId,
      al_metadata = metadata, al_ip = None, al_userAgent = None\<rparr>"

text \<open>The rows that belong to a reservation go with it; invoices stay without it.\<close>

definition delete_reservation_rows :: "string \<Rightarrow> db \<Rightarrow> db" where
  "delete_reservation_rows i d =
     d\<lparr>d_reservations := delete_row r_id i (d_reservations d),
       d_agreements := filter (\<lambda>a. ra_reservationId a \<noteq> i) (d_agreements d),
       d_cargos := filter (\<lambda>s. cs_reservationId s \<noteq> i) (d_cargos d),
       d_idempotencies := filter (\<lambda>x. id_reservationId x \<noteq> i) (d_idempotencies d),
       d_deliveries := filter (\<lambda>w. wd_reservationId w \<noteq> i) (d_deliveries d),
       d_refunds := filter (\<lambda>x. rf_reservationId x \<noteq> i) (d_refunds d),
       d_damages := filter (\<lambda>x. dm_reservationId x \<noteq> i) (d_damages d),
       d_attachments := filter (\<lambda>f. \<not> list_ex (\<lambda>a. ra_id a = sf_ownerId f \<and> ra_reservationId a = i) (d_agreements d))
         (d_attachments d),
       d_photos := filter (\<lambda>f. sf_ownerId f \<noteq> i) (d_photos d),
       d_damagePhotos := filter (\<lambda>f. \<not> list_ex (\<lambda>x. dm_id x = sf_ownerId f \<and> dm_reservationId x = i) (d_damages d))
         (d_damagePhotos d),
       d_invoices := map (\<lambda>v. if in_reservationId v = Some i then v\<lparr>in_reservationId := None\<rparr> else v) (d_invoices d)\<rparr>"

definition removeDraft :: "ctx \<Rightarrow> jwt_user \<Rightarrow> string \<Rightarrow> unit dbprog" where
  "removeDraft ctx user i =
     bnd (asks (\<lambda>d. getScopedReservationRecord d (c_env ctx) user i)) (\<lambda>r.
     andDo (asks (\<lambda>_. ensure (r_status r = QUOTE)
       (Forbidden ''Only QUOTE reservations can be deleted; set status to CANCELLED instead'')))
     (andDo (modify (delete_reservation_rows i))
     (audit (bare_audit (Some (u_sub user)) ''reservation.delete_draft'' ''Reservation'' i
       (JObj [(''wasStatus'', JStr (status_name (r_status r))), (''companyId'', JStr (r_companyId r))])))))"

section \<open>The summary mail\<close>

definition b4_json :: "b4_snapshot option \<Rightarrow> json" where
  "b4_json x =
     (case x of
        None \<Rightarrow> JNull
      | Some b \<Rightarrow> JObj [(''privacyNoticeVersion'', ostr (b4_privacyNoticeVersion b)),
          (''privacyNoticeAcceptedAt'', ostr (b4_privacyNoticeAcceptedAt b)),
          (''marketingEmailOptIn'', JBool (b4_marketingEmailOptIn b)),
          (''marketingOptInAt'', ostr (b4_marketingOptInAt b))])"

definition sendBookingSummaryEmail ::
  "(string \<Rightarrow> string) \<Rightarrow> ctx \<Rightarrow> jwt_user \<Rightarrow> string \<Rightarrow> unit dbprog" where
  "sendBookingSummaryEmail sha256 ctx user i =
     bnd (asks (\<lambda>d. getScopedReservationRecord d (c_env ctx) user i)) (\<lambda>r.
     andDo (asks (\<lambda>_. ensure (r_status r \<notin> set [CANCELLED, COMPLETED, NO_SHOW])
       (BadRequest ''Booking summary email is only available before the rental is closed (not cancelled, completed, or no-show).'')))
     (let addr = trim (r_customerEmail r)
      in andDo (asks (\<lambda>_. ensure (CHR 0x40 \<in> set addr)
           (BadRequest ''Reservation has no valid customer email address.'')))
         (andDo (asks (\<lambda>_. ensure (c_mailOn ctx)
           (ServiceUnavailable ''Outbound email is not configured (SMTP).'')))
         (bnd (asks (\<lambda>d. assertDeskEmailB4ForReservation d (r_companyId r) (r_customerId r))) (\<lambda>(b4Consent, _).
          andDo (send_mail \<lparr>m_kind = ''bookingSummary'', m_to = addr, m_reservationId = r_id r,
            m_link = None\<rparr>)
          (audit (audit_entry ctx (Some (u_sub user)) ''reservation.email_summary'' ''Reservation'' (r_id r)
             (JObj [(''toSha256Prefix'', JStr (take 16 (sha256 (toLowerCase addr)))), (''b4Consent'', b4_json b4Consent)]))))))))"

end
