(* ===== verification/Partner_Webhook.thy ===== *)
theory Partner_Webhook
  imports Fixtures
begin

text \<open>
  \<open>apps/api/src/partner/partner-webhook.service.ts\<close>: outgoing events to partners are rows of
  a queue, enqueued by the booking handlers and delivered in bounded batches with exponential
  backoff. The HTTP client and the keyed hash are parameters: \<open>http url event signature body\<close>
  and \<open>hmac secret body\<close>.
\<close>

section \<open>Configuration\<close>

definition parseIntEnv :: "string option \<Rightarrow> int \<Rightarrow> int \<Rightarrow> int \<Rightarrow> int" where
  "parseIntEnv raw fallback mn mx =
     (if \<not> truthy raw then fallback
      else case parseInt10 (the raw) of
             None \<Rightarrow> fallback
           | Some n \<Rightarrow> min mx (max mn n))"

definition backoffMsAfterAttempt :: "int \<Rightarrow> int" where
  "backoffMsAfterAttempt attemptAfterFailure =
     (let expo = min 6 (max 0 (attemptAfterFailure - 1))
      in min 900000 (30000 * 2 ^ nat expo))"

definition is_https :: "string \<Rightarrow> bool" where
  "is_https url = startsWith ''https://'' (toLowerCase url)"

section \<open>Enqueueing\<close>

text \<open>The two settings of a key that has not been revoked, trimmed; empty counts as missing.\<close>

definition webhook_target :: "db \<Rightarrow> string \<Rightarrow> (string \<times> string) option" where
  "webhook_target d keyId =
     (case find_key d keyId of
        None \<Rightarrow> None
      | Some k \<Rightarrow>
          if pk_revokedAt k \<noteq> None then None
          else
            let url = map_option trim (pk_webhookUrl k); secret = map_option trim (pk_webhookSigningSecret k)
            in if \<not> truthy url \<or> \<not> truthy secret then None else Some (the url, the secret))"

definition webhook_payload :: "time \<Rightarrow> string \<Rightarrow> reservation \<Rightarrow> string option \<Rightarrow> json" where
  "webhook_payload now event r previousStatus =
     JObj ([(''event'', JStr event), (''occurredAt'', JStr (toISOString now)),
            (''reservation'', JObj [(''id'', JStr (r_id r)), (''companyId'', JStr (r_companyId r)),
               (''status'', JStr (status_name (r_status r))),
               (''pickupAt'', JStr (toISOString (r_pickupAt r))),
               (''returnAt'', JStr (toISOString (r_returnAt r)))])]
           @ (if truthy previousStatus then [(''previousStatus'', JStr (the previousStatus))] else []))"

definition buildReservationWebhookBodyJson ::
  "db \<Rightarrow> time \<Rightarrow> string \<Rightarrow> string \<Rightarrow> string \<Rightarrow> string option \<Rightarrow> string option" where
  "buildReservationWebhookBodyJson d now keyId reservationId event previousStatus =
     (case webhook_target d keyId of
        None \<Rightarrow> None
      | Some (url, secret) \<Rightarrow>
          if \<not> is_https url then None
          else map_option (\<lambda>r. stringify (webhook_payload now event r previousStatus))
                 (find_reservation d reservationId))"

definition new_delivery :: "ctx \<Rightarrow> string \<Rightarrow> string \<Rightarrow> string \<Rightarrow> string \<Rightarrow> string \<Rightarrow> webhook_delivery" where
  "new_delivery ctx newId keyId reservationId event body =
     \<lparr>wd_id = newId, wd_partnerApiKeyId = keyId, wd_reservationId = reservationId, wd_event = event,
      wd_bodyJson = body, wd_status = WH_PENDING, wd_attemptCount = 0,
      wd_maxAttempts = min 50 (max 1 (parseIntEnv (c_env ctx ''PARTNER_WEBHOOK_MAX_ATTEMPTS'') 8 1 50)),
      wd_nextAttemptAt = c_now ctx, wd_lastAttemptAt = None, wd_lastHttpStatus = None, wd_lastError = None,
      wd_succeededAt = None, wd_createdAt = c_now ctx, wd_updatedAt = c_now ctx\<rparr>"

text \<open>Errors while enqueueing are logged and swallowed.\<close>

definition enqueued :: "ctx \<Rightarrow> string \<Rightarrow> string \<Rightarrow> string \<Rightarrow> string \<Rightarrow> string option \<Rightarrow> db \<Rightarrow> db" where
  "enqueued ctx newId keyId reservationId event previousStatus d =
     (case buildReservationWebhookBodyJson d (c_now ctx) keyId reservationId event previousStatus of
        None \<Rightarrow> d
      | Some body \<Rightarrow>
          if find_row wd_id newId (d_deliveries d) \<noteq> None then d
          else d_deliveries_update (\<lambda>ws. ws @ [new_delivery ctx newId keyId reservationId event body]) d)"

definition enqueueReservationWebhookEvent ::
  "ctx \<Rightarrow> string \<Rightarrow> string \<Rightarrow> string \<Rightarrow> string \<Rightarrow> string option \<Rightarrow> unit dbprog" where
  "enqueueReservationWebhookEvent ctx newId keyId reservationId event previousStatus =
     modify (enqueued ctx newId keyId reservationId event previousStatus)"

definition enqueueReservationCreated :: "ctx \<Rightarrow> string \<Rightarrow> string \<Rightarrow> string \<Rightarrow> unit dbprog" where
  "enqueueReservationCreated ctx newId keyId reservationId =
     enqueueReservationWebhookEvent ctx newId keyId reservationId ''reservation.created'' None"

definition enqueueReservationCancelled ::
  "ctx \<Rightarrow> string \<Rightarrow> string \<Rightarrow> string \<Rightarrow> reservation_status \<Rightarrow> unit dbprog" where
  "enqueueReservationCancelled ctx newId keyId reservationId previousStatus =
     enqueueReservationWebhookEvent ctx newId keyId reservationId ''reservation.cancelled''
       (Some (status_name previousStatus))"

definition enqueueReservationStatusChanged ::
  "ctx \<Rightarrow> string \<Rightarrow> string \<Rightarrow> string \<Rightarrow> reservation_status \<Rightarrow> unit dbprog" where
  "enqueueReservationStatusChanged ctx newId keyId reservationId previousStatus =
     enqueueReservationWebhookEvent ctx newId keyId reservationId ''reservation.status_changed''
       (Some (status_name previousStatus))"

lemma wpre_enqueue [wp]:
  "wpre (enqueueReservationCreated ctx newId keyId i) Q E d =
     Q () (enqueued ctx newId keyId i ''reservation.created'' None d)"
  "wpre (enqueueReservationCancelled ctx newId keyId i prev) Q E d =
     Q () (enqueued ctx newId keyId i ''reservation.cancelled'' (Some (status_name prev)) d)"
  "wpre (enqueueReservationStatusChanged ctx newId keyId i prev) Q E d =
     Q () (enqueued ctx newId keyId i ''reservation.status_changed'' (Some (status_name prev)) d)"
  by (simp_all add: enqueueReservationCreated_def enqueueReservationCancelled_def
      enqueueReservationStatusChanged_def enqueueReservationWebhookEvent_def wp)

text \<open>Enqueueing only appends to the queue.\<close>

lemma enqueued_frame [simp]:
  "d_reservations (enqueued ctx n k i e p d) = d_reservations d"
  "d_vehicles (enqueued ctx n k i e p d) = d_vehicles d"
  "d_blocks (enqueued ctx n k i e p d) = d_blocks d"
  "d_classes (enqueued ctx n k i e p d) = d_classes d"
  "d_stations (enqueued ctx n k i e p d) = d_stations d"
  "d_companies (enqueued ctx n k i e p d) = d_companies d"
  "d_customers (enqueued ctx n k i e p d) = d_customers d"
  "d_idempotencies (enqueued ctx n k i e p d) = d_idempotencies d"
  "d_stripeEvents (enqueued ctx n k i e p d) = d_stripeEvents d"
  "d_refunds (enqueued ctx n k i e p d) = d_refunds d"
  "d_audit (enqueued ctx n k i e p d) = d_audit d"
  "d_mails (enqueued ctx n k i e p d) = d_mails d"
  "d_stripeCalls (enqueued ctx n k i e p d) = d_stripeCalls d"
  by (simp_all add: enqueued_def split: option.splits)

section \<open>Delivery\<close>

datatype http_outcome = HttpReply int string | HttpFailed string

datatype delivery_result = Succeeded | Retried | Dead | Skipped

type_synonym http_client = "string \<Rightarrow> string \<Rightarrow> string \<Rightarrow> string \<Rightarrow> http_outcome"

definition update_delivery :: "time \<Rightarrow> string \<Rightarrow> (webhook_delivery \<Rightarrow> webhook_delivery) \<Rightarrow> db \<Rightarrow> db" where
  "update_delivery now i f = d_deliveries_update (update_row wd_id i (\<lambda>w. (f w)\<lparr>wd_updatedAt := now\<rparr>))"

definition delivery_failed :: "time \<Rightarrow> webhook_delivery \<Rightarrow> int option \<Rightarrow> string \<Rightarrow> db \<Rightarrow> delivery_result \<times> db" where
  "delivery_failed now row httpStatus errMsg d =
     (let nextCount = wd_attemptCount row + 1
      in if nextCount \<ge> wd_maxAttempts row then
           (Dead, update_delivery now (wd_id row) (\<lambda>w. w\<lparr>wd_status := WH_DEAD, wd_attemptCount := nextCount,
              wd_lastAttemptAt := Some now, wd_lastHttpStatus := httpStatus,
              wd_lastError := Some (take 2000 errMsg)\<rparr>) d)
         else
           (Retried, update_delivery now (wd_id row) (\<lambda>w. w\<lparr>wd_status := WH_PENDING, wd_attemptCount := nextCount,
              wd_nextAttemptAt := now + backoffMsAfterAttempt nextCount,
              wd_lastAttemptAt := Some now, wd_lastHttpStatus := httpStatus,
              wd_lastError := Some (take 2000 errMsg)\<rparr>) d))"

text \<open>
  One delivery. The middle component is what went out on the network: the identifier of the row once for every
  request that is sent, and nothing when the row is given up before.
\<close>

definition deliverOne ::
  "http_client \<Rightarrow> (string \<Rightarrow> string \<Rightarrow> string) \<Rightarrow> time \<Rightarrow> string \<Rightarrow> db \<Rightarrow> delivery_result \<times> string list \<times> db" where
  "deliverOne http hmac now i d =
     (case find_row wd_id i (d_deliveries d) of
        None \<Rightarrow> (Skipped, [], d)
      | Some row \<Rightarrow>
          let key = find_key d (wd_partnerApiKeyId row);
              setting = (\<lambda>f. case key of None \<Rightarrow> [] | Some k \<Rightarrow> (case f k of None \<Rightarrow> [] | Some s \<Rightarrow> trim s));
              url = setting pk_webhookUrl; secret = setting pk_webhookSigningSecret;
              revoked = (case key of None \<Rightarrow> False | Some k \<Rightarrow> pk_revokedAt k \<noteq> None);
              posted = (\<lambda>(r, d'). (r, [i], d'))
          in if revoked \<or> url = [] \<or> secret = [] \<or> \<not> is_https url then
               (Dead, [], update_delivery now i (\<lambda>w. w\<lparr>wd_status := WH_DEAD, wd_lastAttemptAt := Some now,
                  wd_lastHttpStatus := None,
                  wd_lastError := Some (if revoked then ''Partner API key revoked''
                    else if url = [] \<or> secret = [] then ''Webhook URL or signing secret not configured''
                    else ''Webhook URL must be HTTPS'')\<rparr>) d)
             else posted (
               case http url (wd_event row) (''sha256='' @ hmac secret (wd_bodyJson row)) (wd_bodyJson row) of
                 HttpReply status body \<Rightarrow>
                   if 200 \<le> status \<and> status \<le> 299 then
                     (Succeeded, update_delivery now i (\<lambda>w. w\<lparr>wd_status := WH_SUCCEEDED,
                        wd_succeededAt := Some now, wd_lastAttemptAt := Some now,
                        wd_lastHttpStatus := Some status, wd_lastError := None\<rparr>) d)
                   else delivery_failed now row (Some status)
                          (''HTTP '' @ show_int status @ '' '' @ take 500 body) d
               | HttpFailed msg \<Rightarrow> delivery_failed now row None msg d))"

record batch_tally =
  bt_processed :: nat
  bt_succeeded :: nat
  bt_retried :: nat
  bt_dead :: nat

definition tally :: "delivery_result \<Rightarrow> batch_tally \<Rightarrow> batch_tally" where
  "tally r t =
     (let t = t\<lparr>bt_processed := bt_processed t + 1\<rparr>
      in case r of
           Succeeded \<Rightarrow> t\<lparr>bt_succeeded := bt_succeeded t + 1\<rparr>
         | Retried \<Rightarrow> t\<lparr>bt_retried := bt_retried t + 1\<rparr>
         | Dead \<Rightarrow> t\<lparr>bt_dead := bt_dead t + 1\<rparr>
         | Skipped \<Rightarrow> t)"

definition due_deliveries :: "time \<Rightarrow> db \<Rightarrow> webhook_delivery list" where
  "due_deliveries now d =
     sort_key (\<lambda>w. (wd_nextAttemptAt w, wd_createdAt w))
       (filter (\<lambda>w. wd_status w = WH_PENDING \<and> wd_nextAttemptAt w \<le> now) (d_deliveries d))"

text \<open>The loop of a batch with \<open>n\<close> iterations left; the row picked is locked before delivery.\<close>

fun delivery_loop ::
  "http_client \<Rightarrow> (string \<Rightarrow> string \<Rightarrow> string) \<Rightarrow> time \<Rightarrow> nat \<Rightarrow> batch_tally \<Rightarrow> db \<Rightarrow>
     batch_tally \<times> string list \<times> db" where
  "delivery_loop http hmac now 0 t d = (t, [], d)"
| "delivery_loop http hmac now (Suc n) t d =
     (case due_deliveries now d of
        [] \<Rightarrow> (t, [], d)
      | due # _ \<Rightarrow>
          (case deliverOne http hmac now (wd_id due)
                  (update_delivery now (wd_id due) (\<lambda>w. w\<lparr>wd_status := WH_PROCESSING\<rparr>) d) of
             (r, posts, d') \<Rightarrow>
               (case delivery_loop http hmac now n (tally r t) d' of
                  (t', later, d'') \<Rightarrow> (t', posts @ later, d''))))"

definition batch_limit :: "env \<Rightarrow> int" where
  "batch_limit env = min 100 (max 1 (parseIntEnv (env ''PARTNER_WEBHOOK_CRON_BATCH'') 20 1 100))"

definition stale_ms :: "env \<Rightarrow> int" where
  "stale_ms env = min 3600000 (max 60000 (parseIntEnv (env ''PARTNER_WEBHOOK_STALE_MS'') 900000 60000 3600000))"

definition release_stale :: "env \<Rightarrow> time \<Rightarrow> db \<Rightarrow> db" where
  "release_stale env now =
     d_deliveries_update (map (\<lambda>w. if wd_status w = WH_PROCESSING \<and> wd_updatedAt w < now - stale_ms env
       then w\<lparr>wd_status := WH_PENDING, wd_updatedAt := now\<rparr> else w))"

definition processDueDeliveriesBatch ::
  "http_client \<Rightarrow> (string \<Rightarrow> string \<Rightarrow> string) \<Rightarrow> env \<Rightarrow> time \<Rightarrow> db \<Rightarrow> batch_tally \<times> string list \<times> db" where
  "processDueDeliveriesBatch http hmac env now d =
     delivery_loop http hmac now (nat (batch_limit env))
       \<lparr>bt_processed = 0, bt_succeeded = 0, bt_retried = 0, bt_dead = 0\<rparr> (release_stale env now d)"

section \<open>Bounds\<close>

lemma parseIntEnv_range:
  "mn \<le> fallback \<Longrightarrow> fallback \<le> mx \<Longrightarrow> mn \<le> parseIntEnv raw fallback mn mx \<and> parseIntEnv raw fallback mn mx \<le> mx"
  by (auto simp: parseIntEnv_def split: option.splits)

text \<open>
  The delay before the next attempt is at least 30 seconds and at most 15 minutes, never shrinks
  from one failure to the next, and doubles until it reaches the cap.
\<close>

theorem backoff_bounds:
  "30000 \<le> backoffMsAfterAttempt n \<and> backoffMsAfterAttempt n \<le> 900000 \<and>
   backoffMsAfterAttempt n \<le> backoffMsAfterAttempt (n + 1) \<and>
   (1 \<le> n \<and> n < 5 \<longrightarrow> backoffMsAfterAttempt (n + 1) = 2 * backoffMsAfterAttempt n)"
proof -
  define e where "e k = nat (min 6 (max 0 (k - 1)))" for k :: int
  have b: "backoffMsAfterAttempt k = min 900000 (30000 * 2 ^ e k)" for k
    by (simp add: backoffMsAfterAttempt_def e_def)
  have "(2::int) ^ 0 \<le> 2 ^ e n" by (rule power_increasing) simp_all
  then have lo: "30000 \<le> backoffMsAfterAttempt n" by (simp add: b)
  have "e n \<le> e (n + 1)" by (simp add: e_def min_def max_def nat_le_iff)
  then have "(2::int) ^ e n \<le> 2 ^ e (n + 1)" by (rule power_increasing) simp
  then have mono: "backoffMsAfterAttempt n \<le> backoffMsAfterAttempt (n + 1)"
    unfolding b by (intro min.mono mult_left_mono) simp_all
  have dbl: "backoffMsAfterAttempt (n + 1) = 2 * backoffMsAfterAttempt n" if "1 \<le> n" "n < 5"
  proof -
    have "n = 1 \<or> n = 2 \<or> n = 3 \<or> n = 4" using that by arith
    then show ?thesis by (auto simp: backoffMsAfterAttempt_def)
  qed
  show ?thesis using lo mono dbl by (simp add: b)
qed

theorem backoff_bounds_witness:
  "backoffMsAfterAttempt 3 = 120000 \<and> backoffMsAfterAttempt 4 = 2 * backoffMsAfterAttempt 3"
  using backoff_bounds [of 3] by (simp add: backoffMsAfterAttempt_def)

section \<open>What a batch sends and what it counts\<close>

text \<open>
  A row has attempts left while it waits, and the attempt that succeeds is one of them. What a row has
  used up is its counter and, after a success, the attempt that succeeded, which the counter leaves out.
\<close>

definition delivery_ok :: "webhook_delivery \<Rightarrow> bool" where
  "delivery_ok w \<longleftrightarrow> wd_attemptCount w \<le> wd_maxAttempts w \<and>
     (wd_status w \<in> {WH_PENDING, WH_PROCESSING, WH_SUCCEEDED} \<longrightarrow> wd_attemptCount w < wd_maxAttempts w)"

definition queue_ok :: "db \<Rightarrow> bool" where
  "queue_ok d \<longleftrightarrow> keyed wd_id (d_deliveries d) \<and> list_all delivery_ok (d_deliveries d)"

definition used_up :: "webhook_delivery \<Rightarrow> int" where
  "used_up w = wd_attemptCount w + (if wd_status w = WH_SUCCEEDED then 1 else 0)"

lemma used_up_bound: "delivery_ok w \<Longrightarrow> used_up w \<le> wd_maxAttempts w"
  by (auto simp: delivery_ok_def used_up_def)

text \<open>
  \<open>pays posts d d'\<close>: every row of \<open>d\<close> is still there, within its limit, and what it has used up has grown by at
  least the number of requests that were sent for it.
\<close>

definition pays_for :: "string list \<Rightarrow> webhook_delivery \<Rightarrow> webhook_delivery \<Rightarrow> bool" where
  "pays_for posts w w' \<longleftrightarrow> wd_id w' = wd_id w \<and> wd_maxAttempts w' = wd_maxAttempts w \<and> delivery_ok w' \<and>
     used_up w + int (count_list posts (wd_id w)) \<le> used_up w'"

definition pays :: "string list \<Rightarrow> db \<Rightarrow> db \<Rightarrow> bool" where
  "pays posts d d' \<longleftrightarrow> queue_ok d' \<and> list_all (\<lambda>w. list_ex (pays_for posts w) (d_deliveries d')) (d_deliveries d)"

lemma pays_refl: "queue_ok d \<Longrightarrow> pays [] d d"
  by (auto simp: pays_def pays_for_def list_all_iff list_ex_iff queue_ok_def)

lemma pays_for_trans: "pays_for ps w w' \<Longrightarrow> pays_for qs w' w'' \<Longrightarrow> pays_for (ps @ qs) w w''"
  by (auto simp: pays_for_def)

lemma pays_trans:
  assumes "pays ps d d'" "pays qs d' d''"
  shows "pays (ps @ qs) d d''"
  unfolding pays_def list_all_iff list_ex_iff
proof (intro conjI ballI)
  show "queue_ok d''" using assms(2) by (simp add: pays_def)
  fix w
  assume "w \<in> set (d_deliveries d)"
  then obtain w' where w': "w' \<in> set (d_deliveries d')" "pays_for ps w w'"
    using assms(1) by (auto simp: pays_def list_all_iff list_ex_iff)
  then obtain w'' where "w'' \<in> set (d_deliveries d'')" "pays_for qs w' w''"
    using assms(2) by (auto simp: pays_def list_all_iff list_ex_iff)
  then show "\<exists>w''\<in>set (d_deliveries d''). pays_for (ps @ qs) w w''" using w'(2) pays_for_trans by blast
qed

lemma pays_map:
  assumes "queue_ok d" "d_deliveries d' = map g (d_deliveries d)"
    and "\<And>w. w \<in> set (d_deliveries d) \<Longrightarrow> pays_for posts w (g w)"
  shows "pays posts d d'"
proof -
  have "map wd_id (map g (d_deliveries d)) = map wd_id (d_deliveries d)"
    using assms(3) by (simp add: pays_for_def)
  then have "keyed wd_id (d_deliveries d')"
    unfolding keyed_def assms(2) using assms(1) by (simp only: queue_ok_def keyed_def)
  then show ?thesis
    using assms by (auto simp: pays_def queue_ok_def list_all_iff list_ex_iff pays_for_def)
qed

lemma pays_update:
  assumes "queue_ok d" "find_row wd_id i (d_deliveries d) = Some row"
    and "pays_for posts row ((f row)\<lparr>wd_updatedAt := now\<rparr>)" "set posts \<subseteq> {i}"
  shows "pays posts d (update_delivery now i f d)"
proof (rule pays_map [OF assms(1)])
  let ?g = "\<lambda>w. if wd_id w = i then (f w)\<lparr>wd_updatedAt := now\<rparr> else w"
  show "d_deliveries (update_delivery now i f d) = map ?g (d_deliveries d)"
    by (simp add: update_delivery_def update_row_def)
  fix w
  assume w: "w \<in> set (d_deliveries d)"
  show "pays_for posts w (?g w)"
  proof (cases "wd_id w = i")
    case True
    then have "w = row" using deliveries.find_keyed [of d w i] assms(1,2) w by (simp add: queue_ok_def)
    then show ?thesis using True assms(3) by simp
  next
    case False
    then have "count_list posts (wd_id w) = 0" using assms(4) by (auto simp: count_list_0_iff)
    then show ?thesis using False w assms(1) by (simp add: pays_for_def queue_ok_def list_all_iff)
  qed
qed

lemma queue_row:
  assumes "queue_ok d" "find_row wd_id i (d_deliveries d) = Some row"
  shows "wd_id row = i" "delivery_ok row"
  using deliveries.find_Some [OF assms(2)] assms(1) by (simp_all add: queue_ok_def list_all_iff)

lemma deliverOne_pays:
  assumes "queue_ok d" "\<And>row. find_row wd_id i (d_deliveries d) = Some row \<Longrightarrow> wd_status row = WH_PROCESSING"
    and "deliverOne http hmac now i d = (r, posts, d')"
  shows "pays posts d d'"
proof (cases "find_row wd_id i (d_deliveries d)")
  case None
  then show ?thesis using assms pays_refl by (simp add: deliverOne_def)
next
  case (Some row)
  note row = queue_row [OF assms(1) Some] and proc = assms(2) [OF Some]
  have step: "pays ps d (update_delivery now (wd_id row) f d)"
    if "pays_for ps row ((f row)\<lparr>wd_updatedAt := now\<rparr>)" "set ps \<subseteq> {wd_id row}" for ps f
    using pays_update [OF assms(1) Some] that row(1) by simp
  have used: "used_up row = wd_attemptCount row" "wd_attemptCount row < wd_maxAttempts row"
    using row(2) proc by (simp_all add: used_up_def delivery_ok_def)
  have failed: "pays [i] d d'" if "delivery_failed now row s e d = (r, d')" for s e
    using that used row(1) unfolding delivery_failed_def Let_def
    by (auto intro!: step simp: pays_for_def used_up_def delivery_ok_def proc split: if_splits)
  have dead: "pays [] d (update_delivery now i (\<lambda>w. w\<lparr>wd_status := WH_DEAD, wd_lastAttemptAt := a,
      wd_lastHttpStatus := h, wd_lastError := e\<rparr>) d)" for a h e
    using used row by (auto intro!: step simp: pays_for_def used_up_def delivery_ok_def)
  have sent: "pays [i] d (update_delivery now i (\<lambda>w. w\<lparr>wd_status := WH_SUCCEEDED, wd_succeededAt := s,
      wd_lastAttemptAt := a, wd_lastHttpStatus := h, wd_lastError := e\<rparr>) d)" for s a h e
    using used row by (auto intro!: step simp: pays_for_def used_up_def delivery_ok_def)
  have [simp]: "(case p of (r, d') \<Rightarrow> (r, [i], d')) = (r', ps, e) \<longleftrightarrow> p = (r', e) \<and> ps = [i]" for p r' ps and e :: db
    by (cases p) auto
  show ?thesis
    using assms(3) unfolding deliverOne_def Let_def Some option.case
    by (auto simp: dead sent split: if_splits http_outcome.splits intro: failed)
qed

lemma lock_pays:
  assumes "queue_ok d" "due_deliveries now d = due # rest"
  shows "pays [] d (update_delivery now (wd_id due) (\<lambda>w. w\<lparr>wd_status := WH_PROCESSING\<rparr>) d)"
    and "find_row wd_id (wd_id due) (d_deliveries (update_delivery now (wd_id due) (\<lambda>w. w\<lparr>wd_status := WH_PROCESSING\<rparr>) d)) =
      Some (due\<lparr>wd_status := WH_PROCESSING, wd_updatedAt := now\<rparr>)"
proof -
  have "due \<in> set (due_deliveries now d)" using assms(2) by simp
  then have due: "due \<in> set (d_deliveries d)" "wd_status due = WH_PENDING"
    by (auto simp: due_deliveries_def)
  have f: "find_row wd_id (wd_id due) (d_deliveries d) = Some due"
    using deliveries.find_keyed [OF _ due(1) refl] assms(1) by (simp add: queue_ok_def)
  show "pays [] d (update_delivery now (wd_id due) (\<lambda>w. w\<lparr>wd_status := WH_PROCESSING\<rparr>) d)"
    using queue_row(2) [OF assms(1) f] due(2)
    by (intro pays_update [OF assms(1) f]) (auto simp: pays_for_def used_up_def delivery_ok_def)
  show "find_row wd_id (wd_id due) (d_deliveries (update_delivery now (wd_id due) (\<lambda>w. w\<lparr>wd_status := WH_PROCESSING\<rparr>) d)) =
      Some (due\<lparr>wd_status := WH_PROCESSING, wd_updatedAt := now\<rparr>)"
    using f by (simp add: update_delivery_def tables)
qed

lemma delivery_loop_pays:
  "queue_ok d \<Longrightarrow> delivery_loop http hmac now n t d = (t', posts, d') \<Longrightarrow> pays posts d d'"
proof (induction n arbitrary: t d posts)
  case (Suc n)
  show ?case
  proof (cases "due_deliveries now d")
    case Nil
    then show ?thesis using Suc.prems pays_refl by simp
  next
    case (Cons due rest)
    let ?d = "update_delivery now (wd_id due) (\<lambda>w. w\<lparr>wd_status := WH_PROCESSING\<rparr>) d"
    note lock = lock_pays [OF Suc.prems(1) Cons]
    obtain r ps d1 where one: "deliverOne http hmac now (wd_id due) ?d = (r, ps, d1)" by (cases "deliverOne http hmac now (wd_id due) ?d")
    obtain qs where more: "delivery_loop http hmac now n (tally r t) d1 = (t', qs, d')" "posts = ps @ qs"
      using Suc.prems(2) Cons one by (auto split: prod.splits)
    have ok: "queue_ok ?d" using lock(1) by (simp add: pays_def)
    have "pays ps ?d d1" by (rule deliverOne_pays [OF ok _ one]) (use lock(2) in simp)
    moreover from this have "queue_ok d1" by (simp add: pays_def)
    then have "pays qs d1 d'" using Suc.IH more(1) by blast
    ultimately show ?thesis using pays_trans [OF lock(1)] pays_trans more(2) by fastforce
  qed
qed (use pays_refl in simp)

lemma batch_pays:
  assumes "queue_ok d" "processDueDeliveriesBatch http hmac env now d = (t, posts, d')"
  shows "pays posts d d'"
proof -
  let ?g = "\<lambda>w :: webhook_delivery. if wd_status w = WH_PROCESSING \<and> wd_updatedAt w < now - stale_ms env
       then w\<lparr>wd_status := WH_PENDING, wd_updatedAt := now\<rparr> else w"
  have released: "pays [] d (release_stale env now d)"
  proof (rule pays_map [OF assms(1)])
    show "d_deliveries (release_stale env now d) = map ?g (d_deliveries d)" by (simp add: release_stale_def)
    show "pays_for [] w (?g w)" if "w \<in> set (d_deliveries d)" for w
      using assms(1) that by (auto simp: queue_ok_def list_all_iff pays_for_def used_up_def delivery_ok_def)
  qed
  then have "pays posts (release_stale env now d) d'"
    using delivery_loop_pays assms(2) unfolding processDueDeliveriesBatch_def pays_def by blast
  then show ?thesis using pays_trans [OF released] by simp
qed

section \<open>Any number of batches\<close>

text \<open>
  Batches one after the other, with new events and anything else that leaves the queue alone - keys that are
  changed or revoked, bookings - in between. The list is what was sent for which row.
\<close>

inductive webhook_run :: "db \<Rightarrow> string list \<Rightarrow> db \<Rightarrow> bool" for d0 where
  start: "webhook_run d0 [] d0"
| batch: "webhook_run d0 posts d \<Longrightarrow> processDueDeliveriesBatch http hmac env now d = (t, sent, d') \<Longrightarrow>
    webhook_run d0 (posts @ sent) d'"
| event: "webhook_run d0 posts d \<Longrightarrow> webhook_run d0 posts (enqueued ctx newId keyId reservationId ev prev d)"
| elsewhere: "webhook_run d0 posts d \<Longrightarrow> d_deliveries d' = d_deliveries d \<Longrightarrow> webhook_run d0 posts d'"

lemma max_attempts_range: "0 < wd_maxAttempts (new_delivery ctx newId keyId i e b)"
  by (simp add: new_delivery_def)

lemma enqueued_pays:
  assumes "queue_ok d"
  shows "pays [] d (enqueued ctx newId keyId i e prev d)"
proof (cases "d_deliveries (enqueued ctx newId keyId i e prev d) = d_deliveries d")
  case True
  then show ?thesis using pays_refl [OF assms] by (simp add: pays_def queue_ok_def)
next
  case False
  then obtain b where b: "d_deliveries (enqueued ctx newId keyId i e prev d) = d_deliveries d @ [new_delivery ctx newId keyId i e b]"
      "find_row wd_id newId (d_deliveries d) = None"
    by (auto simp: enqueued_def split: option.splits if_splits)
  have "wd_id (new_delivery ctx newId keyId i e b) = newId" by (simp add: new_delivery_def)
  then have "keyed wd_id (d_deliveries d @ [new_delivery ctx newId keyId i e b])"
    using b(2) assms by (auto simp: queue_ok_def keyed_def find_row_def find_None_iff)
  moreover have "delivery_ok (new_delivery ctx newId keyId i e b)"
    using max_attempts_range [of ctx newId keyId i e b] by (simp add: delivery_ok_def) (simp add: new_delivery_def)
  ultimately show ?thesis
    using pays_refl [OF assms] b(1) by (auto simp: pays_def queue_ok_def list_all_iff)
qed

lemma webhook_run_pays: "webhook_run d posts d' \<Longrightarrow> queue_ok d \<Longrightarrow> pays posts d d'"
proof (induction rule: webhook_run.induct)
  case start
  then show ?case by (rule pays_refl)
next
  case (batch posts d http hmac env now t sent d')
  then have "queue_ok d" by (simp only: pays_def)
  then have "pays sent d d'" using batch_pays batch.hyps(2) by blast
  then show ?case using pays_trans batch.IH [OF batch.prems] by blast
next
  case (event posts d ctx newId keyId reservationId ev prev)
  then have "pays [] d (enqueued ctx newId keyId reservationId ev prev d)" using enqueued_pays by (simp add: pays_def)
  then show ?case using pays_trans [of posts _ _ "[]"] event by simp
next
  case (elsewhere posts d d')
  then show ?case by (simp add: pays_def queue_ok_def)
qed

text \<open>
  C39: No event is sent more often than its limit: over any number of batches one after the other, whatever the
  partners answer and whatever is enqueued or changed in between, the requests that go out for a row are
  at most the attempts it had left.
\<close>

theorem webhook_attempts_bounded:
  assumes "webhook_run d posts d'" "queue_ok d" "w \<in> set (d_deliveries d)"
  shows "int (count_list posts (wd_id w)) \<le> wd_maxAttempts w - wd_attemptCount w"
proof -
  obtain w' where "delivery_ok w'" "wd_maxAttempts w' = wd_maxAttempts w"
      "used_up w + int (count_list posts (wd_id w)) \<le> used_up w'"
    using webhook_run_pays [OF assms(1,2)] assms(3) by (auto simp: pays_def pays_for_def list_all_iff list_ex_iff)
  then show ?thesis using used_up_bound [of w'] by (simp add: used_up_def split: if_splits)
qed

definition demo_queue :: db where
  "demo_queue = demo_db\<lparr>d_keys := [demo_key\<lparr>pk_webhookUrl := Some ''https://p.io'',
     pk_webhookSigningSecret := Some ''s''\<rparr>], d_deliveries := [\<lparr>wd_id = ''w1'', wd_partnerApiKeyId = ''key1'', wd_reservationId = ''r1'',
     wd_event = ''reservation.created'', wd_bodyJson = ''{}'', wd_status = WH_PENDING, wd_attemptCount = 6,
     wd_maxAttempts = 8, wd_nextAttemptAt = 0, wd_lastAttemptAt = None, wd_lastHttpStatus = None,
     wd_lastError = None, wd_succeededAt = None, wd_createdAt = 0, wd_updatedAt = 0\<rparr>]\<rparr>"

definition demo_refused :: http_client where
  "demo_refused url event sig body = HttpReply 503 ''busy''"

definition demo_batch :: "time \<Rightarrow> db \<Rightarrow> batch_tally \<times> string list \<times> db" where
  "demo_batch = processDueDeliveriesBatch demo_refused (\<lambda>_ _. ''mac'') demo_env"

definition demo_batches :: "string list \<times> db" where
  "demo_batches = (let one = demo_batch demo_now demo_queue; two = demo_batch (demo_now + 900000) (snd (snd one))
     in (fst (snd one) @ fst (snd two), snd (snd two)))"

theorem webhook_attempts_bounded_witness:
  "count_list (fst demo_batches) ''w1'' = 2 \<and> map (\<lambda>w. (wd_status w, wd_attemptCount w)) (d_deliveries (snd demo_batches)) = [(WH_DEAD, 8)]"
proof -
  obtain t1 p1 d1 where one: "demo_batch demo_now demo_queue = (t1, p1, d1)" by (rule prod_cases3)
  obtain t2 p2 d2 where two: "demo_batch (demo_now + 900000) d1 = (t2, p2, d2)" by (rule prod_cases3)
  have "webhook_run demo_queue ([] @ p1) d1"
    by (rule webhook_run.batch [OF webhook_run.start one [unfolded demo_batch_def]])
  then have "webhook_run demo_queue (([] @ p1) @ p2) d2"
    by (rule webhook_run.batch [OF _ two [unfolded demo_batch_def]])
  moreover have "fst demo_batches = p1 @ p2" "snd demo_batches = d2" by (simp_all add: demo_batches_def one two)
  ultimately have "webhook_run demo_queue (fst demo_batches) (snd demo_batches)" by (simp only: append_Nil)
  moreover have "queue_ok demo_queue" by code_simp
  moreover have "hd (d_deliveries demo_queue) \<in> set (d_deliveries demo_queue)" by (simp add: demo_queue_def)
  ultimately have "int (count_list (fst demo_batches) (wd_id (hd (d_deliveries demo_queue)))) \<le>
      wd_maxAttempts (hd (d_deliveries demo_queue)) - wd_attemptCount (hd (d_deliveries demo_queue))"
    by (rule webhook_attempts_bounded)
  then have "count_list (fst demo_batches) ''w1'' \<le> 2" by (simp add: demo_queue_def)
  moreover have "2 \<le> count_list (fst demo_batches) ''w1''" by code_simp
  moreover have "map (\<lambda>w. (wd_status w, wd_attemptCount w)) (d_deliveries (snd demo_batches)) = [(WH_DEAD, 8)]" by code_simp
  ultimately show ?thesis by simp
qed

end
