(* ===== verification/Reservation_Update.thy ===== *)
theory Reservation_Update
  imports Reservation_Core Partner_Webhook
begin

text \<open>
  \<open>ReservationService.update\<close>: the one staff handler that changes bookings. A patch is the list
  of columns it writes, in the order the code collects them (the audit row names them), each with
  its effect on the row. Relations not in the patch keep their value.
\<close>

record update_reservation_input =
  ur_vehicleId :: "string option"
  ur_pickupStationId :: "string option"
  ur_returnStationId :: "string option"
  ur_pickupAt :: "time option"
  ur_returnAt :: "time option"
  ur_status :: "reservation_status option"
  ur_customerId :: "string option option"
  ur_customerName :: "string option"
  ur_customerEmail :: "string option"
  ur_customerPhone :: "string option"
  ur_totalCents :: "int option option"
  ur_currency :: "string option"
  ur_notes :: "string option option"
  ur_extraLines :: "(string \<times> int) list option option"
  ur_odometerOutKm :: "int option option"
  ur_odometerInKm :: "int option option"
  ur_fuelOutPercent :: "int option option"
  ur_fuelInPercent :: "int option option"
  ur_handoverChecklist :: "checklist_item list option option"
  ur_returnChecklist :: "checklist_item list option option"
  ur_handoverOpsNotes :: "string option option"
  ur_returnOpsNotes :: "string option option"
  ur_cargosHandoverOverride :: "string option option"

type_synonym patch = "(string \<times> (reservation \<Rightarrow> reservation)) list"

definition field :: "string \<Rightarrow> 'a option \<Rightarrow> ('a \<Rightarrow> reservation \<Rightarrow> reservation) \<Rightarrow> patch" where
  "field nm x f = (case x of None \<Rightarrow> [] | Some y \<Rightarrow> [(nm, f y)])"

definition apply_patch :: "patch \<Rightarrow> reservation \<Rightarrow> reservation" where
  "apply_patch p r = fold snd p r"

section \<open>The plan of an update\<close>

text \<open>The row and window the booking will have: given values, else the current ones.\<close>

definition next_pickup :: "update_reservation_input \<Rightarrow> reservation \<Rightarrow> time" where
  "next_pickup inp r = or_else (ur_pickupAt inp) (r_pickupAt r)"

definition next_return :: "update_reservation_input \<Rightarrow> reservation \<Rightarrow> time" where
  "next_return inp r = or_else (ur_returnAt inp) (r_returnAt r)"

definition next_vehicle :: "update_reservation_input \<Rightarrow> reservation \<Rightarrow> string" where
  "next_vehicle inp r = or_else (ur_vehicleId inp) (r_vehicleId r)"

definition next_pickup_station :: "update_reservation_input \<Rightarrow> reservation \<Rightarrow> string" where
  "next_pickup_station inp r = or_else (ur_pickupStationId inp) (r_pickupStationId r)"

definition next_return_station :: "update_reservation_input \<Rightarrow> reservation \<Rightarrow> string" where
  "next_return_station inp r = or_else (ur_returnStationId inp) (r_returnStationId r)"

definition check_move :: "db \<Rightarrow> jwt_user \<Rightarrow> string \<Rightarrow> update_reservation_input \<Rightarrow> reservation \<Rightarrow> unit result" where
  "check_move d user i inp r =
     andThen (assertTimeOrder (next_pickup inp r) (next_return inp r)) (\<lambda>_.
     andThen (assertAgentMayUsePickupStation user (next_pickup_station inp r)) (\<lambda>_.
     andThen (if truthy (ur_vehicleId inp) \<or> truthy (ur_pickupStationId inp) \<or> truthy (ur_returnStationId inp)
              then assertCompanyCoherent d (r_companyId r) (next_vehicle inp r) (next_pickup_station inp r)
                     (next_return_station inp r)
              else Inr ()) (\<lambda>_.
     (if truthy (ur_vehicleId inp) \<or> ur_pickupAt inp \<noteq> None \<or> ur_returnAt inp \<noteq> None
      then assertVehicleFree d (next_vehicle inp r) (next_pickup inp r) (next_return inp r) (Some i)
      else Inr ()))))"

definition schedule_patch :: "update_reservation_input \<Rightarrow> patch" where
  "schedule_patch inp =
     field ''vehicleId'' (ur_vehicleId inp) (\<lambda>x. r_vehicleId_update (\<lambda>_. x)) @
     field ''pickupStationId'' (ur_pickupStationId inp) (\<lambda>x. r_pickupStationId_update (\<lambda>_. x)) @
     field ''returnStationId'' (ur_returnStationId inp) (\<lambda>x. r_returnStationId_update (\<lambda>_. x)) @
     field ''pickupAt'' (ur_pickupAt inp) (\<lambda>x. r_pickupAt_update (\<lambda>_. x)) @
     field ''returnAt'' (ur_returnAt inp) (\<lambda>x. r_returnAt_update (\<lambda>_. x)) @
     field ''status'' (ur_status inp) (\<lambda>x. r_status_update (\<lambda>_. x))"

text \<open>Contact columns given without a new customer.\<close>

definition contact_fields :: "update_reservation_input \<Rightarrow> patch" where
  "contact_fields inp =
     field ''customerName'' (ur_customerName inp) (\<lambda>x. r_customerName_update (\<lambda>_. trim x)) @
     field ''customerEmail'' (ur_customerEmail inp) (\<lambda>x. r_customerEmail_update (\<lambda>_. toLowerCase (trim x))) @
     field ''customerPhone'' (ur_customerPhone inp) (\<lambda>x. r_customerPhone_update (\<lambda>_. trim x))"

definition contact_patch :: "db \<Rightarrow> string \<Rightarrow> update_reservation_input \<Rightarrow> patch result" where
  "contact_patch d companyId inp =
     (case ur_customerId inp of
        None \<Rightarrow> Inr (contact_fields inp)
      | Some None \<Rightarrow> Inr ((''customerId'', r_customerId_update (\<lambda>_. None)) # contact_fields inp)
      | Some (Some i) \<Rightarrow>
          andThen (orElse (find_company_customer d i companyId) (NotFound ''Customer not found for this company'')) (\<lambda>c.
          Inr [(''customerId'', r_customerId_update (\<lambda>_. Some (cu_id c))),
               (''customerName'', r_customerName_update (\<lambda>_. trim (or_else (ur_customerName inp) (cu_name c)))),
               (''customerEmail'', r_customerEmail_update (\<lambda>_. toLowerCase (trim (or_else (ur_customerEmail inp) (cu_email c))))),
               (''customerPhone'', r_customerPhone_update (\<lambda>_. trim (or_else (ur_customerPhone inp) (cu_phone c))))]))"

definition ops_patch :: "update_reservation_input \<Rightarrow> patch" where
  "ops_patch inp =
     field ''currency'' (ur_currency inp) (\<lambda>x. r_currency_update (\<lambda>_. x)) @
     field ''notes'' (ur_notes inp) (\<lambda>x. r_notes_update (\<lambda>_. x)) @
     field ''odometerOutKm'' (ur_odometerOutKm inp) (\<lambda>x. r_odometerOutKm_update (\<lambda>_. x)) @
     field ''odometerInKm'' (ur_odometerInKm inp) (\<lambda>x. r_odometerInKm_update (\<lambda>_. x)) @
     field ''fuelOutPercent'' (ur_fuelOutPercent inp) (\<lambda>x. r_fuelOutPercent_update (\<lambda>_. x)) @
     field ''fuelInPercent'' (ur_fuelInPercent inp) (\<lambda>x. r_fuelInPercent_update (\<lambda>_. x)) @
     field ''handoverChecklistJson'' (ur_handoverChecklist inp) (\<lambda>x. r_handoverChecklist_update (\<lambda>_. x)) @
     field ''returnChecklistJson'' (ur_returnChecklist inp) (\<lambda>x. r_returnChecklist_update (\<lambda>_. x)) @
     field ''handoverOpsNotes'' (ur_handoverOpsNotes inp) (\<lambda>x. r_handoverOpsNotes_update (\<lambda>_. x)) @
     field ''returnOpsNotes'' (ur_returnOpsNotes inp) (\<lambda>x. r_returnOpsNotes_update (\<lambda>_. x))"

definition override_patch :: "time \<Rightarrow> jwt_user \<Rightarrow> update_reservation_input \<Rightarrow> patch result" where
  "override_patch now user inp =
     (case ur_cargosHandoverOverride inp of
        None \<Rightarrow> Inr []
      | Some ovr \<Rightarrow>
          if u_role user = AGENT
          then Inl (Forbidden ''Only ADMIN or BRANCH_MANAGER can set a CaRGOS handover override'')
          else Inr (case ovr of
              None \<Rightarrow> [(''cargosHandoverOverrideAt'', r_cargosHandoverOverrideAt_update (\<lambda>_. None)),
                      (''cargosHandoverOverrideById'', r_cargosHandoverOverrideById_update (\<lambda>_. None)),
                      (''cargosHandoverOverrideReason'', r_cargosHandoverOverrideReason_update (\<lambda>_. None))]
            | Some reason \<Rightarrow>
                     [(''cargosHandoverOverrideAt'', r_cargosHandoverOverrideAt_update (\<lambda>_. Some now)),
                      (''cargosHandoverOverrideById'', r_cargosHandoverOverrideById_update (\<lambda>_. Some (u_sub user))),
                      (''cargosHandoverOverrideReason'', r_cargosHandoverOverrideReason_update (\<lambda>_. Some reason))]))"

definition override_intent :: "update_reservation_input \<Rightarrow> override_intent" where
  "override_intent inp =
     (case ur_cargosHandoverOverride inp of
        None \<Rightarrow> OverrideUnchanged
      | Some None \<Rightarrow> OverrideClear
      | Some (Some _) \<Rightarrow> OverrideSet)"

definition next_status :: "update_reservation_input \<Rightarrow> reservation \<Rightarrow> reservation_status" where
  "next_status inp r = or_else (ur_status inp) (r_status r)"

definition check_handover :: "db \<Rightarrow> env \<Rightarrow> time \<Rightarrow> update_reservation_input \<Rightarrow> reservation \<Rightarrow> unit result" where
  "check_handover d env now inp r =
     (if next_status inp r = IN_PROGRESS \<and> r_status r \<noteq> IN_PROGRESS then
        andThen (orElse (find_company d (r_companyId r)) (Crash ''company'')) (\<lambda>c.
          assertInProgressHandoverGates env now (gate_slice_of d c r) (id_count d env r) c (override_intent inp))
      else Inr ())"

definition check_return :: "env \<Rightarrow> update_reservation_input \<Rightarrow> reservation \<Rightarrow> unit result" where
  "check_return env inp r =
     (if next_status inp r = COMPLETED \<and> r_status r \<noteq> COMPLETED then
        assertReturnCompletionGates env
          (or_else (ur_odometerInKm inp) (r_odometerInKm r))
          (or_else (ur_fuelInPercent inp) (r_fuelInPercent r))
          (or_else (ur_returnChecklist inp) (r_returnChecklist r))
      else Inr ())"

definition extra_lines_touched :: "update_reservation_input \<Rightarrow> bool" where
  "extra_lines_touched inp \<longleftrightarrow> ur_extraLines inp \<noteq> None"

definition total_patch :: "db \<Rightarrow> update_reservation_input \<Rightarrow> reservation \<Rightarrow> patch" where
  "total_patch d inp r =
     (let pricingTouched = (ur_vehicleId inp \<noteq> None \<or> ur_pickupAt inp \<noteq> None \<or> ur_returnAt inp \<noteq> None \<or>
            ur_pickupStationId inp \<noteq> None \<or> ur_returnStationId inp \<noteq> None);
          amounts = (case ur_extraLines inp of
             None \<Rightarrow> map xl_amountCents (r_extraLines r)
           | Some None \<Rightarrow> []
           | Some (Some es) \<Rightarrow> map snd es)
      in case ur_totalCents inp of
           Some t \<Rightarrow> [(''totalCents'', r_totalCents_update (\<lambda>_. t))]
         | None \<Rightarrow>
             if extra_lines_touched inp \<or> pricingTouched then
               [(''totalCents'', r_totalCents_update (\<lambda>_.
                  computeAutoTotalCents d (r_companyId r) (next_vehicle inp r) (next_pickup inp r) (next_return inp r)
                    (next_pickup_station inp r) (next_return_station inp r) amounts))]
             else [])"

text \<open>Everything the handler decides before it writes: the current row and the patch.\<close>

definition update_plan ::
  "db \<Rightarrow> ctx \<Rightarrow> jwt_user \<Rightarrow> string \<Rightarrow> update_reservation_input \<Rightarrow> (reservation \<times> patch) result" where
  "update_plan d ctx user i inp =
     andThen (getScopedReservationRecord d (c_env ctx) user i) (\<lambda>current.
     andThen (check_move d user i inp current) (\<lambda>_.
     andThen (contact_patch d (r_companyId current) inp) (\<lambda>contact.
     andThen (override_patch (c_now ctx) user inp) (\<lambda>override.
     andThen (check_handover d (c_env ctx) (c_now ctx) inp current) (\<lambda>_.
     andThen (check_return (c_env ctx) inp current) (\<lambda>_.
     Inr (current, schedule_patch inp @ contact @ ops_patch inp @ override @ total_patch d inp current)))))))"

section \<open>The writes of an update\<close>

definition syncVehicleOdometerIfCompleted :: "reservation \<Rightarrow> unit dbprog" where
  "syncVehicleOdometerIfCompleted r =
     (case (r_status r, r_odometerInKm r) of
        (COMPLETED, Some km) \<Rightarrow>
          andDo (asks (\<lambda>d. ensure (find_vehicle d (r_vehicleId r) \<noteq> None) (Prisma ''P2025'')))
            (modify (d_vehicles_update (update_row v_id (r_vehicleId r) (v_odometerKm_update (\<lambda>_. km)))))
      | _ \<Rightarrow> ret ())"

definition logReservationUpdate :: "jwt_user \<Rightarrow> string \<Rightarrow> patch \<Rightarrow> bool \<Rightarrow> reservation \<Rightarrow> unit dbprog" where
  "logReservationUpdate user i p extraLinesTouched updated =
     audit (bare_audit (Some (u_sub user)) ''reservation.update'' ''Reservation'' i
       (JObj [(''changedFields'', JArr (map JStr (map fst p @ (if extraLinesTouched then [''extraLines''] else [])))),
              (''status'', JStr (status_name (r_status updated))),
              (''vehicleOdometerSynced'', JBool (r_status updated = COMPLETED \<and> r_odometerInKm updated \<noteq> None))]))"

definition logCargosHandoverOverrideAudit :: "update_reservation_input \<Rightarrow> jwt_user \<Rightarrow> string \<Rightarrow> unit dbprog" where
  "logCargosHandoverOverrideAudit inp user i =
     (case ur_cargosHandoverOverride inp of
        None \<Rightarrow> ret ()
      | Some ovr \<Rightarrow>
          audit (bare_audit (Some (u_sub user)) ''reservation.cargos_handover_override'' ''Reservation'' i
            (JObj [(''cleared'', JBool (ovr = None)), (''hasReason'', JBool (ovr \<noteq> None))])))"

definition queueReservationConfirmedEmailIfNeeded :: "ctx \<Rightarrow> reservation_status \<Rightarrow> reservation \<Rightarrow> unit dbprog" where
  "queueReservationConfirmedEmailIfNeeded ctx previousStatus row =
     (if previousStatus = CONFIRMED \<or> r_status row \<noteq> CONFIRMED then ret ()
      else if \<not> c_mailOn ctx then ret ()
      else send_mail \<lparr>m_kind = ''reservationConfirmed'', m_to = r_customerEmail row, m_reservationId = r_id row,
             m_link = None\<rparr>)"

definition maybeEnqueuePartnerStatusWebhookAfterStaffUpdate ::
  "ctx \<Rightarrow> string \<Rightarrow> reservation \<Rightarrow> reservation_status \<Rightarrow> unit dbprog" where
  "maybeEnqueuePartnerStatusWebhookAfterStaffUpdate ctx newId before newStatus =
     (if r_source before \<noteq> PARTNER \<or> \<not> truthy (r_createdByPartnerApiKeyId before) then ret ()
      else if r_status before = newStatus then ret ()
      else enqueueReservationStatusChanged ctx newId (the (r_createdByPartnerApiKeyId before)) (r_id before)
             (r_status before))"

text \<open>After the row is written: the odometer, the audit rows, the mail and the partner event.\<close>

definition after_update ::
  "ctx \<Rightarrow> jwt_user \<Rightarrow> string \<Rightarrow> string \<Rightarrow> update_reservation_input \<Rightarrow> reservation \<Rightarrow> patch \<Rightarrow> reservation \<Rightarrow> unit dbprog" where
  "after_update ctx user newId i inp current p updated =
     andDo (syncVehicleOdometerIfCompleted updated)
     (andDo (logReservationUpdate user i p (extra_lines_touched inp) updated)
     (andDo (logCargosHandoverOverrideAudit inp user i)
     (andDo (queueReservationConfirmedEmailIfNeeded ctx (r_status current) updated)
     (maybeEnqueuePartnerStatusWebhookAfterStaffUpdate ctx newId current (r_status updated)))))"

definition new_lines :: "update_reservation_input \<Rightarrow> extra_line list" where
  "new_lines inp =
     (case ur_extraLines inp of
        Some (Some es) \<Rightarrow> line_creates es
      | _ \<Rightarrow> [])"

text \<open>
  With extra lines in the request the writes are one transaction. The answer is read with a second
  database client inside it, which does not see the uncommitted writes: it is the view of the state
  \<open>d0\<close> the request started from.
\<close>

definition reservation_update ::
  "ctx \<Rightarrow> jwt_user \<Rightarrow> string \<Rightarrow> string \<Rightarrow> update_reservation_input \<Rightarrow> reservation_view dbprog" where
  "reservation_update ctx user newId i inp =
     bnd (asks (\<lambda>d. update_plan d ctx user i inp)) (\<lambda>(current, p).
     if p = [] \<and> \<not> extra_lines_touched inp
     then asks (\<lambda>d. reservation_getOne d (c_env ctx) (c_now ctx) user i)
     else if \<not> extra_lines_touched inp then
       bnd (update_reservation (c_now ctx) i (apply_patch p)) (\<lambda>updated.
       andDo (after_update ctx user newId i inp current p updated)
       (asks (\<lambda>d. reservation_getOne d (c_env ctx) (c_now ctx) user i)))
     else
       bnd (gets id) (\<lambda>d0.
       transaction
         (bnd (update_reservation (c_now ctx) i (\<lambda>r. (apply_patch p r)\<lparr>r_extraLines := new_lines inp\<rparr>)) (\<lambda>updated.
          andDo (after_update ctx user newId i inp current p updated)
          (asks (\<lambda>_. reservation_getOne d0 (c_env ctx) (c_now ctx) user i))))))"

section \<open>What a patch does\<close>

lemma apply_append [simp]: "apply_patch (p @ q) r = apply_patch q (apply_patch p r)"
  by (simp add: apply_patch_def)

lemma apply_field [simp]: "apply_patch (field nm x f) r = (case x of None \<Rightarrow> r | Some y \<Rightarrow> f y r)"
  by (simp add: apply_patch_def field_def split: option.splits)

lemma apply_Nil [simp]: "apply_patch [] r = r"
  by (simp add: apply_patch_def)

lemma apply_Cons [simp]: "apply_patch ((nm, f) # p) r = apply_patch p (f r)"
  by (simp add: apply_patch_def)

text \<open>A column that no entry of a patch touches.\<close>

definition untouched :: "(reservation \<Rightarrow> 'a) \<Rightarrow> patch \<Rightarrow> bool" where
  "untouched sel p \<longleftrightarrow> (\<forall>(nm, f)\<in>set p. \<forall>r. sel (f r) = sel r)"

lemma untouched_apply: "untouched sel p \<Longrightarrow> sel (apply_patch p r) = sel r"
  by (induction p arbitrary: r) (auto simp: untouched_def)

lemma untouched_append [simp]: "untouched sel (p @ q) \<longleftrightarrow> untouched sel p \<and> untouched sel q"
  by (auto simp: untouched_def)

lemma untouched_Cons [simp]: "untouched sel ((nm, f) # p) \<longleftrightarrow> (\<forall>r. sel (f r) = sel r) \<and> untouched sel p"
  by (auto simp: untouched_def)

lemma untouched_Nil [simp]: "untouched sel []"
  by (simp add: untouched_def)

lemma untouched_field: "(\<And>y r. sel (f y r) = sel r) \<Longrightarrow> untouched sel (field nm x f)"
  by (cases x) (simp_all add: field_def)

lemma contact_fields_untouched:
  "untouched r_id (contact_fields inp)" "untouched booking_slot (contact_fields inp)"
  "untouched r_status (contact_fields inp)" "untouched r_odometerInKm (contact_fields inp)"
  "untouched r_companyId (contact_fields inp)"
  by (auto simp: contact_fields_def booking_slot_def intro!: untouched_field)

lemma contact_patch_untouched:
  assumes "contact_patch d c inp = Inr p"
  shows "untouched r_id p" "untouched booking_slot p" "untouched r_status p" "untouched r_odometerInKm p"
    "untouched r_companyId p"
  using assms contact_fields_untouched [of inp]
  by (auto simp: contact_patch_def andThen_Inr booking_slot_def split: option.splits)

lemma ops_patch_untouched:
  "untouched r_id (ops_patch inp)" "untouched booking_slot (ops_patch inp)" "untouched r_status (ops_patch inp)"
  "untouched r_companyId (ops_patch inp)"
  by (auto simp: ops_patch_def booking_slot_def intro!: untouched_field)

lemma override_patch_untouched:
  assumes "override_patch now user inp = Inr p"
  shows "untouched r_id p" "untouched booking_slot p" "untouched r_status p" "untouched r_odometerInKm p"
    "untouched r_companyId p"
  using assms by (auto simp: override_patch_def booking_slot_def split: option.splits if_splits)

lemma total_patch_untouched:
  "untouched r_id (total_patch d inp r)" "untouched booking_slot (total_patch d inp r)"
  "untouched r_status (total_patch d inp r)" "untouched r_odometerInKm (total_patch d inp r)"
  "untouched r_companyId (total_patch d inp r)"
  by (auto simp: total_patch_def booking_slot_def Let_def split: option.splits)

lemma schedule_patch_apply:
  "r_id (apply_patch (schedule_patch inp) r) = r_id r"
  "r_companyId (apply_patch (schedule_patch inp) r) = r_companyId r"
  "booking_slot (apply_patch (schedule_patch inp) r) = (next_vehicle inp r, next_pickup inp r, next_return inp r)"
  "r_status (apply_patch (schedule_patch inp) r) = next_status inp r"
  "r_odometerInKm (apply_patch (schedule_patch inp) r) = r_odometerInKm r"
  by (auto simp: schedule_patch_def booking_slot_def next_vehicle_def next_pickup_def next_return_def
      next_status_def or_else_def split: option.splits)

lemma ops_patch_odometer:
  "r_odometerInKm (apply_patch (ops_patch inp) r) = or_else (ur_odometerInKm inp) (r_odometerInKm r)"
  by (simp add: ops_patch_def or_else_def split: option.splits)

lemma update_plan_Inr:
  assumes "update_plan d ctx user i inp = Inr (current, p)"
  shows "find_reservation d i = Some current"
    and "may_see_company (c_env ctx) user (r_companyId current)"
    and "check_move d user i inp current = Inr ()"
    and "check_handover d (c_env ctx) (c_now ctx) inp current = Inr ()"
    and "check_return (c_env ctx) inp current = Inr ()"
    and "\<And>r. r_id (apply_patch p r) = r_id r"
    and "\<And>r. r_companyId (apply_patch p r) = r_companyId r"
    and "\<And>r. booking_slot (apply_patch p r) = (next_vehicle inp r, next_pickup inp r, next_return inp r)"
    and "\<And>r. r_status (apply_patch p r) = next_status inp r"
    and "\<And>r. r_odometerInKm (apply_patch p r) = or_else (ur_odometerInKm inp) (r_odometerInKm r)"
proof -
  obtain contact override where pl:
    "getScopedReservationRecord d (c_env ctx) user i = Inr current"
    "check_move d user i inp current = Inr ()" "contact_patch d (r_companyId current) inp = Inr contact"
    "override_patch (c_now ctx) user inp = Inr override"
    "check_handover d (c_env ctx) (c_now ctx) inp current = Inr ()" "check_return (c_env ctx) inp current = Inr ()"
    "p = schedule_patch inp @ contact @ ops_patch inp @ override @ total_patch d inp current"
    using assms by (auto simp: update_plan_def andThen_Inr)
  note u = untouched_apply [OF contact_patch_untouched(1) [OF pl(3)]] untouched_apply [OF contact_patch_untouched(2) [OF pl(3)]]
    untouched_apply [OF contact_patch_untouched(3) [OF pl(3)]] untouched_apply [OF contact_patch_untouched(4) [OF pl(3)]]
    untouched_apply [OF contact_patch_untouched(5) [OF pl(3)]]
    untouched_apply [OF override_patch_untouched(1) [OF pl(4)]] untouched_apply [OF override_patch_untouched(2) [OF pl(4)]]
    untouched_apply [OF override_patch_untouched(3) [OF pl(4)]] untouched_apply [OF override_patch_untouched(4) [OF pl(4)]]
    untouched_apply [OF override_patch_untouched(5) [OF pl(4)]]
    untouched_apply [OF ops_patch_untouched(1)] untouched_apply [OF ops_patch_untouched(2)]
    untouched_apply [OF ops_patch_untouched(3)] untouched_apply [OF ops_patch_untouched(4)]
    untouched_apply [OF total_patch_untouched(1)] untouched_apply [OF total_patch_untouched(2)]
    untouched_apply [OF total_patch_untouched(3)] untouched_apply [OF total_patch_untouched(4)]
    untouched_apply [OF total_patch_untouched(5)]
  show "find_reservation d i = Some current" "may_see_company (c_env ctx) user (r_companyId current)"
    using pl(1) by (simp_all add: getScoped_Inr)
  show "check_move d user i inp current = Inr ()" "check_handover d (c_env ctx) (c_now ctx) inp current = Inr ()"
    "check_return (c_env ctx) inp current = Inr ()" using pl by simp_all
  show "r_id (apply_patch p r) = r_id r"
    "r_companyId (apply_patch p r) = r_companyId r"
    "booking_slot (apply_patch p r) = (next_vehicle inp r, next_pickup inp r, next_return inp r)"
    "r_status (apply_patch p r) = next_status inp r"
    "r_odometerInKm (apply_patch p r) = or_else (ur_odometerInKm inp) (r_odometerInKm r)" for r
    by (simp_all add: pl(7) u schedule_patch_apply ops_patch_odometer)
qed

section \<open>Frames of the writes\<close>

lemma after_update_keeps_reservations:
  "wpre (after_update ctx user newId i inp current p updated)
     (\<lambda>_ s. d_reservations s = d_reservations d) (\<lambda>_ s. d_reservations s = d_reservations d) d"
  by (auto simp: after_update_def syncVehicleOdometerIfCompleted_def logReservationUpdate_def
      logCargosHandoverOverrideAudit_def queueReservationConfirmedEmailIfNeeded_def
      maybeEnqueuePartnerStatusWebhookAfterStaffUpdate_def wp
      split: reservation_status.split option.split)

lemma after_update_rows: "d_reservations (snd (after_update ctx user newId i inp current p updated d)) = d_reservations d"
  using after_update_keeps_reservations [of ctx user newId i inp current p updated d]
  unfolding wpre_run [where P = "\<lambda>_ s. d_reservations s = d_reservations d"] .

lemma wpre_after_update_rows:
  assumes "\<And>s. d_reservations s = d_reservations d \<Longrightarrow> Q () s" "\<And>e s. d_reservations s = d_reservations d \<Longrightarrow> E e s"
  shows "wpre (after_update ctx user newId i inp current p updated) Q E d"
  by (rule wpre_mono [OF after_update_keeps_reservations]) (use assms in auto)

lemma wpre_after_update_any:
  "(\<And>s. Q () s) \<Longrightarrow> (\<And>e s. E e s) \<Longrightarrow> wpre (after_update ctx user newId i inp current p updated) Q E d"
  by (rule wpre_after_update_rows)

text \<open>The function a successful update applies to the row.\<close>

definition update_row_fun :: "ctx \<Rightarrow> update_reservation_input \<Rightarrow> patch \<Rightarrow> reservation \<Rightarrow> reservation" where
  "update_row_fun ctx inp p =
     stamped (c_now ctx)
       (if extra_lines_touched inp then (\<lambda>r. (apply_patch p r)\<lparr>r_extraLines := new_lines inp\<rparr>) else apply_patch p)"

definition update_writes :: "update_reservation_input \<Rightarrow> patch \<Rightarrow> bool" where
  "update_writes inp p \<longleftrightarrow> p \<noteq> [] \<or> extra_lines_touched inp"

text \<open>
  Whatever the outcome, the reservations afterwards are those before, or those before with the
  planned function applied to the row, and then the plan succeeded.
\<close>

lemma reservation_update_rows:
  "d_reservations (snd (reservation_update ctx user newId i inp d)) = d_reservations d \<or>
   (\<exists>current p. update_plan d ctx user i inp = Inr (current, p) \<and> update_writes inp p \<and>
      d_reservations (snd (reservation_update ctx user newId i inp d)) =
        update_row r_id i (update_row_fun ctx inp p) (d_reservations d))"
proof (cases "update_plan d ctx user i inp")
  case (Inl e)
  then show ?thesis by (simp add: reservation_update_def)
next
  case (Inr plan)
  obtain current p where cp: "plan = (current, p)" by (cases plan)
  let ?rs = "update_row r_id i (update_row_fun ctx inp p) (d_reservations d)"
  have "wpre (reservation_update ctx user newId i inp)
      (\<lambda>_ s. d_reservations s = d_reservations d \<or> update_writes inp p \<and> d_reservations s = ?rs)
      (\<lambda>_ s. d_reservations s = d_reservations d \<or> update_writes inp p \<and> d_reservations s = ?rs) d"
    using Inr unfolding reservation_update_def update_writes_def
    by (auto simp: wp cp update_row_fun_def intro!: wpre_after_update_rows)
  from this [unfolded wpre_run [where P = "\<lambda>_ s. d_reservations s = d_reservations d \<or>
      update_writes inp p \<and> d_reservations s = ?rs"]]
  show ?thesis using Inr cp by blast
qed

lemma reservation_update_success:
  assumes "reservation_update ctx user newId i inp d = (Inr v, d')"
    and "update_plan d ctx user i inp = Inr (current, p)" "update_writes inp p"
  shows "d_reservations d' = update_row r_id i (update_row_fun ctx inp p) (d_reservations d)"
proof -
  have "wpre (reservation_update ctx user newId i inp)
      (\<lambda>_ s. d_reservations s = update_row r_id i (update_row_fun ctx inp p) (d_reservations d)) (\<lambda>_ _. True) d"
    using assms(2,3) unfolding reservation_update_def update_writes_def
    by (auto simp: wp update_row_fun_def intro!: wpre_after_update_rows)
  from wpre_success [OF this assms(1)] show ?thesis .
qed

lemma reservation_update_planned:
  assumes "reservation_update ctx user newId i inp d = (Inr v, d')"
  obtains current p where "update_plan d ctx user i inp = Inr (current, p)"
  using assms by (cases "update_plan d ctx user i inp") (auto simp: reservation_update_def)

lemma update_row_fun_facts:
  assumes "update_plan d ctx user i inp = Inr (current, p)"
  shows "r_id (update_row_fun ctx inp p r) = r_id r"
    and "r_companyId (update_row_fun ctx inp p r) = r_companyId r"
    and "booking_slot (update_row_fun ctx inp p r) = (next_vehicle inp r, next_pickup inp r, next_return inp r)"
    and "r_status (update_row_fun ctx inp p r) = next_status inp r"
    and "r_odometerInKm (update_row_fun ctx inp p r) = or_else (ur_odometerInKm inp) (r_odometerInKm r)"
  using update_plan_Inr(6-10) [OF assms, of r]
  by (simp_all add: update_row_fun_def stamped_def booking_slot_def)

section \<open>Double bookings\<close>

text \<open>Identifiers of a request are not empty (they are UUIDs).\<close>

definition update_input_ok :: "update_reservation_input \<Rightarrow> bool" where
  "update_input_ok inp \<longleftrightarrow> ur_vehicleId inp \<noteq> Some []"

text \<open>A change that brings a closed booking back without touching its vehicle or window.\<close>

definition reactivates :: "db \<Rightarrow> string \<Rightarrow> update_reservation_input \<Rightarrow> bool" where
  "reactivates d i inp \<longleftrightarrow>
     ur_vehicleId inp = None \<and> ur_pickupAt inp = None \<and> ur_returnAt inp = None \<and>
     (case find_reservation d i of
        None \<Rightarrow> False
      | Some r \<Rightarrow> \<not> active_status (r_status r) \<and> active_status (next_status inp r))"

lemma reservation_update_keeps:
  assumes ok: "bookings_ok d" and inp: "update_input_ok inp" and re: "\<not> reactivates d i inp"
  shows "bookings_ok (snd (reservation_update ctx user newId i inp d))"
proof -
  consider (same) "d_reservations (snd (reservation_update ctx user newId i inp d)) = d_reservations d"
    | (row) current p where "update_plan d ctx user i inp = Inr (current, p)"
        "d_reservations (snd (reservation_update ctx user newId i inp d)) =
           update_row r_id i (update_row_fun ctx inp p) (d_reservations d)"
    using reservation_update_rows [of ctx user newId i inp d] by blast
  then show ?thesis
  proof cases
    case same
    then show ?thesis using ok bookings_ok_cong by blast
  next
    case row
    let ?f = "update_row_fun ctx inp p"
    note facts = update_row_fun_facts [OF row(1)] and plan = update_plan_Inr [OF row(1)]
    have only: "r = current" if "r \<in> set (d_reservations d)" "r_id r = i" for r
      using reservations.find_keyed [of d r i] ok plan(1) that by (simp add: bookings_ok_def find_reservation_def)
    have "bookings_ok (d_reservations_update (update_row r_id i ?f) d)"
    proof (cases "ur_vehicleId inp = None \<and> ur_pickupAt inp = None \<and> ur_returnAt inp = None")
      case True
      have "holds r" if "r \<in> set (d_reservations d)" "r_id r = i" "holds (?f r)" for r
        using only [OF that(1,2)] that(3) re True plan(1) facts(4) by (auto simp: reactivates_def holds_def)
      then show ?thesis
        using ok facts True
        by (intro bookings_ok_update_same)
          (simp_all add: booking_slot_def next_vehicle_def next_pickup_def next_return_def or_else_def)
    next
      case False
      then have moved: "truthy (ur_vehicleId inp) \<or> ur_pickupAt inp \<noteq> None \<or> ur_returnAt inp \<noteq> None"
        using inp by (auto simp: update_input_ok_def truthy_iff)
      have "assertVehicleFree d (next_vehicle inp current) (next_pickup inp current) (next_return inp current) (Some i) = Inr ()"
        and "next_pickup inp current < next_return inp current"
        using plan(3) moved by (auto simp: check_move_def andThen_Inr assertTimeOrder_def)
      then show ?thesis
        using ok plan(1) facts(1) facts(3) [of current]
        by (intro bookings_ok_update_moved [where ?r0.0 = current and s = "booking_slot (?f current)"])
          (simp_all add: booking_free_def booking_slot_def)
    qed
    then show ?thesis
      using row(2) bookings_ok_cong [of "snd (reservation_update ctx user newId i inp d)"
          "d_reservations_update (update_row r_id i ?f) d"] by simp
  qed
qed

section \<open>Status changes\<close>

lemma update_find:
  assumes "reservation_update ctx user newId i inp d = (Inr v, d')"
    and "update_plan d ctx user i inp = Inr (current, p)"
  shows "find_reservation d' i = Some (if update_writes inp p then update_row_fun ctx inp p current else current)"
proof (cases "update_writes inp p")
  case True
  then show ?thesis
    using reservation_update_success [OF assms True] update_plan_Inr(1) [OF assms(2)] update_row_fun_facts(1) [OF assms(2)]
    by (simp add: find_reservation_def tables)
next
  case False
  then have "snd (reservation_update ctx user newId i inp d) = d"
    using assms(2) by (auto simp: reservation_update_def update_writes_def)
  then show ?thesis using assms(1) False update_plan_Inr(1) [OF assms(2)] by simp
qed

text \<open>A requested status is written.\<close>

lemma update_writes_status:
  assumes "update_plan d ctx user i inp = Inr (current, p)" "ur_status inp \<noteq> None"
  shows "update_writes inp p"
  using assms by (auto simp: update_writes_def update_plan_def andThen_Inr schedule_patch_def field_def)

text \<open>
  C35: An update that puts a booking IN_PROGRESS passes the gate of the handover: when it succeeds and the booking
  was not IN_PROGRESS before, every requirement that the environment switches on
  held at that moment: a signed agreement, a CaRGOS transmission done, skipped or overridden where
  the company needs one, and identity documents on file. (A booking created IN_PROGRESS passes no gate.)
\<close>

theorem handover_only_through_gate:
  assumes "reservation_update ctx user newId i inp d = (Inr v, d')"
    and "find_reservation d i = Some r" "r_status r \<noteq> IN_PROGRESS"
    and "find_reservation d' i = Some r'" "r_status r' = IN_PROGRESS"
  shows "\<exists>c. find_company d (r_companyId r) = Some c \<and>
    (envOn (c_env ctx) ''HANDOVER_REQUIRE_SIGNED_AGREEMENT'' True \<longrightarrow>
       map_option ra_status (agreement_of d i) = Some AGREEMENT_SIGNED) \<and>
    (envOn (c_env ctx) ''HANDOVER_REQUIRE_CARGOS'' True \<and> co_cargosInScope c \<and> co_cargosAdapter c \<noteq> ADAPTER_OFF \<longrightarrow>
       (\<exists>s\<in>set (d_cargos d). cs_reservationId s = i \<and> cs_status s \<in> {CG_MOCK_SENT, CG_SKIPPED}) \<or>
       override_intent inp = OverrideSet \<or>
       override_intent inp = OverrideUnchanged \<and> r_cargosHandoverOverrideAt r \<noteq> None) \<and>
    (envOn (c_env ctx) ''HANDOVER_REQUIRE_ID_DOCUMENTS'' False \<longrightarrow> r_customerId r \<noteq> None \<and> 0 < id_count d (c_env ctx) r)"
proof -
  obtain current p where plan: "update_plan d ctx user i inp = Inr (current, p)"
    using reservation_update_planned [OF assms(1)] .
  note pl = update_plan_Inr [OF plan]
  have cur: "current = r" using pl(1) assms(2) by simp
  have id: "r_id r = i" using find_reservation_id [OF assms(2)] by simp
  have r': "r' = (if update_writes inp p then update_row_fun ctx inp p r else r)"
    using update_find [OF assms(1) plan] assms(4) cur by simp
  then have "next_status inp r = IN_PROGRESS"
    using assms(3,5) update_row_fun_facts(4) [OF plan, of r] by (auto split: if_splits)
  then obtain c where c: "find_company d (r_companyId r) = Some c"
    "isInr (assertInProgressHandoverGates (c_env ctx) (c_now ctx) (gate_slice_of d c r) (id_count d (c_env ctx) r) c
        (override_intent inp))"
    using pl(4) assms(3) cur by (auto simp: check_handover_def andThen_Inr isInr_iff)
  have sub: "x \<in> set (gs_submissions (gate_slice_of d c r)) \<Longrightarrow>
      \<exists>s\<in>set (d_cargos d). cs_reservationId s = i \<and> cs_status s = x" for x
    by (auto simp: gate_slice_of_def submissions_of_def id)
  show ?thesis
    using c(1) c(2) [unfolded gate_ready_iff] sub
    by (auto simp: gate_slice_of_def id)
qed

text \<open>
  A rental is completed only with what the environment requires of a return (odometer, fuel
  level, a fully ticked checklist), and completing it with an odometer reading sets the vehicle's
  odometer to that reading.
\<close>

theorem completion_checks_and_syncs:
  assumes "reservation_update ctx user newId i inp d = (Inr v, d')"
    and "find_reservation d i = Some r" "r_status r \<noteq> COMPLETED" "ur_status inp = Some COMPLETED"
  shows "(returnRequireOdometerIn (c_env ctx) \<longrightarrow> odometerInPresent (or_else (ur_odometerInKm inp) (r_odometerInKm r))) \<and>
    (returnRequireFuelIn (c_env ctx) \<longrightarrow> fuelInPresent (or_else (ur_fuelInPercent inp) (r_fuelInPercent r))) \<and>
    (returnRequireReturnChecklist (c_env ctx) \<longrightarrow>
       isReturnChecklistComplete (or_else (ur_returnChecklist inp) (r_returnChecklist r))) \<and>
    (\<exists>r'. find_reservation d' i = Some r' \<and> r_status r' = COMPLETED \<and>
       (\<forall>km. r_odometerInKm r' = Some km \<longrightarrow> map_option v_odometerKm (find_vehicle d' (r_vehicleId r')) = Some km))"
proof -
  obtain current p where plan: "update_plan d ctx user i inp = Inr (current, p)"
    using reservation_update_planned [OF assms(1)] .
  note pl = update_plan_Inr [OF plan]
  have cur: "current = r" using pl(1) assms(2) by simp
  have w: "update_writes inp p" using update_writes_status [OF plan] assms(4) by simp
  let ?r' = "update_row_fun ctx inp p r"
  have st: "next_status inp r = COMPLETED" using assms(4) by (simp add: next_status_def or_else_def)
  have r': "find_reservation d' i = Some ?r'" "r_status ?r' = COMPLETED"
    using update_find [OF assms(1) plan] w cur update_row_fun_facts(4) [OF plan, of r] st by simp_all
  have sync: "map_option v_odometerKm (find_vehicle s (r_vehicleId u)) = Some km"
    if "s = d_vehicles_update (update_row v_id (r_vehicleId u) (v_odometerKm_update (\<lambda>_. km))) e"
      "find_vehicle e (r_vehicleId u) \<noteq> None" for s u km e
    using that by (auto simp: find_vehicle_def tables)
  have "wpre (reservation_update ctx user newId i inp)
      (\<lambda>_ s. \<forall>km. r_odometerInKm ?r' = Some km \<longrightarrow> map_option v_odometerKm (find_vehicle s (r_vehicleId ?r')) = Some km)
      (\<lambda>_ _. True) d"
    using plan w cur r'(2) pl(1) unfolding reservation_update_def update_writes_def
    by (auto simp: wp after_update_def syncVehicleOdometerIfCompleted_def logReservationUpdate_def
        logCargosHandoverOverrideAudit_def queueReservationConfirmedEmailIfNeeded_def
        maybeEnqueuePartnerStatusWebhookAfterStaffUpdate_def update_row_fun_def find_vehicle_def tables
        split: option.split)
  from wpre_success [OF this assms(1)]
  have od: "\<forall>km. r_odometerInKm ?r' = Some km \<longrightarrow> map_option v_odometerKm (find_vehicle d' (r_vehicleId ?r')) = Some km" .
  show ?thesis
    using pl(5) st assms(3) cur r' od by (simp add: check_return_def assertReturnCompletionGates_Inr)
qed

section \<open>Instances\<close>

definition no_change :: update_reservation_input where
  "no_change = \<lparr>ur_vehicleId = None, ur_pickupStationId = None, ur_returnStationId = None, ur_pickupAt = None,
     ur_returnAt = None, ur_status = None, ur_customerId = None, ur_customerName = None, ur_customerEmail = None,
     ur_customerPhone = None, ur_totalCents = None, ur_currency = None, ur_notes = None, ur_extraLines = None,
     ur_odometerOutKm = None, ur_odometerInKm = None, ur_fuelOutPercent = None, ur_fuelInPercent = None,
     ur_handoverChecklist = None, ur_returnChecklist = None, ur_handoverOpsNotes = None,
     ur_returnOpsNotes = None, ur_cargosHandoverOverride = None\<rparr>"

definition demo_ready :: db where
  "demo_ready = demo_db\<lparr>d_agreements := [\<lparr>ra_id = ''a1'', ra_companyId = ''acme'', ra_reservationId = ''r1'',
       ra_status = AGREEMENT_SIGNED, ra_agreementTemplateVersion = None, ra_body = ''Terms'', ra_signedAt = Some 0,
       ra_signedByName = Some ''Mario Rossi'', ra_signedClientIp = None, ra_signedUserAgent = None\<rparr>],
     d_cargos := [\<lparr>cs_id = ''s1'', cs_companyId = ''acme'', cs_reservationId = ''r1'', cs_status = CG_MOCK_SENT,
       cs_errorMessage = None, cs_attemptCount = 1, cs_processedAt = None, cs_createdAt = 0, cs_updatedAt = 0\<rparr>]\<rparr>"

definition demo_start :: "reservation_view result \<times> db" where
  "demo_start = reservation_update demo_ctx demo_agent ''w1'' ''r1'' (no_change\<lparr>ur_status := Some IN_PROGRESS\<rparr>) demo_ready"

definition demo_finish :: "reservation_view result \<times> db" where
  "demo_finish = reservation_update demo_ctx demo_agent ''w1'' ''r1''
     (no_change\<lparr>ur_status := Some COMPLETED, ur_odometerInKm := Some (Some 250)\<rparr>) (snd demo_start)"

theorem handover_only_through_gate_witness:
  "map_option ra_status (agreement_of demo_ready ''r1'') = Some AGREEMENT_SIGNED \<and>
   (\<exists>s\<in>set (d_cargos demo_ready). cs_status s \<in> {CG_MOCK_SENT, CG_SKIPPED})"
proof -
  have "isInr (fst demo_start)" by code_simp
  then obtain v where run: "demo_start = (Inr v, snd demo_start)" using isInr_pair by blast
  have "map_option r_status (find_reservation (snd demo_start) ''r1'') = Some IN_PROGRESS" by code_simp
  then obtain r' where r': "find_reservation (snd demo_start) ''r1'' = Some r'" "r_status r' = IN_PROGRESS" by auto
  have r: "find_reservation demo_ready ''r1'' = Some demo_reservation" by code_simp
  have st: "r_status demo_reservation \<noteq> IN_PROGRESS" by code_simp
  have run': "reservation_update demo_ctx demo_agent ''w1'' ''r1'' (no_change\<lparr>ur_status := Some IN_PROGRESS\<rparr>) demo_ready =
      (Inr v, snd demo_start)"
    by (fold demo_start_def) (rule run)
  from handover_only_through_gate [OF run' r st r']
  obtain c where c: "find_company demo_ready (r_companyId demo_reservation) = Some c"
    "envOn (c_env demo_ctx) ''HANDOVER_REQUIRE_SIGNED_AGREEMENT'' True \<longrightarrow>
       map_option ra_status (agreement_of demo_ready ''r1'') = Some AGREEMENT_SIGNED"
    "envOn (c_env demo_ctx) ''HANDOVER_REQUIRE_CARGOS'' True \<and> co_cargosInScope c \<and> co_cargosAdapter c \<noteq> ADAPTER_OFF \<longrightarrow>
       (\<exists>s\<in>set (d_cargos demo_ready). cs_reservationId s = ''r1'' \<and> cs_status s \<in> {CG_MOCK_SENT, CG_SKIPPED}) \<or>
       override_intent (no_change\<lparr>ur_status := Some IN_PROGRESS\<rparr>) = OverrideSet \<or>
       override_intent (no_change\<lparr>ur_status := Some IN_PROGRESS\<rparr>) = OverrideUnchanged \<and>
         r_cargosHandoverOverrideAt demo_reservation \<noteq> None" by blast
  have "find_company demo_ready (r_companyId demo_reservation) = Some demo_company" by code_simp
  moreover have "envOn (c_env demo_ctx) nm True" for nm by (simp add: demo_ctx_def demo_env_def envOn_def)
  moreover have "co_cargosInScope demo_company" "co_cargosAdapter demo_company \<noteq> ADAPTER_OFF"
    "r_cargosHandoverOverrideAt demo_reservation = None"
    "override_intent (no_change\<lparr>ur_status := Some IN_PROGRESS\<rparr>) \<noteq> OverrideSet" by code_simp+
  ultimately show ?thesis using c by auto
qed

theorem completion_checks_and_syncs_witness:
  "\<exists>r'. find_reservation (snd demo_finish) ''r1'' = Some r' \<and> r_status r' = COMPLETED \<and>
     (\<forall>km. r_odometerInKm r' = Some km \<longrightarrow> map_option v_odometerKm (find_vehicle (snd demo_finish) (r_vehicleId r')) = Some km)"
proof -
  have "isInr (fst demo_finish)" by code_simp
  then obtain v where run: "demo_finish = (Inr v, snd demo_finish)" using isInr_pair by blast
  have "map_option r_status (find_reservation (snd demo_start) ''r1'') = Some IN_PROGRESS" by code_simp
  then obtain r where r: "find_reservation (snd demo_start) ''r1'' = Some r" "r_status r \<noteq> COMPLETED" by auto
  have run': "reservation_update demo_ctx demo_agent ''w1'' ''r1''
      (no_change\<lparr>ur_status := Some COMPLETED, ur_odometerInKm := Some (Some 250)\<rparr>) (snd demo_start) =
      (Inr v, snd demo_finish)"
    by (fold demo_finish_def) (rule run)
  show ?thesis
    using completion_checks_and_syncs [OF run' r] by simp
qed

text \<open>
  A request that replaces the extra lines is answered with the booking as it was before the
  request, not as it was written.
\<close>

theorem extra_lines_answer_is_stale:
  assumes "reservation_update ctx user newId i inp d = (Inr v, d')" "ur_extraLines inp \<noteq> None"
  shows "find_reservation d i = Some (rv_row v)"
proof -
  have "wpre (reservation_update ctx user newId i inp) (\<lambda>v _. find_reservation d i = Some (rv_row v)) (\<lambda>_ _. True) d"
    using assms(2) unfolding reservation_update_def extra_lines_touched_def
    by (auto simp: wp reservation_getOne_def andThen_Inr getScoped_Inr intro!: wpre_after_update_any)
  from wpre_success [OF this assms(1)] show ?thesis .
qed

definition demo_lines :: "reservation_view result \<times> db" where
  "demo_lines = reservation_update demo_ctx demo_admin ''w1'' ''r1''
     (no_change\<lparr>ur_extraLines := Some (Some [(''Child seat'', 900)])\<rparr>) demo_db"

theorem extra_lines_answer_is_stale_witness:
  "\<exists>v r'. fst demo_lines = Inr v \<and> r_extraLines (rv_row v) = [] \<and>
     find_reservation (snd demo_lines) ''r1'' = Some r' \<and> map xl_amountCents (r_extraLines r') = [900]"
proof -
  have "isInr (fst demo_lines)" by code_simp
  then obtain v where run: "demo_lines = (Inr v, snd demo_lines)" using isInr_pair by blast
  have run': "reservation_update demo_ctx demo_admin ''w1'' ''r1''
      (no_change\<lparr>ur_extraLines := Some (Some [(''Child seat'', 900)])\<rparr>) demo_db = (Inr v, snd demo_lines)"
    by (fold demo_lines_def) (rule run)
  have "find_reservation demo_db ''r1'' = Some (rv_row v)"
    by (rule extra_lines_answer_is_stale [OF run']) simp
  moreover have "find_reservation demo_db ''r1'' = Some demo_reservation" by code_simp
  moreover have "r_extraLines demo_reservation = []" by code_simp
  moreover have "map_option (\<lambda>r. map xl_amountCents (r_extraLines r)) (find_reservation (snd demo_lines) ''r1'') = Some [900]"
    by code_simp
  moreover have "fst demo_lines = Inr v" using run by (metis fst_conv)
  ultimately show ?thesis by auto
qed

text \<open>Two bookings of one vehicle for one window, the first of them cancelled.\<close>

definition demo_cancelled :: db where
  "demo_cancelled = demo_db\<lparr>d_reservations :=
     [demo_reservation\<lparr>r_status := CANCELLED\<rparr>, demo_reservation\<lparr>r_id := ''r2''\<rparr>]\<rparr>"

text \<open>
  C40: Setting only the status of a cancelled booking back to CONFIRMED is accepted without a look
  at the calendar: from a calendar without double bookings the handler reaches one with a double
  booking.
\<close>

theorem reactivation_double_books:
  "bookings_ok demo_cancelled \<and>
   (\<exists>v. fst (reservation_update demo_ctx demo_agent ''w1'' ''r1'' (no_change\<lparr>ur_status := Some CONFIRMED\<rparr>) demo_cancelled) = Inr v) \<and>
   \<not> no_double_booking (snd (reservation_update demo_ctx demo_agent ''w1'' ''r1''
       (no_change\<lparr>ur_status := Some CONFIRMED\<rparr>) demo_cancelled))"
proof (intro conjI)
  show "bookings_ok demo_cancelled" by code_simp
  have "isInr (fst (reservation_update demo_ctx demo_agent ''w1'' ''r1'' (no_change\<lparr>ur_status := Some CONFIRMED\<rparr>) demo_cancelled))"
    by code_simp
  then show "\<exists>v. fst (reservation_update demo_ctx demo_agent ''w1'' ''r1''
      (no_change\<lparr>ur_status := Some CONFIRMED\<rparr>) demo_cancelled) = Inr v"
    by (simp add: isInr_iff)
  show "\<not> no_double_booking (snd (reservation_update demo_ctx demo_agent ''w1'' ''r1''
       (no_change\<lparr>ur_status := Some CONFIRMED\<rparr>) demo_cancelled))"
    by code_simp
qed

end
