(* ===== verification/Reservation_Partner.thy ===== *)
theory Reservation_Partner
  imports Reservation_Core Partner_Webhook
begin

text \<open>
  The partner API of \<open>apps/api/src/reservation/reservation.service.ts\<close>: booking with an
  idempotency key, reading, listing and cancelling. \<open>sha256\<close> is the hash of the runtime's
  crypto library.
\<close>

record partner_ctx =
  pc_companyId :: string
  pc_partnerApiKeyId :: string
  pc_idempotencyKey :: "string option"

section \<open>The body of a request, for its hash\<close>

definition present :: "string \<Rightarrow> 'a option \<Rightarrow> ('a \<Rightarrow> json) \<Rightarrow> (string \<times> json) list" where
  "present nm x f = (case x of None \<Rightarrow> [] | Some y \<Rightarrow> [(nm, f y)])"

definition create_body_json :: "create_reservation_input \<Rightarrow> json" where
  "create_body_json inp =
     JObj ([(''companyId'', JStr (nr_companyId inp)), (''vehicleId'', JStr (nr_vehicleId inp)),
            (''pickupStationId'', JStr (nr_pickupStationId inp)), (''returnStationId'', JStr (nr_returnStationId inp)),
            (''pickupAt'', JDate (nr_pickupAt inp)), (''returnAt'', JDate (nr_returnAt inp))] @
           present ''status'' (nr_status inp) (\<lambda>s. JStr (status_name s)) @
           present ''customerId'' (nr_customerId inp) JStr @
           present ''customerName'' (nr_customerName inp) JStr @
           present ''customerEmail'' (nr_customerEmail inp) JStr @
           present ''customerPhone'' (nr_customerPhone inp) JStr @
           present ''totalCents'' (nr_totalCents inp) JNum @
           [(''currency'', JStr (nr_currency inp))] @
           present ''notes'' (nr_notes inp) JStr @
           present ''extraLines'' (nr_extraLines inp)
             (\<lambda>es. JArr (map (\<lambda>(l, a). JObj [(''label'', JStr l), (''amountCents'', JNum a)]) es)))"

section \<open>Booking\<close>

definition find_partner_reservation :: "db \<Rightarrow> string \<Rightarrow> string \<Rightarrow> reservation option" where
  "find_partner_reservation d i companyId =
     (case find_reservation d i of
        None \<Rightarrow> None
      | Some r \<Rightarrow> if r_companyId r = companyId \<and> r_source r = PARTNER then Some r else None)"

definition find_idempotency :: "db \<Rightarrow> string \<Rightarrow> string \<Rightarrow> partner_idempotency option" where
  "find_idempotency d keyId keyHash =
     List.find (\<lambda>x. id_partnerApiKeyId x = keyId \<and> id_keyHash x = keyHash) (d_idempotencies d)"

text \<open>Key hash and body hash of a request, when it carries a key.\<close>

definition request_hashes ::
  "(string \<Rightarrow> string) \<Rightarrow> partner_ctx \<Rightarrow> create_reservation_input \<Rightarrow> (string \<times> string) option result" where
  "request_hashes sha256 pc inp =
     (let rawKey = map_option trim (pc_idempotencyKey pc)
      in if \<not> truthy rawKey then Inr None
         else if length (the rawKey) > 256 then Inl (BadRequest ''Idempotency-Key must be at most 256 characters'')
         else Inr (Some (sha256 (the rawKey), sha256 (stableStringify (create_body_json inp)))))"

text \<open>An earlier request with the same key: its reservation, or a conflict.\<close>

definition replay :: "db \<Rightarrow> partner_ctx \<Rightarrow> (string \<times> string) option \<Rightarrow> reservation option result" where
  "replay d pc hashes =
     (case hashes of
        None \<Rightarrow> Inr None
      | Some (keyHash, bodyHash) \<Rightarrow>
          (case find_idempotency d (pc_partnerApiKeyId pc) keyHash of
             None \<Rightarrow> Inr None
           | Some existing \<Rightarrow>
               if id_bodyHash existing \<noteq> bodyHash
               then Inl (Conflict ''Idempotency-Key was already used with a different request payload'')
               else (case find_partner_reservation d (id_reservationId existing) (pc_companyId pc) of
                       None \<Rightarrow> Inl (Conflict ''Idempotency record exists but reservation is missing or no longer PARTNER-sourced'')
                     | Some row \<Rightarrow> Inr (Some row))))"

definition insert_idempotency :: "partner_idempotency \<Rightarrow> unit dbprog" where
  "insert_idempotency x =
     andDo (asks (\<lambda>d. ensure (find_idempotency d (id_partnerApiKeyId x) (id_keyHash x) = None) (Prisma ''P2002'')))
       (modify (d_idempotencies_update (\<lambda>xs. xs @ [x])))"

definition partner_insert ::
  "partner_ctx \<Rightarrow> (string \<times> string) option \<Rightarrow> reservation \<Rightarrow> reservation dbprog" where
  "partner_insert pc hashes r =
     transaction
       (bnd (insert_reservation r) (\<lambda>row.
        andDo (case hashes of
                 None \<Rightarrow> ret ()
               | Some h \<Rightarrow> insert_idempotency \<lparr>id_partnerApiKeyId = pc_partnerApiKeyId pc, id_keyHash = fst h,
                   id_bodyHash = snd h, id_reservationId = r_id row\<rparr>)
        (ret row)))"

text \<open>A lost race on the key: the winner's reservation is the answer.\<close>

definition partner_conflict ::
  "partner_ctx \<Rightarrow> (string \<times> string) option \<Rightarrow> http_error \<Rightarrow> reservation dbprog" where
  "partner_conflict pc hashes e =
     (case hashes of
        None \<Rightarrow> throw e
      | Some h \<Rightarrow>
          if e \<noteq> Prisma ''P2002'' then throw e
          else asks (\<lambda>d.
            case find_idempotency d (pc_partnerApiKeyId pc) (fst h) of
              None \<Rightarrow> Inl e
            | Some dup \<Rightarrow>
                if id_bodyHash dup \<noteq> snd h
                then Inl (Conflict ''Idempotency-Key was already used with a different request payload'')
                else orElse (find_partner_reservation d (id_reservationId dup) (pc_companyId pc)) e))"

definition partner_audit_json :: "partner_ctx \<Rightarrow> (string \<times> string) option \<Rightarrow> reservation \<Rightarrow> json" where
  "partner_audit_json pc hashes r =
     JObj [(''status'', JStr (status_name (r_status r))), (''vehicleId'', JStr (r_vehicleId r)),
           (''channel'', JStr ''partner_api''), (''partnerApiKeyId'', JStr (pc_partnerApiKeyId pc)),
           (''idempotent'', JBool (hashes \<noteq> None))]"

definition partner_book ::
  "ctx \<Rightarrow> partner_ctx \<Rightarrow> string \<Rightarrow> string \<Rightarrow> (string \<times> string) option \<Rightarrow> create_reservation_input \<Rightarrow> reservation dbprog" where
  "partner_book ctx pc newId deliveryId hashes inp =
     bnd (asks (\<lambda>d. check_booking d inp)) (\<lambda>contact.
     bnd (gets (\<lambda>d. resolveTotalCents d inp)) (\<lambda>totalCents.
     catch
       (bnd (partner_insert pc hashes
              (new_reservation newId (c_now ctx) inp PARTNER (Some (pc_partnerApiKeyId pc)) contact totalCents)) (\<lambda>created.
        andDo (audit (audit_entry ctx None ''reservation.create'' ''Reservation'' (r_id created)
          (partner_audit_json pc hashes created)))
        (andDo (enqueueReservationCreated ctx deliveryId (pc_partnerApiKeyId pc) (r_id created))
        (ret created))))
       (partner_conflict pc hashes)))"

definition createForPartner ::
  "(string \<Rightarrow> string) \<Rightarrow> ctx \<Rightarrow> partner_ctx \<Rightarrow> string \<Rightarrow> string \<Rightarrow> create_reservation_input \<Rightarrow> reservation dbprog" where
  "createForPartner sha256 ctx pc newId deliveryId inp =
     andDo (asks (\<lambda>_. ensure (nr_companyId inp = pc_companyId pc) (Forbidden ''companyId does not match API key'')))
     (bnd (asks (\<lambda>_. request_hashes sha256 pc inp)) (\<lambda>hashes.
      bnd (asks (\<lambda>d. replay d pc hashes)) (\<lambda>previous.
      case previous of
        Some row \<Rightarrow> ret row
      | None \<Rightarrow> partner_book ctx pc newId deliveryId hashes inp)))"

section \<open>Reading and cancelling\<close>

definition getOneForPartner :: "db \<Rightarrow> string \<Rightarrow> string \<Rightarrow> reservation result" where
  "getOneForPartner d i companyId =
     orElse (find_partner_reservation d i companyId) (NotFound (''Reservation not found: '' @ i))"

record partner_page =
  pp_items :: "reservation list"
  pp_total :: nat
  pp_limit :: nat
  pp_offset :: nat

definition listForPartner :: "db \<Rightarrow> string \<Rightarrow> nat \<Rightarrow> nat \<Rightarrow> string option \<Rightarrow> partner_page result" where
  "listForPartner d companyId lim off status =
     (let st = map_option trim status
      in if truthy st \<and> the st \<notin> set (map status_name reservationStatusValues)
         then Inl (BadRequest ''Invalid status filter'')
         else
           let rows = filter (\<lambda>r. r_companyId r = companyId \<and> r_source r = PARTNER \<and>
                 (truthy st \<longrightarrow> Some (status_name (r_status r)) = st)) (d_reservations d)
           in Inr \<lparr>pp_items = take lim (drop off (sort_key (\<lambda>r. - r_createdAt r) rows)),
                pp_total = length rows, pp_limit = lim, pp_offset = off\<rparr>)"

definition check_partner_cancel :: "reservation \<Rightarrow> unit result" where
  "check_partner_cancel current =
     (if r_status current \<notin> set [QUOTE, PENDING_PAYMENT, CONFIRMED]
      then Inl (Conflict ''Partner can only cancel reservations in QUOTE, PENDING_PAYMENT, or CONFIRMED status'')
      else if r_paidAt current \<noteq> None
      then Inl (Conflict ''Cannot cancel a reservation with recorded rental payment via partner API'')
      else if r_depositHoldStatus current \<in> set [DEP_PENDING, DEP_UNCAPTURED, DEP_CAPTURED]
      then Inl (Conflict ''Cannot cancel while a deposit hold is active; contact the rental company or release the hold in desk'')
      else Inr ())"

definition cancelForPartner :: "ctx \<Rightarrow> partner_ctx \<Rightarrow> string \<Rightarrow> string \<Rightarrow> reservation dbprog" where
  "cancelForPartner ctx pc deliveryId i =
     bnd (asks (\<lambda>d. getOneForPartner d i (pc_companyId pc))) (\<lambda>current.
     if r_status current = CANCELLED then asks (\<lambda>d. getOneForPartner d i (pc_companyId pc))
     else
       andDo (asks (\<lambda>_. check_partner_cancel current))
       (bnd (update_reservation (c_now ctx) i (r_status_update (\<lambda>_. CANCELLED))) (\<lambda>updated.
        andDo (audit (audit_entry ctx None ''reservation.partner_cancel'' ''Reservation'' i
          (JObj [(''channel'', JStr ''partner_api''), (''partnerApiKeyId'', JStr (pc_partnerApiKeyId pc)),
                 (''previousStatus'', JStr (status_name (r_status current)))])))
        (andDo (enqueueReservationCancelled ctx deliveryId (pc_partnerApiKeyId pc) i (r_status current))
        (ret updated)))))"

section \<open>Idempotency\<close>

lemma find_partner_frame [simp]:
  "find_partner_reservation (enqueued ctx n k i e p d) = find_partner_reservation d"
  "find_idempotency (enqueued ctx n k i e p d) = find_idempotency d"
  by (simp_all add: fun_eq_iff find_partner_reservation_def find_reservation_def find_idempotency_def)

lemma find_List_append: "List.find P (xs @ ys) = (case List.find P xs of None \<Rightarrow> List.find P ys | Some x \<Rightarrow> Some x)"
  by (induction xs) auto

lemma createForPartner_replays:
  assumes "nr_companyId inp = pc_companyId pc" "request_hashes sha256 pc inp = Inr (Some h)"
    and "replay d pc (Some h) = r"
  shows "createForPartner sha256 ctx pc newId deliveryId inp d =
    (case r of Inl e \<Rightarrow> (Inl e, d) | Inr (Some row) \<Rightarrow> (Inr row, d)
     | Inr None \<Rightarrow> partner_book ctx pc newId deliveryId (Some h) inp d)"
  using assms by (auto simp: createForPartner_def bnd_def andDo_def split: sum.splits option.splits)

lemma wpre_partner_insert:
  "wpre (partner_insert pc hashes r) Q E d =
     ((find_reservation d (r_id r) \<noteq> None \<longrightarrow> E (Prisma ''P2002'') d) \<and>
      (find_reservation d (r_id r) = None \<longrightarrow>
        (let d1 = d_reservations_update (\<lambda>rs. rs @ [r]) d
         in case hashes of
              None \<Rightarrow> Q r d1
            | Some h \<Rightarrow>
                if find_idempotency d (pc_partnerApiKeyId pc) (fst h) \<noteq> None then E (Prisma ''P2002'') d
                else Q r (d_idempotencies_update (\<lambda>xs. xs @ [\<lparr>id_partnerApiKeyId = pc_partnerApiKeyId pc,
                   id_keyHash = fst h, id_bodyHash = snd h, id_reservationId = r_id r\<rparr>]) d1))))"
  by (simp add: partner_insert_def insert_idempotency_def wp find_idempotency_def Let_def split: option.split)

lemma find_idempotency_frame [simp]:
  "find_idempotency (d_audit_update f d) = find_idempotency d"
  "find_idempotency (d_reservations_update g d) = find_idempotency d"
  by (simp_all add: fun_eq_iff find_idempotency_def)

lemma wpre_partner_conflict:
  "find_idempotency d (pc_partnerApiKeyId pc) (fst h) = None \<Longrightarrow>
     wpre (partner_conflict pc (Some h) e) Q E d = E e d"
  by (cases "e = Prisma ''P2002''") (simp_all add: partner_conflict_def wp)

text \<open>A successful booking leaves the key bound to the reservation it answers with.\<close>

lemma partner_book_binds:
  assumes "find_idempotency d (pc_partnerApiKeyId pc) (fst h) = None" "nr_companyId inp = pc_companyId pc"
  shows "wpre (partner_book ctx pc newId deliveryId (Some h) inp) (\<lambda>row s. replay s pc (Some h) = Inr (Some row)) (\<lambda>_ _. True) d"
proof -
  let ?r = "\<lambda>contact totalCents. new_reservation newId (c_now ctx) inp PARTNER (Some (pc_partnerApiKeyId pc)) contact totalCents"
  have bound: "replay s pc (Some h) = Inr (Some r)"
    if "d_idempotencies s = d_idempotencies d @ [\<lparr>id_partnerApiKeyId = pc_partnerApiKeyId pc, id_keyHash = fst h,
          id_bodyHash = snd h, id_reservationId = r_id r\<rparr>]"
      and "d_reservations s = d_reservations d @ [r]" "find_reservation d (r_id r) = None"
      and "r_companyId r = pc_companyId pc" "r_source r = PARTNER" for s r
    using that assms(1)
    by (cases h) (simp add: replay_def find_idempotency_def find_List_append find_partner_reservation_def
        find_reservation_def tables)
  show ?thesis
    unfolding partner_book_def
    by (simp add: wp wpre_partner_insert wpre_partner_conflict Let_def assms)
      (intro allI impI, rule bound, simp_all add: assms)
qed

lemma createForPartner_bound:
  assumes "createForPartner sha256 ctx pc newId deliveryId inp d = (Inr row, d')"
    and "request_hashes sha256 pc inp = Inr (Some h)"
  shows "replay d' pc (Some h) = Inr (Some row)"
proof -
  have comp: "nr_companyId inp = pc_companyId pc"
    using assms(1) by (cases "nr_companyId inp = pc_companyId pc") (auto simp: createForPartner_def)
  note run = assms(1) [unfolded createForPartner_replays [OF comp assms(2) refl]]
  show ?thesis
  proof (cases "replay d pc (Some h)")
    case (Inl e)
    then show ?thesis using run by simp
  next
    case (Inr previous)
    show ?thesis
    proof (cases previous)
      case None
      then have "find_idempotency d (pc_partnerApiKeyId pc) (fst h) = None"
        using Inr by (cases h) (auto simp: replay_def split: option.splits if_splits)
      moreover have "partner_book ctx pc newId deliveryId (Some h) inp d = (Inr row, d')"
        using run Inr None by simp
      ultimately show ?thesis using wpre_success [OF partner_book_binds] comp by blast
    next
      case (Some x)
      then show ?thesis using run Inr by simp
    qed
  qed
qed

text \<open>
  C26: An idempotency key books once. After a booking with a key succeeded, repeating the request
  with the same key and body, whenever and with whatever fresh identifiers, returns the same
  reservation and changes nothing; with the same key and a body of another hash it is refused
  with a conflict and changes nothing.
\<close>

theorem partner_booking_idempotent:
  assumes "createForPartner sha256 ctx pc newId deliveryId inp d = (Inr row, d')"
    and "pc_idempotencyKey pc = Some key" "trim key \<noteq> []"
  shows "createForPartner sha256 ctx' pc newId' deliveryId' inp d' = (Inr row, d') \<and>
    (nr_companyId inp' = pc_companyId pc \<and>
     sha256 (stableStringify (create_body_json inp')) \<noteq> sha256 (stableStringify (create_body_json inp)) \<longrightarrow>
       (\<exists>m. createForPartner sha256 ctx' pc newId' deliveryId' inp' d' = (Inl (Conflict m), d')))"
proof -
  have comp: "nr_companyId inp = pc_companyId pc"
    using assms(1) by (cases "nr_companyId inp = pc_companyId pc") (auto simp: createForPartner_def)
  have len: "length (trim key) \<le> 256"
    using assms comp by (cases "length (trim key) \<le> 256") (auto simp: createForPartner_def request_hashes_def)
  have h: "request_hashes sha256 pc x = Inr (Some (sha256 (trim key), sha256 (stableStringify (create_body_json x))))" for x
    using assms(2,3) len by (simp add: request_hashes_def)
  note bound = createForPartner_bound [OF assms(1) h]
  have same: "createForPartner sha256 ctx' pc newId' deliveryId' inp d' = (Inr row, d')"
    using createForPartner_replays [OF comp h bound] by simp
  have "\<exists>m. replay d' pc (Some (sha256 (trim key), b)) = Inl (Conflict m)"
    if "b \<noteq> sha256 (stableStringify (create_body_json inp))" for b
    using bound that by (auto simp: replay_def split: option.splits if_splits)
  then show ?thesis
    using same createForPartner_replays [OF _ h refl, where inp = inp'] by fastforce
qed

definition demo_partner :: partner_ctx where
  "demo_partner = \<lparr>pc_companyId = ''acme'', pc_partnerApiKeyId = ''key1'', pc_idempotencyKey = Some '' abc''\<rparr>"

definition demo_booking :: create_reservation_input where
  "demo_booking = \<lparr>nr_companyId = ''acme'', nr_vehicleId = ''v2'', nr_pickupStationId = ''rome'',
     nr_returnStationId = ''rome'', nr_pickupAt = day_at 2, nr_returnAt = day_at 4, nr_status = Some CONFIRMED,
     nr_customerId = Some ''c1'', nr_customerName = None, nr_customerEmail = None, nr_customerPhone = None,
     nr_totalCents = Some 9000, nr_currency = ''EUR'', nr_notes = None, nr_extraLines = None\<rparr>"

definition demo_hash :: "string \<Rightarrow> string" where
  "demo_hash s = s"

definition demo_partner_run :: "reservation result \<times> db" where
  "demo_partner_run = createForPartner demo_hash demo_ctx demo_partner ''r2'' ''w1'' demo_booking demo_db"

theorem partner_booking_idempotent_witness:
  "\<exists>row. fst demo_partner_run = Inr row \<and>
     createForPartner demo_hash demo_ctx demo_partner ''r3'' ''w2'' demo_booking (snd demo_partner_run) =
       (Inr row, snd demo_partner_run)"
proof -
  have comp: "nr_companyId demo_booking = pc_companyId demo_partner" by code_simp
  have "length (trim '' abc'') \<le> 256" "trim '' abc'' \<noteq> []" by code_simp+
  then obtain h where h: "request_hashes demo_hash demo_partner demo_booking = Inr (Some h)"
    by (simp add: request_hashes_def demo_partner_def)
  have rp: "replay demo_db demo_partner (Some h) = Inr None"
    by (simp add: replay_def find_idempotency_def demo_db_def empty_db_def split: prod.split)
  have "isInr (fst (partner_book demo_ctx demo_partner ''r2'' ''w1'' (Some h) demo_booking demo_db))" by code_simp
  then have "isInr (fst demo_partner_run)"
    using createForPartner_replays [OF comp h rp] by (simp add: demo_partner_run_def)
  then obtain row where run: "demo_partner_run = (Inr row, snd demo_partner_run)"
    using isInr_pair by blast
  have run': "createForPartner demo_hash demo_ctx demo_partner ''r2'' ''w1'' demo_booking demo_db =
      (Inr row, snd demo_partner_run)"
    by (fold demo_partner_run_def) (rule run)
  have key: "pc_idempotencyKey demo_partner = Some '' abc''" "trim '' abc'' \<noteq> []" by code_simp+
  have "fst demo_partner_run = Inr row" using run by (metis fst_conv)
  then show ?thesis using partner_booking_idempotent [OF run' key] by blast
qed

section \<open>Cancellation\<close>

text \<open>
  A partner can cancel exactly its company's partner bookings that are cancelled already, or
  that have not started, are not paid and hold no deposit; a successful call leaves the booking
  cancelled, and a refused one leaves the database as it was.
\<close>

theorem partner_cancel_spec:
  "(isInr (fst (cancelForPartner ctx pc deliveryId i d)) \<longleftrightarrow>
      (\<exists>r. find_partner_reservation d i (pc_companyId pc) = Some r \<and>
         (r_status r = CANCELLED \<or>
          r_status r \<in> {QUOTE, PENDING_PAYMENT, CONFIRMED} \<and> r_paidAt r = None \<and>
          r_depositHoldStatus r \<notin> {DEP_PENDING, DEP_UNCAPTURED, DEP_CAPTURED}))) \<and>
   (if isInr (fst (cancelForPartner ctx pc deliveryId i d))
    then map_option r_status (find_reservation (snd (cancelForPartner ctx pc deliveryId i d)) i) = Some CANCELLED
    else snd (cancelForPartner ctx pc deliveryId i d) = d)"
proof (cases "find_partner_reservation d i (pc_companyId pc)")
  case None
  then show ?thesis by (simp add: cancelForPartner_def getOneForPartner_def)
next
  case (Some r)
  then have f: "find_reservation d i = Some r"
    by (auto simp: find_partner_reservation_def split: option.splits if_splits)
  show ?thesis
  proof (cases "r_status r = CANCELLED \<or> check_partner_cancel r \<noteq> Inr ()")
    case True
    then show ?thesis
      using Some f
      by (auto simp: cancelForPartner_def getOneForPartner_def check_partner_cancel_def split: if_splits)
  next
    case False
    have "isInr (fst (cancelForPartner ctx pc deliveryId i d))"
      using Some False f
      by (simp add: cancelForPartner_def getOneForPartner_def update_reservation_def audit_def
          enqueueReservationCancelled_def enqueueReservationWebhookEvent_def)
    moreover have "find_reservation (snd (cancelForPartner ctx pc deliveryId i d)) i =
        Some (stamped (c_now ctx) (r_status_update (\<lambda>_. CANCELLED)) r)"
      using Some False f
      by (simp add: cancelForPartner_def getOneForPartner_def update_reservation_def audit_def
          enqueueReservationCancelled_def enqueueReservationWebhookEvent_def find_reservation_def tables stamped_def)
    ultimately show ?thesis
      using Some False by (auto simp: check_partner_cancel_def stamped_def split: if_splits)
  qed
qed

end
