(* ===== verification/Rates.thy ===== *)
theory Rates
  imports Booking_Calendar
begin

text \<open>
  \<open>apps/api/src/pricing/rate.service.ts\<close>: the price quote of a vehicle class for staff and
  for the public pages, and its agreement with the total a booking is stored with.
\<close>

record rate_query =
  rq_vehicleClassId :: string
  rq_pickupAt :: time
  rq_returnAt :: time
  rq_pickupStationId :: "string option"
  rq_returnStationId :: "string option"

record rate_quote =
  qt_vehicleClassId :: string
  qt_companyId :: string
  qt_pickupAt :: time
  qt_returnAt :: time
  qt_rentalDays :: int
  qt_defaultDailyCents :: "int option"
  qt_subtotalCents :: "int option"
  qt_oneWayCents :: int
  qt_totalCents :: "int option"
  qt_defaultDepositCents :: "int option"
  qt_currency :: string
  qt_pricingModel :: string

text \<open>The one-way part: both stations given, different, found and of the company.\<close>

definition quote_one_way :: "db \<Rightarrow> company \<Rightarrow> string \<Rightarrow> rate_query \<Rightarrow> int result" where
  "quote_one_way d company companyId q =
     (if truthy (rq_pickupStationId q) \<and> truthy (rq_returnStationId q) \<and>
         rq_pickupStationId q \<noteq> rq_returnStationId q
      then (case (find_station d (the (rq_pickupStationId q)), find_station d (the (rq_returnStationId q))) of
              (Some pu, Some re) \<Rightarrow>
                if st_companyId pu \<noteq> companyId \<or> st_companyId re \<noteq> companyId
                then Inl (BadRequest ''Stations must belong to the same company as the vehicle class'')
                else Inr (case co_oneWayFeeCents company of None \<Rightarrow> 0 | Some f \<Rightarrow> f)
            | _ \<Rightarrow> Inl (NotFound ''Pickup or return station not found for quote''))
      else Inr 0)"

definition quote_of :: "vehicle_class \<Rightarrow> rate_query \<Rightarrow> int \<Rightarrow> rate_quote" where
  "quote_of cls q oneWayCents =
     (let rentCents = sumClassRentCents24h (vc_defaultDailyCents cls) (map season_of (vc_seasonalRates cls))
            (rq_pickupAt q) (rq_returnAt q)
      in \<lparr>qt_vehicleClassId = vc_id cls, qt_companyId = vc_companyId cls, qt_pickupAt = rq_pickupAt q,
          qt_returnAt = rq_returnAt q, qt_rentalDays = countRentalDays24h (rq_pickupAt q) (rq_returnAt q),
          qt_defaultDailyCents = vc_defaultDailyCents cls, qt_subtotalCents = rentCents,
          qt_oneWayCents = oneWayCents,
          qt_totalCents = (case rentCents of
             None \<Rightarrow> if oneWayCents > 0 then Some oneWayCents else None
           | Some rent \<Rightarrow> Some (rent + oneWayCents)),
          qt_defaultDepositCents = vc_defaultDepositCents cls, qt_currency = ''EUR'',
          qt_pricingModel = ''PER_CLASS_DAY_24H''\<rparr>)"

definition rate_quote :: "db \<Rightarrow> env \<Rightarrow> jwt_user \<Rightarrow> rate_query \<Rightarrow> rate_quote result" where
  "rate_quote d env user q =
     (let msg = ''Vehicle class not found: '' @ rq_vehicleClassId q
      in andThen (ensure (rq_returnAt q > rq_pickupAt q) (BadRequest ''returnAt must be after pickupAt'')) (\<lambda>_.
         andThen (orElse (find_class d (rq_vehicleClassId q)) (NotFound msg)) (\<lambda>cls.
         andThen (assertSameCompany env user (vc_companyId cls) msg) (\<lambda>_.
         andThen (orElse (find_company d (vc_companyId cls)) (NotFound (''Company not found: '' @ vc_companyId cls))) (\<lambda>company.
         andThen (if truthy (rq_pickupStationId q)
                  then assertAgentMayUsePickupStation user (the (rq_pickupStationId q)) else Inr ()) (\<lambda>_.
         andThen (quote_one_way d company (vc_companyId cls) q) (\<lambda>oneWayCents.
         Inr (quote_of cls q oneWayCents))))))))"

definition quotePublic :: "db \<Rightarrow> rate_query \<Rightarrow> string \<Rightarrow> rate_quote result" where
  "quotePublic d q companyId =
     (let msg = ''Vehicle class not found: '' @ rq_vehicleClassId q
      in andThen (ensure (rq_returnAt q > rq_pickupAt q) (BadRequest ''returnAt must be after pickupAt'')) (\<lambda>_.
         andThen (orElse (find_class d (rq_vehicleClassId q)) (NotFound msg)) (\<lambda>cls.
         andThen (ensure (vc_companyId cls = companyId) (NotFound msg)) (\<lambda>_.
         andThen (orElse (find_company d companyId) (NotFound ''Company not found'')) (\<lambda>company.
         andThen (quote_one_way d company companyId q) (\<lambda>oneWayCents.
         Inr (quote_of cls q oneWayCents)))))))"

lemma quotePublic_Inr:
  assumes "quotePublic d q companyId = Inr r"
  obtains cls company oneWay where "find_class d (rq_vehicleClassId q) = Some cls" "vc_companyId cls = companyId"
    "find_company d companyId = Some company" "quote_one_way d company companyId q = Inr oneWay"
    "rq_pickupAt q < rq_returnAt q" "r = quote_of cls q oneWay"
  using assms by (auto simp: quotePublic_def Let_def andThen_Inr)

lemma rate_quote_Inr:
  assumes "rate_quote d env user q = Inr r"
  obtains cls company oneWay where "find_class d (rq_vehicleClassId q) = Some cls"
    "find_company d (vc_companyId cls) = Some company" "quote_one_way d company (vc_companyId cls) q = Inr oneWay"
    "rq_pickupAt q < rq_returnAt q" "r = quote_of cls q oneWay"
  using assms by (auto simp: rate_quote_def Let_def andThen_Inr split: if_splits)

text \<open>
  The staff quote and the public quote of the same request agree: whenever the desk gets a
  price, the public page of the class's company gets the same one.
\<close>

theorem staff_and_public_quote_agree:
  assumes "rate_quote d env user q = Inr r"
  shows "quotePublic d q (qt_companyId r) = Inr r"
proof -
  from rate_quote_Inr [OF assms] obtain cls company oneWay where
    "find_class d (rq_vehicleClassId q) = Some cls" "find_company d (vc_companyId cls) = Some company"
    "quote_one_way d company (vc_companyId cls) q = Inr oneWay" "rq_pickupAt q < rq_returnAt q"
    "r = quote_of cls q oneWay" .
  then show ?thesis
    by (simp add: quotePublic_def quote_of_def Let_def)
qed

definition demo_rate_query :: rate_query where
  "demo_rate_query = \<lparr>rq_vehicleClassId = ''eco'', rq_pickupAt = day_at 1, rq_returnAt = day_at 4,
     rq_pickupStationId = Some ''rome'', rq_returnStationId = Some ''milan''\<rparr>"

theorem staff_and_public_quote_agree_witness:
  "\<exists>r. rate_quote demo_db demo_env demo_agent demo_rate_query = Inr r \<and> qt_totalCents r = Some 10500 \<and>
     quotePublic demo_db demo_rate_query ''acme'' = Inr r"
proof -
  let ?r = "quote_of demo_class demo_rate_query 1500"
  have r: "rate_quote demo_db demo_env demo_agent demo_rate_query = Inr ?r" by code_simp
  have t: "qt_totalCents ?r = Some 10500 \<and> qt_companyId ?r = ''acme''" by code_simp
  show ?thesis using staff_and_public_quote_agree [OF r] r t by auto
qed

text \<open>
  The quoted price is the price that is booked: a booking without extras of a vehicle that
  uses its class's prices is stored with the total that was quoted for the same class, window
  and stations.
\<close>

theorem quote_is_booked_price:
  assumes "quotePublic d q companyId = Inr r"
    and "rq_pickupStationId q = Some pickup" "rq_returnStationId q = Some back" "pickup \<noteq> []" "back \<noteq> []"
    and "find_vehicle d vehicleId = Some v" "v_vehicleClassId v = rq_vehicleClassId q"
    and "v_rentPricingMode v = USE_CLASS"
  shows "computeAutoTotalCents d companyId vehicleId (rq_pickupAt q) (rq_returnAt q) pickup back [] = qt_totalCents r"
proof -
  from quotePublic_Inr [OF assms(1)] obtain cls company oneWay where
    q: "find_class d (rq_vehicleClassId q) = Some cls" "find_company d companyId = Some company"
      "quote_one_way d company companyId q = Inr oneWay" "r = quote_of cls q oneWay" by metis
  have "one_way_cents d companyId pickup back = oneWay"
    using q(2,3) assms(2-5)
    by (auto simp: quote_one_way_def one_way_cents_def split: if_splits option.splits)
  moreover have "vehicle_rent d v (rq_pickupAt q) (rq_returnAt q) = qt_subtotalCents r"
    using q(1,4) assms(7,8) by (simp add: vehicle_rent_def quote_of_def Let_def)
  ultimately show ?thesis
    using q(4) assms(6)
    by (simp add: computeAutoTotalCents_def quote_of_def Let_def split: option.splits)
qed

theorem quote_is_booked_price_witness:
  "computeAutoTotalCents demo_db ''acme'' ''v2'' (day_at 1) (day_at 4) ''rome'' ''milan'' [] = Some 10500"
proof -
  let ?r = "quote_of demo_class demo_rate_query 1500"
  have r: "quotePublic demo_db demo_rate_query ''acme'' = Inr ?r" by code_simp
  have v: "find_vehicle demo_db ''v2'' = Some demo_vehicle2" by code_simp
  have t: "qt_totalCents ?r = Some 10500" by code_simp
  show ?thesis
    using quote_is_booked_price [OF r _ _ _ _ v, of "''rome''" "''milan''"] t
    by (simp add: demo_rate_query_def demo_vehicle2_def demo_vehicle_def)
qed

end
