(* ===== verification/Sms.thy ===== *)
theory Sms
  imports Schema
begin

text \<open>
  \<open>apps/api/src/sms/sms.service.ts\<close>: when text messages are on, and the normalisation of the
  numbers customers type. The request to the provider is recorded as the number and the text.
\<close>

definition trimmed_env :: "env \<Rightarrow> string \<Rightarrow> string" where
  "trimmed_env env nm = (case env nm of None \<Rightarrow> [] | Some v \<Rightarrow> trim v)"

definition smsEnabled :: "env \<Rightarrow> bool" where
  "smsEnabled env \<longleftrightarrow>
     trimmed_env env ''TWILIO_ACCOUNT_SID'' \<noteq> [] \<and> trimmed_env env ''TWILIO_AUTH_TOKEN'' \<noteq> [] \<and>
     trimmed_env env ''TWILIO_FROM_NUMBER'' \<noteq> []"

definition isPublicBatchAckEnabled :: "env \<Rightarrow> bool" where
  "isPublicBatchAckEnabled env \<longleftrightarrow>
     toLowerCase (trimmed_env env ''SMS_PUBLIC_BATCH_ACK'') \<in> {''1'', ''true'', ''yes''}"

text \<open>The characters people put between digits: \<open>[\s().-]\<close>.\<close>

definition separator :: "char \<Rightarrow> bool" where
  "separator c \<longleftrightarrow> isSpace c \<or> c \<in> {CHR ''('', CHR '')'', CHR ''.'', CHR ''-''}"

definition tryNormalizeE164 :: "string \<Rightarrow> string option" where
  "tryNormalizeE164 raw =
     (let s = filter (\<lambda>c. \<not> separator c) (trim raw)
      in if s = [] then None
         else if startsWith ''+'' s then
           (let rest = filter isDigit (drop 1 s)
            in if 8 \<le> length rest \<and> length rest \<le> 15 then Some (''+'' @ rest) else None)
         else
           (let digits = filter isDigit s
            in if startsWith ''39'' digits \<and> 10 \<le> length digits \<and> length digits \<le> 13 then Some (''+'' @ digits)
               else if startsWith ''0'' digits \<and> 10 \<le> length digits \<and> length digits \<le> 12 \<and>
                       9 \<le> length (drop 1 digits)
               then Some (''+39'' @ drop 1 digits)
               else if length digits = 10 \<and> startsWith ''3'' digits then Some (''+39'' @ digits)
               else None))"

definition sendSms :: "env \<Rightarrow> string \<Rightarrow> string \<Rightarrow> unit dbprog" where
  "sendSms env toE164 body =
     (if \<not> smsEnabled env then ret ()
      else
        let addr = trim toE164; b = trim body
        in if \<not> startsWith ''+'' addr \<or> length addr < 8 then ret ()
           else if b = [] then ret ()
           else modify (d_texts_update (\<lambda>ts. ts @ [(addr, b)])))"

section \<open>Normalised numbers\<close>

text \<open>A plus sign and 8 to 15 digits.\<close>

definition is_e164 :: "string \<Rightarrow> bool" where
  "is_e164 s \<longleftrightarrow> (\<exists>ds. s = ''+'' @ ds \<and> list_all isDigit ds \<and> 8 \<le> length ds \<and> length ds \<le> 15)"

lemma is_e164_Cons: "is_e164 (CHR ''+'' # ds) \<longleftrightarrow> list_all isDigit ds \<and> 8 \<le> length ds \<and> length ds \<le> 15"
  by (auto simp: is_e164_def)

lemma code_39: "isDigit (CHR ''3'')" "isDigit (CHR ''9'')"
  by code_simp+

lemma normalize_e164: "tryNormalizeE164 raw = Some e \<Longrightarrow> is_e164 e"
proof -
  assume a: "tryNormalizeE164 raw = Some e"
  have digits: "isDigit x" if "x \<in> set (drop n (filter (\<lambda>x. \<not> separator x \<and> isDigit x) s))" for x n s
    using in_set_dropD [OF that] by simp
  show ?thesis using a
    by (auto simp: tryNormalizeE164_def Let_def is_e164_Cons code_39 list_all_iff split: if_splits dest: digits)
qed

lemma normalize_fixes_e164: "is_e164 e \<Longrightarrow> tryNormalizeE164 e = Some e"
proof -
  assume "is_e164 e"
  then obtain ds where ds: "e = ''+'' @ ds" "list_all isDigit ds" "8 \<le> length ds" "length ds \<le> 15"
    by (auto simp: is_e164_def)
  have nsep: "\<not> separator c" "\<not> isSpace c" if "isDigit c" for c
  proof -
    show "\<not> isSpace c" using that by (rule isDigit_not_space)
    moreover have "code (CHR ''('') = 40" "code (CHR '')'') = 41" "code (CHR ''.'') = 46" "code (CHR ''-'') = 45"
      by code_simp+
    ultimately show "\<not> separator c" using that by (auto simp: separator_def isDigit_def)
  qed
  have plus: "\<not> isSpace (CHR ''+'')" "\<not> separator (CHR ''+'')" by code_simp+
  have "trim e = e" using ds nsep plus by (intro trim_no_space) (auto simp: list_all_iff)
  moreover have "filter (\<lambda>c. \<not> separator c) ds = ds" using ds(2) nsep by (auto simp: list_all_iff filter_id_conv)
  moreover have "filter isDigit ds = ds" using ds(2) by (auto simp: list_all_iff filter_id_conv)
  ultimately show ?thesis using ds plus by (simp add: tryNormalizeE164_def Let_def startsWith_def)
qed

text \<open>
  A number that is accepted comes out as a plus sign and 8 to 15 digits, and normalising it
  again changes nothing.
\<close>

theorem normalized_number_is_canonical:
  assumes "tryNormalizeE164 raw = Some e"
  shows "is_e164 e \<and> tryNormalizeE164 e = Some e"
  using normalize_e164 [OF assms] normalize_fixes_e164 by blast

theorem normalized_number_is_canonical_witness:
  "tryNormalizeE164 ''(06) 123-456.78'' = Some ''+39612345678'' \<and> tryNormalizeE164 ''+39612345678'' = Some ''+39612345678''"
proof -
  have "tryNormalizeE164 ''(06) 123-456.78'' = Some ''+39612345678''" by code_simp
  from normalized_number_is_canonical [OF this] this show ?thesis by blast
qed

end
