(* ===== verification/Magic_Link.thy ===== *)
theory Magic_Link
  imports Js_Text
begin

text \<open>
  \<open>apps/api/src/reservation/booking-magic-link.ts\<close>: time-limited signed links to a booking.
  \<open>hmac secret message\<close> stands for the keyed hash of the runtime. A buffer is its list of bytes,
  a text its ASCII characters. \<open>Number\<close> is modelled on blank and decimal integer text; any other
  text is \<open>NaN\<close>, which only a message with a valid signature of another origin could show.
\<close>

section \<open>Base64\<close>

fun byte_bits :: "char \<Rightarrow> bool list" where
  "byte_bits (Char b0 b1 b2 b3 b4 b5 b6 b7) = [b7, b6, b5, b4, b3, b2, b1, b0]"

fun bits_byte :: "bool list \<Rightarrow> char" where
  "bits_byte [b7, b6, b5, b4, b3, b2, b1, b0] = Char b0 b1 b2 b3 b4 b5 b6 b7"
| "bits_byte _ = CHR 0x00"

fun chunks :: "nat \<Rightarrow> 'a list \<Rightarrow> 'a list list" where
  "chunks n xs = (if n = 0 \<or> xs = [] then [] else take n xs # chunks n (drop n xs))"

declare chunks.simps [simp del]

definition alphabet :: string where
  "alphabet = ''ABCDEFGHIJKLMNOPQRSTUVWXYZabcdefghijklmnopqrstuvwxyz0123456789+/''"

definition bits_nat :: "bool list \<Rightarrow> nat" where
  "bits_nat bs = foldl (\<lambda>a b. 2 * a + (if b then 1 else 0)) 0 bs"

fun nat_bits :: "nat \<Rightarrow> nat \<Rightarrow> bool list" where
  "nat_bits 0 n = []"
| "nat_bits (Suc k) n = nat_bits k (n div 2) @ [n mod 2 = 1]"

definition sextet_char :: "bool list \<Rightarrow> char" where
  "sextet_char bs = alphabet ! bits_nat (bs @ replicate (6 - length bs) False)"

fun index_of :: "char \<Rightarrow> string \<Rightarrow> nat option" where
  "index_of c [] = None"
| "index_of c (x # xs) = (if x = c then Some 0 else map_option Suc (index_of c xs))"

text \<open>\<open>Buffer.toString('base64')\<close>, with padding to a multiple of four.\<close>

definition base64 :: "string \<Rightarrow> string" where
  "base64 buf =
     (let cs = map sextet_char (chunks 6 (concat (map byte_bits buf)))
      in cs @ replicate ((4 - length cs mod 4) mod 4) (CHR ''=''))"

text \<open>\<open>Buffer.from(s, 'base64')\<close>: stops at padding, skips characters outside the alphabet.\<close>

definition unbase64 :: "string \<Rightarrow> string" where
  "unbase64 s =
     (let ns = List.map_filter (\<lambda>c. index_of c alphabet) (takeWhile (\<lambda>c. c \<noteq> CHR ''='') s);
          bits = concat (map (nat_bits 6) ns)
      in map bits_byte (filter (\<lambda>ch. length ch = 8) (chunks 8 bits)))"

definition replace_char :: "char \<Rightarrow> char \<Rightarrow> string \<Rightarrow> string" where
  "replace_char a b s = map (\<lambda>c. if c = a then b else c) s"

definition b64url :: "string \<Rightarrow> string" where
  "b64url buf =
     rev (dropWhile (\<lambda>c. c = CHR ''='')
       (rev (replace_char (CHR ''/'') (CHR ''_'') (replace_char (CHR ''+'') (CHR ''-'') (base64 buf)))))"

definition fromB64url :: "string \<Rightarrow> string" where
  "fromB64url s =
     (let padded = replace_char (CHR ''_'') (CHR ''/'') (replace_char (CHR ''-'') (CHR ''+'') s);
          padLen = (4 - (length padded mod 4)) mod 4
      in unbase64 (padded @ replicate padLen (CHR ''='')))"

section \<open>Links\<close>

definition numberOf :: "string \<Rightarrow> int option" where
  "numberOf s =
     (case trim s of
        [] \<Rightarrow> Some 0
      | c # cs \<Rightarrow>
          let neg = (c = CHR ''-''); ds = (if c = CHR ''-'' \<or> c = CHR ''+'' then cs else c # cs)
          in if ds \<noteq> [] \<and> list_all isDigit ds
             then map_option (\<lambda>n. if neg then - n else n) (parseDigits ds) else None)"

definition magic_payload :: "string \<Rightarrow> int \<Rightarrow> string" where
  "magic_payload reservationId expiry = ''1:'' @ reservationId @ '':'' @ show_int expiry"

definition signPublicBookingMagicLink ::
  "(string \<Rightarrow> string \<Rightarrow> string) \<Rightarrow> time \<Rightarrow> string \<Rightarrow> string \<Rightarrow> int \<Rightarrow> string" where
  "signPublicBookingMagicLink hmac now secret reservationId ttlSec =
     (let expiry = now div 1000 + ttlSec;
          payload = magic_payload reservationId expiry
      in b64url payload @ ''.'' @ b64url (hmac secret payload))"

text \<open>The text before and after the last dot; the positions the code rejects give nothing.\<close>

definition split_last_dot :: "string \<Rightarrow> (string \<times> string) option" where
  "split_last_dot token =
     (let sig = rev (takeWhile (\<lambda>c. c \<noteq> CHR ''.'') (rev token));
          enc = take (length token - length sig - 1) token
      in if CHR ''.'' \<notin> set token \<or> enc = [] \<or> sig = [] then None else Some (enc, sig))"

definition verifyPublicBookingMagicLink ::
  "(string \<Rightarrow> string \<Rightarrow> string) \<Rightarrow> time \<Rightarrow> string \<Rightarrow> string \<Rightarrow> string option" where
  "verifyPublicBookingMagicLink hmac now secret token =
     (case split_last_dot token of
        None \<Rightarrow> None
      | Some (enc, sigB64) \<Rightarrow>
          let payload = fromB64url enc
          in if fromB64url sigB64 \<noteq> hmac secret payload then None
             else (case split_on (CHR '':'') payload of
                     [ver, rid, expiry] \<Rightarrow>
                       (case numberOf expiry of
                          None \<Rightarrow> None
                        | Some e \<Rightarrow>
                            if numberOf ver \<noteq> Some 1 \<or> rid = [] then None
                            else if e < now div 1000 then None
                            else Some rid)
                   | _ \<Rightarrow> None))"

section \<open>Base64 is invertible\<close>

lemma length_byte_bits [simp]: "length (byte_bits c) = 8"
  by (cases c) simp

lemma bits_byte_bits [simp]: "bits_byte (byte_bits c) = c"
  by (cases c) simp

lemma chunks_Nil [simp]: "chunks n [] = []"
  by (simp add: chunks.simps)

lemma chunks_append: "length xs = n \<Longrightarrow> 0 < n \<Longrightarrow> chunks n (xs @ ys) = xs # chunks n ys"
  by (subst chunks.simps) auto

lemma chunks_short: "xs \<noteq> [] \<Longrightarrow> length xs < n \<Longrightarrow> chunks n xs = [xs]"
  by (subst chunks.simps) auto

lemma chunks_bytes:
  assumes "length zs < 8"
  shows "filter (\<lambda>ch. length ch = 8) (chunks 8 (concat (map byte_bits buf) @ zs)) = map byte_bits buf"
proof (induction buf)
  case Nil
  then show ?case using assms by (cases "zs = []") (simp_all add: chunks_short)
next
  case (Cons c buf)
  then show ?case by (simp add: chunks_append)
qed

lemma index_alphabet: "distinct xs \<Longrightarrow> i < length xs \<Longrightarrow> index_of (xs ! i) xs = Some i"
proof (induction xs arbitrary: i)
  case (Cons x xs)
  then show ?case by (cases i) (auto simp: nth_mem)
qed simp

lemma alphabet_facts: "distinct alphabet" "length alphabet = 64" "CHR ''='' \<notin> set alphabet"
  "CHR ''-'' \<notin> set alphabet" "CHR ''_'' \<notin> set alphabet" "CHR ''.'' \<notin> set alphabet"
  by code_simp+

lemma list6: "length bs = 6 \<Longrightarrow> \<exists>a b c d e f. bs = [a, b, c, d, e, f]"
  by (cases bs; cases "tl bs"; cases "tl (tl bs)"; cases "tl (tl (tl bs))"; cases "tl (tl (tl (tl bs)))";
      cases "tl (tl (tl (tl (tl bs))))") auto

lemma nat_bits_inverse: "length bs = 6 \<Longrightarrow> nat_bits 6 (bits_nat bs) = bs \<and> bits_nat bs < 64"
proof -
  assume "length bs = 6"
  then have "\<exists>a b c d e f. bs = [a, b, c, d, e, f]" by (rule list6)
  then obtain a b c d e f where "bs = [a, b, c, d, e, f]" by (elim exE)
  then show ?thesis
    by (cases a; cases b; cases c; cases d; cases e; cases f; simp only:; code_simp)
qed

lemma sextet_in: "length bs \<le> 6 \<Longrightarrow> sextet_char bs \<in> set alphabet"
  using nat_bits_inverse [of "bs @ replicate (6 - length bs) False"] alphabet_facts(2)
  by (simp add: sextet_char_def)

lemma sextet_index:
  assumes "length bs \<le> 6"
  shows "map_option (nat_bits 6) (index_of (sextet_char bs) alphabet) = Some (bs @ replicate (6 - length bs) False)"
  using nat_bits_inverse [of "bs @ replicate (6 - length bs) False"] index_alphabet alphabet_facts assms
  by (simp add: sextet_char_def)

lemma chunks_pad:
  "\<exists>zs. length zs < 6 \<and> (length xs + length zs) mod 6 = 0 \<and>
     concat (map (\<lambda>bs. bs @ replicate (6 - length bs) False) (chunks 6 xs)) = xs @ zs"
proof (induction xs rule: length_induct)
  case (1 xs)
  show ?case
  proof (cases "length xs < 6")
    case True
    then show ?thesis
      by (cases "xs = []") (auto simp: chunks_short intro!: exI [of _ "replicate (6 - length xs) False"])
  next
    case False
    then have l: "length (drop 6 xs) < length xs" "length (take 6 xs) = 6" by auto
    from 1 [rule_format, OF l(1)] obtain zs where zs: "length zs < 6" "(length (drop 6 xs) + length zs) mod 6 = 0"
      "concat (map (\<lambda>bs. bs @ replicate (6 - length bs) False) (chunks 6 (drop 6 xs))) = drop 6 xs @ zs"
      by (elim exE conjE) (rule that)
    have "chunks 6 xs = take 6 xs # chunks 6 (drop 6 xs)"
      using chunks_append [of "take 6 xs" 6 "drop 6 xs"] l by simp
    moreover have "(length xs + length zs) mod 6 = 0"
    proof -
      have "length xs + length zs = 6 + (length (drop 6 xs) + length zs)" using False by simp
      then show ?thesis using zs(2) by (metis mod_add_self1)
    qed
    moreover have "(take 6 xs @ drop 6 xs) @ zs = xs @ zs" by (simp only: append_take_drop_id)
    ultimately show ?thesis using zs l(2) by (intro exI [of _ zs]) simp
  qed
qed

lemma chunks_length: "bs \<in> set (chunks 6 xs) \<Longrightarrow> length bs \<le> 6"
proof (induction xs rule: length_induct)
  case (1 xs)
  have "bs = take 6 xs \<or> bs \<in> set (chunks 6 (drop 6 xs))" and "xs \<noteq> []"
    using 1(2) by (subst (asm) chunks.simps, auto split: if_splits)+
  moreover have "length (drop 6 xs) < length xs" using \<open>xs \<noteq> []\<close> by simp
  ultimately show ?case using 1(1) [rule_format, of "drop 6 xs"] by auto
qed

lemma decode_sextets:
  assumes "\<And>bs. bs \<in> set css \<Longrightarrow> length bs \<le> 6"
  shows "concat (map (nat_bits 6) (List.map_filter (\<lambda>c. index_of c alphabet) (map sextet_char css))) =
    concat (map (\<lambda>bs. bs @ replicate (6 - length bs) False) css)"
  using assms
proof (induction css)
  case (Cons bs css)
  obtain n where n: "index_of (sextet_char bs) alphabet = Some n"
    "nat_bits 6 n = bs @ replicate (6 - length bs) False"
    using sextet_index [of bs] Cons.prems by force
  then show ?case using Cons by (simp add: List.map_filter_simps)
qed (simp add: List.map_filter_simps)

definition sextets :: "string \<Rightarrow> string" where
  "sextets buf = map sextet_char (chunks 6 (concat (map byte_bits buf)))"

lemma sextets_alphabet: "c \<in> set (sextets buf) \<Longrightarrow> c \<in> set alphabet"
  using sextet_in chunks_length by (auto simp: sextets_def)

lemma unbase64_sextets: "unbase64 (sextets buf @ replicate k (CHR ''='')) = buf"
proof -
  let ?bits = "concat (map byte_bits buf)"
  have "takeWhile (\<lambda>c. c \<noteq> CHR ''='') (sextets buf @ replicate k (CHR ''='')) = sextets buf"
    using sextets_alphabet alphabet_facts(3)
    by (subst takeWhile_append2) (auto simp: takeWhile_replicate)
  moreover have "concat (map (nat_bits 6) (List.map_filter (\<lambda>c. index_of c alphabet) (sextets buf))) =
      concat (map (\<lambda>bs. bs @ replicate (6 - length bs) False) (chunks 6 ?bits))"
    unfolding sextets_def by (rule decode_sextets) (rule chunks_length)
  moreover obtain zs where "length zs < 6"
    "concat (map (\<lambda>bs. bs @ replicate (6 - length bs) False) (chunks 6 ?bits)) = ?bits @ zs"
    using chunks_pad [of ?bits] by blast
  ultimately show ?thesis
    using chunks_bytes [of zs buf] by (simp add: unbase64_def Let_def o_def map_idI)
qed

definition urlsafe :: "char \<Rightarrow> char" where
  "urlsafe c = (if c = CHR ''+'' then CHR ''-'' else if c = CHR ''/'' then CHR ''_'' else c)"

lemma replace_urlsafe:
  "replace_char (CHR ''/'') (CHR ''_'') (replace_char (CHR ''+'') (CHR ''-'') s) = map urlsafe s"
  by (auto simp: replace_char_def urlsafe_def)

lemma b64url_sextets: "b64url buf = map urlsafe (sextets buf)"
proof -
  have eq: "dropWhile (\<lambda>c. c = CHR ''='') (replicate k (CHR ''='') @ ys) = dropWhile (\<lambda>c. c = CHR ''='') ys" for k ys
    by (induction k) auto
  have "CHR ''='' \<notin> set (map urlsafe (sextets buf))"
    using sextets_alphabet alphabet_facts(3) by (auto simp: urlsafe_def split: if_splits)
  then have "dropWhile (\<lambda>c. c = CHR ''='') (rev (map urlsafe (sextets buf))) = rev (map urlsafe (sextets buf))"
    by (cases "rev (map urlsafe (sextets buf))") (auto simp del: rev_map simp: rev_map [symmetric] dest: arg_cong [where f = set])
  moreover have "base64 buf = sextets buf @ replicate ((4 - length (sextets buf) mod 4) mod 4) (CHR ''='')"
    by (simp add: base64_def sextets_def Let_def)
  moreover have "urlsafe (CHR ''='') = CHR ''=''" by (simp add: urlsafe_def)
  ultimately show ?thesis
    by (simp add: b64url_def replace_urlsafe eq rev_map)
qed

lemma fromB64url_b64url [simp]: "fromB64url (b64url buf) = buf"
proof -
  have "replace_char (CHR ''_'') (CHR ''/'') (replace_char (CHR ''-'') (CHR ''+'') (map urlsafe s)) = s"
    if "set s \<subseteq> set alphabet" for s
    using that alphabet_facts(4,5) by (induction s) (auto simp: replace_char_def urlsafe_def)
  then have "replace_char (CHR ''_'') (CHR ''/'') (replace_char (CHR ''-'') (CHR ''+'') (b64url buf)) = sextets buf"
    using sextets_alphabet by (auto simp: b64url_sextets)
  then show ?thesis
    by (simp add: fromB64url_def Let_def unbase64_sextets)
qed

section \<open>Links\<close>

lemma numberOf_show_int: "numberOf (show_int e) = Some e"
proof (cases "e < 0")
  case True
  let ?ds = "show_nat (nat (- e))"
  have ds: "list_all isDigit ?ds" "?ds \<noteq> []" using show_nat_digits by blast+
  have "trim (CHR ''-'' # ?ds) = CHR ''-'' # ?ds"
    using ds(1) isDigit_not_space
    by (intro trim_no_space) (auto simp: list_all_iff isSpace_def [of "CHR ''-''"] code_def)
  then show ?thesis
    using True ds by (simp add: numberOf_def show_int_def parseDigits_show_nat)
next
  case False
  let ?ds = "show_nat (nat e)"
  obtain c cs where ds: "?ds = c # cs" "list_all isDigit (c # cs)"
    using show_nat_digits [of "nat e"] by (cases ?ds) auto
  have t: "trim (c # cs) = c # cs"
    using ds(2) by (intro trim_no_space) (auto simp: list_all_iff isDigit_not_space)
  have "c \<noteq> CHR ''-''" "c \<noteq> CHR ''+''" using ds(2) by (auto simp: isDigit_def code_def)
  then show ?thesis
    using False ds t parseDigits_show_nat [of "nat e"] by (simp add: numberOf_def show_int_def)
qed

lemma show_int_no_colon: "CHR '':'' \<notin> set (show_int e)"
  using show_nat_digits [of "nat e"] show_nat_digits [of "nat (- e)"]
  by (auto simp: show_int_def list_all_iff isDigit_def code_def)

lemma payload_split:
  "CHR '':'' \<notin> set rid \<Longrightarrow> split_on (CHR '':'') (magic_payload rid e) = [''1'', rid, show_int e]"
  using split_on_app [of "CHR '':''" "''1''" "rid @ CHR '':'' # show_int e"]
  by (simp add: magic_payload_def split_on_app split_on_none show_int_no_colon)

lemma b64url_facts: "CHR ''.'' \<notin> set (b64url buf)" "buf \<noteq> [] \<Longrightarrow> b64url buf \<noteq> []"
proof -
  show "CHR ''.'' \<notin> set (b64url buf)"
    using sextets_alphabet alphabet_facts(6) by (auto simp: b64url_sextets urlsafe_def split: if_splits)
  show "b64url buf \<noteq> []" if "buf \<noteq> []"
    using that fromB64url_b64url [of buf] by (auto simp: fromB64url_def unbase64_def List.map_filter_simps replace_char_def)
qed

lemma split_last_dot_app:
  "CHR ''.'' \<notin> set sig \<Longrightarrow> sig \<noteq> [] \<Longrightarrow> enc \<noteq> [] \<Longrightarrow> split_last_dot (enc @ ''.'' @ sig) = Some (enc, sig)"
proof -
  assume a: "CHR ''.'' \<notin> set sig" "sig \<noteq> []" "enc \<noteq> []"
  have "takeWhile (\<lambda>c. c \<noteq> CHR ''.'') (rev sig @ CHR ''.'' # rev enc) = rev sig"
    using a(1) by (subst takeWhile_append2) auto
  then show ?thesis using a by (simp add: split_last_dot_def Let_def)
qed

text \<open>A signed text verifies until its expiry.\<close>

lemma verify_signed:
  assumes "reservationId \<noteq> []" "CHR '':'' \<notin> set reservationId" "\<And>m. hmac secret m \<noteq> []"
  shows "verifyPublicBookingMagicLink hmac later secret (signPublicBookingMagicLink hmac now secret reservationId ttlSec) =
    (if later div 1000 \<le> now div 1000 + ttlSec then Some reservationId else None)"
proof -
  let ?p = "magic_payload reservationId (now div 1000 + ttlSec)"
  have "split_last_dot (b64url ?p @ ''.'' @ b64url (hmac secret ?p)) = Some (b64url ?p, b64url (hmac secret ?p))"
    using b64url_facts assms(3) by (intro split_last_dot_app) (auto simp: magic_payload_def)
  moreover have "numberOf ''1'' = Some 1" by code_simp
  ultimately show ?thesis
    using assms(1,2)
    by (simp add: verifyPublicBookingMagicLink_def signPublicBookingMagicLink_def Let_def payload_split numberOf_show_int)
qed

text \<open>
  A link is valid for exactly its lifetime: the link signed for a booking gives back that
  booking until the second its lifetime ends, and nothing afterwards.
\<close>

theorem magic_link_lifetime:
  assumes "reservationId \<noteq> []" "CHR '':'' \<notin> set reservationId" "\<And>m. hmac secret m \<noteq> []"
  shows "verifyPublicBookingMagicLink hmac later secret (signPublicBookingMagicLink hmac now secret reservationId ttlSec) =
    (if later div 1000 \<le> now div 1000 + ttlSec then Some reservationId else None)"
  using assms by (rule verify_signed)

theorem magic_link_lifetime_witness:
  "verifyPublicBookingMagicLink (\<lambda>k m. k) 5000 ''key'' (signPublicBookingMagicLink (\<lambda>k m. k) 1000 ''key'' ''r1'' 4) = Some ''r1'' \<and>
   verifyPublicBookingMagicLink (\<lambda>k m. k) 6000 ''key'' (signPublicBookingMagicLink (\<lambda>k m. k) 1000 ''key'' ''r1'' 4) = None"
  using magic_link_lifetime [of "''r1''" "\<lambda>k m. k" "''key''" 5000 1000 4]
    magic_link_lifetime [of "''r1''" "\<lambda>k m. k" "''key''" 6000 1000 4] by simp

text \<open>
  Only signed links are accepted: whenever a text is accepted, its last part decodes to the keyed
  hash of the message its first part decodes to, and that message names the booking, version 1, and
  an expiry that has not passed.
\<close>

theorem magic_link_accepted_is_signed:
  assumes "verifyPublicBookingMagicLink hmac now secret token = Some reservationId"
  shows "\<exists>enc sig expiry e. token = enc @ ''.'' @ sig \<and> fromB64url sig = hmac secret (fromB64url enc) \<and>
    (\<exists>ver. split_on (CHR '':'') (fromB64url enc) = [ver, reservationId, expiry] \<and> numberOf ver = Some 1) \<and>
    numberOf expiry = Some e \<and> now div 1000 \<le> e"
proof -
  obtain enc sig where s: "split_last_dot token = Some (enc, sig)"
    using assms by (auto simp: verifyPublicBookingMagicLink_def split: option.splits)
  have tok: "token = enc @ ''.'' @ sig"
  proof -
    define r where "r = rev token"
    have "dropWhile (\<lambda>c. c \<noteq> CHR ''.'') r \<noteq> []"
      using s by (auto simp: split_last_dot_def Let_def r_def dropWhile_eq_Nil_conv split: if_splits)
    then obtain ys where "dropWhile (\<lambda>c. c \<noteq> CHR ''.'') r = CHR ''.'' # ys"
      using hd_dropWhile [of "\<lambda>c. c \<noteq> CHR ''.''" r] by (cases "dropWhile (\<lambda>c. c \<noteq> CHR ''.'') r") auto
    then have "r = takeWhile (\<lambda>c. c \<noteq> CHR ''.'') r @ CHR ''.'' # ys"
      by (metis takeWhile_dropWhile_id)
    then have t: "token = rev ys @ CHR ''.'' # rev (takeWhile (\<lambda>c. c \<noteq> CHR ''.'') r)"
      by (metis r_def rev_append rev_rev_ident rev.simps(2) append.assoc append_Cons append_Nil)
    then have "length token = length ys + 1 + length (takeWhile (\<lambda>c. c \<noteq> CHR ''.'') r)"
      by (metis length_append length_Cons length_rev add_Suc_right add_Suc plus_1_eq_Suc add.commute)
    then have "sig = rev (takeWhile (\<lambda>c. c \<noteq> CHR ''.'') r)" "enc = take (length ys) token"
      using s by (auto simp: split_last_dot_def Let_def r_def split: if_splits)
    moreover have "take (length ys) token = rev ys"
      using t by (metis append_eq_conv_conj length_rev)
    ultimately show ?thesis using t by simp
  qed
  obtain ver expiry e where acc: "fromB64url sig = hmac secret (fromB64url enc)"
    "split_on (CHR '':'') (fromB64url enc) = [ver, reservationId, expiry]" "numberOf ver = Some 1"
    "numberOf expiry = Some e" "\<not> e < now div 1000"
    using assms s
    by (auto simp: verifyPublicBookingMagicLink_def Let_def split: if_splits list.splits option.splits)
  then have "now div 1000 \<le> e" by simp
  then show ?thesis using tok acc by blast
qed

theorem magic_link_accepted_is_signed_witness:
  "\<exists>enc sig. signPublicBookingMagicLink (\<lambda>k m. k) 1000 ''key'' ''r1'' 4 = enc @ ''.'' @ sig \<and> fromB64url sig = ''key''"
proof -
  have "verifyPublicBookingMagicLink (\<lambda>k m. k) 5000 ''key'' (signPublicBookingMagicLink (\<lambda>k m. k) 1000 ''key'' ''r1'' 4) = Some ''r1''"
    by code_simp
  from magic_link_accepted_is_signed [OF this] show ?thesis by blast
qed

end
