(* ===== verification/Reservation_Public.thy ===== *)
theory Reservation_Public
  imports Reservation_Core Rates Sms Magic_Link
begin

text \<open>
  The public side of \<open>apps/api/src/reservation/reservation.service.ts\<close>: quotes without a login,
  the basket of several classes, the guest's view of a booking and the recovery of its link. Row
  identifiers and view tokens come from the runtime's random source and are parameters.
\<close>

section \<open>Requests\<close>

text \<open>What a quote and a basket share: the trip and the guest.\<close>

record public_trip =
  pt_companyId :: string
  pt_stationId :: string
  pt_pickupStationId :: string
  pt_returnStationId :: string
  pt_pickupAt :: time
  pt_returnAt :: time
  pt_customerName :: string
  pt_customerEmail :: string
  pt_customerPhone :: string
  pt_notes :: "string option"
  pt_privacyNoticeVersion :: "string option"
  pt_marketingEmailOptIn :: bool
  pt_extraLines :: "(string \<times> int) list option"

definition public_full :: "public_trip \<Rightarrow> string \<Rightarrow> create_reservation_input" where
  "public_full t vehicleId =
     \<lparr>nr_companyId = pt_companyId t, nr_vehicleId = vehicleId, nr_pickupStationId = pt_pickupStationId t,
      nr_returnStationId = pt_returnStationId t, nr_pickupAt = pt_pickupAt t, nr_returnAt = pt_returnAt t,
      nr_status = Some QUOTE, nr_customerId = None, nr_customerName = Some (pt_customerName t),
      nr_customerEmail = Some (pt_customerEmail t), nr_customerPhone = Some (pt_customerPhone t),
      nr_totalCents = None, nr_currency = ''EUR'', nr_notes = pt_notes t, nr_extraLines = pt_extraLines t\<rparr>"

definition public_query :: "public_trip \<Rightarrow> string \<Rightarrow> availability_query" where
  "public_query t classId =
     \<lparr>aq_stationId = pt_stationId t, aq_from = pt_pickupAt t, aq_to = pt_returnAt t,
      aq_vehicleClassId = Some classId, aq_excludeReservationId = None\<rparr>"

section \<open>The guest's customer record\<close>

definition b4AuditSnapshot :: "customer \<Rightarrow> b4_snapshot" where
  "b4AuditSnapshot row =
     \<lparr>b4_privacyNoticeVersion = cu_privacyNoticeVersion row,
      b4_privacyNoticeAcceptedAt = map_option toISOString (cu_privacyNoticeAcceptedAt row),
      b4_marketingEmailOptIn = cu_marketingEmailOptIn row,
      b4_marketingOptInAt = map_option toISOString (cu_marketingOptInAt row)\<rparr>"

definition emptyB4 :: b4_snapshot where
  "emptyB4 = \<lparr>b4_privacyNoticeVersion = None, b4_privacyNoticeAcceptedAt = None,
     b4_marketingEmailOptIn = False, b4_marketingOptInAt = None\<rparr>"

definition find_customer_by_email :: "db \<Rightarrow> string \<Rightarrow> string \<Rightarrow> customer option" where
  "find_customer_by_email d companyId email =
     List.find (\<lambda>c. cu_companyId c = companyId \<and> cu_email c = email) (d_customers d)"

definition requirePrivacy :: "db \<Rightarrow> string \<Rightarrow> bool" where
  "requirePrivacy d companyId \<longleftrightarrow> 0 < length (filter (\<lambda>n. pn_companyId n = companyId) (d_notices d))"

definition check_privacy :: "db \<Rightarrow> public_trip \<Rightarrow> unit result" where
  "check_privacy d t =
     (let version = map_option trim (pt_privacyNoticeVersion t)
      in ensure (\<not> requirePrivacy d (pt_companyId t) \<or>
             truthy version \<and> list_ex (\<lambda>n. pn_companyId n = pt_companyId t \<and> Some (pn_version n) = version) (d_notices d))
           (BadRequest ''Privacy notice version is required and must match the company register (B4).''))"

definition new_guest :: "string \<Rightarrow> time \<Rightarrow> bool \<Rightarrow> public_trip \<Rightarrow> customer" where
  "new_guest newId now required t =
     (let version = map_option trim (pt_privacyNoticeVersion t)
      in \<lparr>cu_id = newId, cu_companyId = pt_companyId t, cu_name = trim (pt_customerName t),
          cu_email = toLowerCase (trim (pt_customerEmail t)), cu_phone = trim (pt_customerPhone t),
          cu_privacyNoticeVersion = (if required \<and> truthy version then version else None),
          cu_privacyNoticeAcceptedAt = (if required \<and> truthy version then Some now else None),
          cu_marketingEmailOptIn = pt_marketingEmailOptIn t,
          cu_marketingOptInAt = (if pt_marketingEmailOptIn t then Some now else None),
          cu_anonymizedAt = None, cu_notes = None, cu_fiscalCode = None, cu_vatNumber = None,
          cu_sdiRecipientCode = None, cu_pec = None\<rparr>)"

definition refreshed_guest :: "time \<Rightarrow> bool \<Rightarrow> public_trip \<Rightarrow> customer \<Rightarrow> customer" where
  "refreshed_guest now required t c =
     (let version = map_option trim (pt_privacyNoticeVersion t);
          c1 = c\<lparr>cu_name := trim (pt_customerName t), cu_phone := trim (pt_customerPhone t),
                 cu_marketingEmailOptIn := pt_marketingEmailOptIn t,
                 cu_marketingOptInAt :=
                   (if pt_marketingEmailOptIn t then
                      (if cu_marketingEmailOptIn c \<and> cu_marketingOptInAt c \<noteq> None then cu_marketingOptInAt c else Some now)
                    else None)\<rparr>
      in if required \<and> truthy version \<and>
            (cu_privacyNoticeVersion c \<noteq> version \<or> cu_privacyNoticeAcceptedAt c = None)
         then c1\<lparr>cu_privacyNoticeVersion := version, cu_privacyNoticeAcceptedAt := Some now\<rparr>
         else c1)"

definition audit_b4_change :: "ctx \<Rightarrow> string \<Rightarrow> string \<Rightarrow> b4_snapshot \<Rightarrow> b4_snapshot \<Rightarrow> unit dbprog" where
  "audit_b4_change ctx companyId customerId old new =
     (if stringify (b4_json (Some old)) \<noteq> stringify (b4_json (Some new)) then
        audit (audit_entry ctx None ''customer.b4_public_quote'' ''Customer'' customerId
          (JObj [(''companyId'', JStr companyId), (''source'', JStr ''public_web''),
                 (''before'', b4_json (Some old)), (''after'', b4_json (Some new))]))
      else ret ())"

definition insert_customer :: "customer \<Rightarrow> unit dbprog" where
  "insert_customer c =
     andDo (asks (\<lambda>d. ensure (find_company d (cu_companyId c) \<noteq> None) (Prisma ''P2025'')))
     (andDo (asks (\<lambda>d. ensure (find_customer d (cu_id c) = None \<and>
         find_customer_by_email d (cu_companyId c) (cu_email c) = None) (Prisma ''P2002'')))
       (modify (d_customers_update (\<lambda>cs. cs @ [c]))))"

definition upsertCustomerFromPublicQuote :: "ctx \<Rightarrow> string \<Rightarrow> public_trip \<Rightarrow> string option dbprog" where
  "upsertCustomerFromPublicQuote ctx newId t =
     andDo (asks (\<lambda>d. check_privacy d t))
     (bnd (gets (\<lambda>d. requirePrivacy d (pt_companyId t))) (\<lambda>required.
      bnd (gets (\<lambda>d. find_customer_by_email d (pt_companyId t) (toLowerCase (trim (pt_customerEmail t))))) (\<lambda>existing.
      case existing of
        None \<Rightarrow>
          (let c = new_guest newId (c_now ctx) required t
           in andDo (insert_customer c)
              (andDo (audit_b4_change ctx (pt_companyId t) newId emptyB4 (b4AuditSnapshot c))
              (ret (Some newId))))
      | Some c \<Rightarrow>
          if cu_anonymizedAt c \<noteq> None then ret None
          else
            andDo (modify (d_customers_update (update_row cu_id (cu_id c) (refreshed_guest (c_now ctx) required t))))
            (andDo (audit_b4_change ctx (pt_companyId t) (cu_id c) (b4AuditSnapshot c)
               (b4AuditSnapshot (refreshed_guest (c_now ctx) required t c)))
            (ret (Some (cu_id c)))))))"

section \<open>One quote\<close>

record public_created =
  px_id :: string
  px_status :: reservation_status
  px_source :: reservation_source
  px_totalCents :: "int option"
  px_currency :: string
  px_pickupAt :: time
  px_returnAt :: time
  px_companyId :: string
  px_publicViewToken :: string
  px_pickupStation :: "station option"
  px_returnStation :: "station option"

definition created_answer :: "db \<Rightarrow> reservation \<Rightarrow> string \<Rightarrow> public_created" where
  "created_answer d r token =
     \<lparr>px_id = r_id r, px_status = r_status r, px_source = r_source r, px_totalCents = r_totalCents r,
      px_currency = r_currency r, px_pickupAt = r_pickupAt r, px_returnAt = r_returnAt r,
      px_companyId = r_companyId r, px_publicViewToken = token,
      px_pickupStation = find_station d (r_pickupStationId r), px_returnStation = find_station d (r_returnStationId r)\<rparr>"

definition find_by_token :: "db \<Rightarrow> string \<Rightarrow> reservation option" where
  "find_by_token d token = List.find (\<lambda>r. r_publicViewToken r = Some token) (d_reservations d)"

definition public_row ::
  "string \<Rightarrow> string \<Rightarrow> time \<Rightarrow> public_trip \<Rightarrow> string \<Rightarrow> string option \<Rightarrow> int option \<Rightarrow> reservation" where
  "public_row newId token now t vehicleId customerId totalCents =
     (new_reservation newId now (public_full t vehicleId) PUBLIC_WEB None
        \<lparr>ct_customerId = customerId, ct_name = pt_customerName t, ct_email = pt_customerEmail t,
         ct_phone = pt_customerPhone t\<rparr> totalCents)
       \<lparr>r_publicViewToken := Some token, r_publicViewTokenAt := Some now\<rparr>"

text \<open>The insert of a row with a view token, which is unique.\<close>

definition insert_public :: "string \<Rightarrow> reservation \<Rightarrow> reservation dbprog" where
  "insert_public token r =
     andDo (asks (\<lambda>d. ensure (find_by_token d token = None) (Prisma ''P2002''))) (insert_reservation r)"

text \<open>The first free vehicle of the class.\<close>

definition first_available :: "db \<Rightarrow> public_trip \<Rightarrow> string \<Rightarrow> string result" where
  "first_available d t classId =
     andThen (listAvailableVehiclesPublic d (pt_companyId t) (public_query t classId)) (\<lambda>avail.
       case av_vehicles avail of
         [] \<Rightarrow> Inl (Conflict ''No free vehicle in this class for the selected station and time window. Choose another time or class.'')
       | v # _ \<Rightarrow> Inr (v_id v))"

text \<open>The checks on the vehicle picked, common to the quote and the lines of a basket.\<close>

definition check_pick :: "db \<Rightarrow> public_trip \<Rightarrow> string \<Rightarrow> unit result" where
  "check_pick d t vehicleId =
     andThen (assertCompanyCoherent d (pt_companyId t) vehicleId (pt_pickupStationId t) (pt_returnStationId t)) (\<lambda>_.
       assertVehicleFree d vehicleId (pt_pickupAt t) (pt_returnAt t) None)"

definition createPublicQuote ::
  "ctx \<Rightarrow> string \<Rightarrow> string \<Rightarrow> string \<Rightarrow> public_trip \<Rightarrow> string \<Rightarrow> public_created dbprog" where
  "createPublicQuote ctx newId token newCustomerId t classId =
     andDo (asks (\<lambda>_. assertTimeOrder (pt_pickupAt t) (pt_returnAt t)))
     (bnd (asks (\<lambda>d. first_available d t classId)) (\<lambda>vehicleId.
      andDo (asks (\<lambda>d. check_pick d t vehicleId))
      (bnd (gets (\<lambda>d. resolveTotalCents d (public_full t vehicleId))) (\<lambda>totalCents.
       bnd (upsertCustomerFromPublicQuote ctx newCustomerId t) (\<lambda>customerId.
       bnd (insert_public token (public_row newId token (c_now ctx) t vehicleId customerId totalCents)) (\<lambda>created.
       andDo (audit (audit_entry ctx None ''reservation.create'' ''Reservation'' (r_id created)
         (JObj [(''source'', JStr ''public''), (''status'', JStr ''QUOTE''), (''vehicleId'', JStr vehicleId),
                (''companyId'', JStr (pt_companyId t)), (''customerLinked'', JBool (truthy customerId))])))
       (andDo (if c_mailOn ctx
               then send_mail \<lparr>m_kind = ''publicQuoteSaved'', m_to = r_customerEmail created,
                      m_reservationId = r_id created, m_link = Some token\<rparr>
               else ret ())
       (gets (\<lambda>d. created_answer d created token)))))))))"

section \<open>A basket of quotes\<close>

record planned =
  pl_vehicleClassId :: string
  pl_vehicleId :: string
  pl_totalCents :: "int option"

definition pick_unused :: "db \<Rightarrow> public_trip \<Rightarrow> string list \<Rightarrow> string \<Rightarrow> string result" where
  "pick_unused d t used classId =
     andThen (listAvailableVehiclesPublic d (pt_companyId t) (public_query t classId)) (\<lambda>avail.
       case List.find (\<lambda>v. v_id v \<notin> set used) (av_vehicles avail) of
         None \<Rightarrow> Inl (Conflict ''No free vehicle for one of the selected classes for this station and time window. Adjust the basket or trip.'')
       | Some v \<Rightarrow> Inr (v_id v))"

text \<open>One vehicle per line, none of them twice; \<open>used\<close> are those of the earlier lines.\<close>

fun plan_lines :: "db \<Rightarrow> public_trip \<Rightarrow> string list \<Rightarrow> string list \<Rightarrow> planned list result" where
  "plan_lines d t used [] = Inr []"
| "plan_lines d t used (classId # rest) =
     andThen (pick_unused d t used classId) (\<lambda>vehicleId.
     andThen (check_pick d t vehicleId) (\<lambda>_.
     andThen (plan_lines d t (used @ [vehicleId]) rest) (\<lambda>ps.
     Inr (\<lparr>pl_vehicleClassId = classId, pl_vehicleId = vehicleId,
           pl_totalCents = resolveTotalCents d (public_full t vehicleId)\<rparr> # ps))))"

text \<open>
  A transaction whose audit rows are written by another client: they stay when it is rolled back.
\<close>

definition transaction_keeping_audit :: "'a dbprog \<Rightarrow> 'a dbprog" where
  "transaction_keeping_audit m =
     (\<lambda>d. case m d of (Inl e, d') \<Rightarrow> (Inl e, d\<lparr>d_audit := d_audit d'\<rparr>) | (Inr x, d') \<Rightarrow> (Inr x, d'))"

lemma wpre_transaction_keeping_audit [wp]:
  "wpre (transaction_keeping_audit m) Q E d = wpre m Q (\<lambda>e s. E e (d\<lparr>d_audit := d_audit s\<rparr>)) d"
  by (auto simp: wpre_def transaction_keeping_audit_def split: prod.splits sum.splits)

record batch_line =
  bl_created :: public_created
  bl_className :: string
  bl_classCode :: string

definition class_of_vehicle :: "db \<Rightarrow> string \<Rightarrow> vehicle_class option" where
  "class_of_vehicle d vehicleId =
     (case find_vehicle d vehicleId of None \<Rightarrow> None | Some v \<Rightarrow> find_class d (v_vehicleClassId v))"

definition create_line ::
  "ctx \<Rightarrow> public_trip \<Rightarrow> string option \<Rightarrow> nat \<Rightarrow> nat \<Rightarrow> string \<Rightarrow> string \<Rightarrow> planned \<Rightarrow> batch_line dbprog" where
  "create_line ctx t customerId lineCount i newId token p =
     andDo (asks (\<lambda>d. assertVehicleFreeTx d (pl_vehicleId p) (pt_pickupAt t) (pt_returnAt t) None))
     (bnd (insert_public token (public_row newId token (c_now ctx) t (pl_vehicleId p) customerId (pl_totalCents p))) (\<lambda>created.
      andDo (audit (audit_entry ctx None ''reservation.create'' ''Reservation'' (r_id created)
        (JObj [(''source'', JStr ''public_batch''), (''batchIndex'', JNum (int i)), (''batchSize'', JNum (int lineCount)),
               (''vehicleId'', JStr (pl_vehicleId p)), (''companyId'', JStr (pt_companyId t)),
               (''customerLinked'', JBool (truthy customerId))])))
      (bnd (asks (\<lambda>d. orElse (class_of_vehicle d (pl_vehicleId p)) (Crash ''vehicleClass''))) (\<lambda>cls.
       gets (\<lambda>d. \<lparr>bl_created = created_answer d created token, bl_className = vc_name cls, bl_classCode = vc_code cls\<rparr>)))))"

fun create_lines ::
  "ctx \<Rightarrow> public_trip \<Rightarrow> string option \<Rightarrow> nat \<Rightarrow> (nat \<Rightarrow> string) \<Rightarrow> (nat \<Rightarrow> string) \<Rightarrow> nat \<Rightarrow> planned list \<Rightarrow>
     batch_line list dbprog" where
  "create_lines ctx t customerId lineCount ids tokens i [] = ret []"
| "create_lines ctx t customerId lineCount ids tokens i (p # ps) =
     bnd (create_line ctx t customerId lineCount i (ids i) (tokens i) p) (\<lambda>l.
     bnd (create_lines ctx t customerId lineCount ids tokens (Suc i) ps) (\<lambda>ls.
     ret (l # ls)))"

text \<open>The mail of a basket goes out once, about its first booking when there is only one.\<close>

definition batch_mail :: "ctx \<Rightarrow> public_trip \<Rightarrow> batch_line list \<Rightarrow> unit dbprog" where
  "batch_mail ctx t results =
     (if c_mailOn ctx then
        (case results of
           [] \<Rightarrow> ret ()
         | [r0] \<Rightarrow> send_mail \<lparr>m_kind = ''publicQuoteSaved'', m_to = pt_customerEmail t,
             m_reservationId = px_id (bl_created r0), m_link = Some (px_publicViewToken (bl_created r0))\<rparr>
         | r0 # _ \<Rightarrow> send_mail \<lparr>m_kind = ''publicQuoteBatchSaved'', m_to = pt_customerEmail t,
             m_reservationId = px_id (bl_created r0), m_link = Some (px_publicViewToken (bl_created r0))\<rparr>)
      else ret ())"

definition batch_sms :: "ctx \<Rightarrow> public_trip \<Rightarrow> batch_line list \<Rightarrow> unit dbprog" where
  "batch_sms ctx t results =
     (if 1 < length results \<and> smsEnabled (c_env ctx) \<and> isPublicBatchAckEnabled (c_env ctx) then
        (case tryNormalizeE164 (pt_customerPhone t) of
           None \<Rightarrow> ret ()
         | Some addr \<Rightarrow>
             bnd (gets (\<lambda>d. case find_company d (pt_companyId t) of None \<Rightarrow> ''Car rental'' | Some c \<Rightarrow> co_name c)) (\<lambda>org.
               sendSms (c_env ctx) addr (org @ '': '' @ show_nat (length results) @
                 '' quote bookings saved. Check your email for links and references.'')))
      else ret ())"

definition createPublicQuoteBatch ::
  "ctx \<Rightarrow> (nat \<Rightarrow> string) \<Rightarrow> (nat \<Rightarrow> string) \<Rightarrow> string \<Rightarrow> public_trip \<Rightarrow> string list \<Rightarrow> batch_line list dbprog" where
  "createPublicQuoteBatch ctx ids tokens newCustomerId t classIds =
     andDo (asks (\<lambda>_. assertTimeOrder (pt_pickupAt t) (pt_returnAt t)))
     (bnd (asks (\<lambda>d. plan_lines d t [] classIds)) (\<lambda>ps.
      bnd (upsertCustomerFromPublicQuote ctx newCustomerId t) (\<lambda>customerId.
      bnd (transaction_keeping_audit (create_lines ctx t customerId (length ps) ids tokens 0 ps)) (\<lambda>results.
      andDo (batch_mail ctx t results)
      (andDo (batch_sms ctx t results)
      (ret results))))))"

section \<open>The guest's view\<close>

record guest_view =
  gv_id :: string
  gv_status :: reservation_status
  gv_companyName :: string
  gv_companyId :: string
  gv_vehicleClass :: "string \<times> string"
  gv_pickupAt :: time
  gv_returnAt :: time
  gv_pickupStation :: "station option"
  gv_returnStation :: "station option"
  gv_totalCents :: "int option"
  gv_currency :: string
  gv_customerName :: string
  gv_paidAt :: "time option"
  gv_depositHoldStatus :: deposit_status
  gv_depositHoldCents :: "int option"
  gv_extraLines :: "(string \<times> int) list"

definition guest_view_of :: "db \<Rightarrow> reservation \<Rightarrow> guest_view result" where
  "guest_view_of d r =
     andThen (orElse (find_company d (r_companyId r)) (Crash ''company'')) (\<lambda>c.
     andThen (orElse (class_of_vehicle d (r_vehicleId r)) (Crash ''vehicleClass'')) (\<lambda>cls.
     Inr \<lparr>gv_id = r_id r, gv_status = r_status r, gv_companyName = co_name c, gv_companyId = r_companyId r,
          gv_vehicleClass = (vc_name cls, vc_code cls), gv_pickupAt = r_pickupAt r, gv_returnAt = r_returnAt r,
          gv_pickupStation = find_station d (r_pickupStationId r), gv_returnStation = find_station d (r_returnStationId r),
          gv_totalCents = r_totalCents r, gv_currency = r_currency r, gv_customerName = r_customerName r,
          gv_paidAt = r_paidAt r, gv_depositHoldStatus = r_depositHoldStatus r, gv_depositHoldCents = r_depositHoldCents r,
          gv_extraLines = map (\<lambda>x. (xl_label x, xl_amountCents x)) (sort_key xl_sortOrder (r_extraLines r))\<rparr>))"

definition find_public :: "(reservation \<Rightarrow> bool) \<Rightarrow> db \<Rightarrow> reservation result" where
  "find_public p d =
     orElse (List.find (\<lambda>r. p r \<and> r_source r = PUBLIC_WEB) (d_reservations d)) (NotFound ''Reservation not found'')"

definition getPublicReservationByViewToken :: "db \<Rightarrow> string \<Rightarrow> guest_view result" where
  "getPublicReservationByViewToken d token =
     andThen (find_public (\<lambda>r. r_publicViewToken r = Some token) d) (guest_view_of d)"

definition magic_secret :: "env \<Rightarrow> string" where
  "magic_secret env = trimmed_env env ''PUBLIC_BOOKING_MAGIC_SECRET''"

definition getPublicReservationByMagicLink ::
  "(string \<Rightarrow> string \<Rightarrow> string) \<Rightarrow> db \<Rightarrow> env \<Rightarrow> time \<Rightarrow> string \<Rightarrow> guest_view result" where
  "getPublicReservationByMagicLink hmac d env now magic =
     (if length (magic_secret env) < 16 then Inl (NotFound ''Reservation not found'')
      else case verifyPublicBookingMagicLink hmac now (magic_secret env) magic of
             None \<Rightarrow> Inl (NotFound ''Reservation not found'')
           | Some rid \<Rightarrow> andThen (find_public (\<lambda>r. r_id r = rid) d) (guest_view_of d))"

section \<open>Recovering the link\<close>

text \<open>\<open>encodeURIComponent\<close>.\<close>

definition uri_safe :: "char \<Rightarrow> bool" where
  "uri_safe c \<longleftrightarrow> isLetter c \<or> isDigit c \<or> c \<in> set ''-_.!~*()'' \<or> code c = 39"

definition upperHex :: "nat \<Rightarrow> char" where
  "upperHex n = upperChar (hexDigit n)"

definition encodeURIComponent :: "string \<Rightarrow> string" where
  "encodeURIComponent s =
     concat (map (\<lambda>c. if uri_safe c then [c] else [CHR ''%'', upperHex (code c div 16), upperHex (code c mod 16)]) s)"

definition link_ttl_minutes :: "env \<Rightarrow> int" where
  "link_ttl_minutes env =
     (let n = (case parseInt10 (or_else (env ''PUBLIC_BOOKING_MAGIC_TTL_MINUTES'') ''4320'') of
                 None \<Rightarrow> 4320 | Some k \<Rightarrow> if k = 0 then 4320 else k)
      in max 15 (min (14 * 24 * 60) n))"

definition public_base_url :: "env \<Rightarrow> string" where
  "public_base_url env =
     (let b = trimmed_env env ''APP_PUBLIC_BASE_URL''
      in if b \<noteq> [] \<and> last b = CHR ''/'' then butlast b else b)"

definition magic_url :: "env \<Rightarrow> string \<Rightarrow> string" where
  "magic_url env magic = public_base_url env @ ''/booking/view?magic='' @ encodeURIComponent magic"

definition requestPublicBookingViewLink ::
  "(string \<Rightarrow> string \<Rightarrow> string) \<Rightarrow> ctx \<Rightarrow> string \<Rightarrow> string \<Rightarrow> unit dbprog" where
  "requestPublicBookingViewLink hmac ctx reservationId customerEmail =
     andDo (asks (\<lambda>_. ensure (16 \<le> length (magic_secret (c_env ctx)))
       (ServiceUnavailable ''Booking link recovery is not configured'')))
     (let email = toLowerCase (trim customerEmail)
      in bnd (gets (\<lambda>d. List.find (\<lambda>r. r_id r = reservationId \<and> r_source r = PUBLIC_WEB) (d_reservations d))) (\<lambda>found.
         case found of
           None \<Rightarrow> ret ()
         | Some r \<Rightarrow>
             if toLowerCase (trim (r_customerEmail r)) \<noteq> email then ret ()
             else if \<not> c_mailOn ctx then ret ()
             else if public_base_url (c_env ctx) = [] then ret ()
             else
               let magic = signPublicBookingMagicLink hmac (c_now ctx) (magic_secret (c_env ctx)) (r_id r)
                     (link_ttl_minutes (c_env ctx) * 60)
               in andDo (send_mail \<lparr>m_kind = ''publicBookingMagicLink'', m_to = email, m_reservationId = r_id r,
                           m_link = Some (magic_url (c_env ctx) magic)\<rparr>)
                  (audit (audit_entry ctx None ''public.booking_magic_link_requested'' ''Reservation'' (r_id r)
                     (JObj [(''source'', JStr ''public'')])))))"

section \<open>What the handlers leave alone\<close>

lemma customers_frame [simp]:
  "assertVehicleFreeTx (d_customers_update f d) = assertVehicleFreeTx d"
  "find_reservation (d_customers_update f d) = find_reservation d"
  "find_by_token (d_customers_update f d) = find_by_token d"
  "assertVehicleFreeTx (d_audit_update g d) = assertVehicleFreeTx d"
  "find_reservation (d_audit_update g d) = find_reservation d"
  "find_by_token (d_audit_update g d) = find_by_token d"
  by (auto simp: fun_eq_iff assertVehicleFreeTx_def find_vehicle_def clashing_reservation_def
      find_reservation_def find_by_token_def split: option.split)

text \<open>The customer record is the only table the upsert touches, the audit log apart.\<close>

lemma wpre_upsert_customer:
  assumes "\<And>x f g. Q x (d_audit_update g (d_customers_update f d))"
    and "\<And>e f g. E e (d_audit_update g (d_customers_update f d))"
  shows "wpre (upsertCustomerFromPublicQuote ctx newId t) Q E d"
proof -
  have same: "d_customers_update (\<lambda>y. y) s = s" "d_audit_update (\<lambda>y. y) s = s" for s :: db
    by (cases s; simp)+
  have id: "Q x d" "E e d" "Q x (d_customers_update f d)" "E e (d_customers_update f d)" for x e f
    using assms(1) [of x "\<lambda>y. y" "\<lambda>y. y"] assms(2) [of e "\<lambda>y. y" "\<lambda>y. y"]
      assms(1) [of x "\<lambda>y. y" f] assms(2) [of e "\<lambda>y. y" f] by (simp_all add: same)
  show ?thesis
    unfolding upsertCustomerFromPublicQuote_def insert_customer_def audit_b4_change_def
    by (simp add: wp Let_def id assms)
qed

lemma wpre_insert_public [wp]:
  "wpre (insert_public token r) Q E d =
     ((find_by_token d token \<noteq> None \<or> find_reservation d (r_id r) \<noteq> None \<longrightarrow> E (Prisma ''P2002'') d) \<and>
      (find_by_token d token = None \<and> find_reservation d (r_id r) = None \<longrightarrow>
         Q r (d_reservations_update (\<lambda>rs. rs @ [r]) d)))"
  by (auto simp: insert_public_def wp)

lemma public_row_sel [simp]:
  "r_id (public_row newId token now t v c tot) = newId"
  "r_vehicleId (public_row newId token now t v c tot) = v"
  "r_pickupAt (public_row newId token now t v c tot) = pt_pickupAt t"
  "r_returnAt (public_row newId token now t v c tot) = pt_returnAt t"
  "r_status (public_row newId token now t v c tot) = QUOTE"
  "r_source (public_row newId token now t v c tot) = PUBLIC_WEB"
  "r_companyId (public_row newId token now t v c tot) = pt_companyId t"
  "r_publicViewToken (public_row newId token now t v c tot) = Some token"
  "r_totalCents (public_row newId token now t v c tot) = tot"
  by (simp_all add: public_row_def public_full_def new_reservation_def or_else_def)

section \<open>No double bookings\<close>

lemma bookings_ok_frame [simp]:
  "bookings_ok (d_customers_update f d) = bookings_ok d"
  "bookings_ok (d_audit_update g d) = bookings_ok d"
  "bookings_ok (d_mails_update h d) = bookings_ok d"
  "bookings_ok (d_texts_update k d) = bookings_ok d"
  by (rule bookings_ok_cong, simp)+

lemma check_pick_Inr:
  "check_pick d t v = Inr u \<Longrightarrow> assertVehicleFree d v (pt_pickupAt t) (pt_returnAt t) None = Inr ()"
  by (auto simp: check_pick_def andThen_Inr)

lemma bookings_ok_public:
  assumes "bookings_ok d" "assertVehicleFreeTx d v (pt_pickupAt t) (pt_returnAt t) None = Inr ()"
    and "pt_pickupAt t < pt_returnAt t" "find_reservation d newId = None"
  shows "bookings_ok (d_reservations_update (\<lambda>rs. rs @ [public_row newId token now t v c tot]) d)"
  using assms by (intro bookings_ok_insert) (simp_all add: assertVehicleFree_def)

lemma createPublicQuote_keeps:
  assumes ok: "bookings_ok d"
  shows "bookings_ok (snd (createPublicQuote ctx newId token newCustomerId t classId d))"
proof -
  have "keeps bookings_ok (createPublicQuote ctx newId token newCustomerId t classId) d"
    unfolding keeps_def createPublicQuote_def
    using ok by (simp add: wp assertTimeOrder_def)
      (auto simp: wp assertVehicleFree_def dest!: check_pick_Inr intro!: wpre_upsert_customer bookings_ok_public)
  then show ?thesis by (simp only: keeps_run)
qed

lemma create_line_keeps:
  assumes "bookings_ok d" "pt_pickupAt t < pt_returnAt t"
  shows "keeps bookings_ok (create_line ctx t c n i newId token p) d"
  using assms unfolding keeps_def create_line_def by (auto simp: wp intro!: bookings_ok_public)

lemma create_lines_keeps:
  assumes "bookings_ok d" "pt_pickupAt t < pt_returnAt t"
  shows "keeps bookings_ok (create_lines ctx t c n ids tokens i ps) d"
  using assms(1)
proof (induction ps arbitrary: i d)
  case Nil
  then show ?case by (simp only: keeps_def create_lines.simps wpre_ret)
next
  case (Cons p ps)
  show ?case
    unfolding keeps_def create_lines.simps wpre_bnd wpre_ret
    by (rule wpre_mono [OF create_line_keeps [OF Cons.prems assms(2), unfolded keeps_def]])
      (use Cons.IH [unfolded keeps_def] in \<open>simp_all add: wp\<close>)
qed

lemma wpre_batch_messages:
  assumes "\<And>f g. Q () (d_texts_update f (d_mails_update g d))"
  shows "wpre (batch_mail ctx t ls) (\<lambda>_. wpre (batch_sms ctx t ls) Q E) E d"
proof -
  have same: "d_texts_update (\<lambda>y. y) s = s" "d_mails_update (\<lambda>y. y) s = s" for s :: db
    by (cases s; simp)+
  have "Q () d" "Q () (d_mails_update g d)" "Q () (d_texts_update f d)" for f g
    using assms [of "\<lambda>y. y" "\<lambda>y. y"] assms [of "\<lambda>y. y" g] assms [of f "\<lambda>y. y"] by (simp_all add: same)
  then show ?thesis
    by (auto simp: batch_mail_def batch_sms_def sendSms_def wp assms Let_def send_mail_def split: list.split)
qed

lemma createPublicQuoteBatch_keeps:
  assumes ok: "bookings_ok d"
  shows "bookings_ok (snd (createPublicQuoteBatch ctx ids tokens newCustomerId t classIds d))"
proof -
  have lines: "wpre (create_lines ctx t c n ids tokens 0 ps)
      (\<lambda>ls. wpre (batch_mail ctx t ls) (\<lambda>_. wpre (batch_sms ctx t ls) (\<lambda>_. bookings_ok) (\<lambda>_. bookings_ok)) (\<lambda>_. bookings_ok))
      (\<lambda>_ _. True) s"
    if "bookings_ok s" "pt_pickupAt t < pt_returnAt t" for c n ps s
    by (rule wpre_mono [OF create_lines_keeps [OF that, unfolded keeps_def]])
      (use that(1) in \<open>auto intro!: wpre_batch_messages\<close>)
  have "keeps bookings_ok (createPublicQuoteBatch ctx ids tokens newCustomerId t classIds) d"
    unfolding keeps_def createPublicQuoteBatch_def
    using ok by (simp add: wp assertTimeOrder_def) (auto simp: wp intro!: wpre_upsert_customer lines)
  then show ?thesis by (simp only: keeps_run)
qed

section \<open>All lines or none\<close>

definition batch_row :: "ctx \<Rightarrow> public_trip \<Rightarrow> string option \<Rightarrow> (nat \<Rightarrow> string) \<Rightarrow> (nat \<Rightarrow> string) \<Rightarrow> nat \<times> planned \<Rightarrow> reservation" where
  "batch_row ctx t c ids tokens ip =
     public_row (ids (fst ip)) (tokens (fst ip)) (c_now ctx) t (pl_vehicleId (snd ip)) c (pl_totalCents (snd ip))"

lemma create_line_row:
  "wpre (create_line ctx t c n i (ids i) (tokens i) p)
     (\<lambda>_ s. d_reservations s = d_reservations d @ [batch_row ctx t c ids tokens (i, p)]) (\<lambda>_ _. True) d"
  by (auto simp: create_line_def wp batch_row_def)

lemma create_lines_rows:
  "wpre (create_lines ctx t c n ids tokens i ps)
     (\<lambda>ls s. length ls = length ps \<and>
        d_reservations s = d_reservations d @ map (batch_row ctx t c ids tokens) (enumerate i ps)) (\<lambda>_ _. True) d"
proof (induction ps arbitrary: i d)
  case Nil
  then show ?case by (simp only: create_lines.simps wpre_ret) simp
next
  case (Cons p ps)
  show ?case
    unfolding create_lines.simps wpre_bnd wpre_ret
    by (rule wpre_mono [OF create_line_row], rule wpre_mono [OF Cons.IH]) simp_all
qed

lemma plan_lines_distinct:
  "plan_lines d t used cs = Inr ps \<Longrightarrow>
     distinct (map pl_vehicleId ps) \<and> set (map pl_vehicleId ps) \<inter> set used = {} \<and> map pl_vehicleClassId ps = cs"
proof (induction cs arbitrary: used ps)
  case (Cons c cs)
  then obtain v qs where q: "pick_unused d t used c = Inr v" "plan_lines d t (used @ [v]) cs = Inr qs"
    "ps = \<lparr>pl_vehicleClassId = c, pl_vehicleId = v, pl_totalCents = resolveTotalCents d (public_full t v)\<rparr> # qs"
    by (auto simp: andThen_Inr)
  have "v \<notin> set used"
    using q(1) by (auto simp: pick_unused_def andThen_Inr find_Some_iff split: option.splits)
  then show ?case using Cons.IH [OF q(2)] q(3) by auto
qed simp

text \<open>
  C30: A basket books all of its lines or none: when it fails, at whatever point, the bookings are
  those before the request; when it succeeds, one quote per class was added, on different vehicles,
  under the identifiers drawn for them, for the requested trip.
\<close>

theorem basket_all_or_nothing:
  assumes "createPublicQuoteBatch ctx ids tokens newCustomerId t classIds d = (r, d')"
  shows "case r of
      Inl e \<Rightarrow> d_reservations d' = d_reservations d
    | Inr results \<Rightarrow> \<exists>rs. d_reservations d' = d_reservations d @ rs \<and> length results = length classIds \<and>
        map r_id rs = map ids [0..<length classIds] \<and> distinct (map r_vehicleId rs) \<and>
        list_all (\<lambda>b. r_status b = QUOTE \<and> r_source b = PUBLIC_WEB \<and> r_companyId b = pt_companyId t \<and>
          r_pickupAt b = pt_pickupAt t \<and> r_returnAt b = pt_returnAt t) rs"
proof -
  define good where "good results s \<longleftrightarrow> (\<exists>rs. d_reservations s = d_reservations d @ rs \<and> length results = length classIds \<and>
        map r_id rs = map ids [0..<length classIds] \<and> distinct (map r_vehicleId rs) \<and>
        list_all (\<lambda>b. r_status b = QUOTE \<and> r_source b = PUBLIC_WEB \<and> r_companyId b = pt_companyId t \<and>
          r_pickupAt b = pt_pickupAt t \<and> r_returnAt b = pt_returnAt t) rs)" for results :: "batch_line list" and s :: db
  define same where "same s \<longleftrightarrow> d_reservations s = d_reservations d" for s :: db
  have rows: "good results s"
    if "plan_lines d t [] classIds = Inr ps" "length results = length ps"
      "d_reservations s = d_reservations d @ map (batch_row ctx t c ids tokens) (enumerate 0 ps)" for ps results s c
  proof -
    let ?rs = "map (batch_row ctx t c ids tokens) (enumerate 0 ps)"
    note pl = plan_lines_distinct [OF that(1)]
    have len: "length ps = length classIds" using pl map_eq_imp_length_eq [of pl_vehicleClassId ps "\<lambda>x. x" classIds] by simp
    have "map r_id ?rs = map ids (map fst (enumerate 0 ps))" "map r_vehicleId ?rs = map pl_vehicleId (map snd (enumerate 0 ps))"
      by (simp_all only: map_map o_def batch_row_def public_row_sel)
    then show ?thesis
      unfolding good_def using that pl len
      by (intro exI [of _ ?rs]) (simp add: list_all_iff batch_row_def map_fst_enumerate)
  qed
  have lines: "wpre (create_lines ctx t c (length ps) ids tokens 0 ps)
      (\<lambda>ls. wpre (batch_mail ctx t ls) (\<lambda>_. wpre (batch_sms ctx t ls) (\<lambda>_. good ls) (\<lambda>_. same)) (\<lambda>_. same))
      (\<lambda>_ _. True) s"
    if "plan_lines d t [] classIds = Inr ps" "same s" for c ps s
    by (rule wpre_mono [OF create_lines_rows])
      (use that(2) in \<open>auto simp: same_def intro!: wpre_batch_messages rows [OF that(1)]\<close>)
  have frame: "same d" "same (d_audit_update g (d_customers_update f d))" "same (d_audit_update g d)" for f g
    by (simp_all add: same_def)
  have "wpre (createPublicQuoteBatch ctx ids tokens newCustomerId t classIds) good (\<lambda>_. same) d"
    unfolding createPublicQuoteBatch_def
    by (simp add: wp) (auto simp: wp frame intro!: wpre_upsert_customer lines)
  then show ?thesis
    using assms by (cases r) (simp_all add: wpre_def good_def same_def)
qed

definition demo_trip :: public_trip where
  "demo_trip = \<lparr>pt_companyId = ''acme'', pt_stationId = ''rome'', pt_pickupStationId = ''rome'',
     pt_returnStationId = ''milan'', pt_pickupAt = day_at 10, pt_returnAt = day_at 13, pt_customerName = ''Anna Bianchi'',
     pt_customerEmail = ''anna@bianchi.it'', pt_customerPhone = ''3331234567'', pt_notes = None,
     pt_privacyNoticeVersion = None, pt_marketingEmailOptIn = False, pt_extraLines = Some [(''Child seat'', 900)]\<rparr>"

definition demo_basket :: "batch_line list result \<times> db" where
  "demo_basket = createPublicQuoteBatch demo_ctx (\<lambda>i. ''q'' @ show_nat i) (\<lambda>i. ''t'' @ show_nat i) ''c9'' demo_trip
     [''eco'', ''eco''] demo_db"

theorem basket_all_or_nothing_witness:
  "\<exists>rs. d_reservations (snd demo_basket) = d_reservations demo_db @ rs \<and> map r_id rs = [''q0'', ''q1''] \<and>
     distinct (map r_vehicleId rs)"
proof -
  have "isInr (fst demo_basket)" by code_simp
  then obtain v where run: "demo_basket = (Inr v, snd demo_basket)" using isInr_pair by blast
  have run': "createPublicQuoteBatch demo_ctx (\<lambda>i. ''q'' @ show_nat i) (\<lambda>i. ''t'' @ show_nat i) ''c9'' demo_trip
     [''eco'', ''eco''] demo_db = (Inr v, snd demo_basket)"
    by (fold demo_basket_def) (rule run)
  have ids: "map (\<lambda>i. ''q'' @ show_nat i) [0..<length [''eco'', ''eco'']] = [''q0'', ''q1'']" by code_simp
  from basket_all_or_nothing [OF run', unfolded ids sum.case] show ?thesis by (elim exE conjE) (intro exI conjI)
qed

section \<open>Recovery of a link\<close>

text \<open>The characters of a signed link need no escape in a URL.\<close>

lemma encode_safe: "list_all uri_safe s \<Longrightarrow> encodeURIComponent s = s"
  by (induction s) (auto simp: encodeURIComponent_def)

lemma alphabet_uri_safe: "list_all (\<lambda>c. uri_safe (urlsafe c)) alphabet"
  by code_simp

lemma b64url_uri_safe: "list_all uri_safe (b64url buf)"
  using sextets_alphabet [of _ buf] alphabet_uri_safe by (auto simp: b64url_sextets list_all_iff)

lemma magic_uri_safe: "encodeURIComponent (signPublicBookingMagicLink hmac now secret rid ttl) =
    signPublicBookingMagicLink hmac now secret rid ttl"
proof (rule encode_safe)
  have "uri_safe (CHR ''.'')" by code_simp
  then show "list_all uri_safe (signPublicBookingMagicLink hmac now secret rid ttl)"
    by (simp add: signPublicBookingMagicLink_def Let_def b64url_uri_safe)
qed

lemma link_ttl_range: "15 \<le> link_ttl_minutes env \<and> link_ttl_minutes env \<le> 20160"
  by (simp add: link_ttl_minutes_def Let_def)

text \<open>
  Asking for a link tells nothing about the bookings: with the secret configured the answer is
  the same whatever the identifier and the address, and a mail leaves only for a booking made on
  the web, to the address it was made with.
\<close>

theorem link_request_reveals_nothing:
  assumes "requestPublicBookingViewLink hmac ctx rid email d = (r, d')"
  shows "(r = Inr ()) = (16 \<le> length (magic_secret (c_env ctx))) \<and>
    (d_mails d' = d_mails d \<or>
     (\<exists>b\<in>set (d_reservations d). r_id b = rid \<and> r_source b = PUBLIC_WEB \<and>
        (\<exists>m. d_mails d' = d_mails d @ [m] \<and> m_to m = toLowerCase (trim (r_customerEmail b)) \<and> m_reservationId m = rid)))"
proof -
  have "wpre (requestPublicBookingViewLink hmac ctx rid email)
      (\<lambda>_ s. 16 \<le> length (magic_secret (c_env ctx)) \<and> (d_mails s = d_mails d \<or>
        (\<exists>b\<in>set (d_reservations d). r_id b = rid \<and> r_source b = PUBLIC_WEB \<and>
          (\<exists>m. d_mails s = d_mails d @ [m] \<and> m_to m = toLowerCase (trim (r_customerEmail b)) \<and> m_reservationId m = rid))))
      (\<lambda>_ s. \<not> 16 \<le> length (magic_secret (c_env ctx)) \<and> d_mails s = d_mails d) d"
    by (auto simp: requestPublicBookingViewLink_def wp Let_def find_Some_iff dest: nth_mem)
  then show ?thesis
    using assms by (cases r) (auto simp: wpre_def)
qed

theorem link_request_reveals_nothing_witness:
  "fst (requestPublicBookingViewLink (\<lambda>k m. m) demo_ctx ''r1'' ''mario@rossi.it'' demo_db) \<noteq> Inr ()"
proof -
  let ?run = "requestPublicBookingViewLink (\<lambda>k m. m) demo_ctx ''r1'' ''mario@rossi.it'' demo_db"
  have "\<not> 16 \<le> length (magic_secret (c_env demo_ctx))" by code_simp
  then show ?thesis
    using link_request_reveals_nothing [of "\<lambda>k m. m" demo_ctx "''r1''" "''mario@rossi.it''" demo_db "fst ?run" "snd ?run"]
    by simp
qed

text \<open>
  C34: The link in a recovery mail opens the booking it was asked for, as it then is, until its lifetime
  of 15 minutes to 14 days is over, and nothing afterwards.
\<close>

theorem mailed_link_opens_booking:
  assumes "requestPublicBookingViewLink hmac ctx rid email d = (r, d')" "d_mails d' = d_mails d @ [m]"
    and "rid \<noteq> []" "CHR '':'' \<notin> set rid" "\<And>msg. hmac (magic_secret (c_env ctx)) msg \<noteq> []"
    and "find_public (\<lambda>b. r_id b = rid) d2 = Inr b"
  shows "\<exists>magic. m_link m = Some (public_base_url (c_env ctx) @ ''/booking/view?magic='' @ magic) \<and>
    getPublicReservationByMagicLink hmac d2 (c_env ctx) later magic =
      (if later div 1000 \<le> c_now ctx div 1000 + link_ttl_minutes (c_env ctx) * 60 then guest_view_of d2 b
       else Inl (NotFound ''Reservation not found''))"
proof -
  let ?magic = "signPublicBookingMagicLink hmac (c_now ctx) (magic_secret (c_env ctx)) rid (link_ttl_minutes (c_env ctx) * 60)"
  have "wpre (requestPublicBookingViewLink hmac ctx rid email)
      (\<lambda>_ s. \<forall>k. d_mails s = d_mails d @ [k] \<longrightarrow>
         16 \<le> length (magic_secret (c_env ctx)) \<and> m_link k = Some (magic_url (c_env ctx) ?magic))
      (\<lambda>_ s. d_mails s = d_mails d) d"
    by (auto simp: requestPublicBookingViewLink_def wp Let_def find_Some_iff)
  then have m: "16 \<le> length (magic_secret (c_env ctx))" "m_link m = Some (magic_url (c_env ctx) ?magic)"
    using assms(1,2) by (cases r; auto simp: wpre_def)+
  have "verifyPublicBookingMagicLink hmac later (magic_secret (c_env ctx)) ?magic =
      (if later div 1000 \<le> c_now ctx div 1000 + link_ttl_minutes (c_env ctx) * 60 then Some rid else None)"
    using assms(3-5) by (rule verify_signed)
  then show ?thesis
    using m assms(6)
    by (intro exI [of _ ?magic])
      (simp add: magic_url_def magic_uri_safe getPublicReservationByMagicLink_def)
qed

definition demo_web_env :: env where
  "demo_web_env x =
     (if x = ''PUBLIC_BOOKING_MAGIC_SECRET'' then Some ''0123456789abcdef''
      else if x = ''APP_PUBLIC_BASE_URL'' then Some ''https://acme.it/'' else None)"

definition demo_web_db :: db where
  "demo_web_db = demo_db\<lparr>d_reservations := [demo_reservation\<lparr>r_source := PUBLIC_WEB\<rparr>]\<rparr>"

definition demo_request :: "unit result \<times> db" where
  "demo_request = requestPublicBookingViewLink (\<lambda>k m. k) (demo_ctx\<lparr>c_env := demo_web_env\<rparr>) ''r1'' ''Mario@Rossi.it'' demo_web_db"

theorem mailed_link_opens_booking_witness:
  "\<exists>magic v. m_link (last (d_mails (snd demo_request))) = Some (''https://acme.it/booking/view?magic='' @ magic) \<and>
     getPublicReservationByMagicLink (\<lambda>k m. k) demo_web_db demo_web_env (day_at 1) magic = Inr v \<and> gv_id v = ''r1''"
proof -
  let ?ctx = "demo_ctx\<lparr>c_env := demo_web_env\<rparr>" and ?b = "demo_reservation\<lparr>r_source := PUBLIC_WEB\<rparr>"
  have run: "requestPublicBookingViewLink (\<lambda>k m. k) ?ctx ''r1'' ''Mario@Rossi.it'' demo_web_db = (fst demo_request, snd demo_request)"
    by (simp add: demo_request_def)
  have facts: "16 \<le> length (magic_secret (c_env ?ctx))" "c_mailOn ?ctx" "public_base_url (c_env ?ctx) \<noteq> []"
    "List.find (\<lambda>r. r_id r = ''r1'' \<and> r_source r = PUBLIC_WEB) (d_reservations demo_web_db) = Some ?b"
    "toLowerCase (trim (r_customerEmail ?b)) = toLowerCase (trim ''Mario@Rossi.it'')" "d_mails demo_web_db = []"
    by code_simp+
  then have "wpre (requestPublicBookingViewLink (\<lambda>k m. k) ?ctx ''r1'' ''Mario@Rossi.it'')
      (\<lambda>_ s. length (d_mails s) = 1) (\<lambda>_ s. length (d_mails s) = 1) demo_web_db"
    by (simp add: requestPublicBookingViewLink_def wp Let_def)
  then have "length (d_mails (snd demo_request)) = 1"
    unfolding demo_request_def by (rule wpre_run [THEN iffD1])
  then have m: "d_mails (snd demo_request) = d_mails demo_web_db @ [last (d_mails (snd demo_request))]"
    using facts(6) by (cases "d_mails (snd demo_request)") auto
  have b: "find_public (\<lambda>b. r_id b = ''r1'') demo_web_db = Inr ?b" by code_simp
  have sec: "magic_secret (c_env ?ctx) \<noteq> []" for msg :: string by code_simp
  have rid: "''r1'' \<noteq> []" "CHR '':'' \<notin> set ''r1''" by code_simp+
  have "isInr (guest_view_of demo_web_db ?b)" by code_simp
  then obtain v where v: "guest_view_of demo_web_db ?b = Inr v" by (auto simp: isInr_iff)
  have id: "gv_id v = ''r1''" using v by (auto simp: guest_view_of_def andThen_Inr demo_reservation_def)
  have t: "1704153600 \<le> c_now demo_ctx div 1000 + link_ttl_minutes demo_web_env * 60" by code_simp
  have base: "public_base_url demo_web_env = ''https://acme.it''" by code_simp
  obtain magic where "m_link (last (d_mails (snd demo_request))) = Some (''https://acme.it'' @ ''/booking/view?magic='' @ magic)"
    "getPublicReservationByMagicLink (\<lambda>k m. k) demo_web_db demo_web_env (day_at 1) magic = Inr v"
    using mailed_link_opens_booking [OF run m rid sec b, of "day_at 1"] t v base by auto
  then show ?thesis using id by (intro exI [of _ magic] exI [of _ v]) simp
qed

section \<open>The price on the page\<close>

lemma available_vehicle:
  assumes "v \<in> set (av_vehicles (runAvailabilityForStation d q st))"
  shows "v \<in> set (d_vehicles d) \<and> (truthy (aq_vehicleClassId q) \<longrightarrow> Some (v_vehicleClassId v) = aq_vehicleClassId q)"
proof -
  have "set (av_vehicles (runAvailabilityForStation d q st)) \<subseteq> set (station_candidates d q st)"
    by (auto simp: runAvailabilityForStation_def Let_def availability_payload_def)
  then show ?thesis using assms by (auto simp: station_candidates_def)
qed

lemma first_available_vehicle:
  assumes "first_available d t classId = Inr vid" "classId \<noteq> []"
  obtains v where "v \<in> set (d_vehicles d)" "v_id v = vid" "v_vehicleClassId v = classId"
proof -
  obtain avail where a: "listAvailableVehiclesPublic d (pt_companyId t) (public_query t classId) = Inr avail"
    "(case av_vehicles avail of [] \<Rightarrow> Inl (Conflict ''No free vehicle in this class for the selected station and time window. Choose another time or class.'')
       | v # _ \<Rightarrow> Inr (v_id v)) = Inr vid"
    using assms(1) by (auto simp: first_available_def andThen_Inr)
  then obtain v vs where v: "av_vehicles avail = v # vs" "v_id v = vid" by (cases "av_vehicles avail") auto
  obtain st where "runAvailabilityForStation d (public_query t classId) st = avail"
    using a(1) by (auto simp: listAvailableVehiclesPublic_def andThen_Inr)
  then have "av_vehicles (runAvailabilityForStation d (public_query t classId) st) = v # vs" "v_id v = vid"
    using v by simp_all
  then show ?thesis
    using available_vehicle [of v d "public_query t classId" st] assms(2) that [of v] by (simp add: public_query_def)
qed

text \<open>
  C33: Where every vehicle of the class is priced by the class (USE_CLASS), a web booking costs what the page
  showed: its stored total is the public quote for the same class, trip and stations plus the extras.
\<close>

theorem web_booking_costs_what_was_shown:
  assumes "createPublicQuote ctx newId token newCustomerId t classId d = (Inr a, d')"
    and "quotePublic d \<lparr>rq_vehicleClassId = classId, rq_pickupAt = pt_pickupAt t, rq_returnAt = pt_returnAt t,
       rq_pickupStationId = Some (pt_pickupStationId t), rq_returnStationId = Some (pt_returnStationId t)\<rparr>
       (pt_companyId t) = Inr shown"
    and "\<And>v. v \<in> set (d_vehicles d) \<Longrightarrow> v_vehicleClassId v = classId \<Longrightarrow> v_rentPricingMode v = USE_CLASS"
    and "keyed v_id (d_vehicles d)" "qt_subtotalCents shown \<noteq> None" "classId \<noteq> []"
    and "pt_pickupStationId t \<noteq> []" "pt_returnStationId t \<noteq> []"
  shows "px_totalCents a = Some (the (qt_totalCents shown) + sum_list (map snd (or_else (pt_extraLines t) [])))"
proof -
  let ?q = "\<lparr>rq_vehicleClassId = classId, rq_pickupAt = pt_pickupAt t, rq_returnAt = pt_returnAt t,
       rq_pickupStationId = Some (pt_pickupStationId t), rq_returnStationId = Some (pt_returnStationId t)\<rparr>"
  let ?extras = "map snd (or_else (pt_extraLines t) [])"
  obtain vid where vid: "first_available d t classId = Inr vid"
    using assms(1) by (cases "first_available d t classId") (auto simp: createPublicQuote_def andDo_def bnd_def split: sum.splits)
  then obtain v where v: "v \<in> set (d_vehicles d)" "v_id v = vid" "v_vehicleClassId v = classId"
    using first_available_vehicle assms(6) by metis
  have fv: "find_vehicle d vid = Some v" using vehicles.find_keyed [OF assms(4) v(1,2)] by (simp add: find_vehicle_def)
  obtain cls company oneWay where
    q: "find_class d classId = Some cls" "find_company d (pt_companyId t) = Some company"
      "quote_one_way d company (pt_companyId t) ?q = Inr oneWay" "shown = quote_of cls ?q oneWay" 
    by (rule quotePublic_Inr [OF assms(2)]) (rule that, simp_all)
  have ow: "one_way_cents d (pt_companyId t) (pt_pickupStationId t) (pt_returnStationId t) = oneWay"
    using q(2,3) assms(7,8)
    by (auto simp: quote_one_way_def one_way_cents_def split: if_splits option.splits)
  have rent: "vehicle_rent d v (pt_pickupAt t) (pt_returnAt t) = qt_subtotalCents shown"
    using q(1,4) v assms(3) by (simp add: vehicle_rent_def quote_of_def Let_def)
  have sum: "foldl (+) 0 xs = sum_list xs" for xs :: "int list"
    by (induction xs rule: rev_induct) simp_all
  have tot: "resolveTotalCents d (public_full t vid) = Some (the (qt_totalCents shown) + sum_list ?extras)"
    using fv ow rent assms(5) q(4)
    by (auto simp: resolveTotalCents_def public_full_def computeAutoTotalCents_def Let_def sum quote_of_def)
  have "wpre (createPublicQuote ctx newId token newCustomerId t classId)
      (\<lambda>a _. px_totalCents a = Some (the (qt_totalCents shown) + sum_list ?extras)) (\<lambda>_ _. True) d"
    unfolding createPublicQuote_def
    by (simp add: wp vid tot) (auto simp: wp created_answer_def intro!: wpre_upsert_customer)
  from wpre_success [OF this assms(1)] show ?thesis .
qed

definition demo_quote :: "public_created result \<times> db" where
  "demo_quote = createPublicQuote demo_ctx ''q1'' ''tok'' ''c9'' demo_trip ''eco'' demo_db"

theorem web_booking_costs_what_was_shown_witness:
  "\<exists>a. fst demo_quote = Inr a \<and> px_totalCents a = Some 11400"
proof -
  let ?q = "\<lparr>rq_vehicleClassId = ''eco'', rq_pickupAt = pt_pickupAt demo_trip, rq_returnAt = pt_returnAt demo_trip,
       rq_pickupStationId = Some (pt_pickupStationId demo_trip), rq_returnStationId = Some (pt_returnStationId demo_trip)\<rparr>"
  have "isInr (fst demo_quote)" by code_simp
  then obtain a where run: "demo_quote = (Inr a, snd demo_quote)" using isInr_pair by blast
  have run': "createPublicQuote demo_ctx ''q1'' ''tok'' ''c9'' demo_trip ''eco'' demo_db = (Inr a, snd demo_quote)"
    by (fold demo_quote_def) (rule run)
  have q: "quotePublic demo_db ?q (pt_companyId demo_trip) = Inr (quote_of demo_class ?q 1500)" by code_simp
  have modes: "v_rentPricingMode v = USE_CLASS" if "v \<in> set (d_vehicles demo_db)" for v
    using that by (auto simp: demo_db_def demo_vehicle_def demo_vehicle2_def)
  have k: "keyed v_id (d_vehicles demo_db)" by code_simp
  have vals: "qt_subtotalCents (quote_of demo_class ?q 1500) = Some 9000" "qt_totalCents (quote_of demo_class ?q 1500) = Some 10500"
    "sum_list (map snd (or_else (pt_extraLines demo_trip) [])) = 900" by code_simp+
  have ne: "qt_subtotalCents (quote_of demo_class ?q 1500) \<noteq> None" using vals(1) by simp
  have st: "pt_pickupStationId demo_trip \<noteq> []" "pt_returnStationId demo_trip \<noteq> []" by code_simp+
  note web_booking_costs_what_was_shown [OF run' q modes k ne _ st, unfolded vals]
  moreover have "fst demo_quote = Inr a" using run by (metis fst_conv)
  ultimately show ?thesis by simp
qed

end
