(* ===== verification/Payments.thy ===== *)
theory Payments
  imports Reservation_Core Partner_Webhook
begin

text \<open>
  \<open>apps/api/src/payments/payments.service.ts\<close> without the reconciliation export: checkout
  sessions for the rental and the deposit, capture and release of a deposit, refunds and the webhook.
  The Stripe client is a parameter: its answers may depend on the requests made so far, which
  the state records. Texts shown on the payment page and return addresses are left out.
\<close>

section \<open>The Stripe client\<close>

record stripe_refund =
  sx_id :: string
  sx_amount :: int
  sx_currency :: "string option"

text \<open>
  Answers: a message when the request fails; a session's identifier and page; the amount still
  capturable on an intent; the intent of a session; a refund.
\<close>

record stripe_api =
  sa_enabled :: bool
  sa_createSession :: "stripe_call list \<Rightarrow> string + (string \<times> string option)"
  sa_capturable :: "stripe_call list \<Rightarrow> string \<Rightarrow> string + int option"
  sa_capture :: "stripe_call list \<Rightarrow> string + unit"
  sa_cancel :: "stripe_call list \<Rightarrow> string + unit"
  sa_sessionIntent :: "string \<Rightarrow> string + string option"
  sa_refund :: "stripe_call list \<Rightarrow> string + stripe_refund"

text \<open>A request is recorded, then answered; its failure is a value.\<close>

definition attempt :: "stripe_call \<Rightarrow> (stripe_call list \<Rightarrow> string + 'a) \<Rightarrow> (string + 'a) dbprog" where
  "attempt call answer =
     andDo (modify (d_stripeCalls_update (\<lambda>cs. cs @ [call]))) (gets (\<lambda>d. answer (d_stripeCalls d)))"

definition raise :: "(string \<Rightarrow> http_error) \<Rightarrow> string + 'a \<Rightarrow> 'a result" where
  "raise err x = (case x of Inl msg \<Rightarrow> Inl (err msg) | Inr y \<Rightarrow> Inr y)"

definition stripe_on :: "stripe_api \<Rightarrow> unit result" where
  "stripe_on api = ensure (sa_enabled api) (BadRequest ''Stripe is not configured (STRIPE_SECRET_KEY)'')"

definition currency_eur :: "reservation \<Rightarrow> unit result" where
  "currency_eur r =
     ensure (toLowerCase (if r_currency r = [] then ''EUR'' else r_currency r) = ''eur'')
       (BadRequest ''Only EUR currency is supported for Stripe in this v1 (extend mapping as needed)'')"

section \<open>Checkout\<close>

record checkout =
  ck_url :: string
  ck_sessionId :: string
  ck_amountCents :: "int option"

definition check_rental_checkout :: "stripe_api \<Rightarrow> reservation \<Rightarrow> int result" where
  "check_rental_checkout api r =
     andThen (stripe_on api) (\<lambda>_.
     case r_totalCents r of
       None \<Rightarrow> Inl (BadRequest ''Set a positive totalCents on the reservation before taking payment'')
     | Some t \<Rightarrow>
         if t < 1 then Inl (BadRequest ''Set a positive totalCents on the reservation before taking payment'')
         else andThen (currency_eur r) (\<lambda>_. Inr t))"

text \<open>The answer; that of a deposit names the amount.\<close>

definition checkout_url :: "string \<Rightarrow> string option \<Rightarrow> int option \<Rightarrow> checkout result" where
  "checkout_url sid url amount =
     (if truthy url then Inr \<lparr>ck_url = the url, ck_sessionId = sid, ck_amountCents = amount\<rparr>
      else Inl (BadRequest ''Stripe did not return a hosted checkout URL (check configuration)''))"

definition createRentalStripeCheckoutSession :: "stripe_api \<Rightarrow> time \<Rightarrow> reservation \<Rightarrow> checkout dbprog" where
  "createRentalStripeCheckoutSession api now r =
     bnd (asks (\<lambda>_. check_rental_checkout api r)) (\<lambda>t.
     bnd (attempt (CreateSession ''RENTAL'' t (r_id r)) (sa_createSession api)) (\<lambda>ans.
     bnd (asks (\<lambda>_. raise Crash ans)) (\<lambda>(sid, url).
     andDo (update_reservation now (r_id r) (r_stripeCheckoutSessionId_update (\<lambda>_. Some sid)))
     (asks (\<lambda>_. checkout_url sid url None)))))"

definition queueRentalCheckoutLinkEmail :: "ctx \<Rightarrow> reservation \<Rightarrow> string \<Rightarrow> unit dbprog" where
  "queueRentalCheckoutLinkEmail ctx r url =
     (if \<not> c_mailOn ctx then ret ()
      else send_mail \<lparr>m_kind = ''stripeCheckoutLink'', m_to = r_customerEmail r, m_reservationId = r_id r, m_link = Some url\<rparr>)"

definition check_public_checkout :: "reservation \<Rightarrow> string \<Rightarrow> unit result" where
  "check_public_checkout r customerEmail =
     (if r_source r \<noteq> PUBLIC_WEB then Inl (Forbidden ''Online payment is only available for web quotes'')
      else if r_status r \<noteq> QUOTE \<and> r_status r \<noteq> PENDING_PAYMENT
      then Inl (BadRequest ''This booking is not in a state that accepts online rental payment'')
      else if r_paidAt r \<noteq> None then Inl (Conflict ''This reservation is already recorded as paid'')
      else if toLowerCase (trim (r_customerEmail r)) \<noteq> toLowerCase (trim customerEmail)
      then Inl (Unauthorized ''Email does not match this booking'')
      else Inr ())"

definition createPublicRentalCheckoutSession :: "stripe_api \<Rightarrow> ctx \<Rightarrow> string \<Rightarrow> string \<Rightarrow> checkout dbprog" where
  "createPublicRentalCheckoutSession api ctx i customerEmail =
     bnd (asks (\<lambda>d. orElse (find_reservation d i) (NotFound ''Reservation not found''))) (\<lambda>r.
     andDo (asks (\<lambda>_. check_public_checkout r customerEmail))
     (bnd (createRentalStripeCheckoutSession api (c_now ctx) r) (\<lambda>out.
      andDo (queueRentalCheckoutLinkEmail ctx r (ck_url out)) (ret out))))"

definition createCheckoutSession :: "stripe_api \<Rightarrow> ctx \<Rightarrow> jwt_user \<Rightarrow> string \<Rightarrow> checkout dbprog" where
  "createCheckoutSession api ctx user i =
     bnd (asks (\<lambda>d. getScopedReservationRecord d (c_env ctx) user i)) (\<lambda>r.
     andDo (asks (\<lambda>_. ensure (r_paidAt r = None) (Conflict ''This reservation is already recorded as paid'')))
     (bnd (createRentalStripeCheckoutSession api (c_now ctx) r) (\<lambda>out.
      andDo (queueRentalCheckoutLinkEmail ctx r (ck_url out)) (ret out))))"

text \<open>The amount of a deposit: given, or the default of the vehicle's class.\<close>

definition deposit_amount :: "db \<Rightarrow> reservation \<Rightarrow> int option \<Rightarrow> int result" where
  "deposit_amount d r amountCents =
     (let msg = ''Set amountCents on the request, or set defaultDepositCents on the vehicle class'';
          dflt = (case find_vehicle d (r_vehicleId r) of
                    None \<Rightarrow> None
                  | Some v \<Rightarrow> (case find_class d (v_vehicleClassId v) of None \<Rightarrow> None | Some c \<Rightarrow> vc_defaultDepositCents c))
      in case (case amountCents of Some a \<Rightarrow> Some a | None \<Rightarrow> dflt) of
           None \<Rightarrow> Inl (BadRequest msg)
         | Some a \<Rightarrow> if a < 1 then Inl (BadRequest msg) else Inr a)"

definition check_deposit_checkout :: "reservation \<Rightarrow> unit result" where
  "check_deposit_checkout r =
     (if r_status r = CANCELLED then Inl (BadRequest ''Will not take a deposit for a cancelled reservation'')
      else if r_depositHoldStatus r = DEP_UNCAPTURED
      then Inl (Conflict ''Release the existing uncaptured deposit hold or capture it before starting a new one'')
      else if r_depositHoldStatus r = DEP_CAPTURED
      then Inl (Conflict ''A deposit was already captured for this reservation in v1 (no second on-book hold yet)'')
      else Inr ())"

definition queueDepositLinkEmail :: "ctx \<Rightarrow> reservation \<Rightarrow> string \<Rightarrow> unit dbprog" where
  "queueDepositLinkEmail ctx r url =
     (if \<not> c_mailOn ctx then ret ()
      else send_mail \<lparr>m_kind = ''stripeDepositLink'', m_to = r_customerEmail r, m_reservationId = r_id r, m_link = Some url\<rparr>)"

definition pending_deposit :: "string \<Rightarrow> int \<Rightarrow> reservation \<Rightarrow> reservation" where
  "pending_deposit sid amount r =
     r\<lparr>r_stripeDepositCheckoutSessionId := Some sid, r_depositHoldCents := Some amount, r_depositHoldStatus := DEP_PENDING\<rparr>"

definition createDepositCheckoutSession ::
  "stripe_api \<Rightarrow> ctx \<Rightarrow> jwt_user \<Rightarrow> string \<Rightarrow> int option \<Rightarrow> checkout dbprog" where
  "createDepositCheckoutSession api ctx user i amountCents =
     andDo (asks (\<lambda>_. stripe_on api))
     (bnd (asks (\<lambda>d. getScopedReservationRecord d (c_env ctx) user i)) (\<lambda>r.
      andDo (asks (\<lambda>_. check_deposit_checkout r))
      (bnd (asks (\<lambda>d. deposit_amount d r amountCents)) (\<lambda>amount.
       andDo (asks (\<lambda>_. currency_eur r))
       (bnd (attempt (CreateSession ''DEPOSIT'' amount (r_id r)) (sa_createSession api)) (\<lambda>ans.
        bnd (asks (\<lambda>_. raise Crash ans)) (\<lambda>(sid, url).
        andDo (update_reservation (c_now ctx) (r_id r) (pending_deposit sid amount))
        (bnd (asks (\<lambda>_. checkout_url sid url (Some amount))) (\<lambda>out.
         andDo (queueDepositLinkEmail ctx r (ck_url out)) (ret out))))))))))"

section \<open>Deposits\<close>

definition uncaptured_intent :: "string \<Rightarrow> reservation \<Rightarrow> string result" where
  "uncaptured_intent msg r =
     (if r_depositHoldStatus r \<noteq> DEP_UNCAPTURED \<or> \<not> truthy (r_stripeDepositPaymentIntentId r) then Inl (BadRequest msg)
      else Inr (the (r_stripeDepositPaymentIntentId r)))"

definition set_deposit :: "deposit_status \<Rightarrow> reservation \<Rightarrow> reservation" where
  "set_deposit s = r_depositHoldStatus_update (\<lambda>_. s)"

definition capturable :: "stripe_api \<Rightarrow> string \<Rightarrow> db \<Rightarrow> string + int" where
  "capturable api intent d =
     (case sa_capturable api (d_stripeCalls d) intent of
        Inl msg \<Rightarrow> Inl msg
      | Inr None \<Rightarrow> Inr 0
      | Inr (Some a) \<Rightarrow> Inr a)"

definition capture_amount :: "int \<Rightarrow> int option \<Rightarrow> int result" where
  "capture_amount maxCap requested =
     (let a = or_else requested maxCap
      in if maxCap < 1 then Inl (BadRequest ''No capturable amount on deposit PaymentIntent'')
         else if a < 1 \<or> a > maxCap
         then Inl (BadRequest (''Capture amount must be between 1 and '' @ show_int maxCap @ '' cents (remaining hold)''))
         else Inr a)"

text \<open>All of the hold, or a part of it and then the release of the rest, whose failure is only logged.\<close>

definition capture_requests :: "stripe_api \<Rightarrow> string \<Rightarrow> int \<Rightarrow> int \<Rightarrow> (string + unit) dbprog" where
  "capture_requests api intent amount maxCap =
     (if amount = maxCap then attempt (CaptureIntent intent None) (sa_capture api)
      else
        bnd (attempt (CaptureIntent intent (Some amount)) (sa_capture api)) (\<lambda>ans.
        case ans of
          Inl msg \<Rightarrow> ret (Inl msg)
        | Inr _ \<Rightarrow>
            bnd (gets (capturable api intent)) (\<lambda>after.
            case after of
              Inl msg \<Rightarrow> ret (Inl msg)
            | Inr remaining \<Rightarrow>
                if remaining > 0 then andDo (attempt (CancelIntent intent) (sa_cancel api)) (ret (Inr ()))
                else ret (Inr ()))))"

definition damage_json :: "db \<Rightarrow> string \<Rightarrow> (string \<times> json) list" where
  "damage_json d i =
     (case List.find (\<lambda>x. dm_reservationId x = i) (d_damages d) of
        None \<Rightarrow> []
      | Some x \<Rightarrow> [(''damageReportId'', JStr (dm_id x)), (''damageSuggestedCaptureCents'', oint (dm_suggestedCaptureCents x))])"

definition captureDeposit ::
  "stripe_api \<Rightarrow> ctx \<Rightarrow> jwt_user \<Rightarrow> string \<Rightarrow> int option \<Rightarrow> reservation dbprog" where
  "captureDeposit api ctx user i requested =
     andDo (asks (\<lambda>_. stripe_on api))
     (bnd (asks (\<lambda>d. getScopedReservationRecord d (c_env ctx) user i)) (\<lambda>r.
      bnd (asks (\<lambda>_. uncaptured_intent ''No uncaptured deposit hold to capture (complete deposit checkout first)'' r)) (\<lambda>intent.
      bnd (asks (\<lambda>d. raise (\<lambda>m. BadRequest (''Stripe retrieve failed: '' @ m)) (capturable api intent d))) (\<lambda>maxCap.
      bnd (asks (\<lambda>_. capture_amount maxCap requested)) (\<lambda>amount.
      bnd (capture_requests api intent amount maxCap) (\<lambda>ans.
      case ans of
        Inl msg \<Rightarrow>
          andDo (update_reservation (c_now ctx) (r_id r) (set_deposit DEP_FAILED))
            (throw (BadRequest (''Stripe capture failed: '' @ msg)))
      | Inr _ \<Rightarrow>
          bnd (update_reservation (c_now ctx) (r_id r) (set_deposit DEP_CAPTURED)) (\<lambda>updated.
          bnd (gets (\<lambda>d. damage_json d (r_id r))) (\<lambda>dmg.
          andDo (audit (bare_audit (Some (u_sub user)) ''reservation.deposit.capture'' ''Reservation'' (r_id r)
            (JObj ([(''captureAmountCents'', JNum amount), (''capturableMaxCents'', JNum maxCap),
                    (''partial'', JBool (amount < maxCap)), (''stripePaymentIntentId'', JStr intent)] @ dmg))))
          (ret updated)))))))))"

definition cancelDepositHold :: "stripe_api \<Rightarrow> ctx \<Rightarrow> jwt_user \<Rightarrow> string \<Rightarrow> reservation dbprog" where
  "cancelDepositHold api ctx user i =
     andDo (asks (\<lambda>_. stripe_on api))
     (bnd (asks (\<lambda>d. getScopedReservationRecord d (c_env ctx) user i)) (\<lambda>r.
      bnd (asks (\<lambda>_. uncaptured_intent ''No uncaptured deposit hold to release (nothing to cancel on Stripe)'' r)) (\<lambda>intent.
      bnd (attempt (CancelIntent intent) (sa_cancel api)) (\<lambda>ans.
      case ans of
        Inl msg \<Rightarrow>
          andDo (update_reservation (c_now ctx) (r_id r) (set_deposit DEP_FAILED))
            (throw (BadRequest (''Stripe cancel failed: '' @ msg)))
      | Inr _ \<Rightarrow>
          bnd (update_reservation (c_now ctx) (r_id r) (set_deposit DEP_CANCELED)) (\<lambda>released.
          andDo (audit (bare_audit (Some (u_sub user)) ''reservation.deposit.cancel_hold'' ''Reservation'' (r_id r)
            (JObj [(''stripePaymentIntentId'', JStr intent)])))
          (ret released))))))"

section \<open>Refunds\<close>

record refund_body =
  rb_target :: refund_kind
  rb_amountCents :: "int option"

definition target_name :: "refund_kind \<Rightarrow> string" where
  "target_name k = (case k of REFUND_RENTAL \<Rightarrow> ''RENTAL'' | REFUND_DEPOSIT \<Rightarrow> ''DEPOSIT'')"

definition logStripeRefundAudit :: "jwt_user \<Rightarrow> string \<Rightarrow> refund_body \<Rightarrow> stripe_refund \<Rightarrow> unit dbprog" where
  "logStripeRefundAudit user i body x =
     audit (bare_audit (Some (u_sub user)) ''reservation.stripe.refund'' ''Reservation'' i
       (JObj [(''target'', JStr (target_name (rb_target body))), (''stripeRefundId'', JStr (sx_id x)),
              (''amountCents'', JNum (sx_amount x)), (''currency'', ostr (sx_currency x)),
              (''partial'', JBool (rb_amountCents body \<noteq> None))]))"

text \<open>
  The ledger row, as good as it goes: a refund that is in the ledger already is left as it is, and any other failure
  of the insert, which \<open>ledgerDown\<close> stands for, is logged and the refund stays out of the ledger.
\<close>

definition ledger_row :: "string \<Rightarrow> time \<Rightarrow> jwt_user \<Rightarrow> reservation \<Rightarrow> refund_body \<Rightarrow> stripe_refund \<Rightarrow> refund_entry" where
  "ledger_row newId now user r body x =
     \<lparr>rf_id = newId, rf_companyId = r_companyId r, rf_reservationId = r_id r, rf_stripeRefundId = sx_id x,
      rf_amountCents = sx_amount x,
      rf_currency = toUpperCase (if truthy (sx_currency x) then the (sx_currency x) else ''eur''),
      rf_kind = rb_target body, rf_createdByUserId = Some (u_sub user), rf_createdAt = now\<rparr>"

definition insert_ledger :: "bool \<Rightarrow> refund_entry \<Rightarrow> unit dbprog" where
  "insert_ledger ledgerDown y =
     andDo (asks (\<lambda>_. ensure (\<not> ledgerDown) (Prisma ''P1001'')))
     (andDo (asks (\<lambda>d. ensure (\<not> list_ex (\<lambda>z. rf_stripeRefundId z = rf_stripeRefundId y \<or> rf_id z = rf_id y) (d_refunds d)) (Prisma ''P2002'')))
     (modify (d_refunds_update (\<lambda>ys. ys @ [y]))))"

definition persistRefundLedgerAfterStripe ::
  "string \<Rightarrow> bool \<Rightarrow> time \<Rightarrow> jwt_user \<Rightarrow> reservation \<Rightarrow> refund_body \<Rightarrow> stripe_refund \<Rightarrow> unit dbprog" where
  "persistRefundLedgerAfterStripe newId ledgerDown now user r body x =
     catch (insert_ledger ledgerDown (ledger_row newId now user r body x)) (\<lambda>_. ret ())"

text \<open>The intent the money was taken with.\<close>

definition refund_intent :: "stripe_api \<Rightarrow> reservation \<Rightarrow> refund_kind \<Rightarrow> string result" where
  "refund_intent api r target =
     (case target of
        REFUND_RENTAL \<Rightarrow>
          if r_paidAt r = None then Inl (BadRequest ''Nothing to refund: rental is not recorded as paid'')
          else if \<not> truthy (r_stripeCheckoutSessionId r)
          then Inl (BadRequest ''No Stripe Checkout session on file - this payment may not have been taken via the desk link'')
          else andThen (raise Crash (sa_sessionIntent api (the (r_stripeCheckoutSessionId r)))) (\<lambda>pi.
            if truthy pi then Inr (the pi)
            else Inl (BadRequest ''Could not resolve PaymentIntent for this Checkout session''))
      | REFUND_DEPOSIT \<Rightarrow>
          if r_depositHoldStatus r \<noteq> DEP_CAPTURED \<or> \<not> truthy (r_stripeDepositPaymentIntentId r)
          then Inl (BadRequest ''Deposit is not in captured state (capture the hold first, or nothing to refund)'')
          else Inr (the (r_stripeDepositPaymentIntentId r)))"

definition createRefund ::
  "stripe_api \<Rightarrow> ctx \<Rightarrow> jwt_user \<Rightarrow> string \<Rightarrow> bool \<Rightarrow> string \<Rightarrow> refund_body \<Rightarrow> stripe_refund dbprog" where
  "createRefund api ctx user newId ledgerDown i body =
     andDo (asks (\<lambda>_. stripe_on api))
     (bnd (asks (\<lambda>d. getScopedReservationRecord d (c_env ctx) user i)) (\<lambda>r.
      bnd (asks (\<lambda>_. refund_intent api r (rb_target body))) (\<lambda>intent.
      bnd (attempt (RefundIntent intent (rb_amountCents body)) (sa_refund api)) (\<lambda>ans.
      bnd (asks (\<lambda>_. raise (\<lambda>m. BadRequest (''Stripe refund failed: '' @ m)) ans)) (\<lambda>x.
      andDo (logStripeRefundAudit user (r_id r) body x)
      (andDo (persistRefundLedgerAfterStripe newId ledgerDown (c_now ctx) user r body x)
      (ret x)))))))"

section \<open>The webhook\<close>

record session_payload =
  sp_id :: string
  sp_status :: "string option"
  sp_payment_status :: "string option"
  sp_amount_total :: "int option"
  sp_reservationId :: "string option"
  sp_checkoutKind :: "string option"
  sp_payment_intent :: "string option"

record stripe_event =
  ev_id :: string
  ev_type :: string
  ev_session :: session_payload

datatype webhook_outcome = Paid | DepositHeld | Ignored | Duplicate

definition seen_event :: "db \<Rightarrow> string \<Rightarrow> bool" where
  "seen_event d i \<longleftrightarrow> list_ex (\<lambda>e. se_id e = i) (d_stripeEvents d)"

definition record_event :: "time \<Rightarrow> stripe_event \<Rightarrow> unit dbprog" where
  "record_event now ev =
     modify (d_stripeEvents_update (\<lambda>es. es @ [\<lparr>se_id = ev_id ev, se_type = ev_type ev, se_createdAt = now\<rparr>]))"

text \<open>A deposit session that is complete: the hold is placed.\<close>

definition held_deposit :: "string \<Rightarrow> int option \<Rightarrow> reservation \<Rightarrow> reservation" where
  "held_deposit intent amountTotal r =
     (let amount = (case amountTotal of Some a \<Rightarrow> Some a | None \<Rightarrow> r_depositHoldCents r)
      in r\<lparr>r_stripeDepositPaymentIntentId := Some intent,
           r_depositHoldCents := (case amount of Some a \<Rightarrow> if a > 0 then Some a else r_depositHoldCents r
                                               | None \<Rightarrow> r_depositHoldCents r),
           r_depositHoldStatus := DEP_UNCAPTURED\<rparr>)"

definition ignores_deposit :: "session_payload \<Rightarrow> reservation \<Rightarrow> bool" where
  "ignores_deposit s r \<longleftrightarrow>
     r_stripeDepositCheckoutSessionId r \<noteq> Some (sp_id s) \<or>
     r_depositHoldStatus r = DEP_UNCAPTURED \<and> truthy (r_stripeDepositPaymentIntentId r) \<or>
     \<not> truthy (sp_payment_intent s)"

definition applyDepositCheckoutCompleted :: "time \<Rightarrow> stripe_event \<Rightarrow> string \<Rightarrow> webhook_outcome dbprog" where
  "applyDepositCheckoutCompleted now ev rid =
     transaction
       (bnd (gets (\<lambda>d. seen_event d (ev_id ev))) (\<lambda>seen.
        if seen then ret Duplicate
        else
          andDo (record_event now ev)
          (bnd (gets (\<lambda>d. find_reservation d rid)) (\<lambda>found.
           case found of
             None \<Rightarrow> ret Ignored
           | Some r \<Rightarrow>
               if ignores_deposit (ev_session ev) r then ret Ignored
               else
                 andDo (update_reservation now (r_id r)
                   (held_deposit (the (sp_payment_intent (ev_session ev))) (sp_amount_total (ev_session ev))))
                 (ret DepositHeld)))))"

text \<open>A rental session that is paid: the booking is recorded as paid and, if it was open, confirmed.\<close>

definition paid_status :: "reservation_status \<Rightarrow> reservation_status" where
  "paid_status s = (if s = QUOTE \<or> s = PENDING_PAYMENT then CONFIRMED else s)"

definition paid_rental :: "time \<Rightarrow> string \<Rightarrow> reservation \<Rightarrow> reservation" where
  "paid_rental now sid r =
     r\<lparr>r_paidAt := Some now, r_stripeCheckoutSessionId := Some sid, r_status := paid_status (r_status r)\<rparr>"

definition partner_notice :: "reservation \<Rightarrow> (string \<times> string \<times> reservation_status) option" where
  "partner_notice r =
     (if r_source r = PARTNER \<and> truthy (r_createdByPartnerApiKeyId r) \<and> r_status r \<noteq> paid_status (r_status r)
      then Some (the (r_createdByPartnerApiKeyId r), r_id r, r_status r) else None)"

definition applyCheckoutSessionCompleted ::
  "time \<Rightarrow> stripe_event \<Rightarrow> string \<Rightarrow> (webhook_outcome \<times> (string \<times> string \<times> reservation_status) option) dbprog" where
  "applyCheckoutSessionCompleted now ev rid =
     transaction
       (bnd (gets (\<lambda>d. seen_event d (ev_id ev))) (\<lambda>seen.
        if seen then ret (Duplicate, None)
        else
          andDo (record_event now ev)
          (bnd (gets (\<lambda>d. find_reservation d rid)) (\<lambda>found.
           case found of
             None \<Rightarrow> ret (Ignored, None)
           | Some r \<Rightarrow>
               if r_paidAt r \<noteq> None then ret (Ignored, None)
               else
                 andDo (update_reservation now rid (paid_rental now (sp_id (ev_session ev))))
                 (ret (Paid, partner_notice r))))))"

definition mail_if :: "ctx \<Rightarrow> string \<Rightarrow> string \<Rightarrow> (reservation \<Rightarrow> bool) \<Rightarrow> unit dbprog" where
  "mail_if ctx kind rid cond =
     (if \<not> c_mailOn ctx then ret ()
      else
        bnd (gets (\<lambda>d. find_reservation d rid)) (\<lambda>found.
        case found of
          None \<Rightarrow> ret ()
        | Some r \<Rightarrow>
            if CHR 0x40 \<notin> set (r_customerEmail r) \<or> \<not> cond r then ret ()
            else send_mail \<lparr>m_kind = kind, m_to = r_customerEmail r, m_reservationId = r_id r, m_link = r_publicViewToken r\<rparr>))"

definition queueRentalPaidCustomerEmail :: "ctx \<Rightarrow> string \<Rightarrow> unit dbprog" where
  "queueRentalPaidCustomerEmail ctx rid = mail_if ctx ''rentalPaymentReceived'' rid (\<lambda>r. r_paidAt r \<noteq> None)"

definition queueDepositHoldCustomerEmail :: "ctx \<Rightarrow> string \<Rightarrow> unit dbprog" where
  "queueDepositHoldCustomerEmail ctx rid = mail_if ctx ''depositHoldPlaced'' rid (\<lambda>r. r_depositHoldStatus r = DEP_UNCAPTURED)"

definition apply_deposit_event :: "ctx \<Rightarrow> stripe_event \<Rightarrow> string \<Rightarrow> webhook_outcome dbprog" where
  "apply_deposit_event ctx ev rid =
     bnd (applyDepositCheckoutCompleted (c_now ctx) ev rid) (\<lambda>out.
     andDo (if out = DepositHeld then queueDepositHoldCustomerEmail ctx rid else ret ()) (ret out))"

definition apply_rental_event :: "ctx \<Rightarrow> string \<Rightarrow> stripe_event \<Rightarrow> string \<Rightarrow> webhook_outcome dbprog" where
  "apply_rental_event ctx newId ev rid =
     bnd (applyCheckoutSessionCompleted (c_now ctx) ev rid) (\<lambda>(out, notice).
     andDo (if out = Paid then
              andDo (queueRentalPaidCustomerEmail ctx rid)
                (case notice of
                   None \<Rightarrow> ret ()
                 | Some (key, i, prev) \<Rightarrow> enqueueReservationStatusChanged ctx newId key i prev)
            else ret ())
     (ret out))"

definition apply_event :: "ctx \<Rightarrow> string \<Rightarrow> stripe_event \<Rightarrow> webhook_outcome dbprog" where
  "apply_event ctx newId ev =
     (let s = ev_session ev; kind = or_else (sp_checkoutKind s) ''RENTAL''
      in if ev_type ev = ''checkout.session.completed'' \<or> ev_type ev = ''checkout.session.async_payment_succeeded'' then
           if sp_status s \<noteq> Some ''complete'' \<or> \<not> truthy (sp_reservationId s) then ret Ignored
           else if kind = ''DEPOSIT'' then apply_deposit_event ctx ev (the (sp_reservationId s))
           else if ev_type ev \<noteq> ''checkout.session.async_payment_succeeded'' \<and> sp_payment_status s \<noteq> Some ''paid''
           then ret Ignored
           else apply_rental_event ctx newId ev (the (sp_reservationId s))
         else ret Ignored)"

text \<open>
  The endpoint: \<open>construct\<close> stands for the signature check of the Stripe library at a moment, which throws
  (answered as status 500) when the signature does not fit the body or is too old.
\<close>

definition handleStripeWebhook ::
  "(time \<Rightarrow> string \<Rightarrow> string \<Rightarrow> string \<Rightarrow> string + stripe_event) \<Rightarrow> ctx \<Rightarrow> string \<Rightarrow> string option \<Rightarrow> string option \<Rightarrow>
     webhook_outcome dbprog" where
  "handleStripeWebhook construct ctx newId rawBody signature =
     (let secret = c_env ctx ''STRIPE_WEBHOOK_SECRET''
      in andDo (asks (\<lambda>_. ensure (truthy secret) (BadRequest ''STRIPE_WEBHOOK_SECRET is not set'')))
         (andDo (asks (\<lambda>_. ensure (rawBody \<noteq> None)
            (BadRequest ''Raw body is required (enable rawBody in Nest or JSON verify middleware)'')))
         (andDo (asks (\<lambda>_. ensure (truthy signature) (BadRequest ''Missing stripe-signature header'')))
         (bnd (asks (\<lambda>_. raise Crash (construct (c_now ctx) (the rawBody) (the signature) (the secret)))) (\<lambda>ev.
          apply_event ctx newId ev)))))"

section \<open>What a payment may do to a booking\<close>

text \<open>
  The life of a deposit as the handlers run it: a checkout starts it, a completed session places the
  hold, and a hold is captured, released, or marked as failed. A completed session places
  the hold whatever the status is, a captured or released one included.
\<close>

inductive deposit_step :: "deposit_status \<Rightarrow> deposit_status \<Rightarrow> bool" where
  started: "s \<notin> {DEP_UNCAPTURED, DEP_CAPTURED} \<Longrightarrow> deposit_step s DEP_PENDING"
| placed: "deposit_step s DEP_UNCAPTURED"
| captured: "deposit_step DEP_UNCAPTURED DEP_CAPTURED"
| released: "deposit_step DEP_UNCAPTURED DEP_CANCELED"
| failed: "deposit_step DEP_UNCAPTURED DEP_FAILED"

inductive_simps deposit_step_to:
  "deposit_step s DEP_NONE" "deposit_step s DEP_PENDING" "deposit_step s DEP_UNCAPTURED" "deposit_step s DEP_CAPTURED"
  "deposit_step s DEP_CANCELED" "deposit_step s DEP_FAILED"

inductive_cases deposit_step_from: "deposit_step DEP_CAPTURED s"

definition payment_step :: "reservation \<Rightarrow> reservation \<Rightarrow> bool" where
  "payment_step r r' \<longleftrightarrow>
     r_id r' = r_id r \<and> booking_slot r' = booking_slot r \<and> r_companyId r' = r_companyId r \<and>
     (r_status r' = r_status r \<or> r_paidAt r = None \<and> r_paidAt r' \<noteq> None \<and> r_status r' = paid_status (r_status r)) \<and>
     (r_paidAt r \<noteq> None \<longrightarrow> r_paidAt r' = r_paidAt r) \<and>
     (r_depositHoldStatus r' = r_depositHoldStatus r \<or> deposit_step (r_depositHoldStatus r) (r_depositHoldStatus r')) \<and>
     (r_stripeDepositPaymentIntentId r' = r_stripeDepositPaymentIntentId r \<or>
        r_depositHoldStatus r' = DEP_UNCAPTURED \<and> truthy (r_stripeDepositPaymentIntentId r'))"

definition payment_rows :: "db \<Rightarrow> db \<Rightarrow> bool" where
  "payment_rows d d' \<longleftrightarrow> list_all2 (\<lambda>r r'. r' = r \<or> payment_step r r') (d_reservations d) (d_reservations d')"

lemma payment_rows_same [simp]: "d_reservations d' = d_reservations d \<Longrightarrow> payment_rows d d'"
  by (simp add: payment_rows_def list.rel_refl)

lemma payment_rows_frame [simp]:
  "payment_rows d (d_mails_update f e) = payment_rows d e"
  "payment_rows d (d_audit_update g e) = payment_rows d e"
  "payment_rows d (d_stripeCalls_update h e) = payment_rows d e"
  "payment_rows d (d_stripeEvents_update k e) = payment_rows d e"
  "payment_rows d (d_refunds_update l e) = payment_rows d e"
  "payment_rows d (enqueued ctx n i x y z e) = payment_rows d e"
  by (simp_all add: payment_rows_def)

lemma payment_rows_update:
  assumes "keyed r_id (d_reservations d)" "find_reservation d i = Some r" "payment_step r (stamped now f r)"
    and "d_reservations e = d_reservations d"
  shows "payment_rows d (d_reservations_update (update_row r_id i (stamped now f)) e)"
proof -
  have "payment_step x (stamped now f x)" if "x \<in> set (d_reservations d)" "r_id x = i" for x
    using reservations.find_keyed [OF assms(1) that] assms(2,3) by (simp add: find_reservation_def)
  then show ?thesis
    using assms(4) by (auto simp: payment_rows_def update_row_def list_all2_map2 list_all2_same)
qed

lemmas payment_changes = pending_deposit_def set_deposit_def held_deposit_def paid_rental_def Let_def

lemma uncaptured_intent_Inr:
  "uncaptured_intent msg r = Inr x \<longleftrightarrow> r_depositHoldStatus r = DEP_UNCAPTURED \<and> r_stripeDepositPaymentIntentId r = Some x \<and> x \<noteq> []"
  by (auto simp: uncaptured_intent_def truthy_iff)

lemma check_deposit_checkout_Inr:
  "check_deposit_checkout r = Inr u \<longleftrightarrow> r_status r \<noteq> CANCELLED \<and> r_depositHoldStatus r \<notin> {DEP_UNCAPTURED, DEP_CAPTURED}"
  by (auto simp: check_deposit_checkout_def)

lemma wpre_attempt [wp]:
  "wpre (attempt call answer) Q E d =
     (let d' = d_stripeCalls_update (\<lambda>cs. cs @ [call]) d in Q (answer (d_stripeCalls d')) d')"
  by (simp add: attempt_def wp Let_def)

lemma calls_frame [simp]:
  "find_reservation (d_stripeCalls_update f d) = find_reservation d"
  "find_reservation (d_stripeEvents_update g d) = find_reservation d"
  by (simp_all add: fun_eq_iff find_reservation_def)

lemma payment_step_intros:
  "payment_step r (stamped now (r_stripeCheckoutSessionId_update (\<lambda>_. sess)) r)"
  "r_depositHoldStatus r \<notin> {DEP_UNCAPTURED, DEP_CAPTURED} \<Longrightarrow> payment_step r (stamped now (pending_deposit sid a) r)"
  "r_depositHoldStatus r = DEP_UNCAPTURED \<Longrightarrow> s \<in> {DEP_CAPTURED, DEP_CANCELED, DEP_FAILED} \<Longrightarrow>
     payment_step r (stamped now (set_deposit s) r)"
  "intent \<noteq> [] \<Longrightarrow> payment_step r (stamped now (held_deposit intent tot) r)"
  "r_paidAt r = None \<Longrightarrow> payment_step r (stamped now (paid_rental t sid) r)"
  by (auto simp: payment_step_def payment_changes stamped_def booking_slot_def deposit_step_to)

text \<open>Every handler, as a request.\<close>

datatype payment_request =
    PublicCheckout string string
  | DeskCheckout jwt_user string
  | DepositCheckout jwt_user string "int option"
  | CaptureRequest jwt_user string "int option"
  | ReleaseRequest jwt_user string
  | RefundRequest jwt_user string bool string refund_body
  | WebhookRequest string "string option" "string option"

fun serve_payment ::
  "stripe_api \<Rightarrow> (time \<Rightarrow> string \<Rightarrow> string \<Rightarrow> string \<Rightarrow> string + stripe_event) \<Rightarrow> ctx \<Rightarrow> payment_request \<Rightarrow> unit dbprog" where
  "serve_payment api construct ctx (PublicCheckout i email) = andDo (createPublicRentalCheckoutSession api ctx i email) (ret ())"
| "serve_payment api construct ctx (DeskCheckout user i) = andDo (createCheckoutSession api ctx user i) (ret ())"
| "serve_payment api construct ctx (DepositCheckout user i a) = andDo (createDepositCheckoutSession api ctx user i a) (ret ())"
| "serve_payment api construct ctx (CaptureRequest user i a) = andDo (captureDeposit api ctx user i a) (ret ())"
| "serve_payment api construct ctx (ReleaseRequest user i) = andDo (cancelDepositHold api ctx user i) (ret ())"
| "serve_payment api construct ctx (RefundRequest user n down i b) = andDo (createRefund api ctx user n down i b) (ret ())"
| "serve_payment api construct ctx (WebhookRequest n body sig) = andDo (handleStripeWebhook construct ctx n body sig) (ret ())"

lemma rental_checkout_rows:
  assumes "keyed r_id (d_reservations d)" "find_reservation d (r_id r) = Some r"
    and "\<And>x e. payment_rows d e \<Longrightarrow> Q x e" "\<And>x e. payment_rows d e \<Longrightarrow> E x e"
  shows "wpre (createRentalStripeCheckoutSession api now r) Q E d"
  unfolding createRentalStripeCheckoutSession_def
  using assms(1,2) by (auto simp: wp Let_def intro!: assms(3,4) payment_rows_update payment_step_intros)

lemma public_checkout_rows:
  assumes "keyed r_id (d_reservations d)"
  shows "keeps (payment_rows d) (createPublicRentalCheckoutSession api ctx i email) d"
  unfolding keeps_def createPublicRentalCheckoutSession_def
  using assms find_reservation_id
  by (auto simp: wp queueRentalCheckoutLinkEmail_def intro!: rental_checkout_rows)

lemma desk_checkout_rows:
  assumes "keyed r_id (d_reservations d)"
  shows "keeps (payment_rows d) (createCheckoutSession api ctx user i) d"
  unfolding keeps_def createCheckoutSession_def
  using assms find_reservation_id
  by (auto simp: wp queueRentalCheckoutLinkEmail_def getScoped_Inr intro!: rental_checkout_rows)

lemma deposit_checkout_rows:
  assumes "keyed r_id (d_reservations d)"
  shows "keeps (payment_rows d) (createDepositCheckoutSession api ctx user i a) d"
  unfolding keeps_def createDepositCheckoutSession_def
  using assms find_reservation_id
  by (auto simp: wp Let_def queueDepositLinkEmail_def getScoped_Inr check_deposit_checkout_Inr
      intro!: payment_rows_update payment_step_intros)

lemma capture_requests_rows:
  assumes "\<And>x f. Q x (d_stripeCalls_update f d)"
  shows "wpre (capture_requests api intent amount maxCap) Q E d"
proof -
  have twice: "d_stripeCalls_update f (d_stripeCalls_update g s) = d_stripeCalls_update (f \<circ> g) s" for f g and s :: db
    by (cases s) (simp add: o_def)
  show ?thesis
    by (auto simp: capture_requests_def wp Let_def twice assms split: sum.split)
qed

lemma capture_rows:
  assumes "keyed r_id (d_reservations d)"
  shows "keeps (payment_rows d) (captureDeposit api ctx user i a) d"
  unfolding keeps_def captureDeposit_def
  using assms find_reservation_id
  by (auto simp: wp getScoped_Inr uncaptured_intent_Inr split: sum.split
      intro!: capture_requests_rows payment_rows_update payment_step_intros)

lemma release_rows:
  assumes "keyed r_id (d_reservations d)"
  shows "keeps (payment_rows d) (cancelDepositHold api ctx user i) d"
  unfolding keeps_def cancelDepositHold_def
  using assms find_reservation_id
  by (auto simp: wp Let_def getScoped_Inr uncaptured_intent_Inr split: sum.split
      intro!: payment_rows_update payment_step_intros)

lemma wpre_ledger [wp]:
  assumes "Q () d" "\<And>f. Q () (d_refunds_update f d)"
  shows "wpre (persistRefundLedgerAfterStripe n down now user r b x) Q E d"
  using assms by (auto simp: persistRefundLedgerAfterStripe_def insert_ledger_def wp)

lemma refund_rows: "keeps (payment_rows d) (createRefund api ctx user n down i b) d"
  unfolding keeps_def createRefund_def
  by (auto simp: wp Let_def logStripeRefundAudit_def intro!: wpre_ledger split: if_splits)

lemma wpre_mail_if [wp]:
  assumes "Q () d" "\<And>f. Q () (d_mails_update f d)"
  shows "wpre (mail_if ctx kind rid cond) Q E d"
  using assms by (auto simp: mail_if_def wp send_mail_def)

lemma deposit_event_rows:
  assumes "keyed r_id (d_reservations d)"
  shows "keeps (payment_rows d) (apply_deposit_event ctx ev rid) d"
  unfolding keeps_def apply_deposit_event_def applyDepositCheckoutCompleted_def queueDepositHoldCustomerEmail_def record_event_def
  using assms find_reservation_id
  by (auto simp: wp ignores_deposit_def truthy_iff intro!: wpre_mail_if payment_rows_update payment_step_intros)

lemma rental_event_rows:
  assumes "keyed r_id (d_reservations d)"
  shows "keeps (payment_rows d) (apply_rental_event ctx n ev rid) d"
  unfolding keeps_def apply_rental_event_def applyCheckoutSessionCompleted_def queueRentalPaidCustomerEmail_def record_event_def
  using assms find_reservation_id
  by (auto simp: wp split: option.split intro!: wpre_mail_if payment_rows_update payment_step_intros)

lemma webhook_rows:
  assumes "keyed r_id (d_reservations d)"
  shows "keeps (payment_rows d) (handleStripeWebhook construct ctx n body sig) d"
  using deposit_event_rows [OF assms] rental_event_rows [OF assms]
  by (auto simp: keeps_def handleStripeWebhook_def apply_event_def wp Let_def)

lemmas payment_handler_rows =
  public_checkout_rows desk_checkout_rows deposit_checkout_rows capture_rows release_rows refund_rows webhook_rows

lemma serve_payment_rows:
  assumes "keyed r_id (d_reservations d)"
  shows "keeps (payment_rows d) (serve_payment api construct ctx req) d"
  using assms by (cases req) (auto intro!: keeps_andDo_ret payment_handler_rows)

section \<open>Properties\<close>

text \<open>
  C28: Payments refine the deposit machine: whatever request the payment service gets, and whatever
  Stripe answers, every booking is left as it is or moves by one step: the deposit only along the
  machine, the status only from open to confirmed together with the payment, a recorded payment time is
  never changed, and the vehicle and the window stay.
\<close>

theorem payments_refine_deposit_machine:
  assumes "keyed r_id (d_reservations d)"
  shows "list_all2 (\<lambda>r r'. r' = r \<or> payment_step r r') (d_reservations d)
           (d_reservations (snd (serve_payment api construct ctx req d)))"
  using serve_payment_rows [OF assms] by (simp add: keeps_run payment_rows_def)

definition demo_stripe :: stripe_api where
  "demo_stripe = \<lparr>sa_enabled = True, sa_createSession = (\<lambda>_. Inr (''cs_1'', Some ''https://pay'')),
     sa_capturable = (\<lambda>_ _. Inr (Some 20000)), sa_capture = (\<lambda>_. Inr ()), sa_cancel = (\<lambda>_. Inr ()),
     sa_sessionIntent = (\<lambda>_. Inr (Some ''pi_1'')),
     sa_refund = (\<lambda>_. Inr \<lparr>sx_id = ''re_1'', sx_amount = 100, sx_currency = Some ''eur''\<rparr>)\<rparr>"

definition demo_session :: "string \<Rightarrow> session_payload" where
  "demo_session kind = \<lparr>sp_id = ''cs_1'', sp_status = Some ''complete'', sp_payment_status = Some ''paid'',
     sp_amount_total = Some 20000, sp_reservationId = Some ''r1'', sp_checkoutKind = Some kind,
     sp_payment_intent = Some ''pi_1''\<rparr>"

definition demo_event :: "string \<Rightarrow> string \<Rightarrow> stripe_event" where
  "demo_event i kind = \<lparr>ev_id = i, ev_type = ''checkout.session.completed'', ev_session = demo_session kind\<rparr>"

definition demo_construct :: "time \<Rightarrow> string \<Rightarrow> string \<Rightarrow> string \<Rightarrow> string + stripe_event" where
  "demo_construct now body sig secret = Inr (demo_event body ''DEPOSIT'')"

theorem payments_refine_deposit_machine_witness:
  "map r_depositHoldStatus (d_reservations
     (snd (serve_payment demo_stripe demo_construct demo_ctx (DepositCheckout demo_admin ''r1'' None) demo_db))) = [DEP_PENDING] \<and>
   list_all2 (\<lambda>r r'. r' = r \<or> payment_step r r') (d_reservations demo_db)
     (d_reservations (snd (serve_payment demo_stripe demo_construct demo_ctx (DepositCheckout demo_admin ''r1'' None) demo_db)))"
proof
  show "map r_depositHoldStatus (d_reservations
     (snd (serve_payment demo_stripe demo_construct demo_ctx (DepositCheckout demo_admin ''r1'' None) demo_db))) = [DEP_PENDING]"
    by code_simp
  have "keyed r_id (d_reservations demo_db)" by code_simp
  then show "list_all2 (\<lambda>r r'. r' = r \<or> payment_step r r') (d_reservations demo_db)
     (d_reservations (snd (serve_payment demo_stripe demo_construct demo_ctx (DepositCheckout demo_admin ''r1'' None) demo_db)))"
    by (rule payments_refine_deposit_machine)
qed

text \<open>What a payment leaves of a booking is all the calendar depends on.\<close>

lemma bookings_ok_image:
  assumes "map (\<lambda>r. (r_id r, booking_slot r, holds r)) (d_reservations d') =
           map (\<lambda>r. (r_id r, booking_slot r, holds r)) (d_reservations d)"
  shows "bookings_ok d' = bookings_ok d"
proof -
  define sig where "sig \<equiv> \<lambda>r. (r_id r, booking_slot r, holds r)"
  have ids: "map r_id rs = map fst (map sig rs)" for rs
    by (simp add: sig_def o_def)
  have slots: "taken holds booking_slot rs = map (fst \<circ> snd) (filter (snd \<circ> snd) (map sig rs))" for rs
    by (induction rs) (auto simp: sig_def)
  have order: "list_all (\<lambda>r. r_pickupAt r < r_returnAt r) rs = list_all (\<lambda>(i, (v, a, b), h). a < b) (map sig rs)" for rs
    by (induction rs) (auto simp: sig_def booking_slot_def)
  show ?thesis
    using assms by (simp only: bookings_ok_def no_double_booking_def keyed_def ids slots order flip: sig_def)
qed

lemma payment_rows_bookings:
  assumes "bookings_ok d" "payment_rows d d'"
  shows "bookings_ok d'"
proof -
  have active: "active_status (paid_status s) = active_status s" for s
    by (cases s) (auto simp: paid_status_def active_status_def reservationNonBlockingStatusValues_def)
  have "map (\<lambda>r. (r_id r, booking_slot r, holds r)) rs' = map (\<lambda>r. (r_id r, booking_slot r, holds r)) rs"
    if "list_all2 (\<lambda>r r'. r' = r \<or> payment_step r r') rs rs'" for rs rs'
    using that by (induction rule: list_all2_induct) (auto simp: payment_step_def holds_def active)
  then show ?thesis
    using assms bookings_ok_image [of d' d] by (simp add: payment_rows_def)
qed

lemma serve_payment_bookings:
  assumes "bookings_ok d"
  shows "keeps bookings_ok (serve_payment api construct ctx req) d"
proof -
  have "keyed r_id (d_reservations d)" using assms by (simp add: bookings_ok_def)
  from serve_payment_rows [OF this] show ?thesis
    using assms payment_rows_bookings by (auto simp: keeps_run)
qed

lemma seen_event_mono: "set (d_stripeEvents d) \<subseteq> set (d_stripeEvents d') \<Longrightarrow> seen_event d i \<Longrightarrow> seen_event d' i"
  by (auto simp: seen_event_def list_ex_iff)

lemma apply_event_seen:
  "wpre (apply_event ctx n ev) (\<lambda>out d'. out \<in> {Paid, DepositHeld} \<longrightarrow>
      ev_type ev \<in> {''checkout.session.completed'', ''checkout.session.async_payment_succeeded''} \<and>
      sp_status (ev_session ev) = Some ''complete'' \<and> truthy (sp_reservationId (ev_session ev)) \<and>
      (or_else (sp_checkoutKind (ev_session ev)) ''RENTAL'' = ''DEPOSIT'' \<or>
       ev_type ev = ''checkout.session.async_payment_succeeded'' \<or> sp_payment_status (ev_session ev) = Some ''paid'') \<and>
      seen_event d' (ev_id ev)) (\<lambda>_ _. True) d"
  by (auto simp: apply_event_def apply_deposit_event_def apply_rental_event_def Let_def wp record_event_def seen_event_def
      applyDepositCheckoutCompleted_def applyCheckoutSessionCompleted_def queueDepositHoldCustomerEmail_def
      queueRentalPaidCustomerEmail_def enqueued_frame split: option.split intro!: wpre_mail_if)

lemma apply_event_duplicate:
  assumes "seen_event d (ev_id ev)"
    and "ev_type ev \<in> {''checkout.session.completed'', ''checkout.session.async_payment_succeeded''}"
    and "sp_status (ev_session ev) = Some ''complete''" "truthy (sp_reservationId (ev_session ev))"
    and "or_else (sp_checkoutKind (ev_session ev)) ''RENTAL'' = ''DEPOSIT'' \<or>
       ev_type ev = ''checkout.session.async_payment_succeeded'' \<or> sp_payment_status (ev_session ev) = Some ''paid''"
  shows "apply_event ctx n ev d = (Inr Duplicate, d)"
proof -
  have "applyDepositCheckoutCompleted now ev rid d = (Inr Duplicate, d)"
    "applyCheckoutSessionCompleted now ev rid d = (Inr (Duplicate, None), d)" for now rid
    using assms(1) by (simp_all add: applyDepositCheckoutCompleted_def applyCheckoutSessionCompleted_def transaction_def bnd_def gets_def)
  then show ?thesis
    using assms(2-) by (auto simp: apply_event_def apply_deposit_event_def apply_rental_event_def Let_def)
qed

lemma apply_event_again:
  assumes "seen_event d (ev_id ev)"
  shows "apply_event ctx n ev d \<in> {(Inr Duplicate, d), (Inr Ignored, d)}"
proof -
  have "applyDepositCheckoutCompleted now ev rid d = (Inr Duplicate, d)"
    "applyCheckoutSessionCompleted now ev rid d = (Inr (Duplicate, None), d)" for now rid
    using assms by (simp_all add: applyDepositCheckoutCompleted_def applyCheckoutSessionCompleted_def transaction_def bnd_def gets_def)
  then show ?thesis
    by (simp add: apply_event_def apply_deposit_event_def apply_rental_event_def Let_def)
qed

text \<open>The event of a delivery that the signature check lets through.\<close>

definition delivered_event ::
  "(time \<Rightarrow> string \<Rightarrow> string \<Rightarrow> string \<Rightarrow> string + stripe_event) \<Rightarrow> ctx \<Rightarrow> string option \<Rightarrow> string option \<Rightarrow> stripe_event option" where
  "delivered_event construct ctx body sig =
     (let secret = c_env ctx ''STRIPE_WEBHOOK_SECRET''
      in if truthy secret \<and> body \<noteq> None \<and> truthy sig
         then (case construct (c_now ctx) (the body) (the sig) (the secret) of Inl _ \<Rightarrow> None | Inr ev \<Rightarrow> Some ev) else None)"

lemma webhook_accepted:
  "delivered_event construct ctx body sig = Some ev \<Longrightarrow> handleStripeWebhook construct ctx n body sig d = apply_event ctx n ev d"
  by (auto simp: delivered_event_def handleStripeWebhook_def Let_def raise_def split: if_splits sum.splits)

lemma webhook_refused:
  "delivered_event construct ctx body sig = None \<Longrightarrow> \<exists>e. handleStripeWebhook construct ctx n body sig d = (Inl e, d)"
  by (auto simp: delivered_event_def handleStripeWebhook_def Let_def bnd_def andDo_def asks_def ensure_def raise_def
      split: if_splits sum.splits)

text \<open>
  C29: A Stripe event counts once: after a delivery of it that recorded a payment or placed a hold, no later
  delivery that carries its identifier, whatever its body, its signature, its moment, and whatever happened in
  between, records or places anything: it changes nothing, and when its signature is accepted and it is
  the same event the answer is that of a duplicate. The table of the processed events is taken to keep its rows,
  which nothing in the repository removes.
\<close>

theorem stripe_event_counts_once:
  assumes "delivered_event construct ctx body sig = Some ev" "handleStripeWebhook construct ctx n body sig d = (Inr out, d')"
    and "out \<in> {Paid, DepositHeld}" "set (d_stripeEvents d') \<subseteq> set (d_stripeEvents later)"
    and "map_option ev_id (delivered_event construct ctx2 body2 sig2) \<in> {None, Some (ev_id ev)}"
  shows "\<exists>answer. handleStripeWebhook construct ctx2 n2 body2 sig2 later = (answer, later) \<and> answer \<notin> {Inr Paid, Inr DepositHeld} \<and>
    (delivered_event construct ctx2 body2 sig2 = Some ev \<longrightarrow> answer = Inr Duplicate)"
proof -
  have first: "apply_event ctx n ev d = (Inr out, d')" using webhook_accepted assms(1,2) by simp
  note seen = wpre_success [OF apply_event_seen first]
  have later: "seen_event later (ev_id ev)" using seen assms(3) seen_event_mono [OF assms(4)] by blast
  show ?thesis
  proof (cases "delivered_event construct ctx2 body2 sig2")
    case None
    then obtain e where "handleStripeWebhook construct ctx2 n2 body2 sig2 later = (Inl e, later)" using webhook_refused by blast
    then show ?thesis using None by simp
  next
    case (Some ev2)
    then have run: "handleStripeWebhook construct ctx2 n2 body2 sig2 later = apply_event ctx2 n2 ev2 later"
      by (rule webhook_accepted)
    have same: "apply_event ctx2 n2 ev later = (Inr Duplicate, later)"
      using seen assms(3) later by (intro apply_event_duplicate) blast+
    have "ev_id ev2 = ev_id ev" using assms(5) Some by simp
    then show ?thesis using apply_event_again [of later ev2 ctx2 n2] later run Some same by auto
  qed
qed

definition demo_stripe_ctx :: ctx where
  "demo_stripe_ctx = demo_ctx\<lparr>c_env := demo_env(''STRIPE_WEBHOOK_SECRET'' := Some ''whsec'')\<rparr>"

text \<open>Signatures name the moment they were made at; they are good for 300 seconds, as the library has it.\<close>

definition demo_construct_rental :: "time \<Rightarrow> string \<Rightarrow> string \<Rightarrow> string \<Rightarrow> string + stripe_event" where
  "demo_construct_rental now body sig secret =
     (if (sig = ''first'' \<longrightarrow> now \<le> demo_now + 300000) then Inr (demo_event body ''RENTAL'') else Inl ''Timestamp outside the tolerance zone'')"

text \<open>The event is sent again a day later, signed anew.\<close>

theorem stripe_event_counts_once_witness:
  "let run = handleStripeWebhook demo_construct_rental demo_stripe_ctx ''w'' (Some ''evt_1'') (Some ''first'') demo_db
   in fst run = Inr Paid \<and>
      handleStripeWebhook demo_construct_rental (demo_stripe_ctx\<lparr>c_now := demo_now + 86400000\<rparr>) ''w2'' (Some ''evt_1'') (Some ''again'')
        (snd run) = (Inr Duplicate, snd run)"
proof -
  let ?late = "demo_stripe_ctx\<lparr>c_now := demo_now + 86400000\<rparr>"
  define run where
    "run = handleStripeWebhook demo_construct_rental demo_stripe_ctx ''w'' (Some ''evt_1'') (Some ''first'') demo_db"
  have paid: "fst run = Inr Paid" unfolding run_def by code_simp
  then have r: "handleStripeWebhook demo_construct_rental demo_stripe_ctx ''w'' (Some ''evt_1'') (Some ''first'') demo_db =
      (Inr Paid, snd run)" by (metis prod.collapse run_def)
  have first: "delivered_event demo_construct_rental demo_stripe_ctx (Some ''evt_1'') (Some ''first'') = Some (demo_event ''evt_1'' ''RENTAL'')"
    and again: "delivered_event demo_construct_rental ?late (Some ''evt_1'') (Some ''again'') = Some (demo_event ''evt_1'' ''RENTAL'')"
    by code_simp+
  have "\<exists>answer. handleStripeWebhook demo_construct_rental ?late ''w2'' (Some ''evt_1'') (Some ''again'') (snd run) = (answer, snd run) \<and>
      answer \<notin> {Inr Paid, Inr DepositHeld} \<and>
      (delivered_event demo_construct_rental ?late (Some ''evt_1'') (Some ''again'') = Some (demo_event ''evt_1'' ''RENTAL'') \<longrightarrow>
       answer = Inr Duplicate)"
    by (rule stripe_event_counts_once [OF first r]) (simp_all add: again)
  then show ?thesis unfolding Let_def using paid again by (auto simp: run_def)
qed

definition within_hold :: "stripe_api \<Rightarrow> db \<Rightarrow> string \<Rightarrow> stripe_call list \<Rightarrow> bool" where
  "within_hold api d intent calls \<longleftrightarrow>
     (\<exists>hold. sa_capturable api (d_stripeCalls d) intent = Inr (Some hold) \<and> hold \<ge> 1 \<and>
        (calls = [CaptureIntent intent None] \<or>
         (\<exists>a. 1 \<le> a \<and> a < hold \<and>
            calls \<in> {[CaptureIntent intent (Some a)], [CaptureIntent intent (Some a), CancelIntent intent]})))"

definition charges_held :: "stripe_api \<Rightarrow> db \<Rightarrow> string \<Rightarrow> db \<Rightarrow> bool" where
  "charges_held api d i d' \<longleftrightarrow>
     d_stripeCalls d' = d_stripeCalls d \<or>
     (\<exists>r intent calls. find_reservation d i = Some r \<and> r_depositHoldStatus r = DEP_UNCAPTURED \<and>
        r_stripeDepositPaymentIntentId r = Some intent \<and> within_hold api d intent calls \<and>
        d_stripeCalls d' = d_stripeCalls d @ calls)"

lemma capturable_Inr:
  "capturable api intent d = Inr a \<Longrightarrow> a \<ge> 1 \<Longrightarrow> sa_capturable api (d_stripeCalls d) intent = Inr (Some a)"
  by (auto simp: capturable_def split: sum.splits option.splits)

lemma raise_Inr: "raise err x = Inr y \<longleftrightarrow> x = Inr y"
  by (auto simp: raise_def split: sum.splits)

lemma capture_amount_Inr: "capture_amount m q = Inr a \<longleftrightarrow> m \<ge> 1 \<and> 1 \<le> a \<and> a \<le> m \<and> a = or_else q m"
  by (auto simp: capture_amount_def Let_def)

lemma capture_requests_within:
  assumes "capturable api intent d = Inr m" "m \<ge> 1" "1 \<le> a" "a \<le> m"
  shows "wpre (capture_requests api intent a m)
    (\<lambda>_ d'. \<exists>calls. within_hold api d intent calls \<and> d_stripeCalls d' = d_stripeCalls d @ calls) E d"
proof -
  have cap: "sa_capturable api (d_stripeCalls d) intent = Inr (Some m)"
    using assms by (simp add: capturable_Inr)
  have full: "within_hold api d intent [CaptureIntent intent None]"
    using cap assms(2) by (simp add: within_hold_def)
  have part: "within_hold api d intent [CaptureIntent intent (Some a)]"
    "within_hold api d intent [CaptureIntent intent (Some a), CancelIntent intent]" if "a \<noteq> m"
    using cap assms that unfolding within_hold_def by fastforce+
  show ?thesis
    using full part by (auto simp: capture_requests_def wp Let_def split: sum.split)
qed

text \<open>
  C31: Capturing stays within the hold: a capture request charges a booking only when its deposit is held
  and not captured, it asks Stripe to capture the recorded intent at most once, for all of it or for
  a positive part strictly below what Stripe reports as capturable, and nothing else than the release of the
  rest follows.
\<close>

theorem capture_stays_within_hold:
  "charges_held api d i (snd (captureDeposit api ctx user i requested d))"
proof -
  have same: "charges_held api d i d" by (simp add: charges_held_def)
  have charged: "charges_held api d i d'"
    if "getScopedReservationRecord d (c_env ctx) user i = Inr r" "uncaptured_intent msg r = Inr intent"
      "\<exists>calls. within_hold api d intent calls \<and> d_stripeCalls d' = d_stripeCalls d @ calls" for r msg intent d'
    using that by (auto simp: charges_held_def getScoped_Inr uncaptured_intent_Inr)
  have "keeps (charges_held api d i) (captureDeposit api ctx user i requested) d"
    unfolding keeps_def captureDeposit_def
    apply (simp add: wp raise_Inr capture_amount_Inr)
    apply (intro conjI allI impI; (rule same)?)
    apply (elim conjE)
    apply (rule wpre_mono, rule capture_requests_within, assumption+)
    by (auto simp: wp intro!: charged split: sum.splits)
  then show ?thesis by (simp add: keeps_run)
qed




lemma ledger_row_refund [simp]: "rf_stripeRefundId (ledger_row n now user r b x) = sx_id x"
  by (simp add: ledger_row_def)



text \<open>When the insert fails the refund is made and answered as such, and the ledger does not have it.\<close>

lemma refund_missing_from_ledger:
  "let run = createRefund demo_stripe demo_ctx demo_admin ''rf'' True ''r1'' \<lparr>rb_target = REFUND_DEPOSIT, rb_amountCents = Some 100\<rparr>
         (demo_db\<lparr>d_reservations := [demo_reservation\<lparr>r_depositHoldStatus := DEP_CAPTURED,
            r_stripeDepositPaymentIntentId := Some ''pi_1''\<rparr>]\<rparr>)
   in isInr (fst run) \<and> d_stripeCalls (snd run) = [RefundIntent ''pi_1'' (Some 100)] \<and> d_refunds (snd run) = []"
  by code_simp

text \<open>
  A paid rental session is recorded: the first delivery of a completed rental session marks the booking
  as paid at this moment with this session, confirms it when it was a quote or waiting for
  payment, and leaves every other booking as it was.
\<close>

theorem paid_session_confirms_booking:
  assumes "apply_rental_event ctx n ev rid d = (Inr out, d')"
    and "find_reservation d rid = Some r" "r_paidAt r = None" "\<not> seen_event d (ev_id ev)"
  shows "out = Paid \<and>
    d_reservations d' = update_row r_id rid
      (\<lambda>x. x\<lparr>r_paidAt := Some (c_now ctx), r_stripeCheckoutSessionId := Some (sp_id (ev_session ev)),
          r_status := (if r_status x \<in> {QUOTE, PENDING_PAYMENT} then CONFIRMED else r_status x),
          r_updatedAt := c_now ctx\<rparr>) (d_reservations d)"
proof -
  have f: "stamped now (paid_rental now sid) = (\<lambda>x. x\<lparr>r_paidAt := Some now, r_stripeCheckoutSessionId := Some sid,
      r_status := (if r_status x \<in> {QUOTE, PENDING_PAYMENT} then CONFIRMED else r_status x), r_updatedAt := now\<rparr>)" for now sid
    by (simp add: fun_eq_iff stamped_def paid_rental_def paid_status_def)
  have "wpre (apply_rental_event ctx n ev rid)
     (\<lambda>out d'. out = Paid \<and> d_reservations d' =
        update_row r_id rid (stamped (c_now ctx) (paid_rental (c_now ctx) (sp_id (ev_session ev)))) (d_reservations d)) (\<lambda>_ _. True) d"
    unfolding apply_rental_event_def applyCheckoutSessionCompleted_def queueRentalPaidCustomerEmail_def record_event_def
    using assms(2-) by (auto simp: wp split: option.split intro!: wpre_mail_if)
  from wpre_success [OF this assms(1)] show ?thesis by (simp only: f)
qed

theorem paid_session_confirms_booking_witness:
  "let d = demo_db\<lparr>d_reservations := [demo_reservation\<lparr>r_status := QUOTE\<rparr>]\<rparr>;
       d' = snd (apply_rental_event demo_ctx ''w'' (demo_event ''evt_1'' ''RENTAL'') ''r1'' d)
   in map r_status (d_reservations d') = [CONFIRMED] \<and> map r_paidAt (d_reservations d') = [Some demo_now]"
proof -
  define d where "d = demo_db\<lparr>d_reservations := [demo_reservation\<lparr>r_status := QUOTE\<rparr>]\<rparr>"
  define run where "run = apply_rental_event demo_ctx ''w'' (demo_event ''evt_1'' ''RENTAL'') ''r1'' d"
  have "isInr (fst run)" unfolding run_def d_def by code_simp
  then obtain out where out: "run = (Inr out, snd run)" using isInr_pair by blast
  have res: "d_reservations d = [demo_reservation\<lparr>r_status := QUOTE\<rparr>]" "r_id demo_reservation = ''r1''"
    "c_now demo_ctx = demo_now"
    unfolding d_def by (simp_all add: demo_reservation_def demo_ctx_def)
  have "find_reservation d ''r1'' = Some (demo_reservation\<lparr>r_status := QUOTE\<rparr>)"
    "r_paidAt (demo_reservation\<lparr>r_status := QUOTE\<rparr>) = None" "\<not> seen_event d (ev_id (demo_event ''evt_1'' ''RENTAL''))"
    unfolding d_def by code_simp+
  from paid_session_confirms_booking [OF out [unfolded run_def] this, folded run_def]
  have "map r_status (d_reservations (snd run)) = [CONFIRMED] \<and> map r_paidAt (d_reservations (snd run)) = [Some demo_now]"
    by (simp add: res update_row_def)
  then show ?thesis by (simp add: run_def d_def)
qed

section \<open>Where the deposit and the rental are not what the record says\<close>

text \<open>
  A captured deposit is set back to a placed hold by a second event of the same session (the
  asynchronous confirmation carries another event identifier), so that it can be captured again.
\<close>

definition held_reservation :: reservation where
  "held_reservation = demo_reservation\<lparr>r_stripeDepositCheckoutSessionId := Some ''cs_1'',
     r_stripeDepositPaymentIntentId := Some ''pi_1'', r_depositHoldCents := Some 20000,
     r_depositHoldStatus := DEP_UNCAPTURED\<rparr>"

lemma captured_deposit_held_again:
  "let captured = snd (captureDeposit demo_stripe demo_ctx demo_admin ''r1'' None
         (demo_db\<lparr>d_reservations := [held_reservation]\<rparr>));
       again = snd (apply_deposit_event demo_ctx (demo_event ''evt_2'' ''DEPOSIT'') ''r1'' captured)
   in map r_depositHoldStatus (d_reservations captured) = [DEP_CAPTURED] \<and>
      map r_depositHoldStatus (d_reservations again) = [DEP_UNCAPTURED]"
  by code_simp

text \<open>
  A part of a hold is captured, and the request for what remains of it fails: the deposit is recorded as
  failed although the money was taken, and a refund of it is refused.
\<close>

definition flaky_stripe :: stripe_api where
  "flaky_stripe = demo_stripe\<lparr>sa_capturable :=
     (\<lambda>calls _. if calls = [] then Inr (Some 20000) else Inl ''connection reset'')\<rparr>"

lemma captured_deposit_recorded_as_failed:
  "let run = captureDeposit flaky_stripe demo_ctx demo_admin ''r1'' (Some 5000)
         (demo_db\<lparr>d_reservations := [held_reservation]\<rparr>);
       refund = createRefund flaky_stripe demo_ctx demo_admin ''rf'' False ''r1''
         \<lparr>rb_target = REFUND_DEPOSIT, rb_amountCents = None\<rparr> (snd run)
   in d_stripeCalls (snd run) = [CaptureIntent ''pi_1'' (Some 5000)] \<and>
      map r_depositHoldStatus (d_reservations (snd run)) = [DEP_FAILED] \<and> \<not> isInr (fst refund)"
  by code_simp

text \<open>
  A payment of an earlier, cheaper checkout session counts as the payment of the booking: neither the
  session nor the amount is compared with the booking.
\<close>

lemma stale_session_pays_in_full:
  "let d = demo_db\<lparr>d_reservations := [demo_reservation\<lparr>r_totalCents := Some 50000,
         r_stripeCheckoutSessionId := Some ''cs_2''\<rparr>]\<rparr>;
       d' = snd (apply_rental_event demo_ctx ''w'' (demo_event ''evt_1'' ''RENTAL'') ''r1'' d)
   in sp_amount_total (demo_session ''RENTAL'') = Some 20000 \<and>
      map r_paidAt (d_reservations d') = [Some demo_now] \<and>
      map r_stripeCheckoutSessionId (d_reservations d') = [Some ''cs_1'']"
  by code_simp
end
