(* ===== verification/Booking_Safety.thy ===== *)
theory Booking_Safety
  imports Reservation_Update Reservation_Partner Reservation_Public Payments
begin

text \<open>
  The channels together: staff, partners, the public site and payments write to the same
  reservations. Every request is one step on the database, whatever its outcome; the calendar
  stays free of double bookings over any sequence of them.
\<close>

section \<open>The handlers keep the calendar\<close>

lemma check_booking_free:
  "check_booking d inp = Inr c \<Longrightarrow>
     nr_pickupAt inp < nr_returnAt inp \<and>
     assertVehicleFree d (nr_vehicleId inp) (nr_pickupAt inp) (nr_returnAt inp) None = Inr ()"
  by (auto simp: check_booking_def andThen_Inr assertTimeOrder_def)

lemma bookings_ok_new:
  assumes "bookings_ok d" "check_booking d inp = Inr c" "find_reservation d newId = None"
  shows "bookings_ok (d_reservations_update (\<lambda>rs. rs @ [new_reservation newId now inp src key contact tot]) d)"
  using assms check_booking_free [OF assms(2)] by (intro bookings_ok_insert) simp_all

lemma bookings_ok_tables [simp]:
  "bookings_ok (d_idempotencies_update f d) = bookings_ok d"
  "bookings_ok (enqueued ctx n k i e p d) = bookings_ok d"
  by (rule bookings_ok_cong, simp)+

lemma reservation_create_keeps:
  assumes "bookings_ok d"
  shows "keeps bookings_ok (reservation_create ctx user actor newId inp) d"
  unfolding keeps_def reservation_create_def
  using assms by (auto simp: wp intro!: bookings_ok_new)

lemma removeDraft_keeps:
  assumes "bookings_ok d"
  shows "keeps bookings_ok (removeDraft ctx user i) d"
proof -
  have "bookings_ok (delete_reservation_rows i d) = bookings_ok (d_reservations_update (delete_row r_id i) d)"
    by (rule bookings_ok_cong) (simp add: delete_reservation_rows_def)
  then show ?thesis using assms bookings_ok_delete by (simp add: keeps_def removeDraft_def wp)
qed

lemma summary_mail_keeps:
  assumes "bookings_ok d"
  shows "keeps bookings_ok (sendBookingSummaryEmail sha256 ctx user i) d"
  using assms by (auto simp: keeps_def sendBookingSummaryEmail_def Let_def wp split: prod.split)

lemma wpre_conflict_any: "E e d \<Longrightarrow> (\<And>x. Q x d) \<Longrightarrow> (\<And>e. E e d) \<Longrightarrow> wpre (partner_conflict pc hashes e) Q E d"
  by (auto simp: partner_conflict_def wp)

lemma createForPartner_keeps:
  assumes "bookings_ok d"
  shows "keeps bookings_ok (createForPartner sha256 ctx pc newId deliveryId inp) d"
  unfolding keeps_def createForPartner_def partner_book_def
  using assms
  by (auto simp: wp wpre_partner_insert Let_def split: option.split intro!: bookings_ok_new wpre_conflict_any)

lemma cancelForPartner_keeps:
  assumes "bookings_ok d"
  shows "keeps bookings_ok (cancelForPartner ctx pc deliveryId i) d"
proof -
  have "bookings_ok (d_reservations_update (update_row r_id i (stamped now (r_status_update (\<lambda>_. CANCELLED)))) d)" for now
    by (rule bookings_ok_update_same [OF assms])
      (simp_all add: stamped_def booking_slot_def holds_def active_status_def reservationNonBlockingStatusValues_def)
  then show ?thesis
    unfolding keeps_def cancelForPartner_def using assms by (auto simp: wp)
qed


section \<open>Requests\<close>

text \<open>
  A request of any channel. What the runtime draws (row identifiers, tokens) and the context of the
  process at that moment come with it.
\<close>

datatype booking_request =
    StaffCreate ctx jwt_user string string create_reservation_input
  | StaffUpdate ctx jwt_user string string update_reservation_input
  | StaffDelete ctx jwt_user string
  | StaffSummaryMail ctx jwt_user string
  | PartnerCreate ctx partner_ctx string string create_reservation_input
  | PartnerCancel ctx partner_ctx string string
  | PublicQuote ctx string string string public_trip string
  | PublicBasket ctx "nat \<Rightarrow> string" "nat \<Rightarrow> string" string public_trip "string list"
  | PublicLink ctx string string
  | PaymentRequest ctx payment_request

text \<open>The libraries of the process: the hash, the keyed hash, Stripe and its signature check.\<close>

record libraries =
  lb_sha256 :: "string \<Rightarrow> string"
  lb_hmac :: "string \<Rightarrow> string \<Rightarrow> string"
  lb_stripe :: stripe_api
  lb_construct :: "time \<Rightarrow> string \<Rightarrow> string \<Rightarrow> string \<Rightarrow> string + stripe_event"

fun serve_booking :: "libraries \<Rightarrow> booking_request \<Rightarrow> unit dbprog" where
  "serve_booking lib (StaffCreate ctx user actor newId inp) = andDo (reservation_create ctx user actor newId inp) (ret ())"
| "serve_booking lib (StaffUpdate ctx user newId i inp) = andDo (reservation_update ctx user newId i inp) (ret ())"
| "serve_booking lib (StaffDelete ctx user i) = removeDraft ctx user i"
| "serve_booking lib (StaffSummaryMail ctx user i) = sendBookingSummaryEmail (lb_sha256 lib) ctx user i"
| "serve_booking lib (PartnerCreate ctx pc newId deliveryId inp) =
     andDo (createForPartner (lb_sha256 lib) ctx pc newId deliveryId inp) (ret ())"
| "serve_booking lib (PartnerCancel ctx pc deliveryId i) = andDo (cancelForPartner ctx pc deliveryId i) (ret ())"
| "serve_booking lib (PublicQuote ctx newId token customerId t classId) =
     andDo (createPublicQuote ctx newId token customerId t classId) (ret ())"
| "serve_booking lib (PublicBasket ctx ids tokens customerId t classIds) =
     andDo (createPublicQuoteBatch ctx ids tokens customerId t classIds) (ret ())"
| "serve_booking lib (PublicLink ctx i email) = requestPublicBookingViewLink (lb_hmac lib) ctx i email"
| "serve_booking lib (PaymentRequest ctx req) = serve_payment (lb_stripe lib) (lb_construct lib) ctx req"

text \<open>
  What a request must respect for the calendar: identifiers are not empty, and a closed booking is not
  brought back without its window being asked for again (see \<open>reactivation_double_books\<close>).
\<close>

fun respectful :: "db \<Rightarrow> booking_request \<Rightarrow> bool" where
  "respectful d (StaffUpdate ctx user newId i inp) \<longleftrightarrow> update_input_ok inp \<and> \<not> reactivates d i inp"
| "respectful d _ \<longleftrightarrow> True"

lemma link_request_keeps:
  assumes "bookings_ok d"
  shows "keeps bookings_ok (requestPublicBookingViewLink hmac ctx i email) d"
  using assms by (auto simp: keeps_def requestPublicBookingViewLink_def Let_def wp)

lemma serve_booking_keeps:
  assumes "bookings_ok d" "respectful d req"
  shows "bookings_ok (snd (serve_booking lib req d))"
proof -
  have "keeps bookings_ok (serve_booking lib req) d"
    using assms
    by (cases req)
      (auto intro!: keeps_andDo_ret reservation_create_keeps removeDraft_keeps summary_mail_keeps createForPartner_keeps
          cancelForPartner_keeps link_request_keeps serve_payment_bookings
          reservation_update_keeps [folded keeps_run] createPublicQuote_keeps [folded keeps_run]
          createPublicQuoteBatch_keeps [folded keeps_run])
  then show ?thesis by (simp only: keeps_run)
qed

section \<open>Any sequence of requests\<close>

lemma disjoint_taken_pair:
  assumes "disjoint_slots (taken live slot rows)" "a \<in> set rows" "b \<in> set rows" "a \<noteq> b" "live a" "live b"
  shows "\<not> clash (slot a) (slot b)"
  using assms
proof (induction rows)
  case (Cons r rs)
  have "slot x \<in> set (taken live slot rs)" if "x \<in> set rs" "live x" for x
    using that by (auto simp: set_taken)
  then show ?case
    using Cons clash_sym [of "slot a" "slot b"] by (auto simp del: clash.simps split: if_splits)
qed simp

inductive booking_run :: "libraries \<Rightarrow> db \<Rightarrow> db \<Rightarrow> bool" for lib where
  idle: "booking_run lib d d"
| serve: "booking_run lib d e \<Longrightarrow> respectful e req \<Longrightarrow> booking_run lib d (snd (serve_booking lib req e))"

lemma booking_run_keeps: "booking_run lib d e \<Longrightarrow> bookings_ok d \<Longrightarrow> bookings_ok e"
  by (induction rule: booking_run.induct) (auto intro: serve_booking_keeps)

text \<open>
  C1: No double bookings, as long as no staff change brings a closed booking back without naming its vehicle
  or window again (\<open>reactivates\<close>; such a change does double book): over any sequence of requests of the staff,
  the partners, the public site and the payment service, served one after the other, successful or not, at any
  instant every vehicle is held by at most one active reservation.
\<close>

theorem never_double_booked:
  assumes "booking_run lib d e" "bookings_ok d"
    and "r1 \<in> set (d_reservations e)" "r2 \<in> set (d_reservations e)" "r_id r1 \<noteq> r_id r2"
    and "active_status (r_status r1)" "active_status (r_status r2)"
    and "r_pickupAt r1 \<le> t" "t < r_returnAt r1" "r_pickupAt r2 \<le> t" "t < r_returnAt r2"
  shows "r_vehicleId r1 \<noteq> r_vehicleId r2"
proof
  assume same: "r_vehicleId r1 = r_vehicleId r2"
  have ok: "bookings_ok e" using booking_run_keeps assms(1,2) by blast
  have "\<not> clash (booking_slot r1) (booking_slot r2)"
    using disjoint_taken_pair [of holds booking_slot "d_reservations e" r1 r2] ok assms(3-7)
    by (auto simp: bookings_ok_def no_double_booking_def holds_def)
  moreover have "clash (booking_slot r1) (booking_slot r2)"
    using same assms(8-11) by (simp add: booking_slot_def halfOpenRangesOverlap_def)
  ultimately show False by blast
qed

definition demo_libraries :: libraries where
  "demo_libraries = \<lparr>lb_sha256 = id, lb_hmac = (\<lambda>k x. x), lb_stripe = demo_stripe, lb_construct = demo_construct\<rparr>"

definition demo_request :: booking_request where
  "demo_request = StaffCreate demo_ctx demo_admin ''admin'' ''r2''
     (demo_booking\<lparr>nr_vehicleId := ''v2'', nr_pickupAt := day_at 3, nr_returnAt := day_at 5\<rparr>)"

theorem never_double_booked_witness:
  "let e = snd (serve_booking demo_libraries demo_request demo_db)
   in map r_id (d_reservations e) = [''r1'', ''r2''] \<and>
      r_vehicleId (d_reservations e ! 0) \<noteq> r_vehicleId (d_reservations e ! 1)"
proof -
  define e where "e = snd (serve_booking demo_libraries demo_request demo_db)"
  have run: "booking_run demo_libraries demo_db e"
    unfolding e_def by (intro serve idle) (simp add: demo_request_def)
  have ok: "bookings_ok demo_db" by code_simp
  have ids: "map r_id (d_reservations e) = [''r1'', ''r2'']"
    and act: "map (active_status \<circ> r_status) (d_reservations e) = [True, True]"
    and times: "map r_pickupAt (d_reservations e) = [day_at 2, day_at 3]" "map r_returnAt (d_reservations e) = [day_at 4, day_at 5]"
    unfolding e_def by code_simp+
  obtain a b where ab: "d_reservations e = [a, b]" using ids by (auto simp: Cons_eq_map_conv map_eq_Cons_conv)
  have "r_vehicleId a \<noteq> r_vehicleId b"
    by (rule never_double_booked [OF run ok, of a b "day_at 3"]) (use ab ids act times in auto)
  then show ?thesis using ab ids unfolding Let_def by (fold e_def) simp
qed


section \<open>Tenants\<close>

text \<open>The requests a member of the staff can send, and on whose behalf.\<close>

fun staff_user :: "booking_request \<Rightarrow> (ctx \<times> jwt_user) option" where
  "staff_user (StaffCreate ctx user _ _ _) = Some (ctx, user)"
| "staff_user (StaffUpdate ctx user _ _ _) = Some (ctx, user)"
| "staff_user (StaffDelete ctx user _) = Some (ctx, user)"
| "staff_user (StaffSummaryMail ctx user _) = Some (ctx, user)"
| "staff_user (PaymentRequest ctx (DeskCheckout user _)) = Some (ctx, user)"
| "staff_user (PaymentRequest ctx (DepositCheckout user _ _)) = Some (ctx, user)"
| "staff_user (PaymentRequest ctx (CaptureRequest user _ _)) = Some (ctx, user)"
| "staff_user (PaymentRequest ctx (ReleaseRequest user _)) = Some (ctx, user)"
| "staff_user (PaymentRequest ctx (RefundRequest user _ _ _ _)) = Some (ctx, user)"
| "staff_user _ = None"

definition still :: "string \<Rightarrow> reservation \<Rightarrow> db \<Rightarrow> bool" where
  "still i r d \<longleftrightarrow> find_reservation d i = Some r"

lemma still_frame [simp]:
  "still i r (d_audit_update f d) = still i r d"
  "still i r (d_mails_update g d) = still i r d"
  "still i r (d_stripeCalls_update h d) = still i r d"
  "still i r (d_refunds_update k d) = still i r d"
  by (simp_all add: still_def find_reservation_def)

lemma still_update:
  assumes "still i r d" "j \<noteq> i" "\<And>x. r_id (f x) = r_id x"
  shows "still i r (d_reservations_update (update_row r_id j f) d)"
  using assms reservations.find_update [of f i j d] by (simp add: still_def find_reservation_def)

lemma still_insert: "still i r d \<Longrightarrow> still i r (d_reservations_update (\<lambda>rs. rs @ [x]) d)"
  by (simp add: still_def find_reservation_def tables)

lemma foreign_scoped:
  assumes "still i r d" "\<not> may_see_company env user (r_companyId r)" "getScopedReservationRecord d env user j = Inr x"
  shows "j \<noteq> i" "r_id x \<noteq> i"
  using assms find_reservation_id by (auto simp: still_def getScoped_Inr)

lemma stamped_ids [simp]:
  "r_id (stamped now (pending_deposit sid a) x) = r_id x"
  "r_id (stamped now (set_deposit s) x) = r_id x"
  "r_id (stamped now (r_stripeCheckoutSessionId_update f) x) = r_id x"
  by (simp_all add: stamped_def pending_deposit_def set_deposit_def)

lemma staff_payment_still:
  assumes "still i r d" "\<not> may_see_company (c_env ctx) user (r_companyId r)"
  shows "keeps (still i r) (createCheckoutSession api ctx user j) d"
    and "keeps (still i r) (createDepositCheckoutSession api ctx user j a) d"
    and "keeps (still i r) (captureDeposit api ctx user j a) d"
    and "keeps (still i r) (cancelDepositHold api ctx user j) d"
    and "keeps (still i r) (createRefund api ctx user n down j b) d"
  unfolding keeps_def createCheckoutSession_def createDepositCheckoutSession_def captureDeposit_def cancelDepositHold_def
    createRentalStripeCheckoutSession_def createRefund_def
  using assms
  by (auto simp: wp Let_def queueRentalCheckoutLinkEmail_def queueDepositLinkEmail_def logStripeRefundAudit_def
      split: sum.split
      intro!: wpre_ledger still_update capture_requests_rows dest: foreign_scoped [OF assms])

lemma staff_booking_still:
  assumes "still i r d" "\<not> may_see_company (c_env ctx) user (r_companyId r)"
  shows "keeps (still i r) (reservation_create ctx user actor newId inp) d"
    and "keeps (still i r) (removeDraft ctx user j) d"
    and "keeps (still i r) (sendBookingSummaryEmail sha256 ctx user j) d"
    and "keeps (still i r) (reservation_update ctx user newId j upd) d"
proof -
  show "keeps (still i r) (reservation_create ctx user actor newId inp) d"
    using assms by (auto simp: keeps_def reservation_create_def wp intro!: still_insert)
  have "still i r (delete_reservation_rows j d)" if "j \<noteq> i"
    using assms(1) that by (simp add: still_def find_reservation_def delete_reservation_rows_def tables)
  then show "keeps (still i r) (removeDraft ctx user j) d"
    using assms(1) foreign_scoped [OF assms] by (auto simp: keeps_def removeDraft_def wp)
  show "keeps (still i r) (sendBookingSummaryEmail sha256 ctx user j) d"
    using assms by (auto simp: keeps_def sendBookingSummaryEmail_def Let_def wp split: prod.split)
  have cong: "still i r s' = still i r s" if "d_reservations s' = d_reservations s" for s s'
    using that by (simp add: still_def find_reservation_def)
  consider (same) "d_reservations (snd (reservation_update ctx user newId j upd d)) = d_reservations d"
    | (row) current p where "update_plan d ctx user j upd = Inr (current, p)"
        "d_reservations (snd (reservation_update ctx user newId j upd d)) =
           update_row r_id j (update_row_fun ctx upd p) (d_reservations d)"
    using reservation_update_rows [of ctx user newId j upd d] by blast
  then show "keeps (still i r) (reservation_update ctx user newId j upd) d"
  proof cases
    case same
    then show ?thesis using assms(1) cong [OF same] by (simp add: keeps_run)
  next
    case row
    have "j \<noteq> i"
      using foreign_scoped [OF assms] row(1) by (auto simp: update_plan_def andThen_Inr)
    then have "still i r (d_reservations_update (update_row r_id j (update_row_fun ctx upd p)) d)"
      using update_row_fun_facts [OF row(1)] by (intro still_update [OF assms(1)]) auto
    then show ?thesis
      using cong [of "snd (reservation_update ctx user newId j upd d)"
          "d_reservations_update (update_row r_id j (update_row_fun ctx upd p)) d"] row(2) by (simp add: keeps_run)
  qed
qed

text \<open>
  C2: Tenants are isolated: whatever a member of the staff asks for on bookings and their payments, a booking of
  a company the user may not see is afterwards exactly what it was.
\<close>

theorem staff_stay_in_their_company:
  assumes "staff_user req = Some (ctx, user)" "find_reservation d i = Some r"
    and "\<not> may_see_company (c_env ctx) user (r_companyId r)"
  shows "find_reservation (snd (serve_booking lib req d)) i = Some r"
proof -
  have "still i r d" using assms(2) by (simp add: still_def)
  note facts = staff_booking_still [OF this] staff_payment_still [OF this]
  have "keeps (still i r) (serve_booking lib req) d"
    using assms(1,3)
    by (cases req rule: staff_user.cases) (auto intro!: keeps_andDo_ret facts)
  then show ?thesis by (simp add: keeps_run still_def)
qed

theorem staff_stay_in_their_company_witness:
  "find_reservation (snd (serve_booking demo_libraries (StaffDelete demo_ctx demo_stranger ''r1'') demo_db)) ''r1'' =
     Some demo_reservation"
proof (rule staff_stay_in_their_company)
  show "staff_user (StaffDelete demo_ctx demo_stranger ''r1'') = Some (demo_ctx, demo_stranger)" by simp
  show "find_reservation demo_db ''r1'' = Some demo_reservation" by code_simp
  show "\<not> may_see_company (c_env demo_ctx) demo_stranger (r_companyId demo_reservation)" by code_simp
qed

section \<open>A rental that starts without the gate\<close>

text \<open>
  The gate of the handover stands in the update alone: a booking created as \<open>IN_PROGRESS\<close> is accepted without an
  agreement, although a signed one is required.
\<close>

lemma created_in_progress_without_gate:
  "let run = reservation_create demo_ctx demo_admin ''admin'' ''r2'' (demo_booking\<lparr>nr_status := Some IN_PROGRESS\<rparr>) demo_db
   in isInr (fst run) \<and> map_option r_status (find_reservation (snd run) ''r2'') = Some IN_PROGRESS \<and>
      envOn (c_env demo_ctx) ''HANDOVER_REQUIRE_SIGNED_AGREEMENT'' True \<and> agreement_of (snd run) ''r2'' = None"
  by code_simp

end
