(* ===== verification/Row_Changes.thy ===== *)
theory Row_Changes
  imports Schema "HOL-Library.Multiset"
begin

text \<open>
  What a write to one row of a table does to the table as a multiset, and to the rows that a condition
  selects; shared by the ledger of invoices and the queue of submissions.
\<close>

lemma update_row_mset:
  assumes "keyed key rows" "v \<in> set rows"
  obtains M where "mset rows = add_mset v M" "mset (update_row key (key v) f rows) = add_mset (f v) M"
    "mset (delete_row key (key v) rows) = M" "\<And>w. w \<in># M \<Longrightarrow> key w \<noteq> key v"
proof -
  obtain xs ys where rows: "rows = xs @ v # ys" using assms(2) by (meson split_list)
  have "key v \<notin> key ` (set xs \<union> set ys)"
    using assms(1) by (auto simp: rows keyed_def)
  then have other: "key w \<noteq> key v" if "w \<in> set xs \<union> set ys" for w
    using that by (metis imageI)
  then have "update_row key (key v) f xs = xs" "update_row key (key v) f ys = ys"
    "delete_row key (key v) xs = xs" "delete_row key (key v) ys = ys"
    by (auto simp: update_row_def delete_row_def intro!: map_idI filter_True)
  then have "mset (update_row key (key v) f rows) = add_mset (f v) (mset xs + mset ys)"
    "mset (delete_row key (key v) rows) = mset xs + mset ys"
    by (simp_all add: rows update_row_def delete_row_def)
  then show thesis using other by (intro that [of "mset xs + mset ys"]) (auto simp: rows)
qed

lemma update_row_twice:
  assumes "\<And>r. key (g r) = key r"
  shows "update_row key i f (update_row key i g rows) = update_row key i (f \<circ> g) rows"
  using assms by (induction rows) (auto simp: update_row_def)

lemma keyed_map:
  assumes "\<And>r. key (g r) = key r"
  shows "keyed key (map g rows) = keyed key rows"
proof -
  have "map key (map g rows) = map key rows" using assms by simp
  then show ?thesis by (simp only: keyed_def)
qed

text \<open>At most one selected row per owner, whatever is done to the rows in place.\<close>

definition one_each :: "('r \<Rightarrow> bool) \<Rightarrow> ('r \<Rightarrow> 'k) \<Rightarrow> 'r list \<Rightarrow> bool" where
  "one_each live owner rows \<longleftrightarrow> distinct (map owner (filter live rows))"

lemma one_each_map:
  assumes "one_each live owner rows"
    and "\<And>r. r \<in> set rows \<Longrightarrow> owner (g r) = owner r" "\<And>r. r \<in> set rows \<Longrightarrow> live (g r) \<Longrightarrow> live r"
  shows "one_each live owner (map g rows)"
  using assms
proof (induction rows)
  case (Cons r rs)
  have "owner ` {x \<in> g ` set rs. live x} \<subseteq> owner ` {x \<in> set rs. live x}"
    using Cons.prems(2,3) by fastforce
  then show ?case using Cons by (auto simp: one_each_def split: if_splits)
qed (simp add: one_each_def)

lemma one_each_append:
  assumes "one_each live owner rows" "live r \<Longrightarrow> \<forall>x\<in>set rows. live x \<longrightarrow> owner x \<noteq> owner r"
  shows "one_each live owner (rows @ [r])"
  using assms by (auto simp: one_each_def)

text \<open>A write to a row outside a selection leaves the selected rows as they are.\<close>

lemma filter_update_other:
  assumes "keyed key rows" "v \<in> set rows" "\<not> P v" "\<And>r. P (f r) = P r"
  shows "filter P (update_row key (key v) f rows) = filter P rows"
proof -
  have other: "\<not> P r" if "r \<in> set rows" "key r = key v" for r
    using assms(1-3) that by (auto simp: keyed_def distinct_map inj_on_def)
  have "filter P (update_row key (key v) f rs) = filter P rs" if "set rs \<subseteq> set rows" for rs
    using that other assms(4) by (induction rs) (auto simp: update_row_def)
  then show ?thesis by simp
qed

lemma filter_delete_other:
  assumes "keyed key rows" "v \<in> set rows" "\<not> P v"
  shows "filter P (delete_row key (key v) rows) = filter P rows"
proof -
  have "\<not> P r" if "r \<in> set rows" "key r = key v" for r
    using assms that by (auto simp: keyed_def distinct_map inj_on_def)
  then show ?thesis by (auto simp: delete_row_def filter_filter intro!: filter_cong)
qed

end
