(* ===== verification/Invoices.thy ===== *)
theory Invoices
  imports Reservation_Core Row_Changes
begin

text \<open>
  \<open>apps/api/src/invoice/invoice.service.ts\<close> and \<open>packages/shared/src/schemas/invoice.ts\<close>:
  drafts, the fiscal numbering on issue, credit notes against issued invoices, voiding and the deletion
  of drafts. The theory shows that the numbers of a company and year are gapless and that what is
  credited on an invoice never exceeds it. The submissions to the tax authority are left out.
\<close>

section \<open>Amounts and requests\<close>

text \<open>
  \<open>Math.round\<close> of a quotient by 10000: half goes up. The schema bounds the product by
  \<open>10 ^ 14\<close>, where the double precision quotient is on the same side of every half.
\<close>

definition vat_of :: "int \<Rightarrow> int \<Rightarrow> int" where
  "vat_of subtotalCents vatRateBps = (subtotalCents * vatRateBps + 5000) div 10000"

definition computeInvoiceAmounts :: "int \<Rightarrow> int \<Rightarrow> int \<times> int" where
  "computeInvoiceAmounts subtotalCents vatRateBps =
     (let vatCents = vat_of subtotalCents vatRateBps in (vatCents, subtotalCents + vatCents))"

record create_invoice_input =
  ni_companyId :: string
  ni_kind :: invoice_kind
  ni_reservationId :: "string option"
  ni_creditedInvoiceId :: "string option"
  ni_subtotalCents :: int
  ni_vatRateBps :: int
  ni_currency :: string
  ni_description :: "string option"

definition amount_ok :: "int \<Rightarrow> bool" where
  "amount_ok c \<longleftrightarrow> 0 \<le> c \<and> c \<le> 1000000000"

definition rate_ok :: "int \<Rightarrow> bool" where
  "rate_ok r \<longleftrightarrow> 0 \<le> r \<and> r \<le> 100000"

definition createInvoiceSchema :: "create_invoice_input \<Rightarrow> bool" where
  "createInvoiceSchema inp \<longleftrightarrow>
     amount_ok (ni_subtotalCents inp) \<and> rate_ok (ni_vatRateBps inp) \<and> length (ni_currency inp) = 3 \<and>
     (case ni_description inp of None \<Rightarrow> True | Some s \<Rightarrow> length s \<le> 8000) \<and>
     \<not> (ni_kind inp = CREDIT_NOTE \<and> \<not> truthy (ni_creditedInvoiceId inp)) \<and>
     \<not> (ni_kind inp = INVOICE \<and> truthy (ni_creditedInvoiceId inp)) \<and>
     ni_creditedInvoiceId inp \<noteq> Some [] \<and> ni_reservationId inp \<noteq> Some []"

text \<open>A field that may be absent, null or set is an option of an option.\<close>

record update_invoice_input =
  ui_subtotalCents :: "int option"
  ui_vatRateBps :: "int option"
  ui_currency :: "string option"
  ui_description :: "string option option"
  ui_reservationId :: "string option option"

definition updateInvoiceSchema :: "update_invoice_input \<Rightarrow> bool" where
  "updateInvoiceSchema inp \<longleftrightarrow>
     (case ui_subtotalCents inp of None \<Rightarrow> True | Some c \<Rightarrow> amount_ok c) \<and>
     (case ui_vatRateBps inp of None \<Rightarrow> True | Some r \<Rightarrow> rate_ok r) \<and>
     (case ui_currency inp of None \<Rightarrow> True | Some s \<Rightarrow> length s = 3) \<and>
     (case ui_description inp of Some (Some s) \<Rightarrow> length s \<le> 8000 | _ \<Rightarrow> True)"

section \<open>Reading\<close>

record invoice_filter =
  vf_companyId :: "string option"
  vf_q :: "string option"
  vf_status :: "invoice_status option"
  vf_kind :: "invoice_kind option"
  vf_reservationId :: "string option"

text \<open>The case-insensitive \<open>contains\<close> of the client.\<close>

fun contains :: "string \<Rightarrow> string \<Rightarrow> bool" where
  "contains p [] \<longleftrightarrow> p = []"
| "contains p (c # cs) \<longleftrightarrow> take (length p) (c # cs) = p \<or> contains p cs"

definition containsInsensitive :: "string \<Rightarrow> string option \<Rightarrow> bool" where
  "containsInsensitive p s =
     (case s of None \<Rightarrow> False | Some x \<Rightarrow> contains (toLowerCase p) (toLowerCase x))"

definition invoice_matches :: "invoice_filter \<Rightarrow> string option \<Rightarrow> invoice \<Rightarrow> bool" where
  "invoice_matches f company v \<longleftrightarrow>
     (case company of None \<Rightarrow> True | Some c \<Rightarrow> in_companyId v = c) \<and>
     (case vf_status f of None \<Rightarrow> True | Some s \<Rightarrow> in_status v = s) \<and>
     (case vf_kind f of None \<Rightarrow> True | Some k \<Rightarrow> in_kind v = k) \<and>
     (truthy (vf_reservationId f) \<longrightarrow> in_reservationId v = vf_reservationId f) \<and>
     (let trimmed = map_option trim (vf_q f)
      in truthy trimmed \<longrightarrow>
           containsInsensitive (the trimmed) (in_documentNumber v) \<or> containsInsensitive (the trimmed) (in_description v))"

definition invoice_findAll :: "db \<Rightarrow> env \<Rightarrow> jwt_user \<Rightarrow> invoice_filter \<Rightarrow> invoice list result" where
  "invoice_findAll d env user f =
     andThen (effectiveListCompanyFilter env user (vf_companyId f)) (\<lambda>company.
       Inr (sort_key (\<lambda>v. - in_createdAt v) (filter (invoice_matches f company) (d_invoices d))))"

definition invoice_row :: "db \<Rightarrow> env \<Rightarrow> jwt_user \<Rightarrow> string \<Rightarrow> invoice result" where
  "invoice_row d env user i =
     (let msg = ''Invoice not found: '' @ i
      in andThen (orElse (find_invoice d i) (NotFound msg)) (\<lambda>v.
         andThen (assertSameCompany env user (in_companyId v) msg) (\<lambda>_. Inr v)))"

record invoice_view =
  iv_invoice :: invoice
  iv_company :: "company option"
  iv_reservation :: "reservation option"
  iv_creditedInvoice :: "invoice option"
  iv_creditingNotes :: "invoice list"

definition view_of :: "db \<Rightarrow> invoice \<Rightarrow> invoice_view" where
  "view_of d v =
     \<lparr>iv_invoice = v, iv_company = find_company d (in_companyId v),
      iv_reservation = Option.bind (in_reservationId v) (find_reservation d),
      iv_creditedInvoice = Option.bind (in_creditedInvoiceId v) (find_invoice d),
      iv_creditingNotes = filter (\<lambda>n. in_creditedInvoiceId n = Some (in_id v)) (d_invoices d)\<rparr>"

definition invoice_findOne :: "db \<Rightarrow> env \<Rightarrow> jwt_user \<Rightarrow> string \<Rightarrow> invoice_view result" where
  "invoice_findOne d env user i = andThen (invoice_row d env user i) (\<lambda>v. Inr (view_of d v))"

section \<open>Drafts\<close>

text \<open>Columns are 32-bit integers; the client refuses a value that does not fit.\<close>

definition fits_int4 :: "int \<Rightarrow> bool" where
  "fits_int4 n \<longleftrightarrow> - 2147483648 \<le> n \<and> n \<le> 2147483647"

definition amounts_fit :: "invoice \<Rightarrow> unit result" where
  "amounts_fit v =
     ensure (fits_int4 (in_subtotalCents v) \<and> fits_int4 (in_vatRateBps v) \<and> fits_int4 (in_vatCents v) \<and> fits_int4 (in_totalCents v))
       (Crash ''value does not fit INT4'')"

definition check_reservation :: "db \<Rightarrow> string \<Rightarrow> string \<Rightarrow> unit result" where
  "check_reservation d companyId i =
     andThen (orElse (find_reservation d i) (NotFound (''Reservation not found: '' @ i))) (\<lambda>r.
       ensure (r_companyId r = companyId) (BadRequest ''Reservation belongs to a different company''))"

definition check_credited :: "db \<Rightarrow> string \<Rightarrow> string option \<Rightarrow> unit result" where
  "check_credited d companyId i =
     andThen (orElse (Option.bind i (find_invoice d)) (NotFound ''Credited invoice not found'')) (\<lambda>orig.
     andThen (ensure (in_companyId orig = companyId) (BadRequest ''Credited invoice belongs to a different company'')) (\<lambda>_.
     ensure (in_status orig = INV_ISSUED \<and> in_kind orig = INVOICE)
       (BadRequest ''Can only issue credit notes against an ISSUED tax invoice'')))"

definition new_invoice :: "string \<Rightarrow> time \<Rightarrow> create_invoice_input \<Rightarrow> invoice" where
  "new_invoice newId now inp =
     (let (vatCents, totalCents) = computeInvoiceAmounts (ni_subtotalCents inp) (ni_vatRateBps inp);
          description = map_option trim (ni_description inp)
      in \<lparr>in_id = newId, in_companyId = ni_companyId inp, in_reservationId = ni_reservationId inp,
          in_kind = ni_kind inp, in_status = INV_DRAFT, in_creditedInvoiceId = ni_creditedInvoiceId inp,
          in_issueYear = None, in_issueSequence = None, in_documentNumber = None,
          in_subtotalCents = ni_subtotalCents inp, in_vatRateBps = ni_vatRateBps inp, in_vatCents = vatCents,
          in_totalCents = totalCents, in_currency = ni_currency inp,
          in_description = (if truthy description then description else None),
          in_issuedAt = None, in_createdAt = now\<rparr>)"

definition reservation_json :: "invoice \<Rightarrow> (string \<times> json) list" where
  "reservation_json v =
     (if truthy (in_reservationId v) then [(''reservationId'', JStr (the (in_reservationId v)))] else [])"

definition kind_name :: "invoice_kind \<Rightarrow> string" where
  "kind_name k = (case k of INVOICE \<Rightarrow> ''INVOICE'' | CREDIT_NOTE \<Rightarrow> ''CREDIT_NOTE'')"

definition insert_invoice :: "invoice \<Rightarrow> unit dbprog" where
  "insert_invoice v =
     andDo (asks (\<lambda>_. amounts_fit v))
     (andDo (asks (\<lambda>d. ensure (find_company d (in_companyId v) \<noteq> None) (Prisma ''P2003'')))
     (andDo (asks (\<lambda>d. ensure (find_invoice d (in_id v) = None) (Prisma ''P2002'')))
       (modify (d_invoices_update (\<lambda>vs. vs @ [v])))))"

definition invoice_create :: "ctx \<Rightarrow> jwt_user \<Rightarrow> string \<Rightarrow> create_invoice_input \<Rightarrow> invoice dbprog" where
  "invoice_create ctx user newId inp =
     andDo (asks (\<lambda>_. assertCreateBodyCompanyId (c_env ctx) user (ni_companyId inp)))
     (andDo (asks (\<lambda>d. if truthy (ni_reservationId inp)
                        then check_reservation d (ni_companyId inp) (the (ni_reservationId inp)) else Inr ()))
     (andDo (asks (\<lambda>d. if ni_kind inp = CREDIT_NOTE
                        then check_credited d (ni_companyId inp) (ni_creditedInvoiceId inp) else Inr ()))
     (let v = new_invoice newId (c_now ctx) inp
      in andDo (insert_invoice v)
         (andDo (audit (bare_audit (Some (u_sub user)) ''invoice.create'' ''Invoice'' newId
            (JObj ([(''companyId'', JStr (ni_companyId inp)), (''kind'', JStr (kind_name (ni_kind inp))),
                    (''status'', JStr ''DRAFT'')] @ reservation_json v))))
         (ret v)))))"

definition update_empty :: "update_invoice_input \<Rightarrow> bool" where
  "update_empty inp \<longleftrightarrow>
     ui_subtotalCents inp = None \<and> ui_vatRateBps inp = None \<and> ui_currency inp = None \<and>
     ui_description inp = None \<and> ui_reservationId inp = None"

definition updated_invoice :: "update_invoice_input \<Rightarrow> invoice \<Rightarrow> invoice" where
  "updated_invoice inp v =
     (let subtotalCents = or_else (ui_subtotalCents inp) (in_subtotalCents v);
          vatRateBps = or_else (ui_vatRateBps inp) (in_vatRateBps v);
          (vatCents, totalCents) = computeInvoiceAmounts subtotalCents vatRateBps
      in v\<lparr>in_subtotalCents := subtotalCents, in_vatRateBps := vatRateBps, in_vatCents := vatCents,
           in_totalCents := totalCents, in_currency := or_else (ui_currency inp) (in_currency v),
           in_description := (case ui_description inp of
               None \<Rightarrow> in_description v
             | Some x \<Rightarrow> if truthy x then x else None),
           in_reservationId := or_else (ui_reservationId inp) (in_reservationId v)\<rparr>)"

definition check_invoice_update :: "db \<Rightarrow> env \<Rightarrow> jwt_user \<Rightarrow> string \<Rightarrow> update_invoice_input \<Rightarrow> invoice result" where
  "check_invoice_update d env user i inp =
     andThen (invoice_row d env user i) (\<lambda>v.
     andThen (ensure (in_status v = INV_DRAFT) (BadRequest ''Only DRAFT invoices can be updated'')) (\<lambda>_.
     andThen (case ui_reservationId inp of Some (Some rid) \<Rightarrow> check_reservation d (in_companyId v) rid | _ \<Rightarrow> Inr ()) (\<lambda>_.
     andThen (ensure (\<not> update_empty inp) (BadRequest ''No fields to update'')) (\<lambda>_.
     andThen (amounts_fit (updated_invoice inp v)) (\<lambda>_. Inr v)))))"

definition invoice_update :: "ctx \<Rightarrow> jwt_user \<Rightarrow> string \<Rightarrow> update_invoice_input \<Rightarrow> invoice dbprog" where
  "invoice_update ctx user i inp =
     bnd (asks (\<lambda>d. check_invoice_update d (c_env ctx) user i inp)) (\<lambda>v.
     andDo (modify (d_invoices_update (update_row in_id (in_id v) (updated_invoice inp))))
     (ret (updated_invoice inp v)))"

section \<open>Issuing\<close>

definition remaining_credit :: "db \<Rightarrow> invoice \<Rightarrow> int" where
  "remaining_credit d orig =
     in_totalCents orig -
     sum_list (map in_totalCents
       (filter (\<lambda>n. in_creditedInvoiceId n = Some (in_id orig) \<and> in_kind n = CREDIT_NOTE \<and> in_status n = INV_ISSUED)
         (d_invoices d)))"

definition check_credit :: "db \<Rightarrow> invoice \<Rightarrow> unit result" where
  "check_credit d v =
     (if in_kind v \<noteq> CREDIT_NOTE then Inr ()
      else
        andThen (ensure (truthy (in_creditedInvoiceId v)) (BadRequest ''Credit note is missing credited invoice'')) (\<lambda>_.
        andThen (orElse (find_invoice d (the (in_creditedInvoiceId v))) (BadRequest ''Credited invoice not found'')) (\<lambda>orig.
        andThen (ensure (in_companyId orig = in_companyId v) (BadRequest ''Credited invoice belongs to a different company'')) (\<lambda>_.
        andThen (ensure (in_status orig = INV_ISSUED \<and> in_kind orig = INVOICE)
          (BadRequest ''Credit notes can only be issued against an ISSUED tax invoice'')) (\<lambda>_.
        if in_totalCents v > remaining_credit d orig
        then Inl (BadRequest (''Credit note total ('' @ show_int (in_totalCents v) @
             '' minor units) exceeds remaining creditable amount on '' @
             or_else (in_documentNumber orig) (take 8 (in_id orig)) @ '' ('' @ show_int (remaining_credit d orig) @
             '' minor units left, incl. VAT)''))
        else Inr ())))))"

text \<open>The upsert of the counter of a company and year, and the number it returns.\<close>

definition last_issued :: "db \<Rightarrow> string \<Rightarrow> int \<Rightarrow> int" where
  "last_issued d companyId year =
     (case List.find (\<lambda>q. fq_companyId q = companyId \<and> fq_year q = year) (d_sequences d) of
        None \<Rightarrow> 0
      | Some q \<Rightarrow> fq_lastIssued q)"

definition bump_sequence :: "string \<Rightarrow> int \<Rightarrow> fiscal_sequence list \<Rightarrow> fiscal_sequence list" where
  "bump_sequence companyId year qs =
     (if list_ex (\<lambda>q. fq_companyId q = companyId \<and> fq_year q = year) qs
      then map (\<lambda>q. if fq_companyId q = companyId \<and> fq_year q = year
                      then q\<lparr>fq_lastIssued := fq_lastIssued q + 1\<rparr> else q) qs
      else qs @ [\<lparr>fq_companyId = companyId, fq_year = year, fq_lastIssued = 1\<rparr>])"

definition reserve_number :: "string \<Rightarrow> int \<Rightarrow> int dbprog" where
  "reserve_number companyId year =
     andDo (asks (\<lambda>d. ensure (fits_int4 (last_issued d companyId year + 1)) (Crash ''integer out of range'')))
     (andDo (modify (d_sequences_update (bump_sequence companyId year)))
       (gets (\<lambda>d. last_issued d companyId year)))"

definition padStart :: "nat \<Rightarrow> char \<Rightarrow> string \<Rightarrow> string" where
  "padStart n c s = replicate (n - length s) c @ s"

definition document_number :: "int \<Rightarrow> int \<Rightarrow> string" where
  "document_number year seq = show_int year @ ''/'' @ padStart 5 (CHR ''0'') (show_int seq)"

definition issued_invoice :: "time \<Rightarrow> int \<Rightarrow> int \<Rightarrow> invoice \<Rightarrow> invoice" where
  "issued_invoice now year seq v =
     v\<lparr>in_status := INV_ISSUED, in_issueYear := Some year, in_issueSequence := Some seq,
       in_documentNumber := Some (document_number year seq), in_issuedAt := Some now\<rparr>"

definition number_free :: "db \<Rightarrow> invoice \<Rightarrow> int \<Rightarrow> int \<Rightarrow> bool" where
  "number_free d v year seq \<longleftrightarrow>
     \<not> list_ex (\<lambda>x. in_companyId x = in_companyId v \<and> in_issueYear x = Some year \<and> in_issueSequence x = Some seq \<and>
            in_id x \<noteq> in_id v) (d_invoices d)"

definition not_accounting :: "jwt_user \<Rightarrow> string \<Rightarrow> unit result" where
  "not_accounting user what =
     ensure (u_role user \<noteq> READONLY_ACCOUNTING) (Forbidden (''Not allowed to '' @ what @ '' invoices''))"

definition issue_number :: "time \<Rightarrow> invoice \<Rightarrow> int \<Rightarrow> invoice dbprog" where
  "issue_number now v year =
     bnd (reserve_number (in_companyId v) year) (\<lambda>seq.
     andDo (asks (\<lambda>d. ensure (number_free d v year seq) (Prisma ''P2002'')))
     (andDo (modify (d_invoices_update (update_row in_id (in_id v) (issued_invoice now year seq))))
     (ret (issued_invoice now year seq v))))"

definition check_issue :: "db \<Rightarrow> env \<Rightarrow> jwt_user \<Rightarrow> string \<Rightarrow> invoice result" where
  "check_issue d env user i =
     andThen (invoice_row d env user i) (\<lambda>v.
     andThen (ensure (in_status v = INV_DRAFT) (BadRequest ''Only DRAFT documents can be issued'')) (\<lambda>_.
     andThen (check_credit d v) (\<lambda>_. Inr v)))"

definition invoice_json :: "invoice \<Rightarrow> json" where
  "invoice_json v =
     JObj ([(''documentNumber'', ostr (in_documentNumber v)), (''companyId'', JStr (in_companyId v))] @ reservation_json v)"

definition invoice_issue :: "ctx \<Rightarrow> jwt_user \<Rightarrow> string \<Rightarrow> invoice dbprog" where
  "invoice_issue ctx user i =
     andDo (asks (\<lambda>_. not_accounting user ''issue''))
     (bnd (transaction
        (bnd (asks (\<lambda>d. check_issue d (c_env ctx) user i)) (\<lambda>v.
           issue_number (c_now ctx) v (year_from_day (day_of (c_now ctx)))))) (\<lambda>out.
      andDo (audit (bare_audit (Some (u_sub user)) ''invoice.issue'' ''Invoice'' i (invoice_json out)))
      (ret out)))"

section \<open>Voiding and deleting\<close>

definition invoice_void :: "ctx \<Rightarrow> jwt_user \<Rightarrow> string \<Rightarrow> invoice dbprog" where
  "invoice_void ctx user i =
     andDo (asks (\<lambda>_. not_accounting user ''void''))
     (bnd (asks (\<lambda>d. invoice_row d (c_env ctx) user i)) (\<lambda>v.
      andDo (asks (\<lambda>_. ensure (in_status v = INV_ISSUED) (BadRequest ''Only ISSUED documents can be voided'')))
      (andDo (modify (d_invoices_update (update_row in_id (in_id v) (in_status_update (\<lambda>_. INV_VOID)))))
      (andDo (audit (bare_audit (Some (u_sub user)) ''invoice.void'' ''Invoice'' i (invoice_json v)))
      (ret (v\<lparr>in_status := INV_VOID\<rparr>))))))"

text \<open>The foreign key of credit notes refuses the deletion of what they refer to.\<close>

definition is_credited :: "db \<Rightarrow> invoice \<Rightarrow> bool" where
  "is_credited d v \<longleftrightarrow> list_ex (\<lambda>n. in_creditedInvoiceId n = Some (in_id v)) (d_invoices d)"

definition invoice_remove :: "ctx \<Rightarrow> jwt_user \<Rightarrow> string \<Rightarrow> unit dbprog" where
  "invoice_remove ctx user i =
     andDo (asks (\<lambda>_. not_accounting user ''delete''))
     (bnd (asks (\<lambda>d. invoice_row d (c_env ctx) user i)) (\<lambda>v.
      andDo (asks (\<lambda>_. ensure (in_status v = INV_DRAFT) (BadRequest ''Only DRAFT invoices can be deleted'')))
      (andDo (asks (\<lambda>d. ensure (\<not> is_credited d v) (BadRequest ''Cannot delete: referenced by a credit note draft'')))
      (andDo (modify (d_invoices_update (delete_row in_id (in_id v))))
      (audit (bare_audit (Some (u_sub user)) ''invoice.delete_draft'' ''Invoice'' i
        (JObj ([(''companyId'', JStr (in_companyId v))] @ reservation_json v))))))))"

section \<open>The ledger\<close>

text \<open>
  The invoices as a multiset: the numbers a company has used in a year, and what has been credited on
  a document.
\<close>

definition numbers :: "string \<Rightarrow> int \<Rightarrow> invoice multiset \<Rightarrow> int multiset" where
  "numbers c y M = image_mset (\<lambda>v. the (in_issueSequence v)) (filter_mset (\<lambda>v. in_companyId v = c \<and> in_issueYear v = Some y) M)"

definition counts_for :: "string \<Rightarrow> invoice \<Rightarrow> bool" where
  "counts_for i n \<longleftrightarrow> in_creditedInvoiceId n = Some i \<and> in_kind n = CREDIT_NOTE \<and> in_status n = INV_ISSUED"

definition credited :: "string \<Rightarrow> invoice multiset \<Rightarrow> int" where
  "credited i M = (\<Sum>n\<in>#filter_mset (counts_for i) M. in_totalCents n)"

lemma numbers_add [simp]:
  "numbers c y {#} = {#}"
  "numbers c y (add_mset v M) =
     (if in_companyId v = c \<and> in_issueYear v = Some y then add_mset (the (in_issueSequence v)) (numbers c y M) else numbers c y M)"
  by (simp_all add: numbers_def)

lemma credited_add [simp]:
  "credited i {#} = 0"
  "credited i (add_mset v M) = (if counts_for i v then in_totalCents v + credited i M else credited i M)"
  by (simp_all add: credited_def)

lemma remaining_credit_eq: "remaining_credit d v = in_totalCents v - credited (in_id v) (mset (d_invoices d))"
proof -
  have "sum_list (map in_totalCents (filter (\<lambda>n. in_creditedInvoiceId n = Some i \<and> in_kind n = CREDIT_NOTE \<and>
      in_status n = INV_ISSUED) vs)) = credited i (mset vs)" for i vs
    by (induction vs) (auto simp: counts_for_def)
  then show ?thesis by (simp add: remaining_credit_def)
qed

text \<open>
  A document: drafts, and only they, have no number; amounts are not negative and the tax and the total
  are those of the subtotal; a credit note refers to an invoice of its company that has been issued.
\<close>

definition document_ok :: "invoice \<Rightarrow> bool" where
  "document_ok v \<longleftrightarrow>
     (in_status v = INV_DRAFT \<longleftrightarrow> in_issueYear v = None) \<and>
     (case in_issueYear v of
        None \<Rightarrow> in_issueSequence v = None \<and> in_documentNumber v = None
      | Some y \<Rightarrow> (\<exists>q. in_issueSequence v = Some q \<and> in_documentNumber v = Some (document_number y q))) \<and>
     0 \<le> in_totalCents v \<and> 0 \<le> in_subtotalCents v \<and> 0 \<le> in_vatRateBps v \<and>
     (in_vatCents v, in_totalCents v) = computeInvoiceAmounts (in_subtotalCents v) (in_vatRateBps v)"

definition credits_issued :: "invoice multiset \<Rightarrow> invoice \<Rightarrow> bool" where
  "credits_issued M v \<longleftrightarrow>
     (in_kind v = CREDIT_NOTE \<longrightarrow>
        (\<exists>orig. orig \<in># M \<and> in_creditedInvoiceId v = Some (in_id orig) \<and> in_kind orig = INVOICE \<and>
                in_companyId orig = in_companyId v \<and> in_status orig \<noteq> INV_DRAFT))"

definition ledger_ok :: "(string \<Rightarrow> int \<Rightarrow> int) \<Rightarrow> invoice multiset \<Rightarrow> bool" where
  "ledger_ok used M \<longleftrightarrow>
     (\<forall>v. v \<in># M \<longrightarrow> document_ok v \<and> credits_issued M v \<and> credited (in_id v) M \<le> in_totalCents v) \<and>
     (\<forall>c y. numbers c y M = mset [1..used c y])"

definition invoices_ok :: "db \<Rightarrow> bool" where
  "invoices_ok d \<longleftrightarrow> keyed in_id (d_invoices d) \<and> ledger_ok (last_issued d) (mset (d_invoices d)) \<and>
     (\<forall>c y. 0 \<le> last_issued d c y)"

lemma credited_unreferenced:
  assumes "\<And>w. w \<in># M \<Longrightarrow> credits_issued N w" "\<And>x. x \<in># N \<Longrightarrow> in_id x = i \<Longrightarrow> in_status x = INV_DRAFT"
  shows "credited i M = 0"
proof -
  have "\<not> counts_for i w" if "w \<in># M" for w
    using assms(1) [OF that] assms(2) by (auto simp: counts_for_def credits_issued_def)
  then have empty: "filter_mset (counts_for i) M = filter_mset (\<lambda>_. False) M"
    by (intro filter_mset_cong) auto
  show ?thesis unfolding credited_def empty by simp
qed

text \<open>A document is changed and stays what others rely on.\<close>

lemma credits_issued_change:
  assumes "credits_issued (add_mset v R) w"
    and "in_id v' = in_id v" "in_kind v' = in_kind v" "in_companyId v' = in_companyId v"
    and "in_status v \<noteq> INV_DRAFT \<Longrightarrow> in_status v' \<noteq> INV_DRAFT"
  shows "credits_issued (add_mset v' R) w"
  unfolding credits_issued_def
proof
  assume "in_kind w = CREDIT_NOTE"
  then obtain x where x: "x \<in># add_mset v R" "in_creditedInvoiceId w = Some (in_id x)" "in_kind x = INVOICE"
      "in_companyId x = in_companyId w" "in_status x \<noteq> INV_DRAFT"
    using assms(1) by (auto simp: credits_issued_def)
  show "\<exists>y. y \<in># add_mset v' R \<and> in_creditedInvoiceId w = Some (in_id y) \<and> in_kind y = INVOICE \<and>
      in_companyId y = in_companyId w \<and> in_status y \<noteq> INV_DRAFT"
  proof (cases "x \<in># R")
    case True
    then show ?thesis using x by (intro exI [of _ x]) simp
  next
    case False
    then show ?thesis using x assms(2-5) by (intro exI [of _ v']) auto
  qed
qed

lemma credits_issued_mono: "credits_issued M w \<Longrightarrow> credits_issued (add_mset v M) w"
  by (auto simp: credits_issued_def)

lemma credits_issued_cong:
  "credits_issued M v \<Longrightarrow> in_kind v' = in_kind v \<Longrightarrow> in_creditedInvoiceId v' = in_creditedInvoiceId v \<Longrightarrow>
     in_companyId v' = in_companyId v \<Longrightarrow> credits_issued M v'"
  by (simp add: credits_issued_def)

lemma ledger_insert:
  assumes ok: "ledger_ok used M" and v: "document_ok v" "in_status v = INV_DRAFT" "credits_issued M v"
    and fresh: "\<And>w. w \<in># M \<Longrightarrow> in_id w \<noteq> in_id v"
  shows "ledger_ok used (add_mset v M)"
proof -
  have M: "document_ok w \<and> credits_issued M w \<and> credited (in_id w) M \<le> in_totalCents w" if "w \<in># M" for w
    using ok that by (simp add: ledger_ok_def)
  have zero: "credited (in_id v) M = 0"
    by (rule credited_unreferenced [where N = M]) (use M fresh in auto)
  have "numbers c y (add_mset v M) = numbers c y M" for c y
    using v by (simp add: document_ok_def)
  moreover have "credited i (add_mset v M) = credited i M" for i
    using v by (simp add: counts_for_def)
  ultimately show ?thesis
    using M v zero ok by (auto simp: ledger_ok_def document_ok_def intro: credits_issued_mono)
qed

lemma ledger_redraft:
  assumes ok: "ledger_ok used (add_mset v R)" and v: "in_status v = INV_DRAFT"
    and v': "document_ok v'" "in_status v' = INV_DRAFT" "in_id v' = in_id v" "in_kind v' = in_kind v"
      "in_companyId v' = in_companyId v" "in_creditedInvoiceId v' = in_creditedInvoiceId v"
    and alone: "\<And>w. w \<in># R \<Longrightarrow> in_id w \<noteq> in_id v"
  shows "ledger_ok used (add_mset v' R)"
proof -
  have M: "document_ok w \<and> credits_issued (add_mset v R) w \<and> credited (in_id w) (add_mset v R) \<le> in_totalCents w"
    if "w \<in># add_mset v R" for w
    using ok that unfolding ledger_ok_def by blast
  have zero: "credited (in_id v) (add_mset v R) = 0"
    by (rule credited_unreferenced [where N = "add_mset v R"]) (use M alone v in auto)
  have same: "credited i (add_mset v' R) = credited i (add_mset v R)" for i
    using v v' by (simp add: counts_for_def)
  have nums: "numbers c y (add_mset v' R) = numbers c y (add_mset v R)" for c y
    using v v' M [of v] by (simp add: document_ok_def)
  have iss: "credits_issued (add_mset v' R) w" if "w \<in># add_mset v' R" for w
  proof (cases "w = v'")
    case True
    have "credits_issued (add_mset v R) v'"
      by (rule credits_issued_cong [of _ v]) (use M [of v] v' in auto)
    then show ?thesis using v v' True by (intro credits_issued_change [of v R w v']) auto
  next
    case False
    then show ?thesis using M [of w] v v' that by (intro credits_issued_change [of v R w v']) auto
  qed
  have "credited (in_id w) (add_mset v' R) \<le> in_totalCents w" if "w \<in># add_mset v' R" for w
    using that M [of w] zero v' unfolding same by (auto simp: document_ok_def)
  moreover have "document_ok w" if "w \<in># add_mset v' R" for w
    using that M [of w] v'(1) by auto
  ultimately show ?thesis
    using iss nums ok unfolding ledger_ok_def by simp
qed

lemma ledger_delete:
  assumes ok: "ledger_ok used (add_mset v R)" and v: "in_status v = INV_DRAFT"
  shows "ledger_ok used R"
proof -
  have M: "document_ok w \<and> credits_issued (add_mset v R) w \<and> credited (in_id w) (add_mset v R) \<le> in_totalCents w"
    if "w \<in># add_mset v R" for w
    using ok that unfolding ledger_ok_def by blast
  have "credits_issued R w" if "w \<in># R" for w
    using M [of w] that v by (auto simp: credits_issued_def)
  moreover have "numbers c y R = numbers c y (add_mset v R)" for c y
    using M [of v] v by (simp add: document_ok_def)
  moreover have "credited i R = credited i (add_mset v R)" for i
    using v by (simp add: counts_for_def)
  ultimately show ?thesis
    using M ok unfolding ledger_ok_def by simp
qed

lemma ledger_void:
  assumes ok: "ledger_ok used (add_mset v R)" and v: "in_status v = INV_ISSUED"
  shows "ledger_ok used (add_mset (v\<lparr>in_status := INV_VOID\<rparr>) R)"
proof -
  let ?v = "v\<lparr>in_status := INV_VOID\<rparr>"
  have M: "document_ok w \<and> credits_issued (add_mset v R) w \<and> credited (in_id w) (add_mset v R) \<le> in_totalCents w"
    if "w \<in># add_mset v R" for w
    using ok that unfolding ledger_ok_def by blast
  have less: "credited i (add_mset ?v R) \<le> credited i (add_mset v R)" for i
    using M [of v] by (simp add: counts_for_def document_ok_def)
  have old: "\<exists>x. x \<in># add_mset v R \<and> in_id x = in_id w \<and> in_totalCents x = in_totalCents w \<and>
      (credits_issued (add_mset v R) x \<longrightarrow> credits_issued (add_mset ?v R) w) \<and> (document_ok x \<longrightarrow> document_ok w)"
    if "w \<in># add_mset ?v R" for w
  proof (cases "w = ?v")
    case True
    have "credits_issued (add_mset ?v R) ?v" if "credits_issued (add_mset v R) v"
      by (rule credits_issued_change [of v R]) (use that v in \<open>auto intro: credits_issued_cong\<close>)
    then show ?thesis using True v by (intro exI [of _ v]) (auto simp: document_ok_def)
  next
    case False
    have "credits_issued (add_mset ?v R) w" if "credits_issued (add_mset v R) w"
      by (rule credits_issued_change [of v R]) (use that v in auto)
    then show ?thesis using False that by (intro exI [of _ w]) auto
  qed
  have "document_ok w \<and> credits_issued (add_mset ?v R) w \<and> credited (in_id w) (add_mset ?v R) \<le> in_totalCents w"
    if "w \<in># add_mset ?v R" for w
    using old [OF that] M less [of "in_id w"] by (metis order_trans)
  moreover have "numbers c y (add_mset ?v R) = numbers c y (add_mset v R)" for c y
    by simp
  ultimately show ?thesis using ok unfolding ledger_ok_def by simp
qed

lemma ledger_issue:
  assumes ok: "ledger_ok used (add_mset v R)" and v: "in_status v = INV_DRAFT"
    and alone: "\<And>w. w \<in># R \<Longrightarrow> in_id w \<noteq> in_id v"
    and room: "\<And>x. x \<in># add_mset v R \<Longrightarrow> in_kind v = CREDIT_NOTE \<Longrightarrow> in_creditedInvoiceId v = Some (in_id x) \<Longrightarrow>
       in_totalCents v + credited (in_id x) (add_mset v R) \<le> in_totalCents x"
    and nn: "0 \<le> used (in_companyId v) y"
  shows "ledger_ok (\<lambda>c z. if c = in_companyId v \<and> z = y then used c z + 1 else used c z)
           (add_mset (issued_invoice now y (used (in_companyId v) y + 1) v) R)"
proof -
  let ?n = "used (in_companyId v) y + 1"
  let ?v = "issued_invoice now y ?n v"
  let ?used = "\<lambda>c z. if c = in_companyId v \<and> z = y then used c z + 1 else used c z"
  have v': "in_id ?v = in_id v" "in_kind ?v = in_kind v" "in_companyId ?v = in_companyId v" "in_status ?v = INV_ISSUED"
    "in_creditedInvoiceId ?v = in_creditedInvoiceId v" "in_totalCents ?v = in_totalCents v"
    "in_issueYear ?v = Some y" "in_issueSequence ?v = Some ?n" "in_documentNumber ?v = Some (document_number y ?n)"
    "in_subtotalCents ?v = in_subtotalCents v" "in_vatRateBps ?v = in_vatRateBps v" "in_vatCents ?v = in_vatCents v"
    by (simp_all add: issued_invoice_def)
  have M: "document_ok w \<and> credits_issued (add_mset v R) w \<and> credited (in_id w) (add_mset v R) \<le> in_totalCents w"
    if "w \<in># add_mset v R" for w
    using ok that unfolding ledger_ok_def by blast
  have old: "numbers c z (add_mset v R) = mset [1..used c z]" for c z
    using ok unfolding ledger_ok_def by blast
  have "numbers c z (add_mset v R) = numbers c z R" for c z
    using M [of v] v by (simp add: document_ok_def)
  then have rest: "numbers c z R = mset [1..used c z]" for c z using old by simp
  have step: "mset [1..used (in_companyId v) y + 1] = add_mset ?n (mset [1..used (in_companyId v) y])"
    using nn by (subst upto_rec2) simp_all
  have nums: "numbers c z (add_mset ?v R) = mset [1..?used c z]" for c z
    using rest step by (auto simp: v')
  have zero: "credited (in_id v) (add_mset v R) = 0"
    by (rule credited_unreferenced [where N = "add_mset v R"]) (use M alone v in auto)
  have sums: "credited i (add_mset ?v R) =
      credited i (add_mset v R) + (if in_kind v = CREDIT_NOTE \<and> in_creditedInvoiceId v = Some i then in_totalCents v else 0)" for i
    using v by (auto simp: counts_for_def v')
  have iss: "credits_issued (add_mset ?v R) w" if "w \<in># add_mset ?v R" for w
  proof (cases "w = ?v")
    case True
    have "credits_issued (add_mset v R) ?v"
      by (rule credits_issued_cong [of _ v]) (use M [of v] v' in auto)
    then show ?thesis using v v' True by (intro credits_issued_change [of v R w ?v]) auto
  next
    case False
    then show ?thesis using M [of w] v v' that by (intro credits_issued_change [of v R w ?v]) auto
  qed
  have self: "in_creditedInvoiceId v \<noteq> Some (in_id v)" if "in_kind v = CREDIT_NOTE"
    using M [of v] that v by (auto simp: credits_issued_def dest: alone)
  have "credited (in_id w) (add_mset ?v R) \<le> in_totalCents w" if "w \<in># add_mset ?v R" for w
  proof (cases "w = ?v")
    case True
    then show ?thesis using zero M [of v] self unfolding sums by (auto simp: v' document_ok_def)
  next
    case False
    then show ?thesis using that M [of w] room [of w] unfolding sums by auto
  qed
  moreover have "document_ok w" if "w \<in># add_mset ?v R" for w
  proof (cases "w = ?v")
    case True
    show ?thesis using M [of v] unfolding True by (simp add: document_ok_def v')
  next
    case False
    then show ?thesis using that M [of w] by simp
  qed
  ultimately show ?thesis
    using iss nums unfolding ledger_ok_def by simp
qed


section \<open>The handlers keep the ledger\<close>

lemma invoices_ok_frame [simp]: "invoices_ok (d_audit_update f d) = invoices_ok d"
  by (simp add: invoices_ok_def last_issued_def [abs_def])

lemma amount_total_nonneg: "0 \<le> s \<Longrightarrow> 0 \<le> r \<Longrightarrow> 0 \<le> snd (computeInvoiceAmounts s r)"
  by (simp add: computeInvoiceAmounts_def vat_of_def Let_def pos_imp_zdiv_nonneg_iff)

lemma new_invoice_sel:
  "in_id (new_invoice i now inp) = i"
  "in_status (new_invoice i now inp) = INV_DRAFT"
  "in_kind (new_invoice i now inp) = ni_kind inp"
  "in_companyId (new_invoice i now inp) = ni_companyId inp"
  "in_creditedInvoiceId (new_invoice i now inp) = ni_creditedInvoiceId inp"
  "in_issueYear (new_invoice i now inp) = None"
  "in_issueSequence (new_invoice i now inp) = None"
  "in_documentNumber (new_invoice i now inp) = None"
  "in_subtotalCents (new_invoice i now inp) = ni_subtotalCents inp"
  "in_vatRateBps (new_invoice i now inp) = ni_vatRateBps inp"
  "in_vatCents (new_invoice i now inp) = fst (computeInvoiceAmounts (ni_subtotalCents inp) (ni_vatRateBps inp))"
  "in_totalCents (new_invoice i now inp) = snd (computeInvoiceAmounts (ni_subtotalCents inp) (ni_vatRateBps inp))"
  by (simp_all add: new_invoice_def Let_def split: prod.split)

lemma updated_invoice_sel:
  "in_id (updated_invoice inp v) = in_id v"
  "in_status (updated_invoice inp v) = in_status v"
  "in_kind (updated_invoice inp v) = in_kind v"
  "in_companyId (updated_invoice inp v) = in_companyId v"
  "in_creditedInvoiceId (updated_invoice inp v) = in_creditedInvoiceId v"
  "in_issueYear (updated_invoice inp v) = in_issueYear v"
  "in_issueSequence (updated_invoice inp v) = in_issueSequence v"
  "in_documentNumber (updated_invoice inp v) = in_documentNumber v"
  "in_subtotalCents (updated_invoice inp v) = or_else (ui_subtotalCents inp) (in_subtotalCents v)"
  "in_vatRateBps (updated_invoice inp v) = or_else (ui_vatRateBps inp) (in_vatRateBps v)"
  "in_vatCents (updated_invoice inp v) =
     fst (computeInvoiceAmounts (or_else (ui_subtotalCents inp) (in_subtotalCents v)) (or_else (ui_vatRateBps inp) (in_vatRateBps v)))"
  "in_totalCents (updated_invoice inp v) =
     snd (computeInvoiceAmounts (or_else (ui_subtotalCents inp) (in_subtotalCents v)) (or_else (ui_vatRateBps inp) (in_vatRateBps v)))"
  by (simp_all add: updated_invoice_def Let_def split: prod.split)

lemma find_invoice_mem: "find_invoice d i = Some v \<Longrightarrow> in_id v = i \<and> v \<in> set (d_invoices d)"
  using invoices.find_Some [of i d v] by (simp add: find_invoice_def)

lemma invoice_row_Inr:
  "invoice_row d env user i = Inr v \<longleftrightarrow> find_invoice d i = Some v \<and> may_see_company env user (in_companyId v)"
  by (auto simp: invoice_row_def Let_def andThen_Inr)

interpretation invoice_rows: guarded_rows invoice_row find_invoice in_companyId "\<lambda>v st. True"
proof unfold_locales
  fix d :: db and env user i e
  assume "invoice_row d env user i = Inl e"
  then show "\<exists>m. e = NotFound m"
    by (auto simp: invoice_row_def Let_def andThen_Inl assertSameCompany_def split: if_splits)
qed (auto simp: invoice_row_Inr isAgentStationScoped_def)

lemma last_issued_frame [simp]: "last_issued (d_invoices_update f d) = last_issued d"
  by (simp add: last_issued_def fun_eq_iff)

lemma last_issued_bump:
  "last_issued (d_sequences_update (bump_sequence c y) d) =
     (\<lambda>c' y'. if c' = c \<and> y' = y then last_issued d c' y' + 1 else last_issued d c' y')"
proof -
  define at where "at c y qs = (case List.find (\<lambda>q. fq_companyId q = c \<and> fq_year q = y) qs of None \<Rightarrow> 0 | Some q \<Rightarrow> fq_lastIssued q)"
    for c y and qs :: "fiscal_sequence list"
  have at: "at c' y' [] = 0"
    "at c' y' (q # qs) = (if fq_companyId q = c' \<and> fq_year q = y' then fq_lastIssued q else at c' y' qs)" for c' y' q qs
    by (simp_all add: at_def)
  have absent: "at c' y' (qs @ [q]) = (if fq_companyId q = c' \<and> fq_year q = y' then fq_lastIssued q else at c' y' qs)"
    if "\<not> list_ex (\<lambda>x. fq_companyId x = fq_companyId q \<and> fq_year x = fq_year q) qs" for c' y' q qs
    using that by (induction qs) (auto simp: at)
  have none: "at c y qs = 0" if "\<not> list_ex (\<lambda>x. fq_companyId x = c \<and> fq_year x = y) qs" for qs
    using that by (induction qs) (auto simp: at)
  have present: "at c' y' (map (\<lambda>q. if fq_companyId q = c \<and> fq_year q = y then q\<lparr>fq_lastIssued := fq_lastIssued q + 1\<rparr> else q) qs) =
      (if c' = c \<and> y' = y \<and> list_ex (\<lambda>x. fq_companyId x = c \<and> fq_year x = y) qs then at c' y' qs + 1 else at c' y' qs)"
    for c' y' qs
    by (induction qs) (auto simp: at)
  have "at c' y' (bump_sequence c y qs) = (if c' = c \<and> y' = y then at c' y' qs + 1 else at c' y' qs)" for c' y' qs
    using absent [of "\<lparr>fq_companyId = c, fq_year = y, fq_lastIssued = 1\<rparr>" qs c' y'] none [of qs] present [of c' y' qs]
    by (cases "list_ex (\<lambda>x. fq_companyId x = c \<and> fq_year x = y) qs") (auto simp: bump_sequence_def)
  then show ?thesis by (simp add: last_issued_def at_def fun_eq_iff)
qed


lemma invoices_ok_row:
  assumes "invoices_ok d" "find_invoice d i = Some v"
  obtains R where "mset (d_invoices d) = add_mset v R" "\<And>w. w \<in># R \<Longrightarrow> in_id w \<noteq> in_id v"
    "\<And>f. mset (update_row in_id (in_id v) f (d_invoices d)) = add_mset (f v) R"
    "mset (delete_row in_id (in_id v) (d_invoices d)) = R"
proof -
  have v: "v \<in> set (d_invoices d)" "keyed in_id (d_invoices d)"
    using find_invoice_mem assms by (auto simp: invoices_ok_def)
  obtain R where R: "mset (d_invoices d) = add_mset v R" "mset (delete_row in_id (in_id v) (d_invoices d)) = R"
      "\<And>w. w \<in># R \<Longrightarrow> in_id w \<noteq> in_id v"
    using update_row_mset [OF v(2,1), of id] by metis
  have "mset (update_row in_id (in_id v) f (d_invoices d)) = add_mset (f v) R" for f
    using update_row_mset [OF v(2,1), of f] R by (metis add_mset_add_mset_same_iff)
  then show thesis using R that by blast
qed

lemma invoices_ok_update:
  assumes "invoices_ok d" "find_invoice d i = Some v" "\<And>x. in_id (f x) = in_id x"
    and "\<And>R. mset (d_invoices d) = add_mset v R \<Longrightarrow> (\<And>w. w \<in># R \<Longrightarrow> in_id w \<noteq> in_id v) \<Longrightarrow>
       ledger_ok (last_issued d) (add_mset v R) \<Longrightarrow> ledger_ok (last_issued d) (add_mset (f v) R)"
  shows "invoices_ok (d_invoices_update (update_row in_id (in_id v) f) d)"
proof -
  obtain R where R: "mset (d_invoices d) = add_mset v R" "\<And>w. w \<in># R \<Longrightarrow> in_id w \<noteq> in_id v"
    "mset (update_row in_id (in_id v) f (d_invoices d)) = add_mset (f v) R"
    using invoices_ok_row [OF assms(1,2)] by metis
  then show ?thesis
    using assms(4) [OF R(1,2)] assms(1) invoices.keyed_update [of d f "in_id v"] assms(3) by (simp add: invoices_ok_def)
qed

lemma invoice_create_keeps:
  assumes ok: "invoices_ok d" and inp: "createInvoiceSchema inp"
  shows "keeps invoices_ok (invoice_create ctx user newId inp) d"
proof -
  let ?v = "new_invoice newId (c_now ctx) inp"
  have new: "invoices_ok (d_invoices_update (\<lambda>vs. vs @ [?v]) d)"
    if free: "find_invoice d newId = None"
      and cr: "ni_kind inp = CREDIT_NOTE \<longrightarrow> check_credited d (ni_companyId inp) (ni_creditedInvoiceId inp) = Inr ()"
  proof -
    have "document_ok ?v"
      using inp by (simp add: document_ok_def new_invoice_sel createInvoiceSchema_def amount_ok_def rate_ok_def amount_total_nonneg)
    moreover have "credits_issued (mset (d_invoices d)) ?v"
      unfolding credits_issued_def
    proof
      assume "in_kind ?v = CREDIT_NOTE"
      then obtain x y where x: "ni_creditedInvoiceId inp = Some y" "find_invoice d y = Some x" "in_companyId x = ni_companyId inp"
          "in_status x = INV_ISSUED" "in_kind x = INVOICE"
        using cr by (auto simp: new_invoice_sel check_credited_def andThen_Inr bind_eq_Some_conv)
      then show "\<exists>x. x \<in># mset (d_invoices d) \<and> in_creditedInvoiceId ?v = Some (in_id x) \<and> in_kind x = INVOICE \<and>
          in_companyId x = in_companyId ?v \<and> in_status x \<noteq> INV_DRAFT"
        using find_invoice_mem [OF x(2)] by (intro exI [of _ x]) (simp add: new_invoice_sel)
    qed
    moreover have "in_id w \<noteq> in_id ?v" if "w \<in># mset (d_invoices d)" for w
      using that free by (auto simp: find_invoice_def invoices.find_None new_invoice_sel)
    ultimately have "ledger_ok (last_issued d) (add_mset ?v (mset (d_invoices d)))"
      using ok by (intro ledger_insert) (auto simp: new_invoice_sel invoices_ok_def)
    then show ?thesis
      using ok free invoices.keyed_insert [of d ?v] by (simp add: invoices_ok_def find_invoice_def new_invoice_sel)
  qed
  show ?thesis
    unfolding keeps_def invoice_create_def insert_invoice_def
    using ok new by (auto simp: wp Let_def new_invoice_sel)
qed

lemma updated_document_ok:
  assumes "document_ok v" "updateInvoiceSchema inp"
  shows "document_ok (updated_invoice inp v)"
proof -
  define sub rate where "sub = or_else (ui_subtotalCents inp) (in_subtotalCents v)"
    and "rate = or_else (ui_vatRateBps inp) (in_vatRateBps v)"
  have "0 \<le> sub" "0 \<le> rate"
    using assms
    by (auto simp: sub_def rate_def or_else_def document_ok_def updateInvoiceSchema_def amount_ok_def rate_ok_def split: option.splits)
  then show ?thesis
    using assms(1) amount_total_nonneg [of sub rate]
    unfolding document_ok_def updated_invoice_sel sub_def [symmetric] rate_def [symmetric] by simp
qed

lemma invoice_update_keeps:
  assumes ok: "invoices_ok d" and inp: "updateInvoiceSchema inp"
  shows "keeps invoices_ok (invoice_update ctx user i inp) d"
proof -
  have "invoices_ok (d_invoices_update (update_row in_id (in_id v) (updated_invoice inp)) d)"
    if v: "check_invoice_update d (c_env ctx) user i inp = Inr v" for v
  proof -
    have f: "find_invoice d i = Some v" "in_status v = INV_DRAFT"
      using v by (auto simp: check_invoice_update_def andThen_Inr invoice_row_Inr)
    show ?thesis
    proof (rule invoices_ok_update [OF ok f(1)])
      fix R
      assume R: "\<And>w. w \<in># R \<Longrightarrow> in_id w \<noteq> in_id v" and led: "ledger_ok (last_issued d) (add_mset v R)"
      have "document_ok v" using led by (simp add: ledger_ok_def)
      from updated_document_ok [OF this inp] show "ledger_ok (last_issued d) (add_mset (updated_invoice inp v) R)"
        using R f(2) by (intro ledger_redraft [OF led f(2)]) (simp_all add: updated_invoice_sel)
    qed (simp add: updated_invoice_sel)
  qed
  then show ?thesis
    unfolding keeps_def invoice_update_def using ok by (auto simp: wp)
qed

lemma invoice_void_keeps:
  assumes ok: "invoices_ok d"
  shows "keeps invoices_ok (invoice_void ctx user i) d"
proof -
  have "invoices_ok (d_invoices_update (update_row in_id (in_id v) (in_status_update (\<lambda>_. INV_VOID))) d)"
    if "find_invoice d i = Some v" "in_status v = INV_ISSUED" for v
    using that by (intro invoices_ok_update [OF ok that(1)] ledger_void) simp_all
  then show ?thesis
    unfolding keeps_def invoice_void_def using ok by (auto simp: wp invoice_row_Inr)
qed

lemma invoice_remove_keeps:
  assumes ok: "invoices_ok d"
  shows "keeps invoices_ok (invoice_remove ctx user i) d"
proof -
  have "invoices_ok (d_invoices_update (delete_row in_id (in_id v)) d)"
    if f: "find_invoice d i = Some v" "in_status v = INV_DRAFT" for v
  proof -
    obtain R where R: "mset (d_invoices d) = add_mset v R" "mset (delete_row in_id (in_id v) (d_invoices d)) = R"
      using invoices_ok_row [OF ok f(1)] by metis
    have "ledger_ok (last_issued d) R"
      by (rule ledger_delete [of _ v]) (use ok R(1) f(2) in \<open>simp_all add: invoices_ok_def\<close>)
    then show ?thesis
      using ok R(2) invoices.keyed_delete [of d] by (simp add: invoices_ok_def)
  qed
  then show ?thesis
    unfolding keeps_def invoice_remove_def using ok by (auto simp: wp invoice_row_Inr)
qed


lemma invoice_issue_keeps:
  assumes ok: "invoices_ok d"
  shows "keeps invoices_ok (invoice_issue ctx user i) d"
proof -
  define year where "year = year_from_day (day_of (c_now ctx))"
  have step: "invoices_ok (d_invoices_update (update_row in_id (in_id v) (issued_invoice now year (last_issued d1 (in_companyId v) year))) d1)"
    if v: "check_issue d (c_env ctx) user i = Inr v"
      and d1: "d1 = d_sequences_update (bump_sequence (in_companyId v) year) d" for v now d1
  proof -
    have f: "find_invoice d i = Some v" "in_status v = INV_DRAFT" "check_credit d v = Inr ()"
      using v by (auto simp: check_issue_def andThen_Inr invoice_row_Inr)
    obtain R where R: "mset (d_invoices d) = add_mset v R" "\<And>w. w \<in># R \<Longrightarrow> in_id w \<noteq> in_id v"
      "\<And>f. mset (update_row in_id (in_id v) f (d_invoices d)) = add_mset (f v) R"
      using invoices_ok_row [OF ok f(1)] by metis
    have only: "find_invoice d (in_id x) = Some x" if "x \<in># add_mset v R" for x
      using that invoices.find_keyed [of d x] ok unfolding R(1) [symmetric]
      by (simp add: invoices_ok_def find_invoice_def)
    have "ledger_ok (last_issued d1) (add_mset (issued_invoice now year (last_issued d (in_companyId v) year + 1) v) R)"
      unfolding d1 last_issued_bump
    proof (rule ledger_issue)
      show "ledger_ok (last_issued d) (add_mset v R)" using ok R(1) by (simp add: invoices_ok_def)
      show "0 \<le> last_issued d (in_companyId v) year" using ok by (simp add: invoices_ok_def)
      show "in_totalCents v + credited (in_id x) (add_mset v R) \<le> in_totalCents x"
        if "x \<in># add_mset v R" "in_kind v = CREDIT_NOTE" "in_creditedInvoiceId v = Some (in_id x)" for x
        using f(3) that only [OF that(1)]
        by (auto simp: check_credit_def andThen_Inr remaining_credit_eq R(1) [symmetric] split: if_splits)
    qed (use f(2) R(2) in auto)
    moreover have seq: "last_issued d1 (in_companyId v) year = last_issued d (in_companyId v) year + 1"
      by (simp add: d1 last_issued_bump)
    moreover have "keyed in_id (d_invoices (d_invoices_update
        (update_row in_id (in_id v) (issued_invoice now year (last_issued d1 (in_companyId v) year))) d1))"
      using ok by (intro invoices.keyed_update) (simp_all add: invoices_ok_def d1 issued_invoice_def)
    moreover have "0 \<le> last_issued d1 c y" for c y
      using ok by (simp add: d1 last_issued_bump invoices_ok_def)
    moreover have "d_invoices d1 = d_invoices d" by (simp add: d1)
    ultimately show ?thesis
      using R(3) unfolding invoices_ok_def by simp
  qed
  show ?thesis
    unfolding keeps_def invoice_issue_def issue_number_def reserve_number_def year_def [symmetric]
    using ok step by (auto simp: wp)
qed

text \<open>The unique key of company, year and number is never violated.\<close>

lemma reserved_number_free:
  assumes ok: "invoices_ok d" and v: "find_invoice d i = Some v"
    and d1: "d1 = d_sequences_update (bump_sequence (in_companyId v) year) d"
  shows "number_free d1 v year (last_issued d1 (in_companyId v) year)"
proof -
  let ?c = "in_companyId v"
  have "numbers ?c year (mset (d_invoices d)) = mset [1..last_issued d ?c year]"
    using ok by (simp add: invoices_ok_def ledger_ok_def)
  then have "set_mset (numbers ?c year (mset (d_invoices d))) = {1..last_issued d ?c year}" by simp
  then have "the (in_issueSequence x) \<le> last_issued d ?c year"
    if "x \<in> set (d_invoices d)" "in_companyId x = ?c" "in_issueYear x = Some year" for x
    using that by (auto simp: numbers_def image_iff set_eq_iff)
  then show ?thesis
    by (fastforce simp: number_free_def d1 last_issued_bump list_ex_iff)
qed

lemma issue_never_clashes:
  assumes "invoices_ok d"
  shows "fst (invoice_issue ctx user i d) \<noteq> Inl (Prisma ''P2002'')"
proof -
  have free: "number_free (d_sequences_update (bump_sequence c year) d) v year (last_issued (d_sequences_update (bump_sequence c year) d) c year)"
    if "find_invoice d i = Some v" "in_companyId v = c" for c v year
    using reserved_number_free [OF assms that(1) refl] that(2) by simp
  have "wpre (invoice_issue ctx user i) (\<lambda>_ _. True) (\<lambda>e _. e \<noteq> Prisma ''P2002'') d"
    unfolding invoice_issue_def issue_number_def reserve_number_def
    by (auto intro!: free simp: wp not_accounting_def check_issue_def andThen_Inr andThen_Inl invoice_row_def Let_def
        check_credit_def assertSameCompany_def split: if_splits)
  then show ?thesis by (cases "invoice_issue ctx user i d") (auto simp: wpre_def)
qed

section \<open>Any sequence of requests\<close>

datatype invoice_request =
    CreateInvoice ctx jwt_user string create_invoice_input
  | UpdateInvoice ctx jwt_user string update_invoice_input
  | IssueInvoice ctx jwt_user string
  | VoidInvoice ctx jwt_user string
  | RemoveInvoice ctx jwt_user string

fun invoice_request_ok :: "invoice_request \<Rightarrow> bool" where
  "invoice_request_ok (CreateInvoice _ _ _ inp) = createInvoiceSchema inp"
| "invoice_request_ok (UpdateInvoice _ _ _ inp) = updateInvoiceSchema inp"
| "invoice_request_ok _ = True"

fun serve_invoice :: "invoice_request \<Rightarrow> unit dbprog" where
  "serve_invoice (CreateInvoice ctx user newId inp) = andDo (invoice_create ctx user newId inp) (ret ())"
| "serve_invoice (UpdateInvoice ctx user i inp) = andDo (invoice_update ctx user i inp) (ret ())"
| "serve_invoice (IssueInvoice ctx user i) = andDo (invoice_issue ctx user i) (ret ())"
| "serve_invoice (VoidInvoice ctx user i) = andDo (invoice_void ctx user i) (ret ())"
| "serve_invoice (RemoveInvoice ctx user i) = invoice_remove ctx user i"

fun serve_invoices :: "invoice_request list \<Rightarrow> db \<Rightarrow> db" where
  "serve_invoices [] d = d"
| "serve_invoices (r # rs) d = serve_invoices rs (snd (serve_invoice r d))"

lemma serve_invoice_keeps:
  assumes "invoices_ok d" "invoice_request_ok r"
  shows "keeps invoices_ok (serve_invoice r) d"
  using assms
  by (cases r)
    (auto intro!: keeps_andDo_ret invoice_create_keeps invoice_update_keeps invoice_issue_keeps invoice_void_keeps invoice_remove_keeps)

lemma serve_invoices_keeps:
  "invoices_ok d \<Longrightarrow> list_all invoice_request_ok rs \<Longrightarrow> invoices_ok (serve_invoices rs d)"
  by (induction rs arbitrary: d) (auto simp: serve_invoice_keeps keeps_run [symmetric])

lemma invoices_ok_empty: "d_invoices d = [] \<Longrightarrow> d_sequences d = [] \<Longrightarrow> invoices_ok d"
  by (simp add: invoices_ok_def keyed_def ledger_ok_def last_issued_def numbers_def)

section \<open>Properties\<close>

text \<open>
  C5: Fiscal numbers have no gaps: after any sequence of invoice requests the numbers a company has given out
  in a year are exactly 1 to its counter, each once, and every one of these documents carries the
  printed form of its number.
\<close>

theorem fiscal_numbers_gapless:
  assumes "invoices_ok d" "list_all invoice_request_ok rs" "d' = serve_invoices rs d"
    and "docs = filter (\<lambda>v. in_companyId v = c \<and> in_issueYear v = Some y) (d_invoices d')"
  shows "sort (map (\<lambda>v. the (in_issueSequence v)) docs) = [1..last_issued d' c y] \<and>
    (\<forall>v\<in>set docs. in_status v \<noteq> INV_DRAFT \<and>
       in_documentNumber v = Some (document_number y (the (in_issueSequence v))))"
proof -
  have ok: "invoices_ok d'" using serve_invoices_keeps assms(1-3) by simp
  have "mset (map (\<lambda>v. the (in_issueSequence v)) docs) = numbers c y (mset (d_invoices d'))"
    by (simp add: numbers_def assms(4))
  also have "\<dots> = mset [1..last_issued d' c y]" using ok by (simp add: invoices_ok_def ledger_ok_def)
  finally have "sort (map (\<lambda>v. the (in_issueSequence v)) docs) = [1..last_issued d' c y]"
    by (intro properties_for_sort) simp_all
  moreover have "document_ok v" if "v \<in> set docs" for v
    using ok that by (simp add: invoices_ok_def ledger_ok_def assms(4))
  then have "\<forall>v\<in>set docs. in_status v \<noteq> INV_DRAFT \<and> in_documentNumber v = Some (document_number y (the (in_issueSequence v)))"
    by (fastforce simp: document_ok_def assms(4))
  ultimately show ?thesis ..
qed

definition demo_invoice :: "invoice_kind \<Rightarrow> string option \<Rightarrow> int \<Rightarrow> create_invoice_input" where
  "demo_invoice kind target cents = \<lparr>ni_companyId = ''acme'', ni_kind = kind, ni_reservationId = Some ''r1'',
     ni_creditedInvoiceId = target, ni_subtotalCents = cents, ni_vatRateBps = 2200, ni_currency = ''EUR'',
     ni_description = None\<rparr>"

definition demo_invoice_requests :: "invoice_request list" where
  "demo_invoice_requests =
     [CreateInvoice demo_ctx demo_manager ''i1'' (demo_invoice INVOICE None 10000), IssueInvoice demo_ctx demo_manager ''i1'',
      CreateInvoice demo_ctx demo_manager ''i2'' (demo_invoice CREDIT_NOTE (Some ''i1'') 6000), IssueInvoice demo_ctx demo_manager ''i2'']"

definition demo_ledger :: db where
  "demo_ledger = serve_invoices demo_invoice_requests demo_db"

lemma demo_ledger_ok: "invoices_ok demo_db" "list_all invoice_request_ok demo_invoice_requests"
proof -
  show "invoices_ok demo_db" by (rule invoices_ok_empty) (simp_all add: demo_db_def empty_db_def)
  show "list_all invoice_request_ok demo_invoice_requests" by code_simp
qed

lemma demo_ledger_run:
  "(map in_status (d_invoices demo_ledger), last_issued demo_ledger ''acme'' 2024) = ([INV_ISSUED, INV_ISSUED], 2)"
  unfolding demo_ledger_def by code_simp

theorem fiscal_numbers_gapless_witness:
  "sort (map (\<lambda>v. the (in_issueSequence v))
     (filter (\<lambda>v. in_companyId v = ''acme'' \<and> in_issueYear v = Some 2024) (d_invoices demo_ledger))) = [1..2]"
proof -
  show ?thesis
    using demo_ledger_run fiscal_numbers_gapless [OF demo_ledger_ok demo_ledger_def refl, of "''acme''" 2024] by simp
qed

text \<open>
  C19: Credit stays within what was invoiced: after any sequence of invoice requests, the issued credit notes on
  a document together never exceed its total.
\<close>

theorem credit_within_invoice:
  assumes "invoices_ok d" "list_all invoice_request_ok rs" "d' = serve_invoices rs d" "orig \<in> set (d_invoices d')"
  shows "sum_list (map in_totalCents (filter (\<lambda>n. in_kind n = CREDIT_NOTE \<and> in_status n = INV_ISSUED \<and>
      in_creditedInvoiceId n = Some (in_id orig)) (d_invoices d'))) \<le> in_totalCents orig"
proof -
  have ok: "invoices_ok d'" using serve_invoices_keeps assms(1-3) by simp
  have "sum_list (map in_totalCents (filter (\<lambda>n. in_kind n = CREDIT_NOTE \<and> in_status n = INV_ISSUED \<and>
      in_creditedInvoiceId n = Some i) vs)) = credited i (mset vs)" for i vs
    by (induction vs) (auto simp: counts_for_def)
  then show ?thesis using ok assms(4) by (simp add: invoices_ok_def ledger_ok_def)
qed

theorem credit_within_invoice_witness:
  "\<exists>orig. orig \<in> set (d_invoices demo_ledger) \<and> in_kind orig = INVOICE \<and>
     sum_list (map in_totalCents (filter (\<lambda>n. in_kind n = CREDIT_NOTE \<and> in_status n = INV_ISSUED \<and>
      in_creditedInvoiceId n = Some (in_id orig)) (d_invoices demo_ledger))) \<le> in_totalCents orig"
proof -
  have "map in_kind (d_invoices demo_ledger) = [INVOICE, CREDIT_NOTE]"
    unfolding demo_ledger_def by code_simp
  then obtain orig where "orig \<in> set (d_invoices demo_ledger)" "in_kind orig = INVOICE"
    by (cases "d_invoices demo_ledger") auto
  then show ?thesis
    using credit_within_invoice [OF demo_ledger_ok demo_ledger_def] by blast
qed

text \<open>The tax is the rate applied to the subtotal, rounded to the nearest cent.\<close>

lemma vat_nearest: "\<bar>10000 * vat_of s r - s * r\<bar> \<le> 5000"
proof -
  have "s * r + 5000 = 10000 * vat_of s r + (s * r + 5000) mod 10000"
    unfolding vat_of_def by simp
  moreover have "0 \<le> (s * r + 5000) mod 10000" "(s * r + 5000) mod 10000 < 10000" by simp_all
  ultimately show ?thesis by linarith
qed

text \<open>The schema lets amounts pass whose tax no column can hold: the request ends in a server error.\<close>

lemma accepted_amount_overflows:
  "let inp = (demo_invoice INVOICE None 1000000000)\<lparr>ni_vatRateBps := 100000\<rparr>
   in createInvoiceSchema inp \<and>
      fst (invoice_create demo_ctx demo_manager ''i1'' inp demo_db) = Inl (Crash ''value does not fit INT4'')"
  by code_simp

end
