(* ===== verification/Cargos.thy ===== *)
theory Cargos
  imports Reservation_Core Partner_Webhook Row_Changes Fixtures
begin

text \<open>
  \<open>apps/api/src/integrations/cargos/cargos.service.ts\<close> and the submission loop of
  \<open>apps/worker/src/main.ts\<close>: the queue of police notifications, filled and, on request, sent by
  the API, and drained by the worker. The company's adapter over HTTP is a parameter,
  \<open>http url submission reservation\<close>; the contents of its request, logs, delays and counters are left out.
\<close>

section \<open>Settings\<close>

definition parsePosInt :: "string option \<Rightarrow> int \<Rightarrow> int" where
  "parsePosInt s def =
     (if \<not> truthy s then def
      else case parseInt10 (the s) of None \<Rightarrow> def | Some n \<Rightarrow> if n \<ge> 1 then n else def)"

definition max_attempts :: "env \<Rightarrow> int" where
  "max_attempts env = parsePosInt (env ''CARGOS_MAX_ATTEMPTS'') 5"

type_synonym cargos_http = "string \<Rightarrow> cargos_submission \<Rightarrow> reservation \<Rightarrow> http_outcome"

section \<open>One submission\<close>

definition update_submission :: "time \<Rightarrow> string \<Rightarrow> (cargos_submission \<Rightarrow> cargos_submission) \<Rightarrow> db \<Rightarrow> db" where
  "update_submission now i f = d_cargos_update (update_row cs_id i (\<lambda>s. (f s)\<lparr>cs_updatedAt := now\<rparr>))"

definition settle :: "time \<Rightarrow> cargos_status \<Rightarrow> string option \<Rightarrow> cargos_submission \<Rightarrow> cargos_submission" where
  "settle now status msg s = s\<lparr>cs_status := status, cs_processedAt := Some now, cs_errorMessage := msg\<rparr>"

definition failOrRequeue :: "time \<Rightarrow> cargos_submission \<Rightarrow> int \<Rightarrow> string \<Rightarrow> cargos_submission \<Rightarrow> cargos_submission" where
  "failOrRequeue now s maxAttempts errMsg x =
     (let nextCount = cs_attemptCount s + 1
      in if nextCount \<ge> maxAttempts
         then (settle now CG_FAILED (Some (take 2000 errMsg)) x)\<lparr>cs_attemptCount := nextCount\<rparr>
         else x\<lparr>cs_status := CG_PENDING, cs_errorMessage := Some (take 2000 errMsg), cs_attemptCount := nextCount\<rparr>)"

definition lock_submission :: "time \<Rightarrow> string \<Rightarrow> db \<Rightarrow> db" where
  "lock_submission now i =
     d_cargos_update (map (\<lambda>s. if cs_id s = i \<and> cs_status s = CG_PENDING
       then s\<lparr>cs_status := CG_PROCESSING, cs_updatedAt := now\<rparr> else s))"

text \<open>
  What happens to a submission that has been locked; both the API and the worker run it. The row is as it was
  before the lock, and what is written to it follows from what was read and from the answer.
\<close>

definition adapter_outcome ::
  "cargos_http \<Rightarrow> env \<Rightarrow> time \<Rightarrow> cargos_submission \<Rightarrow> db \<Rightarrow> cargos_submission \<Rightarrow> cargos_submission" where
  "adapter_outcome http env now s d =
     (case find_company d (cs_companyId s) of
        None \<Rightarrow> settle now CG_FAILED (Some ''Company not found'')
      | Some c \<Rightarrow>
          if \<not> co_cargosInScope c \<or> co_cargosAdapter c = ADAPTER_OFF then
            settle now CG_SKIPPED (Some (if \<not> co_cargosInScope c then ''In scope: false (D5)'' else ''Adapter OFF (D5)''))
          else if co_cargosAdapter c = ADAPTER_MOCK then settle now CG_MOCK_SENT None
          else
            let url = (case co_cargosHttpUrl c of None \<Rightarrow> [] | Some u \<Rightarrow> trim u)
            in if url = [] then failOrRequeue now s (max_attempts env) ''cargosHttpUrl not set for HTTP''
               else case find_reservation d (cs_reservationId s) of
                      None \<Rightarrow> settle now CG_FAILED (Some ''Reservation not found'')
                    | Some r \<Rightarrow>
                        (case http url s r of
                           HttpReply status body \<Rightarrow>
                             if 200 \<le> status \<and> status \<le> 299 then settle now CG_MOCK_SENT None
                             else failOrRequeue now s (max_attempts env) (''HTTP '' @ show_int status @ '' '' @ take 500 body)
                         | HttpFailed msg \<Rightarrow> failOrRequeue now s (max_attempts env) msg))"

definition run_adapter :: "cargos_http \<Rightarrow> env \<Rightarrow> time \<Rightarrow> cargos_submission \<Rightarrow> db \<Rightarrow> db" where
  "run_adapter http env now s d = update_submission now (cs_id s) (adapter_outcome http env now s d) d"

section \<open>The worker\<close>

definition oldest_pending :: "db \<Rightarrow> cargos_submission option" where
  "oldest_pending d =
     (case sort_key cs_createdAt (filter (\<lambda>s. cs_status s = CG_PENDING) (d_cargos d)) of [] \<Rightarrow> None | s # _ \<Rightarrow> Some s)"

definition processOne :: "cargos_http \<Rightarrow> env \<Rightarrow> time \<Rightarrow> db \<Rightarrow> bool \<times> db" where
  "processOne http env now d =
     (case oldest_pending d of
        None \<Rightarrow> (False, d)
      | Some s \<Rightarrow> (True, run_adapter http env now s (lock_submission now (cs_id s) d)))"

text \<open>The loop of the worker until it is idle, with at most \<open>n\<close> rows; the clock may advance.\<close>

fun work :: "(nat \<Rightarrow> cargos_http) \<Rightarrow> env \<Rightarrow> (nat \<Rightarrow> time) \<Rightarrow> nat \<Rightarrow> db \<Rightarrow> bool \<times> db" where
  "work http env clock 0 d = (False, d)"
| "work http env clock (Suc n) d =
     (case processOne (http n) env (clock n) d of
        (False, d') \<Rightarrow> (True, d')
      | (True, d') \<Rightarrow> work http env clock n d')"

definition resetStaleProcessing :: "int \<Rightarrow> time \<Rightarrow> db \<Rightarrow> db" where
  "resetStaleProcessing staleMs now =
     d_cargos_update (map (\<lambda>s. if cs_status s = CG_PROCESSING \<and> cs_updatedAt s < now - max 60000 staleMs
       then s\<lparr>cs_status := CG_PENDING, cs_updatedAt := now\<rparr> else s))"

section \<open>The API\<close>

definition new_submission :: "string \<Rightarrow> time \<Rightarrow> reservation \<Rightarrow> cargos_status \<Rightarrow> string option \<Rightarrow> cargos_submission" where
  "new_submission newId now r status msg =
     \<lparr>cs_id = newId, cs_companyId = r_companyId r, cs_reservationId = r_id r, cs_status = status,
      cs_errorMessage = msg, cs_attemptCount = 0,
      cs_processedAt = (if status = CG_PENDING then None else Some now), cs_createdAt = now, cs_updatedAt = now\<rparr>"

definition insert_submission :: "cargos_submission \<Rightarrow> cargos_submission dbprog" where
  "insert_submission s =
     andDo (asks (\<lambda>d. ensure (find_row cs_id (cs_id s) (d_cargos d) = None) (Prisma ''P2002'')))
     (andDo (modify (d_cargos_update (\<lambda>ss. ss @ [s]))) (ret s))"

definition in_flight :: "string \<Rightarrow> cargos_submission \<Rightarrow> bool" where
  "in_flight reservationId s \<longleftrightarrow> cs_reservationId s = reservationId \<and> cs_status s \<in> {CG_PENDING, CG_PROCESSING}"

definition find_inflight :: "db \<Rightarrow> string \<Rightarrow> cargos_submission option" where
  "find_inflight d reservationId =
     (case sort_key (\<lambda>s. - cs_createdAt s) (filter (in_flight reservationId) (d_cargos d)) of [] \<Rightarrow> None | s # _ \<Rightarrow> Some s)"

definition transmitPendingSubmission ::
  "cargos_http \<Rightarrow> ctx \<Rightarrow> jwt_user \<Rightarrow> string \<Rightarrow> cargos_submission dbprog" where
  "transmitPendingSubmission http ctx user i =
     bnd (asks (\<lambda>d. orElse (find_row cs_id i (d_cargos d)) (NotFound (''CaRGOS submission not found: '' @ i)))) (\<lambda>s.
     andDo (asks (\<lambda>d. getScopedReservationRecord d (c_env ctx) user (cs_reservationId s)))
     (andDo (if cs_status s = CG_PENDING
             then modify (\<lambda>d. run_adapter http (c_env ctx) (c_now ctx) s (lock_submission (c_now ctx) i d))
             else ret ())
     (asks (\<lambda>d. orElse (find_row cs_id i (d_cargos d)) (Prisma ''P2025'')))))"

definition check_enqueue :: "reservation \<Rightarrow> company \<Rightarrow> unit result" where
  "check_enqueue r c =
     (if co_cargosAdapter c = ADAPTER_HTTP \<and> \<not> truthy (map_option trim (co_cargosHttpUrl c))
      then Inl (BadRequest ''Set company cargosHttpUrl in Organization (CaRGOS), or use MOCK / OFF adapter'')
      else Inr ())"

text \<open>
  Queueing is a lookup, then a write, then, on request, a transmission; each is a statement of its own and nothing
  holds the first two together.
\<close>

datatype enqueue_plan = SkipQueue string | InFlight cargos_submission | QueueNew

definition enqueue_lookup :: "db \<Rightarrow> ctx \<Rightarrow> jwt_user \<Rightarrow> string \<Rightarrow> (reservation \<times> enqueue_plan) result" where
  "enqueue_lookup d ctx user reservationId =
     andThen (getScopedReservationRecord d (c_env ctx) user reservationId) (\<lambda>r.
     andThen (ensure (r_status r \<noteq> CANCELLED) (BadRequest ''Will not queue CaRGOS for a cancelled reservation'')) (\<lambda>_.
     andThen (orElse (find_company d (r_companyId r)) (Prisma ''P2025'')) (\<lambda>c.
     if \<not> co_cargosInScope c then Inr (r, SkipQueue ''Company: CaRGOS not in scope (D5)'')
     else if co_cargosAdapter c = ADAPTER_OFF then Inr (r, SkipQueue ''Company: CaRGOS adapter OFF (D5)'')
     else
       andThen (check_enqueue r c) (\<lambda>_.
       case find_inflight d (r_id r) of
         Some s \<Rightarrow> Inr (r, InFlight s)
       | None \<Rightarrow>
           if isPastCargosEnqueueCutoff (r_pickupAt r) (co_cargosCutoffMinutesBeforePickup c) (c_now ctx)
           then Inl (BadRequest ''CaRGOS: cannot enqueue after the cutoff before pickup (company policy). Reschedule pickup or ask Branch/Admin for a handover override.'')
           else Inr (r, QueueNew)))))"

definition enqueue_write :: "ctx \<Rightarrow> string \<Rightarrow> reservation \<times> enqueue_plan \<Rightarrow> cargos_submission dbprog" where
  "enqueue_write ctx newId p =
     (case snd p of
        SkipQueue msg \<Rightarrow> insert_submission (new_submission newId (c_now ctx) (fst p) CG_SKIPPED (Some msg))
      | InFlight s \<Rightarrow> ret s
      | QueueNew \<Rightarrow> insert_submission (new_submission newId (c_now ctx) (fst p) CG_PENDING None))"

definition enqueue :: "cargos_http \<Rightarrow> ctx \<Rightarrow> jwt_user \<Rightarrow> string \<Rightarrow> string \<Rightarrow> bool \<Rightarrow> cargos_submission dbprog" where
  "enqueue http ctx user newId reservationId sendImmediately =
     bnd (asks (\<lambda>d. enqueue_lookup d ctx user reservationId)) (\<lambda>p.
     bnd (enqueue_write ctx newId p) (\<lambda>s.
     if sendImmediately \<and> cs_status s = CG_PENDING then transmitPendingSubmission http ctx user (cs_id s)
     else ret s))"

record submission_query =
  sq_companyId :: "string option"
  sq_reservationId :: "string option"

definition check_submission_query :: "db \<Rightarrow> env \<Rightarrow> jwt_user \<Rightarrow> submission_query \<Rightarrow> string option result" where
  "check_submission_query d env user q =
     andThen (if truthy (sq_reservationId q)
              then andThen (getScopedReservationRecord d env user (the (sq_reservationId q))) (\<lambda>_. Inr ()) else Inr ()) (\<lambda>_.
     andThen (ensure (\<not> (isAdminCrossCompany env user \<and> \<not> truthy (sq_companyId q) \<and> \<not> truthy (sq_reservationId q)))
       (BadRequest ''Provide companyId and/or reservationId for CaRGOS submission list'')) (\<lambda>_.
     effectiveListCompanyFilter env user (sq_companyId q)))"

definition listSubmissions :: "db \<Rightarrow> env \<Rightarrow> jwt_user \<Rightarrow> submission_query \<Rightarrow> cargos_submission list result" where
  "listSubmissions d env user q =
     andThen (check_submission_query d env user q) (\<lambda>company.
     Inr (take 200 (sort_key (\<lambda>s. - cs_createdAt s) (filter (\<lambda>s.
       (case company of None \<Rightarrow> True | Some c \<Rightarrow> cs_companyId s = c) \<and>
       (truthy (sq_reservationId q) \<longrightarrow> Some (cs_reservationId s) = sq_reservationId q) \<and>
       (isAgentStationScoped user \<and> \<not> truthy (sq_reservationId q) \<longrightarrow>
          (case find_reservation d (cs_reservationId s) of
             None \<Rightarrow> False
           | Some r \<Rightarrow> u_stationId user \<in> {Some (r_pickupStationId r), Some (r_returnStationId r)}))) (d_cargos d)))))"

section \<open>What a transmission does\<close>

text \<open>
  A submission ends, or goes back to the queue with one attempt more as long as attempts are left; what
  it is about stays.
\<close>

definition same_subject :: "(cargos_submission \<Rightarrow> cargos_submission) \<Rightarrow> bool" where
  "same_subject f \<longleftrightarrow>
     (\<forall>x. cs_id (f x) = cs_id x \<and> cs_reservationId (f x) = cs_reservationId x \<and> cs_companyId (f x) = cs_companyId x \<and>
          cs_createdAt (f x) = cs_createdAt x)"

definition ends :: "(cargos_submission \<Rightarrow> cargos_submission) \<Rightarrow> bool" where
  "ends f \<longleftrightarrow> (\<forall>x. cs_status (f x) \<in> {CG_MOCK_SENT, CG_SKIPPED, CG_FAILED})"

definition requeues :: "int \<Rightarrow> int \<Rightarrow> (cargos_submission \<Rightarrow> cargos_submission) \<Rightarrow> bool" where
  "requeues limit tried f \<longleftrightarrow>
     tried + 1 < limit \<and> (\<forall>x. cs_status (f x) = CG_PENDING \<and> cs_attemptCount (f x) = tried + 1)"

definition attempts_once :: "env \<Rightarrow> cargos_submission \<Rightarrow> (cargos_submission \<Rightarrow> cargos_submission) \<Rightarrow> bool" where
  "attempts_once env s f \<longleftrightarrow> same_subject f \<and> (ends f \<or> requeues (max_attempts env) (cs_attemptCount s) f)"

lemma attempts_onceI:
  "st \<in> {CG_MOCK_SENT, CG_SKIPPED, CG_FAILED} \<Longrightarrow> attempts_once env s (settle now st msg)"
  "attempts_once env s (\<lambda>x. (settle now CG_FAILED msg x)\<lparr>cs_attemptCount := n\<rparr>)"
  "cs_attemptCount s + 1 < max_attempts env \<Longrightarrow>
     attempts_once env s (\<lambda>x. x\<lparr>cs_status := CG_PENDING, cs_errorMessage := msg, cs_attemptCount := cs_attemptCount s + 1\<rparr>)"
  by (auto simp: attempts_once_def same_subject_def ends_def requeues_def settle_def)

lemma attempts_onceD:
  assumes "attempts_once env s f"
  shows "same_subject f" "cs_status (f x) \<noteq> CG_PROCESSING"
    "cs_status (f x) = CG_PENDING \<Longrightarrow>
       cs_attemptCount s + 1 < max_attempts env \<and> cs_attemptCount (f x) = cs_attemptCount s + 1"
proof -
  show "same_subject f" using assms by (simp add: attempts_once_def)
  have "cs_status (f x) \<in> {CG_MOCK_SENT, CG_SKIPPED, CG_FAILED} \<or>
      cs_status (f x) = CG_PENDING \<and> cs_attemptCount s + 1 < max_attempts env \<and> cs_attemptCount (f x) = cs_attemptCount s + 1"
    using assms by (simp add: attempts_once_def ends_def requeues_def) blast
  then show "cs_status (f x) \<noteq> CG_PROCESSING" "cs_status (f x) = CG_PENDING \<Longrightarrow>
       cs_attemptCount s + 1 < max_attempts env \<and> cs_attemptCount (f x) = cs_attemptCount s + 1" by auto
qed

lemma failOrRequeue_once: "attempts_once env s (failOrRequeue now s (max_attempts env) msg)"
  using attempts_onceI(2) attempts_onceI(3) [of s env]
  by (cases "max_attempts env \<le> cs_attemptCount s + 1") (simp_all add: failOrRequeue_def [abs_def] Let_def)

lemma adapter_outcome_once: "attempts_once env s (adapter_outcome http env now s d)"
  unfolding adapter_outcome_def Let_def
  by (auto simp: failOrRequeue_once attempts_onceI(1) split: option.split http_outcome.split)

lemma run_adapter_once: "\<exists>f. run_adapter http env now s d = update_submission now (cs_id s) f d \<and> attempts_once env s f"
  using adapter_outcome_once by (auto simp: run_adapter_def)

lemma lock_is_update:
  "d_cargos (lock_submission now i d) = update_row cs_id i
     (\<lambda>s. if cs_status s = CG_PENDING then s\<lparr>cs_status := CG_PROCESSING, cs_updatedAt := now\<rparr> else s) (d_cargos d)"
  by (simp add: lock_submission_def update_row_def)

text \<open>Lock and transmission together are one write to the row.\<close>

lemma transmission_rows:
  obtains f where "attempts_once env s f"
    "d_cargos (run_adapter http env now s (lock_submission now (cs_id s) d)) = update_row cs_id (cs_id s) f (d_cargos d)"
proof -
  let ?lock = "\<lambda>x. if cs_status x = CG_PENDING then x\<lparr>cs_status := CG_PROCESSING, cs_updatedAt := now\<rparr> else x"
  obtain f where f: "run_adapter http env now s (lock_submission now (cs_id s) d) =
      update_submission now (cs_id s) f (lock_submission now (cs_id s) d)" "attempts_once env s f"
    using run_adapter_once by blast
  let ?g = "(\<lambda>x. (f x)\<lparr>cs_updatedAt := now\<rparr>) \<circ> ?lock"
  have "attempts_once env s ?g"
    using f(2) by (auto simp: attempts_once_def same_subject_def ends_def requeues_def)
  moreover have "d_cargos (run_adapter http env now s (lock_submission now (cs_id s) d)) = update_row cs_id (cs_id s) ?g (d_cargos d)"
    unfolding f(1) update_submission_def by (simp add: lock_is_update update_row_twice)
  ultimately show thesis using that by blast
qed

section \<open>The worker gets through the queue\<close>

definition tries_left :: "env \<Rightarrow> cargos_submission \<Rightarrow> nat" where
  "tries_left env s = nat (max 1 (max_attempts env - cs_attemptCount s))"

definition backlog :: "env \<Rightarrow> cargos_submission multiset \<Rightarrow> nat" where
  "backlog env M = (\<Sum>s\<in>#filter_mset (\<lambda>s. cs_status s = CG_PENDING) M. tries_left env s)"

lemma backlog_add:
  "backlog env (add_mset s M) = (if cs_status s = CG_PENDING then tries_left env s else 0) + backlog env M"
  by (simp add: backlog_def)

lemma oldest_pending_Some:
  assumes "oldest_pending d = Some s"
  shows "s \<in> set (d_cargos d)" "cs_status s = CG_PENDING"
proof -
  obtain ss where "sort_key cs_createdAt (filter (\<lambda>s. cs_status s = CG_PENDING) (d_cargos d)) = s # ss"
    using assms by (auto simp: oldest_pending_def split: list.splits)
  then have "s \<in> set (sort_key cs_createdAt (filter (\<lambda>s. cs_status s = CG_PENDING) (d_cargos d)))"
    by (simp only: list.set_intros)
  then show "s \<in> set (d_cargos d)" "cs_status s = CG_PENDING" by auto
qed

lemma oldest_pending_None: "oldest_pending d = None \<Longrightarrow> \<forall>s\<in>set (d_cargos d). cs_status s \<noteq> CG_PENDING"
proof -
  assume "oldest_pending d = None"
  then have "sort_key cs_createdAt (filter (\<lambda>s. cs_status s = CG_PENDING) (d_cargos d)) = []"
    by (auto simp: oldest_pending_def split: list.splits)
  then have "set (filter (\<lambda>s. cs_status s = CG_PENDING) (d_cargos d)) = {}"
    by (metis set_sort empty_set)
  then show ?thesis by auto
qed

lemma transmission_shrinks:
  assumes "keyed cs_id (d_cargos d)" "s \<in> set (d_cargos d)" "cs_status s = CG_PENDING"
    and "d' = run_adapter http env now s (lock_submission now (cs_id s) d)"
  shows "backlog env (mset (d_cargos d')) < backlog env (mset (d_cargos d)) \<and> keyed cs_id (d_cargos d')"
proof -
  obtain f where f: "attempts_once env s f" "d_cargos d' = update_row cs_id (cs_id s) f (d_cargos d)"
    using transmission_rows assms(4) by metis
  obtain M where M: "mset (d_cargos d) = add_mset s M" "mset (d_cargos d') = add_mset (f s) M"
    using update_row_mset [OF assms(1,2), of f] f(2) by metis
  have "(if cs_status (f s) = CG_PENDING then tries_left env (f s) else 0) < tries_left env s"
    using attempts_onceD(3) [OF f(1), where x = s] by (auto simp: tries_left_def)
  moreover have "keyed cs_id (d_cargos d')"
    using assms(1) f keyed_map [of cs_id "\<lambda>r. if cs_id r = cs_id s then f r else r"]
    by (simp add: update_row_def attempts_once_def same_subject_def)
  ultimately show ?thesis by (simp add: M backlog_add assms(3))
qed

lemma work_drains:
  "keyed cs_id (d_cargos d) \<Longrightarrow> backlog env (mset (d_cargos d)) < n \<Longrightarrow>
     fst (work http env clock n d) \<and> (\<forall>s\<in>set (d_cargos (snd (work http env clock n d))). cs_status s \<noteq> CG_PENDING)"
proof (induction n arbitrary: d)
  case (Suc n)
  show ?case
  proof (cases "oldest_pending d")
    case None
    then show ?thesis using oldest_pending_None by (simp add: processOne_def)
  next
    case (Some s)
    let ?d = "run_adapter (http n) env (clock n) s (lock_submission (clock n) (cs_id s) d)"
    have "backlog env (mset (d_cargos ?d)) < backlog env (mset (d_cargos d)) \<and> keyed cs_id (d_cargos ?d)"
      using transmission_shrinks [OF Suc.prems(1) oldest_pending_Some [OF Some] refl] .
    then show ?thesis
      using Suc.IH [of ?d] Suc.prems(2) Some by (simp add: processOne_def)
  qed
qed simp

lemma work_ids: "map cs_id (d_cargos (snd (work http env clock n d))) = map cs_id (d_cargos d)"
proof (induction n arbitrary: d)
  case (Suc n)
  have "map cs_id (d_cargos (snd (processOne (http n) env (clock n) d))) = map cs_id (d_cargos d)"
  proof (cases "oldest_pending d")
    case (Some s)
    obtain f where "attempts_once env s f" "d_cargos (run_adapter (http n) env (clock n) s (lock_submission (clock n) (cs_id s) d)) =
        update_row cs_id (cs_id s) f (d_cargos d)"
      using transmission_rows by blast
    then show ?thesis
      using Some attempts_onceD(1) by (auto simp: processOne_def update_row_def same_subject_def)
  qed (simp add: processOne_def)
  then show ?case using Suc.IH by (cases "processOne (http n) env (clock n) d") (auto split: bool.split)
qed simp

section \<open>Several senders at once\<close>

text \<open>
  The worker and the requests of the API run side by side; each looks up, reads the row, locks it and writes the
  outcome in separate statements. A state of the run has the lookups of enqueueing requests that have not written
  yet, the rows that some sender has read, and those that some sender has locked, as they were read, with the
  time of the lock. What an outcome follows from was read at some moment before it is written. The recovery
  of stale rows comes when no sender has held its row for longer than it allows.
\<close>

record cargos_run =
  run_db :: db
  run_plans :: "(reservation \<times> enqueue_plan) list"
  run_seen :: "cargos_submission list"
  run_held :: "(cargos_submission \<times> time) list"

inductive cargos_step :: "int \<Rightarrow> cargos_run \<Rightarrow> cargos_run \<Rightarrow> bool" for staleMs where
  looks_up: "enqueue_lookup (run_db run) ctx user reservationId = Inr p \<Longrightarrow>
    cargos_step staleMs run (run\<lparr>run_plans := p # run_plans run\<rparr>)"
| queues: "p \<in> set (run_plans run) \<Longrightarrow> enqueue_write ctx newId p (run_db run) = (outcome, d') \<Longrightarrow>
    cargos_step staleMs run (run\<lparr>run_db := d', run_plans := remove1 p (run_plans run)\<rparr>)"
| worker_picks: "oldest_pending (run_db run) = Some s \<Longrightarrow>
    cargos_step staleMs run (run\<lparr>run_seen := s # run_seen run\<rparr>)"
| api_picks: "find_row cs_id i (d_cargos (run_db run)) = Some s \<Longrightarrow>
    cargos_step staleMs run (run\<lparr>run_seen := s # run_seen run\<rparr>)"
| locks: "s \<in> set (run_seen run) \<Longrightarrow> find_row cs_id (cs_id s) (d_cargos (run_db run)) = Some x \<Longrightarrow> cs_status x = CG_PENDING \<Longrightarrow>
    cargos_step staleMs run (run\<lparr>run_db := lock_submission now (cs_id s) (run_db run),
      run_seen := remove1 s (run_seen run), run_held := (s, now) # run_held run\<rparr>)"
| loses: "s \<in> set (run_seen run) \<Longrightarrow> find_row cs_id (cs_id s) (d_cargos (run_db run)) = Some x \<Longrightarrow> cs_status x \<noteq> CG_PENDING \<Longrightarrow>
    cargos_step staleMs run (run\<lparr>run_seen := remove1 s (run_seen run)\<rparr>)"
| transmits: "(s, t) \<in> set (run_held run) \<Longrightarrow>
    cargos_step staleMs run (run\<lparr>run_db := update_submission now (cs_id s) (adapter_outcome http env now s earlier) (run_db run),
      run_held := remove1 (s, t) (run_held run)\<rparr>)"
| recovers: "list_all (\<lambda>h. now - max 60000 staleMs \<le> snd h) (run_held run) \<Longrightarrow>
    cargos_step staleMs run (run\<lparr>run_db := resetStaleProcessing staleMs now (run_db run)\<rparr>)"

text \<open>A held row is being processed since its lock, and nobody else holds it.\<close>

definition held_in :: "db \<Rightarrow> cargos_submission \<times> time \<Rightarrow> bool" where
  "held_in d h \<longleftrightarrow> list_ex (\<lambda>x. cs_id x = cs_id (fst h) \<and> cs_status x = CG_PROCESSING \<and> cs_updatedAt x = snd h) (d_cargos d)"

definition cargos_run_ok :: "cargos_run \<Rightarrow> bool" where
  "cargos_run_ok run \<longleftrightarrow>
     keyed cs_id (d_cargos (run_db run)) \<and> distinct (map (\<lambda>h. cs_id (fst h)) (run_held run)) \<and>
     list_all (held_in (run_db run)) (run_held run)"

lemma find_inflight_None: "find_inflight d i = None \<longleftrightarrow> (\<forall>s\<in>set (d_cargos d). \<not> in_flight i s)"
proof -
  have "find_inflight d i = None \<longleftrightarrow> sort_key (\<lambda>s. - cs_createdAt s) (filter (in_flight i) (d_cargos d)) = []"
    by (simp add: find_inflight_def split: list.split)
  also have "\<dots> \<longleftrightarrow> filter (in_flight i) (d_cargos d) = []" by (metis length_0_conv length_sort)
  finally show ?thesis by (simp add: filter_empty_conv)
qed

lemma enqueue_write_rows:
  assumes "enqueue_write ctx newId p d = (out, d')"
  shows "d_cargos d' = d_cargos d \<or> (\<exists>s. d_cargos d' = d_cargos d @ [s] \<and> find_row cs_id (cs_id s) (d_cargos d) = None)"
proof -
  let ?P = "\<lambda>d'. d_cargos d' = d_cargos d \<or> (\<exists>s. d_cargos d' = d_cargos d @ [s] \<and> find_row cs_id (cs_id s) (d_cargos d) = None)"
  have "keeps ?P (enqueue_write ctx newId p) d"
    unfolding keeps_def enqueue_write_def insert_submission_def
    by (auto simp: wp split: enqueue_plan.split)
  then show ?thesis using assms by (simp add: keeps_run)
qed

lemma keyed_same: "keyed cs_id ss \<Longrightarrow> x \<in> set ss \<Longrightarrow> y \<in> set ss \<Longrightarrow> cs_id x = cs_id y \<Longrightarrow> x = y"
  by (auto simp: keyed_def distinct_map inj_on_def)

text \<open>A write to every row by a function that keeps identifiers and leaves the rows that are still held as they are.\<close>

lemma held_after_map:
  assumes "cargos_run_ok run" "d_cargos d' = map g (d_cargos (run_db run))" "\<And>x. cs_id (g x) = cs_id x"
    and "set held' \<subseteq> set (run_held run)" "distinct (map (\<lambda>h. cs_id (fst h)) held')"
    and "\<And>h x. h \<in> set held' \<Longrightarrow> x \<in> set (d_cargos (run_db run)) \<Longrightarrow> cs_id x = cs_id (fst h) \<Longrightarrow>
      cs_status x = CG_PROCESSING \<Longrightarrow> cs_updatedAt x = snd h \<Longrightarrow> g x = x"
  shows "keyed cs_id (d_cargos d') \<and> list_all (held_in d') held'"
proof
  show "keyed cs_id (d_cargos d')"
    unfolding assms(2) by (subst keyed_map) (use assms(1,3) in \<open>auto simp: cargos_run_ok_def\<close>)
  have "held_in d' h" if h: "h \<in> set held'" for h
  proof -
    have "held_in (run_db run) h" using assms(1,4) h by (auto simp: cargos_run_ok_def list_all_iff)
    then obtain x where "x \<in> set (d_cargos (run_db run))" "cs_id x = cs_id (fst h)" "cs_status x = CG_PROCESSING" "cs_updatedAt x = snd h"
      by (auto simp: held_in_def list_ex_iff)
    then show ?thesis using assms(6) [OF h, of x] by (force simp: held_in_def list_ex_iff assms(2))
  qed
  then show "list_all (held_in d') held'" by (simp add: list_all_iff)
qed

lemma locks_ok:
  assumes ok: "cargos_run_ok run" and x: "find_row cs_id (cs_id s) (d_cargos (run_db run)) = Some x" "cs_status x = CG_PENDING"
  shows "cargos_run_ok (run\<lparr>run_db := lock_submission now (cs_id s) (run_db run), run_seen := seen, run_held := (s, now) # run_held run\<rparr>)"
proof -
  let ?d = "run_db run" and ?d' = "lock_submission now (cs_id s) (run_db run)"
  have row: "x \<in> set (d_cargos ?d)" "cs_id x = cs_id s" using cargos.find_Some x(1) by blast+
  have only: "y = x" if "y \<in> set (d_cargos ?d)" "cs_id y = cs_id s" for y
    using keyed_same [of "d_cargos ?d" y x] ok row that by (simp add: cargos_run_ok_def)
  have other: "cs_id (fst h) \<noteq> cs_id s" if h: "h \<in> set (run_held run)" for h
  proof
    assume "cs_id (fst h) = cs_id s"
    moreover have "held_in ?d h" using ok h by (simp add: cargos_run_ok_def list_all_iff)
    ultimately show False using only x(2) by (auto simp: held_in_def list_ex_iff)
  qed
  let ?g = "\<lambda>y. if cs_id y = cs_id s \<and> cs_status y = CG_PENDING then y\<lparr>cs_status := CG_PROCESSING, cs_updatedAt := now\<rparr> else y"
  have rows: "d_cargos ?d' = map ?g (d_cargos ?d)" by (simp add: lock_submission_def)
  have "keyed cs_id (d_cargos ?d') \<and> list_all (held_in ?d') (run_held run)"
    by (rule held_after_map [OF ok rows]) (use ok other in \<open>auto simp: cargos_run_ok_def\<close>)
  moreover have "held_in ?d' (s, now)"
    using row x(2) unfolding held_in_def list_ex_iff rows by (intro bexI [of _ "?g x"]) (auto intro: imageI)
  moreover have "cs_id s \<notin> (\<lambda>h. cs_id (fst h)) ` set (run_held run)" using other by (metis imageE)
  ultimately show ?thesis using ok by (simp add: cargos_run_ok_def)
qed

lemma transmits_ok:
  assumes ok: "cargos_run_ok run" and h: "h \<in> set (run_held run)" and f: "same_subject f"
  shows "cargos_run_ok (run\<lparr>run_db := update_submission now (cs_id (fst h)) f (run_db run), run_held := remove1 h (run_held run)\<rparr>)"
proof -
  let ?d' = "update_submission now (cs_id (fst h)) f (run_db run)" and ?held = "remove1 h (run_held run)"
  let ?g = "\<lambda>y. if cs_id y = cs_id (fst h) then (f y)\<lparr>cs_updatedAt := now\<rparr> else y"
  have dist: "distinct (run_held run)" "inj_on (\<lambda>h. cs_id (fst h)) (set (run_held run))"
    using ok by (simp_all add: cargos_run_ok_def distinct_map)
  have rest: "k \<in> set (run_held run) \<and> cs_id (fst k) \<noteq> cs_id (fst h)" if "k \<in> set ?held" for k
    using that dist h by (auto dest: inj_onD)
  have left: "distinct (map (\<lambda>h. cs_id (fst h)) ?held)"
    using dist by (auto simp: distinct_map intro: inj_on_subset)
  have "keyed cs_id (d_cargos ?d') \<and> list_all (held_in ?d') ?held"
  proof (rule held_after_map [OF ok])
    show "d_cargos ?d' = map ?g (d_cargos (run_db run))" by (simp add: update_submission_def update_row_def)
    show "cs_id (?g y) = cs_id y" for y using f by (simp add: same_subject_def)
    show "?g y = y" if "k \<in> set ?held" "cs_id y = cs_id (fst k)" for k y using rest [OF that(1)] that(2) by simp
  qed (use rest left in auto)
  then show ?thesis using left by (simp add: cargos_run_ok_def)
qed

lemma recovers_ok:
  assumes ok: "cargos_run_ok run" and "list_all (\<lambda>h. now - max 60000 staleMs \<le> snd h) (run_held run)"
  shows "cargos_run_ok (run\<lparr>run_db := resetStaleProcessing staleMs now (run_db run)\<rparr>)"
proof -
  let ?g = "\<lambda>s. if cs_status s = CG_PROCESSING \<and> cs_updatedAt s < now - max 60000 staleMs
       then s\<lparr>cs_status := CG_PENDING, cs_updatedAt := now\<rparr> else s"
  have dist: "distinct (map (\<lambda>h. cs_id (fst h)) (run_held run))" using ok by (simp add: cargos_run_ok_def)
  have "keyed cs_id (d_cargos (resetStaleProcessing staleMs now (run_db run))) \<and>
      list_all (held_in (resetStaleProcessing staleMs now (run_db run))) (run_held run)"
  proof (rule held_after_map [OF ok])
    show "d_cargos (resetStaleProcessing staleMs now (run_db run)) = map ?g (d_cargos (run_db run))"
      by (simp add: resetStaleProcessing_def)
    show "?g x = x" if "h \<in> set (run_held run)" "cs_updatedAt x = snd h" for h x
    proof -
      have "now - max 60000 staleMs \<le> snd h" using assms(2) that(1) by (simp add: list_all_iff)
      then show ?thesis using that(2) by simp
    qed
  qed (use dist in auto)
  then show ?thesis using ok by (simp add: cargos_run_ok_def)
qed

lemma cargos_step_ok:
  assumes "cargos_step staleMs run run'" "cargos_run_ok run"
  shows "cargos_run_ok run'"
  using assms(1)
proof cases
  case (queues p ctx newId outcome d')
  have old: "held_in d' h" if "d_cargos d' = d_cargos (run_db run) @ ss" "held_in (run_db run) h" for ss h
    using that by (auto simp: held_in_def)
  show ?thesis
    using enqueue_write_rows [OF queues(3)]
  proof (elim disjE exE conjE)
    assume same: "d_cargos d' = d_cargos (run_db run)"
    then show ?thesis using queues(1) assms(2) old [of "[]"] by (auto simp: cargos_run_ok_def list_all_iff)
  next
    fix s
    assume s: "d_cargos d' = d_cargos (run_db run) @ [s]" "find_row cs_id (cs_id s) (d_cargos (run_db run)) = None"
    then have "keyed cs_id (d_cargos d')" using assms(2) by (auto simp: cargos_run_ok_def keyed_def find_row_def find_None_iff)
    then show ?thesis using queues(1) assms(2) old [OF s(1)] by (auto simp: cargos_run_ok_def list_all_iff)
  qed
next
  case (locks s x now)
  then show ?thesis using locks_ok [OF assms(2)] by simp
next
  case (transmits s t now http env earlier)
  then show ?thesis
    using transmits_ok [OF assms(2) transmits(2)] attempts_onceD(1) [OF adapter_outcome_once] by simp
next
  case (recovers now)
  then show ?thesis using recovers_ok [OF assms(2)] by simp
qed (use assms(2) in \<open>simp_all add: cargos_run_ok_def\<close>)

section \<open>Properties\<close>

text \<open>
  C3: The worker gets through its queue: with \<open>n\<close> above the attempts that the pending submissions
  have left, its loop falls idle within \<open>n\<close> rounds, no submission is pending any more, and each one it had
  is sent, skipped or failed - whatever the adapters answer.
\<close>

theorem cargos_worker_drains:
  assumes "keyed cs_id (d_cargos d)"
    and "sum_list (map (tries_left env) (filter (\<lambda>s. cs_status s = CG_PENDING) (d_cargos d))) < n"
  shows "\<exists>d'. work http env clock n d = (True, d') \<and> map cs_id (d_cargos d') = map cs_id (d_cargos d) \<and>
    (\<forall>s\<in>set (d_cargos d'). cs_status s \<noteq> CG_PENDING)"
  using work_drains [of d env n http clock] work_ids [of http env clock n d] assms
  by (cases "work http env clock n d") (simp add: backlog_def flip: sum_mset_sum_list)

text \<open>
  C4: No submission is sent twice at once: however the requests of the API, the worker and the recovery of stale
  rows interleave, statement by statement, no two senders hold the same submission and a held one is marked as
  being processed - as long as a sender does not hold a row for longer than the recovery allows.
\<close>

theorem cargos_sent_by_one:
  assumes "(cargos_step staleMs)\<^sup>*\<^sup>* \<lparr>run_db = d, run_plans = [], run_seen = [], run_held = []\<rparr> run"
    and "keyed cs_id (d_cargos d)"
  shows "distinct (map (\<lambda>h. cs_id (fst h)) (run_held run)) \<and>
    list_all (\<lambda>h. list_ex (\<lambda>x. cs_id x = cs_id (fst h) \<and> cs_status x = CG_PROCESSING) (d_cargos (run_db run))) (run_held run)"
proof -
  have "cargos_run_ok \<lparr>run_db = d, run_plans = [], run_seen = [], run_held = []\<rparr>"
    using assms(2) by (simp add: cargos_run_ok_def)
  with assms(1) have "cargos_run_ok run" by (induction rule: rtranclp_induct) (auto intro: cargos_step_ok)
  then show ?thesis by (auto simp: cargos_run_ok_def held_in_def list_all_iff list_ex_iff)
qed

definition demo_submission :: "string \<Rightarrow> string \<Rightarrow> cargos_submission" where
  "demo_submission i reservationId = new_submission i demo_now (demo_reservation\<lparr>r_id := reservationId\<rparr>) CG_PENDING None"

definition demo_queue :: db where
  "demo_queue = demo_db\<lparr>
     d_companies := [demo_company\<lparr>co_cargosAdapter := ADAPTER_HTTP, co_cargosHttpUrl := Some ''https://police.example''\<rparr>],
     d_cargos := [demo_submission ''s1'' ''r1'', demo_submission ''s2'' ''r2'']\<rparr>"

definition unreachable :: "nat \<Rightarrow> cargos_http" where
  "unreachable n url s r = HttpFailed ''fetch failed''"

theorem cargos_worker_drains_witness:
  "\<exists>d'. work unreachable demo_env (\<lambda>_. demo_now) 11 demo_queue = (True, d') \<and>
     map cs_id (d_cargos d') = [''s1'', ''s2''] \<and> list_all (\<lambda>s. cs_status s \<noteq> CG_PENDING) (d_cargos d')"
proof -
  have "map cs_id (d_cargos demo_queue) = [''s1'', ''s2'']" "keyed cs_id (d_cargos demo_queue)"
    "sum_list (map (tries_left demo_env) (filter (\<lambda>s. cs_status s = CG_PENDING) (d_cargos demo_queue))) < 11"
    by code_simp+
  then show ?thesis
    using cargos_worker_drains [of demo_queue demo_env 11 unreachable "\<lambda>_. demo_now"] by (simp add: list_all_iff)
qed

theorem cargos_sent_by_one_witness:
  "\<exists>run. (cargos_step 0)\<^sup>*\<^sup>* \<lparr>run_db = demo_queue, run_plans = [], run_seen = [], run_held = []\<rparr> run \<and>
     map (\<lambda>h. cs_id (fst h)) (run_held run) = [''s1''] \<and>
     list_all (\<lambda>h. list_ex (\<lambda>x. cs_id x = cs_id (fst h) \<and> cs_status x = CG_PROCESSING) (d_cargos (run_db run))) (run_held run)"
proof -
  let ?s = "demo_submission ''s1'' ''r1''"
  let ?start = "\<lparr>run_db = demo_queue, run_plans = [], run_seen = [], run_held = []\<rparr>"
  have row: "find_row cs_id ''s1'' (d_cargos demo_queue) = Some ?s" and i: "cs_id ?s = ''s1''" "cs_status ?s = CG_PENDING"
    by (simp_all add: demo_queue_def demo_submission_def new_submission_def find_row_def)
  let ?seen = "?start\<lparr>run_seen := ?s # run_seen ?start\<rparr>"
  let ?locked = "?seen\<lparr>run_db := lock_submission demo_now (cs_id ?s) (run_db ?seen), run_seen := remove1 ?s (run_seen ?seen),
    run_held := (?s, demo_now) # run_held ?seen\<rparr>"
  have "cargos_step 0 ?start ?seen" by (rule api_picks) (use row in simp)
  moreover have "cargos_step 0 ?seen ?locked" by (rule locks [where x = ?s]) (use row i in simp_all)
  ultimately have run: "(cargos_step 0)\<^sup>*\<^sup>* ?start ?locked" by simp
  have "keyed cs_id (d_cargos demo_queue)" by code_simp
  from cargos_sent_by_one [OF run this] run i show ?thesis by (intro exI [of _ ?locked]) simp
qed

text \<open>
  Two requests for one booking that both look before either writes leave two submissions in the queue, and
  both are sent: the lookup and the insert are no transaction and no key of the table stops the second.
\<close>

definition demo_plan :: "(reservation \<times> enqueue_plan) result" where
  "demo_plan = enqueue_lookup (demo_queue\<lparr>d_cargos := []\<rparr>) demo_ctx demo_admin ''r1''"

lemma overlapping_requests_queue_twice:
  "case demo_plan of
     Inl _ \<Rightarrow> False
   | Inr p \<Rightarrow> map (\<lambda>s. (cs_id s, cs_reservationId s, cs_status s))
       (d_cargos (snd (enqueue_write demo_ctx ''s2'' p (snd (enqueue_write demo_ctx ''s1'' p (demo_queue\<lparr>d_cargos := []\<rparr>)))))) =
         [(''s1'', ''r1'', CG_PENDING), (''s2'', ''r1'', CG_PENDING)]"
  by code_simp

end
