(* ===== verification/Agreements.thy ===== *)
theory Agreements
  imports Cargos
begin

text \<open>
  \<open>apps/api/src/rental-agreement/rental-agreement.service.ts\<close>: the terms a customer signs, one agreement per
  booking: drafted, edited, signed or voided, and mailed once signed. \<open>buildPdf\<close>, the layout of the document,
  and \<open>sha256\<close> are parameters; the lines of the document that join texts with typographic separators are
  kept as the list of the texts.
\<close>

section \<open>Requests\<close>

definition cargosAutoEnqueueOnSign :: "env \<Rightarrow> bool" where
  "cargosAutoEnqueueOnSign env =
     (case env ''CARGOS_AUTO_ENQUEUE_ON_SIGN'' of
        None \<Rightarrow> True
      | Some v \<Rightarrow> v \<notin> {''0'', ''false'', ''no'', ''off''})"

record create_agreement_input =
  na_reservationId :: string
  na_body :: string
  na_agreementTemplateVersion :: "string option"

record update_agreement_input =
  ua_body :: string
  ua_agreementTemplateVersion :: "string option option"

text \<open>The request schemas trim the template and the name after their length was checked.\<close>

definition body_ok :: "string \<Rightarrow> bool" where
  "body_ok b \<longleftrightarrow> 1 \<le> length b \<and> int (length b) \<le> 500000"

definition short_text :: "string \<Rightarrow> bool" where
  "short_text t \<longleftrightarrow> 1 \<le> length t \<and> int (length t) \<le> 200"

definition createRentalAgreementSchema :: "create_agreement_input \<Rightarrow> create_agreement_input option" where
  "createRentalAgreementSchema inp =
     (if body_ok (na_body inp) \<and> (case na_agreementTemplateVersion inp of None \<Rightarrow> True | Some v \<Rightarrow> short_text v)
      then Some (inp\<lparr>na_agreementTemplateVersion := map_option trim (na_agreementTemplateVersion inp)\<rparr>) else None)"

definition updateRentalAgreementSchema :: "update_agreement_input \<Rightarrow> update_agreement_input option" where
  "updateRentalAgreementSchema inp =
     (if body_ok (ua_body inp) \<and> (case ua_agreementTemplateVersion inp of Some (Some v) \<Rightarrow> short_text v | _ \<Rightarrow> True)
      then Some (inp\<lparr>ua_agreementTemplateVersion := map_option (map_option trim) (ua_agreementTemplateVersion inp)\<rparr>)
      else None)"

definition signRentalAgreementSchema :: "string \<Rightarrow> string option" where
  "signRentalAgreementSchema name = (if short_text name then Some (trim name) else None)"

section \<open>Reading\<close>

definition completed_files :: "string \<Rightarrow> stored_file list \<Rightarrow> stored_file list" where
  "completed_files i files =
     sort_key sf_createdAt (filter (\<lambda>f. sf_ownerId f = i \<and> (sf_storage f = LOCAL \<or> sf_uploadCompletedAt f \<noteq> None)) files)"

definition with_attachments :: "db \<Rightarrow> rental_agreement \<Rightarrow> rental_agreement \<times> stored_file list" where
  "with_attachments d a = (a, completed_files (ra_id a) (d_attachments d))"

definition find_agreement_booking :: "db \<Rightarrow> string \<Rightarrow> (rental_agreement \<times> reservation) option" where
  "find_agreement_booking d i =
     (case find_agreement d i of
        None \<Rightarrow> None
      | Some a \<Rightarrow> map_option (\<lambda>r. (a, r)) (find_reservation d (ra_reservationId a)))"

definition agreement_row :: "db \<Rightarrow> env \<Rightarrow> jwt_user \<Rightarrow> string \<Rightarrow> (rental_agreement \<times> reservation) result" where
  "agreement_row d env user i =
     (let msg = ''Rental agreement not found: '' @ i
      in andThen (orElse (find_agreement_booking d i) (NotFound msg)) (\<lambda>(a, r).
         andThen (assertSameCompany env user (ra_companyId a) msg) (\<lambda>_.
         andThen (assertAgentReservationInScope user (r_pickupStationId r) (r_returnStationId r) msg) (\<lambda>_.
         Inr (a, r)))))"

definition getById :: "db \<Rightarrow> env \<Rightarrow> jwt_user \<Rightarrow> string \<Rightarrow> (rental_agreement \<times> stored_file list) result" where
  "getById d env user i = andThen (agreement_row d env user i) (\<lambda>(a, _). Inr (with_attachments d a))"

definition getByReservationId :: "db \<Rightarrow> env \<Rightarrow> jwt_user \<Rightarrow> string \<Rightarrow> (rental_agreement \<times> stored_file list) result" where
  "getByReservationId d env user i =
     andThen (getScopedReservationRecord d env user i) (\<lambda>_.
     andThen (orElse (agreement_of d i) (NotFound ''No rental agreement for this reservation yet'')) (\<lambda>a.
     andThen (assertSameCompany env user (ra_companyId a) ''Rental agreement not found'') (\<lambda>_.
     Inr (with_attachments d a))))"

section \<open>Writing\<close>

definition draft_agreement :: "string \<Rightarrow> reservation \<Rightarrow> create_agreement_input \<Rightarrow> rental_agreement" where
  "draft_agreement newId r inp =
     \<lparr>ra_id = newId, ra_companyId = r_companyId r, ra_reservationId = r_id r, ra_status = AGREEMENT_DRAFT,
      ra_agreementTemplateVersion = map_option trim (na_agreementTemplateVersion inp), ra_body = na_body inp,
      ra_signedAt = None, ra_signedByName = None, ra_signedClientIp = None, ra_signedUserAgent = None\<rparr>"

definition agreement_create :: "ctx \<Rightarrow> jwt_user \<Rightarrow> string \<Rightarrow> create_agreement_input \<Rightarrow> rental_agreement dbprog" where
  "agreement_create ctx user newId inp =
     bnd (asks (\<lambda>d. getScopedReservationRecord d (c_env ctx) user (na_reservationId inp))) (\<lambda>r.
     andDo (asks (\<lambda>d. ensure (agreement_of d (na_reservationId inp) = None)
       (Conflict ''A rental agreement already exists for this reservation'')))
     (let a = draft_agreement newId r inp
      in andDo (asks (\<lambda>d. ensure (find_agreement d newId = None) (Prisma ''P2002'')))
         (andDo (modify (d_agreements_update (\<lambda>as. as @ [a]))) (ret a))))"

definition draft_row :: "db \<Rightarrow> env \<Rightarrow> jwt_user \<Rightarrow> string \<Rightarrow> string \<Rightarrow> rental_agreement result" where
  "draft_row d env user i msg =
     andThen (agreement_row d env user i) (\<lambda>(a, _).
     andThen (ensure (ra_status a = AGREEMENT_DRAFT) (BadRequest msg)) (\<lambda>_. Inr a))"

definition change_agreement :: "string \<Rightarrow> (rental_agreement \<Rightarrow> rental_agreement) \<Rightarrow> rental_agreement \<Rightarrow> rental_agreement dbprog" where
  "change_agreement i f a = andDo (modify (d_agreements_update (update_row ra_id i f))) (ret (f a))"

definition edited_agreement :: "update_agreement_input \<Rightarrow> rental_agreement \<Rightarrow> rental_agreement" where
  "edited_agreement inp a =
     a\<lparr>ra_body := ua_body inp,
       ra_agreementTemplateVersion := or_else (ua_agreementTemplateVersion inp) (ra_agreementTemplateVersion a)\<rparr>"

definition agreement_update :: "ctx \<Rightarrow> jwt_user \<Rightarrow> string \<Rightarrow> update_agreement_input \<Rightarrow> rental_agreement dbprog" where
  "agreement_update ctx user i inp =
     bnd (asks (\<lambda>d. draft_row d (c_env ctx) user i ''Only DRAFT agreements can be edited''))
       (change_agreement i (edited_agreement inp))"

definition signed_agreement :: "ctx \<Rightarrow> string \<Rightarrow> rental_agreement \<Rightarrow> rental_agreement" where
  "signed_agreement ctx name a =
     a\<lparr>ra_status := AGREEMENT_SIGNED, ra_signedAt := Some (c_now ctx), ra_signedByName := Some name,
       ra_signedClientIp := c_ip ctx, ra_signedUserAgent := c_userAgent ctx\<rparr>"

text \<open>The message of an exception; the texts of the database client's errors stand for themselves.\<close>

fun error_text :: "http_error \<Rightarrow> string" where
  "error_text (BadRequest m) = m"
| "error_text (NotFound m) = m"
| "error_text (Forbidden m) = m"
| "error_text (Conflict m) = m"
| "error_text (Unauthorized m) = m"
| "error_text (ServiceUnavailable m) = m"
| "error_text (Blocked m _) = m"
| "error_text (Prisma m) = m"
| "error_text (Crash m) = m"

definition auto_enqueue :: "cargos_http \<Rightarrow> ctx \<Rightarrow> jwt_user \<Rightarrow> string \<Rightarrow> rental_agreement \<Rightarrow> unit dbprog" where
  "auto_enqueue http ctx user submissionId a =
     (if cargosAutoEnqueueOnSign (c_env ctx) then
        catch (andDo (enqueue http ctx user submissionId (ra_reservationId a) False) (ret ()))
          (\<lambda>e. audit (audit_entry ctx (Some (u_sub user)) ''rental_agreement.cargos_auto_enqueue_failed'' ''Reservation''
             (ra_reservationId a) (JObj [(''agreementId'', JStr (ra_id a)), (''error'', JStr (take 500 (error_text e)))])))
      else ret ())"

definition agreement_sign :: "cargos_http \<Rightarrow> ctx \<Rightarrow> jwt_user \<Rightarrow> string \<Rightarrow> string \<Rightarrow> string \<Rightarrow> rental_agreement dbprog" where
  "agreement_sign http ctx user submissionId i name =
     bnd (asks (\<lambda>d. draft_row d (c_env ctx) user i ''Only DRAFT agreements can be signed'')) (\<lambda>a.
     bnd (change_agreement i (signed_agreement ctx name) a) (\<lambda>updated.
     andDo (auto_enqueue http ctx user submissionId updated) (ret updated)))"

definition voidDraft :: "ctx \<Rightarrow> jwt_user \<Rightarrow> string \<Rightarrow> rental_agreement dbprog" where
  "voidDraft ctx user i =
     bnd (asks (\<lambda>d. draft_row d (c_env ctx) user i ''Only DRAFT agreements can be voided''))
       (change_agreement i (ra_status_update (\<lambda>_. AGREEMENT_VOID)))"

section \<open>The document and its mail\<close>

record pdf_input =
  pdf_companyName :: string
  pdf_row :: reservation
  pdf_currency :: string
  pdf_vehicleBits :: "string list"
  pdf_pickupStation :: "(string \<times> string option) option"
  pdf_returnStation :: "(string \<times> string option) option"
  pdf_agreement :: rental_agreement
  pdf_annexNames :: "string list"

definition station_line :: "db \<Rightarrow> string \<Rightarrow> (string \<times> string option) option" where
  "station_line d i =
     map_option (\<lambda>s. (st_name s, if st_city s = [] then None else Some (st_city s))) (find_station d i)"

definition vehicle_bits :: "db \<Rightarrow> string \<Rightarrow> string list" where
  "vehicle_bits d i =
     (case find_vehicle d i of
        None \<Rightarrow> []
      | Some v \<Rightarrow>
          filter (\<lambda>t. t \<noteq> [])
            [trim (v_licensePlate v), (case v_modelLabel v of None \<Rightarrow> [] | Some m \<Rightarrow> trim m),
             (case find_class d (v_vehicleClassId v) of None \<Rightarrow> [] | Some c \<Rightarrow> trim (vc_name c))])"

definition pdfInputFromRow :: "db \<Rightarrow> rental_agreement \<Rightarrow> reservation \<Rightarrow> pdf_input" where
  "pdfInputFromRow d a r =
     \<lparr>pdf_companyName = (case find_company d (r_companyId r) of None \<Rightarrow> [] | Some c \<Rightarrow> co_name c), pdf_row = r,
      pdf_currency = (if r_currency r = [] then ''EUR'' else r_currency r), pdf_vehicleBits = vehicle_bits d (r_vehicleId r),
      pdf_pickupStation = station_line d (r_pickupStationId r), pdf_returnStation = station_line d (r_returnStationId r),
      pdf_agreement = a, pdf_annexNames = map sf_originalName (snd (with_attachments d a))\<rparr>"

definition renderPdfBuffer :: "(pdf_input \<Rightarrow> 'pdf) \<Rightarrow> db \<Rightarrow> env \<Rightarrow> jwt_user \<Rightarrow> string \<Rightarrow> 'pdf result" where
  "renderPdfBuffer buildPdf d env user i =
     andThen (agreement_row d env user i) (\<lambda>(a, r). Inr (buildPdf (pdfInputFromRow d a r)))"

definition check_agreement_mail :: "ctx \<Rightarrow> rental_agreement \<Rightarrow> reservation \<Rightarrow> unit result" where
  "check_agreement_mail ctx a r =
     andThen (ensure (ra_status a = AGREEMENT_SIGNED)
       (BadRequest ''Only SIGNED rental agreements can be emailed to the customer.'')) (\<lambda>_.
     andThen (ensure (CHR 0x40 \<in> set (trim (r_customerEmail r)))
       (BadRequest ''Reservation has no valid customer email address.'')) (\<lambda>_.
     ensure (c_mailOn ctx) (ServiceUnavailable ''Outbound email is not configured (SMTP).'')))"

definition sendAgreementPdfEmail :: "(string \<Rightarrow> string) \<Rightarrow> ctx \<Rightarrow> jwt_user \<Rightarrow> string \<Rightarrow> unit dbprog" where
  "sendAgreementPdfEmail sha256 ctx user i =
     bnd (asks (\<lambda>d. agreement_row d (c_env ctx) user i)) (\<lambda>(a, r).
     andDo (asks (\<lambda>_. check_agreement_mail ctx a r))
     (bnd (asks (\<lambda>d. assertDeskEmailB4ForReservation d (ra_companyId a) (r_customerId r))) (\<lambda>(b4Consent, _).
      let addr = trim (r_customerEmail r)
      in andDo (send_mail \<lparr>m_kind = ''rentalAgreementPdf'', m_to = addr, m_reservationId = r_id r, m_link = None\<rparr>)
         (audit (audit_entry ctx (Some (u_sub user)) ''rental_agreement.email_pdf'' ''RentalAgreement'' (ra_id a)
            (JObj [(''reservationId'', JStr (ra_reservationId a)),
                   (''toSha256Prefix'', JStr (take 16 (sha256 (toLowerCase addr)))),
                   (''agreementTemplateVersion'', ostr (ra_agreementTemplateVersion a)),
                   (''b4Consent'', b4_json b4Consent)]))))))"

section \<open>Agreements stay in order\<close>

definition agreements_ok :: "db \<Rightarrow> bool" where
  "agreements_ok d \<longleftrightarrow>
     keyed ra_id (d_agreements d) \<and> one_each (\<lambda>_. True) ra_reservationId (d_agreements d) \<and>
     (\<forall>a\<in>set (d_agreements d). ra_status a = AGREEMENT_SIGNED \<longrightarrow> ra_signedAt a \<noteq> None \<and> ra_signedByName a \<noteq> None)"

text \<open>From one state to the next the agreements that are no drafts stay, and the table stays in order.\<close>

definition agreements_step :: "db \<Rightarrow> db \<Rightarrow> bool" where
  "agreements_step d d' \<longleftrightarrow>
     (agreements_ok d \<longrightarrow> agreements_ok d' \<and>
        (\<forall>a\<in>set (d_agreements d). ra_status a \<noteq> AGREEMENT_DRAFT \<longrightarrow> a \<in> set (d_agreements d')))"

lemma agreements_step_same: "d_agreements d' = d_agreements d \<Longrightarrow> agreements_step d d'"
  by (simp add: agreements_step_def agreements_ok_def)

lemma agreement_of_Some: "agreement_of d i = Some a \<Longrightarrow> a \<in> set (d_agreements d) \<and> ra_reservationId a = i"
  by (auto simp: agreement_of_def find_Some_iff)

lemma agreement_of_None: "agreement_of d i = None \<longleftrightarrow> i \<notin> ra_reservationId ` set (d_agreements d)"
  by (auto simp: agreement_of_def find_None_iff)

lemma agreement_of_eq:
  assumes "agreements_ok d" "a \<in> set (d_agreements d)"
  shows "agreement_of d (ra_reservationId a) = Some a"
proof (cases "agreement_of d (ra_reservationId a)")
  case None
  then show ?thesis using assms(2) by (auto simp: agreement_of_None)
next
  case (Some b)
  then have "b \<in> set (d_agreements d)" "ra_reservationId b = ra_reservationId a" using agreement_of_Some by blast+
  then show ?thesis using Some assms by (auto simp: agreements_ok_def one_each_def distinct_map inj_on_def)
qed

lemma agreements_step_insert:
  assumes "agreement_of d (ra_reservationId a) = None" "find_agreement d (ra_id a) = None" "ra_status a \<noteq> AGREEMENT_SIGNED"
    and "d_agreements d' = d_agreements d @ [a]"
  shows "agreements_step d d'"
  using assms agreements.find_None [of "ra_id a" d]
  by (auto simp: agreements_step_def agreements_ok_def find_agreement_def agreement_of_None keyed_def intro!: one_each_append)
    (metis imageI)

lemma agreements_step_change:
  assumes "a \<in> set (d_agreements d)" "ra_status a = AGREEMENT_DRAFT"
    and "d_agreements d' = update_row ra_id (ra_id a) f (d_agreements d)"
    and "\<And>x. ra_id (f x) = ra_id x" "\<And>x. ra_reservationId (f x) = ra_reservationId x"
    and "ra_status (f a) = AGREEMENT_SIGNED \<Longrightarrow> ra_signedAt (f a) \<noteq> None \<and> ra_signedByName (f a) \<noteq> None"
  shows "agreements_step d d'"
proof -
  have "agreements_ok d' \<and> (\<forall>b\<in>set (d_agreements d). ra_status b \<noteq> AGREEMENT_DRAFT \<longrightarrow> b \<in> set (d_agreements d'))"
    if ok: "agreements_ok d"
  proof -
    have only: "b = a" if "b \<in> set (d_agreements d)" "ra_id b = ra_id a" for b
      using ok that assms(1) by (auto simp: agreements_ok_def keyed_def distinct_map inj_on_def)
    have "keyed ra_id (d_agreements d')"
      unfolding assms(3) update_row_def using ok assms(4)
      by (subst keyed_map) (auto simp: agreements_ok_def)
    moreover have "one_each (\<lambda>_. True) ra_reservationId (d_agreements d')"
      unfolding assms(3) update_row_def using ok assms(5)
      by (intro one_each_map) (auto simp: agreements_ok_def)
    moreover have "ra_signedAt b \<noteq> None \<and> ra_signedByName b \<noteq> None"
      if "b \<in> set (d_agreements d')" "ra_status b = AGREEMENT_SIGNED" for b
    proof -
      have "b = f a \<or> b \<in> set (d_agreements d)"
        using that(1) only by (auto simp: assms(3) update_row_def split: if_splits)
      then show ?thesis using that(2) assms(6) ok by (auto simp: agreements_ok_def)
    qed
    moreover have "b \<in> set (d_agreements d')" if "b \<in> set (d_agreements d)" "ra_status b \<noteq> AGREEMENT_DRAFT" for b
    proof -
      have "ra_id b \<noteq> ra_id a" using only that assms(2) by auto
      then show ?thesis using that(1) by (force simp: assms(3) update_row_def)
    qed
    ultimately show ?thesis by (simp add: agreements_ok_def)
  qed
  then show ?thesis by (simp add: agreements_step_def)
qed

lemma draft_row_Inr:
  assumes "draft_row d env user i msg = Inr a"
  shows "a \<in> set (d_agreements d)" "ra_id a = i" "ra_status a = AGREEMENT_DRAFT"
proof -
  have "find_agreement d i = Some a" "ra_status a = AGREEMENT_DRAFT"
    using assms
    by (auto simp: draft_row_def agreement_row_def find_agreement_booking_def Let_def andThen_Inr split: option.splits prod.splits)
  then show "a \<in> set (d_agreements d)" "ra_id a = i" "ra_status a = AGREEMENT_DRAFT"
    using agreements.find_Some [of i d a] by (simp_all add: find_agreement_def)
qed

lemma wpre_change_draft:
  assumes "draft_row d env user i msg = Inr a"
    and "\<And>x. ra_id (f x) = ra_id x" "\<And>x. ra_reservationId (f x) = ra_reservationId x"
    and "ra_status (f a) = AGREEMENT_SIGNED \<Longrightarrow> ra_signedAt (f a) \<noteq> None \<and> ra_signedByName (f a) \<noteq> None"
  shows "wpre (change_agreement i f a) (\<lambda>x d'. x = f a \<and> agreements_step d d') E d"
  using assms draft_row_Inr [OF assms(1)]
  by (auto simp: change_agreement_def wp intro!: agreements_step_change [of a])

interpretation agreement_rows: guarded_rows agreement_row find_agreement_booking "\<lambda>row. ra_companyId (fst row)"
  "\<lambda>row st. r_pickupStationId (snd row) = st \<or> r_returnStationId (snd row) = st"
proof unfold_locales
  fix d env user i row
  assume a: "agreement_row d env user i = Inr row"
  then show "find_agreement_booking d i = Some row"
    by (auto simp: agreement_row_def Let_def andThen_Inr split: prod.splits)
  from a show "may_see_company env user (ra_companyId (fst row))"
    by (auto simp: agreement_row_def Let_def andThen_Inr split: prod.splits)
  assume "isAgentStationScoped user"
  with a show "\<exists>st. u_stationId user = Some st \<and> (r_pickupStationId (snd row) = st \<or> r_returnStationId (snd row) = st)"
    by (auto simp: agreement_row_def Let_def andThen_Inr branch_ok_def split: prod.splits)
next
  fix d env user i e
  assume "agreement_row d env user i = Inl e"
  then show "\<exists>m. e = NotFound m"
    by (auto simp: agreement_row_def Let_def andThen_Inl assertSameCompany_def assertAgentReservationInScope_def
        split: if_splits prod.splits)
qed

section \<open>Requests in sequence\<close>

datatype agreement_request =
    CreateAgreement ctx jwt_user string create_agreement_input
  | UpdateAgreement ctx jwt_user string update_agreement_input
  | SignAgreement ctx jwt_user string string string
  | VoidAgreement ctx jwt_user string
  | MailAgreement ctx jwt_user string

definition parsed :: "'a option \<Rightarrow> 'a result" where
  "parsed x = orElse x (BadRequest ''Validation failed'')"

fun serve_agreement :: "cargos_http \<Rightarrow> (string \<Rightarrow> string) \<Rightarrow> agreement_request \<Rightarrow> unit dbprog" where
  "serve_agreement http sha256 (CreateAgreement ctx user newId raw) =
     bnd (asks (\<lambda>_. parsed (createRentalAgreementSchema raw))) (\<lambda>inp. andDo (agreement_create ctx user newId inp) (ret ()))"
| "serve_agreement http sha256 (UpdateAgreement ctx user i raw) =
     bnd (asks (\<lambda>_. parsed (updateRentalAgreementSchema raw))) (\<lambda>inp. andDo (agreement_update ctx user i inp) (ret ()))"
| "serve_agreement http sha256 (SignAgreement ctx user submissionId i raw) =
     bnd (asks (\<lambda>_. parsed (signRentalAgreementSchema raw))) (\<lambda>name.
       andDo (agreement_sign http ctx user submissionId i name) (ret ()))"
| "serve_agreement http sha256 (VoidAgreement ctx user i) = andDo (voidDraft ctx user i) (ret ())"
| "serve_agreement http sha256 (MailAgreement ctx user i) = sendAgreementPdfEmail sha256 ctx user i"

fun serve_agreements :: "cargos_http \<Rightarrow> (string \<Rightarrow> string) \<Rightarrow> agreement_request list \<Rightarrow> db \<Rightarrow> db" where
  "serve_agreements http sha256 [] d = d"
| "serve_agreements http sha256 (r # rs) d = serve_agreements http sha256 rs (snd (serve_agreement http sha256 r d))"

lemma agreements_step_trans: "agreements_step d d' \<Longrightarrow> agreements_step d' d'' \<Longrightarrow> agreements_step d d''"
  by (auto simp: agreements_step_def)

lemma enqueue_agreements:
  "wpre (enqueue http ctx user newId i False) (\<lambda>_ d'. d_agreements d' = d_agreements d) (\<lambda>_ d'. d_agreements d' = d_agreements d) d"
  by (auto simp: enqueue_def enqueue_write_def insert_submission_def wp split: enqueue_plan.split)

lemma auto_enqueue_step:
  assumes "agreements_step d0 d"
  shows "wpre (auto_enqueue http ctx user newId a) (\<lambda>_. agreements_step d0) (\<lambda>_. agreements_step d0) d"
proof -
  have same: "agreements_step d0 d'" if "d_agreements d' = d_agreements d" for d'
    using agreements_step_trans [OF assms agreements_step_same] that by blast
  have "wpre (enqueue http ctx user newId (ra_reservationId a) False) (\<lambda>_. agreements_step d0)
      (\<lambda>e d'. agreements_step d0 (d_audit_update (\<lambda>as. as @ [audit_entry ctx (Some (u_sub user))
        ''rental_agreement.cargos_auto_enqueue_failed'' ''Reservation'' (ra_reservationId a)
        (JObj [(''agreementId'', JStr (ra_id a)), (''error'', JStr (take 500 (error_text e)))])]) d')) d"
    by (rule wpre_mono [OF enqueue_agreements]) (auto intro: same)
  then show ?thesis using assms by (simp add: auto_enqueue_def wp)
qed

lemma serve_agreement_step: "agreements_step d (snd (serve_agreement http sha256 r d))"
proof -
  note same = agreements_step_same [of d d, simplified]
  have "keeps (agreements_step d) (serve_agreement http sha256 r) d"
  proof (cases r)
    case (CreateAgreement ctx user newId raw)
    then show ?thesis using same
      by (auto simp: keeps_def agreement_create_def wp Let_def draft_agreement_def getScoped_Inr dest!: find_reservation_id
          intro!: agreements_step_insert [of d "draft_agreement newId r inp" for r inp])
  next
    case (UpdateAgreement ctx user i raw)
    then show ?thesis using same
      by (auto simp: keeps_def agreement_update_def wp edited_agreement_def dest: draft_row_Inr
          intro!: wpre_mono [OF wpre_change_draft [where E = "\<lambda>_. agreements_step d"]])
  next
    case (SignAgreement ctx user submissionId i raw)
    then show ?thesis using same
      by (auto simp: keeps_def agreement_sign_def wp signed_agreement_def intro!: auto_enqueue_step
          wpre_mono [OF wpre_change_draft [where E = "\<lambda>_. agreements_step d"]])
  next
    case (VoidAgreement ctx user i)
    then show ?thesis using same
      by (auto simp: keeps_def voidDraft_def wp dest: draft_row_Inr
          intro!: wpre_mono [OF wpre_change_draft [where E = "\<lambda>_. agreements_step d"]])
  next
    case (MailAgreement ctx user i)
    then show ?thesis using same
      by (auto simp: keeps_def sendAgreementPdfEmail_def wp Let_def split: prod.split intro!: agreements_step_same)
  qed
  then show ?thesis by (simp add: keeps_run)
qed

lemma serve_agreements_step: "agreements_step d (serve_agreements http sha256 rs d)"
proof (induction rs arbitrary: d)
  case (Cons r rs)
  show ?case using agreements_step_trans [OF serve_agreement_step Cons.IH] by simp
qed (simp add: agreements_step_same)

section \<open>Properties\<close>

text \<open>
  C6: What was signed stays: an agreement that is signed or voided is never changed or replaced again, whatever
  agreement requests follow, and every signed agreement of the database carries a name and a time.
\<close>

theorem signed_agreement_frozen:
  assumes "agreements_ok d" "a \<in> set (d_agreements d)" "ra_status a \<noteq> AGREEMENT_DRAFT"
    and "d' = serve_agreements http sha256 rs d"
  shows "agreement_of d' (ra_reservationId a) = Some a \<and>
    (\<forall>b\<in>set (d_agreements d'). ra_status b = AGREEMENT_SIGNED \<longrightarrow> ra_signedAt b \<noteq> None \<and> ra_signedByName b \<noteq> None)"
proof -
  have "agreements_step d d'" using serve_agreements_step assms(4) by simp
  then have "agreements_ok d'" "a \<in> set (d_agreements d')"
    using assms(1-3) by (auto simp: agreements_step_def)
  then show ?thesis using agreement_of_eq by (simp add: agreements_ok_def)
qed

definition demo_paper :: "create_agreement_input" where
  "demo_paper = \<lparr>na_reservationId = ''r1'', na_body = ''Terms'', na_agreementTemplateVersion = None\<rparr>"

definition demo_answer :: cargos_http where
  "demo_answer url s r = HttpReply 200 []"

definition demo_signed :: db where
  "demo_signed = serve_agreements demo_answer id
     [CreateAgreement demo_ctx demo_agent ''a1'' demo_paper, SignAgreement demo_ctx demo_agent ''s1'' ''a1'' ''Mario Rossi''] demo_db"

definition demo_tamper :: "agreement_request list" where
  "demo_tamper =
     [UpdateAgreement demo_ctx demo_agent ''a1'' \<lparr>ua_body = ''Other terms'', ua_agreementTemplateVersion = None\<rparr>,
      VoidAgreement demo_ctx demo_agent ''a1'', CreateAgreement demo_ctx demo_agent ''a2'' demo_paper,
      SignAgreement demo_ctx demo_agent ''s2'' ''a1'' ''Luigi Verdi'', MailAgreement demo_ctx demo_agent ''a1'']"

lemma demo_signed_run:
  "map ra_status (d_agreements demo_signed) = [AGREEMENT_SIGNED]" "map ra_reservationId (d_agreements demo_signed) = [''r1'']"
  "map ra_signedByName (d_agreements demo_signed) = [Some ''Mario Rossi'']"
  "map cs_status (d_cargos demo_signed) = [CG_PENDING]"
  unfolding demo_signed_def by code_simp+

theorem signed_agreement_frozen_witness:
  "\<exists>a. agreement_of (serve_agreements demo_answer id demo_tamper demo_signed) ''r1'' = Some a \<and>
     ra_signedByName a = Some ''Mario Rossi''"
proof -
  have ok: "agreements_ok demo_signed"
  proof -
    have "agreements_ok demo_db"
      by (simp add: agreements_ok_def demo_db_def empty_db_def keyed_def one_each_def)
    then show ?thesis
      using serve_agreements_step unfolding demo_signed_def agreements_step_def by blast
  qed
  obtain a where a: "a \<in> set (d_agreements demo_signed)" "ra_status a = AGREEMENT_SIGNED" "ra_reservationId a = ''r1''"
    "ra_signedByName a = Some ''Mario Rossi''"
    using demo_signed_run by (cases "d_agreements demo_signed") auto
  then show ?thesis
    using signed_agreement_frozen [OF ok a(1) _ refl, of demo_answer id demo_tamper] by auto
qed

text \<open>
  A voided agreement cannot be replaced, so the handover gate of its booking never opens again while it asks for
  a signature.
\<close>

lemma voided_agreement_blocks_handover:
  assumes "agreements_ok d" "agreement_of d (r_id r) = Some a" "ra_status a = AGREEMENT_VOID"
    and "d' = serve_agreements http sha256 rs d" "envOn env ''HANDOVER_REQUIRE_SIGNED_AGREEMENT'' True"
  shows "\<not> isInr (assertInProgressHandoverGates env now (gate_slice_of d' c r) docs c intent)"
proof -
  have a: "a \<in> set (d_agreements d)" "ra_reservationId a = r_id r" using agreement_of_Some assms(2) by blast+
  have "agreements_step d d'" using serve_agreements_step assms(4) by simp
  then have "agreement_of d' (r_id r) = Some a"
    using assms(1,3) a agreement_of_eq [of d' a] by (simp add: agreements_step_def)
  then show ?thesis
    using assms(3,5) by (simp add: gate_ready_iff gate_slice_of_def)
qed

text \<open>The schema trims the name after its length was checked: blanks sign the agreement with an empty name.\<close>

lemma blank_name_signs: "signRentalAgreementSchema ''  '' = Some []"
  by code_simp

end
