(* ===== verification/Auth.thy ===== *)
theory Auth
  imports Reservation_Public
begin

text \<open>
  \<open>apps/api/src/auth/auth.service.ts\<close>, \<open>jwt.strategy.ts\<close> and \<open>jwt-auth.guard.ts\<close>: signing in with a
  password, a code of an authenticator app or a recovery code, the lock after failed attempts, and passwords
  set by link. Third-party code is the record \<open>auth_lib\<close>: bcrypt's hash (salt, password) and comparison, the check
  of an authenticator code at a time, SHA-256 and the verification of a signed token at a time. A session is the set of
  claims that is signed. The delays that hide whether an account exists are left out.
\<close>

section \<open>Libraries, claims and settings\<close>

record jwt_claims =
  jc_sub :: string
  jc_email :: "string option"
  jc_companyId :: "string option"
  jc_role :: "user_role option"
  jc_pur :: "string option"

record auth_lib =
  ah_hash :: "string \<Rightarrow> string \<Rightarrow> string"
  ah_compare :: "string \<Rightarrow> string \<Rightarrow> bool"
  ah_totp :: "time \<Rightarrow> string \<Rightarrow> string \<Rightarrow> bool"
  ah_sha256 :: "string \<Rightarrow> string"
  ah_verify :: "time \<Rightarrow> string \<Rightarrow> jwt_claims option"

definition flag_on :: "env \<Rightarrow> string \<Rightarrow> bool" where
  "flag_on env nm = (toLowerCase (trimmed_env env nm) \<in> {''1'', ''true'', ''yes''})"

definition isMfaRequiredByPolicy :: "env \<Rightarrow> bool" where
  "isMfaRequiredByPolicy env = flag_on env ''AUTH_MFA_REQUIRED''"

definition isLoginStrongPasswordRequired :: "env \<Rightarrow> bool" where
  "isLoginStrongPasswordRequired env = flag_on env ''AUTH_LOGIN_REQUIRE_STRONG_PASSWORD''"

definition parseMaxLoginAttempts :: "env \<Rightarrow> int" where
  "parseMaxLoginAttempts env =
     (case env ''AUTH_LOGIN_MAX_ATTEMPTS'' of
        None \<Rightarrow> 0
      | Some raw \<Rightarrow> max 0 (case parseInt10 raw of None \<Rightarrow> 0 | Some n \<Rightarrow> n))"

definition lockout_minutes :: "env \<Rightarrow> int" where
  "lockout_minutes env =
     (let raw = (case env ''AUTH_LOGIN_LOCKOUT_MINUTES'' of None \<Rightarrow> ''15'' | Some s \<Rightarrow> s)
      in min (max (case parseInt10 raw of None \<Rightarrow> 15 | Some n \<Rightarrow> n) 1) (24 * 60))"

definition reset_ttl_minutes :: "env \<Rightarrow> int" where
  "reset_ttl_minutes env =
     (let raw = (case env ''PASSWORD_RESET_TTL_MINUTES'' of None \<Rightarrow> ''60'' | Some s \<Rightarrow> s)
      in min (max (case numberOf raw of None \<Rightarrow> 60 | Some n \<Rightarrow> n) 5) (24 * 60))"

definition mfaCapable :: "user_role \<Rightarrow> bool" where
  "mfaCapable r \<longleftrightarrow> r = ADMIN \<or> r = BRANCH_MANAGER"

section \<open>Passwords and recovery codes\<close>

definition isSpecial :: "char \<Rightarrow> bool" where
  "isSpecial c \<longleftrightarrow> c \<in> set ''!@#$%^&*()_+-=[]{}|;:,.<>?/~`'' \<or> code c = 39"

definition strongPasswordSchema :: "string \<Rightarrow> string option" where
  "strongPasswordSchema raw =
     (let p = trim raw
      in if 12 \<le> length p \<and> length p \<le> 128 \<and>
            list_ex (\<lambda>c. isLetter c \<and> lowerChar c = c) p \<and> list_ex (\<lambda>c. isLetter c \<and> upperChar c = c) p \<and>
            list_ex isDigit p \<and> list_ex isSpecial p
         then Some p else None)"

definition isHex :: "char \<Rightarrow> bool" where
  "isHex c \<longleftrightarrow> isDigit c \<or> lowerChar c \<in> set ''abcdef''"

definition normalizeBackupCodeInput :: "string \<Rightarrow> string option" where
  "normalizeBackupCodeInput raw =
     (let hex = toLowerCase (filter isHex raw)
      in if length hex = 8 then Some (take 4 hex @ ''-'' @ drop 4 hex) else None)"

text \<open>The stored hashes without the first one that matches.\<close>

fun redeem :: "(string \<Rightarrow> bool) \<Rightarrow> string list \<Rightarrow> string list option" where
  "redeem hit [] = None"
| "redeem hit (h # hs) = (if hit h then Some hs else map_option ((#) h) (redeem hit hs))"

definition parseBackupHashes :: "staff_user \<Rightarrow> string list" where
  "parseBackupHashes u = (case su_mfaBackupCodeHashes u of None \<Rightarrow> [] | Some hs \<Rightarrow> hs)"

section \<open>Accounts\<close>

record staff_view =
  sv_id :: string
  sv_email :: string
  sv_firstName :: string
  sv_lastName :: string
  sv_companyId :: string
  sv_stationId :: "string option"
  sv_role :: user_role

definition toPublicUser :: "staff_user \<Rightarrow> staff_view" where
  "toPublicUser u =
     \<lparr>sv_id = su_id u, sv_email = su_email u, sv_firstName = su_firstName u, sv_lastName = su_lastName u,
      sv_companyId = su_companyId u, sv_stationId = su_stationId u, sv_role = su_role u\<rparr>"

definition signAccess :: "staff_user \<Rightarrow> jwt_claims" where
  "signAccess u = \<lparr>jc_sub = su_id u, jc_email = Some (su_email u), jc_companyId = Some (su_companyId u),
     jc_role = Some (su_role u), jc_pur = None\<rparr>"

definition signMfaPending :: "string \<Rightarrow> jwt_claims" where
  "signMfaPending i = \<lparr>jc_sub = i, jc_email = None, jc_companyId = None, jc_role = None, jc_pur = Some ''mfa''\<rparr>"

definition signMfaSetupPending :: "staff_user \<Rightarrow> jwt_claims" where
  "signMfaSetupPending u = (signAccess u)\<lparr>jc_pur := Some ''mfa_setup''\<rparr>"

datatype login_result =
    SignedIn jwt_claims staff_view
  | MfaRequired jwt_claims
  | MfaSetupPending jwt_claims staff_view

definition find_user_by_email :: "db \<Rightarrow> string \<Rightarrow> staff_user option" where
  "find_user_by_email d e = List.find (\<lambda>u. su_email u = e) (d_users d)"

definition active_user :: "staff_user option \<Rightarrow> http_error \<Rightarrow> staff_user result" where
  "active_user found e = (case found of None \<Rightarrow> Inl e | Some u \<Rightarrow> if su_isActive u then Inr u else Inl e)"

definition update_user :: "string \<Rightarrow> (staff_user \<Rightarrow> staff_user) \<Rightarrow> unit dbprog" where
  "update_user i f =
     andDo (asks (\<lambda>d. ensure (find_user d i \<noteq> None) (Prisma ''P2025''))) (modify (d_users_update (update_row su_id i f)))"

definition clear_failures :: "staff_user \<Rightarrow> staff_user" where
  "clear_failures u = u\<lparr>su_failedLoginAttempts := 0, su_lockedUntil := None\<rparr>"

definition pendingMfaSetup :: "staff_user \<Rightarrow> bool" where
  "pendingMfaSetup u \<longleftrightarrow> truthy (su_mfaSecret u) \<and> \<not> su_mfaEnabled u"

definition mfa_on :: "staff_user \<Rightarrow> bool" where
  "mfa_on u \<longleftrightarrow> su_mfaEnabled u \<and> truthy (su_mfaSecret u)"

section \<open>Signing in\<close>

definition failed_attempt :: "ctx \<Rightarrow> staff_user \<Rightarrow> staff_user \<Rightarrow> staff_user" where
  "failed_attempt ctx row u =
     (let nextCount = su_failedLoginAttempts row + 1
      in u\<lparr>su_failedLoginAttempts := nextCount,
           su_lockedUntil := (if nextCount \<ge> parseMaxLoginAttempts (c_env ctx)
             then Some (c_now ctx + lockout_minutes (c_env ctx) * 60000) else su_lockedUntil u)\<rparr>)"

definition recordFailedLoginAttempt :: "ctx \<Rightarrow> staff_user \<Rightarrow> unit dbprog" where
  "recordFailedLoginAttempt ctx row =
     (if parseMaxLoginAttempts (c_env ctx) \<le> 0 then ret () else update_user (su_id row) (failed_attempt ctx row))"

definition refuse :: "ctx \<Rightarrow> staff_user \<Rightarrow> string \<Rightarrow> 'a dbprog" where
  "refuse ctx row msg = andDo (recordFailedLoginAttempt ctx row) (throw (Unauthorized msg))"

definition assertFullLogin :: "ctx \<Rightarrow> staff_user \<Rightarrow> login_result dbprog" where
  "assertFullLogin ctx row =
     andDo (update_user (su_id row) (\<lambda>u. (clear_failures u)\<lparr>su_lastLoginAt := Some (c_now ctx)\<rparr>))
     (andDo (audit (audit_entry ctx (Some (su_id row)) ''auth.login'' ''User'' (su_id row) JUndefined))
     (ret (SignedIn (signAccess row) (toPublicUser row))))"

text \<open>The lock of an account, and the end of a lock that is over.\<close>

definition unlock :: "ctx \<Rightarrow> staff_user \<Rightarrow> staff_user dbprog" where
  "unlock ctx row =
     (case su_lockedUntil row of
        None \<Rightarrow> ret row
      | Some until \<Rightarrow>
          if until > c_now ctx then throw (Unauthorized ''Account temporarily locked due to failed sign-in attempts'')
          else andDo (update_user (su_id row) clear_failures) (ret (clear_failures row)))"

record login_input =
  li_email :: string
  li_password :: string
  li_totp :: "string option"

definition check_login_policy :: "env \<Rightarrow> string \<Rightarrow> unit result" where
  "check_login_policy env password =
     ensure (isLoginStrongPasswordRequired env \<longrightarrow> strongPasswordSchema password \<noteq> None)
       (Unauthorized ''Your password no longer meets security policy; use Forgot password to set a new one.'')"

definition second_factor :: "auth_lib \<Rightarrow> ctx \<Rightarrow> string option \<Rightarrow> staff_user \<Rightarrow> login_result dbprog" where
  "second_factor lib ctx totp row =
     (if isMfaRequiredByPolicy (c_env ctx) \<and> mfaCapable (su_role row) \<and> \<not> su_mfaEnabled row \<and> \<not> pendingMfaSetup row
      then throw (Forbidden ''Two-factor authentication is required for admin and branch manager accounts.'')
      else if pendingMfaSetup row then ret (MfaSetupPending (signMfaSetupPending row) (toPublicUser row))
      else if mfa_on row then
        (if truthy totp then
           (if ah_totp lib (c_now ctx) (the totp) (the (su_mfaSecret row)) then assertFullLogin ctx row
            else refuse ctx row ''Invalid two-factor code'')
         else ret (MfaRequired (signMfaPending (su_id row))))
      else assertFullLogin ctx row)"

definition login :: "auth_lib \<Rightarrow> ctx \<Rightarrow> login_input \<Rightarrow> login_result dbprog" where
  "login lib ctx inp =
     bnd (asks (\<lambda>d. active_user (find_user_by_email d (toLowerCase (li_email inp))) (Unauthorized ''Invalid credentials''))) (\<lambda>u.
     bnd (unlock ctx u) (\<lambda>row.
     if \<not> ah_compare lib (li_password inp) (su_passwordHash row) then refuse ctx row ''Invalid credentials''
     else
       andDo (asks (\<lambda>_. check_login_policy (c_env ctx) (li_password inp)))
       (andDo (update_user (su_id row) clear_failures)
       (second_factor lib ctx (li_totp inp) (clear_failures row)))))"

record mfa_input =
  mi_mfaToken :: string
  mi_totp :: "string option"
  mi_backupCode :: "string option"

definition mfa_subject :: "auth_lib \<Rightarrow> time \<Rightarrow> string \<Rightarrow> string result" where
  "mfa_subject lib now token =
     (case ah_verify lib now token of
        None \<Rightarrow> Inl (Unauthorized ''Invalid or expired MFA step token'')
      | Some c \<Rightarrow> if jc_pur c = Some ''mfa'' \<and> jc_sub c \<noteq> [] then Inr (jc_sub c)
                  else Inl (Unauthorized ''Invalid or expired MFA step token''))"

definition recovery_login :: "auth_lib \<Rightarrow> ctx \<Rightarrow> string \<Rightarrow> staff_user \<Rightarrow> login_result dbprog" where
  "recovery_login lib ctx raw row =
     (case normalizeBackupCodeInput raw of
        None \<Rightarrow> refuse ctx row ''Invalid recovery code''
      | Some canonical \<Rightarrow>
          (case redeem (ah_compare lib canonical) (parseBackupHashes row) of
             None \<Rightarrow> refuse ctx row ''Invalid recovery code''
           | Some left \<Rightarrow>
               andDo (update_user (su_id row) (su_mfaBackupCodeHashes_update (\<lambda>_. Some left)))
               (andDo (audit (audit_entry ctx (Some (su_id row)) ''auth.mfa_backup_redeem'' ''User'' (su_id row) JUndefined))
               (assertFullLogin ctx row))))"

definition completeMfaLogin :: "auth_lib \<Rightarrow> ctx \<Rightarrow> mfa_input \<Rightarrow> login_result dbprog" where
  "completeMfaLogin lib ctx inp =
     bnd (asks (\<lambda>_. mfa_subject lib (c_now ctx) (mi_mfaToken inp))) (\<lambda>sub.
     bnd (asks (\<lambda>d. active_user (find_user d sub) (Unauthorized ''Invalid credentials''))) (\<lambda>u.
     bnd (unlock ctx u) (\<lambda>row.
     andDo (asks (\<lambda>_. ensure (mfa_on row) (BadRequest ''MFA is not active for this account'')))
     (if truthy (mi_totp inp) then
        (if ah_totp lib (c_now ctx) (the (mi_totp inp)) (the (su_mfaSecret row)) then assertFullLogin ctx row
         else refuse ctx row ''Invalid two-factor code'')
      else recovery_login lib ctx (or_else (mi_backupCode inp) []) row))))"

section \<open>The authenticator app\<close>

definition startMfaSetup :: "string \<Rightarrow> string \<Rightarrow> string dbprog" where
  "startMfaSetup secret userId =
     bnd (asks (\<lambda>d. orElse (find_user d userId) (Unauthorized ''Unauthorized''))) (\<lambda>u.
     andDo (asks (\<lambda>_. ensure (mfaCapable (su_role u)) (Forbidden ''MFA is only available for admin and branch manager accounts'')))
     (andDo (asks (\<lambda>_. ensure (\<not> su_mfaEnabled u) (BadRequest ''MFA is already enabled'')))
     (andDo (update_user userId (\<lambda>x. x\<lparr>su_mfaSecret := Some secret, su_mfaEnabled := False, su_mfaBackupCodeHashes := None\<rparr>))
     (ret secret))))"

definition hashBackupCodes :: "auth_lib \<Rightarrow> (string \<times> string) list \<Rightarrow> string list" where
  "hashBackupCodes lib codes = map (\<lambda>(salt, plain). ah_hash lib salt plain) codes"

definition confirmMfaSetup ::
  "auth_lib \<Rightarrow> ctx \<Rightarrow> (string \<times> string) list \<Rightarrow> string \<Rightarrow> string \<Rightarrow> (jwt_claims \<times> string list) dbprog" where
  "confirmMfaSetup lib ctx codes userId totp =
     bnd (asks (\<lambda>d. orElse (find_user d userId) (Forbidden ''Forbidden''))) (\<lambda>u.
     andDo (asks (\<lambda>_. ensure (mfaCapable (su_role u)) (Forbidden ''Forbidden'')))
     (andDo (asks (\<lambda>_. ensure (\<not> su_mfaEnabled u) (BadRequest ''MFA is already enabled'')))
     (andDo (asks (\<lambda>_. ensure (truthy (su_mfaSecret u))
        (BadRequest ''Call POST /auth/mfa/setup first, then enter the app code here'')))
     (andDo (asks (\<lambda>_. ensure (ah_totp lib (c_now ctx) totp (the (su_mfaSecret u))) (Unauthorized ''Invalid code'')))
     (andDo (update_user userId (\<lambda>x. x\<lparr>su_mfaEnabled := True, su_mfaBackupCodeHashes := Some (hashBackupCodes lib codes)\<rparr>))
     (andDo (audit (bare_audit (Some userId) ''auth.mfa_enable'' ''User'' userId JUndefined))
     (bnd (asks (\<lambda>d. orElse (find_user d userId) (Unauthorized ''Unauthorized''))) (\<lambda>ready.
      ret (signAccess ready, map snd codes)))))))))"

definition cancelMfaSetup :: "string \<Rightarrow> unit dbprog" where
  "cancelMfaSetup userId =
     bnd (asks (\<lambda>d. orElse (find_user d userId) (Unauthorized ''Unauthorized''))) (\<lambda>u.
     andDo (asks (\<lambda>_. ensure (\<not> su_mfaEnabled u) (BadRequest ''Turn off MFA with disable, not cancel'')))
     (update_user userId (\<lambda>x. x\<lparr>su_mfaSecret := None, su_mfaBackupCodeHashes := None\<rparr>)))"

definition disableMfa :: "auth_lib \<Rightarrow> ctx \<Rightarrow> string \<Rightarrow> string \<Rightarrow> unit dbprog" where
  "disableMfa lib ctx userId totp =
     bnd (asks (\<lambda>d. orElse (find_user d userId) (Unauthorized ''Unauthorized''))) (\<lambda>u.
     andDo (asks (\<lambda>_. ensure (mfa_on u) (BadRequest ''MFA is not enabled'')))
     (andDo (asks (\<lambda>_. ensure (\<not> (isMfaRequiredByPolicy (c_env ctx) \<and> mfaCapable (su_role u)))
        (Forbidden ''Two-factor authentication cannot be disabled while required by policy.'')))
     (andDo (asks (\<lambda>_. ensure (ah_totp lib (c_now ctx) totp (the (su_mfaSecret u))) (Unauthorized ''Invalid code'')))
     (andDo (update_user userId (\<lambda>x. x\<lparr>su_mfaEnabled := False, su_mfaSecret := None, su_mfaBackupCodeHashes := None\<rparr>))
     (audit (bare_audit (Some userId) ''auth.mfa_disable'' ''User'' userId JUndefined))))))"

definition regenerateMfaBackupCodes ::
  "auth_lib \<Rightarrow> ctx \<Rightarrow> (string \<times> string) list \<Rightarrow> string \<Rightarrow> string \<Rightarrow> string list dbprog" where
  "regenerateMfaBackupCodes lib ctx codes userId totp =
     bnd (asks (\<lambda>d. orElse (find_user d userId) (Unauthorized ''Unauthorized''))) (\<lambda>u.
     andDo (asks (\<lambda>_. ensure (mfaCapable (su_role u)) (Forbidden ''Forbidden'')))
     (andDo (asks (\<lambda>_. ensure (mfa_on u) (BadRequest ''MFA is not enabled'')))
     (andDo (asks (\<lambda>_. ensure (ah_totp lib (c_now ctx) totp (the (su_mfaSecret u))) (Unauthorized ''Invalid code'')))
     (andDo (update_user userId (su_mfaBackupCodeHashes_update (\<lambda>_. Some (hashBackupCodes lib codes))))
     (andDo (audit (bare_audit (Some userId) ''auth.mfa_backup_regenerate'' ''User'' userId JUndefined))
     (ret (map snd codes)))))))"

section \<open>Accounts and passwords\<close>

record register_input =
  ri_email :: string
  ri_password :: string
  ri_firstName :: string
  ri_lastName :: string
  ri_companyId :: string
  ri_stationId :: "string option"
  ri_role :: user_role

definition new_account :: "auth_lib \<Rightarrow> time \<Rightarrow> string \<Rightarrow> string \<Rightarrow> register_input \<Rightarrow> staff_user" where
  "new_account lib now salt newId inp =
     \<lparr>su_id = newId, su_companyId = ri_companyId inp, su_stationId = ri_stationId inp,
      su_email = toLowerCase (ri_email inp), su_passwordHash = ah_hash lib salt (ri_password inp),
      su_firstName = ri_firstName inp, su_lastName = ri_lastName inp, su_role = ri_role inp, su_isActive = True,
      su_lastLoginAt = None, su_failedLoginAttempts = 0, su_lockedUntil = None, su_mfaEnabled = False,
      su_mfaSecret = None, su_mfaBackupCodeHashes = None, su_createdAt = now\<rparr>"

definition insert_user :: "staff_user \<Rightarrow> unit dbprog" where
  "insert_user u =
     andDo (asks (\<lambda>d. ensure (find_user d (su_id u) = None \<and> find_user_by_email d (su_email u) = None) (Prisma ''P2002'')))
       (modify (d_users_update (\<lambda>us. us @ [u])))"

definition station_in_company :: "db \<Rightarrow> string \<Rightarrow> string \<Rightarrow> bool" where
  "station_in_company d i companyId = list_ex (\<lambda>s. st_id s = i \<and> st_companyId s = companyId) (d_stations d)"

definition check_register :: "db \<Rightarrow> env \<Rightarrow> register_input \<Rightarrow> unit result" where
  "check_register d env inp =
     andThen (ensure (env ''AUTH_ALLOW_REGISTER'' = Some ''true'')
       (Forbidden ''Registration is not enabled (AUTH_ALLOW_REGISTER=true)'')) (\<lambda>_.
     andThen (ensure (find_company d (ri_companyId inp) \<noteq> None) (Forbidden ''Company not found'')) (\<lambda>_.
     andThen (ensure (\<not> truthy (ri_stationId inp) \<or> station_in_company d (the (ri_stationId inp)) (ri_companyId inp))
       (Forbidden ''Station does not belong to this company'')) (\<lambda>_.
     ensure (find_user_by_email d (toLowerCase (ri_email inp)) = None) (Forbidden ''Email already in use''))))"

definition auth_register ::
  "auth_lib \<Rightarrow> ctx \<Rightarrow> string \<Rightarrow> string \<Rightarrow> register_input \<Rightarrow> (jwt_claims \<times> staff_view) dbprog" where
  "auth_register lib ctx salt newId inp =
     andDo (asks (\<lambda>d. check_register d (c_env ctx) inp))
     (let u = new_account lib (c_now ctx) salt newId inp
      in andDo (insert_user u) (ret (signAccess u, toPublicUser u)))"

record profile =
  pf_user :: staff_view
  pf_mfaEnabled :: bool
  pf_mfaSetupPending :: bool
  pf_mfaCanEnable :: bool
  pf_mfaBackupCodesRemaining :: nat
  pf_adminCrossCompanyAccess :: bool

definition getProfile :: "db \<Rightarrow> env \<Rightarrow> string \<Rightarrow> profile result" where
  "getProfile d env i =
     andThen (orElse (find_user d i) (Unauthorized ''Unauthorized'')) (\<lambda>u.
     Inr \<lparr>pf_user = toPublicUser u, pf_mfaEnabled = su_mfaEnabled u, pf_mfaSetupPending = pendingMfaSetup u,
       pf_mfaCanEnable = mfaCapable (su_role u),
       pf_mfaBackupCodesRemaining = (if su_mfaEnabled u then length (parseBackupHashes u) else 0),
       pf_adminCrossCompanyAccess = (su_role u = ADMIN \<and> \<not> enforceStaffSingleCompany env)\<rparr>)"

text \<open>
  A link to set a password: the tokens not used yet are replaced by the hash of a new one, \<open>raw\<close>, and the
  mail is sent; \<open>delivered\<close> says whether the transport took it.
\<close>

definition reset_url :: "env \<Rightarrow> string \<Rightarrow> string" where
  "reset_url env raw = public_base_url env @ ''/auth/reset-password?token='' @ encodeURIComponent raw"

definition new_reset_token :: "auth_lib \<Rightarrow> ctx \<Rightarrow> string \<Rightarrow> string \<Rightarrow> string \<Rightarrow> reset_token" where
  "new_reset_token lib ctx newId raw userId =
     \<lparr>pr_id = newId, pr_userId = userId, pr_tokenHash = ah_sha256 lib raw,
      pr_expiresAt = c_now ctx + reset_ttl_minutes (c_env ctx) * 60000, pr_usedAt = None\<rparr>"

definition replace_tokens :: "string \<Rightarrow> reset_token \<Rightarrow> unit dbprog" where
  "replace_tokens userId t =
     andDo (modify (d_resets_update (filter (\<lambda>p. \<not> (pr_userId p = userId \<and> pr_usedAt p = None)))))
     (andDo (asks (\<lambda>d. ensure (\<not> list_ex (\<lambda>p. pr_id p = pr_id t \<or> pr_tokenHash p = pr_tokenHash t) (d_resets d)) (Prisma ''P2002'')))
     (modify (d_resets_update (\<lambda>ps. ps @ [t]))))"

definition drop_token :: "string \<Rightarrow> unit dbprog" where
  "drop_token h = modify (d_resets_update (filter (\<lambda>p. pr_tokenHash p \<noteq> h)))"

definition link_mail :: "string \<Rightarrow> env \<Rightarrow> staff_user \<Rightarrow> string \<Rightarrow> mail" where
  "link_mail kind env u raw =
     \<lparr>m_kind = kind, m_to = su_email u, m_reservationId = [], m_link = Some (reset_url env raw)\<rparr>"

definition requestPasswordReset :: "auth_lib \<Rightarrow> ctx \<Rightarrow> bool \<Rightarrow> string \<Rightarrow> string \<Rightarrow> string \<Rightarrow> unit dbprog" where
  "requestPasswordReset lib ctx delivered newId raw email =
     bnd (gets (\<lambda>d. find_user_by_email d (trim (toLowerCase email)))) (\<lambda>found.
     case found of
       None \<Rightarrow> ret ()
     | Some u \<Rightarrow>
         if \<not> su_isActive u \<or> \<not> c_mailOn ctx \<or> public_base_url (c_env ctx) = [] then ret ()
         else
           let t = new_reset_token lib ctx newId raw (su_id u)
           in andDo (replace_tokens (su_id u) t)
              (andDo (if delivered then send_mail (link_mail ''passwordReset'' (c_env ctx) u raw) else drop_token (pr_tokenHash t))
              (audit (audit_entry ctx (Some (su_id u)) ''auth.password_reset_request'' ''User'' (su_id u) JUndefined))))"

definition sendStaffInviteSetupEmail ::
  "auth_lib \<Rightarrow> ctx \<Rightarrow> bool \<Rightarrow> string \<Rightarrow> string \<Rightarrow> string \<Rightarrow> string \<Rightarrow> unit dbprog" where
  "sendStaffInviteSetupEmail lib ctx delivered newId raw userId actorUserId =
     andDo (asks (\<lambda>_. ensure (c_mailOn ctx \<and> public_base_url (c_env ctx) \<noteq> [])
       (BadRequest ''Cannot send staff invite: configure SMTP (e.g. SMTP_HOST, SMTP_FROM) and APP_PUBLIC_BASE_URL'')))
     (bnd (asks (\<lambda>d. active_user (find_user d userId) (NotFound ''User not found''))) (\<lambda>u.
      let t = new_reset_token lib ctx newId raw (su_id u)
      in andDo (replace_tokens (su_id u) t)
         (andDo (if delivered then send_mail (link_mail ''staffAccountInvite'' (c_env ctx) u raw)
                 else andDo (drop_token (pr_tokenHash t)) (throw (ServiceUnavailable
                   ''Could not send invite email; the new user was not created. Try again or add staff without the email invite.'')))
         (audit (audit_entry ctx (Some actorUserId) ''auth.staff_invite_email'' ''User'' (su_id u)
            (JObj [(''targetEmail'', JStr (su_email u))]))))))"

definition usable_token :: "auth_lib \<Rightarrow> db \<Rightarrow> time \<Rightarrow> string \<Rightarrow> reset_token result" where
  "usable_token lib d now token =
     (let bad = BadRequest ''Invalid or expired reset link''
      in andThen (orElse (List.find (\<lambda>p. pr_tokenHash p = ah_sha256 lib (toLowerCase token)) (d_resets d)) bad) (\<lambda>p.
         if pr_usedAt p \<noteq> None \<or> pr_expiresAt p \<le> now then Inl bad else Inr p))"

definition new_password :: "auth_lib \<Rightarrow> string \<Rightarrow> string \<Rightarrow> staff_user \<Rightarrow> staff_user" where
  "new_password lib salt pw u = (clear_failures u)\<lparr>su_passwordHash := ah_hash lib salt pw\<rparr>"

definition resetPasswordWithToken :: "auth_lib \<Rightarrow> ctx \<Rightarrow> string \<Rightarrow> string \<Rightarrow> string \<Rightarrow> unit dbprog" where
  "resetPasswordWithToken lib ctx salt token pw =
     bnd (asks (\<lambda>d. usable_token lib d (c_now ctx) token)) (\<lambda>p.
     andDo (transaction
       (andDo (update_user (pr_userId p) (new_password lib salt pw))
       (andDo (modify (d_resets_update (update_row pr_id (pr_id p) (pr_usedAt_update (\<lambda>_. Some (c_now ctx))))))
       (modify (d_resets_update (filter (\<lambda>q. \<not> (pr_userId q = pr_userId p \<and> pr_usedAt q = None \<and> pr_id q \<noteq> pr_id p))))))))
     (audit (audit_entry ctx (Some (pr_userId p)) ''auth.password_reset_complete'' ''User'' (pr_userId p) JUndefined)))"

definition changePassword :: "auth_lib \<Rightarrow> string \<Rightarrow> string \<Rightarrow> string \<Rightarrow> string \<Rightarrow> unit dbprog" where
  "changePassword lib salt userId current pw =
     bnd (asks (\<lambda>d. active_user (find_user d userId) (Unauthorized ''Unauthorized''))) (\<lambda>u.
     andDo (asks (\<lambda>_. ensure (ah_compare lib current (su_passwordHash u)) (Unauthorized ''Current password is incorrect'')))
     (andDo (asks (\<lambda>_. ensure (pw \<noteq> current) (BadRequest ''New password must differ from current password'')))
     (andDo (update_user userId (new_password lib salt pw))
     (audit (bare_audit (Some userId) ''auth.password_change'' ''User'' userId JUndefined)))))"

section \<open>Sessions\<close>

text \<open>Who a verified token stands for, and whether the session is only there to finish the set-up of the app.\<close>

definition as_user :: "staff_user \<Rightarrow> jwt_user" where
  "as_user u = \<lparr>u_sub = su_id u, u_companyId = su_companyId u, u_role = su_role u, u_stationId = su_stationId u\<rparr>"

definition claimed_user :: "db \<Rightarrow> jwt_claims \<Rightarrow> staff_user result" where
  "claimed_user d c =
     (let no = Unauthorized ''Unauthorized''
      in andThen (ensure (truthy (jc_email c) \<and> truthy (jc_companyId c) \<and> jc_role c \<noteq> None) no) (\<lambda>_.
         active_user (find_user d (jc_sub c)) no))"

definition same_identity :: "staff_user \<Rightarrow> jwt_claims \<Rightarrow> unit result" where
  "same_identity u c =
     ensure (jc_email c = Some (su_email u) \<and> jc_companyId c = Some (su_companyId u) \<and> jc_role c = Some (su_role u))
       (Unauthorized ''Unauthorized'')"

definition jwt_validate :: "db \<Rightarrow> env \<Rightarrow> jwt_claims \<Rightarrow> (jwt_user \<times> bool) result" where
  "jwt_validate d env c =
     (if jc_pur c = Some ''mfa'' then Inl (Unauthorized ''Unauthorized'')
      else if jc_pur c = Some ''mfa_setup'' then
        andThen (claimed_user d c) (\<lambda>u.
        andThen (ensure (pendingMfaSetup u)
          (Unauthorized ''MFA enrollment is no longer pending - sign in again for a full session.'')) (\<lambda>_.
        andThen (same_identity u c) (\<lambda>_. Inr (as_user u, True))))
      else
        andThen (claimed_user d c) (\<lambda>u.
        andThen (same_identity u c) (\<lambda>_.
        andThen (ensure (\<not> (isMfaRequiredByPolicy env \<and> mfaCapable (su_role u) \<and> \<not> su_mfaEnabled u))
          (Unauthorized ''Two-factor authentication is required - sign in again with a fully enrolled account.'')) (\<lambda>_.
        Inr (as_user u, False)))))"

definition endsWith :: "string \<Rightarrow> string \<Rightarrow> bool" where
  "endsWith suffix s \<longleftrightarrow> length suffix \<le> length s \<and> drop (length s - length suffix) s = suffix"

definition isMfaSetupAllowedRoute :: "string \<Rightarrow> string \<Rightarrow> bool" where
  "isMfaSetupAllowedRoute httpMethod rawPath =
     (let p = takeWhile (\<lambda>c. c \<noteq> CHR ''?'') rawPath;
          path = (if p \<noteq> [] \<and> last p = CHR ''/'' then butlast p else p)
      in httpMethod = ''GET'' \<and> endsWith ''/auth/me'' path \<or>
         httpMethod = ''POST'' \<and> endsWith ''/auth/mfa/setup/confirm'' path \<or>
         httpMethod = ''POST'' \<and> endsWith ''/auth/mfa/setup/cancel'' path)"

definition jwtAuthGuard ::
  "auth_lib \<Rightarrow> db \<Rightarrow> env \<Rightarrow> time \<Rightarrow> bool \<Rightarrow> string \<Rightarrow> string \<Rightarrow> string option \<Rightarrow> jwt_user option result" where
  "jwtAuthGuard lib d env now isPublic httpMethod path bearer =
     (if isPublic then Inr None
      else if path = ''/docs'' \<or> path = ''/docs-json'' \<or> startsWith ''/docs/'' path \<or> startsWith ''/docs-'' path then Inr None
      else
        andThen (orElse (case bearer of None \<Rightarrow> None | Some t \<Rightarrow> ah_verify lib now t) (Unauthorized ''Unauthorized'')) (\<lambda>c.
        andThen (jwt_validate d env c) (\<lambda>(u, setupOnly).
        andThen (ensure (\<not> setupOnly \<or> isMfaSetupAllowedRoute (toUpperCase httpMethod) path)
          (Forbidden ''Complete or cancel two-factor enrollment (confirm the app code) before using the desk.'')) (\<lambda>_.
        Inr (Some u)))))"

end
