(* ===== verification/Always.thy ===== *)
theory Always
  imports Prelude
begin

text \<open>
  State predicates that a program keeps from wherever it starts, proved along the structure of the program,
  and what a sequence of requests keeps.
\<close>

definition always :: "('s \<Rightarrow> bool) \<Rightarrow> ('s, 'a) prog \<Rightarrow> bool" where
  "always I m \<longleftrightarrow> (\<forall>s. I s \<longrightarrow> keeps I m s)"

lemma always_run: "always I m \<Longrightarrow> I s \<Longrightarrow> I (snd (m s))"
  by (simp add: always_def keeps_run)

lemma always_bnd: "always I m \<Longrightarrow> (\<And>x. always I (k x)) \<Longrightarrow> always I (bnd m k)"
  by (fastforce simp: always_def keeps_run bnd_def split: prod.split sum.split)

lemma always_andDo: "always I m \<Longrightarrow> always I k \<Longrightarrow> always I (andDo m k)"
  by (simp add: andDo_def always_bnd)

lemma always_simps: "always I (ret x)" "always I (throw e)" "always I (asks f)" "always I (gets g)"
  by (simp_all add: always_def keeps_def wp)

lemma always_modify: "(\<And>s. I s \<Longrightarrow> I (g s)) \<Longrightarrow> always I (modify g)"
  by (simp add: always_def keeps_run)

lemma always_transaction: "always I m \<Longrightarrow> always I (transaction m)"
  by (fastforce simp: always_def keeps_run transaction_def split: prod.split sum.split)

lemma always_if: "always I m \<Longrightarrow> always I k \<Longrightarrow> always I (if c then m else k)"
  by simp

lemma always_option: "always I m \<Longrightarrow> (\<And>y. always I (k y)) \<Longrightarrow> always I (case x of None \<Rightarrow> m | Some y \<Rightarrow> k y)"
  by (simp split: option.split)

lemma always_let: "always I (m t) \<Longrightarrow> always I (let x = t in m x)"
  by simp

lemma always_asks: "(\<And>s x. I s \<Longrightarrow> f s = Inr x \<Longrightarrow> keeps I (k x) s) \<Longrightarrow> always I (bnd (asks f) k)"
  by (auto simp: always_def keeps_def wp)

lemmas always_intros = always_bnd always_andDo always_simps always_transaction always_if always_option always_let

lemma always_sum: "(\<And>e. always I (m e)) \<Longrightarrow> (\<And>y. always I (k y)) \<Longrightarrow> always I (case x of Inl e \<Rightarrow> m e | Inr y \<Rightarrow> k y)"
  by (simp split: sum.split)

lemma always_split: "(\<And>a b. always I (k a b)) \<Longrightarrow> always I (case p of (a, b) \<Rightarrow> k a b)"
  by (cases p) simp

lemma always_catch: "always I m \<Longrightarrow> (\<And>e. always I (h e)) \<Longrightarrow> always I (catch m h)"
  by (fastforce simp: always_def keeps_run catch_def split: prod.split sum.split)

lemma always_mapProg: "(\<And>x. always I (f x)) \<Longrightarrow> always I (mapProg f xs)"
  by (induction xs) (simp_all add: always_intros)

lemma always_ret_unit: "always I m \<Longrightarrow> always I (andDo m (ret ()))"
  by (simp add: always_intros)

text \<open>Requests one after the other.\<close>

fun run_all :: "('r \<Rightarrow> ('s, unit) prog) \<Rightarrow> 'r list \<Rightarrow> 's \<Rightarrow> 's" where
  "run_all serve [] s = s"
| "run_all serve (r # rs) s = run_all serve rs (snd (serve r s))"

lemma always_run_all:
  assumes "\<And>r. always I (serve r)" "I s"
  shows "I (run_all serve rs s)"
  using assms(2) by (induction rs arbitrary: s) (auto intro: always_run [OF assms(1)])

lemma always_run_list:
  assumes "\<And>r. r \<in> set rs \<Longrightarrow> always I (serve r)" "I s"
  shows "I (run_all serve rs s)"
  using assms by (induction rs arbitrary: s) (auto intro: always_run)

end
