(* ===== verification/Auth_Safety.thy ===== *)
theory Auth_Safety
  imports Auth Row_Changes Fixtures Always
begin

text \<open>
  What signing in guarantees: nobody gets a session without every factor the account has, in any state the
  requests lead to; the lock after failed passwords, and the codes it does not count; and links that set a
  password once.
\<close>

section \<open>The table of accounts\<close>

lemma wpre_update_user [wp]:
  "wpre (update_user i f) Q E d =
     ((find_user d i = None \<longrightarrow> E (Prisma ''P2025'') d) \<and>
      (find_user d i \<noteq> None \<longrightarrow> Q () (d_users_update (update_row su_id i f) d)))"
  by (auto simp: update_user_def wp)

definition account_ok :: "staff_user \<Rightarrow> bool" where
  "account_ok u \<longleftrightarrow> (su_mfaEnabled u \<longrightarrow> truthy (su_mfaSecret u))"

definition users_ok :: "db \<Rightarrow> bool" where
  "users_ok d \<longleftrightarrow> keyed su_id (d_users d) \<and> distinct (map su_email (d_users d)) \<and> list_all account_ok (d_users d)"

lemma users_ok_cong: "d_users d' = d_users d \<Longrightarrow> users_ok d' = users_ok d"
  by (simp add: users_ok_def)

lemma users_ok_change:
  assumes "users_ok d" "\<And>x. su_id (f x) = su_id x" "\<And>x. su_email (f x) = su_email x"
    and "\<And>x. x \<in> set (d_users d) \<Longrightarrow> su_id x = i \<Longrightarrow> account_ok (f x)"
  shows "users_ok (d_users_update (update_row su_id i f) d)"
proof -
  have "distinct (map su_email (update_row su_id i f (d_users d)))"
    using assms(1,3) keyed_map [of su_email "\<lambda>r. if su_id r = i then f r else r"]
    by (simp add: users_ok_def update_row_def keyed_def)
  then show ?thesis
    using assms users.keyed_update [of d f i] by (auto simp: users_ok_def list_all_iff update_row_def)
qed

lemma find_email_update:
  assumes "\<And>x. su_email (f x) = su_email x"
  shows "find_user_by_email (d_users_update (update_row su_id i f) d) e =
    map_option (\<lambda>u. if su_id u = i then f u else u) (find_user_by_email d e)"
proof -
  have "List.find (\<lambda>u. su_email u = e) (update_row su_id i f us) =
      map_option (\<lambda>u. if su_id u = i then f u else u) (List.find (\<lambda>u. su_email u = e) us)" for us
    using assms by (induction us) (auto simp: update_row_def)
  then show ?thesis by (simp add: find_user_by_email_def)
qed

lemma find_user_frame [simp]:
  "find_user (d_audit_update g d) = find_user d" "find_user (d_resets_update h d) = find_user d"
  "find_user (d_mails_update k d) = find_user d"
  "find_user_by_email (d_audit_update g d) = find_user_by_email d"
  "find_user_by_email (d_resets_update h d) = find_user_by_email d"
  by (simp_all add: fun_eq_iff find_user_def find_user_by_email_def)

lemma find_user_update:
  assumes "\<And>x. su_id (f x) = su_id x"
  shows "find_user (d_users_update (update_row su_id i f) d) j =
    (if j = i then map_option f (find_user d j) else find_user d j)"
  using assms by (simp add: find_user_def tables)

lemma find_user_mem: "find_user d i = Some u \<Longrightarrow> u \<in> set (d_users d) \<and> su_id u = i"
  using users.find_Some [of i d u] by (simp add: find_user_def)

lemma find_email_mem: "find_user_by_email d e = Some u \<Longrightarrow> u \<in> set (d_users d) \<and> su_email u = e"
  by (auto simp: find_user_by_email_def find_Some_iff)

lemma same_account: "users_ok d \<Longrightarrow> u \<in> set (d_users d) \<Longrightarrow> v \<in> set (d_users d) \<Longrightarrow> su_id u = su_id v \<Longrightarrow> u = v"
  by (auto simp: users_ok_def keyed_def distinct_map inj_on_def)

lemma listed_account: "users_ok d \<Longrightarrow> u \<in> set (d_users d) \<Longrightarrow> find_user d (su_id u) = Some u"
  by (simp add: find_user_def users.find_keyed users_ok_def)

lemma active_user_Inr: "active_user found e = Inr u \<longleftrightarrow> found = Some u \<and> su_isActive u"
  by (auto simp: active_user_def split: option.splits if_splits)

lemma clear_failures_simps [simp]:
  "su_id (clear_failures u) = su_id u" "su_email (clear_failures u) = su_email u"
  "su_isActive (clear_failures u) = su_isActive u" "su_passwordHash (clear_failures u) = su_passwordHash u"
  "su_role (clear_failures u) = su_role u" "su_mfaEnabled (clear_failures u) = su_mfaEnabled u"
  "su_mfaSecret (clear_failures u) = su_mfaSecret u" "su_mfaBackupCodeHashes (clear_failures u) = su_mfaBackupCodeHashes u"
  "su_failedLoginAttempts (clear_failures u) = 0" "su_lockedUntil (clear_failures u) = None"
  "signAccess (clear_failures u) = signAccess u" "toPublicUser (clear_failures u) = toPublicUser u"
  "mfa_on (clear_failures u) = mfa_on u" "pendingMfaSetup (clear_failures u) = pendingMfaSetup u"
  "account_ok (clear_failures u) = account_ok u" "clear_failures (clear_failures u) = clear_failures u"
  by (simp_all add: clear_failures_def signAccess_def toPublicUser_def mfa_on_def pendingMfaSetup_def account_ok_def)

lemma failed_attempt_simps [simp]:
  "su_id (failed_attempt ctx row u) = su_id u" "su_email (failed_attempt ctx row u) = su_email u"
  "su_isActive (failed_attempt ctx row u) = su_isActive u" "su_passwordHash (failed_attempt ctx row u) = su_passwordHash u"
  "su_role (failed_attempt ctx row u) = su_role u" "su_mfaEnabled (failed_attempt ctx row u) = su_mfaEnabled u"
  "su_mfaSecret (failed_attempt ctx row u) = su_mfaSecret u"
  "mfa_on (failed_attempt ctx row u) = mfa_on u" "pendingMfaSetup (failed_attempt ctx row u) = pendingMfaSetup u"
  "account_ok (failed_attempt ctx row u) = account_ok u"
  "signAccess (failed_attempt ctx row u) = signAccess u" "toPublicUser (failed_attempt ctx row u) = toPublicUser u"
  by (simp_all add: failed_attempt_def Let_def signAccess_def toPublicUser_def mfa_on_def pendingMfaSetup_def account_ok_def)

section \<open>Requests\<close>

datatype auth_request =
    Login ctx login_input
  | CompleteMfa ctx mfa_input
  | StartMfa string string
  | ConfirmMfa ctx "(string \<times> string) list" string string
  | CancelMfa string
  | DisableMfa ctx string string
  | RegenerateCodes ctx "(string \<times> string) list" string string
  | Register ctx string string register_input
  | ForgotPassword ctx bool string string string
  | InviteStaff ctx bool string string string string
  | ResetPassword ctx string string string
  | ChangePassword string string string string

fun serve_auth :: "auth_lib \<Rightarrow> auth_request \<Rightarrow> unit dbprog" where
  "serve_auth lib (Login ctx inp) = andDo (login lib ctx inp) (ret ())"
| "serve_auth lib (CompleteMfa ctx inp) = andDo (completeMfaLogin lib ctx inp) (ret ())"
| "serve_auth lib (StartMfa secret i) = andDo (startMfaSetup secret i) (ret ())"
| "serve_auth lib (ConfirmMfa ctx codes i c) = andDo (confirmMfaSetup lib ctx codes i c) (ret ())"
| "serve_auth lib (CancelMfa i) = cancelMfaSetup i"
| "serve_auth lib (DisableMfa ctx i c) = disableMfa lib ctx i c"
| "serve_auth lib (RegenerateCodes ctx codes i c) = andDo (regenerateMfaBackupCodes lib ctx codes i c) (ret ())"
| "serve_auth lib (Register ctx salt newId inp) = andDo (auth_register lib ctx salt newId inp) (ret ())"
| "serve_auth lib (ForgotPassword ctx delivered newId raw email) = requestPasswordReset lib ctx delivered newId raw email"
| "serve_auth lib (InviteStaff ctx delivered newId raw i actor) = sendStaffInviteSetupEmail lib ctx delivered newId raw i actor"
| "serve_auth lib (ResetPassword ctx salt token pw) = resetPasswordWithToken lib ctx salt token pw"
| "serve_auth lib (ChangePassword salt i current pw) = changePassword lib salt i current pw"

fun serve_auths :: "auth_lib \<Rightarrow> auth_request list \<Rightarrow> db \<Rightarrow> db" where
  "serve_auths lib [] d = d"
| "serve_auths lib (r # rs) d = serve_auths lib rs (snd (serve_auth lib r d))"

lemma users_ok_frame [simp]:
  "users_ok (d_audit_update g d) = users_ok d" "users_ok (d_resets_update h d) = users_ok d"
  "users_ok (d_mails_update k d) = users_ok d"
  by (simp_all add: users_ok_def)

lemma account_ok_listed: "users_ok d \<Longrightarrow> x \<in> set (d_users d) \<Longrightarrow> account_ok x"
  by (simp add: users_ok_def list_all_iff)

lemma always_users_frame:
  "(\<And>d. d_users (g d) = d_users d) \<Longrightarrow> always users_ok (modify g)"
  by (auto intro!: always_modify simp: users_ok_def)

lemma always_audit: "always users_ok (audit a)" "always users_ok (send_mail m)"
  by (simp_all add: audit_def send_mail_def always_users_frame)

lemma always_update_user:
  assumes "\<And>x. su_id (f x) = su_id x" "\<And>x. su_email (f x) = su_email x" "\<And>x. account_ok x \<Longrightarrow> account_ok (f x)"
  shows "always users_ok (update_user i f)"
  unfolding update_user_def using assms
  by (intro always_intros always_modify users_ok_change) (auto simp: account_ok_listed)

lemma always_full_login: "always users_ok (assertFullLogin ctx row)"
  unfolding assertFullLogin_def
  by (intro always_intros always_audit always_update_user) (simp_all add: account_ok_def)

lemma always_refuse: "always users_ok (refuse ctx row msg)"
  unfolding refuse_def recordFailedLoginAttempt_def by (intro always_intros always_update_user) simp_all

lemma always_unlock: "always users_ok (unlock ctx row)"
  unfolding unlock_def by (intro always_intros always_update_user) simp_all

lemma always_login: "always users_ok (login lib ctx inp)"
  unfolding login_def second_factor_def
  by (intro always_intros always_unlock always_refuse always_full_login always_update_user) simp_all

lemma always_mfa_login: "always users_ok (completeMfaLogin lib ctx inp)"
  unfolding completeMfaLogin_def recovery_login_def
  by (intro always_intros always_unlock always_refuse always_full_login always_update_user always_audit)
    (simp_all add: account_ok_def)

lemma keeps_update_known:
  assumes "users_ok d" "find_user d i = Some u" "account_ok (f u)"
    and "\<And>x. su_id (f x) = su_id x" "\<And>x. su_email (f x) = su_email x"
  shows "users_ok (d_users_update (update_row su_id i f) d)"
  using assms same_account [of d u] find_user_mem [OF assms(2)]
  by (intro users_ok_change) auto

lemma always_confirm: "always users_ok (confirmMfaSetup lib ctx codes i c)"
proof -
  let ?f = "\<lambda>x. x\<lparr>su_mfaEnabled := True, su_mfaBackupCodeHashes := Some (hashBackupCodes lib codes)\<rparr>"
  have "users_ok (d_users_update (update_row su_id i ?f) d)"
    if "users_ok d" "find_user d i = Some u" "truthy (su_mfaSecret u)" for d u
    using that by (intro keeps_update_known) (simp_all add: account_ok_def)
  then show ?thesis
    by (auto simp: always_def keeps_def confirmMfaSetup_def wp orElse_Inr audit_def)
qed

lemma always_cancel: "always users_ok (cancelMfaSetup i)"
  by (auto simp: always_def keeps_def cancelMfaSetup_def wp orElse_Inr account_ok_def intro!: keeps_update_known)

lemma always_insert_user:
  assumes "account_ok u"
  shows "always users_ok (insert_user u)"
  using assms users.keyed_insert
  by (auto simp: always_def keeps_def insert_user_def wp users_ok_def find_user_def find_user_by_email_def find_None_iff)

lemma always_register: "always users_ok (auth_register lib ctx salt newId inp)"
  unfolding auth_register_def Let_def
  by (intro always_intros always_insert_user) (simp add: new_account_def account_ok_def)

lemma always_tokens: "always users_ok (replace_tokens i t)" "always users_ok (drop_token h)"
  unfolding replace_tokens_def drop_token_def by (intro always_intros always_users_frame; simp)+

lemma always_serve_auth: "always users_ok (serve_auth lib r)"
proof (cases r)
  case (Login ctx inp)
  then show ?thesis by (simp add: always_intros always_login)
next
  case (CompleteMfa ctx inp)
  then show ?thesis by (simp add: always_intros always_mfa_login)
next
  case (StartMfa secret i)
  then show ?thesis
    by (simp add: startMfaSetup_def) (intro always_intros always_update_user; simp add: account_ok_def)
next
  case (ConfirmMfa ctx codes i c)
  then show ?thesis by (simp add: always_intros always_confirm)
next
  case (CancelMfa i)
  then show ?thesis by (simp add: always_cancel)
next
  case (DisableMfa ctx i c)
  then show ?thesis
    by (simp add: disableMfa_def) (intro always_intros always_update_user always_audit; simp add: account_ok_def)
next
  case (RegenerateCodes ctx codes i c)
  then show ?thesis
    by (simp add: regenerateMfaBackupCodes_def) (intro always_intros always_update_user always_audit; simp add: account_ok_def)
next
  case (Register ctx salt newId inp)
  then show ?thesis by (simp add: always_intros always_register)
next
  case (ForgotPassword ctx delivered newId raw email)
  then show ?thesis
    by (simp add: requestPasswordReset_def Let_def) (intro always_intros always_tokens always_audit)
next
  case (InviteStaff ctx delivered newId raw i actor)
  then show ?thesis
    by (simp add: sendStaffInviteSetupEmail_def Let_def) (intro always_intros always_tokens always_audit)
next
  case (ResetPassword ctx salt token pw)
  then show ?thesis
    by (simp add: resetPasswordWithToken_def) (intro always_intros always_update_user always_audit always_users_frame;
      simp add: new_password_def account_ok_def)
next
  case (ChangePassword salt i current pw)
  then show ?thesis
    by (simp add: changePassword_def) (intro always_intros always_update_user always_audit; simp add: new_password_def account_ok_def)
qed

section \<open>Every factor\<close>

definition password_login :: "auth_lib \<Rightarrow> ctx \<Rightarrow> login_input \<Rightarrow> staff_user \<Rightarrow> bool" where
  "password_login lib ctx inp u \<longleftrightarrow>
     su_email u = toLowerCase (li_email inp) \<and> su_isActive u \<and>
     (case su_lockedUntil u of None \<Rightarrow> True | Some until \<Rightarrow> until \<le> c_now ctx) \<and>
     ah_compare lib (li_password inp) (su_passwordHash u)"

lemma wpre_full_login:
  "(\<And>d'. Q (SignedIn (signAccess row) (toPublicUser row)) d') \<Longrightarrow> wpre (assertFullLogin ctx row) Q (\<lambda>_ _. True) d"
  by (simp add: assertFullLogin_def wp)

lemma wpre_refuse: "wpre (refuse ctx row msg) Q (\<lambda>_ _. True) d"
  by (simp add: refuse_def recordFailedLoginAttempt_def wp)

lemma wpre_unlock:
  "(\<And>row' d'. row' \<in> {row, clear_failures row} \<Longrightarrow>
      (case su_lockedUntil row of None \<Rightarrow> True | Some until \<Rightarrow> until \<le> c_now ctx) \<Longrightarrow> Q row' d') \<Longrightarrow>
    wpre (unlock ctx row) Q (\<lambda>_ _. True) d"
  by (auto simp: unlock_def wp)

text \<open>The token a request signs: a session, or a step on the way to one.\<close>

fun claims_of :: "login_result \<Rightarrow> jwt_claims" where
  "claims_of (SignedIn c v) = c"
| "claims_of (MfaRequired c) = c"
| "claims_of (MfaSetupPending c v) = c"

definition answered :: "('a \<Rightarrow> 'b) \<Rightarrow> 'a result \<times> db \<Rightarrow> 'b option" where
  "answered f run = (case fst run of Inl _ \<Rightarrow> None | Inr x \<Rightarrow> Some (f x))"

fun signed :: "auth_lib \<Rightarrow> auth_request \<Rightarrow> db \<Rightarrow> jwt_claims option" where
  "signed lib (Login ctx inp) d = answered claims_of (login lib ctx inp d)"
| "signed lib (CompleteMfa ctx inp) d = answered claims_of (completeMfaLogin lib ctx inp d)"
| "signed lib (ConfirmMfa ctx codes i pin) d = answered fst (confirmMfaSetup lib ctx codes i pin d)"
| "signed lib (Register ctx salt newId inp) d = answered fst (auth_register lib ctx salt newId inp d)"
| "signed lib _ d = None"

definition unlocked :: "ctx \<Rightarrow> staff_user \<Rightarrow> bool" where
  "unlocked ctx u \<longleftrightarrow> (case su_lockedUntil u of None \<Rightarrow> True | Some until \<Rightarrow> until \<le> c_now ctx)"

definition code_given :: "auth_lib \<Rightarrow> ctx \<Rightarrow> mfa_input \<Rightarrow> staff_user \<Rightarrow> bool" where
  "code_given lib ctx inp u \<longleftrightarrow>
     (if truthy (mi_totp inp) then ah_totp lib (c_now ctx) (the (mi_totp inp)) (the (su_mfaSecret u))
      else \<exists>canonical. normalizeBackupCodeInput (or_else (mi_backupCode inp) []) = Some canonical \<and>
             list_ex (ah_compare lib canonical) (parseBackupHashes u))"

text \<open>
  What a full session rests on, by the request that signs it: the password and, when it is on, the code of the app;
  the code of the app or a recovery code; the first code of an app that is being set up; or an address that is new to
  an installation open for registration.
\<close>

fun factor_given :: "auth_lib \<Rightarrow> db \<Rightarrow> auth_request \<Rightarrow> jwt_claims \<Rightarrow> bool" where
  "factor_given lib d (Login ctx inp) c \<longleftrightarrow>
     (\<exists>u\<in>set (d_users d). c = signAccess u \<and> password_login lib ctx inp u \<and>
        (isMfaRequiredByPolicy (c_env ctx) \<and> mfaCapable (su_role u) \<longrightarrow> su_mfaEnabled u) \<and>
        (su_mfaEnabled u \<longrightarrow> (\<exists>t. li_totp inp = Some t \<and> ah_totp lib (c_now ctx) t (the (su_mfaSecret u)))))"
| "factor_given lib d (CompleteMfa ctx inp) c \<longleftrightarrow>
     (\<exists>u\<in>set (d_users d). c = signAccess u \<and> su_isActive u \<and> unlocked ctx u \<and> mfa_on u \<and> code_given lib ctx inp u)"
| "factor_given lib d (ConfirmMfa ctx codes i pin) c \<longleftrightarrow>
     (\<exists>u\<in>set (d_users d). su_id u = i \<and> jc_sub c = i \<and> pendingMfaSetup u \<and> ah_totp lib (c_now ctx) pin (the (su_mfaSecret u)))"
| "factor_given lib d (Register ctx salt newId inp) c \<longleftrightarrow>
     jc_sub c = newId \<and> c_env ctx ''AUTH_ALLOW_REGISTER'' = Some ''true'' \<and>
     find_user_by_email d (toLowerCase (ri_email inp)) = None"
| "factor_given lib d _ c \<longleftrightarrow> False"

text \<open>The requests that know the password of an account: a login that gives it, and a registration that chooses it.\<close>

fun proves_password :: "auth_lib \<Rightarrow> db \<Rightarrow> auth_request \<Rightarrow> string \<Rightarrow> bool" where
  "proves_password lib d (Login ctx inp) i \<longleftrightarrow> (\<exists>u\<in>set (d_users d). su_id u = i \<and> password_login lib ctx inp u)"
| "proves_password lib d (Register ctx salt newId inp) i \<longleftrightarrow> i = newId"
| "proves_password lib d _ i \<longleftrightarrow> False"

lemma answered_wpre: "wpre m (\<lambda>x _. P x) (\<lambda>_ _. True) d \<Longrightarrow> answered f (m d) = Some c \<Longrightarrow> \<exists>x. P x \<and> c = f x"
  by (cases "m d") (auto simp: answered_def wpre_def split: sum.splits)

lemma claims_simps [simp]:
  "jc_sub (signAccess u) = su_id u" "jc_pur (signAccess u) = None"
  "jc_sub (signMfaPending i) = i" "jc_pur (signMfaPending i) = Some ''mfa''"
  "jc_sub (signMfaSetupPending u) = su_id u" "jc_pur (signMfaSetupPending u) = Some ''mfa_setup''"
  by (simp_all add: signAccess_def signMfaPending_def signMfaSetupPending_def)

lemma signed_login:
  assumes "users_ok d" "signed lib (Login ctx inp) d = Some c"
  shows "proves_password lib d (Login ctx inp) (jc_sub c) \<and> (jc_pur c = None \<longrightarrow> factor_given lib d (Login ctx inp) c)"
proof -
  have on: "mfa_on u \<longleftrightarrow> su_mfaEnabled u" if "u \<in> set (d_users d)" for u
    using account_ok_listed [OF assms(1) that] by (auto simp: account_ok_def mfa_on_def)
  have "wpre (login lib ctx inp) (\<lambda>r _. (\<exists>u\<in>set (d_users d). su_id u = jc_sub (claims_of r) \<and> password_login lib ctx inp u) \<and>
      (jc_pur (claims_of r) = None \<longrightarrow> factor_given lib d (Login ctx inp) (claims_of r))) (\<lambda>_ _. True) d"
    unfolding login_def second_factor_def
    by (auto simp: wp active_user_Inr password_login_def truthy_iff on dest!: find_email_mem
        intro!: wpre_unlock wpre_refuse wpre_full_login)
  from answered_wpre [OF this, of claims_of c] show ?thesis using assms(2) by auto
qed

lemma mfa_on_cleared [simp]: "mfa_on (clear_failures u) = mfa_on u" "parseBackupHashes (clear_failures u) = parseBackupHashes u"
  by (simp_all add: mfa_on_def parseBackupHashes_def clear_failures_def)

lemma redeem_Some: "redeem hit hs = Some left \<Longrightarrow> list_ex hit hs"
  by (induction hs arbitrary: left) (auto split: if_splits)

lemma signed_mfa:
  assumes "signed lib (CompleteMfa ctx inp) d = Some c"
  shows "\<exists>t. ah_verify lib (c_now ctx) (mi_mfaToken inp) = Some t \<and> jc_sub t = jc_sub c \<and> factor_given lib d (CompleteMfa ctx inp) c"
proof -
  have "wpre (completeMfaLogin lib ctx inp) (\<lambda>r _. \<exists>t. ah_verify lib (c_now ctx) (mi_mfaToken inp) = Some t \<and>
      jc_sub t = jc_sub (claims_of r) \<and> factor_given lib d (CompleteMfa ctx inp) (claims_of r)) (\<lambda>_ _. True) d"
    unfolding completeMfaLogin_def recovery_login_def mfa_subject_def
    by (auto simp: wp active_user_Inr unlocked_def code_given_def dest!: find_user_mem redeem_Some split: option.splits if_splits
        intro!: wpre_unlock wpre_refuse wpre_full_login)
  from answered_wpre [OF this, of claims_of c] show ?thesis using assms by auto
qed

lemma signed_confirm:
  assumes "signed lib (ConfirmMfa ctx codes i pin) d = Some c"
  shows "jc_sub c = i \<and> factor_given lib d (ConfirmMfa ctx codes i pin) c"
proof -
  have "wpre (confirmMfaSetup lib ctx codes i pin) (\<lambda>r _. jc_sub (fst r) = i \<and> factor_given lib d (ConfirmMfa ctx codes i pin) (fst r))
      (\<lambda>_ _. True) d"
    unfolding confirmMfaSetup_def
    by (auto simp: wp orElse_Inr pendingMfaSetup_def dest!: find_user_mem)
  from answered_wpre [OF this, of fst c] show ?thesis using assms by auto
qed

lemma signed_register:
  assumes "signed lib (Register ctx salt newId inp) d = Some c"
  shows "jc_sub c = newId \<and> factor_given lib d (Register ctx salt newId inp) c"
proof -
  have "wpre (auth_register lib ctx salt newId inp) (\<lambda>r _. jc_sub (fst r) = newId \<and> factor_given lib d (Register ctx salt newId inp) (fst r))
      (\<lambda>_ _. True) d"
    unfolding auth_register_def check_register_def insert_user_def
    by (auto simp: wp Let_def andThen_Inr new_account_def signAccess_def)
  from answered_wpre [OF this, of fst c] show ?thesis using assms by auto
qed

text \<open>
  A run records what each request signs, and in which state. Signatures are not forged: a token that verifies was
  signed in the run, and who confirms the set-up of an app is the account of such a token. Anything else may
  happen to the accounts as long as they stay well formed.
\<close>

fun genuine :: "auth_lib \<Rightarrow> jwt_claims list \<Rightarrow> auth_request \<Rightarrow> bool" where
  "genuine lib cs (CompleteMfa ctx inp) \<longleftrightarrow> (case ah_verify lib (c_now ctx) (mi_mfaToken inp) of None \<Rightarrow> True | Some c \<Rightarrow> c \<in> set cs)"
| "genuine lib cs (ConfirmMfa ctx codes i pin) \<longleftrightarrow> i \<in> set (map jc_sub cs)"
| "genuine lib cs _ \<longleftrightarrow> True"

type_synonym signing = "db \<times> auth_request \<times> jwt_claims"

definition signings :: "auth_lib \<Rightarrow> auth_request \<Rightarrow> db \<Rightarrow> signing list" where
  "signings lib r d = (case signed lib r d of None \<Rightarrow> [] | Some c \<Rightarrow> [(d, r, c)])"

inductive auth_run :: "auth_lib \<Rightarrow> db \<Rightarrow> signing list \<Rightarrow> db \<Rightarrow> bool" for lib d0 where
  begins: "auth_run lib d0 [] d0"
| serves: "auth_run lib d0 log d \<Longrightarrow> genuine lib (map (\<lambda>x. snd (snd x)) log) r \<Longrightarrow>
    auth_run lib d0 (log @ signings lib r d) (snd (serve_auth lib r d))"
| elsewhere: "auth_run lib d0 log d \<Longrightarrow> users_ok d' \<Longrightarrow> auth_run lib d0 log d'"

definition password_proved :: "auth_lib \<Rightarrow> signing list \<Rightarrow> string \<Rightarrow> bool" where
  "password_proved lib log i \<longleftrightarrow> (\<exists>x\<in>set log. proves_password lib (fst x) (fst (snd x)) i)"

lemma signing_proved:
  assumes "users_ok d" "genuine lib (map (\<lambda>x. snd (snd x)) log) r" "signed lib r d = Some c"
    and old: "\<And>x. x \<in> set log \<Longrightarrow> password_proved lib log (jc_sub (snd (snd x)))"
  shows "password_proved lib (log @ [(d, r, c)]) (jc_sub c) \<and> (jc_pur c = None \<longrightarrow> factor_given lib d r c)"
proof -
  have grow: "password_proved lib (log @ ys) i" if "password_proved lib log i" for i ys
    using that by (auto simp: password_proved_def)
  show ?thesis
  proof (cases r)
    case (Login ctx inp)
    then show ?thesis using signed_login [OF assms(1), of lib ctx inp c] assms(3) by (simp add: password_proved_def)
  next
    case (CompleteMfa ctx inp)
    then obtain t where t: "ah_verify lib (c_now ctx) (mi_mfaToken inp) = Some t" "jc_sub t = jc_sub c"
        "factor_given lib d r c"
      using signed_mfa assms(3) by blast
    then obtain x where "x \<in> set log" "t = snd (snd x)" using assms(2) CompleteMfa by auto
    then show ?thesis using old t(2,3) grow by metis
  next
    case (ConfirmMfa ctx codes i pin)
    then have c: "jc_sub c = i" "factor_given lib d r c" using signed_confirm assms(3) by blast+
    obtain x where "x \<in> set log" "i = jc_sub (snd (snd x))" using assms(2) ConfirmMfa by auto
    then show ?thesis using old c grow by metis
  next
    case (Register ctx salt newId inp)
    then show ?thesis using signed_register [of lib ctx salt newId inp d c] assms(3) by (simp add: password_proved_def)
  qed (use assms(3) in simp_all)
qed

lemma auth_run_proved:
  assumes "auth_run lib d0 log d" "users_ok d0"
  shows "users_ok d \<and> (\<forall>x\<in>set log. password_proved lib log (jc_sub (snd (snd x))) \<and>
    (jc_pur (snd (snd x)) = None \<longrightarrow> factor_given lib (fst x) (fst (snd x)) (snd (snd x))))"
  using assms
proof (induction rule: auth_run.induct)
  case (serves log d r)
  then have ok: "users_ok d" and old: "\<And>x. x \<in> set log \<Longrightarrow> password_proved lib log (jc_sub (snd (snd x)))"
    and gave: "\<And>x. x \<in> set log \<Longrightarrow> jc_pur (snd (snd x)) = None \<longrightarrow> factor_given lib (fst x) (fst (snd x)) (snd (snd x))"
    by blast+
  have "users_ok (snd (serve_auth lib r d))" using always_run [OF always_serve_auth ok] .
  moreover have "password_proved lib (log @ ys) i" if "password_proved lib log i" for i ys
    using that by (auto simp: password_proved_def)
  ultimately show ?case
    using signing_proved [OF ok serves.hyps(2) _ old] old gave by (auto simp: signings_def split: option.splits)
qed simp_all

section \<open>The lock\<close>

definition sign_in :: "auth_lib \<Rightarrow> ctx \<Rightarrow> string \<Rightarrow> time \<Rightarrow> string \<Rightarrow> string option \<Rightarrow> login_result dbprog" where
  "sign_in lib ctx e t pw totp = login lib (ctx\<lparr>c_now := t\<rparr>) \<lparr>li_email = e, li_password = pw, li_totp = totp\<rparr>"

text \<open>A list of attempts to sign in to one account: when, with which password and which code.\<close>

definition attempts :: "auth_lib \<Rightarrow> ctx \<Rightarrow> string \<Rightarrow> (time \<times> string \<times> string option) list \<Rightarrow> db \<Rightarrow> db" where
  "attempts lib ctx e ts d = fold (\<lambda>(t, pw, totp) d. snd (sign_in lib ctx e t pw totp d)) ts d"

lemma attempts_simps [simp]:
  "attempts lib ctx e [] d = d"
  "attempts lib ctx e ((t, pw, totp) # ts) d = attempts lib ctx e ts (snd (sign_in lib ctx e t pw totp d))"
  "attempts lib ctx e (ts @ [(t, pw, totp)]) d = snd (sign_in lib ctx e t pw totp (attempts lib ctx e ts d))"
  by (simp_all add: attempts_def)

lemma attempts_ok: "users_ok d \<Longrightarrow> users_ok (attempts lib ctx e ts d)"
proof (induction ts arbitrary: d)
  case (Cons a ts)
  then show ?case
    by (cases a) (simp add: sign_in_def always_run [OF always_login])
qed simp

text \<open>The account that attempts are about: on the list, active, and its row known.\<close>

definition account :: "db \<Rightarrow> string \<Rightarrow> staff_user \<Rightarrow> bool" where
  "account d e u \<longleftrightarrow> users_ok d \<and> find_user_by_email d (toLowerCase e) = Some u \<and> su_isActive u"

lemma account_find: "account d e u \<Longrightarrow> find_user d (su_id u) = Some u"
  using find_email_mem listed_account by (auto simp: account_def)

lemma account_update:
  assumes "account d e u" "\<And>x. su_email (f x) = su_email x" "su_isActive (f u)"
    and "users_ok (d_users_update (update_row su_id (su_id u) f) d)"
  shows "account (d_users_update (update_row su_id (su_id u) f) d) e (f u)"
  using assms by (simp add: account_def find_email_update)

lemma wrong_password:
  assumes "account d e u" "su_lockedUntil u = None" "\<not> ah_compare lib pw (su_passwordHash u)"
    and "0 < parseMaxLoginAttempts (c_env ctx)"
  shows "sign_in lib ctx e t pw totp d = (Inl (Unauthorized ''Invalid credentials''),
    d_users_update (update_row su_id (su_id u) (failed_attempt (ctx\<lparr>c_now := t\<rparr>) u)) d)"
  using assms account_find [OF assms(1)]
  by (simp add: sign_in_def login_def account_def active_user_def unlock_def refuse_def recordFailedLoginAttempt_def
      update_user_def)

lemma locked_out:
  assumes "account d e u" "su_lockedUntil u = Some until" "t < until"
  shows "sign_in lib ctx e t pw totp d =
    (Inl (Unauthorized ''Account temporarily locked due to failed sign-in attempts''), d)"
  using assms by (simp add: sign_in_def login_def account_def active_user_def unlock_def)

lemma wrong_passwords:
  assumes "account d e u" "su_lockedUntil u = None" "list_all (\<lambda>(t, pw, totp). \<not> ah_compare lib pw (su_passwordHash u)) ts"
    and "su_failedLoginAttempts u + int (length ts) < parseMaxLoginAttempts (c_env ctx)"
    and "0 \<le> su_failedLoginAttempts u"
  shows "\<exists>u'. account (attempts lib ctx e ts d) e u' \<and> su_lockedUntil u' = None \<and> su_passwordHash u' = su_passwordHash u \<and>
    su_failedLoginAttempts u' = su_failedLoginAttempts u + int (length ts)"
  using assms
proof (induction ts arbitrary: d u)
  case (Cons a ts)
  obtain t pw totp where a: "a = (t, pw, totp)" by (cases a)
  let ?c = "ctx\<lparr>c_now := t\<rparr>"
  let ?u = "failed_attempt ?c u u" and ?d = "d_users_update (update_row su_id (su_id u) (failed_attempt ?c u)) d"
  have step: "sign_in lib ctx e t pw totp d = (Inl (Unauthorized ''Invalid credentials''), ?d)"
    using Cons.prems a by (intro wrong_password) auto
  have "users_ok ?d"
    using always_run [OF always_login, of d lib ?c] Cons.prems(1) step
    by (simp add: account_def sign_in_def) (metis snd_conv)
  then have "account ?d e ?u"
    using Cons.prems(1) by (intro account_update) (auto simp: account_def)
  moreover have "su_lockedUntil ?u = None" "su_failedLoginAttempts ?u = su_failedLoginAttempts u + 1"
    using Cons.prems by (auto simp: failed_attempt_def Let_def)
  ultimately show ?case
    using Cons.IH [of ?d ?u] Cons.prems a step by (auto simp: algebra_simps)
qed auto

text \<open>
  C20: The lock: after as many attempts with a wrong password in a row as the setting allows, the account stays
  shut for the lockout time, whatever is tried - the right password and the right code included.
\<close>

theorem wrong_passwords_lock:
  assumes "account d e u" "su_lockedUntil u = None" "su_failedLoginAttempts u = 0"
    and "list_all (\<lambda>(t, pw, totp). \<not> ah_compare lib pw (su_passwordHash u)) (ts @ [(t, pw, totp)])"
    and "int (length ts) + 1 = parseMaxLoginAttempts (c_env ctx)"
    and "now < t + lockout_minutes (c_env ctx) * 60000"
  shows "fst (sign_in lib ctx e now pw' totp' (attempts lib ctx e (ts @ [(t, pw, totp)]) d)) =
    Inl (Unauthorized ''Account temporarily locked due to failed sign-in attempts'')"
proof -
  obtain v where v: "account (attempts lib ctx e ts d) e v" "su_lockedUntil v = None" "su_passwordHash v = su_passwordHash u"
    "su_failedLoginAttempts v = int (length ts)"
    using wrong_passwords [OF assms(1,2), of lib ts ctx] assms(3-5) by auto
  let ?c = "ctx\<lparr>c_now := t\<rparr>" and ?d = "attempts lib ctx e ts d"
  let ?f = "failed_attempt ?c v"
  have step: "sign_in lib ctx e t pw totp ?d = (Inl (Unauthorized ''Invalid credentials''), d_users_update (update_row su_id (su_id v) ?f) ?d)"
    using v assms(4,5) by (intro wrong_password) auto
  have "users_ok (d_users_update (update_row su_id (su_id v) ?f) ?d)"
    using attempts_ok [of d lib ctx e "ts @ [(t, pw, totp)]"] assms(1) step by (simp add: account_def)
  then have "account (d_users_update (update_row su_id (su_id v) ?f) ?d) e (?f v)"
    using v(1) by (intro account_update) (auto simp: account_def)
  moreover have "su_lockedUntil (?f v) = Some (t + lockout_minutes (c_env ctx) * 60000)"
    using v(4) assms(5) by (simp add: failed_attempt_def Let_def)
  ultimately show ?thesis
    using locked_out assms(6) step by simp
qed

section \<open>Codes that the lock does not count\<close>

definition after_bad_code :: "ctx \<Rightarrow> staff_user \<Rightarrow> staff_user \<Rightarrow> staff_user" where
  "after_bad_code ctx u x = failed_attempt ctx (clear_failures u) (clear_failures x)"

lemma wrong_code:
  assumes "account d e u" "su_lockedUntil u = None" "mfa_on u" "ah_compare lib pw (su_passwordHash u)"
    and "check_login_policy (c_env ctx) pw = Inr ()" "pin \<noteq> []" "\<not> ah_totp lib t pin (the (su_mfaSecret u))"
    and "0 < parseMaxLoginAttempts (c_env ctx)"
  shows "sign_in lib ctx e t pw (Some pin) d = (Inl (Unauthorized ''Invalid two-factor code''),
    d_users_update (update_row su_id (su_id u) (after_bad_code (ctx\<lparr>c_now := t\<rparr>) u)) d)"
proof -
  have twice: "update_row su_id i f (update_row su_id i clear_failures us) = update_row su_id i (\<lambda>x. f (clear_failures x)) us" for i f us
    by (simp add: update_row_twice comp_def)
  have "su_mfaEnabled u" "truthy (su_mfaSecret u)" "\<not> pendingMfaSetup u"
    using assms(3) by (simp_all add: mfa_on_def pendingMfaSetup_def)
  then show ?thesis
    using assms account_find [OF assms(1)]
    by (simp add: sign_in_def login_def account_def active_user_def unlock_def refuse_def recordFailedLoginAttempt_def
        update_user_def second_factor_def find_user_update truthy_iff twice after_bad_code_def [abs_def] comp_def)
qed

lemma right_code:
  assumes "account d e u" "su_lockedUntil u = None" "mfa_on u" "ah_compare lib pw (su_passwordHash u)"
    and "check_login_policy (c_env ctx) pw = Inr ()" "pin \<noteq> []" "ah_totp lib t pin (the (su_mfaSecret u))"
  shows "fst (sign_in lib ctx e t pw (Some pin) d) = Inr (SignedIn (signAccess u) (toPublicUser u))"
proof -
  have "su_mfaEnabled u" "truthy (su_mfaSecret u)" "\<not> pendingMfaSetup u"
    using assms(3) by (simp_all add: mfa_on_def pendingMfaSetup_def)
  then show ?thesis
    using assms account_find [OF assms(1)]
    by (simp add: sign_in_def login_def account_def active_user_def unlock_def update_user_def second_factor_def
        find_user_update truthy_iff assertFullLogin_def audit_def)
qed

definition same_factors :: "staff_user \<Rightarrow> staff_user \<Rightarrow> bool" where
  "same_factors u v \<longleftrightarrow> su_lockedUntil v = None \<and> mfa_on v = mfa_on u \<and> su_passwordHash v = su_passwordHash u \<and>
     su_mfaSecret v = su_mfaSecret u \<and> signAccess v = signAccess u"

lemma wrong_codes:
  assumes "account d e u" "su_lockedUntil u = None" "mfa_on u" "ah_compare lib pw (su_passwordHash u)"
    and "check_login_policy (c_env ctx) pw = Inr ()" "2 \<le> parseMaxLoginAttempts (c_env ctx)"
    and "list_all (\<lambda>(t, p, c). p = pw \<and> (\<exists>pin. c = Some pin \<and> pin \<noteq> [] \<and> \<not> ah_totp lib t pin (the (su_mfaSecret u)))) ts"
  shows "\<exists>v. account (attempts lib ctx e ts d) e v \<and> same_factors u v"
  using assms
proof (induction ts arbitrary: d u)
  case Nil
  then show ?case by (auto simp: same_factors_def)
next
  case (Cons a ts)
  obtain t pin where a: "a = (t, pw, Some pin)" "pin \<noteq> []" "\<not> ah_totp lib t pin (the (su_mfaSecret u))"
    using Cons.prems(7) by (cases a) auto
  let ?c = "ctx\<lparr>c_now := t\<rparr>"
  let ?f = "after_bad_code ?c u" and ?d = "d_users_update (update_row su_id (su_id u) (after_bad_code ?c u)) d"
  have step: "sign_in lib ctx e t pw (Some pin) d = (Inl (Unauthorized ''Invalid two-factor code''), ?d)"
    using Cons.prems a by (intro wrong_code) auto
  have "users_ok ?d"
    using attempts_ok [of d lib ctx e "[(t, pw, Some pin)]"] Cons.prems(1) step by (simp add: account_def)
  then have "account ?d e (?f u)"
    using Cons.prems(1) by (intro account_update) (auto simp: account_def after_bad_code_def)
  moreover have "same_factors u (?f u)"
    using Cons.prems(6) by (simp add: same_factors_def after_bad_code_def) (simp add: failed_attempt_def)
  ultimately show ?case
    using Cons.IH [of ?d "?f u"] Cons.prems a step by (auto simp: same_factors_def)
qed

text \<open>
  The comment of \<open>recordFailedLoginAttempt\<close> says that failed passwords and failed codes follow the same
  rules, but the right password resets the count before the code is looked at: who has the password can guess codes
  without end - after any number of wrong codes the account is open, and the first right one gives a session.
\<close>

theorem wrong_codes_never_lock:
  assumes "account d e u" "su_lockedUntil u = None" "mfa_on u" "ah_compare lib pw (su_passwordHash u)"
    and "check_login_policy (c_env ctx) pw = Inr ()" "2 \<le> parseMaxLoginAttempts (c_env ctx)"
    and "list_all (\<lambda>(t, p, c). p = pw \<and> (\<exists>pin. c = Some pin \<and> pin \<noteq> [] \<and> \<not> ah_totp lib t pin (the (su_mfaSecret u)))) ts"
    and "pin \<noteq> []" "ah_totp lib t pin (the (su_mfaSecret u))"
  shows "\<exists>v. fst (sign_in lib ctx e t pw (Some pin) (attempts lib ctx e ts d)) = Inr (SignedIn (signAccess u) v)"
proof -
  obtain v where v: "account (attempts lib ctx e ts d) e v" "same_factors u v"
    using wrong_codes [OF assms(1-7)] by blast
  then show ?thesis
    using right_code [of _ e v lib pw ctx pin t] assms(3-5,8,9) by (simp add: same_factors_def)
qed

section \<open>Links to set a password\<close>

definition spent_tokens :: "string \<Rightarrow> reset_token list \<Rightarrow> bool" where
  "spent_tokens h ps \<longleftrightarrow> h \<in> pr_tokenHash ` set ps \<and> (\<forall>p\<in>set ps. pr_tokenHash p = h \<longrightarrow> pr_usedAt p \<noteq> None)"

definition spent :: "string \<Rightarrow> db \<Rightarrow> bool" where
  "spent h d \<longleftrightarrow> spent_tokens h (d_resets d)"

lemma spent_filter:
  "spent_tokens h ps \<Longrightarrow> (\<And>p. \<not> P p \<Longrightarrow> pr_usedAt p = None \<or> pr_tokenHash p \<noteq> h) \<Longrightarrow> spent_tokens h (filter P ps)"
  unfolding spent_tokens_def by fastforce

lemma used_hashes: "pr_tokenHash ` set (update_row pr_id i (pr_usedAt_update g) ps) = pr_tokenHash ` set ps"
  by (induction ps) (auto simp: update_row_def)

lemma spent_used: "spent_tokens h ps \<Longrightarrow> spent_tokens h (update_row pr_id i (pr_usedAt_update (\<lambda>_. Some t)) ps)"
  unfolding spent_tokens_def used_hashes by (auto simp: update_row_def split: if_splits)

lemma spent_append: "spent_tokens h ps \<Longrightarrow> pr_tokenHash t \<noteq> h \<Longrightarrow> spent_tokens h (ps @ [t])"
  unfolding spent_tokens_def by auto

lemma spent_by_use:
  assumes "distinct (map pr_id ps)" "distinct (map pr_tokenHash ps)" "List.find (\<lambda>p. pr_tokenHash p = h) ps = Some p"
  shows "spent_tokens h (update_row pr_id (pr_id p) (pr_usedAt_update (\<lambda>_. Some t)) ps)"
proof -
  have mem: "p \<in> set ps" "pr_tokenHash p = h" using assms(3) by (auto simp: find_Some_iff)
  have only: "pr_id q = pr_id p" if "q \<in> set ps" "pr_tokenHash q = h" for q
    using that mem assms(2) by (auto simp: distinct_map inj_on_def)
  have "pr_usedAt q \<noteq> None"
    if "q \<in> set (update_row pr_id (pr_id p) (pr_usedAt_update (\<lambda>_. Some t)) ps)" "pr_tokenHash q = h" for q
    using that only by (auto simp: update_row_def split: if_splits)
  then show ?thesis using mem by (force simp: spent_tokens_def used_hashes)
qed

lemma always_spent_frame: "(\<And>d. d_resets (g d) = d_resets d) \<Longrightarrow> always (spent h) (modify g)"
  by (auto intro!: always_modify simp: spent_def)

lemma always_spent_writes:
  "always (spent h) (update_user i f)" "always (spent h) (audit a)" "always (spent h) (send_mail m)" "always (spent h) (insert_user u)"
  unfolding update_user_def audit_def send_mail_def insert_user_def
  by (intro always_intros always_spent_frame; simp)+

lemmas always_spent = always_intros always_spent_writes

lemma always_spent_logins:
  "always (spent h) (login lib ctx inp)" "always (spent h) (completeMfaLogin lib ctx minp)"
  unfolding login_def completeMfaLogin_def recovery_login_def second_factor_def unlock_def refuse_def
    recordFailedLoginAttempt_def assertFullLogin_def
  by (intro always_spent)+

text \<open>A new link never shares its hash with a spent one, so dropping it again does no harm.\<close>

lemma spent_link:
  assumes "spent h d"
  shows "wpre (replace_tokens i t) (\<lambda>_ d'. spent h d' \<and> pr_tokenHash t \<noteq> h) (\<lambda>_. spent h) d"
proof -
  let ?ps = "filter (\<lambda>p. \<not> (pr_userId p = i \<and> pr_usedAt p = None)) (d_resets d)"
  have ps: "spent_tokens h ?ps" using assms by (intro spent_filter) (auto simp: spent_def)
  moreover have "pr_tokenHash t \<noteq> h" if "\<not> list_ex (\<lambda>p. pr_id p = pr_id t \<or> pr_tokenHash p = pr_tokenHash t) ?ps"
    using ps that by (auto simp: spent_tokens_def list_ex_iff)
  ultimately show ?thesis
    unfolding replace_tokens_def by (simp add: wp spent_def spent_append)
qed

lemma spent_dropped:
  "spent h d \<and> pr_tokenHash t \<noteq> h \<Longrightarrow> spent h (d_resets_update (filter (\<lambda>p. pr_tokenHash p \<noteq> pr_tokenHash t)) d)"
  by (auto simp: spent_def intro: spent_filter)

lemma spent_rows [simp]:
  "spent h (d_audit_update g d) = spent h d" "spent h (d_mails_update k d) = spent h d"
  by (simp_all add: spent_def)

lemma always_spent_forgot: "always (spent h) (requestPasswordReset lib ctx delivered newId raw email)"
proof -
  have "always (spent h) (andDo (replace_tokens i t) (andDo (if delivered then send_mail m else drop_token (pr_tokenHash t)) (audit a)))"
    for i t m a
    unfolding always_def keeps_def
    by (intro allI impI, simp only: wpre_andDo, rule wpre_mono [OF spent_link])
      (auto simp: wp drop_token_def spent_dropped)
  then show ?thesis
    unfolding requestPasswordReset_def Let_def by (intro always_bnd always_simps always_option always_if)
qed

lemma always_spent_invite: "always (spent h) (sendStaffInviteSetupEmail lib ctx delivered newId raw i actor)"
proof -
  have "always (spent h) (andDo (replace_tokens i t) (andDo (if delivered then send_mail m
      else andDo (drop_token (pr_tokenHash t)) (throw e)) (audit a)))" for i t m a e
    unfolding always_def keeps_def
    by (intro allI impI, simp only: wpre_andDo, rule wpre_mono [OF spent_link])
      (auto simp: wp drop_token_def spent_dropped)
  then show ?thesis
    unfolding sendStaffInviteSetupEmail_def Let_def
    by (intro always_bnd [OF always_simps(3)] always_andDo [OF always_simps(3)])
qed

lemma always_spent_reset: "always (spent h) (resetPasswordWithToken lib ctx salt token pw)"
  unfolding resetPasswordWithToken_def
  by (intro always_spent always_modify) (auto simp: spent_def intro!: spent_used spent_filter)

lemma always_spent_serve: "always (spent h) (serve_auth lib r)"
proof (cases r)
  case (StartMfa secret i)
  then show ?thesis by (simp add: startMfaSetup_def) (intro always_spent)
next
  case (ConfirmMfa ctx codes i c)
  then show ?thesis by (simp add: confirmMfaSetup_def) (intro always_spent)
next
  case (CancelMfa i)
  then show ?thesis by (simp add: cancelMfaSetup_def) (intro always_spent)
next
  case (DisableMfa ctx i c)
  then show ?thesis by (simp add: disableMfa_def) (intro always_spent)
next
  case (RegenerateCodes ctx codes i c)
  then show ?thesis by (simp add: regenerateMfaBackupCodes_def) (intro always_spent)
next
  case (Register ctx salt newId inp)
  then show ?thesis by (simp add: auth_register_def Let_def) (intro always_spent)
next
  case (ChangePassword salt i current pw)
  then show ?thesis by (simp add: changePassword_def) (intro always_spent)
qed (simp_all add: always_intros always_spent_logins always_spent_forgot always_spent_invite always_spent_reset)

lemma serve_auths_always: "(\<And>r. always I (serve_auth lib r)) \<Longrightarrow> I d \<Longrightarrow> I (serve_auths lib rs d)"
  by (induction rs arbitrary: d) (simp_all add: always_run)

definition resets_ok :: "db \<Rightarrow> bool" where
  "resets_ok d \<longleftrightarrow> distinct (map pr_id (d_resets d)) \<and> distinct (map pr_tokenHash (d_resets d))"

lemma reset_spends:
  assumes "resets_ok d" "resetPasswordWithToken lib ctx salt token pw d = (Inr (), d')"
  shows "spent (ah_sha256 lib (toLowerCase token)) d'"
proof -
  let ?h = "ah_sha256 lib (toLowerCase token)"
  have "spent_tokens ?h (filter P (update_row pr_id (pr_id p) (pr_usedAt_update (\<lambda>_. Some t)) (d_resets d)))"
    if "List.find (\<lambda>p. pr_tokenHash p = ?h) (d_resets d) = Some p" "\<And>q. \<not> P q \<Longrightarrow> pr_usedAt q = None" for p P t
    using that assms(1) by (intro spent_filter spent_by_use) (auto simp: resets_ok_def)
  note step = this
  have "wpre (resetPasswordWithToken lib ctx salt token pw) (\<lambda>_. spent ?h) (\<lambda>_ _. True) d"
    unfolding resetPasswordWithToken_def usable_token_def Let_def
    by (auto simp: wp andThen_Inr orElse_Inr spent_def intro!: step split: if_splits)
  then show ?thesis using assms(2) by (simp add: wpre_def)
qed

section \<open>Properties of every state that requests lead to\<close>

text \<open>
  C21: No session without every factor: whatever authentication requests come in whatever order, in between any other
  change that keeps the accounts well formed, and as long as tokens are not forged, each token that is signed goes
  back to a login that gave the right password of its account, active and not locked, or to the
  registration that chose it. A full session from the password step moreover had the right code of the app when
  two-factor authentication is on, which the policy forces for administrators and managers; one from
  the second step had the right code of the app or a recovery code, one from the set-up of the app its
  first code, and one from a registration an address that no account had, with registrations open.
\<close>

theorem session_needs_every_factor:
  assumes "users_ok d0" "auth_run lib d0 log d" "(e, r, c) \<in> set log"
  shows "(\<exists>e' r' c'. (e', r', c') \<in> set log \<and> proves_password lib e' r' (jc_sub c)) \<and>
    (jc_pur c = None \<longrightarrow> factor_given lib e r c)"
  using auth_run_proved [OF assms(2,1)] assms(3) by (fastforce simp: password_proved_def)

text \<open>
  C22: A link sets a password once: after it has been used, no sequence of requests - new links for the same account
  included - makes it work again.
\<close>

theorem reset_link_works_once:
  assumes "resets_ok d" "resetPasswordWithToken lib ctx salt token pw d = (Inr (), d')"
    and "d'' = serve_auths lib rs d'"
  shows "resetPasswordWithToken lib ctx' salt' token pw' d'' = (Inl (BadRequest ''Invalid or expired reset link''), d'')"
proof -
  let ?h = "ah_sha256 lib (toLowerCase token)"
  have "spent ?h d''"
    using serve_auths_always [OF always_spent_serve reset_spends [OF assms(1,2)]] assms(3) by simp
  then have "\<forall>p. List.find (\<lambda>p. pr_tokenHash p = ?h) (d_resets d'') = Some p \<longrightarrow> pr_usedAt p \<noteq> None"
    by (auto simp: spent_def spent_tokens_def find_Some_iff)
  then have "usable_token lib d'' (c_now ctx') token = Inl (BadRequest ''Invalid or expired reset link'')"
    by (cases "List.find (\<lambda>p. pr_tokenHash p = ?h) (d_resets d'')") (auto simp: usable_token_def Let_def)
  then show ?thesis by (simp add: resetPasswordWithToken_def)
qed

section \<open>Concrete runs\<close>

definition demo_auth :: auth_lib where
  "demo_auth = \<lparr>ah_hash = (\<lambda>salt pw. pw), ah_compare = (\<lambda>pw h. pw = h), ah_totp = (\<lambda>t c secret. c = secret),
     ah_sha256 = id, ah_verify = (\<lambda>t token. None)\<rparr>"

definition demo_boss :: staff_user where
  "demo_boss = \<lparr>su_id = ''boss'', su_companyId = ''acme'', su_stationId = None, su_email = ''boss@acme.it'',
     su_passwordHash = ''Secret'', su_firstName = ''Anna'', su_lastName = ''Bianchi'', su_role = BRANCH_MANAGER,
     su_isActive = True, su_lastLoginAt = None, su_failedLoginAttempts = 0, su_lockedUntil = None, su_mfaEnabled = True,
     su_mfaSecret = Some ''123456'', su_mfaBackupCodeHashes = None, su_createdAt = 0\<rparr>"

definition demo_staffed :: db where
  "demo_staffed = demo_db\<lparr>d_users := [demo_boss]\<rparr>"

definition lock_ctx :: ctx where
  "lock_ctx = demo_ctx\<lparr>c_env := (\<lambda>x. if x = ''AUTH_LOGIN_MAX_ATTEMPTS'' then Some ''2''
     else if x = ''APP_PUBLIC_BASE_URL'' then Some ''https://acme.it'' else None)\<rparr>"

lemma demo_account: "account demo_staffed ''boss@acme.it'' demo_boss"
proof -
  have "find_user_by_email demo_staffed (toLowerCase ''boss@acme.it'') = Some demo_boss" by code_simp
  then show ?thesis
    by (simp add: account_def users_ok_def keyed_def account_ok_def demo_staffed_def demo_boss_def)
qed

lemma demo_limits: "parseMaxLoginAttempts (c_env lock_ctx) = 2" "lockout_minutes (c_env lock_ctx) = 15"
  by code_simp+

theorem wrong_passwords_lock_witness:
  "fst (sign_in demo_auth lock_ctx ''boss@acme.it'' (demo_now + 1000) ''Secret'' (Some ''123456'')
     (attempts demo_auth lock_ctx ''boss@acme.it'' ([(demo_now, ''wrong'', None)] @ [(demo_now, ''worse'', None)]) demo_staffed)) =
   Inl (Unauthorized ''Account temporarily locked due to failed sign-in attempts'')"
  by (rule wrong_passwords_lock [OF demo_account])
    (simp_all add: demo_limits demo_auth_def, simp_all add: demo_boss_def)

theorem wrong_codes_never_lock_witness:
  "\<exists>v. fst (sign_in demo_auth lock_ctx ''boss@acme.it'' demo_now ''Secret'' (Some ''123456'')
     (attempts demo_auth lock_ctx ''boss@acme.it''
       [(demo_now, ''Secret'', Some ''000000''), (demo_now, ''Secret'', Some ''000001''), (demo_now, ''Secret'', Some ''000002'')]
       demo_staffed)) = Inr (SignedIn (signAccess demo_boss) v)"
proof (rule wrong_codes_never_lock [OF demo_account])
  show "check_login_policy (c_env lock_ctx) ''Secret'' = Inr ()" by code_simp
qed (simp_all add: demo_limits, simp_all add: demo_auth_def demo_boss_def mfa_on_def)

text \<open>A manager signs in in two steps.\<close>

definition demo_signer :: auth_lib where
  "demo_signer = demo_auth\<lparr>ah_verify := (\<lambda>t token. if token = ''step'' then Some (signMfaPending ''boss'') else None)\<rparr>"

definition password_step :: auth_request where
  "password_step = Login lock_ctx \<lparr>li_email = ''Boss@acme.it'', li_password = ''Secret'', li_totp = None\<rparr>"

definition code_step :: auth_request where
  "code_step = CompleteMfa lock_ctx \<lparr>mi_mfaToken = ''step'', mi_totp = Some ''123456'', mi_backupCode = None\<rparr>"

definition half_way :: db where
  "half_way = snd (serve_auth demo_signer password_step demo_staffed)"

theorem session_needs_every_factor_witness:
  "\<exists>e r. proves_password demo_signer e r ''boss'' \<and> factor_given demo_signer half_way code_step (signAccess demo_boss)"
proof -
  have "signed demo_signer password_step demo_staffed = Some (signMfaPending ''boss'')"
    "signed demo_signer code_step half_way = Some (signAccess demo_boss)" by code_simp+
  then have signs: "signings demo_signer password_step demo_staffed = [(demo_staffed, password_step, signMfaPending ''boss'')]"
    "signings demo_signer code_step half_way = [(half_way, code_step, signAccess demo_boss)]" by (simp_all add: signings_def)
  have "auth_run demo_signer demo_staffed [(demo_staffed, password_step, signMfaPending ''boss'')] half_way"
    using serves [OF begins, of demo_signer password_step demo_staffed] signs(1)
    by (simp add: password_step_def half_way_def)
  from serves [OF this, of code_step] have run: "auth_run demo_signer demo_staffed
      [(demo_staffed, password_step, signMfaPending ''boss''), (half_way, code_step, signAccess demo_boss)]
      (snd (serve_auth demo_signer code_step half_way))"
    using signs(2) by (simp add: code_step_def demo_signer_def)
  have ok: "users_ok demo_staffed" using demo_account by (simp add: account_def)
  have "jc_sub (signAccess demo_boss) = ''boss''" by (simp add: demo_boss_def)
  then show ?thesis
    using session_needs_every_factor [OF ok run, of half_way code_step "signAccess demo_boss"] by auto
qed

definition demo_token :: string where
  "demo_token = ''abcdef''"

definition demo_linked :: db where
  "demo_linked = serve_auths demo_auth [ForgotPassword lock_ctx True ''t1'' demo_token ''boss@acme.it''] demo_staffed"

definition demo_reset :: "unit result \<times> db" where
  "demo_reset = resetPasswordWithToken demo_auth lock_ctx ''salt'' demo_token ''Better-Secret-1'' demo_linked"

theorem reset_link_works_once_witness:
  "fst (resetPasswordWithToken demo_auth lock_ctx ''salt'' demo_token ''Other-Secret-2''
     (serve_auths demo_auth [ForgotPassword lock_ctx True ''t2'' demo_token ''boss@acme.it''] (snd demo_reset))) =
   Inl (BadRequest ''Invalid or expired reset link'')"
proof -
  have "fst demo_reset = Inr ()" by code_simp
  then have run: "demo_reset = (Inr (), snd demo_reset)" by (metis prod.collapse)
  have "map pr_id (d_resets demo_linked) = [''t1'']" "map pr_tokenHash (d_resets demo_linked) = [demo_token]"
    by code_simp+
  then have ok: "resets_ok demo_linked" by (simp add: resets_ok_def)
  have run': "resetPasswordWithToken demo_auth lock_ctx ''salt'' demo_token ''Better-Secret-1'' demo_linked = (Inr (), snd demo_reset)"
    using run by (simp only: demo_reset_def)
  show ?thesis
    using reset_link_works_once [OF ok run' refl, of lock_ctx "''salt''" "''Other-Secret-2''"
      "[ForgotPassword lock_ctx True ''t2'' demo_token ''boss@acme.it'']"]
    by simp
qed

end
