(* ===== verification/Staff.thy ===== *)
theory Staff
  imports Auth_Safety
begin

text \<open>
  \<open>apps/api/src/organization/staff/staff.service.ts\<close> with the schemas of its bodies in
  \<open>packages/shared/src/schemas/auth.ts\<close>: administrators add colleagues, with a password, a
  generated one or a link by mail, and change their role, branch and access. The draws of
  \<open>randomInt\<close> are a parameter: \<open>draw k n\<close> is the \<open>k\<close>-th draw, of a number below \<open>n\<close>;
  so is the check of addresses of the schema library.
\<close>

section \<open>Generated passwords\<close>

type_synonym draws = "nat \<Rightarrow> nat \<Rightarrow> nat"

definition TEMP_LOWER :: string where "TEMP_LOWER = ''abcdefghjkmnpqrstuvwxyz''"

definition TEMP_UPPER :: string where "TEMP_UPPER = ''ABCDEFGHJKMNPQRSTUVWXYZ''"

definition TEMP_DIGIT :: string where "TEMP_DIGIT = ''23456789''"

definition TEMP_SPECIAL :: string where "TEMP_SPECIAL = ''!@#$%^&*''"

definition pick :: "draws \<Rightarrow> nat \<Rightarrow> string \<Rightarrow> char" where
  "pick draw k letters = letters ! draw k (length letters)"

text \<open>\<open>shuffle draw k i chars\<close>: the exchanges of the second loop from position \<open>i\<close> down, the next draw being the \<open>k\<close>-th.\<close>

fun shuffle :: "draws \<Rightarrow> nat \<Rightarrow> nat \<Rightarrow> string \<Rightarrow> string" where
  "shuffle draw k 0 chars = chars"
| "shuffle draw k (Suc i) chars =
     (let j = draw k (Suc (Suc i)); a = chars ! Suc i; b = chars ! j
      in shuffle draw (Suc k) i (chars[Suc i := b, j := a]))"

definition generateTemporaryPassword :: "draws \<Rightarrow> string" where
  "generateTemporaryPassword draw =
     (let chars = [pick draw 0 TEMP_LOWER, pick draw 1 TEMP_UPPER, pick draw 2 TEMP_DIGIT, pick draw 3 TEMP_SPECIAL];
          all = TEMP_LOWER @ TEMP_UPPER @ TEMP_DIGIT @ TEMP_SPECIAL
      in shuffle draw 16 15 (chars @ map (\<lambda>k. pick draw k all) [4..<16]))"

section \<open>Requests and answers\<close>

fun role_name :: "user_role \<Rightarrow> string" where
  "role_name ADMIN = ''ADMIN''"
| "role_name BRANCH_MANAGER = ''BRANCH_MANAGER''"
| "role_name AGENT = ''AGENT''"
| "role_name READONLY_ACCOUNTING = ''READONLY_ACCOUNTING''"

record staff_input =
  si_companyId :: string
  si_email :: string
  si_password :: "string option"
  si_firstName :: string
  si_lastName :: string
  si_role :: user_role
  si_stationId :: "string option"
  si_sendInviteEmail :: bool

record staff_patch =
  sp_role :: "user_role option"
  sp_stationId :: "string option option"
  sp_isActive :: "bool option"

definition createStaffUserSchema :: "(string \<Rightarrow> bool) \<Rightarrow> staff_input \<Rightarrow> bool" where
  "createStaffUserSchema email_ok b \<longleftrightarrow>
     email_ok (si_email b) \<and> length (si_email b) \<le> 320 \<and> si_firstName b \<noteq> [] \<and> length (si_firstName b) \<le> 100 \<and>
     si_lastName b \<noteq> [] \<and> length (si_lastName b) \<le> 100 \<and>
     (case si_password b of
        None \<Rightarrow> True
      | Some raw \<Rightarrow> length raw \<le> 200 \<and> \<not> (si_sendInviteEmail b \<and> trim raw \<noteq> []) \<and>
          (raw = [] \<or> strongPasswordSchema raw \<noteq> None))"

definition updateStaffMemberSchema :: "staff_patch \<Rightarrow> bool" where
  "updateStaffMemberSchema b \<longleftrightarrow> sp_role b \<noteq> None \<or> sp_stationId b \<noteq> None \<or> sp_isActive b \<noteq> None"

record staff_listed =
  sl_id :: string
  sl_email :: string
  sl_firstName :: string
  sl_lastName :: string
  sl_role :: user_role
  sl_stationId :: "string option"
  sl_isActive :: bool
  sl_lastLoginAt :: "time option"
  sl_createdAt :: time
  sl_homeStation :: "(string \<times> string \<times> string) option"

definition staff_listed_of :: "db \<Rightarrow> staff_user \<Rightarrow> staff_listed" where
  "staff_listed_of d u =
     \<lparr>sl_id = su_id u, sl_email = su_email u, sl_firstName = su_firstName u, sl_lastName = su_lastName u,
      sl_role = su_role u, sl_stationId = su_stationId u, sl_isActive = su_isActive u,
      sl_lastLoginAt = su_lastLoginAt u, sl_createdAt = su_createdAt u,
      sl_homeStation = map_option (\<lambda>s. (st_id s, st_name s, st_code s)) (Option.bind (su_stationId u) (find_station d))\<rparr>"

record staff_created =
  sc_user :: staff_listed
  sc_inviteEmailSent :: bool
  sc_temporaryPassword :: "string option"

text \<open>What a request brings in besides its body: the salt of the hash, the fresh identifiers, the token of the link and whether the mail went out.\<close>

record staff_fresh =
  fr_draw :: draws
  fr_salt :: string
  fr_userId :: string
  fr_tokenId :: string
  fr_token :: string
  fr_delivered :: bool

section \<open>Operations\<close>

definition staffInviteEmailConfigured :: "ctx \<Rightarrow> bool" where
  "staffInviteEmailConfigured ctx \<longleftrightarrow> c_mailOn ctx \<and> public_base_url (c_env ctx) \<noteq> []"

definition invite_not_configured :: http_error where
  "invite_not_configured =
     BadRequest ''Cannot send staff invite: configure SMTP (e.g. SMTP_HOST, SMTP_FROM) and APP_PUBLIC_BASE_URL''"

definition check_staff_create :: "ctx \<Rightarrow> jwt_user \<Rightarrow> staff_input \<Rightarrow> db \<Rightarrow> unit result" where
  "check_staff_create ctx actor b d =
     andThen (ensure (u_role actor = ADMIN) (Forbidden ''Only admin can create staff users'')) (\<lambda>_.
     andThen (effectiveListCompanyFilter (c_env ctx) actor (Some (si_companyId b))) (\<lambda>_.
     andThen (ensure (find_company d (si_companyId b) \<noteq> None) (NotFound (''Company not found: '' @ si_companyId b))) (\<lambda>_.
     andThen (ensure (\<not> truthy (si_stationId b) \<or> station_in_company d (the (si_stationId b)) (si_companyId b))
       (BadRequest ''Station does not belong to this company'')) (\<lambda>_.
     ensure (\<not> si_sendInviteEmail b \<or> staffInviteEmailConfigured ctx) invite_not_configured))))"

definition staff_account :: "auth_lib \<Rightarrow> ctx \<Rightarrow> staff_fresh \<Rightarrow> staff_input \<Rightarrow> string \<Rightarrow> staff_user" where
  "staff_account lib ctx fresh b pw =
     \<lparr>su_id = fr_userId fresh, su_companyId = si_companyId b, su_stationId = si_stationId b,
      su_email = trim (toLowerCase (si_email b)), su_passwordHash = ah_hash lib (fr_salt fresh) pw,
      su_firstName = trim (si_firstName b), su_lastName = trim (si_lastName b), su_role = si_role b,
      su_isActive = True, su_lastLoginAt = None, su_failedLoginAttempts = 0, su_lockedUntil = None,
      su_mfaEnabled = False, su_mfaSecret = None, su_mfaBackupCodeHashes = None, su_createdAt = c_now ctx\<rparr>"

text \<open>\<open>user.delete\<close>: the row and, by the foreign key, its tokens; nothing else refers to an account this young.\<close>

definition delete_user :: "string \<Rightarrow> unit dbprog" where
  "delete_user i =
     andDo (modify (d_users_update (filter (\<lambda>u. su_id u \<noteq> i))))
       (modify (d_resets_update (filter (\<lambda>p. pr_userId p \<noteq> i))))"

definition staff_email_taken :: "http_error \<Rightarrow> 'a dbprog" where
  "staff_email_taken e = throw (if e = Prisma ''P2002'' then Conflict ''Email already in use'' else e)"

definition staff_create :: "auth_lib \<Rightarrow> ctx \<Rightarrow> staff_fresh \<Rightarrow> jwt_user \<Rightarrow> staff_input \<Rightarrow> staff_created dbprog" where
  "staff_create lib ctx fresh actor b =
     andDo (asks (check_staff_create ctx actor b))
     (let auto = \<not> truthy (si_password b);
          plain = (if auto then generateTemporaryPassword (fr_draw fresh) else the (si_password b));
          u = staff_account lib ctx fresh b plain
      in andDo (catch (insert_user u) staff_email_taken)
         (bnd (gets (\<lambda>d. staff_listed_of d u)) (\<lambda>created.
         (andDo (audit (bare_audit (Some (u_sub actor)) ''staff.create'' ''User'' (su_id u)
            (JObj [(''email'', JStr (su_email u)), (''role'', JStr (role_name (su_role u))),
                   (''companyId'', JStr (si_companyId b)), (''temporaryPasswordGenerated'', JBool auto),
                   (''inviteEmailSent'', JBool (si_sendInviteEmail b))])))
         (if si_sendInviteEmail b then
            andDo (catch (sendStaffInviteSetupEmail lib ctx (fr_delivered fresh) (fr_tokenId fresh) (fr_token fresh) (su_id u) (u_sub actor))
                (\<lambda>e. andDo (delete_user (su_id u)) (throw e)))
              (ret \<lparr>sc_user = created, sc_inviteEmailSent = True, sc_temporaryPassword = None\<rparr>)
          else ret \<lparr>sc_user = created, sc_inviteEmailSent = False,
                    sc_temporaryPassword = (if auto then Some plain else None)\<rparr>)))))"

definition staff_findAll :: "db \<Rightarrow> env \<Rightarrow> string option \<Rightarrow> jwt_user \<Rightarrow> staff_listed list result" where
  "staff_findAll d env companyId user =
     andThen (effectiveListCompanyFilter env user companyId) (\<lambda>f.
     Inr (map (staff_listed_of d) (sort_key (\<lambda>u. (su_lastName u, su_email u))
       (filter (\<lambda>u. f = None \<or> f = Some (su_companyId u)) (d_users d)))))"

definition check_setup_invite :: "ctx \<Rightarrow> jwt_user \<Rightarrow> string \<Rightarrow> db \<Rightarrow> unit result" where
  "check_setup_invite ctx actor targetId d =
     andThen (ensure (u_role actor = ADMIN) (Forbidden ''Only admin can resend staff setup emails'')) (\<lambda>_.
     andThen (orElse (find_user d targetId) (NotFound (''User not found: '' @ targetId))) (\<lambda>target.
     andThen (assertSameCompany (c_env ctx) actor (su_companyId target) (''User not found: '' @ targetId)) (\<lambda>_.
     andThen (ensure (targetId \<noteq> u_sub actor) (BadRequest ''Cannot send setup email to yourself'')) (\<lambda>_.
     andThen (ensure (su_isActive target) (BadRequest ''Cannot send setup email to an inactive user'')) (\<lambda>_.
     andThen (ensure (su_lastLoginAt target = None)
       (BadRequest ''This user has already signed in - use Forgot password instead of a setup email'')) (\<lambda>_.
     ensure (staffInviteEmailConfigured ctx) invite_not_configured))))))"

definition sendSetupInviteEmail :: "auth_lib \<Rightarrow> ctx \<Rightarrow> staff_fresh \<Rightarrow> string \<Rightarrow> jwt_user \<Rightarrow> unit dbprog" where
  "sendSetupInviteEmail lib ctx fresh targetId actor =
     andDo (asks (check_setup_invite ctx actor targetId))
       (sendStaffInviteSetupEmail lib ctx (fr_delivered fresh) (fr_tokenId fresh) (fr_token fresh) targetId (u_sub actor))"

definition active_admin :: "string \<Rightarrow> staff_user \<Rightarrow> bool" where
  "active_admin companyId u \<longleftrightarrow> su_companyId u = companyId \<and> su_role u = ADMIN \<and> su_isActive u"

definition active_admins :: "db \<Rightarrow> string \<Rightarrow> nat" where
  "active_admins d companyId = length (filter (active_admin companyId) (d_users d))"

definition leaves_admins :: "staff_patch \<Rightarrow> bool" where
  "leaves_admins b \<longleftrightarrow> sp_role b \<notin> {None, Some ADMIN}"

definition check_staff_update :: "env \<Rightarrow> jwt_user \<Rightarrow> string \<Rightarrow> staff_patch \<Rightarrow> db \<Rightarrow> unit result" where
  "check_staff_update env user targetId b d =
     andThen (ensure (u_role user = ADMIN) (Forbidden ''Only admin can update staff'')) (\<lambda>_.
     andThen (orElse (find_user d targetId) (NotFound (''User not found: '' @ targetId))) (\<lambda>target.
     andThen (assertSameCompany env user (su_companyId target) (''User not found: '' @ targetId)) (\<lambda>_.
     andThen (ensure (\<not> (targetId = u_sub user \<and> sp_isActive b = Some False)) (Forbidden ''Cannot deactivate your own account'')) (\<lambda>_.
     andThen (ensure (\<not> (targetId = u_sub user \<and> leaves_admins b)) (Forbidden ''Cannot change your own role away from ADMIN'')) (\<lambda>_.
     andThen (case sp_stationId b of
         Some (Some i) \<Rightarrow> ensure (station_in_company d i (su_companyId target)) (BadRequest ''Station does not belong to this company'')
       | _ \<Rightarrow> Inr ()) (\<lambda>_.
     let only = (su_role target = ADMIN \<and> active_admins d (su_companyId target) \<le> 1)
     in andThen (ensure (\<not> (only \<and> leaves_admins b)) (BadRequest ''Cannot change the only active admin's role'')) (\<lambda>_.
        ensure (\<not> (only \<and> sp_isActive b = Some False)) (BadRequest ''Cannot deactivate the only active admin''))))))))"

definition patch_staff :: "staff_patch \<Rightarrow> staff_user \<Rightarrow> staff_user" where
  "patch_staff b u =
     u\<lparr>su_role := (case sp_role b of None \<Rightarrow> su_role u | Some r \<Rightarrow> r),
       su_stationId := (case sp_stationId b of None \<Rightarrow> su_stationId u | Some i \<Rightarrow> i),
       su_isActive := (case sp_isActive b of None \<Rightarrow> su_isActive u | Some a \<Rightarrow> a)\<rparr>"

definition staff_update :: "env \<Rightarrow> string \<Rightarrow> staff_patch \<Rightarrow> jwt_user \<Rightarrow> staff_listed dbprog" where
  "staff_update env targetId b user =
     andDo (asks (check_staff_update env user targetId b))
     (andDo (update_user targetId (patch_staff b))
     (asks (\<lambda>d. andThen (orElse (find_user d targetId) (Prisma ''P2025'')) (\<lambda>u. Inr (staff_listed_of d u)))))"

end
