(* ===== verification/Staff_Safety.thy ===== *)
theory Staff_Safety
  imports Staff
begin

text \<open>
  What adding and changing staff guarantees: a generated password passes the rules for passwords, and a
  company that has an active administrator keeps one, whatever requests about accounts are served one
  after the other. Two requests whose guards both read before either writes can leave none.
\<close>

section \<open>Generated passwords\<close>

definition draws_ok :: "draws \<Rightarrow> bool" where
  "draws_ok draw \<longleftrightarrow> (\<forall>k n. 0 < n \<longrightarrow> draw k n < n)"

lemma shuffle_mset:
  assumes "draws_ok draw" "i < length cs"
  shows "mset (shuffle draw k i cs) = mset cs"
  using assms(2)
proof (induction i arbitrary: k cs)
  case (Suc i)
  have "draw k (Suc (Suc i)) < Suc (Suc i)" using assms(1) by (simp add: draws_ok_def)
  then show ?case using Suc by (simp add: Let_def mset_swap)
qed simp

lemma pick_mem:
  assumes "draws_ok draw" "letters \<noteq> []"
  shows "pick draw k letters \<in> set letters"
  using assms by (simp add: pick_def draws_ok_def)

lemma temporary_password_mset:
  assumes "draws_ok draw"
  shows "mset (generateTemporaryPassword draw) =
    mset ([pick draw 0 TEMP_LOWER, pick draw 1 TEMP_UPPER, pick draw 2 TEMP_DIGIT, pick draw 3 TEMP_SPECIAL] @
      map (\<lambda>k. pick draw k (TEMP_LOWER @ TEMP_UPPER @ TEMP_DIGIT @ TEMP_SPECIAL)) [4..<16])"
  unfolding generateTemporaryPassword_def Let_def by (rule shuffle_mset [OF assms]) simp_all

lemma letter_classes:
  "list_all (\<lambda>c. isLetter c \<and> lowerChar c = c) TEMP_LOWER"
  "list_all (\<lambda>c. isLetter c \<and> upperChar c = c) TEMP_UPPER"
  "list_all isDigit TEMP_DIGIT" "list_all isSpecial TEMP_SPECIAL"
  "list_all (\<lambda>c. \<not> isSpace c) (TEMP_LOWER @ TEMP_UPPER @ TEMP_DIGIT @ TEMP_SPECIAL)"
  by code_simp+

lemma letters_there: "TEMP_LOWER \<noteq> []" "TEMP_UPPER \<noteq> []" "TEMP_DIGIT \<noteq> []" "TEMP_SPECIAL \<noteq> []"
  by (simp_all add: TEMP_LOWER_def TEMP_UPPER_def TEMP_DIGIT_def TEMP_SPECIAL_def)

text \<open>A password the server makes up always passes the rules for passwords, whatever is drawn.\<close>

theorem temporary_password_is_strong:
  assumes "draws_ok draw"
  shows "strongPasswordSchema (generateTemporaryPassword draw) = Some (generateTemporaryPassword draw)"
proof -
  let ?all = "TEMP_LOWER @ TEMP_UPPER @ TEMP_DIGIT @ TEMP_SPECIAL" and ?p = "generateTemporaryPassword draw"
  note m = temporary_password_mset [OF assms] and pick = pick_mem [OF assms]
  have len: "length ?p = 16" using arg_cong [OF m, of size] by simp
  note mem = mset_eq_setD [OF m]
  have ex: "list_ex P ?p" if "c \<in> set ?p" "list_all P cs" "c \<in> set cs" for P c cs
    using that by (auto simp: list_ex_iff list_all_iff)
  have "set ?p \<subseteq> set ?all"
    using pick [OF letters_there(1)] pick [OF letters_there(2)] pick [OF letters_there(3)] pick [OF letters_there(4)]
      pick [of ?all] letters_there by (auto simp: mem)
  then have "list_all (\<lambda>c. \<not> isSpace c) ?p"
    using letter_classes(5) unfolding list_all_iff by blast
  then have "trim ?p = ?p" by (rule trim_no_space)
  moreover have "list_ex (\<lambda>c. isLetter c \<and> lowerChar c = c) ?p"
    by (rule ex [OF _ letter_classes(1) pick [where k = 0, OF letters_there(1)]]) (simp add: mem)
  moreover have "list_ex (\<lambda>c. isLetter c \<and> upperChar c = c) ?p"
    by (rule ex [OF _ letter_classes(2) pick [where k = 1, OF letters_there(2)]]) (simp add: mem)
  moreover have "list_ex isDigit ?p"
    by (rule ex [OF _ letter_classes(3) pick [where k = 2, OF letters_there(3)]]) (simp add: mem)
  moreover have "list_ex isSpecial ?p"
    by (rule ex [OF _ letter_classes(4) pick [where k = 3, OF letters_there(4)]]) (simp add: mem)
  ultimately show ?thesis by (simp add: strongPasswordSchema_def Let_def len)
qed

theorem temporary_password_is_strong_witness:
  "(\<lambda>p. strongPasswordSchema p = Some p) (generateTemporaryPassword (\<lambda>k n. k mod n))"
  using temporary_password_is_strong [of "\<lambda>k n. k mod n"] by (simp add: draws_ok_def)

section \<open>Administrators\<close>

definition has_admin :: "string \<Rightarrow> db \<Rightarrow> bool" where
  "has_admin c d \<longleftrightarrow> list_ex (active_admin c) (d_users d)"

definition admin_besides :: "string \<Rightarrow> string \<Rightarrow> db \<Rightarrow> bool" where
  "admin_besides i c d \<longleftrightarrow> list_ex (\<lambda>u. active_admin c u \<and> su_id u \<noteq> i) (d_users d)"

datatype staff_request =
    Account auth_request
  | CreateStaff ctx staff_fresh jwt_user staff_input
  | SendSetup ctx staff_fresh string jwt_user
  | UpdateStaff env string staff_patch jwt_user

fun serve_staff :: "auth_lib \<Rightarrow> staff_request \<Rightarrow> unit dbprog" where
  "serve_staff lib (Account r) = serve_auth lib r"
| "serve_staff lib (CreateStaff ctx fresh actor b) = andDo (staff_create lib ctx fresh actor b) (ret ())"
| "serve_staff lib (SendSetup ctx fresh i actor) = sendSetupInviteEmail lib ctx fresh i actor"
| "serve_staff lib (UpdateStaff env i b user) = andDo (staff_update env i b user) (ret ())"

lemma always_admin_frame:
  "(\<And>d. d_users (g d) = d_users d) \<Longrightarrow> always (has_admin c) (modify g)"
  "(\<And>d. d_users (g d) = d_users d) \<Longrightarrow> always (admin_besides i c) (modify g)"
  by (auto intro!: always_modify simp: has_admin_def admin_besides_def)

lemma always_admin_log:
  "always (has_admin c) (audit a)" "always (has_admin c) (send_mail m)"
  "always (has_admin c) (replace_tokens j t)" "always (has_admin c) (drop_token h)"
  "always (admin_besides i c) (audit a)" "always (admin_besides i c) (send_mail m)"
  "always (admin_besides i c) (replace_tokens j t)" "always (admin_besides i c) (drop_token h)"
  unfolding audit_def send_mail_def replace_tokens_def drop_token_def
  by (intro always_intros always_admin_frame; simp)+

lemma always_admin_update:
  assumes "\<And>x. active_admin c (f x) = active_admin c x"
  shows "always (has_admin c) (update_user i f)"
proof -
  have "list_ex (active_admin c) (update_row su_id i f us) = list_ex (active_admin c) us" for us
    using assms by (induction us) (auto simp: update_row_def)
  then show ?thesis
    unfolding update_user_def by (intro always_intros always_modify) (simp add: has_admin_def)
qed

lemma always_admin_insert: "always (has_admin c) (insert_user u)"
  unfolding insert_user_def by (intro always_intros always_modify) (auto simp: has_admin_def)

lemmas admin_rules = always_intros always_admin_log always_admin_update always_admin_insert always_admin_frame

lemmas auth_programs =
  login_def second_factor_def unlock_def refuse_def recordFailedLoginAttempt_def assertFullLogin_def
  completeMfaLogin_def recovery_login_def startMfaSetup_def confirmMfaSetup_def cancelMfaSetup_def disableMfa_def
  regenerateMfaBackupCodes_def auth_register_def requestPasswordReset_def sendStaffInviteSetupEmail_def
  resetPasswordWithToken_def changePassword_def Let_def

lemma same_admin [simp]:
  "active_admin c (clear_failures u) = active_admin c u"
  "active_admin c (failed_attempt ctx row u) = active_admin c u"
  "active_admin c (new_password lib salt pw u) = active_admin c u"
  by (simp_all add: active_admin_def clear_failures_def failed_attempt_def new_password_def Let_def)

lemma account_requests_keep_admin: "always (has_admin c) (serve_auth lib r)"
  by (cases r; simp; unfold auth_programs; intro admin_rules; simp add: active_admin_def clear_failures_def
    failed_attempt_def new_password_def Let_def)

lemma invite_keeps:
  "always users_ok (sendStaffInviteSetupEmail lib ctx delivered t raw j actor)"
  "always (has_admin c) (sendStaffInviteSetupEmail lib ctx delivered t raw j actor)"
  "always (admin_besides i c) (sendStaffInviteSetupEmail lib ctx delivered t raw j actor)"
  unfolding sendStaffInviteSetupEmail_def Let_def
  by (intro always_intros always_tokens always_audit always_admin_log)+

lemma delete_keeps: "always users_ok (delete_user i)" "always (admin_besides i c) (delete_user i)"
  unfolding delete_user_def
  by (intro always_intros always_modify;
      auto simp: users_ok_def keyed_def distinct_map_filter list_all_iff admin_besides_def list_ex_iff)+

lemma always_and: "always I m \<Longrightarrow> always J m \<Longrightarrow> always (\<lambda>s. I s \<and> J s) m"
  by (simp add: always_def keeps_run)

lemma always_from:
  assumes "\<And>s. I s \<Longrightarrow> wpre m (\<lambda>_. J) (\<lambda>_. I) s" "always J k" "\<And>s. J s \<Longrightarrow> I s"
  shows "always I (andDo m k)"
  using assms by (fastforce simp: always_def keeps_run wpre_def andDo_def bnd_def split: prod.splits sum.splits)

lemma other_key:
  assumes "distinct (map k xs)" "2 \<le> length xs"
  shows "\<exists>x\<in>set xs. k x \<noteq> i"
proof -
  obtain a b ys where "xs = a # b # ys" using assms(2) by (cases xs rule: list.exhaust [case_product list.exhaust]) (auto simp: Suc_le_length_iff numeral_2_eq_2)
  then show ?thesis using assms(1) by (cases "k a = i") auto
qed

definition admins_ok :: "string \<Rightarrow> db \<Rightarrow> bool" where
  "admins_ok c d \<longleftrightarrow> users_ok d \<and> has_admin c d"

lemma admin_besides_has: "admin_besides i c d \<Longrightarrow> has_admin c d"
  by (auto simp: admin_besides_def has_admin_def list_ex_iff)

lemma create_keeps_admins: "always (admins_ok c) (staff_create lib ctx fresh actor b)"
proof -
  let ?i = "fr_userId fresh" and ?u = "staff_account lib ctx fresh b"
  let ?J = "\<lambda>d. users_ok d \<and> admin_besides ?i c d"
  have inserted: "wpre (catch (insert_user (?u pw)) staff_email_taken) (\<lambda>_. ?J) (\<lambda>_. admins_ok c) d"
    if ok: "admins_ok c d" for pw d
  proof -
    have "users_ok (d_users_update (\<lambda>us. us @ [?u pw]) d)"
      if "find_user d ?i = None" "find_user_by_email d (su_email (?u pw)) = None"
      using that ok users.keyed_insert [of _ "?u pw"]
      by (auto simp: admins_ok_def users_ok_def account_ok_def staff_account_def find_user_def find_user_by_email_def find_None_iff)
    moreover have "admin_besides ?i c (d_users_update (\<lambda>us. us @ [?u pw]) d)" if "find_user d ?i = None"
      using that ok by (auto simp: admins_ok_def has_admin_def admin_besides_def list_ex_iff dest: listed_account)
    ultimately show ?thesis
      using ok by (auto simp: insert_user_def staff_email_taken_def wp staff_account_def)
  qed
  note rest = always_intros always_catch always_and [OF always_audit(1) always_admin_log(5)]
    always_and [OF invite_keeps(1,3)] always_and [OF delete_keeps]
  have id: "su_id (?u pw) = ?i" for pw by (simp add: staff_account_def)
  show ?thesis
    unfolding staff_create_def Let_def id
    by (rule always_andDo [OF always_simps(3) always_from [OF inserted]];
      (intro rest; fail | auto simp: admins_ok_def intro: admin_besides_has))
qed

lemma update_keeps_admins: "always (admins_ok c) (staff_update env i b user)"
proof -
  let ?f = "patch_staff b"
  have kept: "admins_ok c (d_users_update (update_row su_id i ?f) d)"
    if ok: "admins_ok c d" and check: "check_staff_update env user i b d = Inr ()" for d
  proof -
    obtain t where t: "find_user d i = Some t"
        "su_role t = ADMIN \<Longrightarrow> active_admins d (su_companyId t) \<le> 1 \<Longrightarrow> \<not> leaves_admins b \<and> sp_isActive b \<noteq> Some False"
      using check by (auto simp: check_staff_update_def andThen_Inr orElse_Inr Let_def)
    have "\<exists>a\<in>set (d_users d). active_admin c (if su_id a = i then ?f a else a)"
    proof (cases "active_admin c t \<and> \<not> active_admin c (?f t)")
      case True
      then have "leaves_admins b \<or> sp_isActive b = Some False"
        by (auto simp: active_admin_def patch_staff_def leaves_admins_def split: option.splits)
      then have "2 \<le> length (filter (active_admin c) (d_users d))"
        using t(2) True by (force simp: active_admin_def active_admins_def)
      moreover have "distinct (map su_id (filter (active_admin c) (d_users d)))"
        using ok by (simp add: admins_ok_def users_ok_def keyed_def distinct_map_filter)
      ultimately show ?thesis using other_key [of su_id _ i] by fastforce
    next
      case False
      obtain a where a: "a \<in> set (d_users d)" "active_admin c a"
        using ok by (auto simp: admins_ok_def has_admin_def list_ex_iff)
      then have "a = t" if "su_id a = i"
        using same_account [of d a t] find_user_mem [OF t(1)] ok that by (simp add: admins_ok_def)
      then show ?thesis using a False by (intro bexI [of _ a]) auto
    qed
    then have "has_admin c (d_users_update (update_row su_id i ?f) d)"
      by (auto simp: has_admin_def list_ex_iff update_row_def split: if_splits)
    moreover have "users_ok (d_users_update (update_row su_id i ?f) d)"
      using ok by (intro users_ok_change) (auto simp: admins_ok_def patch_staff_def account_ok_def dest: account_ok_listed)
    ultimately show ?thesis by (simp add: admins_ok_def)
  qed
  then show ?thesis by (auto simp: always_def keeps_def staff_update_def wp)
qed

lemma staff_requests_keep_admins: "always (admins_ok c) (serve_staff lib r)"
proof (cases r)
  case (Account a)
  then show ?thesis
    using always_and [OF always_serve_auth account_requests_keep_admin] by (simp add: admins_ok_def [abs_def])
next
  case (SendSetup ctx fresh i actor)
  then show ?thesis
    by (simp add: sendSetupInviteEmail_def admins_ok_def [abs_def] always_intros always_and [OF invite_keeps(1,2)])
qed (simp_all add: always_ret_unit create_keeps_admins update_keeps_admins)

text \<open>C11: A company with an active administrator has one after any requests about accounts and staff, served one after the other.\<close>

theorem company_keeps_an_admin:
  assumes "users_ok d" "has_admin c d"
  shows "has_admin c (run_all (serve_staff lib) rs d)"
  using always_run_all [of "admins_ok c" "serve_staff lib" d rs] staff_requests_keep_admins assms
  by (simp add: admins_ok_def)

section \<open>Concrete runs\<close>

definition demo_anna :: staff_user where
  "demo_anna = demo_boss\<lparr>su_id := ''anna'', su_email := ''anna@acme.it'', su_role := ADMIN\<rparr>"

definition demo_bruno :: staff_user where
  "demo_bruno = demo_boss\<lparr>su_id := ''bruno'', su_email := ''bruno@acme.it'', su_role := ADMIN\<rparr>"

definition demo_admins :: db where
  "demo_admins = demo_db\<lparr>d_users := [demo_anna, demo_bruno]\<rparr>"

definition demote :: staff_patch where
  "demote = \<lparr>sp_role = Some AGENT, sp_stationId = None, sp_isActive = None\<rparr>"

definition demo_fresh :: staff_fresh where
  "demo_fresh = \<lparr>fr_draw = (\<lambda>k n. k mod n), fr_salt = ''salt'', fr_userId = ''carla'', fr_tokenId = ''t1'',
     fr_token = ''abc'', fr_delivered = False\<rparr>"

definition demo_colleague :: staff_input where
  "demo_colleague = \<lparr>si_companyId = ''acme'', si_email = '' Carla@Acme.it'', si_password = None, si_firstName = ''Carla'',
     si_lastName = ''Neri'', si_role = ADMIN, si_stationId = Some ''rome'', si_sendInviteEmail = True\<rparr>"

text \<open>An invitation that the mail server refuses, and a demotion of each administrator by the other.\<close>

definition demo_staff_day :: db where
  "demo_staff_day = run_all (serve_staff demo_auth)
     [CreateStaff (lock_ctx\<lparr>c_mailOn := True\<rparr>) demo_fresh (as_user demo_anna) demo_colleague,
      UpdateStaff (c_env demo_ctx) ''bruno'' demote (as_user demo_anna),
      UpdateStaff (c_env demo_ctx) ''anna'' demote (as_user demo_bruno)] demo_admins"

theorem company_keeps_an_admin_witness: "has_admin ''acme'' demo_staff_day"
  unfolding demo_staff_day_def
  by (rule company_keeps_an_admin)
    (simp_all add: users_ok_def keyed_def account_ok_def has_admin_def active_admin_def demo_admins_def demo_anna_def
      demo_bruno_def demo_boss_def)

lemma refused_invitation_leaves_no_account:
  "fst (staff_create demo_auth (lock_ctx\<lparr>c_mailOn := True\<rparr>) demo_fresh (as_user demo_anna) demo_colleague demo_admins) =
    Inl (ServiceUnavailable ''Could not send invite email; the new user was not created. Try again or add staff without the email invite.'')"
  "map su_id (d_users demo_staff_day) = [''anna'', ''bruno'']" "map su_role (d_users demo_staff_day) = [ADMIN, AGENT]"
  by code_simp+

text \<open>
  The guard counts outside a transaction: when two administrators demote each other and both guards read
  before either row is written, both pass and nobody is left. An account of an administrator that is not
  active cannot be demoted while there is one active administrator, although nothing would be lost.
\<close>

lemma simultaneous_demotions_leave_none:
  "check_staff_update (c_env demo_ctx) (as_user demo_anna) ''bruno'' demote demo_admins = Inr ()"
  "check_staff_update (c_env demo_ctx) (as_user demo_bruno) ''anna'' demote demo_admins = Inr ()"
  "\<not> has_admin ''acme'' (snd (andDo (update_user ''bruno'' (patch_staff demote)) (update_user ''anna'' (patch_staff demote)) demo_admins))"
  by code_simp+

lemma inactive_admin_cannot_be_demoted:
  "fst (staff_update (c_env demo_ctx) ''bruno'' demote (as_user demo_anna)
     (d_users_update (update_row su_id ''bruno'' (su_isActive_update (\<lambda>_. False))) demo_admins)) =
   Inl (BadRequest ''Cannot change the only active admin's role'')"
  by code_simp

end
