(* ===== verification/Ip_Allowlist.thy ===== *)
theory Ip_Allowlist
  imports Js_Text "HOL-Library.Word"
begin

unbundle bit_operations_syntax

text \<open>
  \<open>partner/partner-ip-allowlist.ts\<close>: IPv4 addresses and CIDR rules on 32 bit words, as the bit
  operations of JavaScript compute them. Every comparison of the code is between two numbers of the same
  sign convention, so equality of the words is the equality the code tests.
\<close>

section \<open>Addresses and rules\<close>

definition octet :: "string \<Rightarrow> 32 word option" where
  "octet p =
     (if 1 \<le> length p \<and> length p \<le> 3 \<and> list_all isDigit p then
        (case parseInt10 p of
           None \<Rightarrow> None
         | Some n \<Rightarrow> if n > 255 \<or> n < 0 then None else Some (word_of_int n))
      else None)"

definition ipv4ToInt :: "string \<Rightarrow> 32 word option" where
  "ipv4ToInt s =
     (case map octet (split_on CHR ''.'' (trim s)) of
        [Some a, Some b, Some c, Some d] \<Rightarrow> Some (push_bit 24 a OR push_bit 16 b OR push_bit 8 c OR d)
      | _ \<Rightarrow> None)"

definition normalizePartnerClientIp :: "string option \<Rightarrow> string" where
  "normalizePartnerClientIp ip =
     (case ip of
        None \<Rightarrow> []
      | Some s \<Rightarrow> let t = trim s in if startsWith ''::ffff:'' t then drop 7 t else t)"

datatype allow_rule =
    Ip4 "32 word"
  | Cidr4 "32 word" "32 word"

definition prefix_mask :: "int \<Rightarrow> 32 word" where
  "prefix_mask prefix = (if prefix = 0 then 0 else push_bit (nat (32 - prefix)) (- 1))"

definition parseAllowRule :: "string \<Rightarrow> allow_rule option" where
  "parseAllowRule token =
     (let t = trim token
      in if t = [] then None
         else if CHR ''/'' \<in> set t then
           (case split_on CHR ''/'' t of
              addrPart # prefixPart # _ \<Rightarrow>
                (case parseInt10 (trim prefixPart) of
                   None \<Rightarrow> None
                 | Some prefix \<Rightarrow>
                     if prefix < 0 \<or> prefix > 32 then None
                     else map_option (\<lambda>ip. Cidr4 (ip AND prefix_mask prefix) (prefix_mask prefix)) (ipv4ToInt (trim addrPart)))
            | _ \<Rightarrow> None)
         else map_option Ip4 (ipv4ToInt t))"

definition parsePartnerIpAllowlist :: "string option \<Rightarrow> allow_rule list" where
  "parsePartnerIpAllowlist raw =
     (let s = trim (case raw of None \<Rightarrow> [] | Some r \<Rightarrow> r)
      in if s = [] then [] else List.map_filter parseAllowRule (split_on CHR '','' s))"

fun rule_hits :: "32 word \<Rightarrow> allow_rule \<Rightarrow> bool" where
  "rule_hits ip (Ip4 addr) \<longleftrightarrow> addr = ip"
| "rule_hits ip (Cidr4 network msk) \<longleftrightarrow> ip AND msk = network"

definition partnerClientIpAllowed :: "string option \<Rightarrow> allow_rule list \<Rightarrow> bool" where
  "partnerClientIpAllowed clientIp rules \<longleftrightarrow>
     (if rules = [] then True
      else case ipv4ToInt (normalizePartnerClientIp clientIp) of
             None \<Rightarrow> False
           | Some ip \<Rightarrow> list_ex (rule_hits ip) rules)"

section \<open>Dotted quads\<close>

definition dotted :: "nat \<Rightarrow> string" where
  "dotted x = joinWith ''.'' (map show_nat [x div 2 ^ 24, x div 2 ^ 16 mod 256, x div 2 ^ 8 mod 256, x mod 256])"

lemma parseInt10_show_nat: "parseInt10 (show_nat n) = Some (int n)"
proof -
  obtain c cs where s: "show_nat n = c # cs" using show_nat_digits [of n] by (cases "show_nat n") auto
  then have "isDigit c" using show_nat_digits [of n] by simp
  then have "\<not> isSpace c" "c \<noteq> CHR ''-''" "c \<noteq> CHR ''+''"
    using isDigit_not_space [of c] by (auto simp: isDigit_def code_def)
  then show ?thesis using parseDigits_show_nat [of n] s by (simp add: parseInt10_def)
qed

lemma show_nat_octet_length: "n < 256 \<Longrightarrow> length (show_nat n) \<le> 3"
  by (subst show_nat.simps, simp, subst show_nat.simps, simp, subst show_nat.simps, simp)

lemma octet_show_nat: "n < 256 \<Longrightarrow> octet (show_nat n) = Some (word_of_nat n)"
proof -
  assume "n < 256"
  moreover have "1 \<le> length (show_nat n)"
    using show_nat_digits [of n] by (simp add: Suc_le_eq)
  ultimately show ?thesis
    using show_nat_digits [of n] show_nat_octet_length [of n]
    by (simp only: octet_def parseInt10_show_nat if_True option.case) (simp del: show_nat.simps)
qed

lemma no_mark: "\<not> isDigit c \<Longrightarrow> c \<notin> set (show_nat n)"
  using show_nat_digits [of n] by (auto simp: list_all_iff)

lemma marks_no_digit: "\<not> isDigit CHR ''.''" "\<not> isDigit CHR ''/''" "\<not> isDigit CHR '',''" "\<not> isDigit CHR '':''"
  by code_simp+

lemma split_dotted: "split_on CHR ''.'' (dotted x) =
    map show_nat [x div 2 ^ 24, x div 2 ^ 16 mod 256, x div 2 ^ 8 mod 256, x mod 256]"
  by (simp add: dotted_def split_on_app split_on_none no_mark marks_no_digit)

lemma dotted_chars: "set (dotted x) \<subseteq> {c. isDigit c} \<union> {CHR ''.''}"
proof -
  have "c \<in> set (show_nat n) \<Longrightarrow> isDigit c" for c n
    using show_nat_digits [of n] by (auto simp: list_all_iff)
  then show ?thesis by (auto simp: dotted_def)
qed

lemma trim_dotted: "trim (dotted x) = dotted x"
proof (rule trim_no_space)
  have "\<not> isSpace CHR ''.''" by code_simp
  then show "list_all (\<lambda>c. \<not> isSpace c) (dotted x)"
    using dotted_chars [of x] isDigit_not_space by (fastforce simp: list_all_iff)
qed

lemma octet_bits: "a < 256 \<Longrightarrow> bit (word_of_nat a :: 32 word) i \<Longrightarrow> i < 8"
proof -
  assume "a < 256" "bit (word_of_nat a :: 32 word) i"
  then have "take_bit 8 a = a" "bit a i"
    by (simp_all add: take_bit_nat_eq_self bit_of_nat_iff)
  then show "i < 8" by (metis bit_take_bit_iff)
qed

lemma join_octet:
  assumes "a < 256"
  shows "push_bit 8 (word_of_nat q :: 32 word) OR word_of_nat a = word_of_nat (q * 256 + a)"
proof -
  have "\<not> bit (push_bit 8 (word_of_nat q :: 32 word) AND word_of_nat a) i" for i
    using octet_bits [OF assms, of i] by (auto simp: bit_push_bit_iff bit_and_iff)
  then have "push_bit 8 (word_of_nat q :: 32 word) AND word_of_nat a = 0"
    by (intro bit_eqI) simp
  then have "push_bit 8 (word_of_nat q :: 32 word) OR word_of_nat a = push_bit 8 (word_of_nat q) + word_of_nat a"
    by (simp only: disjunctive_add_eq_or)
  then show ?thesis by (simp add: push_bit_eq_mult)
qed

lemma or_is_plus:
  assumes "b < 256" "c < 256" "d < 256"
  shows "push_bit 24 (word_of_nat a :: 32 word) OR push_bit 16 (word_of_nat b) OR push_bit 8 (word_of_nat c) OR word_of_nat d =
    word_of_nat (((a * 256 + b) * 256 + c) * 256 + d)"
proof -
  have "push_bit 24 (word_of_nat a :: 32 word) OR push_bit 16 (word_of_nat b) OR push_bit 8 (word_of_nat c) OR word_of_nat d =
      push_bit 8 (push_bit 8 (push_bit 8 (word_of_nat a) OR word_of_nat b) OR word_of_nat c) OR word_of_nat d"
    by (simp only: push_bit_or push_bit_push_bit or.assoc) simp
  also have "\<dots> = word_of_nat (((a * 256 + b) * 256 + c) * 256 + d)"
    using assms by (simp only: join_octet)
  finally show ?thesis .
qed

lemma ipv4ToInt_dotted:
  assumes "x < 2 ^ 32"
  shows "ipv4ToInt (dotted x) = Some (word_of_nat x)"
proof -
  have q: "n = n div 256 * 256 + n mod 256" for n :: nat by simp
  have "x div 2 ^ 16 = x div 2 ^ 8 div 256" "x div 2 ^ 24 = x div 2 ^ 16 div 256" "x div 2 ^ 8 = x div 256"
    by (simp_all add: div_mult2_eq [symmetric])
  then have x: "((x div 2 ^ 24 * 256 + x div 2 ^ 16 mod 256) * 256 + x div 2 ^ 8 mod 256) * 256 + x mod 256 = x"
    by (metis q)
  have "x div 2 ^ 24 < 256" using assms by simp
  then have "ipv4ToInt (dotted x) = Some (push_bit 24 (word_of_nat (x div 2 ^ 24)) OR
      push_bit 16 (word_of_nat (x div 2 ^ 16 mod 256)) OR push_bit 8 (word_of_nat (x div 2 ^ 8 mod 256)) OR word_of_nat (x mod 256))"
    by (simp add: ipv4ToInt_def trim_dotted split_dotted octet_show_nat)
  also have "\<dots> = Some (word_of_nat x)"
    using or_is_plus [of "x div 2 ^ 16 mod 256" "x div 2 ^ 8 mod 256" "x mod 256" "x div 2 ^ 24"]
    by (simp only: x)
  finally show ?thesis .
qed

section \<open>Rules as prefixes\<close>

lemma same_prefix:
  fixes x y :: "32 word"
  assumes "n \<le> 32"
  shows "x AND prefix_mask (int n) = y AND prefix_mask (int n) \<longleftrightarrow> unat x div 2 ^ (32 - n) = unat y div 2 ^ (32 - n)"
proof -
  have low: "bit (prefix_mask (int n)) i \<longleftrightarrow> 32 - n \<le> i \<and> i < 32" for i
    using assms by (cases "n = 0") (auto simp: prefix_mask_def bit_simps nat_diff_distrib)
  have high: "\<not> bit z (32 - n + i)" if "\<not> i < 32" for z :: "32 word" and i
    using that bit_imp_le_length [of z "32 - n + i"] by auto
  have "x AND prefix_mask (int n) = y AND prefix_mask (int n) \<longleftrightarrow> (\<forall>i. 32 - n \<le> i \<longrightarrow> bit x i = bit y i)"
    using bit_imp_le_length [of x] bit_imp_le_length [of y] by (auto simp: bit_eq_iff bit_and_iff low)
  also have "\<dots> \<longleftrightarrow> (\<forall>i. bit x (32 - n + i) = bit y (32 - n + i))"
    by (metis le_add1 le_add_diff_inverse)
  also have "\<dots> \<longleftrightarrow> (\<forall>i<32. bit x (32 - n + i) = bit y (32 - n + i))"
    using high [of _ x] high [of _ y] by blast
  also have "\<dots> \<longleftrightarrow> drop_bit (32 - n) x = drop_bit (32 - n) y"
    by (simp add: bit_eq_iff bit_drop_bit_eq)
  also have "\<dots> \<longleftrightarrow> unat x div 2 ^ (32 - n) = unat y div 2 ^ (32 - n)"
    by (simp only: unat_drop_bit_eq [symmetric] drop_bit_eq_div [symmetric] unsigned_word_eqI word_eq_iff_unsigned)
  finally show ?thesis .
qed

definition cidr :: "nat \<times> nat \<Rightarrow> string" where
  "cidr e = dotted (fst e) @ ''/'' @ show_nat (snd e)"

lemma cidr_chars: "set (cidr e) \<subseteq> {c. isDigit c} \<union> {CHR ''.'', CHR ''/''}"
  using dotted_chars [of "fst e"] show_nat_digits [of "snd e"] by (auto simp: cidr_def list_all_iff)

lemma trim_cidr: "trim (cidr e) = cidr e"
proof (rule trim_no_space)
  have "\<not> isSpace CHR ''.''" "\<not> isSpace CHR ''/''" by code_simp+
  then show "list_all (\<lambda>c. \<not> isSpace c) (cidr e)"
    using cidr_chars [of e] isDigit_not_space by (fastforce simp: list_all_iff)
qed

lemma dotted_no: "\<not> isDigit c \<Longrightarrow> c \<noteq> CHR ''.'' \<Longrightarrow> c \<notin> set (dotted x)"
  using dotted_chars [of x] by auto

lemma trim_show_nat: "trim (show_nat n) = show_nat n"
  using show_nat_digits [of n] isDigit_not_space by (intro trim_no_space) (auto simp: list_all_iff)

lemma parseAllowRule_cidr:
  assumes "x < 2 ^ 32" "n \<le> 32"
  shows "parseAllowRule (cidr (x, n)) = Some (Cidr4 (word_of_nat x AND prefix_mask (int n)) (prefix_mask (int n)))"
proof -
  have "split_on CHR ''/'' (cidr (x, n)) = [dotted x, show_nat n]"
    by (simp add: cidr_def split_on_app split_on_none dotted_no no_mark marks_no_digit)
  moreover have "cidr (x, n) \<noteq> []" "CHR ''/'' \<in> set (cidr (x, n))"
    by (simp_all add: cidr_def)
  ultimately show ?thesis
    using assms by (simp add: parseAllowRule_def trim_cidr trim_show_nat trim_dotted parseInt10_show_nat ipv4ToInt_dotted)
qed

lemma split_joined:
  assumes "\<And>x. x \<in> set xs \<Longrightarrow> c \<notin> set x" "xs \<noteq> []"
  shows "split_on c (joinWith [c] xs) = xs"
  using assms
proof (induction xs)
  case (Cons x ys)
  then show ?case by (cases ys) (simp_all add: split_on_app split_on_none)
qed simp

lemma trim_joined_cidrs: "trim (joinWith '','' (map cidr es)) = joinWith '','' (map cidr es)"
proof (rule trim_no_space)
  have mark: "\<not> isSpace CHR ''.''" "\<not> isSpace CHR ''/''" "\<not> isSpace CHR '',''" by code_simp+
  have "list_all (\<lambda>c. \<not> isSpace c) (cidr e)" for e
    using cidr_chars [of e] isDigit_not_space mark by (fastforce simp: list_all_iff)
  then show "list_all (\<lambda>c. \<not> isSpace c) (joinWith '','' (map cidr es))"
    by (induction es rule: induct_list012) (simp_all add: mark)
qed

definition good_entry :: "nat \<times> nat \<Rightarrow> bool" where
  "good_entry e \<longleftrightarrow> fst e < 2 ^ 32 \<and> snd e \<le> 32"

lemma parse_joined_cidrs:
  assumes "list_all good_entry es"
  shows "parsePartnerIpAllowlist (Some (joinWith '','' (map cidr es))) =
    map (\<lambda>(x, n). Cidr4 (word_of_nat x AND prefix_mask (int n)) (prefix_mask (int n))) es"
proof (cases es)
  case Nil
  then show ?thesis by (simp add: parsePartnerIpAllowlist_def trim_def)
next
  case (Cons e rest)
  have sep: "CHR '','' \<notin> set (cidr e)" for e
    using cidr_chars [of e] marks_no_digit by auto
  have "split_on CHR '','' (joinWith '','' (map cidr es)) = map cidr es"
    by (rule split_joined) (metis imageE list.set_map sep, simp add: Cons)
  moreover have "joinWith '','' (map cidr es) \<noteq> []"
    unfolding Cons by (cases rest) (simp_all add: cidr_def)
  moreover have "List.map_filter parseAllowRule (map cidr es) =
      map (\<lambda>(x, n). Cidr4 (word_of_nat x AND prefix_mask (int n)) (prefix_mask (int n))) es"
    using assms by (induction es) (auto simp: parseAllowRule_cidr good_entry_def)
  ultimately show ?thesis by (simp add: parsePartnerIpAllowlist_def trim_joined_cidrs)
qed

text \<open>
  C25: An allow list of CIDR entries lets a client in exactly when the list is empty or the address of the
  client lies in one of the blocks: the bit masks of the code test equality of the leading bits, for every
  prefix length from 0 to 32.
\<close>

theorem allowlist_is_prefix_match:
  assumes "x < 2 ^ 32" "list_all good_entry es"
  shows "partnerClientIpAllowed (Some (dotted x)) (parsePartnerIpAllowlist (Some (joinWith '','' (map cidr es)))) \<longleftrightarrow>
    es = [] \<or> list_ex (\<lambda>(y, n). x div 2 ^ (32 - n) = y div 2 ^ (32 - n)) es"
proof -
  have "\<not> startsWith ''::ffff:'' (dotted x)"
    using dotted_no [of "CHR '':''" x] marks_no_digit by (cases "dotted x") (auto simp: startsWith_def)
  then have ip: "ipv4ToInt (normalizePartnerClientIp (Some (dotted x))) = Some (word_of_nat x)"
    using assms(1) by (simp add: normalizePartnerClientIp_def trim_dotted ipv4ToInt_dotted)
  have "list_ex (rule_hits (word_of_nat x)) (map (\<lambda>(y, n). Cidr4 (word_of_nat y AND prefix_mask (int n)) (prefix_mask (int n))) es) \<longleftrightarrow>
      list_ex (\<lambda>(y, n). x div 2 ^ (32 - n) = y div 2 ^ (32 - n)) es"
    using assms(2)
  proof (induction es)
    case (Cons e es)
    then show ?case
      using assms(1) same_prefix [of "snd e" "word_of_nat x" "word_of_nat (fst e)"]
      by (auto simp: good_entry_def unsigned_of_nat take_bit_nat_eq_self split: prod.splits)
  qed simp
  then show ?thesis using ip by (simp add: partnerClientIpAllowed_def parse_joined_cidrs [OF assms(2)])
qed

theorem allowlist_is_prefix_match_witness:
  "partnerClientIpAllowed (Some (dotted 3232235777)) (parsePartnerIpAllowlist (Some (joinWith '','' (map cidr [(167772160, 8), (3232235776, 24)]))))"
  by (subst allowlist_is_prefix_match) (simp_all add: good_entry_def)

end
