(* ===== verification/Partner_Access.thy ===== *)
theory Partner_Access
  imports Auth Ip_Allowlist Always
begin

text \<open>
  Who may call the partner interface: the keys a company hands out (\<open>partner/partner-api-key.service.ts\<close>
  behind \<open>company-partner-api-keys.controller.ts\<close>), the tokens a key can be exchanged for
  (\<open>partner-oauth.service.ts\<close>) and the guard in front of every partner route
  (\<open>partner-key.guard.ts\<close>, \<open>partner-mtls.ts\<close>, \<open>parse-partner-key.ts\<close>). Hashing and token
  verification are parameters; a signed token is its claims, the secret it is signed with and its lifetime.
\<close>

section \<open>Requests and libraries\<close>

datatype header =
    OneValue string
  | ManyValues "string list"

record partner_request =
  pq_ip :: "string option"
  pq_headers :: "string \<Rightarrow> header option"

record partner_claims =
  pc_sub :: "string option"
  pc_companyId :: "string option"
  pc_pur :: "string option"

record partner_lib =
  pl_hash :: "string \<Rightarrow> string \<Rightarrow> string"
  pl_compare :: "string \<Rightarrow> string \<Rightarrow> bool"
  pl_verify :: "string \<Rightarrow> time \<Rightarrow> string \<Rightarrow> partner_claims option"

record partner_session =
  ps_partnerApiKeyId :: string
  ps_companyId :: string

section \<open>Mutual TLS at the edge\<close>

definition env_or :: "env \<Rightarrow> string \<Rightarrow> string \<Rightarrow> string" where
  "env_or env nm dflt = (if trimmed_env env nm = [] then dflt else trimmed_env env nm)"

definition header_text :: "header option \<Rightarrow> string" where
  "header_text h = (case h of Some (OneValue s) \<Rightarrow> trim s | Some (ManyValues (s # _)) \<Rightarrow> trim s | _ \<Rightarrow> [])"

definition assertPartnerMtlsIfRequired :: "env \<Rightarrow> partner_request \<Rightarrow> unit result" where
  "assertPartnerMtlsIfRequired env req =
     (if \<not> flag_on env ''PARTNER_MTLS_REQUIRE'' then Inr ()
      else
        let headerName = toLowerCase (env_or env ''PARTNER_MTLS_VERIFIED_HEADER_NAME'' ''X-Client-Cert-Verified'');
            expected = env_or env ''PARTNER_MTLS_VERIFIED_HEADER_VALUE'' ''SUCCESS''
        in ensure (header_text (pq_headers req headerName) = expected)
             (Forbidden ''Partner API requires mutual TLS - client certificate was not verified at the edge''))"

section \<open>Keys and bearers\<close>

definition is_uuid :: "string \<Rightarrow> bool" where
  "is_uuid s \<longleftrightarrow> map length (split_on CHR ''-'' s) = [8, 4, 4, 4, 12] \<and> list_all (list_all isHex) (split_on CHR ''-'' s)"

definition parsePartnerKeyRaw :: "string \<Rightarrow> string option" where
  "parsePartnerKeyRaw raw =
     (let t = toLowerCase (trim raw); i = take 36 (drop 5 t); secret = drop 42 t
      in if startsWith ''crtp_'' t \<and> is_uuid i \<and> length t = 74 \<and> t ! 41 = CHR ''_'' \<and> list_all isHex secret
         then Some i else None)"

definition extractBearer :: "partner_request \<Rightarrow> string option" where
  "extractBearer req =
     (case pq_headers req ''authorization'' of
        Some (OneValue auth) \<Rightarrow>
          if startsWith ''Bearer '' auth then (let t = trim (drop 7 auth) in if t = [] then None else Some t) else None
      | _ \<Rightarrow> None)"

definition looksLikeJwt :: "string \<Rightarrow> bool" where
  "looksLikeJwt token \<longleftrightarrow>
     (let parts = split_on CHR ''.'' token in length parts = 3 \<and> list_all (\<lambda>p. p \<noteq> []) parts)"

definition assertIpv4Allowlist :: "string option \<Rightarrow> string option \<Rightarrow> string \<Rightarrow> unit result" where
  "assertIpv4Allowlist reqIp raw invalidConfigMessage =
     (let s = trim (or_else raw [])
      in if s = [] then Inr ()
         else
           let rules = parsePartnerIpAllowlist (Some s)
           in andThen (ensure (rules \<noteq> []) (Forbidden invalidConfigMessage)) (\<lambda>_.
              ensure (partnerClientIpAllowed reqIp rules) (Forbidden ''Partner API access denied for this IP address'')))"

definition assertIpLists :: "env \<Rightarrow> partner_request \<Rightarrow> partner_api_key \<Rightarrow> unit result" where
  "assertIpLists env req row =
     andThen (assertIpv4Allowlist (pq_ip req) (env ''PARTNER_API_ALLOWED_IP_CIDRS'')
       ''Partner API IP allowlist has no valid IPv4 entries'') (\<lambda>_.
     assertIpv4Allowlist (pq_ip req) (pk_allowedIpCidrs row)
       ''Partner API key IP allowlist has no valid IPv4 entries'')"

definition live_key :: "db \<Rightarrow> string \<Rightarrow> partner_api_key option" where
  "live_key d i = List.find (\<lambda>k. pk_id k = i \<and> pk_revokedAt k = None) (d_keys d)"

definition update_key :: "string \<Rightarrow> (partner_api_key \<Rightarrow> partner_api_key) \<Rightarrow> unit dbprog" where
  "update_key i f =
     andDo (asks (\<lambda>d. ensure (find_key d i \<noteq> None) (Prisma ''P2025''))) (modify (d_keys_update (update_row pk_id i f)))"

text \<open>The time of use is written in the background; \<open>noted\<close> says whether that write went through.\<close>

definition note_use :: "bool \<Rightarrow> time \<Rightarrow> string \<Rightarrow> unit dbprog" where
  "note_use noted now i =
     (if noted then modify (d_keys_update (update_row pk_id i (pk_lastUsedAt_update (\<lambda>_. Some now)))) else ret ())"

section \<open>Access tokens\<close>

definition oauthSigningSecret :: "env \<Rightarrow> string" where
  "oauthSigningSecret env =
     (if trimmed_env env ''PARTNER_OAUTH_JWT_SECRET'' \<noteq> [] then trimmed_env env ''PARTNER_OAUTH_JWT_SECRET''
      else or_else (env ''JWT_SECRET'') ''dev-insecure-jwt-secret-change-in-env'')"

definition accessTokenTtlSec :: "env \<Rightarrow> int" where
  "accessTokenTtlSec env =
     (let raw = or_else (env ''PARTNER_OAUTH_ACCESS_TOKEN_TTL_SEC'') []
      in case (if raw = [] then Some 3600 else parseInt10 raw) of
           None \<Rightarrow> 3600
         | Some n \<Rightarrow> min (24 * 3600) (max 300 n))"

definition partnerOAuthTokenRequestSchema :: "json \<Rightarrow> (string \<times> string) option" where
  "partnerOAuthTokenRequestSchema body =
     (case body of
        JObj fs \<Rightarrow>
          (case (map_of fs ''grant_type'', map_of fs ''client_id'', map_of fs ''client_secret'') of
             (Some (JStr g), Some (JStr i), Some (JStr secret)) \<Rightarrow>
               if list_all (\<lambda>f. fst f \<in> {''grant_type'', ''client_id'', ''client_secret''}) fs \<and>
                  g = ''client_credentials'' \<and> is_uuid i \<and> 8 \<le> length secret \<and> length secret \<le> 512
               then Some (i, secret) else None
           | _ \<Rightarrow> None)
      | _ \<Rightarrow> None)"

record signed_token =
  sg_claims :: partner_claims
  sg_secret :: string
  sg_expiresIn :: int

definition token_for :: "env \<Rightarrow> partner_api_key \<Rightarrow> signed_token" where
  "token_for env row =
     \<lparr>sg_claims = \<lparr>pc_sub = Some (pk_id row), pc_companyId = Some (pk_companyId row), pc_pur = Some ''partner_api''\<rparr>,
      sg_secret = oauthSigningSecret env, sg_expiresIn = accessTokenTtlSec env\<rparr>"

definition issueToken :: "partner_lib \<Rightarrow> ctx \<Rightarrow> bool \<Rightarrow> json \<Rightarrow> signed_token dbprog" where
  "issueToken lib ctx noted body =
     bnd (asks (\<lambda>_. orElse (partnerOAuthTokenRequestSchema body) (Unauthorized ''Invalid token request''))) (\<lambda>(clientId, clientSecret).
     bnd (asks (\<lambda>d. orElse (live_key d clientId) (Unauthorized ''Invalid client credentials''))) (\<lambda>row.
     andDo (asks (\<lambda>_. ensure (truthy (pk_oauthClientSecretHash row) \<and>
         pl_compare lib (trim clientSecret) (the (pk_oauthClientSecretHash row))) (Unauthorized ''Invalid client credentials'')))
     (andDo (note_use noted (c_now ctx) (pk_id row))
     (ret (token_for (c_env ctx) row)))))"

definition token_route :: "partner_lib \<Rightarrow> ctx \<Rightarrow> bool \<Rightarrow> partner_request \<Rightarrow> json \<Rightarrow> signed_token dbprog" where
  "token_route lib ctx noted req body =
     andDo (asks (\<lambda>_. assertPartnerMtlsIfRequired (c_env ctx) req)) (issueToken lib ctx noted body)"

definition verifyAccessToken :: "partner_lib \<Rightarrow> ctx \<Rightarrow> string \<Rightarrow> (string \<times> string) result" where
  "verifyAccessToken lib ctx token =
     (let bad = Unauthorized ''Invalid partner access token''
      in case pl_verify lib (oauthSigningSecret (c_env ctx)) (c_now ctx) token of
           None \<Rightarrow> Inl bad
         | Some p \<Rightarrow>
             (case (pc_sub p, pc_companyId p) of
                (Some i, Some companyId) \<Rightarrow> if pc_pur p = Some ''partner_api'' then Inr (i, companyId) else Inl bad
              | _ \<Rightarrow> Inl bad))"

section \<open>The guard\<close>

definition presented_key :: "partner_request \<Rightarrow> string option" where
  "presented_key req =
     (case pq_headers req ''x-partner-key'' of
        Some (OneValue s) \<Rightarrow> if trim s \<noteq> [] then Some (trim s) else None
      | _ \<Rightarrow> None)"

definition raw_key :: "partner_request \<Rightarrow> string option" where
  "raw_key req =
     (case presented_key req of
        Some s \<Rightarrow> Some s
      | None \<Rightarrow>
          (case extractBearer req of
             Some b \<Rightarrow> if startsWith ''crtp_'' (toLowerCase b) then Some b else None
           | None \<Rightarrow> None))"

definition token_key :: "partner_lib \<Rightarrow> ctx \<Rightarrow> string \<Rightarrow> db \<Rightarrow> partner_api_key result" where
  "token_key lib ctx bearer d =
     andThen (verifyAccessToken lib ctx bearer) (\<lambda>(sub, companyId).
     andThen (orElse (live_key d sub) (Unauthorized ''Invalid partner access token'')) (\<lambda>row.
     andThen (ensure (pk_companyId row = companyId) (Unauthorized ''Invalid partner access token'')) (\<lambda>_.
     Inr row)))"

definition secret_key :: "partner_lib \<Rightarrow> partner_request \<Rightarrow> db \<Rightarrow> partner_api_key result" where
  "secret_key lib req d =
     (let bad = Unauthorized ''Invalid partner API key''
      in andThen (orElse (raw_key req) (Unauthorized ''Partner API key or OAuth access token required'')) (\<lambda>raw.
         andThen (orElse (parsePartnerKeyRaw raw) bad) (\<lambda>i.
         andThen (orElse (live_key d i) bad) (\<lambda>row.
         andThen (ensure (pl_compare lib (trim raw) (pk_keyHash row)) bad) (\<lambda>_.
         Inr row)))))"

definition bearer_jwt :: "partner_request \<Rightarrow> string option" where
  "bearer_jwt req = (case extractBearer req of Some b \<Rightarrow> if looksLikeJwt b then Some b else None | None \<Rightarrow> None)"

definition canActivate :: "partner_lib \<Rightarrow> ctx \<Rightarrow> bool \<Rightarrow> partner_request \<Rightarrow> partner_session dbprog" where
  "canActivate lib ctx noted req =
     andDo (asks (\<lambda>_. assertPartnerMtlsIfRequired (c_env ctx) req))
     (bnd (asks (\<lambda>d. case bearer_jwt req of Some b \<Rightarrow> token_key lib ctx b d | None \<Rightarrow> secret_key lib req d)) (\<lambda>row.
      andDo (asks (\<lambda>_. assertIpLists (c_env ctx) req row))
      (andDo (note_use noted (c_now ctx) (pk_id row))
      (ret \<lparr>ps_partnerApiKeyId = pk_id row, ps_companyId = pk_companyId row\<rparr>))))"

section \<open>Administration of keys\<close>

definition keys_of :: "db \<Rightarrow> string \<Rightarrow> partner_api_key list" where
  "keys_of d companyId = filter (\<lambda>k. pk_companyId k = companyId) (d_keys d)"

definition find_company_key :: "db \<Rightarrow> string \<Rightarrow> string \<Rightarrow> partner_api_key result" where
  "find_company_key d companyId keyId =
     orElse (List.find (\<lambda>k. pk_id k = keyId \<and> pk_companyId k = companyId) (d_keys d)) (NotFound ''API key not found'')"

record key_view =
  kv_id :: string
  kv_name :: string
  kv_revokedAt :: "time option"
  kv_lastUsedAt :: "time option"
  kv_createdAt :: time
  kv_webhookUrl :: "string option"
  kv_allowedIpCidrs :: "string option"
  kv_webhookSecretConfigured :: bool
  kv_oauthClientConfigured :: bool
  kv_maskedKey :: string

definition configured :: "string option \<Rightarrow> bool" where
  "configured x \<longleftrightarrow> trim (or_else x []) \<noteq> []"

definition view_key :: "partner_api_key \<Rightarrow> key_view" where
  "view_key k =
     \<lparr>kv_id = pk_id k, kv_name = pk_name k, kv_revokedAt = pk_revokedAt k, kv_lastUsedAt = pk_lastUsedAt k,
      kv_createdAt = pk_createdAt k, kv_webhookUrl = pk_webhookUrl k, kv_allowedIpCidrs = pk_allowedIpCidrs k,
      kv_webhookSecretConfigured = configured (pk_webhookSigningSecret k),
      kv_oauthClientConfigured = configured (pk_oauthClientSecretHash k),
      kv_maskedKey = ''crtp_'' @ pk_id k @ ''_****''\<rparr>"

definition listForCompany :: "db \<Rightarrow> string \<Rightarrow> key_view list" where
  "listForCompany d companyId = map view_key (sort_key (\<lambda>k. - pk_createdAt k) (keys_of d companyId))"

definition plain_key :: "string \<Rightarrow> string \<Rightarrow> string" where
  "plain_key i secret = ''crtp_'' @ i @ ''_'' @ secret"

definition new_key ::
  "partner_lib \<Rightarrow> ctx \<Rightarrow> string \<Rightarrow> string \<Rightarrow> string \<Rightarrow> string \<Rightarrow> string \<Rightarrow> string option \<Rightarrow> partner_api_key" where
  "new_key lib ctx salt newId secret companyId nm createdBy =
     \<lparr>pk_id = newId, pk_companyId = companyId, pk_revokedAt = None, pk_webhookUrl = None, pk_webhookSigningSecret = None,
      pk_allowedIpCidrs = None, pk_name = trim nm, pk_keyHash = pl_hash lib salt (plain_key newId secret),
      pk_lastUsedAt = None, pk_createdByUserId = createdBy, pk_createdAt = c_now ctx, pk_oauthClientSecretHash = None\<rparr>"

definition insert_key :: "partner_api_key \<Rightarrow> unit dbprog" where
  "insert_key k =
     andDo (asks (\<lambda>d. ensure (find_key d (pk_id k) = None) (Prisma ''P2002''))) (modify (d_keys_update (\<lambda>ks. ks @ [k])))"

definition key_create ::
  "partner_lib \<Rightarrow> ctx \<Rightarrow> string \<Rightarrow> string \<Rightarrow> string \<Rightarrow> string \<Rightarrow> string \<Rightarrow> string option \<Rightarrow> (partner_api_key \<times> string) dbprog" where
  "key_create lib ctx salt newId secret companyId nm createdBy =
     (let row = new_key lib ctx salt newId secret companyId nm createdBy
      in andDo (insert_key row)
         (andDo (audit (bare_audit createdBy ''partner_api_key.create'' ''PartnerApiKey'' newId
            (JObj [(''companyId'', JStr companyId), (''name'', JStr (trim nm))])))
         (ret (row, plain_key newId secret))))"

definition revoked :: "time \<Rightarrow> partner_api_key \<Rightarrow> partner_api_key" where
  "revoked now k = k\<lparr>pk_revokedAt := Some now, pk_webhookUrl := None, pk_webhookSigningSecret := None,
     pk_allowedIpCidrs := None, pk_oauthClientSecretHash := None\<rparr>"

definition key_revoke :: "ctx \<Rightarrow> string \<Rightarrow> string \<Rightarrow> string \<Rightarrow> unit dbprog" where
  "key_revoke ctx companyId keyId userId =
     bnd (asks (\<lambda>d. find_company_key d companyId keyId)) (\<lambda>row.
     if pk_revokedAt row \<noteq> None then ret ()
     else
       andDo (update_key keyId (revoked (c_now ctx)))
       (audit (bare_audit (Some userId) ''partner_api_key.revoke'' ''PartnerApiKey'' keyId (JObj [(''companyId'', JStr companyId)]))))"

record patch_webhook_input =
  pw_webhookUrl :: "string option"
  pw_webhookSigningSecret :: "string option"

definition patchPartnerApiKeyWebhookSchema :: "patch_webhook_input \<Rightarrow> bool" where
  "patchPartnerApiKeyWebhookSchema inp \<longleftrightarrow>
     (case pw_webhookUrl inp of
        None \<Rightarrow> True
      | Some u \<Rightarrow> length u \<le> 2048 \<and> (u = [] \<or> startsWith ''https://'' (toLowerCase u) \<and> 8 < length u \<and> code (u ! 8) \<notin> {10, 13})) \<and>
     (case pw_webhookSigningSecret inp of
        None \<Rightarrow> True
      | Some t \<Rightarrow> t = [] \<or> 8 \<le> length t \<and> length t \<le> 512) \<and>
     (pw_webhookUrl inp \<noteq> None \<or> pw_webhookSigningSecret inp \<noteq> None)"

definition blank_to_none :: "string \<Rightarrow> string option" where
  "blank_to_none s = (if s = [] then None else Some s)"

definition set_webhook :: "patch_webhook_input \<Rightarrow> partner_api_key \<Rightarrow> partner_api_key" where
  "set_webhook inp k =
     k\<lparr>pk_webhookUrl := (case pw_webhookUrl inp of None \<Rightarrow> pk_webhookUrl k | Some u \<Rightarrow> blank_to_none u),
       pk_webhookSigningSecret :=
         (case pw_webhookSigningSecret inp of None \<Rightarrow> pk_webhookSigningSecret k | Some t \<Rightarrow> blank_to_none t)\<rparr>"

definition live_company_key :: "db \<Rightarrow> string \<Rightarrow> string \<Rightarrow> string \<Rightarrow> partner_api_key result" where
  "live_company_key d companyId keyId msg =
     andThen (find_company_key d companyId keyId) (\<lambda>row.
     andThen (ensure (pk_revokedAt row = None) (BadRequest msg)) (\<lambda>_. Inr row))"

definition updateWebhook :: "string \<Rightarrow> string \<Rightarrow> patch_webhook_input \<Rightarrow> string \<Rightarrow> (string option \<times> bool) dbprog" where
  "updateWebhook companyId keyId inp userId =
     andDo (asks (\<lambda>d. live_company_key d companyId keyId ''Cannot update webhook settings for a revoked key''))
     (andDo (update_key keyId (set_webhook inp))
     (andDo (audit (bare_audit (Some userId) ''partner_api_key.webhook'' ''PartnerApiKey'' keyId
        (JObj [(''companyId'', JStr companyId), (''clearedUrl'', JBool (pw_webhookUrl inp = Some [])),
          (''clearedSecret'', JBool (pw_webhookSigningSecret inp = Some [])), (''setUrl'', JBool (truthy (pw_webhookUrl inp))),
          (''setSecret'', JBool (truthy (pw_webhookSigningSecret inp)))])))
     (gets (\<lambda>d. case find_company_key d companyId keyId of
          Inl _ \<Rightarrow> (None, False)
        | Inr cur \<Rightarrow> (pk_webhookUrl cur, configured (pk_webhookSigningSecret cur))))))"

definition updateAllowedIpCidrs :: "string \<Rightarrow> string \<Rightarrow> string \<Rightarrow> string \<Rightarrow> (string \<times> string option) dbprog" where
  "updateAllowedIpCidrs companyId keyId allowed userId =
     andDo (asks (\<lambda>d. live_company_key d companyId keyId ''Cannot update IP allowlist for a revoked key''))
     (let new = blank_to_none (trim allowed)
      in andDo (update_key keyId (pk_allowedIpCidrs_update (\<lambda>_. new)))
         (andDo (audit (bare_audit (Some userId) ''partner_api_key.allowed_ip'' ''PartnerApiKey'' keyId
            (JObj [(''companyId'', JStr companyId), (''cleared'', JBool (new = None)), (''configured'', JBool (new \<noteq> None))])))
         (ret (keyId, new))))"

definition regenerateOauthClientSecret ::
  "partner_lib \<Rightarrow> string \<Rightarrow> string \<Rightarrow> string \<Rightarrow> string \<Rightarrow> string \<Rightarrow> (string \<times> string) dbprog" where
  "regenerateOauthClientSecret lib salt secret companyId keyId userId =
     andDo (asks (\<lambda>d. live_company_key d companyId keyId ''Cannot configure OAuth for a revoked key''))
     (andDo (update_key keyId (pk_oauthClientSecretHash_update (\<lambda>_. Some (pl_hash lib salt secret))))
     (andDo (audit (bare_audit (Some userId) ''partner_api_key.oauth_client'' ''PartnerApiKey'' keyId
        (JObj [(''companyId'', JStr companyId), (''regenerated'', JBool True)])))
     (ret (keyId, secret))))"

record delivery_view =
  dv_delivery :: webhook_delivery
  dv_partnerApiKeyName :: string
  dv_nextAttemptAt :: string
  dv_createdAt :: string

definition delivery_key :: "db \<Rightarrow> string \<Rightarrow> webhook_delivery \<Rightarrow> partner_api_key option" where
  "delivery_key d companyId w =
     (case find_key d (wd_partnerApiKeyId w) of
        Some k \<Rightarrow> if pk_companyId k = companyId then Some k else None
      | None \<Rightarrow> None)"

definition view_delivery :: "webhook_delivery \<Rightarrow> partner_api_key \<Rightarrow> delivery_view" where
  "view_delivery w k =
     \<lparr>dv_delivery = w, dv_partnerApiKeyName = pk_name k, dv_nextAttemptAt = toISOString (wd_nextAttemptAt w),
      dv_createdAt = toISOString (wd_createdAt w)\<rparr>"

definition company_deliveries :: "db \<Rightarrow> string \<Rightarrow> delivery_status option \<Rightarrow> webhook_delivery list" where
  "company_deliveries d companyId status =
     filter (\<lambda>w. delivery_key d companyId w \<noteq> None \<and> (status = None \<or> status = Some (wd_status w))) (d_deliveries d)"

definition listWebhookDeliveries ::
  "db \<Rightarrow> string \<Rightarrow> delivery_status option \<Rightarrow> nat \<Rightarrow> nat \<Rightarrow> nat \<times> delivery_view list" where
  "listWebhookDeliveries d companyId status limit offset =
     (let rows = company_deliveries d companyId status
      in (length rows,
          List.map_filter (\<lambda>w. map_option (view_delivery w) (delivery_key d companyId w))
            (take limit (drop offset (sort_key (\<lambda>w. - wd_createdAt w) rows)))))"

definition parse_delivery_status :: "string option \<Rightarrow> delivery_status option result" where
  "parse_delivery_status raw =
     (let s = toUpperCase (trim (or_else raw []))
      in if s = [] then Inr None
         else if s = ''PENDING'' then Inr (Some WH_PENDING)
         else if s = ''PROCESSING'' then Inr (Some WH_PROCESSING)
         else if s = ''SUCCEEDED'' then Inr (Some WH_SUCCEEDED)
         else if s = ''DEAD'' then Inr (Some WH_DEAD)
         else Inl (BadRequest ''Invalid status (use PENDING, PROCESSING, SUCCEEDED, or DEAD)''))"

definition page_number :: "string option \<Rightarrow> int \<Rightarrow> int" where
  "page_number raw dflt =
     (case parseInt10 (or_else raw (show_int dflt)) of None \<Rightarrow> dflt | Some n \<Rightarrow> if n = 0 then dflt else n)"

definition deliveries_route ::
  "db \<Rightarrow> env \<Rightarrow> jwt_user \<Rightarrow> string \<Rightarrow> string option \<Rightarrow> string option \<Rightarrow> string option \<Rightarrow> (nat \<times> delivery_view list) result" where
  "deliveries_route d env user companyId statusRaw limitRaw offsetRaw =
     andThen (assertSameCompany env user companyId ''Company not found'') (\<lambda>_.
     andThen (parse_delivery_status statusRaw) (\<lambda>status.
     Inr (listWebhookDeliveries d companyId status
       (nat (min 100 (max 1 (page_number limitRaw 30)))) (nat (max 0 (page_number offsetRaw 0))))))"

record integration_context =
  ic_partnerApiKeyId :: string
  ic_companyId :: string
  ic_name :: string
  ic_createdAt :: string
  ic_webhookDeliveryEnabled :: bool
  ic_apiVersion :: string

definition integrationContextForKey :: "db \<Rightarrow> string \<Rightarrow> integration_context result" where
  "integrationContextForKey d i =
     andThen (orElse (live_key d i) (NotFound ''Partner API key not found'')) (\<lambda>row.
     let url = trim (or_else (pk_webhookUrl row) []); secret = trim (or_else (pk_webhookSigningSecret row) [])
     in Inr \<lparr>ic_partnerApiKeyId = pk_id row, ic_companyId = pk_companyId row, ic_name = pk_name row,
          ic_createdAt = toISOString (pk_createdAt row),
          ic_webhookDeliveryEnabled = (url \<noteq> [] \<and> secret \<noteq> [] \<and> startsWith ''https://'' (toLowerCase url)),
          ic_apiVersion = ''1''\<rparr>)"

end
