(* ===== verification/Partner_Keys_Safety.thy ===== *)
theory Partner_Keys_Safety
  imports Partner_Access Row_Changes Fixtures
begin

text \<open>
  What the guard of the partner interface guarantees: who gets through, that a revoked key opens nothing
  ever after, that a key that was handed out opens the door, and that staff manage the keys of their own
  company only.
\<close>

section \<open>Requests\<close>

datatype partner_access_request =
    Guarded ctx bool partner_request
  | TokenWanted ctx bool partner_request json
  | CreateKey ctx jwt_user string string string string string
  | RevokeKey ctx jwt_user string string
  | PatchWebhook ctx jwt_user string string patch_webhook_input
  | PatchIpList ctx jwt_user string string string
  | RotateSecret ctx jwt_user string string string string

definition managed :: "ctx \<Rightarrow> jwt_user \<Rightarrow> string \<Rightarrow> unit dbprog \<Rightarrow> unit dbprog" where
  "managed ctx user companyId m =
     andDo (asks (\<lambda>_. ensure (rolesGuard (Some [ADMIN, BRANCH_MANAGER]) (Some user)) (Forbidden ''Forbidden resource'')))
     (andDo (asks (\<lambda>_. assertSameCompany (c_env ctx) user companyId ''Company not found'')) m)"

fun serve_access :: "partner_lib \<Rightarrow> partner_access_request \<Rightarrow> unit dbprog" where
  "serve_access lib (Guarded ctx noted req) = andDo (canActivate lib ctx noted req) (ret ())"
| "serve_access lib (TokenWanted ctx noted req body) = andDo (token_route lib ctx noted req body) (ret ())"
| "serve_access lib (CreateKey ctx user salt newId secret companyId nm) =
     managed ctx user companyId (andDo (key_create lib ctx salt newId secret companyId nm (Some (u_sub user))) (ret ()))"
| "serve_access lib (RevokeKey ctx user companyId keyId) =
     managed ctx user companyId (key_revoke ctx companyId keyId (u_sub user))"
| "serve_access lib (PatchWebhook ctx user companyId keyId inp) =
     managed ctx user companyId
       (andDo (asks (\<lambda>_. ensure (patchPartnerApiKeyWebhookSchema inp) (BadRequest ''Validation failed'')))
       (andDo (updateWebhook companyId keyId inp (u_sub user)) (ret ())))"
| "serve_access lib (PatchIpList ctx user companyId keyId allowed) =
     managed ctx user companyId
       (andDo (asks (\<lambda>_. ensure (length allowed \<le> 8000) (BadRequest ''Validation failed'')))
       (andDo (updateAllowedIpCidrs companyId keyId allowed (u_sub user)) (ret ())))"
| "serve_access lib (RotateSecret ctx user salt secret companyId keyId) =
     managed ctx user companyId (andDo (regenerateOauthClientSecret lib salt secret companyId keyId (u_sub user)) (ret ()))"

section \<open>Keys that are revoked\<close>

definition retired :: "string \<Rightarrow> db \<Rightarrow> bool" where
  "retired i d \<longleftrightarrow> list_all (\<lambda>k. pk_id k = i \<longrightarrow> pk_revokedAt k \<noteq> None) (d_keys d) \<and> find_key d i \<noteq> None"

lemma retired_live: "retired i d \<Longrightarrow> live_key d i = None"
  by (auto simp: retired_def live_key_def list_all_iff find_None_iff)

lemma live_key_Some: "live_key d i = Some k \<Longrightarrow> k \<in> set (d_keys d) \<and> pk_id k = i \<and> pk_revokedAt k = None"
  by (auto simp: live_key_def find_Some_iff)

lemma find_key_Some: "find_key d i = Some k \<Longrightarrow> k \<in> set (d_keys d) \<and> pk_id k = i"
  using partner_keys.find_Some [of i d k] by (simp add: find_key_def)

text \<open>Writes to the row of a key that leave its name and its end alone.\<close>

definition keeps_end :: "(partner_api_key \<Rightarrow> partner_api_key) \<Rightarrow> bool" where
  "keeps_end f \<longleftrightarrow> (\<forall>k. pk_id (f k) = pk_id k \<and> pk_companyId (f k) = pk_companyId k \<and>
     (pk_revokedAt k \<noteq> None \<longrightarrow> pk_revokedAt (f k) \<noteq> None))"

lemma keeps_end_writes:
  "keeps_end (pk_lastUsedAt_update (\<lambda>_. Some now))" "keeps_end (revoked now)" "keeps_end (set_webhook inp)"
  "keeps_end (pk_allowedIpCidrs_update (\<lambda>_. x))" "keeps_end (pk_oauthClientSecretHash_update (\<lambda>_. y))"
  by (simp_all add: keeps_end_def revoked_def set_webhook_def)

lemma retired_update: "keeps_end f \<Longrightarrow> retired i d \<Longrightarrow> retired i (d_keys_update (update_row pk_id j f) d)"
  by (auto simp: retired_def keeps_end_def list_all_iff find_key_def update_row_def find_row_def find_None_iff)

lemma retired_frame:
  "retired i (d_audit_update g d) = retired i d"
  by (simp add: retired_def find_key_def)

lemma always_retired_simps:
  "keeps_end f \<Longrightarrow> always (retired i) (update_key j f)"
  "always (retired i) (note_use noted now j)"
  "always (retired i) (audit a)"
  "always (retired i) (insert_key k)"
  subgoal unfolding update_key_def by (intro always_intros always_modify) (simp add: retired_update)
  subgoal unfolding note_use_def by (intro always_intros always_modify) (simp add: retired_update keeps_end_writes)
  subgoal unfolding audit_def by (intro always_intros always_modify) (simp add: retired_frame)
  subgoal
    by (auto simp: always_def keeps_def insert_key_def wp retired_def find_key_def find_row_def find_None_iff)
  done

lemma always_retired: "always (retired i) (serve_access lib r)"
proof -
  have m: "always (retired i) m \<Longrightarrow> always (retired i) (managed ctx user c m)" for ctx user c m
    unfolding managed_def by (intro always_intros)
  show ?thesis
    by (cases r; simp only: serve_access.simps canActivate_def token_route_def issueToken_def key_create_def key_revoke_def
         updateWebhook_def updateAllowedIpCidrs_def regenerateOauthClientSecret_def Let_def;
        intro m always_intros always_split always_retired_simps keeps_end_writes)
qed

lemma wpre_update_key [wp]:
  "wpre (update_key i f) Q E d =
     ((find_key d i = None \<longrightarrow> E (Prisma ''P2025'') d) \<and>
      (find_key d i \<noteq> None \<longrightarrow> Q () (d_keys_update (update_row pk_id i f) d)))"
  by (auto simp: update_key_def wp)

lemma revoke_retires:
  assumes "keyed pk_id (d_keys d)" "key_revoke ctx companyId i userId d = (Inr (), d')"
  shows "retired i d'"
proof -
  have one: "k = k'" if "k \<in> set (d_keys d)" "k' \<in> set (d_keys d)" "pk_id k = pk_id k'" for k k'
    using that assms(1) by (auto simp: keyed_def distinct_map inj_on_def)
  have "wpre (key_revoke ctx companyId i userId) (\<lambda>_. retired i) (\<lambda>_ _. True) d"
    unfolding key_revoke_def
    by (auto simp: wp find_company_key_def find_Some_iff retired_def list_all_iff update_row_def revoked_def find_key_def
        find_row_def find_None_iff dest!: nth_mem dest: one)
  then show ?thesis using assms(2) by (rule wpre_success)
qed

lemma find_Inr_bearer: "(case x of Some b \<Rightarrow> f b | None \<Rightarrow> r) = Inr row \<longleftrightarrow> (\<exists>b. x = Some b \<and> f b = Inr row) \<or> x = None \<and> r = Inr row"
  by (cases x) auto

lemma token_key_Inr: "token_key lib ctx b d = Inr row \<longleftrightarrow>
    (\<exists>sub companyId. verifyAccessToken lib ctx b = Inr (sub, companyId) \<and> live_key d sub = Some row \<and> pk_companyId row = companyId)"
  by (auto simp: token_key_def andThen_Inr split: prod.splits)

lemma secret_key_Inr: "secret_key lib req d = Inr row \<longleftrightarrow>
    (\<exists>raw i. raw_key req = Some raw \<and> parsePartnerKeyRaw raw = Some i \<and> live_key d i = Some row \<and>
       pl_compare lib (trim raw) (pk_keyHash row))"
  by (auto simp: secret_key_def andThen_Inr Let_def)

lemma canActivate_Inr:
  assumes "canActivate lib ctx noted req d = (Inr s, d')"
  obtains row where "assertPartnerMtlsIfRequired (c_env ctx) req = Inr ()" "assertIpLists (c_env ctx) req row = Inr ()"
    "s = \<lparr>ps_partnerApiKeyId = pk_id row, ps_companyId = pk_companyId row\<rparr>" "row \<in> set (d_keys d)" "pk_revokedAt row = None"
    "live_key d (pk_id row) = Some row"
    "(\<exists>b. bearer_jwt req = Some b \<and> verifyAccessToken lib ctx b = Inr (pk_id row, pk_companyId row)) \<or>
     (\<exists>raw. bearer_jwt req = None \<and> raw_key req = Some raw \<and> parsePartnerKeyRaw raw = Some (pk_id row) \<and>
        pl_compare lib (trim raw) (pk_keyHash row))"
proof -
  have "wpre (canActivate lib ctx noted req) (\<lambda>s _. \<exists>row. assertPartnerMtlsIfRequired (c_env ctx) req = Inr () \<and>
      assertIpLists (c_env ctx) req row = Inr () \<and>
      s = \<lparr>ps_partnerApiKeyId = pk_id row, ps_companyId = pk_companyId row\<rparr> \<and>
      (case bearer_jwt req of Some b \<Rightarrow> token_key lib ctx b d | None \<Rightarrow> secret_key lib req d) = Inr row) (\<lambda>_ _. True) d"
    by (auto simp: canActivate_def note_use_def wp)
  from wpre_success [OF this assms] obtain row where row: "assertPartnerMtlsIfRequired (c_env ctx) req = Inr ()"
      "assertIpLists (c_env ctx) req row = Inr ()" "s = \<lparr>ps_partnerApiKeyId = pk_id row, ps_companyId = pk_companyId row\<rparr>"
      and found: "(case bearer_jwt req of Some b \<Rightarrow> token_key lib ctx b d | None \<Rightarrow> secret_key lib req d) = Inr row"
    by auto
  have "live_key d (pk_id row) = Some row" "row \<in> set (d_keys d)" "pk_revokedAt row = None"
    using found live_key_Some by (auto simp: find_Inr_bearer token_key_Inr secret_key_Inr)
  moreover have "(\<exists>b. bearer_jwt req = Some b \<and> verifyAccessToken lib ctx b = Inr (pk_id row, pk_companyId row)) \<or>
     (\<exists>raw. bearer_jwt req = None \<and> raw_key req = Some raw \<and> parsePartnerKeyRaw raw = Some (pk_id row) \<and>
        pl_compare lib (trim raw) (pk_keyHash row))"
    using found live_key_Some by (fastforce simp: find_Inr_bearer token_key_Inr secret_key_Inr)
  ultimately show thesis using row that by blast
qed

lemma token_names_live_key:
  assumes "issueToken lib ctx noted body d = (Inr t, d')"
  shows "\<exists>row. t = token_for (c_env ctx) row \<and> live_key d (pk_id row) = Some row"
proof -
  have "wpre (issueToken lib ctx noted body) (\<lambda>t _. \<exists>row. t = token_for (c_env ctx) row \<and> live_key d (pk_id row) = Some row)
      (\<lambda>_ _. True) d"
    using live_key_Some by (fastforce simp: issueToken_def note_use_def wp split: prod.splits)
  then show ?thesis using assms by (rule wpre_success)
qed

text \<open>
  C24: A revoked key opens nothing ever after: whatever partner requests and key requests of staff follow a
  revocation, no request is let in as that key, whether it shows the key or an access token that was issued
  before, and no token is issued for it.
\<close>

theorem revoked_key_opens_nothing:
  assumes "keyed pk_id (d_keys d)" "key_revoke ctx companyId i userId d = (Inr (), d')"
    and "d'' = run_all (serve_access lib) rs d'"
  shows "fst (canActivate lib ctx' noted req d'') \<noteq> Inr \<lparr>ps_partnerApiKeyId = i, ps_companyId = c\<rparr> \<and>
    (case fst (issueToken lib ctx' noted body d'') of Inl _ \<Rightarrow> True | Inr t \<Rightarrow> pc_sub (sg_claims t) \<noteq> Some i)"
proof -
  have none: "live_key d'' i = None"
    using always_run_all [of "retired i" "serve_access lib", OF always_retired revoke_retires [OF assms(1,2)]]
    by (simp add: assms(3) retired_live)
  have "fst (canActivate lib ctx' noted req d'') \<noteq> Inr \<lparr>ps_partnerApiKeyId = i, ps_companyId = c\<rparr>"
    using none by (cases "canActivate lib ctx' noted req d''") (auto elim!: canActivate_Inr)
  moreover have "pc_sub (sg_claims t) \<noteq> Some i" if issued: "fst (issueToken lib ctx' noted body d'') = Inr t" for t
  proof -
    obtain d3 where "issueToken lib ctx' noted body d'' = (Inr t, d3)"
      using issued by (cases "issueToken lib ctx' noted body d''") simp
    then show ?thesis using token_names_live_key none by (force simp: token_for_def)
  qed
  ultimately show ?thesis by (simp split: sum.split)
qed

lemma ip_list_Inr: "assertIpv4Allowlist ip raw msg = Inr () \<longleftrightarrow>
    trim (or_else raw []) = [] \<or>
    (\<exists>a. ipv4ToInt (normalizePartnerClientIp ip) = Some a \<and> list_ex (rule_hits a) (parsePartnerIpAllowlist raw))"
proof -
  have "parsePartnerIpAllowlist (Some (trim (or_else raw []))) = parsePartnerIpAllowlist raw"
    by (cases raw) (simp_all add: parsePartnerIpAllowlist_def or_else_def)
  then show ?thesis
    by (auto simp: assertIpv4Allowlist_def Let_def andThen_Inr partnerClientIpAllowed_def split: option.splits)
qed

text \<open>
  C23: The guard lets a request in only as a key that is not revoked: the edge vouched for the client where
  that is demanded, the request shows the key itself or a token for this key and its company, and wherever a
  list of addresses is set, for the platform or for the key, the address of the client is an IPv4 address
  that one of the entries of each list covers; a list without a readable entry lets nobody in.
\<close>

theorem guard_lets_in_only:
  assumes "canActivate lib ctx noted req d = (Inr s, d')"
  shows "\<exists>k. k \<in> set (d_keys d) \<and> s = \<lparr>ps_partnerApiKeyId = pk_id k, ps_companyId = pk_companyId k\<rparr> \<and> pk_revokedAt k = None \<and>
    assertPartnerMtlsIfRequired (c_env ctx) req = Inr () \<and>
    ((\<exists>raw. raw_key req = Some raw \<and> parsePartnerKeyRaw raw = Some (pk_id k) \<and> pl_compare lib (trim raw) (pk_keyHash k)) \<or>
     (\<exists>token. extractBearer req = Some token \<and> verifyAccessToken lib ctx token = Inr (pk_id k, pk_companyId k))) \<and>
    list_all (\<lambda>raw. trim (or_else raw []) = [] \<or> (\<exists>a. ipv4ToInt (normalizePartnerClientIp (pq_ip req)) = Some a \<and>
        list_ex (rule_hits a) (parsePartnerIpAllowlist raw)))
      [c_env ctx ''PARTNER_API_ALLOWED_IP_CIDRS'', pk_allowedIpCidrs k]"
  using assms
proof (rule canActivate_Inr)
  fix row
  assume "assertIpLists (c_env ctx) req row = Inr ()"
  then have "list_all (\<lambda>raw. trim (or_else raw []) = [] \<or> (\<exists>a. ipv4ToInt (normalizePartnerClientIp (pq_ip req)) = Some a \<and>
        list_ex (rule_hits a) (parsePartnerIpAllowlist raw)))
      [c_env ctx ''PARTNER_API_ALLOWED_IP_CIDRS'', pk_allowedIpCidrs row]"
    by (simp add: assertIpLists_def andThen_Inr ip_list_Inr)
  moreover assume "(\<exists>b. bearer_jwt req = Some b \<and> verifyAccessToken lib ctx b = Inr (pk_id row, pk_companyId row)) \<or>
     (\<exists>raw. bearer_jwt req = None \<and> raw_key req = Some raw \<and> parsePartnerKeyRaw raw = Some (pk_id row) \<and>
        pl_compare lib (trim raw) (pk_keyHash row))"
  then have "(\<exists>raw. raw_key req = Some raw \<and> parsePartnerKeyRaw raw = Some (pk_id row) \<and> pl_compare lib (trim raw) (pk_keyHash row)) \<or>
     (\<exists>token. extractBearer req = Some token \<and> verifyAccessToken lib ctx token = Inr (pk_id row, pk_companyId row))"
    by (auto simp: bearer_jwt_def split: option.splits if_splits)
  moreover assume "assertPartnerMtlsIfRequired (c_env ctx) req = Inr ()" "row \<in> set (d_keys d)" "pk_revokedAt row = None"
    "s = \<lparr>ps_partnerApiKeyId = pk_id row, ps_companyId = pk_companyId row\<rparr>"
  ultimately show ?thesis by blast
qed

section \<open>Keys that were handed out\<close>

lemma split_on_length: "length s = sum_list (map length (split_on c s)) + (length (split_on c s) - 1) \<and> split_on c s \<noteq> []"
  by (induction s) (auto split: list.split)

lemma split_on_chars: "x \<in> set s \<Longrightarrow> x = c \<or> (\<exists>p\<in>set (split_on c s). x \<in> set p)"
  by (induction s) (auto split: list.split)

lemma uuid_shape:
  assumes "is_uuid i"
  shows "length i = 36" "list_all (\<lambda>c. c = CHR ''-'' \<or> isHex c) i"
proof -
  have parts: "map length (split_on CHR ''-'' i) = [8, 4, 4, 4, 12]" "list_all (list_all isHex) (split_on CHR ''-'' i)"
    using assms by (simp_all add: is_uuid_def)
  have "length (split_on CHR ''-'' i) = 5" using arg_cong [OF parts(1), of length] by simp
  then show "length i = 36" using split_on_length [of i "CHR ''-''"] parts(1) by simp
  show "list_all (\<lambda>c. c = CHR ''-'' \<or> isHex c) i"
    using parts(2) split_on_chars [of _ i "CHR ''-''"] by (fastforce simp: list_all_iff)
qed

lemma isHex_char: "isHex c \<Longrightarrow> isHex (lowerChar c) \<and> \<not> isSpace c"
proof -
  have digit: "isDigit c \<Longrightarrow> lowerChar c = c" by (simp add: isDigit_def lowerChar_def)
  have blank: "isSpace c \<Longrightarrow> lowerChar c = c" by (auto simp: isSpace_def lowerChar_def)
  have letters: "list_all (\<lambda>x. \<not> isSpace x) ''abcdef''" by code_simp
  assume "isHex c"
  then consider "isDigit c" | "lowerChar c \<in> set ''abcdef''" unfolding isHex_def by blast
  then show ?thesis
  proof cases
    case 1
    then show ?thesis using digit isDigit_not_space by (simp add: isHex_def)
  next
    case 2
    then have "\<not> isSpace (lowerChar c)" using letters unfolding list_all_iff by blast
    then show ?thesis using 2 blank unfolding isHex_def lowerChar_idem by metis
  qed
qed

definition key_request :: "string option \<Rightarrow> string \<Rightarrow> partner_request" where
  "key_request ip key = \<lparr>pq_ip = ip, pq_headers = (\<lambda>h. if h = ''x-partner-key'' then Some (OneValue key) else None)\<rparr>"

lemma trim_plain_key:
  assumes "is_uuid i" "list_all isHex secret"
  shows "trim (plain_key i secret) = plain_key i secret"
proof (rule trim_no_space)
  have "\<not> isSpace CHR ''-''" "list_all (\<lambda>c. \<not> isSpace c) ''crtp_''" "\<not> isSpace CHR ''_''" by code_simp+
  then show "list_all (\<lambda>c. \<not> isSpace c) (plain_key i secret)"
    using uuid_shape [OF assms(1)] assms(2) isHex_char by (fastforce simp: plain_key_def list_all_iff)
qed

lemma parse_key_parts:
  assumes "toLowerCase (trim raw) = ''crtp_'' @ i @ ''_'' @ s" "is_uuid i" "length s = 32" "list_all isHex s"
  shows "parsePartnerKeyRaw raw = Some i"
  using uuid_shape(1) [OF assms(2)] assms(2-4)
  by (simp add: parsePartnerKeyRaw_def assms(1) Let_def startsWith_def nth_append)

lemma parse_plain_key:
  assumes "is_uuid i" "toLowerCase i = i" "length secret = 32" "list_all isHex secret"
  shows "parsePartnerKeyRaw (plain_key i secret) = Some i"
proof (rule parse_key_parts)
  have "toLowerCase ''crtp_'' = ''crtp_''" "toLowerCase ''_'' = ''_''" by code_simp+
  then show "toLowerCase (trim (plain_key i secret)) = ''crtp_'' @ i @ ''_'' @ toLowerCase secret"
    using assms(2) trim_plain_key [OF assms(1,4)] by (simp add: plain_key_def toLowerCase_def)
qed (use assms isHex_char in \<open>auto simp: toLowerCase_def list_all_iff\<close>)

lemma key_request_raw:
  assumes "is_uuid i" "list_all isHex secret"
  shows "bearer_jwt (key_request ip (plain_key i secret)) = None" "raw_key (key_request ip (plain_key i secret)) = Some (plain_key i secret)"
proof -
  have "plain_key i secret \<noteq> []" by (simp add: plain_key_def)
  then show "raw_key (key_request ip (plain_key i secret)) = Some (plain_key i secret)"
    using trim_plain_key [OF assms] by (simp add: raw_key_def presented_key_def key_request_def)
qed (simp add: bearer_jwt_def extractBearer_def key_request_def)

text \<open>
  A key that was handed out opens the interface: with a hash that accepts the text it was made from,
  the key answered to its creator is read back as the identity of its row and lets its holder in as that
  company, from any address the platform allows.
\<close>

theorem created_key_opens:
  assumes "key_create lib ctx salt newId secret companyId nm creator d = (Inr (row, key), d')"
    and "is_uuid newId" "toLowerCase newId = newId" "length secret = 32" "list_all isHex secret"
    and "\<And>p. pl_compare lib p (pl_hash lib salt p)"
    and "\<not> flag_on (c_env ctx') ''PARTNER_MTLS_REQUIRE''"
    and "assertIpv4Allowlist ip (c_env ctx' ''PARTNER_API_ALLOWED_IP_CIDRS'') ''Partner API IP allowlist has no valid IPv4 entries'' = Inr ()"
  shows "fst (canActivate lib ctx' noted (key_request ip key) d') = Inr \<lparr>ps_partnerApiKeyId = newId, ps_companyId = companyId\<rparr>"
proof -
  let ?row = "new_key lib ctx salt newId secret companyId nm creator"
  have "wpre (key_create lib ctx salt newId secret companyId nm creator)
      (\<lambda>(row, key) d'. key = plain_key newId secret \<and> find_key d newId = None \<and> d_keys d' = d_keys d @ [?row]) (\<lambda>_ _. True) d"
    by (simp add: key_create_def insert_key_def wp new_key_def Let_def)
  from wpre_success [OF this assms(1)] have key: "key = plain_key newId secret"
    and absent: "find_key d newId = None" and rows: "d_keys d' = d_keys d @ [?row]" by auto
  have "live_key d' newId = Some ?row"
    using absent by (simp add: live_key_def rows find_key_def find_row_def)
      (auto simp: new_key_def find_None_iff find_Some_iff intro!: exI [of _ "length (d_keys d)"] simp: nth_append)
  then have "secret_key lib (key_request ip key) d' = Inr ?row"
    using assms(6) key_request_raw [OF assms(2,5)] parse_plain_key [OF assms(2-5)] trim_plain_key [OF assms(2,5)]
    by (auto simp: secret_key_Inr key new_key_def)
  moreover have "assertIpLists (c_env ctx') (key_request ip key) ?row = Inr ()"
    using assms(8) by (simp add: assertIpLists_def key_request_def new_key_def assertIpv4Allowlist_def or_else_def trim_def)
  ultimately show ?thesis
    using assms(7) key_request_raw [OF assms(2,5)]
    by (simp add: canActivate_def assertPartnerMtlsIfRequired_def key note_use_def andDo_def bnd_def)
      (simp add: new_key_def)
qed

text \<open>
  The last two digits of the secret of a key are not checked: the hash function reads 72 bytes, and a
  key has 74, so the guard answers a key with any other last two digits in the same way, whatever the state.
\<close>

theorem last_digits_of_key_ignored:
  assumes "\<And>p h. pl_compare lib p h = pl_compare lib (take 72 p) h"
    and "is_uuid i" "toLowerCase i = i" "length front = 30" "list_all isHex (front @ [a, b, a', b'])"
    and "\<not> flag_on (c_env ctx) ''PARTNER_MTLS_REQUIRE''"
  shows "canActivate lib ctx noted (key_request ip (plain_key i (front @ [a, b]))) d =
    canActivate lib ctx noted (key_request ip (plain_key i (front @ [a', b']))) d"
proof -
  have hex: "list_all isHex (front @ [a, b])" "list_all isHex (front @ [a', b'])" using assms(5) by auto
  have "take 72 (plain_key i (front @ [x, y])) = plain_key i front" for x y
    using uuid_shape(1) [OF assms(2)] assms(4) by (simp add: plain_key_def)
  then have "pl_compare lib (plain_key i (front @ [a, b])) h = pl_compare lib (plain_key i (front @ [a', b'])) h" for h
    using assms(1) by metis
  then have same: "secret_key lib (key_request ip (plain_key i (front @ [a, b]))) =
      secret_key lib (key_request ip (plain_key i (front @ [a', b'])))"
    using assms(4) parse_plain_key [OF assms(2,3) _ hex(1)] parse_plain_key [OF assms(2,3) _ hex(2)]
    by (intro ext) (simp add: secret_key_def key_request_raw [OF assms(2) hex(1)] key_request_raw [OF assms(2) hex(2)]
        trim_plain_key [OF assms(2) hex(1)] trim_plain_key [OF assms(2) hex(2)] Let_def)
  have ips: "assertIpLists env (key_request ip x) row = assertIpLists env (key_request ip y) row" for env x y row
    by (simp add: assertIpLists_def key_request_def)
  show ?thesis
    using assms(6)
    by (simp add: canActivate_def key_request_raw(1) [OF assms(2) hex(1)] key_request_raw(1) [OF assms(2) hex(2)]
        assertPartnerMtlsIfRequired_def same ips [of _ "plain_key i (front @ [a, b])" _ "plain_key i (front @ [a', b'])"])
qed

section \<open>Keys of other companies\<close>

fun manager_of :: "partner_access_request \<Rightarrow> (env \<times> jwt_user) option" where
  "manager_of (Guarded ctx noted req) = None"
| "manager_of (TokenWanted ctx noted req body) = None"
| "manager_of (CreateKey ctx user salt newId secret companyId nm) = Some (c_env ctx, user)"
| "manager_of (RevokeKey ctx user companyId keyId) = Some (c_env ctx, user)"
| "manager_of (PatchWebhook ctx user companyId keyId inp) = Some (c_env ctx, user)"
| "manager_of (PatchIpList ctx user companyId keyId allowed) = Some (c_env ctx, user)"
| "manager_of (RotateSecret ctx user salt secret companyId keyId) = Some (c_env ctx, user)"

definition same_keys :: "string \<Rightarrow> db \<Rightarrow> db \<Rightarrow> bool" where
  "same_keys c d d' \<longleftrightarrow> keys_of d' c = keys_of d c"

lemma same_keys_frame:
  "same_keys c d (d_audit_update g d') = same_keys c d d'" "same_keys c d d"
  by (simp_all add: same_keys_def keys_of_def)

lemma same_keys_update:
  assumes "keyed pk_id (d_keys d)" "find_company_key d company i = Inr row" "company \<noteq> c"
    and "keeps_end f"
  shows "same_keys c d (d_keys_update (update_row pk_id i f) d)"
proof -
  have row: "row \<in> set (d_keys d)" "pk_id row = i" "pk_companyId row = company"
    using assms(2) by (auto simp: find_company_key_def find_Some_iff)
  have "filter (\<lambda>k. pk_companyId k = c) (update_row pk_id (pk_id row) f (d_keys d)) = filter (\<lambda>k. pk_companyId k = c) (d_keys d)"
    using assms(3,4) row(3) by (intro filter_update_other [OF assms(1) row(1)]) (simp_all add: keeps_end_def)
  then show ?thesis by (simp add: same_keys_def keys_of_def row(2))
qed

lemma live_company_key_Inr: "live_company_key d c i m = Inr row \<longleftrightarrow> find_company_key d c i = Inr row \<and> pk_revokedAt row = None"
  by (auto simp: live_company_key_def andThen_Inr)

text \<open>
  Staff manage the keys of the companies they may see and of no other: a request to create, revoke,
  configure or rotate a key, whatever company and key it names, leaves every key of a company the user may
  not see as it is.
\<close>

theorem keys_managed_in_company:
  assumes "keyed pk_id (d_keys d)" "manager_of r = Some (env, user)" "\<not> may_see_company env user c"
  shows "keys_of (snd (serve_access lib r d)) c = keys_of d c"
proof -
  have "keeps (same_keys c d) (serve_access lib r) d"
    using assms(2,3)
    by (cases r)
      (auto simp: keeps_def managed_def key_create_def key_revoke_def updateWebhook_def updateAllowedIpCidrs_def
        regenerateOauthClientSecret_def insert_key_def wp same_keys_frame live_company_key_Inr Let_def
        intro!: same_keys_update [OF assms(1)] keeps_end_writes,
       auto simp: same_keys_def keys_of_def new_key_def)
  then show ?thesis by (simp add: keeps_run same_keys_def)
qed

section \<open>Concrete runs\<close>

definition demo_partner :: partner_lib where
  "demo_partner = \<lparr>pl_hash = (\<lambda>salt p. take 72 p), pl_compare = (\<lambda>p h. take 72 p = take 72 h),
     pl_verify = (\<lambda>secret t token. None)\<rparr>"

definition demo_key_id :: string where
  "demo_key_id = ''0f8fad5b-d9cb-469f-a165-70867728950e''"

definition demo_front :: string where
  "demo_front = ''00112233445566778899aabbccddee''"

definition demo_key_made :: "(partner_api_key \<times> string) result \<times> db" where
  "demo_key_made = key_create demo_partner demo_ctx ''s'' demo_key_id (demo_front @ ''ff'') ''acme'' '' Portal '' None demo_db"

definition demo_key_gone :: "unit result \<times> db" where
  "demo_key_gone = key_revoke demo_ctx ''acme'' demo_key_id ''boss'' (snd demo_key_made)"

lemma demo_uuid: "is_uuid demo_key_id" "toLowerCase demo_key_id = demo_key_id" "length demo_front = 30"
  "list_all isHex (demo_front @ ''ff00'')"
  by code_simp+

theorem created_key_opens_witness:
  "fst (canActivate demo_partner demo_ctx True (key_request None (snd (projr (fst demo_key_made)))) (snd demo_key_made)) =
   Inr \<lparr>ps_partnerApiKeyId = demo_key_id, ps_companyId = ''acme''\<rparr>"
proof -
  have "isInr (fst demo_key_made)" by code_simp
  then obtain row key where run: "demo_key_made = (Inr (row, key), snd demo_key_made)"
    by (metis isInr_pair prod.collapse)
  then have run': "key_create demo_partner demo_ctx ''s'' demo_key_id (demo_front @ ''ff'') ''acme'' '' Portal '' None demo_db =
      (Inr (row, key), snd demo_key_made)" by (simp only: demo_key_made_def)
  have "length (demo_front @ ''ff'') = 32" "list_all isHex (demo_front @ ''ff'')" by code_simp+
  moreover have "\<not> flag_on (c_env demo_ctx) ''PARTNER_MTLS_REQUIRE''"
    "assertIpv4Allowlist None (c_env demo_ctx ''PARTNER_API_ALLOWED_IP_CIDRS'') ''Partner API IP allowlist has no valid IPv4 entries'' = Inr ()"
    by code_simp+
  ultimately have "fst (canActivate demo_partner demo_ctx True (key_request None key) (snd demo_key_made)) =
      Inr \<lparr>ps_partnerApiKeyId = demo_key_id, ps_companyId = ''acme''\<rparr>"
    using created_key_opens [OF run' demo_uuid(1,2)] by (simp add: demo_partner_def)
  then show ?thesis using run by (metis fst_conv snd_conv sum.sel(2))
qed

theorem last_digits_of_key_ignored_witness:
  "canActivate demo_partner demo_ctx True (key_request None (plain_key demo_key_id (demo_front @ ''ff''))) (snd demo_key_made) =
   canActivate demo_partner demo_ctx True (key_request None (plain_key demo_key_id (demo_front @ ''00''))) (snd demo_key_made)"
proof (rule last_digits_of_key_ignored [OF _ demo_uuid(1,2,3)])
  show "list_all isHex (demo_front @ ''ff00'')" by (rule demo_uuid(4))
  show "\<not> flag_on (c_env demo_ctx) ''PARTNER_MTLS_REQUIRE''" by code_simp
qed (simp add: demo_partner_def)

theorem guard_lets_in_only_witness:
  "\<exists>k. k \<in> set (d_keys (snd demo_key_made)) \<and> pk_companyId k = ''acme'' \<and> pk_revokedAt k = None"
proof -
  define run where "run = canActivate demo_partner demo_ctx True (key_request None (plain_key demo_key_id (demo_front @ ''ff''))) (snd demo_key_made)"
  have "fst run = Inr \<lparr>ps_partnerApiKeyId = demo_key_id, ps_companyId = ''acme''\<rparr>"
    unfolding run_def by code_simp
  then have "run = (Inr \<lparr>ps_partnerApiKeyId = demo_key_id, ps_companyId = ''acme''\<rparr>, snd run)" by (metis prod.collapse)
  from guard_lets_in_only [OF this [unfolded run_def]] show ?thesis by auto
qed

theorem revoked_key_opens_nothing_witness:
  "fst (canActivate demo_partner demo_ctx True (key_request None (plain_key demo_key_id (demo_front @ ''ff'')))
     (run_all (serve_access demo_partner)
        [PatchIpList demo_ctx demo_manager ''acme'' demo_key_id ''10.0.0.0/8'', RevokeKey demo_ctx demo_manager ''acme'' demo_key_id]
        (snd demo_key_gone))) \<noteq> Inr \<lparr>ps_partnerApiKeyId = demo_key_id, ps_companyId = ''acme''\<rparr>"
proof -
  have "fst demo_key_gone = Inr ()" by code_simp
  then have run: "demo_key_gone = (Inr (), snd demo_key_gone)" by (metis prod.collapse)
  then have run': "key_revoke demo_ctx ''acme'' demo_key_id ''boss'' (snd demo_key_made) = (Inr (), snd demo_key_gone)"
    by (simp only: demo_key_gone_def)
  have "distinct (map pk_id (d_keys (snd demo_key_made)))" by code_simp
  then have "keyed pk_id (d_keys (snd demo_key_made))" by (simp add: keyed_def)
  from revoked_key_opens_nothing [OF this run' refl] show ?thesis by blast
qed

theorem keys_managed_in_company_witness:
  "keys_of (snd (serve_access demo_partner (RevokeKey demo_ctx (demo_manager\<lparr>u_companyId := ''rival''\<rparr>) ''acme'' demo_key_id)
     (snd demo_key_made))) ''acme'' = keys_of (snd demo_key_made) ''acme''"
proof (rule keys_managed_in_company [where env = "c_env demo_ctx" and user = "demo_manager\<lparr>u_companyId := ''rival''\<rparr>"])
  have "distinct (map pk_id (d_keys (snd demo_key_made)))" by code_simp
  then show "keyed pk_id (d_keys (snd demo_key_made))" by (simp add: keyed_def)
qed (simp_all add: may_see_company_def isAdminCrossCompany_def demo_manager_def)

end
