(* ===== verification/Einvoicing.thy ===== *)
theory Einvoicing
  imports Invoices Sms Always
begin

text \<open>
  Handing invoices over to the exchange system (\<open>integrations/sdi/sdi.service.ts\<close>): the hand-over of an
  issued document by the adapter of its company, the answer of the middleware and its later callback. The
  request to the middleware leaves between two writes, so a hand-over is two programs, \<open>sdi_begin\<close> up
  to the request and \<open>sdi_respond\<close> from its answer on, and callbacks may arrive between them. The parser of
  JSON texts is a parameter.
\<close>

section \<open>The request to the middleware\<close>

record http_post =
  hp_url :: string
  hp_headers :: "(string \<times> string) list"
  hp_body :: string

datatype http_answer =
    FetchFailed string
  | Responded int string

definition buyer_json :: "db \<Rightarrow> invoice \<Rightarrow> json" where
  "buyer_json d iv =
     (case Option.bind (in_reservationId iv) (find_reservation d) of
        None \<Rightarrow> JNull
      | Some r \<Rightarrow>
          let c = Option.bind (r_customerId r) (find_customer d)
          in JObj [(''displayName'', JStr (case c of Some x \<Rightarrow> cu_name x | None \<Rightarrow> r_customerName r)),
               (''email'', ostr (map_option cu_email c)),
               (''fiscalCode'', ostr (Option.bind c cu_fiscalCode)), (''vatNumber'', ostr (Option.bind c cu_vatNumber)),
               (''sdiRecipientCode'', ostr (Option.bind c cu_sdiRecipientCode)), (''pec'', ostr (Option.bind c cu_pec))])"

definition supplier_json :: "company \<Rightarrow> json" where
  "supplier_json co =
     JObj [(''name'', JStr (co_name co)), (''fiscalCode'', ostr (co_fiscalCode co)), (''vatNumber'', ostr (co_vatNumber co)),
       (''sdiRecipientCode'', ostr (co_sdiRecipientCode co)), (''pec'', ostr (co_pec co))]"

definition buildSdiMiddlewareBody :: "db \<Rightarrow> company \<Rightarrow> string \<Rightarrow> invoice \<Rightarrow> string option \<Rightarrow> json" where
  "buildSdiMiddlewareBody d co submissionId iv callbackUrl =
     JObj [(''submissionId'', JStr submissionId), (''companyId'', JStr (in_companyId iv)), (''invoiceId'', JStr (in_id iv)),
       (''documentNumber'', ostr (in_documentNumber iv)), (''description'', ostr (in_description iv)),
       (''issuedAt'', ostr (map_option toISOString (in_issuedAt iv))), (''subtotalCents'', JNum (in_subtotalCents iv)),
       (''vatRateBps'', JNum (in_vatRateBps iv)), (''vatCents'', JNum (in_vatCents iv)),
       (''totalCents'', JNum (in_totalCents iv)), (''currency'', JStr (in_currency iv)), (''kind'', JStr (kind_name (in_kind iv))),
       (''supplier'', supplier_json co), (''buyer'', buyer_json d iv), (''callbackUrl'', ostr callbackUrl)]"

definition trimmed_or_none :: "env \<Rightarrow> string \<Rightarrow> string option" where
  "trimmed_or_none env nm = (if trimmed_env env nm = [] then None else Some (trimmed_env env nm))"

definition middleware_post :: "db \<Rightarrow> env \<Rightarrow> company \<Rightarrow> string \<Rightarrow> invoice \<Rightarrow> string \<Rightarrow> http_post" where
  "middleware_post d env co submissionId iv url =
     \<lparr>hp_url = url,
      hp_headers = [(''Content-Type'', ''application/json''), (''X-Car-Rental-Integration'', ''sdi'')] @
        (case trimmed_or_none env ''SDI_HTTP_SECRET'' of None \<Rightarrow> [] | Some k \<Rightarrow> [(''Authorization'', ''Bearer '' @ k)]),
      hp_body = stringify (buildSdiMiddlewareBody d co submissionId iv (trimmed_or_none env ''SDI_CALLBACK_URL''))\<rparr>"

section \<open>Rows of submissions\<close>

fun sdi_status_name :: "sdi_status \<Rightarrow> string" where
  "sdi_status_name SD_PENDING = ''PENDING''"
| "sdi_status_name SD_PROCESSING = ''PROCESSING''"
| "sdi_status_name SD_MOCK_SENT = ''MOCK_SENT''"
| "sdi_status_name SD_SKIPPED = ''SKIPPED''"
| "sdi_status_name SD_FAILED = ''FAILED''"
| "sdi_status_name SD_SENT = ''SENT''"

definition find_sdi :: "db \<Rightarrow> string \<Rightarrow> sdi_submission option" where
  "find_sdi d i = find_row sd_id i (d_sdi d)"

definition createSubmission :: "time \<Rightarrow> string \<Rightarrow> invoice \<Rightarrow> sdi_status \<Rightarrow> string option \<Rightarrow> sdi_submission dbprog" where
  "createSubmission now newId iv status err =
     (let s = \<lparr>sd_id = newId, sd_companyId = in_companyId iv, sd_invoiceId = in_id iv, sd_status = status,
        sd_idTracciatura = None, sd_errorMessage = err, sd_attemptCount = 0,
        sd_processedAt = (if status = SD_SKIPPED then Some now else None), sd_createdAt = now\<rparr>
      in andDo (asks (\<lambda>d. ensure (find_sdi d newId = None) (Prisma ''P2002'')))
         (andDo (modify (d_sdi_update (\<lambda>xs. xs @ [s]))) (ret s)))"

text \<open>The column of the identifier of the exchange holds 120 characters; a longer one is refused.\<close>

definition update_sdi :: "string \<Rightarrow> (sdi_submission \<Rightarrow> sdi_submission) \<Rightarrow> sdi_submission dbprog" where
  "update_sdi i f =
     bnd (asks (\<lambda>d. orElse (find_sdi d i) (Prisma ''P2025''))) (\<lambda>s.
     andDo (asks (\<lambda>_. ensure (length (or_else (sd_idTracciatura (f s)) []) \<le> 120) (Prisma ''P2000'')))
     (andDo (modify (d_sdi_update (update_row sd_id i f))) (ret (f s))))"

definition submission_json :: "sdi_submission \<Rightarrow> (string \<times> json) list \<Rightarrow> json" where
  "submission_json s extra =
     JObj ([(''companyId'', JStr (sd_companyId s)), (''invoiceId'', JStr (sd_invoiceId s)),
       (''status'', JStr (sdi_status_name (sd_status s)))] @ extra)"

definition finishSubmission :: "sdi_submission \<Rightarrow> string \<Rightarrow> (string \<times> json) list \<Rightarrow> sdi_submission dbprog" where
  "finishSubmission s userId extra =
     andDo (if sd_status s \<in> {SD_MOCK_SENT, SD_SENT, SD_SKIPPED}
        then audit (bare_audit (Some userId) ''sdi.submission'' ''SdiInvoiceSubmission'' (sd_id s) (submission_json s extra))
        else ret ())
     (asks (\<lambda>d. orElse (find_sdi d (sd_id s)) (Prisma ''P2025'')))"

section \<open>Handing over\<close>

datatype sdi_outcome =
    Finished sdi_submission
  | Posting sdi_submission http_post

definition handed_over :: "sdi_status \<Rightarrow> bool" where
  "handed_over st \<longleftrightarrow> st \<in> {SD_MOCK_SENT, SD_SENT, SD_PROCESSING}"

definition check_handover_of :: "db \<Rightarrow> env \<Rightarrow> jwt_user \<Rightarrow> string \<Rightarrow> (invoice \<times> company) result" where
  "check_handover_of d env user invoiceId =
     (let msg = ''Invoice not found: '' @ invoiceId
      in andThen (orElse (find_invoice d invoiceId) (NotFound msg)) (\<lambda>iv.
         andThen (assertSameCompany env user (in_companyId iv) msg) (\<lambda>_.
         andThen (ensure (in_status iv = INV_ISSUED)
           (BadRequest ''SDI submission requires an ISSUED document (not draft or void)'')) (\<lambda>_.
         andThen (ensure (\<not> list_ex (\<lambda>s. sd_invoiceId s = in_id iv \<and> handed_over (sd_status s)) (d_sdi d))
           (Conflict ''An SDI handoff is already in progress or completed for this invoice'')) (\<lambda>_.
         andThen (orElse (find_company d (in_companyId iv)) (Prisma ''P2003'')) (\<lambda>co. Inr (iv, co)))))))"

definition mock_id :: "string \<Rightarrow> string" where
  "mock_id i = ''MOCK-'' @ toUpperCase (take 8 i)"

text \<open>
  A hand-over is a lookup, then the insert of the submission, then its first change: each is a statement of its
  own, and nothing holds them together.
\<close>

definition sdi_create :: "ctx \<Rightarrow> string \<Rightarrow> invoice \<times> company \<Rightarrow> sdi_submission dbprog" where
  "sdi_create ctx newId p =
     (case co_sdiAdapter (snd p) of
        SDI_OFF \<Rightarrow> createSubmission (c_now ctx) newId (fst p) SD_SKIPPED (Some ''Company: SDI adapter OFF (E4)'')
      | SDI_MOCK \<Rightarrow> createSubmission (c_now ctx) newId (fst p) SD_PENDING None
      | SDI_HTTP \<Rightarrow>
          andDo (asks (\<lambda>_. ensure (trim (or_else (co_sdiHttpUrl (snd p)) []) \<noteq> [])
            (BadRequest ''Set company sdiHttpUrl (Organization - SDI), or use MOCK / OFF adapter'')))
          (createSubmission (c_now ctx) newId (fst p) SD_PENDING None))"

definition sdi_mark :: "ctx \<Rightarrow> jwt_user \<Rightarrow> invoice \<times> company \<Rightarrow> sdi_submission \<Rightarrow> sdi_outcome dbprog" where
  "sdi_mark ctx user p sub =
     (case co_sdiAdapter (snd p) of
        SDI_OFF \<Rightarrow> bnd (finishSubmission sub (u_sub user) []) (\<lambda>row. ret (Finished row))
      | SDI_MOCK \<Rightarrow>
          bnd (update_sdi (sd_id sub) (\<lambda>x. x\<lparr>sd_status := SD_MOCK_SENT, sd_idTracciatura := Some (mock_id (sd_id sub)),
                 sd_processedAt := Some (c_now ctx), sd_attemptCount := 1\<rparr>)) (\<lambda>s.
          bnd (finishSubmission s (u_sub user) [(''idTracciatura'', JStr (mock_id (sd_id sub)))]) (\<lambda>row. ret (Finished row)))
      | SDI_HTTP \<Rightarrow>
          bnd (update_sdi (sd_id sub) (\<lambda>x. x\<lparr>sd_status := SD_PROCESSING, sd_attemptCount := sd_attemptCount x + 1\<rparr>)) (\<lambda>s.
          gets (\<lambda>d. Posting s (middleware_post d (c_env ctx) (snd p) (sd_id sub) (fst p) (trim (or_else (co_sdiHttpUrl (snd p)) []))))))"

definition sdi_begin :: "ctx \<Rightarrow> jwt_user \<Rightarrow> string \<Rightarrow> string \<Rightarrow> sdi_outcome dbprog" where
  "sdi_begin ctx user newId invoiceId =
     bnd (asks (\<lambda>d. check_handover_of d (c_env ctx) user invoiceId)) (\<lambda>p.
     bnd (sdi_create ctx newId p) (sdi_mark ctx user p))"

definition id_of_answer :: "(string \<Rightarrow> json option) \<Rightarrow> string \<Rightarrow> string option" where
  "id_of_answer parse body =
     (if trim body = [] then None
      else case parse body of
             Some (JObj fs) \<Rightarrow>
               (case map_of fs ''idTracciatura'' of
                  Some (JStr v) \<Rightarrow> if trim v = [] then None else Some (trim v)
                | _ \<Rightarrow> None)
           | _ \<Rightarrow> None)"

definition failed_sdi :: "time \<Rightarrow> string \<Rightarrow> sdi_submission \<Rightarrow> sdi_submission" where
  "failed_sdi now msg x = x\<lparr>sd_status := SD_FAILED, sd_errorMessage := Some msg, sd_processedAt := Some now\<rparr>"

definition sdi_respond :: "(string \<Rightarrow> json option) \<Rightarrow> time \<Rightarrow> string \<Rightarrow> sdi_submission \<Rightarrow> http_answer \<Rightarrow> sdi_submission dbprog" where
  "sdi_respond parse now userId sub answer =
     (case answer of
        FetchFailed msg \<Rightarrow>
          bnd (update_sdi (sd_id sub) (failed_sdi now (take 2000 msg))) (\<lambda>row.
          andDo (audit (bare_audit (Some userId) ''sdi.submission'' ''SdiInvoiceSubmission'' (sd_id sub)
            (JObj [(''companyId'', JStr (sd_companyId sub)), (''invoiceId'', JStr (sd_invoiceId sub)),
              (''status'', JStr ''FAILED''), (''error'', JStr (take 200 msg))])))
          (ret row))
      | Responded st body \<Rightarrow>
          if st < 200 \<or> 300 \<le> st then
            update_sdi (sd_id sub) (failed_sdi now (''HTTP '' @ show_int st @ '' '' @ take 1500 body))
          else if st = 202 then
            bnd (update_sdi (sd_id sub) (\<lambda>x. x\<lparr>sd_idTracciatura := id_of_answer parse body, sd_errorMessage := None\<rparr>)) (\<lambda>row.
            andDo (audit (bare_audit None ''sdi.submission_async_accepted'' ''SdiInvoiceSubmission'' (sd_id sub)
              (JObj [(''companyId'', JStr (sd_companyId sub)), (''invoiceId'', JStr (sd_invoiceId sub)),
                (''status'', JStr ''PROCESSING''), (''idTracciatura'', ostr (id_of_answer parse body))])))
            (ret row))
          else
            bnd (update_sdi (sd_id sub) (\<lambda>x. x\<lparr>sd_status := SD_SENT, sd_idTracciatura := id_of_answer parse body,
               sd_errorMessage := None, sd_processedAt := Some now\<rparr>)) (\<lambda>s.
            finishSubmission s userId [(''idTracciatura'', case id_of_answer parse body of None \<Rightarrow> JUndefined | Some v \<Rightarrow> JStr v)]))"

text \<open>The whole request, when nothing happens while the middleware answers.\<close>

definition sdi_enqueue ::
  "(string \<Rightarrow> json option) \<Rightarrow> (http_post \<Rightarrow> http_answer) \<Rightarrow> ctx \<Rightarrow> jwt_user \<Rightarrow> string \<Rightarrow> string \<Rightarrow> sdi_submission dbprog" where
  "sdi_enqueue parse http ctx user newId invoiceId =
     bnd (sdi_begin ctx user newId invoiceId) (\<lambda>outcome.
     case outcome of
       Finished row \<Rightarrow> ret row
     | Posting s post \<Rightarrow> sdi_respond parse (c_now ctx) (u_sub user) s (http post))"

section \<open>The callback\<close>

record sdi_callback =
  cb_submissionId :: string
  cb_sent :: bool
  cb_idTracciatura :: "string option"
  cb_errorMessage :: "string option"

definition sdiCallbackBodySchema :: "sdi_callback \<Rightarrow> bool" where
  "sdiCallbackBodySchema inp \<longleftrightarrow>
     length (or_else (cb_idTracciatura inp) []) \<le> 120 \<and> length (or_else (cb_errorMessage inp) []) \<le> 2000"

definition trimmed_or :: "string option \<Rightarrow> 'a \<Rightarrow> (string \<Rightarrow> 'a) \<Rightarrow> 'a" where
  "trimmed_or x dflt f = (if trim (or_else x []) = [] then dflt else f (trim (or_else x [])))"

definition callback_write :: "time \<Rightarrow> sdi_callback \<Rightarrow> sdi_submission \<Rightarrow> sdi_submission dbprog" where
  "callback_write now inp row =
     (if sd_status row = SD_SENT \<and> cb_sent inp then
        (if trim (or_else (cb_idTracciatura inp) []) \<noteq> [] \<and> \<not> truthy (sd_idTracciatura row)
         then update_sdi (sd_id row) (\<lambda>x. x\<lparr>sd_idTracciatura := Some (trim (or_else (cb_idTracciatura inp) []))\<rparr>)
         else ret row)
      else if sd_status row = SD_FAILED \<and> \<not> cb_sent inp then ret row
      else if sd_status row \<notin> {SD_PROCESSING, SD_PENDING} then
        throw (Conflict (''Submission '' @ sd_id row @ '' is '' @ sdi_status_name (sd_status row) @
          ''; callbacks only while PENDING or PROCESSING''))
      else if cb_sent inp then
        update_sdi (sd_id row) (\<lambda>x. x\<lparr>sd_status := SD_SENT,
          sd_idTracciatura := trimmed_or (cb_idTracciatura inp) (sd_idTracciatura row) Some,
          sd_errorMessage := None, sd_processedAt := Some now\<rparr>)
      else
        update_sdi (sd_id row) (failed_sdi now (take 2000 (trimmed_or (cb_errorMessage inp) ''Middleware reported SDI failure'' id))))"

definition callback_allowed :: "env \<Rightarrow> string option \<Rightarrow> unit result" where
  "callback_allowed env authorization =
     andThen (orElse (trimmed_or_none env ''SDI_CALLBACK_SECRET'') (ServiceUnavailable ''SDI_CALLBACK_SECRET is not configured'')) (\<lambda>k.
     ensure (trim (or_else authorization []) = ''Bearer '' @ k) (Unauthorized ''Invalid callback authorization''))"

definition handleMiddlewareCallback :: "ctx \<Rightarrow> string option \<Rightarrow> sdi_callback \<Rightarrow> (string \<times> sdi_status) dbprog" where
  "handleMiddlewareCallback ctx authorization inp =
     andDo (asks (\<lambda>_. callback_allowed (c_env ctx) authorization))
     (andDo (asks (\<lambda>_. ensure (sdiCallbackBodySchema inp) (BadRequest ''Validation failed'')))
     (bnd (transaction
        (bnd (asks (\<lambda>d. orElse (find_sdi d (cb_submissionId inp)) (NotFound (''SDI submission not found: '' @ cb_submissionId inp))))
           (callback_write (c_now ctx) inp))) (\<lambda>row.
      andDo (audit \<lparr>al_userId = None, al_action = ''sdi.callback'', al_entity = ''SdiInvoiceSubmission'', al_entityId = Some (sd_id row),
        al_metadata = submission_json row [(''idTracciatura'', ostr (sd_idTracciatura row))], al_ip = c_ip ctx, al_userAgent = None\<rparr>)
      (ret (sd_id row, sd_status row)))))"

section \<open>Listing\<close>

definition sdi_listSubmissions ::
  "db \<Rightarrow> env \<Rightarrow> jwt_user \<Rightarrow> string option \<Rightarrow> string option \<Rightarrow> sdi_submission list result" where
  "sdi_listSubmissions d env user companyId invoiceId =
     andThen (if \<not> truthy invoiceId then Inr ()
        else
          let msg = ''Invoice not found: '' @ the invoiceId
          in andThen (orElse (find_invoice d (the invoiceId)) (NotFound msg)) (\<lambda>iv.
             assertSameCompany env user (in_companyId iv) msg)) (\<lambda>_.
     andThen (ensure (\<not> (isAdminCrossCompany env user \<and> \<not> truthy companyId \<and> \<not> truthy invoiceId))
       (BadRequest ''Provide companyId and/or invoiceId for SDI submission list'')) (\<lambda>_.
     andThen (effectiveListCompanyFilter env user companyId) (\<lambda>company.
     Inr (take 200 (sort_key (\<lambda>s. - sd_createdAt s) (filter (\<lambda>s.
       (company = None \<or> company = Some (sd_companyId s)) \<and> (truthy invoiceId \<longrightarrow> invoiceId = Some (sd_invoiceId s))) (d_sdi d)))))))"

end
