(* ===== verification/Einvoicing_Safety.thy ===== *)
theory Einvoicing_Safety
  imports Einvoicing Row_Changes Fixtures
begin

text \<open>
  Whether an invoice can be handed over twice: the hand-overs, the answers of the middleware and its
  callbacks as a step relation on the submissions and the requests that are under way.
\<close>

section \<open>The step relation\<close>

text \<open>
  A state of the run has the requests that have looked up their invoice, those that have inserted their
  submission, and the submissions whose request waits for the answer of the middleware. A callback may come at
  any time. In a \<open>calm\<close> run nobody asks for an invoice while another request for it stands between its
  lookup and its first change, and the middleware calls back about a submission only after it has answered
  the request that handed it over.
\<close>

record sdi_run =
  sr_db :: db
  sr_checked :: "(invoice \<times> company) list"
  sr_created :: "((invoice \<times> company) \<times> sdi_submission) list"
  sr_waiting :: "sdi_submission list"

definition idle_run :: "db \<Rightarrow> sdi_run" where
  "idle_run d = \<lparr>sr_db = d, sr_checked = [], sr_created = [], sr_waiting = []\<rparr>"

definition jobs :: "sdi_run \<Rightarrow> string list" where
  "jobs r = map (\<lambda>p. in_id (fst p)) (sr_checked r) @ map (\<lambda>j. in_id (fst (fst j))) (sr_created r)"

fun waits :: "sdi_outcome result \<Rightarrow> sdi_submission list" where
  "waits (Inr (Posting s post)) = [s]"
| "waits other = []"

text \<open>Whatever else happens to the database leaves the submissions alone.\<close>

inductive sdi_step :: "bool \<Rightarrow> (string \<Rightarrow> json option) \<Rightarrow> sdi_run \<Rightarrow> sdi_run \<Rightarrow> bool" for calm parse where
  checks: "check_handover_of (sr_db r) env user invoiceId = Inr p \<Longrightarrow> calm \<longrightarrow> in_id (fst p) \<notin> set (jobs r) \<Longrightarrow>
    sdi_step calm parse r (r\<lparr>sr_checked := p # sr_checked r\<rparr>)"
| creates: "p \<in> set (sr_checked r) \<Longrightarrow> sdi_create ctx newId p (sr_db r) = (Inr sub, d') \<Longrightarrow>
    sdi_step calm parse r (r\<lparr>sr_db := d', sr_checked := remove1 p (sr_checked r), sr_created := (p, sub) # sr_created r\<rparr>)"
| refused: "p \<in> set (sr_checked r) \<Longrightarrow> sdi_create ctx newId p (sr_db r) = (Inl e, d') \<Longrightarrow>
    sdi_step calm parse r (r\<lparr>sr_db := d', sr_checked := remove1 p (sr_checked r)\<rparr>)"
| marks: "j \<in> set (sr_created r) \<Longrightarrow> sdi_mark ctx user (fst j) (snd j) (sr_db r) = (outcome, d') \<Longrightarrow>
    sdi_step calm parse r (r\<lparr>sr_db := d', sr_created := remove1 j (sr_created r), sr_waiting := waits outcome @ sr_waiting r\<rparr>)"
| responds: "s \<in> set (sr_waiting r) \<Longrightarrow> sdi_respond parse now userId s answer (sr_db r) = (outcome, d') \<Longrightarrow>
    sdi_step calm parse r (r\<lparr>sr_db := d', sr_waiting := remove1 s (sr_waiting r)\<rparr>)"
| calls_back: "handleMiddlewareCallback ctx authorization inp (sr_db r) = (outcome, d') \<Longrightarrow>
    calm \<longrightarrow> cb_submissionId inp \<notin> set (map sd_id (sr_waiting r) @ map (\<lambda>j. sd_id (snd j)) (sr_created r)) \<Longrightarrow>
    sdi_step calm parse r (r\<lparr>sr_db := d'\<rparr>)"
| elsewhere: "d_sdi d' = d_sdi (sr_db r) \<Longrightarrow> sdi_step calm parse r (r\<lparr>sr_db := d'\<rparr>)"

section \<open>Writes\<close>

lemma wpre_update_sdi [wp]:
  "wpre (update_sdi i f) Q E d =
     ((find_sdi d i = None \<longrightarrow> E (Prisma ''P2025'') d) \<and>
      (\<forall>s. find_sdi d i = Some s \<longrightarrow>
         (120 < length (or_else (sd_idTracciatura (f s)) []) \<longrightarrow> E (Prisma ''P2000'') d) \<and>
         (length (or_else (sd_idTracciatura (f s)) []) \<le> 120 \<longrightarrow> Q (f s) (d_sdi_update (update_row sd_id i f) d))))"
  by (auto simp: update_sdi_def wp)

lemma find_sdi_Some: "find_sdi d i = Some s \<Longrightarrow> s \<in> set (d_sdi d) \<and> sd_id s = i"
  using sdi.find_Some [of i d s] by (simp add: find_sdi_def)

lemma find_sdi_None: "find_sdi d i = None \<longleftrightarrow> i \<notin> sd_id ` set (d_sdi d)"
  by (auto simp: find_sdi_def find_row_def find_None_iff)

definition same_invoice :: "(sdi_submission \<Rightarrow> sdi_submission) \<Rightarrow> bool" where
  "same_invoice f \<longleftrightarrow> (\<forall>x. sd_id (f x) = sd_id x \<and> sd_invoiceId (f x) = sd_invoiceId x)"

lemma wpre_finish [wp]:
  "wpre (finishSubmission s u extra) Q E d =
     (let d' = (if sd_status s \<in> {SD_MOCK_SENT, SD_SENT, SD_SKIPPED}
        then d_audit_update (\<lambda>as. as @ [bare_audit (Some u) ''sdi.submission'' ''SdiInvoiceSubmission'' (sd_id s) (submission_json s extra)]) d
        else d)
      in (find_sdi d' (sd_id s) = None \<longrightarrow> E (Prisma ''P2025'') d') \<and> (\<forall>r. find_sdi d' (sd_id s) = Some r \<longrightarrow> Q r d'))"
  by (auto simp: finishSubmission_def wp Let_def)

lemma find_sdi_audit [simp]: "find_sdi (d_audit_update g d) = find_sdi d"
  by (simp add: fun_eq_iff find_sdi_def)

lemma wpre_create [wp]:
  "wpre (createSubmission now newId iv st err) Q E d =
     (let s = \<lparr>sd_id = newId, sd_companyId = in_companyId iv, sd_invoiceId = in_id iv, sd_status = st,
        sd_idTracciatura = None, sd_errorMessage = err, sd_attemptCount = 0,
        sd_processedAt = (if st = SD_SKIPPED then Some now else None), sd_createdAt = now\<rparr>
      in (find_sdi d newId \<noteq> None \<longrightarrow> E (Prisma ''P2002'') d) \<and>
         (find_sdi d newId = None \<longrightarrow> Q s (d_sdi_update (\<lambda>xs. xs @ [s]) d)))"
  by (auto simp: createSubmission_def wp Let_def)

lemma find_sdi_new: "find_sdi d i = None \<Longrightarrow> find_sdi (d_sdi_update (\<lambda>xs. xs @ [s]) d) i = (if sd_id s = i then Some s else None)"
proof -
  have "List.find P xs = None \<Longrightarrow> List.find P (xs @ [s]) = (if P s then Some s else None)" for P xs
    by (induction xs) (auto split: if_splits)
  then show "find_sdi d i = None \<Longrightarrow> ?thesis" by (simp add: find_sdi_def find_row_def)
qed

lemma find_sdi_update:
  "(\<And>x. sd_id (f x) = sd_id x) \<Longrightarrow> find_sdi (d_sdi_update (update_row sd_id i f) d) i = map_option f (find_sdi d i)"
  by (simp add: find_sdi_def tables)

lemma update_new_row: "i \<notin> sd_id ` set rows \<Longrightarrow> sd_id s = i \<Longrightarrow> update_row sd_id i f (rows @ [s]) = rows @ [f s]"
  by (auto simp: update_row_def intro!: map_idI) (metis imageI)

lemma mock_id_short: "\<not> 120 < length (mock_id i)"
  by (simp add: mock_id_def toUpperCase_def)

text \<open>
  What each program does to the table: the insert adds one row that is not handed over, the mark changes that row
  and no other, an answer or a callback rewrites at most the row it is about.
\<close>

definition new_status :: "company \<Rightarrow> sdi_status" where
  "new_status co = (if co_sdiAdapter co = SDI_OFF then SD_SKIPPED else SD_PENDING)"

definition unsent_for :: "invoice \<times> company \<Rightarrow> sdi_submission \<Rightarrow> bool" where
  "unsent_for p s \<longleftrightarrow> sd_invoiceId s = in_id (fst p) \<and> sd_idTracciatura s = None \<and> sd_status s = new_status (snd p)"

lemma check_handover_of_Inr:
  "check_handover_of d env user i = Inr p \<Longrightarrow> list_all (\<lambda>x. handed_over (sd_status x) \<longrightarrow> sd_invoiceId x \<noteq> in_id (fst p)) (d_sdi d)"
  by (auto simp: check_handover_of_def Let_def andThen_Inr list_ex_iff list_all_iff)

lemma create_rows:
  "wpre (sdi_create ctx newId p) (\<lambda>s d'. d_sdi d' = d_sdi d @ [s] \<and> sd_id s \<notin> sd_id ` set (d_sdi d) \<and> unsent_for p s)
     (\<lambda>_ d'. d_sdi d' = d_sdi d) d"
  unfolding sdi_create_def
  by (auto simp: wp Let_def find_sdi_None unsent_for_def new_status_def split: sdi_adapter.split)

definition marked :: "sdi_submission \<Rightarrow> sdi_outcome \<Rightarrow> db \<Rightarrow> db \<Rightarrow> bool" where
  "marked sub out d d' \<longleftrightarrow>
     d_sdi d' = d_sdi d \<and> sd_status sub = SD_SKIPPED \<and> waits (Inr out) = [] \<or>
     (\<exists>f. d_sdi d' = update_row sd_id (sd_id sub) f (d_sdi d) \<and> same_invoice f \<and>
       (sd_status (f sub) = SD_MOCK_SENT \<and> waits (Inr out) = [] \<or>
        sd_status (f sub) = SD_PROCESSING \<and> waits (Inr out) = [f sub]))"

lemma mark_rows:
  assumes "find_sdi d (sd_id sub) = Some sub" "unsent_for p sub"
  shows "wpre (sdi_mark ctx user p sub) (\<lambda>out d'. marked sub out d d') (\<lambda>_ _. False) d"
proof -
  have f: "find_sdi (d_sdi_update (update_row sd_id (sd_id sub) f) d) (sd_id sub) = Some (f sub)"
    if "\<And>x. sd_id (f x) = sd_id x" for f
    using that assms(1) by (simp add: find_sdi_update)
  show ?thesis
    unfolding sdi_mark_def
    using assms(2)
    by (cases "co_sdiAdapter (snd p)")
      (auto simp: wp Let_def assms(1) f unsent_for_def new_status_def mock_id_short or_else_def marked_def same_invoice_def)
qed

definition answers :: "string \<Rightarrow> (sdi_submission \<Rightarrow> bool) \<Rightarrow> db \<Rightarrow> db \<Rightarrow> bool" where
  "answers i P d d' \<longleftrightarrow> (\<exists>f. d_sdi d' = update_row sd_id i f (d_sdi d) \<and> same_invoice f \<and>
     (\<forall>x. sd_status (f x) = sd_status x \<or> sd_status (f x) \<in> {SD_SENT, SD_FAILED} \<and> P x))"

lemma answers_refl: "answers i P d d"
proof -
  have "update_row sd_id i id (d_sdi d) = d_sdi d" by (auto simp: update_row_def intro: map_idI)
  then show ?thesis by (auto simp: answers_def same_invoice_def intro!: exI [of _ id])
qed

lemma answers_audit: "answers i P d (d_audit_update g d') = answers i P d d'"
  by (simp add: answers_def)

lemma answers_write:
  "same_invoice f \<Longrightarrow> (\<And>x. sd_status (f x) = sd_status x \<or> sd_status (f x) \<in> {SD_SENT, SD_FAILED} \<and> P x) \<Longrightarrow>
     answers i P d (d_sdi_update (update_row sd_id i f) d)"
  by (auto simp: answers_def)

lemma respond_rows: "keeps (answers (sd_id s) (\<lambda>_. True) d) (sdi_respond parse now userId s answer) d"
  unfolding sdi_respond_def keeps_def
  by (auto simp: wp Let_def failed_sdi_def same_invoice_def answers_refl answers_audit split: http_answer.split
      intro!: answers_write)

lemma callback_rows:
  "keeps (answers (cb_submissionId inp) (\<lambda>_. \<exists>r. find_sdi d (cb_submissionId inp) = Some r \<and> sd_status r \<in> {SD_PROCESSING, SD_PENDING}) d)
     (handleMiddlewareCallback ctx authorization inp) d"
  unfolding handleMiddlewareCallback_def callback_write_def keeps_def
  by (auto simp: wp Let_def failed_sdi_def same_invoice_def answers_refl answers_audit dest!: find_sdi_Some
      intro!: answers_write)

section \<open>Calm runs\<close>

lemma list_all_mapI: "(\<And>x. x \<in> set xs \<Longrightarrow> P (g x)) \<Longrightarrow> list_all P (map g xs)"
  by (auto simp: list_all_iff)

definition free_of :: "sdi_submission list \<Rightarrow> string \<Rightarrow> bool" where
  "free_of rows i \<longleftrightarrow> list_all (\<lambda>s. handed_over (sd_status s) \<longrightarrow> sd_invoiceId s \<noteq> i) rows"

definition sdi_run_ok :: "sdi_run \<Rightarrow> bool" where
  "sdi_run_ok r \<longleftrightarrow>
     (let rows = d_sdi (sr_db r)
      in keyed sd_id rows \<and> one_each (\<lambda>s. handed_over (sd_status s)) sd_invoiceId rows \<and>
         distinct (map sd_id (sr_waiting r)) \<and>
         list_all (\<lambda>w. list_ex (\<lambda>s. sd_id s = sd_id w \<and> sd_status s = SD_PROCESSING) rows) (sr_waiting r) \<and>
         distinct (jobs r) \<and> list_all (free_of rows) (jobs r) \<and>
         list_all (\<lambda>j. snd j \<in> set rows \<and> unsent_for (fst j) (snd j)) (sr_created r) \<and>
         list_all (\<lambda>s. sd_status s = SD_PENDING \<longrightarrow> sd_id s \<in> set (map (\<lambda>j. sd_id (snd j)) (sr_created r))) rows)"

lemma sdi_run_okD:
  assumes "sdi_run_ok r"
  shows "keyed sd_id (d_sdi (sr_db r))" "one_each (\<lambda>s. handed_over (sd_status s)) sd_invoiceId (d_sdi (sr_db r))"
    "distinct (map sd_id (sr_waiting r))" "distinct (jobs r)"
    "\<And>w. w \<in> set (sr_waiting r) \<Longrightarrow> \<exists>s\<in>set (d_sdi (sr_db r)). sd_id s = sd_id w \<and> sd_status s = SD_PROCESSING"
    "\<And>i. i \<in> set (jobs r) \<Longrightarrow> free_of (d_sdi (sr_db r)) i"
    "\<And>j. j \<in> set (sr_created r) \<Longrightarrow> snd j \<in> set (d_sdi (sr_db r)) \<and> unsent_for (fst j) (snd j)"
    "\<And>s. s \<in> set (d_sdi (sr_db r)) \<Longrightarrow> sd_status s = SD_PENDING \<Longrightarrow> \<exists>j\<in>set (sr_created r). sd_id (snd j) = sd_id s"
  using assms by (auto simp: sdi_run_ok_def Let_def list_all_iff list_ex_iff) (metis (mono_tags, lifting) imageE)

lemma same_row: "keyed sd_id rows \<Longrightarrow> x \<in> set rows \<Longrightarrow> y \<in> set rows \<Longrightarrow> sd_id x = sd_id y \<Longrightarrow> x = y"
  by (auto simp: keyed_def distinct_map inj_on_def)

lemma created_invoice: "j \<in> set (sr_created r) \<Longrightarrow> in_id (fst (fst j)) \<in> set (jobs r)"
  by (auto simp: jobs_def)

text \<open>One row changes; the lists of the run become smaller, except that the row may be waited for.\<close>

lemma row_change_ok:
  assumes ok: "sdi_run_ok r" and x: "x \<in> set (d_sdi (sr_db r))"
    and rows: "d_sdi (sr_db r') = update_row sd_id (sd_id x) f (d_sdi (sr_db r))" and f: "same_invoice f"
    and live: "handed_over (sd_status (f x)) \<Longrightarrow> handed_over (sd_status x) \<or>
      free_of (d_sdi (sr_db r)) (sd_invoiceId x) \<and> sd_invoiceId x \<notin> set (jobs r')"
    and "sd_status (f x) \<noteq> SD_PENDING"
    and w: "distinct (map sd_id (sr_waiting r'))"
      "\<And>w. w \<in> set (sr_waiting r') \<Longrightarrow> w \<in> set (sr_waiting r) \<and> sd_id w \<noteq> sd_id x \<or> sd_id w = sd_id x \<and> sd_status (f x) = SD_PROCESSING"
    and j: "distinct (jobs r')" "set (jobs r') \<subseteq> set (jobs r)"
    and c: "\<And>j. j \<in> set (sr_created r') \<longleftrightarrow> j \<in> set (sr_created r) \<and> sd_id (snd j) \<noteq> sd_id x"
  shows "sdi_run_ok r'"
proof -
  note okD = sdi_run_okD [OF ok]
  let ?g = "\<lambda>y. if sd_id y = sd_id x then f y else y"
  have g: "d_sdi (sr_db r') = map ?g (d_sdi (sr_db r))" by (simp add: rows update_row_def)
  have only: "?g y = (if y = x then f x else y)" if "y \<in> set (d_sdi (sr_db r))" for y
    using same_row [OF okD(1) that x] by auto
  have "keyed sd_id (d_sdi (sr_db r'))" using okD(1) f keyed_map [of sd_id ?g] by (simp add: g same_invoice_def)
  moreover have "one_each (\<lambda>s. handed_over (sd_status s)) sd_invoiceId (d_sdi (sr_db r'))"
  proof (cases "handed_over (sd_status x) \<or> \<not> handed_over (sd_status (f x))")
    case True
    show ?thesis
      unfolding g
    proof (rule one_each_map [OF okD(2)])
      show "handed_over (sd_status y)" if "y \<in> set (d_sdi (sr_db r))" "handed_over (sd_status (?g y))" for y
        using that True only [OF that(1)] by (auto split: if_splits)
    qed (use f in \<open>simp add: same_invoice_def\<close>)
  next
    case False
    have x1: "distinct (d_sdi (sr_db r))" using okD(1) by (simp add: keyed_def distinct_map)
    then obtain as bs where split: "d_sdi (sr_db r) = as @ x # bs" "x \<notin> set as" "x \<notin> set bs"
      using x split_list [of x] by (metis Un_iff distinct.simps(2) distinct_append list.set_intros(1) not_distinct_conv_prefix set_append split_list_first)
    have "map ?g as = as" "map ?g bs = bs"
      using only split by (auto intro!: map_idI)
    then have new: "d_sdi (sr_db r') = as @ f x # bs" by (simp add: g split)
    have "free_of (d_sdi (sr_db r)) (sd_invoiceId x)" using live False by blast
    then have "sd_invoiceId x \<notin> sd_invoiceId ` {s \<in> set as \<union> set bs. handed_over (sd_status s)}"
      by (auto simp: free_of_def list_all_iff split)
    then show ?thesis
      using okD(2) f False by (auto simp: one_each_def new split same_invoice_def)
  qed
  moreover have "list_ex (\<lambda>s. sd_id s = sd_id w \<and> sd_status s = SD_PROCESSING) (d_sdi (sr_db r'))" if "w \<in> set (sr_waiting r')" for w
    using w(2) [OF that]
  proof (elim disjE conjE)
    assume "w \<in> set (sr_waiting r)" "sd_id w \<noteq> sd_id x"
    then show ?thesis using okD(5) [of w] by (auto simp: g list_ex_iff)
  next
    assume "sd_id w = sd_id x" "sd_status (f x) = SD_PROCESSING"
    moreover have "f x \<in> set (d_sdi (sr_db r'))"
      unfolding g set_map by (rule image_eqI [of _ _ x]) (use x in simp_all)
    ultimately show ?thesis using f by (force simp: list_ex_iff same_invoice_def)
  qed
  moreover have "free_of (d_sdi (sr_db r')) i" if i: "i \<in> set (jobs r')" for i
    unfolding free_of_def g
  proof (rule list_all_mapI, rule impI)
    fix y
    assume y: "y \<in> set (d_sdi (sr_db r))" "handed_over (sd_status (?g y))"
    have "free_of (d_sdi (sr_db r)) i" using okD(6) j(2) i by blast
    then have old: "handed_over (sd_status y) \<Longrightarrow> sd_invoiceId y \<noteq> i" using y(1) by (simp add: free_of_def list_all_iff)
    show "sd_invoiceId (?g y) \<noteq> i"
      using only [OF y(1)] y old live i f by (auto simp: same_invoice_def split: if_splits)
  qed
  moreover have "snd k \<in> set (d_sdi (sr_db r')) \<and> unsent_for (fst k) (snd k)" if "k \<in> set (sr_created r')" for k
    using that c okD(7) [of k] by (auto simp: g intro!: image_eqI [of _ _ "snd k"])
  moreover have "sd_id (?g y) \<in> set (map (\<lambda>j. sd_id (snd j)) (sr_created r'))"
    if y: "y \<in> set (d_sdi (sr_db r))" "sd_status (?g y) = SD_PENDING" for y
  proof -
    have "y \<noteq> x" using only [OF y(1)] y(2) assms(6) by auto
    then have "sd_id y \<noteq> sd_id x" using same_row [OF okD(1) y(1) x] by blast
    then obtain k where "k \<in> set (sr_created r)" "sd_id (snd k) = sd_id y" using okD(8) [OF y(1)] y(2) by auto
    then have k: "k \<in> set (sr_created r')" using c \<open>sd_id y \<noteq> sd_id x\<close> by simp
    have "sd_id (?g y) = sd_id (snd k)" using \<open>sd_id (snd k) = sd_id y\<close> f by (simp add: same_invoice_def)
    with k show ?thesis by (simp add: rev_image_eqI)
  qed
  then have "list_all (\<lambda>s. sd_status s = SD_PENDING \<longrightarrow> sd_id s \<in> set (map (\<lambda>j. sd_id (snd j)) (sr_created r'))) (d_sdi (sr_db r'))"
    unfolding g by (intro list_all_mapI) blast
  ultimately show ?thesis using w(1) j(1) by (simp add: sdi_run_ok_def list_all_iff)
qed

lemma unchanged_ok:
  assumes "sdi_run_ok r" "d_sdi (sr_db r') = d_sdi (sr_db r)" "sr_created r' = sr_created r"
    and "distinct (map sd_id (sr_waiting r'))" "set (sr_waiting r') \<subseteq> set (sr_waiting r)"
    and "distinct (jobs r')" "set (jobs r') \<subseteq> set (jobs r)"
  shows "sdi_run_ok r'"
  using assms by (auto simp: sdi_run_ok_def Let_def list_all_iff)

text \<open>What is delivered stays delivered when the row that changes was not, or keeps its status.\<close>

definition delivered :: "string \<Rightarrow> sdi_run \<Rightarrow> bool" where
  "delivered i r \<longleftrightarrow> i \<in> set (map sd_id (d_sdi (sr_db r))) \<and>
     list_all (\<lambda>s. sd_id s = i \<longrightarrow> sd_status s \<in> {SD_SENT, SD_MOCK_SENT}) (d_sdi (sr_db r))"

lemma row_change_delivered:
  assumes "keyed sd_id (d_sdi (sr_db r))" "x \<in> set (d_sdi (sr_db r))"
    and "d_sdi (sr_db r') = update_row sd_id (sd_id x) f (d_sdi (sr_db r))" "same_invoice f"
    and "sd_status x \<in> {SD_SENT, SD_MOCK_SENT} \<Longrightarrow> sd_status (f x) \<in> {SD_SENT, SD_MOCK_SENT}"
    and "delivered i r"
  shows "delivered i r'"
proof -
  have "map sd_id (d_sdi (sr_db r')) = map sd_id (d_sdi (sr_db r))"
    using assms(3,4) by (simp add: update_row_def same_invoice_def)
  moreover have "sd_status y' \<in> {SD_SENT, SD_MOCK_SENT}" if y': "y' \<in> set (d_sdi (sr_db r'))" "sd_id y' = i" for y'
  proof -
    obtain y where y: "y \<in> set (d_sdi (sr_db r))" "y' = (if sd_id y = sd_id x then f y else y)"
      using y'(1) by (auto simp: assms(3) update_row_def split: if_splits)
    have "sd_id y = i" using y(2) y'(2) assms(4) by (auto simp: same_invoice_def split: if_splits)
    then have "sd_status y \<in> {SD_SENT, SD_MOCK_SENT}" using y(1) assms(6) by (simp add: delivered_def list_all_iff)
    then show ?thesis using y same_row [OF assms(1) y(1) assms(2)] assms(5) by auto
  qed
  ultimately show ?thesis using assms(6) by (simp add: delivered_def list_all_iff)
qed

lemma delivered_same: "d_sdi (sr_db r') = d_sdi (sr_db r) \<Longrightarrow> delivered i r' = delivered i r"
  by (simp add: delivered_def)

section \<open>Every step of a calm run\<close>

lemma mset_map_remove1: "p \<in> set xs \<Longrightarrow> mset (map f xs) = add_mset (f p) (mset (map f (remove1 p xs)))"
  by (induction xs) auto

lemma jobs_moved:
  assumes "p \<in> set (sr_checked r)" "sr_checked r' = remove1 p (sr_checked r)" "sr_created r' = (p, s) # sr_created r"
  shows "mset (jobs r') = mset (jobs r)"
  unfolding jobs_def mset_append assms(2,3) mset_map_remove1 [OF assms(1)] by simp

lemma jobs_left:
  assumes "j \<in> set (sr_created r)" "sr_checked r' = sr_checked r" "sr_created r' = remove1 j (sr_created r)"
  shows "mset (jobs r) = add_mset (in_id (fst (fst j))) (mset (jobs r'))"
  unfolding jobs_def mset_append assms(2,3) mset_map_remove1 [OF assms(1)] by simp

lemma jobs_refused:
  assumes "p \<in> set (sr_checked r)" "sr_checked r' = remove1 p (sr_checked r)" "sr_created r' = sr_created r"
  shows "mset (jobs r) = add_mset (in_id (fst p)) (mset (jobs r'))"
  unfolding jobs_def mset_append assms(2,3) mset_map_remove1 [OF assms(1)] by simp

lemma one_less:
  assumes "mset xs = add_mset a (mset ys)" "distinct xs"
  shows "distinct ys" "a \<notin> set ys" "set ys \<subseteq> set xs"
proof -
  have "mset xs = mset (a # ys)" using assms(1) by simp
  then have "distinct (a # ys)" "set xs = set (a # ys)" using assms(2) mset_eq_imp_distinct_iff mset_eq_setD by blast+
  then show "distinct ys" "a \<notin> set ys" "set ys \<subseteq> set xs" by auto
qed

lemma create_ok:
  assumes ok: "sdi_run_ok r" and p: "p \<in> set (sr_checked r)" and run: "sdi_create ctx newId p (sr_db r) = (Inr s, d')"
    and r': "r' = r\<lparr>sr_db := d', sr_checked := remove1 p (sr_checked r), sr_created := (p, s) # sr_created r\<rparr>"
  shows "sdi_run_ok r'"
proof -
  note okD = sdi_run_okD [OF ok]
  have s: "d_sdi d' = d_sdi (sr_db r) @ [s]" "sd_id s \<notin> sd_id ` set (d_sdi (sr_db r))" "unsent_for p s"
    using create_rows [of ctx newId p "sr_db r"] run by (simp_all add: wpre_def)
  have fresh: "\<not> handed_over (sd_status s)" using s(3) by (simp add: unsent_for_def new_status_def handed_over_def)
  have "mset (jobs r') = mset (jobs r)" using jobs_moved [OF p, of r' s] by (simp add: r')
  then have jobs: "distinct (jobs r')" "set (jobs r') = set (jobs r)"
    using okD(4) mset_eq_imp_distinct_iff mset_eq_setD by blast+
  have "one_each (\<lambda>s. handed_over (sd_status s)) sd_invoiceId (d_sdi (sr_db r) @ [s])"
    using okD(2) fresh by (simp add: one_each_def)
  moreover have "free_of (d_sdi (sr_db r) @ [s]) k" if "k \<in> set (jobs r')" for k
    using okD(6) [of k] that jobs(2) fresh by (simp add: free_of_def)
  moreover have "keyed sd_id (d_sdi (sr_db r) @ [s])" using okD(1) s(2) by (simp add: keyed_def)
  moreover have "list_all (\<lambda>w. list_ex (\<lambda>x. sd_id x = sd_id w \<and> sd_status x = SD_PROCESSING) (d_sdi (sr_db r) @ [s])) (sr_waiting r)"
    using okD(5) by (auto simp: list_all_iff list_ex_iff)
  moreover have "list_all (\<lambda>j. snd j \<in> set (d_sdi (sr_db r) @ [s]) \<and> unsent_for (fst j) (snd j)) ((p, s) # sr_created r)"
    using okD(7) s(3) by (simp add: list_all_iff)
  moreover have "list_all (\<lambda>x. sd_status x = SD_PENDING \<longrightarrow> sd_id x \<in> set (map (\<lambda>j. sd_id (snd j)) ((p, s) # sr_created r)))
      (d_sdi (sr_db r) @ [s])"
    using okD(8) by (simp add: list_all_iff) (metis rev_image_eqI)
  ultimately show ?thesis
    using okD(3) jobs(1) by (simp add: sdi_run_ok_def r' s(1) list_all_iff)
qed

lemma create_delivered:
  assumes "sdi_create ctx newId p (sr_db r) = (Inr s, d')" "delivered i r" "sr_db r' = d'"
  shows "delivered i r'"
proof -
  have "d_sdi d' = d_sdi (sr_db r) @ [s]" "sd_id s \<notin> sd_id ` set (d_sdi (sr_db r))"
    using create_rows [of ctx newId p "sr_db r"] assms(1) by (simp_all add: wpre_def)
  then show ?thesis using assms(2,3) by (auto simp: delivered_def)
qed

lemma created_keys:
  assumes "sdi_run_ok r" "j \<in> set (sr_created r)" "k \<in> set (sr_created r)" "sd_id (snd j) = sd_id (snd k)"
  shows "j = k"
proof -
  have "snd j = snd k" using sdi_run_okD(1,7) [OF assms(1)] assms(2-4) same_row by blast
  then have "in_id (fst (fst j)) = in_id (fst (fst k))"
    using sdi_run_okD(7) [OF assms(1)] assms(2,3) by (metis unsent_for_def)
  then show ?thesis using sdi_run_okD(4) [OF assms(1)] assms(2,3) by (auto simp: jobs_def distinct_map dest: inj_onD)
qed

lemma created_apart:
  assumes "sdi_run_ok r" "j \<in> set (sr_created r)" "w \<in> set (sr_waiting r)"
  shows "sd_id w \<noteq> sd_id (snd j)"
proof
  assume same: "sd_id w = sd_id (snd j)"
  note okD = sdi_run_okD [OF assms(1)]
  have x: "snd j \<in> set (d_sdi (sr_db r))" "unsent_for (fst j) (snd j)" using okD(7) [OF assms(2)] by simp_all
  obtain y where "y \<in> set (d_sdi (sr_db r))" "sd_id y = sd_id (snd j)" "sd_status y = SD_PROCESSING"
    using okD(5) [OF assms(3)] same by auto
  then have "sd_status (snd j) = SD_PROCESSING" using same_row [OF okD(1) _ x(1)] by blast
  then show False using x(2) by (simp add: unsent_for_def new_status_def split: if_splits)
qed

lemma created_left:
  assumes "sdi_run_ok r" "j \<in> set (sr_created r)"
  shows "k \<in> set (remove1 j (sr_created r)) \<longleftrightarrow> k \<in> set (sr_created r) \<and> sd_id (snd k) \<noteq> sd_id (snd j)"
proof -
  have "distinct (sr_created r)" using sdi_run_okD(4) [OF assms(1)] by (simp add: jobs_def distinct_map)
  then show ?thesis using created_keys [OF assms(1) _ assms(2), of k] by auto
qed

lemma marked_parts:
  assumes "marked sub out d d'"
  obtains f where "d_sdi d' = update_row sd_id (sd_id sub) f (d_sdi d)" "same_invoice f"
    "sd_status (f sub) \<in> {SD_SKIPPED, SD_MOCK_SENT} \<and> waits (Inr out) = [] \<or>
     sd_status (f sub) = SD_PROCESSING \<and> waits (Inr out) = [f sub]"
proof -
  have "update_row sd_id (sd_id sub) id (d_sdi d) = d_sdi d"
    by (simp add: update_row_def map_idI)
  then show thesis using assms that [of id] that unfolding marked_def same_invoice_def by auto
qed

lemma mark_ok:
  assumes ok: "sdi_run_ok r" and j: "j \<in> set (sr_created r)"
    and run: "sdi_mark ctx user (fst j) (snd j) (sr_db r) = (outcome, d')"
    and r': "r' = r\<lparr>sr_db := d', sr_created := remove1 j (sr_created r), sr_waiting := waits outcome @ sr_waiting r\<rparr>"
  shows "sdi_run_ok r' \<and> (delivered i r \<longrightarrow> delivered i r')"
proof -
  note okD = sdi_run_okD [OF ok]
  let ?x = "snd j"
  have x: "?x \<in> set (d_sdi (sr_db r))" "unsent_for (fst j) ?x" using okD(7) [OF j] by simp_all
  have old: "sd_status ?x \<in> {SD_PENDING, SD_SKIPPED}" "sd_invoiceId ?x = in_id (fst (fst j))"
    using x(2) by (auto simp: unsent_for_def new_status_def)
  have "find_sdi (sr_db r) (sd_id ?x) = Some ?x"
    using sdi.find_keyed [of "sr_db r" ?x] okD(1) x(1) by (simp add: find_sdi_def)
  from mark_rows [OF this x(2), of ctx user] obtain out where out: "outcome = Inr out" "marked ?x out (sr_db r) d'"
    using run by (cases outcome) (simp_all add: wpre_def)
  from marked_parts [OF out(2)] obtain f
    where f: "d_sdi d' = update_row sd_id (sd_id ?x) f (d_sdi (sr_db r))" "same_invoice f"
      and w: "sd_status (f ?x) \<in> {SD_SKIPPED, SD_MOCK_SENT} \<and> waits outcome = [] \<or>
        sd_status (f ?x) = SD_PROCESSING \<and> waits outcome = [f ?x]"
    unfolding out(1) by blast
  have rows: "d_sdi (sr_db r') = update_row sd_id (sd_id ?x) f (d_sdi (sr_db r))" by (simp add: r' f(1))
  have "mset (jobs r) = add_mset (in_id (fst (fst j))) (mset (jobs r'))"
    using jobs_left [OF j, of r'] by (simp add: r')
  note gone = one_less [OF this okD(4)]
  have "free_of (d_sdi (sr_db r)) (sd_invoiceId ?x)" using okD(6) created_invoice [OF j] old(2) by simp
  have "sd_id ?x \<notin> sd_id ` set (sr_waiting r)" using created_apart [OF ok j] by (metis imageE)
  then have waiting: "distinct (map sd_id (sr_waiting r'))"
    using w okD(3) f(2) by (auto simp: r' same_invoice_def)
  have "sdi_run_ok r'"
  proof (rule row_change_ok [OF ok x(1) rows f(2) _ _ waiting _ gone(1,3)])
    show "sd_status (f ?x) \<noteq> SD_PENDING" using w by auto
    show "w \<in> set (sr_waiting r) \<and> sd_id w \<noteq> sd_id ?x \<or> sd_id w = sd_id ?x \<and> sd_status (f ?x) = SD_PROCESSING"
      if "w \<in> set (sr_waiting r')" for w
      using that \<open>sd_status (f ?x) \<in> _ \<and> _ \<or> _\<close> created_apart [OF ok j, of w] f(2) by (auto simp: r' same_invoice_def)
    show "k \<in> set (sr_created r') \<longleftrightarrow> k \<in> set (sr_created r) \<and> sd_id (snd k) \<noteq> sd_id ?x" for k
      using created_left [OF ok j] by (simp add: r')
  qed (use gone(2) old(2) \<open>free_of _ _\<close> in simp_all)
  moreover have "delivered i r'" if "delivered i r"
    using row_change_delivered [OF okD(1) x(1) rows f(2) _ that] old(1) by auto
  ultimately show ?thesis by blast
qed

lemma respond_ok:
  assumes ok: "sdi_run_ok r" and s: "s \<in> set (sr_waiting r)"
    and run: "sdi_respond parse now userId s answer (sr_db r) = (outcome, d')"
    and r': "r' = r\<lparr>sr_db := d', sr_waiting := remove1 s (sr_waiting r)\<rparr>"
  shows "sdi_run_ok r' \<and> (delivered i r \<longrightarrow> delivered i r')"
proof -
  note okD = sdi_run_okD [OF ok]
  obtain x where x: "x \<in> set (d_sdi (sr_db r))" "sd_id x = sd_id s" "sd_status x = SD_PROCESSING" using okD(5) [OF s] by blast
  have "answers (sd_id s) (\<lambda>_. True) (sr_db r) d'"
    using respond_rows [of s "sr_db r" parse now userId answer] run by (simp add: keeps_run)
  then obtain f where f: "d_sdi d' = update_row sd_id (sd_id x) f (d_sdi (sr_db r))" "same_invoice f"
      "\<And>y. sd_status (f y) = sd_status y \<or> sd_status (f y) \<in> {SD_SENT, SD_FAILED}"
    unfolding answers_def x(2) by blast
  have st: "sd_status (f x) \<in> {SD_PROCESSING, SD_SENT, SD_FAILED}" using f(3) [of x] x(3) by auto
  have rows: "d_sdi (sr_db r') = update_row sd_id (sd_id x) f (d_sdi (sr_db r))" by (simp add: r' f(1))
  have waiting: "distinct (map sd_id (sr_waiting r'))" using okD(3) by (simp add: r' distinct_map inj_on_def)
  have left: "w \<in> set (sr_waiting r) \<and> sd_id w \<noteq> sd_id x" if "w \<in> set (sr_waiting r')" for w
    using that okD(3) s x(2) by (auto simp: r' distinct_map dest: inj_onD)
  have same: "jobs r' = jobs r" by (simp add: jobs_def r')
  have "sdi_run_ok r'"
  proof (rule row_change_ok [OF ok x(1) rows f(2) _ _ waiting])
    show "k \<in> set (sr_created r') \<longleftrightarrow> k \<in> set (sr_created r) \<and> sd_id (snd k) \<noteq> sd_id x" for k
      using created_apart [OF ok _ s, of k] x(2) by (auto simp: r')
  qed (use st left okD(4) x(3) same in \<open>auto simp: handed_over_def\<close>)
  moreover have "delivered i r'" if "delivered i r"
    using row_change_delivered [OF okD(1) x(1) rows f(2) _ that] x(3) by simp
  ultimately show ?thesis by blast
qed

lemma callback_ok:
  assumes ok: "sdi_run_ok r" and run: "handleMiddlewareCallback ctx authorization inp (sr_db r) = (outcome, d')"
    and free: "cb_submissionId inp \<notin> set (map sd_id (sr_waiting r) @ map (\<lambda>j. sd_id (snd j)) (sr_created r))"
    and r': "r' = r\<lparr>sr_db := d'\<rparr>"
  shows "sdi_run_ok r' \<and> (delivered i r \<longrightarrow> delivered i r')"
proof -
  note okD = sdi_run_okD [OF ok]
  let ?i = "cb_submissionId inp"
  have "answers ?i (\<lambda>_. \<exists>y. find_sdi (sr_db r) ?i = Some y \<and> sd_status y \<in> {SD_PROCESSING, SD_PENDING}) (sr_db r) d'"
    using callback_rows [of inp "sr_db r" ctx authorization] run by (simp add: keeps_run)
  then obtain f where f: "d_sdi d' = update_row sd_id ?i f (d_sdi (sr_db r))" "same_invoice f"
      "\<And>x. sd_status (f x) = sd_status x \<or> sd_status (f x) \<in> {SD_SENT, SD_FAILED} \<and>
        (\<exists>y. find_sdi (sr_db r) ?i = Some y \<and> sd_status y \<in> {SD_PROCESSING, SD_PENDING})"
    unfolding answers_def by blast
  have same: "jobs r' = jobs r" "sr_created r' = sr_created r" "sr_waiting r' = sr_waiting r" by (simp_all add: jobs_def r')
  show ?thesis
  proof (cases "?i \<in> sd_id ` set (d_sdi (sr_db r))")
    case False
    then have "d_sdi (sr_db r') = d_sdi (sr_db r)" by (auto simp: r' f(1) update_row_def intro!: map_idI) (metis imageI)
    then show ?thesis using unchanged_ok [OF ok, of r'] okD(3,4) same delivered_same [of r' r] by simp
  next
    case True
    then obtain x where x: "x \<in> set (d_sdi (sr_db r))" "sd_id x = ?i" by auto
    have found: "find_sdi (sr_db r) ?i = Some x"
      using sdi.find_keyed [of "sr_db r" x] okD(1) x by (simp add: find_sdi_def)
    have rows: "d_sdi (sr_db r') = update_row sd_id (sd_id x) f (d_sdi (sr_db r))" by (simp add: r' f(1) x(2))
    have away: "sd_id w \<noteq> sd_id x" if "w \<in> set (sr_waiting r)" for w using that free x(2) by (auto simp: rev_image_eqI)
    have away': "sd_id (snd k) \<noteq> sd_id x" if "k \<in> set (sr_created r)" for k using that free x(2) by (auto simp: rev_image_eqI)
    have "sd_status x \<noteq> SD_PENDING" using okD(8) [OF x(1)] away' by blast
    then have st: "sd_status (f x) = sd_status x \<or> sd_status (f x) \<in> {SD_SENT, SD_FAILED} \<and> sd_status x = SD_PROCESSING"
      using f(3) [of x] found by auto
    have "sdi_run_ok r'"
    proof (rule row_change_ok [OF ok x(1) rows f(2)])
      show "sd_status (f x) \<noteq> SD_PENDING" using st \<open>sd_status x \<noteq> SD_PENDING\<close> by auto
    qed (use st away away' same okD(3,4) in \<open>auto simp: handed_over_def\<close>)
    moreover have "delivered i r'" if "delivered i r"
      using row_change_delivered [OF okD(1) x(1) rows f(2) _ that] st by auto
    ultimately show ?thesis by blast
  qed
qed

lemma check_ok:
  assumes ok: "sdi_run_ok r" and check: "check_handover_of (sr_db r) env user i = Inr p" and free: "in_id (fst p) \<notin> set (jobs r)"
  shows "sdi_run_ok (r\<lparr>sr_checked := p # sr_checked r\<rparr>)"
proof -
  have "free_of (d_sdi (sr_db r)) (in_id (fst p))"
    using check_handover_of_Inr [OF check] by (simp add: free_of_def)
  then show ?thesis using ok free by (simp add: sdi_run_ok_def jobs_def Let_def)
qed

lemma refused_ok:
  assumes ok: "sdi_run_ok r" and p: "p \<in> set (sr_checked r)" and run: "sdi_create ctx newId p (sr_db r) = (Inl e, d')"
    and r': "r' = r\<lparr>sr_db := d', sr_checked := remove1 p (sr_checked r)\<rparr>"
  shows "sdi_run_ok r' \<and> (delivered i r \<longrightarrow> delivered i r')"
proof -
  have same: "d_sdi (sr_db r') = d_sdi (sr_db r)"
    using create_rows [of ctx newId p "sr_db r"] run by (simp add: wpre_def r')
  have "mset (jobs r) = add_mset (in_id (fst p)) (mset (jobs r'))" using jobs_refused [OF p, of r'] by (simp add: r')
  note gone = one_less [OF this sdi_run_okD(4) [OF ok]]
  show ?thesis
    using unchanged_ok [OF ok same] gone sdi_run_okD(3) [OF ok] delivered_same [OF same] by (simp add: r')
qed

lemma calm_step_ok:
  assumes "sdi_step True parse r r'" "sdi_run_ok r"
  shows "sdi_run_ok r' \<and> (delivered i r \<longrightarrow> delivered i r')"
  using assms
proof (cases rule: sdi_step.cases)
  case (checks env user invoiceId p)
  then show ?thesis using check_ok [OF assms(2)] delivered_same [of r' r] by simp
next
  case (creates p ctx newId sub d')
  then show ?thesis using create_ok [OF assms(2) creates(2,3) creates(1)] create_delivered [OF creates(3), of i r'] by simp
next
  case (refused p ctx newId e d')
  then show ?thesis using refused_ok [OF assms(2) refused(2,3) refused(1)] by blast
next
  case (marks j ctx user outcome d')
  then show ?thesis using mark_ok [OF assms(2) marks(2,3) marks(1)] by blast
next
  case (responds s now userId answer outcome d')
  then show ?thesis using respond_ok [OF assms(2) responds(2,3) responds(1)] by blast
next
  case (calls_back ctx authorization inp outcome d')
  then show ?thesis using callback_ok [OF assms(2) calls_back(2) _ calls_back(1)] by blast
next
  case (elsewhere d')
  then have same: "d_sdi (sr_db r') = d_sdi (sr_db r)" by simp
  show ?thesis
    using unchanged_ok [OF assms(2) same] sdi_run_okD(3,4) [OF assms(2)] delivered_same [OF same] elsewhere(1)
    by (simp add: jobs_def)
qed

lemma calm_run_ok:
  assumes "(sdi_step True parse)\<^sup>*\<^sup>* r r'" "sdi_run_ok r"
  shows "sdi_run_ok r' \<and> (\<forall>i. delivered i r \<longrightarrow> delivered i r')"
  using assms by (induction rule: rtranclp_induct) (use calm_step_ok in blast)+

text \<open>
  C7: An invoice is handed over at most once, as long as two requests for one invoice do not overlap between
  the lookup and the first change of the submission, and the middleware calls back only about requests it has
  answered: whatever statements of hand-overs, answers, callbacks and other writers then follow in whatever
  order, an invoice has at most one submission that is under way or delivered, and what is delivered stays
  delivered.
\<close>

theorem invoice_handed_over_once:
  assumes "(sdi_step True parse)\<^sup>*\<^sup>* (idle_run d) r"
    and "keyed sd_id (d_sdi d)" "distinct (map sd_invoiceId (filter (\<lambda>s. handed_over (sd_status s)) (d_sdi d)))"
    and "list_all (\<lambda>s. sd_status s \<noteq> SD_PENDING) (d_sdi d)"
  shows "distinct (map sd_invoiceId (filter (\<lambda>s. handed_over (sd_status s)) (d_sdi (sr_db r)))) \<and>
    (\<forall>i. delivered i (idle_run d) \<longrightarrow> delivered i r)"
proof -
  have "sdi_run_ok (idle_run d)" using assms(2-4) by (simp add: sdi_run_ok_def one_each_def idle_run_def jobs_def list_all_iff)
  from calm_run_ok [OF assms(1) this] show ?thesis by (simp add: sdi_run_ok_def one_each_def Let_def)
qed

section \<open>Concrete runs\<close>

definition demo_issued :: invoice where
  "demo_issued = \<lparr>in_id = ''inv1'', in_companyId = ''acme'', in_reservationId = None, in_kind = INVOICE, in_status = INV_ISSUED,
     in_creditedInvoiceId = None, in_issueYear = Some 2025, in_issueSequence = Some 1, in_documentNumber = Some ''2025-1'',
     in_subtotalCents = 10000, in_vatRateBps = 2200, in_vatCents = 2200, in_totalCents = 12200, in_currency = ''EUR'',
     in_description = None, in_issuedAt = None, in_createdAt = 0\<rparr>"

definition demo_ready :: db where
  "demo_ready = demo_db\<lparr>d_invoices := [demo_issued], d_sdi := []\<rparr>"

definition sdi_ctx :: ctx where
  "sdi_ctx = demo_ctx\<lparr>c_env := (\<lambda>x. if x = ''SDI_CALLBACK_SECRET'' then Some ''k'' else None)\<rparr>"

definition posted_row :: "ctx \<Rightarrow> string \<Rightarrow> invoice \<Rightarrow> sdi_submission" where
  "posted_row ctx i iv = \<lparr>sd_id = i, sd_companyId = in_companyId iv, sd_invoiceId = in_id iv, sd_status = SD_PROCESSING,
     sd_idTracciatura = None, sd_errorMessage = None, sd_attemptCount = 1, sd_processedAt = None, sd_createdAt = c_now ctx\<rparr>"

lemma begin_posts:
  assumes "check_handover_of d (c_env ctx) user i = Inr (iv, co)" "co_sdiAdapter co = SDI_HTTP"
    "trim (or_else (co_sdiHttpUrl co) []) \<noteq> []" "find_sdi d newId = None"
  obtains out where "sdi_begin ctx user newId i d = (Inr out, d_sdi_update (\<lambda>xs. xs @ [posted_row ctx newId iv]) d)"
    "waits (Inr out) = [posted_row ctx newId iv]"
proof -
  have "update_row sd_id newId f (d_sdi d @ [s]) = d_sdi d @ [f s]" if "sd_id s = newId" for f s
    using assms(4) that by (simp add: update_new_row find_sdi_None)
  then have "wpre (sdi_begin ctx user newId i) (\<lambda>out d'. d' = d_sdi_update (\<lambda>xs. xs @ [posted_row ctx newId iv]) d \<and>
      waits (Inr out) = [posted_row ctx newId iv]) (\<lambda>_ _. False) d"
    using assms unfolding sdi_begin_def sdi_create_def sdi_mark_def
    by (simp add: wp Let_def find_sdi_new tables or_else_def posted_row_def)
  then show thesis using that by (cases "sdi_begin ctx user newId i d") (auto simp: wpre_def split: sum.splits)
qed

lemma hands_over:
  assumes "sdi_begin ctx user newId i (sr_db r) = (Inr out, d')" "check_handover_of (sr_db r) (c_env ctx) user i = Inr p"
    and "in_id (fst p) \<notin> set (jobs r)"
  shows "(sdi_step calm parse)\<^sup>*\<^sup>* r (r\<lparr>sr_db := d', sr_waiting := waits (Inr out) @ sr_waiting r\<rparr>)"
proof -
  obtain sub d1 where runs: "sdi_create ctx newId p (sr_db r) = (Inr sub, d1)" "sdi_mark ctx user p sub d1 = (Inr out, d')"
    using assms(1,2) by (auto simp: sdi_begin_def bnd_def asks_def split: sum.splits prod.splits)
  define r1 where "r1 = r\<lparr>sr_checked := p # sr_checked r\<rparr>"
  define r2 where "r2 = r\<lparr>sr_db := d1, sr_created := (p, sub) # sr_created r\<rparr>"
  have "sdi_step calm parse r r1" unfolding r1_def by (rule checks [OF assms(2)]) (use assms(3) in blast)
  moreover have "sdi_step calm parse r1 r2"
    using creates [of p r1 ctx newId sub d1 calm parse] runs(1) by (simp add: r1_def r2_def)
  moreover have "sdi_step calm parse r2 (r\<lparr>sr_db := d', sr_waiting := waits (Inr out) @ sr_waiting r\<rparr>)"
    using marks [of "(p, sub)" r2 ctx user "Inr out" d' calm parse] runs(2) by (simp add: r2_def)
  ultimately show ?thesis by (meson converse_rtranclp_into_rtranclp r_into_rtranclp)
qed

definition first_row :: sdi_submission where
  "first_row = posted_row sdi_ctx ''sub1'' demo_issued"

definition first_posted :: db where
  "first_posted = d_sdi_update (\<lambda>xs. xs @ [first_row]) demo_ready"

definition first_callback :: "(string \<times> sdi_status) result \<times> db" where
  "first_callback = handleMiddlewareCallback sdi_ctx (Some ''Bearer k'')
     \<lparr>cb_submissionId = ''sub1'', cb_sent = True, cb_idTracciatura = Some ''IT-1'', cb_errorMessage = None\<rparr> first_posted"

definition first_timeout :: "sdi_submission result \<times> db" where
  "first_timeout = sdi_respond (\<lambda>_. None) demo_now ''boss'' first_row (FetchFailed ''This operation was aborted'') (snd first_callback)"

definition second_row :: sdi_submission where
  "second_row = posted_row sdi_ctx ''sub2'' demo_issued"

definition second_posted :: db where
  "second_posted = d_sdi_update (\<lambda>xs. xs @ [second_row]) (snd first_timeout)"

definition second_answer :: "sdi_submission result \<times> db" where
  "second_answer = sdi_respond (\<lambda>_. None) demo_now ''boss'' second_row (Responded 200 []) second_posted"

lemma demo_adapter: "co_sdiAdapter demo_company = SDI_HTTP" "trim (or_else (co_sdiHttpUrl demo_company) []) \<noteq> []"
  by code_simp+

lemma first_step:
  "(sdi_step calm parse)\<^sup>*\<^sup>* (idle_run demo_ready) ((idle_run first_posted)\<lparr>sr_waiting := [first_row]\<rparr>)"
proof -
  have check: "check_handover_of demo_ready (c_env sdi_ctx) demo_manager ''inv1'' = Inr (demo_issued, demo_company)"
    "find_sdi demo_ready ''sub1'' = None" by code_simp+
  from begin_posts [OF check(1) demo_adapter check(2)] obtain out
    where "sdi_begin sdi_ctx demo_manager ''sub1'' ''inv1'' demo_ready = (Inr out, first_posted)" "waits (Inr out) = [first_row]"
    unfolding first_posted_def first_row_def .
  then show ?thesis
    using hands_over [of sdi_ctx demo_manager "''sub1''" "''inv1''" "idle_run demo_ready" out first_posted] check(1)
    by (simp add: idle_run_def jobs_def)
qed

lemma second_step:
  "(sdi_step calm parse)\<^sup>*\<^sup>* (idle_run (snd first_timeout)) ((idle_run second_posted)\<lparr>sr_waiting := [second_row]\<rparr>)"
proof -
  have check: "check_handover_of (snd first_timeout) (c_env sdi_ctx) demo_manager ''inv1'' = Inr (demo_issued, demo_company)"
    "find_sdi (snd first_timeout) ''sub2'' = None" by code_simp+
  from begin_posts [OF check(1) demo_adapter check(2)] obtain out
    where "sdi_begin sdi_ctx demo_manager ''sub2'' ''inv1'' (snd first_timeout) = (Inr out, second_posted)" "waits (Inr out) = [second_row]"
    unfolding second_posted_def second_row_def .
  then show ?thesis
    using hands_over [of sdi_ctx demo_manager "''sub2''" "''inv1''" "idle_run (snd first_timeout)" out second_posted] check(1)
    by (simp add: idle_run_def jobs_def)
qed

text \<open>
  C8: When the callback overtakes the answer, the invoice is handed over twice: the middleware reports the
  first hand-over as sent, the request that carried it then times out and marks the delivered submission as
  failed, and the invoice can be, and is, handed over again.
\<close>

theorem late_answer_hands_over_twice:
  "\<exists>r1 r2 s1. (sdi_step False (\<lambda>_. None))\<^sup>*\<^sup>* (idle_run demo_ready) r1 \<and> delivered ''sub1'' r1 \<and>
     (sdi_step False (\<lambda>_. None))\<^sup>*\<^sup>* r1 r2 \<and> sr_waiting r2 = [] \<and>
     map (\<lambda>s. (sd_id s, sd_invoiceId s, sd_status s)) (d_sdi (sr_db r2)) =
       [(''sub1'', ''inv1'', SD_FAILED), (''sub2'', ''inv1'', SD_SENT)] \<and> find_sdi (sr_db r2) ''sub1'' = Some s1"
proof -
  let ?step = "sdi_step False (\<lambda>_. None)"
  let ?at = "\<lambda>d ws. (idle_run d)\<lparr>sr_waiting := ws\<rparr>"
  have "?step (?at first_posted [first_row]) (?at (snd first_callback) [first_row])"
    using calls_back [of sdi_ctx "Some ''Bearer k''"
        "\<lparr>cb_submissionId = ''sub1'', cb_sent = True, cb_idTracciatura = Some ''IT-1'', cb_errorMessage = None\<rparr>"
        "?at first_posted [first_row]" "fst first_callback" "snd first_callback" False]
    by (simp add: first_callback_def idle_run_def)
  with first_step have one: "?step\<^sup>*\<^sup>* (idle_run demo_ready) (?at (snd first_callback) [first_row])"
    by (rule rtranclp.rtrancl_into_rtrancl)
  have out: "?step (?at (snd first_callback) [first_row]) (idle_run (snd first_timeout))"
    using responds [of first_row "?at (snd first_callback) [first_row]" "\<lambda>_. None" demo_now "''boss''"
        "FetchFailed ''This operation was aborted''" "fst first_timeout" "snd first_timeout" False]
    by (simp add: first_timeout_def idle_run_def)
  have "?step (?at second_posted [second_row]) (idle_run (snd second_answer))"
    using responds [of second_row "?at second_posted [second_row]" "\<lambda>_. None" demo_now "''boss''"
        "Responded 200 []" "fst second_answer" "snd second_answer" False]
    by (simp add: second_answer_def idle_run_def)
  with second_step have "?step\<^sup>*\<^sup>* (idle_run (snd first_timeout)) (idle_run (snd second_answer))"
    by (rule rtranclp.rtrancl_into_rtrancl)
  with out have two: "?step\<^sup>*\<^sup>* (?at (snd first_callback) [first_row]) (idle_run (snd second_answer))"
    by (rule converse_rtranclp_into_rtranclp)
  have here: "delivered ''sub1'' (idle_run (snd first_callback))" by code_simp
  have there: "map (\<lambda>s. (sd_id s, sd_invoiceId s, sd_status s)) (d_sdi (snd second_answer)) =
       [(''sub1'', ''inv1'', SD_FAILED), (''sub2'', ''inv1'', SD_SENT)]" by code_simp
  have found: "find_sdi (snd second_answer) ''sub1'' \<noteq> None" by code_simp
  from here there found show ?thesis
    using one two
    by (intro exI [of _ "?at (snd first_callback) [first_row]"] exI [of _ "idle_run (snd second_answer)"])
      (auto simp: idle_run_def delivered_def)
qed

theorem invoice_handed_over_once_witness:
  "distinct (map sd_invoiceId (filter (\<lambda>s. handed_over (sd_status s)) (d_sdi first_posted)))"
proof -
  have "keyed sd_id (d_sdi demo_ready)"
    "distinct (map sd_invoiceId (filter (\<lambda>s. handed_over (sd_status s)) (d_sdi demo_ready)))"
    "list_all (\<lambda>s. sd_status s \<noteq> SD_PENDING) (d_sdi demo_ready)" by (simp_all add: demo_ready_def keyed_def)
  from invoice_handed_over_once [OF first_step [of True "\<lambda>_. None"] this] show ?thesis by (simp add: idle_run_def)
qed

text \<open>
  Nothing but the timing keeps a second request out: when two requests have both looked before either has
  inserted, both insert and both hand over.
\<close>

definition new_row :: "ctx \<Rightarrow> string \<Rightarrow> invoice \<Rightarrow> sdi_submission" where
  "new_row ctx i iv = (posted_row ctx i iv)\<lparr>sd_status := SD_PENDING, sd_attemptCount := 0\<rparr>"

lemma http_creates:
  assumes "co_sdiAdapter co = SDI_HTTP" "trim (or_else (co_sdiHttpUrl co) []) \<noteq> []" "find_sdi d newId = None"
  shows "sdi_create ctx newId (iv, co) d = (Inr (new_row ctx newId iv), d_sdi_update (\<lambda>xs. xs @ [new_row ctx newId iv]) d)"
  using assms
  by (simp add: sdi_create_def createSubmission_def asks_def bnd_def andDo_def modify_def gets_def ret_def new_row_def posted_row_def ensure_def Let_def)

lemma http_marks:
  assumes "co_sdiAdapter co = SDI_HTTP" "find_sdi d newId = Some (new_row ctx newId iv)"
  obtains out where "sdi_mark ctx user (iv, co) (new_row ctx newId iv) d =
      (Inr out, d_sdi_update (update_row sd_id newId (\<lambda>x. x\<lparr>sd_status := SD_PROCESSING, sd_attemptCount := sd_attemptCount x + 1\<rparr>)) d)"
    "waits (Inr out) = [posted_row ctx newId iv]"
  using assms
  by (simp add: sdi_mark_def update_sdi_def asks_def bnd_def andDo_def modify_def gets_def ret_def new_row_def posted_row_def ensure_def orElse_def or_else_def)

lemma overlapping_requests_hand_over_twice:
  "\<exists>r. (sdi_step False parse)\<^sup>*\<^sup>* (idle_run demo_ready) r \<and> map sd_id (sr_waiting r) = [''sub2'', ''sub1''] \<and>
     map (\<lambda>s. (sd_id s, sd_invoiceId s, sd_status s)) (d_sdi (sr_db r)) =
       [(''sub1'', ''inv1'', SD_PROCESSING), (''sub2'', ''inv1'', SD_PROCESSING)]"
proof -
  let ?p = "(demo_issued, demo_company)" and ?step = "sdi_step False parse"
  let ?n1 = "new_row sdi_ctx ''sub1'' demo_issued" and ?n2 = "new_row sdi_ctx ''sub2'' demo_issued"
  let ?go = "\<lambda>x. x\<lparr>sd_status := SD_PROCESSING, sd_attemptCount := sd_attemptCount x + 1\<rparr>"
  define d1 where "d1 = d_sdi_update (\<lambda>xs. xs @ [?n1]) demo_ready"
  define d2 where "d2 = d_sdi_update (\<lambda>xs. xs @ [?n2]) d1"
  define d3 where "d3 = d_sdi_update (update_row sd_id ''sub1'' ?go) d2"
  define d4 where "d4 = d_sdi_update (update_row sd_id ''sub2'' ?go) d3"
  note ds = d1_def d2_def d3_def d4_def demo_ready_def new_row_def posted_row_def find_sdi_def find_row_def update_row_def
  have check: "check_handover_of demo_ready (c_env sdi_ctx) demo_manager ''inv1'' = Inr ?p" by code_simp
  have created: "sdi_create sdi_ctx ''sub1'' ?p demo_ready = (Inr ?n1, d1)" "sdi_create sdi_ctx ''sub2'' ?p d1 = (Inr ?n2, d2)"
    unfolding d1_def d2_def by (rule http_creates [OF demo_adapter], simp add: ds)+
  have "find_sdi d2 ''sub1'' = Some ?n1" "find_sdi d3 ''sub2'' = Some ?n2" by (simp_all add: ds)
  note found = this
  obtain o1 where m1: "sdi_mark sdi_ctx demo_manager ?p ?n1 d2 = (Inr o1, d3)" "waits (Inr o1) = [posted_row sdi_ctx ''sub1'' demo_issued]"
    by (rule http_marks [OF demo_adapter(1) found(1), of demo_manager]) (simp only: d3_def)
  obtain o2 where m2: "sdi_mark sdi_ctx demo_manager ?p ?n2 d3 = (Inr o2, d4)" "waits (Inr o2) = [posted_row sdi_ctx ''sub2'' demo_issued]"
    by (rule http_marks [OF demo_adapter(1) found(2), of demo_manager]) (simp only: d4_def)
  define r1 where "r1 = (idle_run demo_ready)\<lparr>sr_checked := [?p]\<rparr>"
  define r2 where "r2 = (idle_run demo_ready)\<lparr>sr_checked := [?p, ?p]\<rparr>"
  define r3 where "r3 = (idle_run d1)\<lparr>sr_checked := [?p], sr_created := [(?p, ?n1)]\<rparr>"
  define r4 where "r4 = (idle_run d2)\<lparr>sr_created := [(?p, ?n2), (?p, ?n1)]\<rparr>"
  define r5 where "r5 = (idle_run d3)\<lparr>sr_created := [(?p, ?n2)], sr_waiting := waits (Inr o1)\<rparr>"
  define r6 where "r6 = (idle_run d4)\<lparr>sr_waiting := waits (Inr o2) @ waits (Inr o1)\<rparr>"
  note rs = r1_def r2_def r3_def r4_def r5_def r6_def idle_run_def
  have differ: "?n1 \<noteq> ?n2" by (simp add: new_row_def posted_row_def)
  have "?step (idle_run demo_ready) r1"
    using checks [of "idle_run demo_ready" "c_env sdi_ctx" demo_manager "''inv1''" ?p False parse] check by (simp add: rs)
  moreover have "?step r1 r2" using checks [of r1 "c_env sdi_ctx" demo_manager "''inv1''" ?p False parse] check by (simp add: rs)
  moreover have "?step r2 r3" using creates [of ?p r2 sdi_ctx "''sub1''" ?n1 d1 False parse] created(1) by (simp add: rs)
  moreover have "?step r3 r4" using creates [of ?p r3 sdi_ctx "''sub2''" ?n2 d2 False parse] created(2) by (simp add: rs)
  moreover have "?step r4 r5" using marks [of "(?p, ?n1)" r4 sdi_ctx demo_manager "Inr o1" d3 False parse] m1 differ by (simp add: rs)
  moreover have "?step r5 r6" using marks [of "(?p, ?n2)" r5 sdi_ctx demo_manager "Inr o2" d4 False parse] m2 by (simp add: rs)
  ultimately have "?step\<^sup>*\<^sup>* (idle_run demo_ready) r6"
    by (meson converse_rtranclp_into_rtranclp rtranclp.rtrancl_refl)
  then show ?thesis
    by (rule exI [of _ r6, OF conjI]) (simp add: r6_def idle_run_def m1(2) m2(2), simp add: ds demo_issued_def)
qed

end
