(* ===== verification/Customers.thy ===== *)
theory Customers
  imports Invoices Reservation_Public Italian_Fiscal Always
begin

text \<open>
  The customer records of a company (\<open>organization/customer/customer.service.ts\<close>): listing, lookups that
  hint at duplicates, creation and update with the register of consents, merging of duplicates, and the two
  operations of data protection, export and anonymisation. The e-mail check of the schema library is a
  parameter, and the dash that stands for a removed phone number is written as a hyphen.
\<close>

section \<open>Requests\<close>

definition trimOrNull :: "string option \<Rightarrow> string option" where
  "trimOrNull x = (case x of None \<Rightarrow> None | Some s \<Rightarrow> if trim s = [] then None else Some (trim s))"

record create_customer_input =
  cc_companyId :: string
  cc_name :: string
  cc_email :: string
  cc_phone :: string
  cc_notes :: "string option"
  cc_fiscalCode :: "string option"
  cc_vatNumber :: "string option"
  cc_sdiRecipientCode :: "string option"
  cc_pec :: "string option"

definition at_most :: "nat \<Rightarrow> string option \<Rightarrow> bool" where
  "at_most n x \<longleftrightarrow> length (or_else x []) \<le> n"

definition stored_email :: "string \<Rightarrow> string" where
  "stored_email s = toLowerCase (trim s)"

definition italian_fields_ok :: "(string \<Rightarrow> bool) \<Rightarrow> string option \<Rightarrow> string option \<Rightarrow> string option \<Rightarrow> bool" where
  "italian_fields_ok email_ok pec fiscalCode vatNumber \<longleftrightarrow>
     (truthy pec \<longrightarrow> email_ok (the pec)) \<and>
     (trimOrNull fiscalCode \<noteq> None \<longrightarrow> isValidItalianFiscalCode fiscalCode) \<and>
     (trimOrNull vatNumber \<noteq> None \<longrightarrow> isValidItalianVatNumber vatNumber)"

definition createCustomerSchema :: "(string \<Rightarrow> bool) \<Rightarrow> create_customer_input \<Rightarrow> create_customer_input option" where
  "createCustomerSchema email_ok inp =
     (let out = inp\<lparr>cc_email := stored_email (cc_email inp), cc_fiscalCode := trimOrNull (cc_fiscalCode inp),
          cc_vatNumber := trimOrNull (cc_vatNumber inp),
          cc_sdiRecipientCode := map_option toUpperCase (trimOrNull (cc_sdiRecipientCode inp)),
          cc_pec := map_option toLowerCase (trimOrNull (cc_pec inp))\<rparr>
      in if cc_name inp \<noteq> [] \<and> length (cc_name inp) \<le> 200 \<and> email_ok (cc_email inp) \<and> length (cc_email inp) \<le> 320 \<and>
            3 \<le> length (cc_phone inp) \<and> length (cc_phone inp) \<le> 40 \<and> at_most 2000 (cc_notes inp) \<and>
            at_most 32 (cc_fiscalCode inp) \<and> at_most 20 (cc_vatNumber inp) \<and> at_most 10 (cc_sdiRecipientCode inp) \<and>
            at_most 320 (cc_pec inp) \<and> italian_fields_ok email_ok (cc_pec out) (cc_fiscalCode out) (cc_vatNumber out)
         then Some out else None)"

record update_customer_input =
  xc_name :: "string option"
  xc_email :: "string option"
  xc_phone :: "string option"
  xc_notes :: "string option option"
  xc_fiscalCode :: "string option option"
  xc_vatNumber :: "string option option"
  xc_sdiRecipientCode :: "string option option"
  xc_pec :: "string option option"
  xc_privacyNoticeVersion :: "string option option"
  xc_privacyNoticeAcceptedAt :: "time option option"
  xc_marketingEmailOptIn :: "bool option"
  xc_marketingOptInAt :: "time option option"

definition sent :: "'a option option \<Rightarrow> 'a option" where
  "sent x = (case x of None \<Rightarrow> None | Some y \<Rightarrow> y)"

definition updateCustomerSchema :: "(string \<Rightarrow> bool) \<Rightarrow> update_customer_input \<Rightarrow> update_customer_input option" where
  "updateCustomerSchema email_ok inp =
     (if xc_name inp \<noteq> Some [] \<and> at_most 200 (xc_name inp) \<and>
         (case xc_email inp of None \<Rightarrow> True | Some e \<Rightarrow> email_ok e \<and> length e \<le> 320) \<and>
         (case xc_phone inp of None \<Rightarrow> True | Some p \<Rightarrow> 3 \<le> length p \<and> length p \<le> 40) \<and>
         at_most 2000 (sent (xc_notes inp)) \<and> at_most 32 (sent (xc_fiscalCode inp)) \<and> at_most 20 (sent (xc_vatNumber inp)) \<and>
         at_most 10 (sent (xc_sdiRecipientCode inp)) \<and> at_most 320 (sent (xc_pec inp)) \<and>
         at_most 64 (sent (xc_privacyNoticeVersion inp)) \<and>
         italian_fields_ok email_ok (sent (xc_pec inp)) (sent (xc_fiscalCode inp)) (sent (xc_vatNumber inp))
      then Some (inp\<lparr>xc_email := map_option stored_email (xc_email inp)\<rparr>) else None)"

section \<open>Listing and reading\<close>

definition count_reservations :: "db \<Rightarrow> string \<Rightarrow> nat" where
  "count_reservations d i = length (filter (\<lambda>r. r_customerId r = Some i) (d_reservations d))"

definition ocr_waits :: "customer_document \<Rightarrow> bool" where
  "ocr_waits x \<longleftrightarrow> cd_ocrStatus x = OCR_PENDING \<and> cd_uploadCompletedAt x \<noteq> None \<and> cd_ocrAppliedAt x = None"

definition customer_matches :: "db \<Rightarrow> string option \<Rightarrow> string \<Rightarrow> bool \<Rightarrow> customer \<Rightarrow> bool" where
  "customer_matches d company trimmed ocrPending c \<longleftrightarrow>
     (company = None \<or> company = Some (cu_companyId c)) \<and>
     (trimmed = [] \<or> containsInsensitive trimmed (Some (cu_name c)) \<or> containsInsensitive trimmed (Some (cu_email c)) \<or>
        contains trimmed (cu_phone c) \<or> containsInsensitive trimmed (cu_fiscalCode c) \<or>
        (cu_vatNumber c \<noteq> None \<and> contains trimmed (the (cu_vatNumber c))) \<or>
        containsInsensitive trimmed (cu_sdiRecipientCode c) \<or> containsInsensitive trimmed (cu_pec c)) \<and>
     (ocrPending \<longrightarrow> list_ex (\<lambda>x. cd_customerId x = cu_id c \<and> ocr_waits x) (d_documents d))"

definition findAllCustomers ::
  "db \<Rightarrow> env \<Rightarrow> jwt_user \<Rightarrow> string option \<Rightarrow> string option \<Rightarrow> bool \<Rightarrow> (customer \<times> nat) list result" where
  "findAllCustomers d env user companyId q ocrPending =
     andThen (effectiveListCompanyFilter env user companyId) (\<lambda>company.
     Inr (map (\<lambda>c. (c, count_reservations d (cu_id c)))
       (sort_key (\<lambda>c. (cu_name c, cu_email c))
         (filter (customer_matches d company (trim (or_else q [])) ocrPending) (d_customers d)))))"

record rental_row =
  rr_id :: string
  rr_status :: reservation_status
  rr_source :: reservation_source
  rr_pickupAt :: time
  rr_returnAt :: time
  rr_totalCents :: "int option"
  rr_currency :: string
  rr_licensePlate :: "string option"
  rr_className :: "string option"
  rr_classCode :: "string option"

definition rental_row_of :: "db \<Rightarrow> reservation \<Rightarrow> rental_row" where
  "rental_row_of d r =
     (let v = find_vehicle d (r_vehicleId r); k = Option.bind v (\<lambda>v. find_class d (v_vehicleClassId v))
      in \<lparr>rr_id = r_id r, rr_status = r_status r, rr_source = r_source r, rr_pickupAt = r_pickupAt r,
          rr_returnAt = r_returnAt r, rr_totalCents = r_totalCents r, rr_currency = r_currency r,
          rr_licensePlate = map_option v_licensePlate v, rr_className = map_option vc_name k, rr_classCode = map_option vc_code k\<rparr>)"

definition agent_scope :: "jwt_user \<Rightarrow> reservation \<Rightarrow> bool" where
  "agent_scope user r \<longleftrightarrow>
     (u_role user = AGENT \<and> truthy (u_stationId user) \<longrightarrow>
        u_stationId user = Some (r_pickupStationId r) \<or> u_stationId user = Some (r_returnStationId r))"

definition rentals_of :: "db \<Rightarrow> jwt_user \<Rightarrow> string \<Rightarrow> reservation list" where
  "rentals_of d user i =
     sort_key (\<lambda>r. - r_pickupAt r) (filter (\<lambda>r. r_customerId r = Some i \<and> agent_scope user r) (d_reservations d))"

record customer_view =
  cw_customer :: customer
  cw_reservationCount :: nat
  cw_recentReservations :: "rental_row list"

definition visible_customer :: "db \<Rightarrow> env \<Rightarrow> jwt_user \<Rightarrow> string \<Rightarrow> customer result" where
  "visible_customer d env user i =
     (let msg = ''Customer not found: '' @ i
      in andThen (orElse (find_customer d i) (NotFound msg)) (\<lambda>c.
         andThen (assertSameCompany env user (cu_companyId c) msg) (\<lambda>_. Inr c)))"

definition findOneCustomer :: "db \<Rightarrow> env \<Rightarrow> jwt_user \<Rightarrow> string \<Rightarrow> customer_view result" where
  "findOneCustomer d env user i =
     andThen (visible_customer d env user i) (\<lambda>c.
     Inr \<lparr>cw_customer = c, cw_reservationCount = length (rentals_of d user i),
          cw_recentReservations = map (rental_row_of d) (take 25 (rentals_of d user i))\<rparr>)"

definition listCustomerReservations ::
  "db \<Rightarrow> env \<Rightarrow> jwt_user \<Rightarrow> string \<Rightarrow> nat \<Rightarrow> nat \<Rightarrow> (rental_row list \<times> nat) result" where
  "listCustomerReservations d env user i limit offset =
     andThen (visible_customer d env user i) (\<lambda>_.
     Inr (map (rental_row_of d) (take limit (drop offset (rentals_of d user i))), length (rentals_of d user i)))"

section \<open>Hints at duplicates\<close>

record customer_match =
  mt_id :: string
  mt_name :: string
  mt_email :: string
  mt_phone :: string

definition match_of :: "customer \<Rightarrow> customer_match" where
  "match_of c = \<lparr>mt_id = cu_id c, mt_name = cu_name c, mt_email = cu_email c, mt_phone = cu_phone c\<rparr>"

definition lookup_company :: "env \<Rightarrow> jwt_user \<Rightarrow> string \<Rightarrow> string result" where
  "lookup_company env user companyId =
     andThen (effectiveListCompanyFilter env user (Some companyId)) (\<lambda>f.
     if truthy f then Inr (the f) else Inl (BadRequest ''companyId is required''))"

definition first_match :: "db \<Rightarrow> string \<Rightarrow> string option \<Rightarrow> (customer \<Rightarrow> bool) \<Rightarrow> customer_match option" where
  "first_match d companyId exclude P =
     map_option match_of (List.find (\<lambda>c. cu_companyId c = companyId \<and> (truthy exclude \<longrightarrow> Some (cu_id c) \<noteq> exclude) \<and> P c) (d_customers d))"

definition lookupByEmail :: "db \<Rightarrow> env \<Rightarrow> jwt_user \<Rightarrow> string \<Rightarrow> string \<Rightarrow> string option \<Rightarrow> customer_match option result" where
  "lookupByEmail d env user companyId emailNormalized exclude =
     andThen (lookup_company env user companyId) (\<lambda>cid.
     Inr (first_match d cid exclude (\<lambda>c. cu_email c = emailNormalized)))"

definition without_blanks :: "string \<Rightarrow> string" where
  "without_blanks s = filter (\<lambda>c. c \<noteq> CHR '' '') s"

definition lookupByFiscalCode :: "db \<Rightarrow> env \<Rightarrow> jwt_user \<Rightarrow> string \<Rightarrow> string \<Rightarrow> string option \<Rightarrow> customer_match option result" where
  "lookupByFiscalCode d env user companyId raw exclude =
     andThen (lookup_company env user companyId) (\<lambda>cid.
     let key = stripSpaces (toUpperCase (trim raw))
     in if length key \<noteq> 16 \<or> \<not> isValidItalianFiscalCode (Some key) then Inr None
        else Inr (first_match d cid exclude (\<lambda>c. map_option (\<lambda>f. toUpperCase (without_blanks f)) (cu_fiscalCode c) = Some key)))"

definition lookupByVatNumber :: "db \<Rightarrow> env \<Rightarrow> jwt_user \<Rightarrow> string \<Rightarrow> string \<Rightarrow> string option \<Rightarrow> customer_match option result" where
  "lookupByVatNumber d env user companyId raw exclude =
     andThen (lookup_company env user companyId) (\<lambda>cid.
     let tr = trim raw
     in case (if tr = [] then None else normalizeItalianVatDigits (Some tr)) of
          None \<Rightarrow> Inr None
        | Some digits \<Rightarrow>
            if digits = [] \<or> \<not> isValidItalianVatNumber (Some tr) then Inr None
            else Inr (first_match d cid exclude (\<lambda>c. map_option toLowerCase (cu_vatNumber c) \<in>
                   {Some (toLowerCase digits), Some (toLowerCase (''IT'' @ digits))})))"

definition digits_only :: "string \<Rightarrow> string" where
  "digits_only s = filter isDigit s"

definition lookupByPhone :: "db \<Rightarrow> env \<Rightarrow> jwt_user \<Rightarrow> string \<Rightarrow> string \<Rightarrow> string option \<Rightarrow> customer_match option result" where
  "lookupByPhone d env user companyId raw exclude =
     andThen (lookup_company env user companyId) (\<lambda>cid.
     let digits = digits_only raw
     in if length digits < 8 \<or> length digits > 15 then Inr None
        else Inr (first_match d cid exclude (\<lambda>c. digits_only (cu_phone c) = digits)))"

section \<open>Creating and updating\<close>

definition email_taken :: "http_error" where
  "email_taken = Conflict ''A customer with this email already exists for this company''"

definition on_unique :: "http_error \<Rightarrow> http_error \<Rightarrow> (db, 'a) prog" where
  "on_unique to e = throw (if e = Prisma ''P2002'' then to else e)"

definition new_customer :: "string \<Rightarrow> create_customer_input \<Rightarrow> customer" where
  "new_customer newId inp =
     \<lparr>cu_id = newId, cu_companyId = cc_companyId inp, cu_name = trim (cc_name inp), cu_email = cc_email inp,
      cu_phone = trim (cc_phone inp), cu_privacyNoticeVersion = None, cu_privacyNoticeAcceptedAt = None,
      cu_marketingEmailOptIn = False, cu_marketingOptInAt = None, cu_anonymizedAt = None, cu_notes = trimOrNull (cc_notes inp),
      cu_fiscalCode = trimOrNull (cc_fiscalCode inp), cu_vatNumber = trimOrNull (cc_vatNumber inp),
      cu_sdiRecipientCode = map_option toUpperCase (trimOrNull (cc_sdiRecipientCode inp)),
      cu_pec = map_option toLowerCase (trimOrNull (cc_pec inp))\<rparr>"

definition welcome_mail :: "ctx \<Rightarrow> customer \<Rightarrow> unit dbprog" where
  "welcome_mail ctx c =
     (if c_mailOn ctx then send_mail \<lparr>m_kind = ''deskCustomerWelcome'', m_to = cu_email c, m_reservationId = [], m_link = None\<rparr>
      else ret ())"

definition customer_create :: "ctx \<Rightarrow> jwt_user \<Rightarrow> string \<Rightarrow> create_customer_input \<Rightarrow> customer dbprog" where
  "customer_create ctx user newId inp =
     andDo (asks (\<lambda>_. assertCreateBodyCompanyId (c_env ctx) user (cc_companyId inp)))
     (andDo (asks (\<lambda>d. ensure (find_company d (cc_companyId inp) \<noteq> None) (NotFound (''Company not found: '' @ cc_companyId inp))))
     (catch
        (let c = new_customer newId inp
         in andDo (insert_customer c) (andDo (welcome_mail ctx c) (ret c)))
        (on_unique email_taken)))"

definition no_update_fields :: "update_customer_input \<Rightarrow> bool" where
  "no_update_fields inp \<longleftrightarrow>
     xc_name inp = None \<and> xc_email inp = None \<and> xc_phone inp = None \<and> xc_notes inp = None \<and> xc_fiscalCode inp = None \<and>
     xc_vatNumber inp = None \<and> xc_sdiRecipientCode inp = None \<and> xc_pec inp = None \<and> xc_privacyNoticeVersion inp = None \<and>
     xc_privacyNoticeAcceptedAt inp = None \<and> xc_marketingEmailOptIn inp = None \<and> xc_marketingOptInAt inp = None"

definition b4_patch_requested :: "update_customer_input \<Rightarrow> bool" where
  "b4_patch_requested inp \<longleftrightarrow>
     xc_privacyNoticeVersion inp \<noteq> None \<or> xc_privacyNoticeAcceptedAt inp \<noteq> None \<or> xc_marketingEmailOptIn inp \<noteq> None \<or>
     xc_marketingOptInAt inp \<noteq> None"

definition patched_details :: "update_customer_input \<Rightarrow> customer \<Rightarrow> customer" where
  "patched_details inp c =
     c\<lparr>cu_name := (case xc_name inp of None \<Rightarrow> cu_name c | Some s \<Rightarrow> trim s),
       cu_email := or_else (xc_email inp) (cu_email c),
       cu_phone := (case xc_phone inp of None \<Rightarrow> cu_phone c | Some s \<Rightarrow> trim s),
       cu_notes := (case xc_notes inp of None \<Rightarrow> cu_notes c | Some x \<Rightarrow> if truthy x then x else None),
       cu_fiscalCode := (case xc_fiscalCode inp of None \<Rightarrow> cu_fiscalCode c | Some x \<Rightarrow> trimOrNull x),
       cu_vatNumber := (case xc_vatNumber inp of None \<Rightarrow> cu_vatNumber c | Some x \<Rightarrow> trimOrNull x),
       cu_sdiRecipientCode :=
         (case xc_sdiRecipientCode inp of None \<Rightarrow> cu_sdiRecipientCode c | Some x \<Rightarrow> map_option toUpperCase (trimOrNull x)),
       cu_pec := (case xc_pec inp of None \<Rightarrow> cu_pec c | Some x \<Rightarrow> map_option toLowerCase (trimOrNull x))\<rparr>"

definition patched_consent :: "time \<Rightarrow> update_customer_input \<Rightarrow> customer \<Rightarrow> customer" where
  "patched_consent now inp c =
     c\<lparr>cu_privacyNoticeVersion := or_else (xc_privacyNoticeVersion inp) (cu_privacyNoticeVersion c),
       cu_privacyNoticeAcceptedAt :=
         (case xc_privacyNoticeAcceptedAt inp of
            Some at \<Rightarrow> at
          | None \<Rightarrow> if truthy (sent (xc_privacyNoticeVersion inp)) then Some now else cu_privacyNoticeAcceptedAt c),
       cu_marketingEmailOptIn := or_else (xc_marketingEmailOptIn inp) (cu_marketingEmailOptIn c),
       cu_marketingOptInAt :=
         (case xc_marketingEmailOptIn inp of
            Some True \<Rightarrow> (case sent (xc_marketingOptInAt inp) of Some at \<Rightarrow> Some at | None \<Rightarrow> Some now)
          | Some False \<Rightarrow> None
          | None \<Rightarrow> or_else (xc_marketingOptInAt inp) (cu_marketingOptInAt c))\<rparr>"

definition patched_customer :: "time \<Rightarrow> update_customer_input \<Rightarrow> customer \<Rightarrow> customer" where
  "patched_customer now inp c = patched_consent now inp (patched_details inp c)"

definition other_with_email :: "db \<Rightarrow> customer \<Rightarrow> bool" where
  "other_with_email d c \<longleftrightarrow>
     list_ex (\<lambda>x. cu_id x \<noteq> cu_id c \<and> cu_companyId x = cu_companyId c \<and> cu_email x = cu_email c) (d_customers d)"

definition write_customer :: "customer \<Rightarrow> (customer \<Rightarrow> customer) \<Rightarrow> customer dbprog" where
  "write_customer row f =
     andDo (asks (\<lambda>d. ensure (\<not> other_with_email d (f row)) (Prisma ''P2002'')))
     (andDo (modify (d_customers_update (update_row cu_id (cu_id row) f))) (ret (f row)))"

definition audit_consent :: "string \<Rightarrow> customer \<Rightarrow> customer \<Rightarrow> unit dbprog" where
  "audit_consent userId old new =
     (if stringify (b4_json (Some (b4Snapshot old))) \<noteq> stringify (b4_json (Some (b4Snapshot new))) then
        audit (bare_audit (Some userId) ''customer.b4_consent_update'' ''Customer'' (cu_id old)
          (JObj [(''companyId'', JStr (cu_companyId old)), (''before'', b4_json (Some (b4Snapshot old))),
             (''after'', b4_json (Some (b4Snapshot new)))]))
      else ret ())"

definition check_customer_update :: "db \<Rightarrow> env \<Rightarrow> jwt_user \<Rightarrow> string \<Rightarrow> update_customer_input \<Rightarrow> customer result" where
  "check_customer_update d env user i inp =
     andThen (visible_customer d env user i) (\<lambda>row.
     andThen (ensure (cu_anonymizedAt row = None) (BadRequest ''Cannot update an anonymized customer (B4)'')) (\<lambda>_.
     andThen (ensure (\<not> no_update_fields inp) (BadRequest ''No fields to update'')) (\<lambda>_. Inr row)))"

definition customer_update :: "ctx \<Rightarrow> jwt_user \<Rightarrow> string \<Rightarrow> update_customer_input \<Rightarrow> customer dbprog" where
  "customer_update ctx user i inp =
     bnd (asks (\<lambda>d. check_customer_update d (c_env ctx) user i inp)) (\<lambda>row.
     catch
       (bnd (write_customer row (patched_customer (c_now ctx) inp)) (\<lambda>updated.
        andDo (if b4_patch_requested inp then audit_consent (u_sub user) row updated else ret ())
        (ret updated)))
       (on_unique email_taken))"

section \<open>Merging and deleting\<close>

definition check_merge :: "db \<Rightarrow> env \<Rightarrow> jwt_user \<Rightarrow> string \<Rightarrow> string \<Rightarrow> (customer \<times> customer) result" where
  "check_merge d env user fromId intoId =
     (let msgF = ''Customer not found: '' @ fromId; msgI = ''Customer not found: '' @ intoId
      in andThen (ensure (fromId \<noteq> intoId) (BadRequest ''Cannot merge a customer record into itself'')) (\<lambda>_.
         andThen (orElse (find_customer d fromId) (NotFound msgF)) (\<lambda>from.
         andThen (orElse (find_customer d intoId) (NotFound msgI)) (\<lambda>into.
         andThen (assertSameCompany env user (cu_companyId from) msgF) (\<lambda>_.
         andThen (assertSameCompany env user (cu_companyId into) msgI) (\<lambda>_.
         andThen (ensure (cu_companyId from = cu_companyId into)
           (BadRequest ''Merge is only allowed between customers of the same company'')) (\<lambda>_.
         andThen (ensure (cu_anonymizedAt from = None \<and> cu_anonymizedAt into = None)
           (BadRequest ''Cannot merge anonymized customer records'')) (\<lambda>_. Inr (from, into)))))))))"

definition move_reservations :: "time \<Rightarrow> string \<Rightarrow> string \<Rightarrow> reservation list \<Rightarrow> reservation list" where
  "move_reservations now fromId intoId =
     map (\<lambda>r. if r_customerId r = Some fromId then r\<lparr>r_customerId := Some intoId, r_updatedAt := now\<rparr> else r)"

definition move_documents :: "string \<Rightarrow> string \<Rightarrow> customer_document list \<Rightarrow> customer_document list" where
  "move_documents fromId intoId = map (\<lambda>x. if cd_customerId x = fromId then x\<lparr>cd_customerId := intoId\<rparr> else x)"

text \<open>Deleting a customer takes the documents along and unlinks the bookings.\<close>

definition delete_customer_rows :: "string \<Rightarrow> db \<Rightarrow> db" where
  "delete_customer_rows i d =
     d\<lparr>d_customers := delete_row cu_id i (d_customers d),
       d_documents := filter (\<lambda>x. cd_customerId x \<noteq> i) (d_documents d),
       d_reservations := map (\<lambda>r. if r_customerId r = Some i then r\<lparr>r_customerId := None\<rparr> else r) (d_reservations d)\<rparr>"

definition merge_rows :: "time \<Rightarrow> string \<Rightarrow> string \<Rightarrow> db \<Rightarrow> db" where
  "merge_rows now fromId intoId d =
     delete_customer_rows fromId
       (d_documents_update (move_documents fromId intoId) (d_reservations_update (move_reservations now fromId intoId) d))"

definition documents_of :: "db \<Rightarrow> string \<Rightarrow> customer_document list" where
  "documents_of d i = filter (\<lambda>x. cd_customerId x = i) (d_documents d)"

definition mergeInto :: "ctx \<Rightarrow> jwt_user \<Rightarrow> string \<Rightarrow> string \<Rightarrow> (nat \<times> nat) dbprog" where
  "mergeInto ctx user fromId intoId =
     bnd (asks (\<lambda>d. check_merge d (c_env ctx) user fromId intoId)) (\<lambda>(from, into).
     bnd (transaction
        (bnd (gets (\<lambda>d. (count_reservations d fromId, length (documents_of d fromId)))) (\<lambda>moved.
         andDo (modify (merge_rows (c_now ctx) fromId intoId)) (ret moved)))) (\<lambda>(reservationsMoved, documentsMoved).
      andDo (audit (bare_audit (Some (u_sub user)) ''customer.merge'' ''Customer'' intoId
        (JObj [(''companyId'', JStr (cu_companyId into)), (''fromCustomerId'', JStr fromId), (''intoCustomerId'', JStr intoId),
          (''reservationsMoved'', JNum (int reservationsMoved)), (''documentsMoved'', JNum (int documentsMoved))])))
      (ret (reservationsMoved, documentsMoved))))"

definition customer_remove :: "ctx \<Rightarrow> jwt_user \<Rightarrow> string \<Rightarrow> unit dbprog" where
  "customer_remove ctx user i =
     andDo (asks (\<lambda>d. visible_customer d (c_env ctx) user i)) (modify (delete_customer_rows i))"

section \<open>Export and anonymisation\<close>

record gdpr_reservation =
  ge_id :: string
  ge_status :: reservation_status
  ge_source :: reservation_source
  ge_totalCents :: "int option"
  ge_currency :: string
  ge_paidAt :: "time option"
  ge_pickupAt :: time
  ge_returnAt :: time
  ge_createdAt :: time
  ge_companyId :: string

definition gdpr_reservation_of :: "reservation \<Rightarrow> gdpr_reservation" where
  "gdpr_reservation_of r =
     \<lparr>ge_id = r_id r, ge_status = r_status r, ge_source = r_source r, ge_totalCents = r_totalCents r, ge_currency = r_currency r,
      ge_paidAt = r_paidAt r, ge_pickupAt = r_pickupAt r, ge_returnAt = r_returnAt r, ge_createdAt = r_createdAt r,
      ge_companyId = r_companyId r\<rparr>"

record gdpr_document =
  gd_id :: string
  gd_docType :: document_type
  gd_originalName :: string
  gd_mimeType :: string
  gd_sizeBytes :: int
  gd_createdAt :: time
  gd_retentionUntil :: "time option"
  gd_verifiedAt :: "time option"
  gd_verifiedByUserId :: "string option"

definition gdpr_document_of :: "customer_document \<Rightarrow> gdpr_document" where
  "gdpr_document_of x =
     \<lparr>gd_id = cd_id x, gd_docType = cd_docType x, gd_originalName = cd_originalName x, gd_mimeType = cd_mimeType x,
      gd_sizeBytes = cd_sizeBytes x, gd_createdAt = cd_createdAt x, gd_retentionUntil = cd_retentionUntil x,
      gd_verifiedAt = cd_verifiedAt x, gd_verifiedByUserId = cd_verifiedByUserId x\<rparr>"

record gdpr_package =
  gp_exportedAt :: string
  gp_customer :: customer
  gp_reservationCount :: nat
  gp_reservations :: "gdpr_reservation list"
  gp_documents :: "gdpr_document list"
  gp_companyPrivacyNoticeRegister :: "privacy_notice list"

text \<open>Notices in the order of the register: undated ones first, as the database sorts them, then the latest.\<close>

definition notice_order :: "privacy_notice \<Rightarrow> int \<times> time \<times> string" where
  "notice_order n =
     (case pn_effectiveFrom n of None \<Rightarrow> (0, 0, pn_version n) | Some at \<Rightarrow> (1, - at, pn_version n))"

definition exportGdprPackage :: "db \<Rightarrow> ctx \<Rightarrow> jwt_user \<Rightarrow> string \<Rightarrow> gdpr_package result" where
  "exportGdprPackage d ctx user i =
     andThen (findOneCustomer d (c_env ctx) user i) (\<lambda>row.
     Inr \<lparr>gp_exportedAt = toISOString (c_now ctx), gp_customer = cw_customer row, gp_reservationCount = cw_reservationCount row,
          gp_reservations = map gdpr_reservation_of (sort_key (\<lambda>r. - r_createdAt r) (filter (\<lambda>r. r_customerId r = Some i) (d_reservations d))),
          gp_documents = map gdpr_document_of (sort_key (\<lambda>x. - cd_createdAt x) (documents_of d i)),
          gp_companyPrivacyNoticeRegister =
            sort_key notice_order (filter (\<lambda>n. pn_companyId n = cu_companyId (cw_customer row)) (d_notices d))\<rparr>)"

definition redacted_email :: "string \<Rightarrow> string" where
  "redacted_email i = ''re-'' @ i @ ''@anonymized.invalid''"

definition redacted :: "time \<Rightarrow> customer \<Rightarrow> customer" where
  "redacted now c =
     \<lparr>cu_id = cu_id c, cu_companyId = cu_companyId c, cu_name = ''Redacted'', cu_email = redacted_email (cu_id c), cu_phone = ''-'',
      cu_privacyNoticeVersion = None, cu_privacyNoticeAcceptedAt = None, cu_marketingEmailOptIn = False,
      cu_marketingOptInAt = None, cu_anonymizedAt = Some now, cu_notes = None, cu_fiscalCode = None, cu_vatNumber = None,
      cu_sdiRecipientCode = None, cu_pec = None\<rparr>"

definition redact_reservations :: "time \<Rightarrow> string \<Rightarrow> reservation list \<Rightarrow> reservation list" where
  "redact_reservations now i =
     map (\<lambda>r. if r_customerId r = Some i
       then r\<lparr>r_customerName := ''Redacted'', r_customerEmail := redacted_email i, r_customerPhone := ''-'', r_updatedAt := now\<rparr> else r)"

definition check_anonymize :: "db \<Rightarrow> env \<Rightarrow> jwt_user \<Rightarrow> string \<Rightarrow> customer result" where
  "check_anonymize d env user i =
     andThen (ensure (u_role user \<notin> {AGENT, READONLY_ACCOUNTING})
       (Forbidden ''Only admin or branch manager can anonymize a customer'')) (\<lambda>_.
     andThen (visible_customer d env user i) (\<lambda>row.
     andThen (ensure (cu_anonymizedAt row = None) (BadRequest ''Customer is already anonymized'')) (\<lambda>_. Inr row)))"

definition anonymize :: "ctx \<Rightarrow> jwt_user \<Rightarrow> string \<Rightarrow> string option \<Rightarrow> customer dbprog" where
  "anonymize ctx user i reason =
     bnd (asks (\<lambda>d. check_anonymize d (c_env ctx) user i)) (\<lambda>row.
     andDo (transaction
        (bnd (write_customer row (redacted (c_now ctx))) (\<lambda>_.
         modify (d_reservations_update (redact_reservations (c_now ctx) i)))))
     (andDo (audit (bare_audit (Some (u_sub user)) ''customer.gdpr_anonymize'' ''Customer'' i
        (JObj [(''companyId'', JStr (cu_companyId row)), (''reason'', case reason of None \<Rightarrow> JUndefined | Some s \<Rightarrow> JStr (take 200 s))])))
     (asks (\<lambda>d. orElse (find_customer d i) (Prisma ''P2025'')))))"

end
