(* ===== verification/Customers_Safety.thy ===== *)
theory Customers_Safety
  imports Customers Row_Changes Fixtures
begin

text \<open>
  What the operations on customer records guarantee: one record per address and company whatever requests
  arrive, a merge that loses nothing, an anonymisation that is never undone, and no reach across companies.
\<close>

section \<open>Requests\<close>

datatype customer_request =
    CreateCustomer ctx jwt_user string create_customer_input
  | UpdateCustomer ctx jwt_user string update_customer_input
  | MergeCustomer ctx jwt_user string string
  | RemoveCustomer ctx jwt_user string
  | AnonymizeCustomer ctx jwt_user string "string option"

fun serve_customer :: "(string \<Rightarrow> bool) \<Rightarrow> customer_request \<Rightarrow> unit dbprog" where
  "serve_customer email_ok (CreateCustomer ctx user newId inp) =
     bnd (asks (\<lambda>_. orElse (createCustomerSchema email_ok inp) (BadRequest ''Validation failed''))) (\<lambda>data.
     andDo (customer_create ctx user newId data) (ret ()))"
| "serve_customer email_ok (UpdateCustomer ctx user i inp) =
     bnd (asks (\<lambda>_. orElse (updateCustomerSchema email_ok inp) (BadRequest ''Validation failed''))) (\<lambda>data.
     andDo (customer_update ctx user i data) (ret ()))"
| "serve_customer email_ok (MergeCustomer ctx user i j) = andDo (mergeInto ctx user i j) (ret ())"
| "serve_customer email_ok (RemoveCustomer ctx user i) = customer_remove ctx user i"
| "serve_customer email_ok (AnonymizeCustomer ctx user i reason) = andDo (anonymize ctx user i reason) (ret ())"

fun new_customer_id :: "customer_request \<Rightarrow> string option" where
  "new_customer_id (CreateCustomer ctx user newId inp) = Some newId"
| "new_customer_id other = None"

fun customer_clerk :: "customer_request \<Rightarrow> env \<times> jwt_user" where
  "customer_clerk (CreateCustomer ctx user newId inp) = (c_env ctx, user)"
| "customer_clerk (UpdateCustomer ctx user i inp) = (c_env ctx, user)"
| "customer_clerk (MergeCustomer ctx user i j) = (c_env ctx, user)"
| "customer_clerk (RemoveCustomer ctx user i) = (c_env ctx, user)"
| "customer_clerk (AnonymizeCustomer ctx user i reason) = (c_env ctx, user)"

section \<open>What the checks say\<close>

lemma find_customer_Some: "find_customer d i = Some c \<Longrightarrow> c \<in> set (d_customers d) \<and> cu_id c = i"
  using customers.find_Some [of i d c] by (simp add: find_customer_def)

lemma visible_customer_Inr:
  "visible_customer d env user i = Inr c \<longleftrightarrow> find_customer d i = Some c \<and> may_see_company env user (cu_companyId c)"
  by (auto simp: visible_customer_def Let_def andThen_Inr)

lemma check_update_Inr:
  "check_customer_update d env user i inp = Inr c \<longleftrightarrow>
     find_customer d i = Some c \<and> may_see_company env user (cu_companyId c) \<and> cu_anonymizedAt c = None \<and> \<not> no_update_fields inp"
  by (auto simp: check_customer_update_def andThen_Inr visible_customer_Inr)

lemma check_anonymize_Inr:
  "check_anonymize d env user i = Inr c \<longleftrightarrow>
     u_role user \<notin> {AGENT, READONLY_ACCOUNTING} \<and> find_customer d i = Some c \<and> may_see_company env user (cu_companyId c) \<and>
     cu_anonymizedAt c = None"
  by (auto simp: check_anonymize_def andThen_Inr visible_customer_Inr)

lemma check_merge_Inr:
  "check_merge d env user i j = Inr (a, b) \<longleftrightarrow>
     i \<noteq> j \<and> find_customer d i = Some a \<and> find_customer d j = Some b \<and> may_see_company env user (cu_companyId a) \<and>
     cu_companyId a = cu_companyId b \<and> cu_anonymizedAt a = None \<and> cu_anonymizedAt b = None"
  by (auto simp: check_merge_def Let_def andThen_Inr)

lemma wpre_write_customer [wp]:
  "wpre (write_customer row f) Q E d =
     ((other_with_email d (f row) \<longrightarrow> E (Prisma ''P2002'') d) \<and>
      (\<not> other_with_email d (f row) \<longrightarrow> Q (f row) (d_customers_update (update_row cu_id (cu_id row) f) d)))"
  by (auto simp: write_customer_def wp)

lemma wpre_insert_customer [wp]:
  "wpre (insert_customer c) Q E d =
     ((find_company d (cu_companyId c) = None \<longrightarrow> E (Prisma ''P2025'') d) \<and>
      (find_company d (cu_companyId c) \<noteq> None \<longrightarrow>
        (if find_customer d (cu_id c) = None \<and> find_customer_by_email d (cu_companyId c) (cu_email c) = None
         then Q () (d_customers_update (\<lambda>cs. cs @ [c]) d) else E (Prisma ''P2002'') d)))"
  by (auto simp: insert_customer_def wp)

lemma wpre_on_unique [wp]: "wpre (on_unique a e) Q E d = E (if e = Prisma ''P2002'' then a else e) d"
  by (simp add: on_unique_def wp)

lemma patched_keeps [simp]:
  "cu_id (patched_customer now inp c) = cu_id c" "cu_companyId (patched_customer now inp c) = cu_companyId c"
  "cu_anonymizedAt (patched_customer now inp c) = cu_anonymizedAt c"
  by (simp_all add: patched_customer_def patched_consent_def patched_details_def)

section \<open>A merge loses nothing\<close>

lemma filter_length_or:
  "(\<And>x. x \<in> set xs \<Longrightarrow> \<not> (P x \<and> Q x)) \<Longrightarrow> length (filter (\<lambda>x. P x \<or> Q x) xs) = length (filter P xs) + length (filter Q xs)"
  by (induction xs) auto

lemma merge_tables:
  assumes "i \<noteq> j"
  shows "d_reservations (merge_rows now i j d) = move_reservations now i j (d_reservations d)"
    "d_documents (merge_rows now i j d) = move_documents i j (d_documents d)"
    "d_customers (merge_rows now i j d) = delete_row cu_id i (d_customers d)"
  using assms
  by (auto simp: merge_rows_def delete_customer_rows_def move_reservations_def move_documents_def intro!: map_idI filter_True)

lemma merged_run:
  assumes "mergeInto ctx user i j d = (Inr (m, n), d')"
  obtains a b entry where "check_merge d (c_env ctx) user i j = Inr (a, b)"
    "d' = d_audit_update (\<lambda>as. as @ [entry]) (merge_rows (c_now ctx) i j d)"
    "m = count_reservations d i" "n = length (documents_of d i)"
proof -
  have "wpre (mergeInto ctx user i j) (\<lambda>(m, n) d'. \<exists>a b entry. check_merge d (c_env ctx) user i j = Inr (a, b) \<and>
      d' = d_audit_update (\<lambda>as. as @ [entry]) (merge_rows (c_now ctx) i j d) \<and>
      m = count_reservations d i \<and> n = length (documents_of d i)) (\<lambda>_ _. True) d"
    by (auto simp: mergeInto_def wp split: prod.splits)
  from wpre_success [OF this assms] show thesis using that by auto
qed

text \<open>
  C10: A merge loses nothing: the record that stays has the bookings and documents of both, the other one is
  gone and nothing refers to it, no booking and no document appears or disappears, and the answer counts what
  was moved.
\<close>

theorem merge_moves_everything:
  assumes "mergeInto ctx user i j d = (Inr (m, n), d')"
  shows "m = count_reservations d i \<and> n = length (documents_of d i) \<and>
    count_reservations d' j = count_reservations d j + count_reservations d i \<and>
    length (documents_of d' j) = length (documents_of d j) + length (documents_of d i) \<and>
    find_customer d' i = None \<and> count_reservations d' i = 0 \<and> documents_of d' i = [] \<and>
    map r_id (d_reservations d') = map r_id (d_reservations d) \<and> map cd_id (d_documents d') = map cd_id (d_documents d)"
proof -
  from assms obtain a b entry where check: "check_merge d (c_env ctx) user i j = Inr (a, b)"
    and d': "d' = d_audit_update (\<lambda>as. as @ [entry]) (merge_rows (c_now ctx) i j d)"
    and counts: "m = count_reservations d i" "n = length (documents_of d i)"
    by (rule merged_run)
  have ij: "i \<noteq> j" using check by (simp add: check_merge_Inr)
  note tables' = merge_tables [OF ij, of "c_now ctx" d]
  have "filter (\<lambda>r. r_customerId r = Some j) (move_reservations (c_now ctx) i j rs) =
      move_reservations (c_now ctx) i j (filter (\<lambda>r. r_customerId r = Some j \<or> r_customerId r = Some i) rs)" for rs
    by (induction rs) (auto simp: move_reservations_def)
  then have r: "count_reservations d' j = count_reservations d j + count_reservations d i"
    using ij by (simp add: count_reservations_def d' tables' move_reservations_def filter_length_or)
  have "filter (\<lambda>x. cd_customerId x = j) (move_documents i j xs) =
      move_documents i j (filter (\<lambda>x. cd_customerId x = j \<or> cd_customerId x = i) xs)" for xs
    by (induction xs) (auto simp: move_documents_def)
  then have x: "length (documents_of d' j) = length (documents_of d j) + length (documents_of d i)"
    using ij by (simp add: documents_of_def d' tables' move_documents_def filter_length_or)
  have "find_customer d' i = None" by (simp add: find_customer_def d' tables' tables)
  moreover have "count_reservations d' i = 0" "documents_of d' i = []"
    using ij by (auto simp: count_reservations_def documents_of_def d' tables' move_reservations_def move_documents_def filter_empty_conv)
  moreover have "map r_id (d_reservations d') = map r_id (d_reservations d)" "map cd_id (d_documents d') = map cd_id (d_documents d)"
    by (auto simp: d' tables' move_reservations_def move_documents_def)
  ultimately show ?thesis using counts r x by blast
qed

section \<open>One record per address\<close>

definition customers_ok :: "db \<Rightarrow> bool" where
  "customers_ok d \<longleftrightarrow> keyed cu_id (d_customers d) \<and> distinct (map (\<lambda>c. (cu_companyId c, cu_email c)) (d_customers d))"

lemma customers_ok_frame [simp]:
  "customers_ok (d_audit_update g d) = customers_ok d" "customers_ok (d_mails_update k d) = customers_ok d"
  "customers_ok (d_reservations_update h d) = customers_ok d"
  by (simp_all add: customers_ok_def)

lemma customers_ok_insert:
  assumes "customers_ok d" "find_customer d (cu_id c) = None" "find_customer_by_email d (cu_companyId c) (cu_email c) = None"
  shows "customers_ok (d_customers_update (\<lambda>cs. cs @ [c]) d)"
  using assms by (auto simp: customers_ok_def keyed_def find_customer_def find_row_def find_customer_by_email_def find_None_iff)

lemma customers_ok_delete:
  "customers_ok d \<Longrightarrow> d_customers d' = delete_row cu_id i (d_customers d) \<Longrightarrow> customers_ok d'"
  by (auto simp: customers_ok_def keyed_def delete_row_def distinct_map inj_on_def)

lemma customers_ok_write:
  assumes ok: "customers_ok d" and row: "c \<in> set (d_customers d)" and f: "\<And>x. cu_id (f x) = cu_id x"
    and free: "\<not> other_with_email d (f c)"
  shows "customers_ok (d_customers_update (update_row cu_id (cu_id c) f) d)"
proof -
  let ?k = "\<lambda>x. (cu_companyId x, cu_email x)"
  have keys: "keyed cu_id (d_customers d)" "distinct (map ?k (d_customers d))" using ok by (simp_all add: customers_ok_def)
  from row obtain xs ys where rows: "d_customers d = xs @ c # ys" by (meson split_list)
  have "cu_id c \<notin> cu_id ` (set xs \<union> set ys)" using keys(1) by (auto simp: rows keyed_def)
  then have "update_row cu_id (cu_id c) f (d_customers d) = xs @ f c # ys"
    by (auto simp: rows update_row_def intro!: map_idI) (metis Un_iff imageI)+
  moreover have "?k (f c) \<notin> ?k ` (set xs \<union> set ys)"
    using free f [of c] \<open>cu_id c \<notin> _\<close> by (auto simp: other_with_email_def list_ex_iff rows) (metis Un_iff imageI)+
  ultimately have "distinct (map ?k (update_row cu_id (cu_id c) f (d_customers d)))"
    using keys(2) by (auto simp: rows)
  then show ?thesis using customers.keyed_update [of d f "cu_id c"] keys(1) f by (simp add: customers_ok_def)
qed

lemma always_customers_ok: "always customers_ok (serve_customer email_ok r)"
proof -
  have "keeps customers_ok (serve_customer email_ok r) d" if ok: "customers_ok d" for d
  proof (cases r)
    case (CreateCustomer ctx user newId inp)
    then show ?thesis
      using ok by (auto simp: keeps_def customer_create_def welcome_mail_def wp Let_def intro!: customers_ok_insert)
  next
    case (UpdateCustomer ctx user i inp)
    then show ?thesis
      using ok by (auto simp: keeps_def customer_update_def audit_consent_def wp check_update_Inr
          intro!: customers_ok_write dest!: find_customer_Some)
  next
    case (MergeCustomer ctx user i j)
    then show ?thesis
      using ok by (auto simp: keeps_def mergeInto_def wp check_merge_Inr merge_tables intro: customers_ok_delete split: prod.splits)
  next
    case (RemoveCustomer ctx user i)
    then show ?thesis
      using ok by (auto simp: keeps_def customer_remove_def wp delete_customer_rows_def intro: customers_ok_delete)
  next
    case (AnonymizeCustomer ctx user i reason)
    then show ?thesis
      using ok by (auto simp: keeps_def anonymize_def wp check_anonymize_Inr redacted_def
          intro!: customers_ok_write dest!: find_customer_Some)
  qed
  then show ?thesis by (simp add: always_def)
qed

text \<open>
  The unique index of the table, which the writes of a row carry as their guard, holds after any request: creating,
  changing, merging, deleting and anonymising leave no two records of a company with one address.
\<close>

lemma customer_addresses_distinct:
  assumes "keyed cu_id (d_customers d)" "distinct (map (\<lambda>c. (cu_companyId c, cu_email c)) (d_customers d))"
  shows "distinct (map (\<lambda>c. (cu_companyId c, cu_email c)) (d_customers (run_all (serve_customer email_ok) rs d)))"
  using always_run_all [of customers_ok "serve_customer email_ok", OF always_customers_ok] assms
  by (simp add: customers_ok_def)

section \<open>Anonymised for good\<close>

definition erased :: "string \<Rightarrow> time \<Rightarrow> db \<Rightarrow> bool" where
  "erased i at d \<longleftrightarrow> list_all (\<lambda>c. cu_id c = i \<longrightarrow> c = redacted at c) (d_customers d) \<and>
     list_all (\<lambda>r. r_customerId r = Some i \<longrightarrow>
       r_customerName r = ''Redacted'' \<and> r_customerEmail r = redacted_email i \<and> r_customerPhone r = ''-'') (d_reservations d)"

lemma erased_frame [simp]:
  "erased i at (d_audit_update g d) = erased i at d" "erased i at (d_mails_update k d) = erased i at d"
  by (simp_all add: erased_def)

lemma erased_found: "erased i at d \<Longrightarrow> find_customer d i = Some c \<Longrightarrow> cu_anonymizedAt c = Some at"
proof -
  assume "erased i at d" "find_customer d i = Some c"
  then have "c = redacted at c" using find_customer_Some by (auto simp: erased_def list_all_iff)
  then show ?thesis by (metis customer.select_convs(10) redacted_def)
qed

lemma erased_not: "erased i at d \<Longrightarrow> find_customer d j = Some x \<Longrightarrow> cu_anonymizedAt x = None \<Longrightarrow> j \<noteq> i \<and> cu_id x \<noteq> i"
  using erased_found find_customer_Some by fastforce

lemma erased_write:
  "erased i at d \<Longrightarrow> j \<noteq> i \<Longrightarrow> (\<And>x. cu_id (f x) = cu_id x) \<Longrightarrow> erased i at (d_customers_update (update_row cu_id j f) d)"
  by (auto simp: erased_def list_all_iff update_row_def)

lemma erased_merge: "erased i at d \<Longrightarrow> a \<noteq> b \<Longrightarrow> b \<noteq> i \<Longrightarrow> erased i at (merge_rows now a b d)"
  by (auto simp: erased_def merge_tables list_all_iff delete_row_def move_reservations_def split: if_splits)

lemma erased_delete: "erased i at d \<Longrightarrow> erased i at (delete_customer_rows j d)"
  by (auto simp: erased_def delete_customer_rows_def list_all_iff delete_row_def split: if_splits)

lemma erased_redact_others: "erased i at d \<Longrightarrow> j \<noteq> i \<Longrightarrow> erased i at (d_reservations_update (redact_reservations now j) d)"
  by (auto simp: erased_def list_all_iff redact_reservations_def split: if_splits)

lemma always_erased: "new_customer_id r \<noteq> Some i \<Longrightarrow> always (erased i at) (serve_customer email_ok r)"
proof -
  assume new: "new_customer_id r \<noteq> Some i"
  have "keeps (erased i at) (serve_customer email_ok r) d" if ok: "erased i at d" for d
  proof (cases r)
    case (CreateCustomer ctx user newId inp)
    then show ?thesis
      using ok new by (auto simp: keeps_def customer_create_def welcome_mail_def wp Let_def erased_def new_customer_def)
  next
    case (UpdateCustomer ctx user j inp)
    then show ?thesis
      using ok by (auto simp: keeps_def customer_update_def audit_consent_def wp check_update_Inr
          intro!: erased_write dest: erased_not)
  next
    case (MergeCustomer ctx user a b)
    then show ?thesis
      using ok by (auto simp: keeps_def mergeInto_def wp check_merge_Inr intro!: erased_merge dest: erased_not split: prod.splits)
  next
    case (RemoveCustomer ctx user j)
    then show ?thesis using ok by (auto simp: keeps_def customer_remove_def wp erased_delete)
  next
    case (AnonymizeCustomer ctx user j reason)
    then show ?thesis
      using ok by (auto simp: keeps_def anonymize_def wp check_anonymize_Inr redacted_def
          intro!: erased_write erased_redact_others dest: erased_not)
  qed
  then show ?thesis by (simp add: always_def)
qed

lemma anonymize_erases:
  assumes "anonymize ctx user i reason d = (Inr c, d')"
  shows "erased i (c_now ctx) d'"
proof -
  have "wpre (anonymize ctx user i reason) (\<lambda>_. erased i (c_now ctx)) (\<lambda>_ _. True) d"
    by (auto simp: anonymize_def wp check_anonymize_Inr erased_def list_all_iff update_row_def redact_reservations_def redacted_def
        dest!: find_customer_Some)
  then show ?thesis using assms by (rule wpre_success)
qed

text \<open>
  C9: An anonymisation is for good: whatever customer requests follow, as long as identifiers are not used
  twice, the record holds nothing but its identity, its company and the time of its anonymisation, or is
  deleted, and no booking linked to it ever shows a name, an address or a number again.
\<close>

theorem anonymized_for_good:
  assumes "anonymize ctx user i reason d = (Inr c, d')" "list_all (\<lambda>r. new_customer_id r \<noteq> Some i) rs"
    and "d'' = run_all (serve_customer email_ok) rs d'"
  shows "list_all (\<lambda>x. cu_id x = i \<longrightarrow> x = redacted (c_now ctx) x) (d_customers d'') \<and>
    list_all (\<lambda>r. r_customerId r = Some i \<longrightarrow>
      r_customerName r = ''Redacted'' \<and> r_customerEmail r = redacted_email i \<and> r_customerPhone r = ''-'') (d_reservations d'')"
proof -
  have "erased i (c_now ctx) d''"
    unfolding assms(3) by (rule always_run_list [OF always_erased anonymize_erases [OF assms(1)]]) (use assms(2) in \<open>simp add: list_all_iff\<close>)
  then show ?thesis by (simp add: erased_def)
qed

section \<open>Customers of other companies\<close>

definition customers_of :: "db \<Rightarrow> string \<Rightarrow> customer list" where
  "customers_of d c = filter (\<lambda>x. cu_companyId x = c) (d_customers d)"

definition same_customers :: "string \<Rightarrow> db \<Rightarrow> db \<Rightarrow> bool" where
  "same_customers c d d' \<longleftrightarrow> customers_of d' c = customers_of d c"

lemma same_customers_frame [simp]:
  "same_customers c d d"
  "same_customers c d (d_audit_update g d') = same_customers c d d'" "same_customers c d (d_mails_update k d') = same_customers c d d'"
  "same_customers c d (d_reservations_update h d') = same_customers c d d'"
  by (simp_all add: same_customers_def customers_of_def)

lemma same_customers_write:
  assumes "keyed cu_id (d_customers d)" "find_customer d i = Some x" "cu_companyId x \<noteq> c" "\<And>y. cu_companyId (f y) = cu_companyId y"
  shows "same_customers c d (d_customers_update (update_row cu_id i f) d)"
  using filter_update_other [OF assms(1), of x "\<lambda>y. cu_companyId y = c" f] find_customer_Some [OF assms(2)] assms(3,4)
  by (simp add: same_customers_def customers_of_def)

lemma same_customers_delete:
  assumes "keyed cu_id (d_customers d)" "find_customer d i = Some x" "cu_companyId x \<noteq> c"
    and "d_customers d' = delete_row cu_id i (d_customers d)"
  shows "same_customers c d d'"
  using filter_delete_other [OF assms(1), of x "\<lambda>y. cu_companyId y = c"] find_customer_Some [OF assms(2)] assms(3,4)
  by (simp add: same_customers_def customers_of_def)

text \<open>
  Staff reach the customers of the companies they may see and of no other: no request changes, adds or
  deletes a customer record of a company the user may not see.
\<close>

theorem customers_stay_in_company:
  assumes "keyed cu_id (d_customers d)" "customer_clerk r = (env, user)" "\<not> may_see_company env user c"
  shows "customers_of (snd (serve_customer email_ok r d)) c = customers_of d c"
proof -
  have foreign: "may_see_company env user c' \<Longrightarrow> c' \<noteq> c" for c' using assms(3) by auto
  have "keeps (same_customers c d) (serve_customer email_ok r) d"
  proof (cases r)
    case (CreateCustomer ctx user newId inp)
    then show ?thesis
      using assms(2) foreign by (auto simp: keeps_def customer_create_def welcome_mail_def wp Let_def)
        (auto simp: same_customers_def customers_of_def new_customer_def)
  next
    case (UpdateCustomer ctx user i inp)
    then show ?thesis
      using assms(2) foreign by (auto simp: keeps_def customer_update_def audit_consent_def wp check_update_Inr
          dest: find_customer_Some intro!: same_customers_write [OF assms(1)])
  next
    case (MergeCustomer ctx user i j)
    then show ?thesis
      using assms(2) foreign by (auto simp: keeps_def mergeInto_def wp check_merge_Inr merge_tables
          intro!: same_customers_delete [OF assms(1), of i] split: prod.splits)
  next
    case (RemoveCustomer ctx user i)
    then show ?thesis
      using assms(2) foreign by (auto simp: keeps_def customer_remove_def wp visible_customer_Inr
          intro!: same_customers_delete [OF assms(1), of i] simp: delete_customer_rows_def)
  next
    case (AnonymizeCustomer ctx user i reason)
    then show ?thesis
      using assms(2) foreign by (auto simp: keeps_def anonymize_def wp check_anonymize_Inr redacted_def
          dest: find_customer_Some intro!: same_customers_write [OF assms(1)])
  qed
  then show ?thesis by (simp add: keeps_run same_customers_def)
qed

section \<open>Concrete runs\<close>

definition demo_twin :: customer where
  "demo_twin = demo_customer\<lparr>cu_id := ''c2'', cu_email := ''mario.rossi@mail.it''\<rparr>"

definition demo_twins :: db where
  "demo_twins = demo_db\<lparr>d_customers := [demo_customer, demo_twin]\<rparr>"

definition demo_merge :: "(nat \<times> nat) result \<times> db" where
  "demo_merge = mergeInto demo_ctx demo_manager ''c1'' ''c2'' demo_twins"

theorem merge_moves_everything_witness:
  "count_reservations (snd demo_merge) ''c2'' = 1 \<and> length (documents_of (snd demo_merge) ''c2'') = 2 \<and>
   find_customer (snd demo_merge) ''c1'' = None"
proof -
  have "fst demo_merge = Inr (1, 2)" by code_simp
  then have "demo_merge = (Inr (1, 2), snd demo_merge)" by (metis prod.collapse)
  then have run: "mergeInto demo_ctx demo_manager ''c1'' ''c2'' demo_twins = (Inr (1, 2), snd demo_merge)" by (simp only: demo_merge_def)
  have "count_reservations demo_twins ''c2'' = 0" "length (documents_of demo_twins ''c2'') = 0" by code_simp+
  with merge_moves_everything [OF run] show ?thesis by simp
qed

definition demo_newcomer :: create_customer_input where
  "demo_newcomer = \<lparr>cc_companyId = ''acme'', cc_name = ''Mario'', cc_email = ''Mario@Rossi.it'', cc_phone = ''+39061'', cc_notes = None,
     cc_fiscalCode = None, cc_vatNumber = None, cc_sdiRecipientCode = None, cc_pec = None\<rparr>"

definition demo_forgotten :: "customer result \<times> db" where
  "demo_forgotten = anonymize demo_ctx demo_manager ''c1'' None demo_twins"

theorem anonymized_for_good_witness:
  "list_all (\<lambda>x. cu_name x = ''Redacted'' \<or> cu_id x \<noteq> ''c1'') (d_customers (run_all (serve_customer (\<lambda>_. True))
     [MergeCustomer demo_ctx demo_manager ''c2'' ''c1'', CreateCustomer demo_ctx demo_manager ''c3'' demo_newcomer] (snd demo_forgotten)))"
proof -
  have "isInr (fst demo_forgotten)" by code_simp
  then obtain c where "demo_forgotten = (Inr c, snd demo_forgotten)" using isInr_pair by blast
  then have run: "anonymize demo_ctx demo_manager ''c1'' None demo_twins = (Inr c, snd demo_forgotten)" by (simp only: demo_forgotten_def)
  have new: "list_all (\<lambda>r. new_customer_id r \<noteq> Some ''c1'')
      [MergeCustomer demo_ctx demo_manager ''c2'' ''c1'', CreateCustomer demo_ctx demo_manager ''c3'' demo_newcomer]" by simp
  have "cu_name x = ''Redacted''" if "x = redacted at x" for x at by (subst that) (simp add: redacted_def)
  then have name: "cu_name x = ''Redacted'' \<or> cu_id x \<noteq> ''c1''" if "cu_id x = ''c1'' \<longrightarrow> x = redacted (c_now demo_ctx) x" for x
    using that by blast
  show ?thesis
    by (rule list.pred_mono_strong [OF anonymized_for_good [OF run new refl, of "\<lambda>_. True", THEN conjunct1]]) (rule name)
qed

theorem customers_stay_in_company_witness:
  "customers_of (snd (serve_customer (\<lambda>_. True) (RemoveCustomer demo_ctx demo_stranger ''c1'') demo_twins)) ''acme'' =
   customers_of demo_twins ''acme''"
proof (rule customers_stay_in_company [where env = "c_env demo_ctx" and user = demo_stranger])
  show "keyed cu_id (d_customers demo_twins)" by (simp add: demo_twins_def demo_twin_def demo_customer_def keyed_def)
qed (simp_all add: may_see_company_def isAdminCrossCompany_def demo_stranger_def)

end
