(* ===== verification/File_Store.thy ===== *)
theory File_Store
  imports Agreements Always Fixtures
begin

text \<open>
  What the four services that take files share (attachments of agreements, photos of a handover or return,
  photos of a damage, documents of customers): the name and the path a file is stored under, the local disk
  and the bucket of \<open>rental-agreement/object-storage-s3.service.ts\<close>, and the life of a row that
  stands for a file. The client of the bucket and the file system are parameters; what is on the disk and
  what the bucket was asked to delete are part of the database record.
\<close>

section \<open>Names\<close>

definition safeOriginalName :: "string \<Rightarrow> string" where
  "safeOriginalName n =
     (let b = take 200 (trim (filter (\<lambda>c. c \<noteq> CHR 0x00)
                (map (\<lambda>c. if c = CHR ''/'' \<or> c = CHR 0x5C then CHR ''_'' else c) n)))
      in if b = [] then ''file'' else b)"

definition ends_with :: "string \<Rightarrow> string \<Rightarrow> bool" where
  "ends_with e s \<longleftrightarrow> length e \<le> length s \<and> drop (length s - length e) s = e"

definition known_extensions :: "string list" where
  "known_extensions = [''.pdf'', ''.jpg'', ''.jpeg'', ''.png'', ''.webp'']"

definition extFromMime :: "string \<Rightarrow> string" where
  "extFromMime mime =
     (if mime = ''image/jpeg'' then ''.jpg'' else if mime = ''image/png'' then ''.png''
      else if mime = ''image/webp'' then ''.webp'' else ''.bin'')"

definition extFromNameOrMime :: "string \<Rightarrow> string \<Rightarrow> string" where
  "extFromNameOrMime originalName mime =
     (case List.find (\<lambda>e. ends_with e (toLowerCase originalName)) known_extensions of
        Some e \<Rightarrow> e
      | None \<Rightarrow> if mime = ''application/pdf'' then ''.pdf'' else extFromMime mime)"

definition image_mime :: "string list" where
  "image_mime = [''image/jpeg'', ''image/png'', ''image/webp'']"

definition document_mime :: "string list" where
  "document_mime = ''application/pdf'' # image_mime"

definition max_file_bytes :: int where
  "max_file_bytes = 10 * 1024 * 1024"

section \<open>Paths\<close>

text \<open>\<open>path.join\<close> of the runtime on POSIX; the second argument holds the segments kept so far, last first.\<close>

fun normalize_segments :: "bool \<Rightarrow> string list \<Rightarrow> string list \<Rightarrow> string list" where
  "normalize_segments climb kept [] = rev kept"
| "normalize_segments climb kept (x # xs) =
     (if x = [] \<or> x = ''.'' then normalize_segments climb kept xs
      else if x = ''..'' then
        (if kept \<noteq> [] \<and> hd kept \<noteq> ''..'' then normalize_segments climb (tl kept) xs
         else normalize_segments climb (if climb then ''..'' # kept else kept) xs)
      else normalize_segments climb (x # kept) xs)"

definition path_normalize :: "string \<Rightarrow> string" where
  "path_normalize p =
     (let absolute = startsWith ''/'' p; trailing = ends_with ''/'' p;
          q = joinWith ''/'' (normalize_segments (\<not> absolute) [] (split_on CHR ''/'' p))
      in if q = [] then (if absolute then ''/'' else if trailing then ''./'' else ''.'')
         else (if absolute then ''/'' else []) @ q @ (if trailing then ''/'' else []))"

definition path_join :: "string list \<Rightarrow> string" where
  "path_join parts = path_normalize (joinWith ''/'' (filter (\<lambda>x. x \<noteq> []) parts))"

record storage =
  fs_defaultRoot :: string
  fs_writes :: "string \<Rightarrow> bool"
  fs_removes :: "string \<Rightarrow> bool"
  s3_sign :: "string \<Rightarrow> string \<Rightarrow> string option"
  s3_head :: "string \<Rightarrow> int option option"
  s3_object :: "string \<Rightarrow> bool option"

definition storage_root :: "env \<Rightarrow> storage \<Rightarrow> string" where
  "storage_root env st = or_else (env ''STORAGE_LOCAL_ROOT'') (fs_defaultRoot st)"

definition absPath :: "env \<Rightarrow> storage \<Rightarrow> string \<Rightarrow> string" where
  "absPath env st relativeKey = path_join (storage_root env st # split_on CHR ''/'' relativeKey)"

section \<open>Disk and bucket\<close>

text \<open>The process does not start with an incomplete configuration of the bucket.\<close>

definition isS3Mode :: "env \<Rightarrow> bool" where
  "isS3Mode env \<longleftrightarrow>
     toLowerCase (or_else (env ''STORAGE_MODE'') ''local'') = ''s3'' \<and> truthy (env ''S3_BUCKET'') \<and>
     truthy (env ''S3_ACCESS_KEY_ID'') \<and> truthy (env ''S3_SECRET_ACCESS_KEY'')"

definition s3_off :: http_error where
  "s3_off = BadRequest ''S3 is not configured''"

definition getPresignedPutUrl :: "env \<Rightarrow> storage \<Rightarrow> string \<Rightarrow> string \<Rightarrow> string result" where
  "getPresignedPutUrl env st key contentType =
     (if \<not> isS3Mode env then Inl s3_off else orElse (s3_sign st key contentType) (Crash ''presign''))"

definition headObject :: "env \<Rightarrow> storage \<Rightarrow> string \<Rightarrow> int option result" where
  "headObject env st key = (if \<not> isS3Mode env then Inl s3_off else orElse (s3_head st key) (Crash ''head''))"

datatype file_source = Bucket_Object string | Disk_File string

definition getObjectStream :: "env \<Rightarrow> storage \<Rightarrow> string \<Rightarrow> file_source result" where
  "getObjectStream env st key =
     (if \<not> isS3Mode env then Inl s3_off
      else andThen (orElse (s3_object st key) (Crash ''get'')) (\<lambda>body.
           if body then Inr (Bucket_Object key) else Inl (BadRequest ''Empty object body'')))"

text \<open>A failed request to delete is ignored; what is recorded is that it was made.\<close>

definition deleteObject :: "env \<Rightarrow> string \<Rightarrow> unit dbprog" where
  "deleteObject env key =
     (if \<not> isS3Mode env then ret () else modify (d_bucketDeletes_update (\<lambda>ks. ks @ [key])))"

definition write_file :: "storage \<Rightarrow> string \<Rightarrow> int \<Rightarrow> unit dbprog" where
  "write_file st path bytes =
     andDo (asks (\<lambda>_. ensure (fs_writes st path) (Crash ''writeFile'')))
       (modify (d_disk_update (\<lambda>fs. filter (\<lambda>f. fst f \<noteq> path) fs @ [(path, bytes)])))"

definition remove_file :: "storage \<Rightarrow> string \<Rightarrow> unit dbprog" where
  "remove_file st path =
     andDo (asks (\<lambda>_. ensure (fs_removes st path) (Crash ''rm'')))
       (modify (d_disk_update (filter (\<lambda>f. fst f \<noteq> path))))"

definition on_disk :: "db \<Rightarrow> string \<Rightarrow> bool" where
  "on_disk d path \<longleftrightarrow> list_ex (\<lambda>f. fst f = path) (d_disk d)"

section \<open>A table of files\<close>

text \<open>The columns the services use, whichever table they are in.\<close>

record 'r file_table =
  ft_rows :: "db \<Rightarrow> 'r list"
  ft_change :: "('r list \<Rightarrow> 'r list) \<Rightarrow> db \<Rightarrow> db"
  ft_id :: "'r \<Rightarrow> string"
  ft_owner :: "'r \<Rightarrow> string"
  ft_key :: "'r \<Rightarrow> string"
  ft_storage :: "'r \<Rightarrow> attachment_storage"
  ft_completedAt :: "'r \<Rightarrow> time option"
  ft_bytes :: "'r \<Rightarrow> int"
  ft_createdAt :: "'r \<Rightarrow> time"
  ft_finish :: "int \<Rightarrow> time \<Rightarrow> 'r \<Rightarrow> 'r"

definition is_complete :: "'r file_table \<Rightarrow> 'r \<Rightarrow> bool" where
  "is_complete T r \<longleftrightarrow> ft_storage T r = LOCAL \<or> ft_completedAt T r \<noteq> None"

definition listed_files :: "'r file_table \<Rightarrow> string \<Rightarrow> db \<Rightarrow> 'r list" where
  "listed_files T owner d =
     sort_key (ft_createdAt T) (filter (\<lambda>r. ft_owner T r = owner \<and> is_complete T r) (ft_rows T d))"

definition find_file :: "'r file_table \<Rightarrow> db \<Rightarrow> string \<Rightarrow> 'r option" where
  "find_file T d i = find_row (ft_id T) i (ft_rows T d)"

definition owned_file :: "'r file_table \<Rightarrow> db \<Rightarrow> string \<Rightarrow> string \<Rightarrow> string \<Rightarrow> 'r result" where
  "owned_file T d owner i msg =
     (case find_file T d i of
        None \<Rightarrow> Inl (NotFound msg)
      | Some r \<Rightarrow> if ft_owner T r \<noteq> owner then Inl (NotFound msg) else Inr r)"

definition insert_file :: "'r file_table \<Rightarrow> 'r \<Rightarrow> 'r dbprog" where
  "insert_file T r =
     andDo (asks (\<lambda>d. ensure (\<not> list_ex (\<lambda>x. ft_id T x = ft_id T r \<or> ft_key T x = ft_key T r) (ft_rows T d))
       (Prisma ''P2002'')))
     (andDo (modify (ft_change T (\<lambda>rs. rs @ [r]))) (ret r))"

definition delete_file_row :: "'r file_table \<Rightarrow> string \<Rightarrow> unit dbprog" where
  "delete_file_row T i =
     andDo (asks (\<lambda>d. ensure (find_file T d i \<noteq> None) (Prisma ''P2025''))) (modify (ft_change T (delete_row (ft_id T) i)))"

text \<open>An upload in local mode: the file first, then the row; without a row the file goes again.\<close>

definition store_upload :: "storage \<Rightarrow> 'r file_table \<Rightarrow> string \<Rightarrow> 'r \<Rightarrow> ('r \<Rightarrow> 'b dbprog) \<Rightarrow> 'b dbprog" where
  "store_upload st T dest r after =
     andDo (write_file st dest (ft_bytes T r))
       (catch (bnd (insert_file T r) after) (\<lambda>e. andDo (remove_file st dest) (throw e)))"

text \<open>The end of an upload to the bucket: the size is the one the bucket reports.\<close>

definition finish_upload :: "ctx \<Rightarrow> storage \<Rightarrow> 'r file_table \<Rightarrow> 'r \<Rightarrow> 'r dbprog" where
  "finish_upload ctx st T r =
     bnd (asks (\<lambda>_. case headObject (c_env ctx) st (ft_key T r) of
            Inl _ \<Rightarrow> Inl (NotFound ''Object not found in storage; upload may have failed or expired'')
          | Inr len \<Rightarrow> Inr (or_else len 0))) (\<lambda>len.
     if len < 1 \<or> len > max_file_bytes then
       andDo (deleteObject (c_env ctx) (ft_key T r))
       (andDo (delete_file_row T (ft_id T r))
       (throw (BadRequest ''Uploaded file size is invalid'')))
     else
       andDo (modify (ft_change T (update_row (ft_id T) (ft_id T r) (ft_finish T len (c_now ctx)))))
       (ret (ft_finish T len (c_now ctx) r)))"

definition ensure_finished :: "'r file_table \<Rightarrow> 'r \<Rightarrow> unit result" where
  "ensure_finished T r = ensure (is_complete T r) (NotFound ''Upload not completed yet'')"

definition open_file :: "env \<Rightarrow> storage \<Rightarrow> 'r file_table \<Rightarrow> 'r \<Rightarrow> db \<Rightarrow> file_source result" where
  "open_file env st T r d =
     (if ft_storage T r = S3 then getObjectStream env st (ft_key T r)
      else let path = absPath env st (ft_key T r)
           in if on_disk d path then Inr (Disk_File path) else Inl (NotFound ''File missing on disk''))"

text \<open>Removal: a failure on the disk is ignored as one of the bucket is.\<close>

definition remove_stored :: "env \<Rightarrow> storage \<Rightarrow> 'r file_table \<Rightarrow> 'r \<Rightarrow> unit dbprog" where
  "remove_stored env st T r =
     andDo (if ft_storage T r = S3 then deleteObject env (ft_key T r)
            else catch (remove_file st (absPath env st (ft_key T r))) (\<lambda>_. ret ()))
       (delete_file_row T (ft_id T r))"

section \<open>Where a file lies\<close>

text \<open>A segment that stands for itself, and a key made of such segments.\<close>

definition plain :: "string \<Rightarrow> bool" where
  "plain x \<longleftrightarrow> x \<noteq> [] \<and> x \<noteq> ''.'' \<and> x \<noteq> ''..'' \<and> CHR ''/'' \<notin> set x"

definition clean_key :: "string \<Rightarrow> bool" where
  "clean_key key \<longleftrightarrow> list_all plain (split_on CHR ''/'' key)"

lemma split_on_nonempty [simp]: "split_on c x \<noteq> []"
  by (cases x) (auto split: list.splits)

lemma split_on_no_sep: "y \<in> set (split_on c x) \<Longrightarrow> c \<notin> set y"
proof (induction x arbitrary: y)
  case (Cons a x)
  obtain z zs where z: "split_on c x = z # zs" by (cases "split_on c x") auto
  then show ?case using Cons by (auto split: if_splits)
qed simp

lemma split_on_append_sep: "split_on c (x @ c # y) = split_on c x @ split_on c y"
proof (induction x)
  case (Cons a x)
  obtain z zs where "split_on c x = z # zs" by (cases "split_on c x") auto
  then show ?case using Cons by auto
qed simp

lemma joinWith_Cons: "xs \<noteq> [] \<Longrightarrow> joinWith sep (x # xs) = x @ sep @ joinWith sep xs"
  by (cases xs) auto

lemma joinWith_last:
  "xs \<noteq> [] \<Longrightarrow> last xs \<noteq> [] \<Longrightarrow> joinWith sep xs \<noteq> [] \<and> last (joinWith sep xs) = last (last xs)"
  by (induction sep xs rule: joinWith.induct) auto

lemma split_on_join:
  "xs \<noteq> [] \<Longrightarrow> list_all (\<lambda>x. c \<notin> set x) xs \<Longrightarrow> split_on c (joinWith [c] xs) = xs"
proof (induction xs)
  case (Cons x xs)
  then show ?case
    by (cases "xs = []") (simp_all add: split_on_none joinWith_Cons split_on_app)
qed simp

lemma join_split_on: "joinWith [c] (split_on c x) = x"
proof (induction x)
  case (Cons a x)
  obtain z zs where "split_on c x = z # zs" by (cases "split_on c x") auto
  then show ?case using Cons by (cases zs) auto
qed simp

lemma normalize_plain: "list_all plain xs \<Longrightarrow> normalize_segments climb kept xs = rev kept @ xs"
  by (induction xs arbitrary: kept) (auto simp: plain_def)

lemma normalize_append_plain:
  "list_all plain ys \<Longrightarrow> normalize_segments climb kept (xs @ ys) = normalize_segments climb kept xs @ ys"
  by (induction climb kept xs rule: normalize_segments.induct) (auto simp: normalize_plain)

lemma normalize_no_slash:
  assumes "list_all (\<lambda>x. CHR ''/'' \<notin> set x) xs" "list_all (\<lambda>x. CHR ''/'' \<notin> set x) kept"
  shows "list_all (\<lambda>x. CHR ''/'' \<notin> set x) (normalize_segments climb kept xs)"
  using assms
proof (induction climb kept xs rule: normalize_segments.induct)
  case (2 climb kept x xs)
  have "list_all (\<lambda>x. CHR ''/'' \<notin> set x) (tl kept)"
    using "2.prems"(2) by (cases kept) auto
  then show ?case using 2 by auto
qed (simp add: list_all_iff)

text \<open>The segments of the root, and the path of a clean key: those of the root and then those of the key.\<close>

definition root_segments :: "env \<Rightarrow> storage \<Rightarrow> string list" where
  "root_segments env st = (if storage_root env st = [] then [] else split_on CHR ''/'' (storage_root env st))"

definition absolute_root :: "env \<Rightarrow> storage \<Rightarrow> bool" where
  "absolute_root env st \<longleftrightarrow> startsWith ''/'' (storage_root env st)"

definition root_base :: "env \<Rightarrow> storage \<Rightarrow> string list" where
  "root_base env st = normalize_segments (\<not> absolute_root env st) [] (root_segments env st)"

lemma joined_parts:
  assumes "list_all plain ks" "ks \<noteq> []"
  shows "split_on CHR ''/'' (joinWith ''/'' (filter (\<lambda>x. x \<noteq> []) (root # ks))) =
      (if root = [] then [] else split_on CHR ''/'' root) @ ks"
    and "startsWith ''/'' (joinWith ''/'' (filter (\<lambda>x. x \<noteq> []) (root # ks))) \<longleftrightarrow> startsWith ''/'' root"
proof -
  have f: "filter (\<lambda>x. x \<noteq> []) ks = ks" and n: "list_all (\<lambda>x. CHR ''/'' \<notin> set x) ks"
    using assms(1) by (auto simp: filter_id_conv list_all_iff plain_def)
  obtain k ks' where ks: "ks = k # ks'" using assms(2) by (cases ks) auto
  have sj: "split_on CHR ''/'' (joinWith ''/'' ks) = ks"
    using split_on_join [OF assms(2) n] by simp
  have st: "\<not> startsWith ''/'' (joinWith ''/'' ks)"
  proof -
    obtain c cs where "k = c # cs" "c \<noteq> CHR ''/''"
      using assms(1) ks by (cases k) (auto simp: plain_def)
    then show ?thesis by (cases ks') (simp_all add: ks startsWith_def)
  qed
  have j: "joinWith ''/'' (root # ks) = root @ CHR ''/'' # joinWith ''/'' ks"
    using assms(2) by (simp add: joinWith_Cons)
  show "split_on CHR ''/'' (joinWith ''/'' (filter (\<lambda>x. x \<noteq> []) (root # ks))) =
      (if root = [] then [] else split_on CHR ''/'' root) @ ks"
    by (cases "root = []") (simp_all add: f j split_on_append_sep sj)
  show "startsWith ''/'' (joinWith ''/'' (filter (\<lambda>x. x \<noteq> []) (root # ks))) \<longleftrightarrow> startsWith ''/'' root"
  proof (cases "root = []")
    case False
    then have "Suc 0 - length root = 0" by (cases root) auto
    then show ?thesis using False by (simp add: f j startsWith_def)
  qed (use st in \<open>simp add: f startsWith_def\<close>)
qed

lemma path_normalize_eq:
  assumes "\<not> ends_with ''/'' p" "split_on CHR ''/'' p = xs"
    and "joinWith ''/'' (normalize_segments (\<not> startsWith ''/'' p) [] xs) \<noteq> []"
  shows "path_normalize p =
     (if startsWith ''/'' p then ''/'' else []) @ joinWith ''/'' (normalize_segments (\<not> startsWith ''/'' p) [] xs)"
  using assms by (simp add: path_normalize_def Let_def)

lemma absPath_clean:
  assumes "clean_key key"
  shows "absPath env st key =
     (if absolute_root env st then ''/'' else []) @ joinWith ''/'' (root_base env st @ split_on CHR ''/'' key)"
proof -
  let ?ks = "split_on CHR ''/'' key"
  let ?p = "joinWith ''/'' (filter (\<lambda>x. x \<noteq> []) (storage_root env st # ?ks))"
  have ks: "list_all plain ?ks" using assms by (simp add: clean_key_def)
  note parts = joined_parts [OF ks split_on_nonempty, where root = "storage_root env st"]
  have seg: "split_on CHR ''/'' ?p = root_segments env st @ ?ks"
    using parts(1) by (simp only: root_segments_def)
  have p: "?p = joinWith ''/'' (split_on CHR ''/'' ?p)" by (simp only: join_split_on)
  obtain i l where il: "?ks = i @ [l]" by (metis split_on_nonempty rev_exhaust)
  have l: "l \<noteq> []" "CHR ''/'' \<notin> set l" using ks il by (auto simp: plain_def)
  have "last ?p = last l \<and> ?p \<noteq> []"
    unfolding p [unfolded seg] using joinWith_last [of "root_segments env st @ ?ks" "''/''"] l(1) by (simp add: il)
  moreover have "last l \<noteq> CHR ''/''" using l by (metis last_in_set)
  ultimately have nt: "\<not> ends_with ''/'' ?p"
    by (cases "?p" rule: rev_cases) (simp_all add: ends_with_def)
  have jn: "joinWith ''/'' (root_base env st @ ?ks) \<noteq> []"
    using joinWith_last [of "root_base env st @ ?ks" "''/''"] l(1) by (simp add: il)
  have ab: "startsWith ''/'' ?p \<longleftrightarrow> absolute_root env st" by (simp only: parts(2) absolute_root_def)
  have nm: "normalize_segments (\<not> absolute_root env st) [] (root_segments env st @ ?ks) = root_base env st @ ?ks"
    by (simp only: normalize_append_plain [OF ks] root_base_def)
  have "path_normalize ?p = (if absolute_root env st then ''/'' else []) @ joinWith ''/'' (root_base env st @ ?ks)"
    using path_normalize_eq [OF nt seg] jn by (simp only: ab nm not_False_eq_True)
  then show ?thesis by (simp only: absPath_def path_join_def)
qed

lemma root_base_no_slash: "list_all (\<lambda>x. CHR ''/'' \<notin> set x) (root_base env st)"
  unfolding root_base_def root_segments_def
  by (rule normalize_no_slash) (auto simp: list_all_iff split_on_no_sep)

text \<open>Different keys are different files.\<close>

lemma absPath_inj:
  assumes "clean_key a" "clean_key b" "absPath env st a = absPath env st b"
  shows "a = b"
proof -
  let ?j = "\<lambda>k. joinWith ''/'' (root_base env st @ split_on CHR ''/'' k)"
  have "?j a = ?j b"
    using assms(3) by (simp add: absPath_clean [OF assms(1)] absPath_clean [OF assms(2)])
  moreover have "split_on CHR ''/'' (?j k) = root_base env st @ split_on CHR ''/'' k" for k
    by (rule split_on_join) (use root_base_no_slash split_on_no_sep in \<open>auto simp: list_all_iff\<close>)
  ultimately have "split_on CHR ''/'' a = split_on CHR ''/'' b" by (metis same_append_eq)
  then show ?thesis by (metis join_split_on)
qed

text \<open>A file of a directory lies below the directory, whatever its own name.\<close>

lemma absPath_below:
  assumes "clean_key dir" "plain name"
  shows "absPath env st (dir @ ''/'' @ name) = absPath env st dir @ ''/'' @ name"
proof -
  have n: "split_on CHR ''/'' name = [name]"
    using assms(2) by (simp add: plain_def split_on_none)
  then have k: "split_on CHR ''/'' (dir @ ''/'' @ name) = split_on CHR ''/'' dir @ [name]"
    by (simp add: split_on_append_sep)
  have join_snoc: "xs \<noteq> [] \<Longrightarrow> joinWith ''/'' (xs @ [x]) = joinWith ''/'' xs @ ''/'' @ x" for xs x
  proof (induction xs)
    case (Cons y ys)
    then show ?case by (cases "ys = []") (simp_all add: joinWith_Cons)
  qed simp
  have "clean_key (dir @ ''/'' @ name)"
    using assms unfolding clean_key_def k by simp
  then show ?thesis
    using join_snoc [of "root_base env st @ split_on CHR ''/'' dir" name]
    by (simp add: absPath_clean assms(1) k del: append_Cons append.simps)
qed

lemma plain_append: "plain i \<Longrightarrow> CHR ''/'' \<notin> set e \<Longrightarrow> 3 \<le> length e \<Longrightarrow> plain (i @ e)"
proof -
  assume *: "plain i" "CHR ''/'' \<notin> set e" "3 \<le> length e"
  have short: "x \<noteq> ''.'' \<and> x \<noteq> ''..''" if "3 \<le> length x" for x :: string using that by auto
  have "3 \<le> length (i @ e)" using *(3) by simp
  from short [OF this] show ?thesis using * by (simp add: plain_def)
qed

lemma extensions_short:
  "CHR ''/'' \<notin> set (extFromMime m) \<and> 3 \<le> length (extFromMime m)"
  by (simp add: extFromMime_def)

lemma known_extension: "e \<in> set known_extensions \<Longrightarrow> CHR ''/'' \<notin> set e \<and> 3 \<le> length e"
  by (auto simp: known_extensions_def)

lemma extension_plain:
  assumes "plain i"
  shows "plain (i @ extFromNameOrMime n m)" "plain (i @ extFromMime m)"
proof -
  have "CHR ''/'' \<notin> set (extFromNameOrMime n m) \<and> 3 \<le> length (extFromNameOrMime n m)"
    using extensions_short known_extension
    by (auto simp: extFromNameOrMime_def find_Some_iff dest!: nth_mem split: option.splits)
  then show "plain (i @ extFromNameOrMime n m)" by (simp add: plain_append assms)
  show "plain (i @ extFromMime m)" using extensions_short by (simp add: plain_append assms)
qed

lemma clean_key_append: "clean_key (a @ ''/'' @ b) \<longleftrightarrow> clean_key a \<and> clean_key b"
  by (simp add: clean_key_def split_on_append_sep)

lemma clean_key_plain: "plain x \<Longrightarrow> clean_key x"
  by (simp add: clean_key_def plain_def split_on_none)

section \<open>Weakest preconditions of the file operations\<close>

definition disk_without :: "string \<Rightarrow> db \<Rightarrow> db" where
  "disk_without path = d_disk_update (filter (\<lambda>f. fst f \<noteq> path))"

definition disk_with :: "string \<Rightarrow> int \<Rightarrow> db \<Rightarrow> db" where
  "disk_with path bytes = d_disk_update (\<lambda>fs. filter (\<lambda>f. fst f \<noteq> path) fs @ [(path, bytes)])"

lemma wpre_deleteObject [wp]:
  "wpre (deleteObject env key) Q E d =
     (if isS3Mode env then Q () (d_bucketDeletes_update (\<lambda>ks. ks @ [key]) d) else Q () d)"
  by (simp add: deleteObject_def wp)

lemma wpre_write_file [wp]:
  "wpre (write_file st path n) Q E d =
     ((fs_writes st path \<longrightarrow> Q () (disk_with path n d)) \<and> (\<not> fs_writes st path \<longrightarrow> E (Crash ''writeFile'') d))"
  by (auto simp: write_file_def disk_with_def wp)

lemma wpre_remove_file [wp]:
  "wpre (remove_file st path) Q E d =
     ((fs_removes st path \<longrightarrow> Q () (disk_without path d)) \<and> (\<not> fs_removes st path \<longrightarrow> E (Crash ''rm'') d))"
  by (auto simp: remove_file_def disk_without_def wp)

lemma on_disk_iff: "on_disk d p \<longleftrightarrow> p \<in> fst ` set (d_disk d)"
  by (auto simp: on_disk_def list_ex_iff)

lemma on_disk_with: "on_disk (disk_with path n d) p \<longleftrightarrow> p = path \<or> on_disk d p"
  by (force simp: on_disk_iff disk_with_def)

lemma on_disk_without: "on_disk (disk_without path d) p \<longleftrightarrow> p \<noteq> path \<and> on_disk d p"
  by (force simp: on_disk_iff disk_without_def)

definition has_twin :: "'r file_table \<Rightarrow> 'r \<Rightarrow> db \<Rightarrow> bool" where
  "has_twin T r d \<longleftrightarrow> list_ex (\<lambda>x. ft_id T x = ft_id T r \<or> ft_key T x = ft_key T r) (ft_rows T d)"

lemma wpre_insert_file [wp]:
  "wpre (insert_file T r) Q E d =
     ((has_twin T r d \<longrightarrow> E (Prisma ''P2002'') d) \<and> (\<not> has_twin T r d \<longrightarrow> Q r (ft_change T (\<lambda>rs. rs @ [r]) d)))"
  by (auto simp: insert_file_def has_twin_def wp)

lemma wpre_delete_file_row [wp]:
  "wpre (delete_file_row T i) Q E d =
     ((find_file T d i = None \<longrightarrow> E (Prisma ''P2025'') d) \<and>
      (find_file T d i \<noteq> None \<longrightarrow> Q () (ft_change T (delete_row (ft_id T) i) d)))"
  by (auto simp: delete_file_row_def wp)

section \<open>The contract of a table of files\<close>

text \<open>
  What a row may say of a file: once it is complete its size is the one of the file, within the limit; and a
  file in local mode that has a row is on the disk.
\<close>

definition within_limit :: "int \<Rightarrow> bool" where
  "within_limit n \<longleftrightarrow> 1 \<le> n \<and> n \<le> max_file_bytes"

definition sizes_ok :: "'r file_table \<Rightarrow> db \<Rightarrow> bool" where
  "sizes_ok T d \<longleftrightarrow> list_all (\<lambda>r. is_complete T r \<longrightarrow> within_limit (ft_bytes T r)) (ft_rows T d)"

locale file_store =
  fixes T :: "'r file_table"
  assumes rows_change: "ft_rows T (ft_change T f d) = f (ft_rows T d)"
    and disk_change: "d_disk (ft_change T f d) = d_disk d"
    and bucket_change: "d_bucketDeletes (ft_change T f d) = d_bucketDeletes d"
    and rows_disk: "ft_rows T (d_disk_update g d) = ft_rows T d"
    and rows_bucket: "ft_rows T (d_bucketDeletes_update h d) = ft_rows T d"
    and rows_audit: "ft_rows T (d_audit_update k d) = ft_rows T d"
    and finish_keeps: "ft_id T (ft_finish T n now r) = ft_id T r" "ft_key T (ft_finish T n now r) = ft_key T r"
      "ft_owner T (ft_finish T n now r) = ft_owner T r" "ft_storage T (ft_finish T n now r) = ft_storage T r"
    and finish_sets: "ft_bytes T (ft_finish T n now r) = n" "ft_completedAt T (ft_finish T n now r) = Some now"

sublocale file_store \<subseteq> rows: table "ft_rows T" "ft_change T" "ft_id T"
  by unfold_locales (rule rows_change)

context file_store
begin

lemmas frames = rows_change disk_change bucket_change rows_disk rows_bucket rows_audit

lemma rows_disk_ops [simp]: "ft_rows T (disk_with p n d) = ft_rows T d" "ft_rows T (disk_without p d) = ft_rows T d"
  by (simp_all add: disk_with_def disk_without_def frames)


lemma sizes_ok_frames:
  "sizes_ok T (disk_with p n d) = sizes_ok T d" "sizes_ok T (disk_without p d) = sizes_ok T d"
  "sizes_ok T (d_bucketDeletes_update h d) = sizes_ok T d" "sizes_ok T (d_audit_update k d) = sizes_ok T d"
  by (simp_all add: sizes_ok_def frames)

lemma sizes_ok_insert:
  "sizes_ok T d \<Longrightarrow> is_complete T r \<longrightarrow> within_limit (ft_bytes T r) \<Longrightarrow> sizes_ok T (ft_change T (\<lambda>rs. rs @ [r]) d)"
  by (simp add: sizes_ok_def frames)

lemma sizes_ok_delete: "sizes_ok T d \<Longrightarrow> sizes_ok T (ft_change T (delete_row (ft_id T) i) d)"
  by (auto simp: sizes_ok_def frames delete_row_def list_all_iff)

lemma sizes_ok_finish:
  "sizes_ok T d \<Longrightarrow> within_limit n \<Longrightarrow> sizes_ok T (ft_change T (update_row (ft_id T) i (ft_finish T n now)) d)"
  by (auto simp: sizes_ok_def frames update_row_def list_all_iff finish_sets)

lemma always_sizes_store:
  assumes "within_limit (ft_bytes T r)" "\<And>x. always (sizes_ok T) (after x)"
  shows "always (sizes_ok T) (store_upload st T dest r after)"
proof -
  have "always (sizes_ok T) (insert_file T r)"
    unfolding always_def keeps_def by (simp add: wp sizes_ok_insert assms(1))
  moreover have "always (sizes_ok T) (write_file st dest n)" "always (sizes_ok T) (remove_file st dest)" for n
    unfolding always_def keeps_def by (simp_all add: wp sizes_ok_frames)
  ultimately show ?thesis
    unfolding store_upload_def by (intro always_intros always_catch assms(2))
qed

lemma always_sizes_finish: "always (sizes_ok T) (finish_upload ctx st T r)"
  unfolding always_def keeps_def finish_upload_def
  by (auto simp: wp sizes_ok_frames sizes_ok_delete sizes_ok_finish within_limit_def split: sum.splits)

lemma always_sizes_remove: "always (sizes_ok T) (remove_stored env st T r)"
  unfolding always_def keeps_def remove_stored_def
  by (auto simp: wp sizes_ok_frames sizes_ok_delete)

text \<open>What is listed is within the limit.\<close>

lemma listed_within_limit: "sizes_ok T d \<Longrightarrow> r \<in> set (listed_files T i d) \<Longrightarrow> within_limit (ft_bytes T r)"
  by (auto simp: sizes_ok_def listed_files_def list_all_iff)

text \<open>A file that was stored can be opened, under the path of its key.\<close>

lemma stored_file_opens:
  assumes "store_upload st T (absPath env st (ft_key T r)) r ret d = (Inr x, d')" "ft_storage T r = LOCAL"
  shows "x = r \<and> find_file T d' (ft_id T r) = Some r \<and>
    open_file env st T r d' = Inr (Disk_File (absPath env st (ft_key T r))) \<and>
    (absPath env st (ft_key T r), ft_bytes T r) \<in> set (d_disk d')"
proof -
  let ?p = "absPath env st (ft_key T r)"
  have "wpre (store_upload st T ?p r ret) (\<lambda>x d'. \<not> has_twin T r (disk_with ?p (ft_bytes T r) d) \<and> x = r \<and>
      d' = ft_change T (\<lambda>rs. rs @ [r]) (disk_with ?p (ft_bytes T r) d)) (\<lambda>_ _. True) d"
    unfolding store_upload_def by (simp add: wp)
  from wpre_success [OF this assms(1)]
  have x: "x = r" and d': "d' = ft_change T (\<lambda>rs. rs @ [r]) (disk_with ?p (ft_bytes T r) d)"
    and t: "\<not> has_twin T r d" by (simp_all add: has_twin_def)
  have "find_row (ft_id T) (ft_id T r) (ft_rows T d) = None"
    using t by (auto simp: has_twin_def list_ex_iff find_row_def find_None_iff)
  then have "find_file T d' (ft_id T r) = Some r"
    by (simp add: find_file_def d' rows_change tables)
  moreover have "d_disk d' = d_disk (disk_with ?p (ft_bytes T r) d)" by (simp add: d' disk_change)
  ultimately show ?thesis
    using assms(2) by (simp add: x open_file_def on_disk_iff disk_with_def)
qed

text \<open>A removal leaves neither the row nor the file, on the disk or asked of the bucket.\<close>

lemma removed_is_gone:
  assumes "remove_stored env st T r d = (Inr (), d')" "fs_removes st (absPath env st (ft_key T r))" "isS3Mode env"
  shows "find_file T d' (ft_id T r) = None \<and>
    (if ft_storage T r = S3 then ft_key T r \<in> set (d_bucketDeletes d') else \<not> on_disk d' (absPath env st (ft_key T r)))"
proof -
  let ?p = "absPath env st (ft_key T r)"
  have "wpre (remove_stored env st T r) (\<lambda>_ d'. d' = ft_change T (delete_row (ft_id T) (ft_id T r))
      (if ft_storage T r = S3 then d_bucketDeletes_update (\<lambda>ks. ks @ [ft_key T r]) d else disk_without ?p d)) (\<lambda>_ _. True) d"
    unfolding remove_stored_def using assms(2,3) by (simp add: wp)
  from wpre_success [OF this assms(1)] show ?thesis
    by (auto simp: find_file_def rows_change tables on_disk_iff disk_change disk_without_def bucket_change)
qed
end

end
