(* ===== verification/Agreement_Files.thy ===== *)
theory Agreement_Files
  imports File_Store
begin

text \<open>
  The files of a rental agreement (\<open>rental-agreement/agreement-attachment.service.ts\<close>): uploads to the
  local disk, uploads to the bucket in two steps, downloads and removal. The rows of the three tables with the
  columns of \<open>stored_file\<close> share one description of their columns.
\<close>

section \<open>Tables with the columns of a stored file\<close>

definition sf_finish :: "int \<Rightarrow> time \<Rightarrow> stored_file \<Rightarrow> stored_file" where
  "sf_finish n now r = r\<lparr>sf_sizeBytes := n, sf_uploadCompletedAt := Some now\<rparr>"

definition stored_table ::
  "(db \<Rightarrow> stored_file list) \<Rightarrow> ((stored_file list \<Rightarrow> stored_file list) \<Rightarrow> db \<Rightarrow> db) \<Rightarrow> stored_file file_table" where
  "stored_table rows change =
     \<lparr>ft_rows = rows, ft_change = change, ft_id = sf_id, ft_owner = sf_ownerId, ft_key = sf_storageKey,
      ft_storage = sf_storage, ft_completedAt = sf_uploadCompletedAt, ft_bytes = sf_sizeBytes,
      ft_createdAt = sf_createdAt, ft_finish = sf_finish\<rparr>"

abbreviation attachment_table :: "stored_file file_table" where
  "attachment_table \<equiv> stored_table d_attachments d_attachments_update"

lemma stored_table_simps [simp]:
  "ft_rows (stored_table rows change) = rows" "ft_change (stored_table rows change) = change"
  "ft_id (stored_table rows change) = sf_id" "ft_owner (stored_table rows change) = sf_ownerId"
  "ft_key (stored_table rows change) = sf_storageKey" "ft_storage (stored_table rows change) = sf_storage"
  "ft_completedAt (stored_table rows change) = sf_uploadCompletedAt" "ft_bytes (stored_table rows change) = sf_sizeBytes"
  "ft_createdAt (stored_table rows change) = sf_createdAt" "ft_finish (stored_table rows change) = sf_finish"
  by (simp_all add: stored_table_def)

interpretation attachment_files: file_store attachment_table
  by unfold_locales (simp_all add: sf_finish_def)

section \<open>Uploads\<close>

record upload_file =
  uf_name :: string
  uf_mime :: string
  uf_bytes :: int

record presign_body =
  pb_originalName :: string
  pb_mimeType :: string
  pb_sizeBytes :: int

definition presign_body_ok :: "string list \<Rightarrow> presign_body \<Rightarrow> bool" where
  "presign_body_ok mimes b \<longleftrightarrow>
     1 \<le> length (pb_originalName b) \<and> length (pb_originalName b) \<le> 200 \<and> pb_mimeType b \<in> set mimes \<and>
     1 \<le> pb_sizeBytes b \<and> pb_sizeBytes b \<le> max_file_bytes"

definition zod_failed :: http_error where
  "zod_failed = Crash ''ZodError''"

definition no_multipart :: http_error where
  "no_multipart =
     BadRequest ''Multipart upload to API is disabled when STORAGE_MODE=s3; use presigned upload from the client''"

definition check_local_file :: "env \<Rightarrow> string list \<Rightarrow> string \<Rightarrow> upload_file option \<Rightarrow> upload_file result" where
  "check_local_file env mimes mimeMsg f =
     andThen (ensure (\<not> isS3Mode env) no_multipart) (\<lambda>_.
     case f of
       None \<Rightarrow> Inl (BadRequest ''File is empty'')
     | Some f \<Rightarrow>
         andThen (ensure (\<not> uf_bytes f < 1) (BadRequest ''File is empty'')) (\<lambda>_.
         andThen (ensure (\<not> uf_bytes f > max_file_bytes) (BadRequest ''File size exceeds 10MB'')) (\<lambda>_.
         andThen (ensure (uf_mime f \<in> set mimes) (BadRequest mimeMsg)) (\<lambda>_. Inr f))))"

definition document_mime_msg :: string where
  "document_mime_msg = ''Only PDF and JPEG, PNG, WebP images are allowed''"

definition ensure_writer :: "jwt_user \<Rightarrow> unit result" where
  "ensure_writer user = ensure (u_role user \<noteq> READONLY_ACCOUNTING) (Forbidden ''Not allowed'')"

definition check_attachable :: "db \<Rightarrow> env \<Rightarrow> jwt_user \<Rightarrow> string \<Rightarrow> rental_agreement result" where
  "check_attachable d env user agreementId =
     andThen (agreement_row d env user agreementId) (\<lambda>(a, _).
     andThen (ensure (ra_status a \<noteq> AGREEMENT_VOID) (BadRequest ''Cannot upload to a voided agreement'')) (\<lambda>_.
     andThen (ensure_writer user) (\<lambda>_. Inr a)))"

definition attachment_key :: "rental_agreement \<Rightarrow> string \<Rightarrow> string \<Rightarrow> string \<Rightarrow> string" where
  "attachment_key a newId originalName mime =
     ra_companyId a @ ''/'' @ ra_id a @ ''/'' @ newId @ extFromNameOrMime originalName mime"

definition new_attachment ::
  "rental_agreement \<Rightarrow> string \<Rightarrow> string \<Rightarrow> string \<Rightarrow> string \<Rightarrow> int \<Rightarrow> attachment_storage \<Rightarrow> time \<Rightarrow> stored_file" where
  "new_attachment a newId userId originalName mime bytes place now =
     \<lparr>sf_id = newId, sf_companyId = ra_companyId a, sf_ownerId = ra_id a, sf_phase = None, sf_originalName = originalName,
      sf_mimeType = mime, sf_sizeBytes = bytes, sf_storageKey = attachment_key a newId originalName mime, sf_storage = place,
      sf_uploadCompletedAt = (if place = LOCAL then Some now else None), sf_uploadedByUserId = Some userId, sf_createdAt = now\<rparr>"

definition attachment_upload ::
  "storage \<Rightarrow> ctx \<Rightarrow> jwt_user \<Rightarrow> string \<Rightarrow> string \<Rightarrow> upload_file option \<Rightarrow> stored_file dbprog" where
  "attachment_upload st ctx user newId agreementId file =
     bnd (asks (\<lambda>d. andThen (check_local_file (c_env ctx) document_mime document_mime_msg file) (\<lambda>f.
        andThen (check_attachable d (c_env ctx) user agreementId) (\<lambda>a. Inr (f, a))))) (\<lambda>(f, a).
     let r = new_attachment a newId (u_sub user) (safeOriginalName (uf_name f)) (uf_mime f) (uf_bytes f) LOCAL (c_now ctx)
     in store_upload st attachment_table (absPath (c_env ctx) st (sf_storageKey r)) r ret)"

definition attachment_presign ::
  "storage \<Rightarrow> ctx \<Rightarrow> jwt_user \<Rightarrow> string \<Rightarrow> string \<Rightarrow> presign_body \<Rightarrow> (stored_file \<times> string) dbprog" where
  "attachment_presign st ctx user newId agreementId b =
     bnd (asks (\<lambda>d.
        andThen (ensure (isS3Mode (c_env ctx)) (BadRequest ''Presigned upload is only available when STORAGE_MODE=s3'')) (\<lambda>_.
        andThen (ensure (pb_mimeType b \<in> set document_mime) (BadRequest document_mime_msg)) (\<lambda>_.
        check_attachable d (c_env ctx) user agreementId)))) (\<lambda>a.
     let name = safeOriginalName (pb_originalName b);
         r = new_attachment a newId (u_sub user) name (pb_mimeType b) (pb_sizeBytes b) S3 (c_now ctx)
     in andDo (insert_file attachment_table r)
        (bnd (asks (\<lambda>_. getPresignedPutUrl (c_env ctx) st (sf_storageKey r) (pb_mimeType b))) (\<lambda>url. ret (r, url))))"

definition attachment_complete :: "storage \<Rightarrow> ctx \<Rightarrow> jwt_user \<Rightarrow> string \<Rightarrow> string \<Rightarrow> stored_file dbprog" where
  "attachment_complete st ctx user agreementId attachmentId =
     bnd (asks (\<lambda>d.
        andThen (ensure (isS3Mode (c_env ctx)) (BadRequest ''Not in S3 mode'')) (\<lambda>_.
        andThen (agreement_row d (c_env ctx) user agreementId) (\<lambda>_.
        andThen (ensure_writer user) (\<lambda>_.
        andThen (owned_file attachment_table d agreementId attachmentId ''Attachment not found'') (\<lambda>r.
        andThen (ensure (sf_storage r = S3) (BadRequest ''Not a presigned S3 attachment'')) (\<lambda>_. Inr r))))))) (\<lambda>r.
     if sf_uploadCompletedAt r \<noteq> None then ret r else finish_upload ctx st attachment_table r)"

section \<open>Reading and removing\<close>

definition attachment_list :: "db \<Rightarrow> env \<Rightarrow> jwt_user \<Rightarrow> string \<Rightarrow> stored_file list result" where
  "attachment_list d env user agreementId =
     andThen (agreement_row d env user agreementId) (\<lambda>_. Inr (listed_files attachment_table agreementId d))"

definition fileAbsolutePath :: "env \<Rightarrow> storage \<Rightarrow> stored_file \<Rightarrow> string result" where
  "fileAbsolutePath env st r =
     (if sf_storage r \<noteq> LOCAL then Inl (BadRequest ''Not a local file'') else Inr (absPath env st (sf_storageKey r)))"

definition attachment_download ::
  "storage \<Rightarrow> db \<Rightarrow> env \<Rightarrow> jwt_user \<Rightarrow> string \<Rightarrow> string \<Rightarrow> (stored_file \<times> file_source) result" where
  "attachment_download st d env user agreementId attachmentId =
     andThen (agreement_row d env user agreementId) (\<lambda>_.
     andThen (owned_file attachment_table d agreementId attachmentId ''Attachment not found'') (\<lambda>r.
     andThen (ensure_finished attachment_table r) (\<lambda>_.
     andThen (open_file env st attachment_table r d) (\<lambda>src. Inr (r, src)))))"

definition attachment_remove :: "storage \<Rightarrow> ctx \<Rightarrow> jwt_user \<Rightarrow> string \<Rightarrow> string \<Rightarrow> unit dbprog" where
  "attachment_remove st ctx user agreementId attachmentId =
     bnd (asks (\<lambda>d.
        andThen (ensure_writer user) (\<lambda>_.
        andThen (agreement_row d (c_env ctx) user agreementId) (\<lambda>(a, _).
        andThen (ensure (ra_status a \<notin> {AGREEMENT_SIGNED, AGREEMENT_VOID})
          (BadRequest ''Remove attachments only while the agreement is DRAFT (or use admin tools later)'')) (\<lambda>_.
        owned_file attachment_table d agreementId attachmentId ''Attachment not found''))))) (\<lambda>r.
     remove_stored (c_env ctx) st attachment_table r)"

end
