(* ===== verification/Reservation_Ops.thy ===== *)
theory Reservation_Ops
  imports Agreement_Files Invoices
begin

text \<open>
  The operations desk of a booking (\<open>reservation/reservation-ops.service.ts\<close>): photos of the handover and
  the return, and the damage report with its lines and photos. The schema library refuses a body with an
  exception nobody translates.
\<close>

abbreviation photo_table :: "stored_file file_table" where
  "photo_table \<equiv> stored_table d_photos d_photos_update"

abbreviation damage_photo_table :: "stored_file file_table" where
  "damage_photo_table \<equiv> stored_table d_damagePhotos d_damagePhotos_update"

interpretation photo_files: file_store photo_table
  by unfold_locales (simp_all add: sf_finish_def)

interpretation damage_photo_files: file_store damage_photo_table
  by unfold_locales (simp_all add: sf_finish_def)

definition ops_reservation :: "db \<Rightarrow> env \<Rightarrow> jwt_user \<Rightarrow> string \<Rightarrow> reservation result" where
  "ops_reservation d env user reservationId =
     (let msg = ''Reservation not found: '' @ reservationId
      in andThen (orElse (find_reservation d reservationId) (NotFound msg)) (\<lambda>r.
         andThen (assertSameCompany env user (r_companyId r) msg) (\<lambda>_.
         andThen (assertAgentReservationInScope user (r_pickupStationId r) (r_returnStationId r) msg) (\<lambda>_. Inr r))))"

definition image_mime_msg :: string where
  "image_mime_msg = ''Only JPEG, PNG, WebP images are allowed''"

definition presign_off :: http_error where
  "presign_off = BadRequest ''Presigned upload is only available when STORAGE_MODE=s3''"

definition new_photo ::
  "reservation \<Rightarrow> string \<Rightarrow> photo_phase option \<Rightarrow> string \<Rightarrow> string \<Rightarrow> string \<Rightarrow> string \<Rightarrow> string \<Rightarrow> int \<Rightarrow>
     attachment_storage \<Rightarrow> time \<Rightarrow> stored_file" where
  "new_photo r ownerId phase dir newId userId originalName mime bytes place now =
     \<lparr>sf_id = newId, sf_companyId = r_companyId r, sf_ownerId = ownerId, sf_phase = phase,
      sf_originalName = safeOriginalName originalName, sf_mimeType = mime, sf_sizeBytes = bytes,
      sf_storageKey = r_companyId r @ ''/reservation-ops/'' @ r_id r @ ''/'' @ dir @ ''/'' @ newId @ extFromMime mime,
      sf_storage = place, sf_uploadCompletedAt = (if place = LOCAL then Some now else None),
      sf_uploadedByUserId = Some userId, sf_createdAt = now\<rparr>"

section \<open>Photos of the handover and the return\<close>

definition listOperationPhotos :: "db \<Rightarrow> env \<Rightarrow> jwt_user \<Rightarrow> string \<Rightarrow> stored_file list result" where
  "listOperationPhotos d env user reservationId =
     andThen (ops_reservation d env user reservationId) (\<lambda>_. Inr (listed_files photo_table reservationId d))"

definition presignOperationPhoto ::
  "storage \<Rightarrow> ctx \<Rightarrow> jwt_user \<Rightarrow> string \<Rightarrow> string \<Rightarrow> photo_phase \<Rightarrow> presign_body \<Rightarrow> (stored_file \<times> string) dbprog" where
  "presignOperationPhoto st ctx user newId reservationId phase b =
     bnd (asks (\<lambda>d.
        andThen (ensure_writer user) (\<lambda>_.
        andThen (ensure (presign_body_ok image_mime b) zod_failed) (\<lambda>_.
        andThen (ensure (isS3Mode (c_env ctx)) presign_off) (\<lambda>_.
        andThen (ensure (pb_mimeType b \<in> set image_mime) (BadRequest image_mime_msg)) (\<lambda>_.
        andThen (ensure (\<not> pb_sizeBytes b > max_file_bytes) (BadRequest ''File size exceeds 10MB'')) (\<lambda>_.
        ops_reservation d (c_env ctx) user reservationId))))))) (\<lambda>r.
     let ph = new_photo r reservationId (Some phase) ''op'' newId (u_sub user) (pb_originalName b) (pb_mimeType b)
                (pb_sizeBytes b) S3 (c_now ctx)
     in andDo (insert_file photo_table ph)
        (bnd (asks (\<lambda>_. getPresignedPutUrl (c_env ctx) st (sf_storageKey ph) (pb_mimeType b))) (\<lambda>url. ret (ph, url))))"

definition completeOperationPhoto :: "storage \<Rightarrow> ctx \<Rightarrow> jwt_user \<Rightarrow> string \<Rightarrow> string \<Rightarrow> stored_file dbprog" where
  "completeOperationPhoto st ctx user reservationId photoId =
     bnd (asks (\<lambda>d.
        andThen (ensure_writer user) (\<lambda>_.
        andThen (ensure (isS3Mode (c_env ctx)) (BadRequest ''Not in S3 mode'')) (\<lambda>_.
        andThen (ops_reservation d (c_env ctx) user reservationId) (\<lambda>_.
        andThen (owned_file photo_table d reservationId photoId ''Photo not found'') (\<lambda>ph.
        andThen (ensure (sf_storage ph = S3) (BadRequest ''Not a presigned S3 upload'')) (\<lambda>_. Inr ph))))))) (\<lambda>ph.
     if sf_uploadCompletedAt ph \<noteq> None then ret ph else finish_upload ctx st photo_table ph)"

definition uploadOperationPhotoLocal ::
  "storage \<Rightarrow> ctx \<Rightarrow> jwt_user \<Rightarrow> string \<Rightarrow> string \<Rightarrow> photo_phase \<Rightarrow> upload_file option \<Rightarrow> stored_file dbprog" where
  "uploadOperationPhotoLocal st ctx user newId reservationId phase file =
     bnd (asks (\<lambda>d.
        andThen (ensure_writer user) (\<lambda>_.
        andThen (check_local_file (c_env ctx) image_mime image_mime_msg file) (\<lambda>f.
        andThen (ops_reservation d (c_env ctx) user reservationId) (\<lambda>r. Inr (f, r)))))) (\<lambda>(f, r).
     let ph = new_photo r reservationId (Some phase) ''op'' newId (u_sub user) (uf_name f) (uf_mime f) (uf_bytes f) LOCAL (c_now ctx)
     in store_upload st photo_table (absPath (c_env ctx) st (sf_storageKey ph)) ph ret)"

definition getOperationPhotoFile ::
  "storage \<Rightarrow> db \<Rightarrow> env \<Rightarrow> jwt_user \<Rightarrow> string \<Rightarrow> string \<Rightarrow> (stored_file \<times> file_source) result" where
  "getOperationPhotoFile st d env user reservationId photoId =
     andThen (ops_reservation d env user reservationId) (\<lambda>_.
     andThen (owned_file photo_table d reservationId photoId ''Photo not found'') (\<lambda>ph.
     andThen (ensure_finished photo_table ph) (\<lambda>_.
     andThen (open_file env st photo_table ph d) (\<lambda>src. Inr (ph, src)))))"

definition removeOperationPhoto :: "storage \<Rightarrow> ctx \<Rightarrow> jwt_user \<Rightarrow> string \<Rightarrow> string \<Rightarrow> unit dbprog" where
  "removeOperationPhoto st ctx user reservationId photoId =
     bnd (asks (\<lambda>d.
        andThen (ensure_writer user) (\<lambda>_.
        andThen (ops_reservation d (c_env ctx) user reservationId) (\<lambda>_.
        owned_file photo_table d reservationId photoId ''Photo not found'')))) (\<lambda>ph.
     remove_stored (c_env ctx) st photo_table ph)"

section \<open>The damage report\<close>

definition find_damage :: "db \<Rightarrow> string \<Rightarrow> damage_report option" where
  "find_damage d reservationId = List.find (\<lambda>x. dm_reservationId x = reservationId) (d_damages d)"

type_synonym damage_view = "damage_report \<times> stored_file list"

definition damage_view_of :: "db \<Rightarrow> damage_report \<Rightarrow> damage_view" where
  "damage_view_of d x = (x\<lparr>dm_lines := sort_key dl_sortOrder (dm_lines x)\<rparr>, listed_files damage_photo_table (dm_id x) d)"

definition getDamage :: "db \<Rightarrow> env \<Rightarrow> jwt_user \<Rightarrow> string \<Rightarrow> damage_view option result" where
  "getDamage d env user reservationId =
     andThen (ops_reservation d env user reservationId) (\<lambda>_.
     Inr (map_option (damage_view_of d) (find_damage d reservationId)))"

record damage_line_input =
  di_area :: string
  di_description :: string
  di_estimatedFeeCents :: "int option"

record put_damage_input =
  pd_status :: damage_status
  pd_notes :: "string option"
  pd_suggestedCaptureCents :: "int option"
  pd_lines :: "damage_line_input list"

definition not_negative :: "int option \<Rightarrow> bool" where
  "not_negative x \<longleftrightarrow> 0 \<le> or_else x 0"

definition putReservationDamageBodySchema :: "put_damage_input \<Rightarrow> bool" where
  "putReservationDamageBodySchema inp \<longleftrightarrow>
     length (or_else (pd_notes inp) []) \<le> 8000 \<and> not_negative (pd_suggestedCaptureCents inp) \<and> length (pd_lines inp) \<le> 50 \<and>
     list_all (\<lambda>l. 1 \<le> length (di_area l) \<and> length (di_area l) \<le> 200 \<and> 1 \<le> length (di_description l) \<and>
       length (di_description l) \<le> 4000 \<and> not_negative (di_estimatedFeeCents l)) (pd_lines inp)"

definition damage_line_of :: "nat \<Rightarrow> damage_line_input \<Rightarrow> damage_line" where
  "damage_line_of i l =
     \<lparr>dl_area = trim (di_area l), dl_description = trim (di_description l),
      dl_estimatedFeeCents = di_estimatedFeeCents l, dl_sortOrder = i\<rparr>"

definition damage_lines_of :: "put_damage_input \<Rightarrow> damage_line list" where
  "damage_lines_of inp = map (\<lambda>(i, l). damage_line_of i l) (enumerate 0 (pd_lines inp))"

definition amounts_fit :: "put_damage_input \<Rightarrow> bool" where
  "amounts_fit inp \<longleftrightarrow>
     fits_int4 (or_else (pd_suggestedCaptureCents inp) 0) \<and>
     list_all (\<lambda>l. fits_int4 (or_else (di_estimatedFeeCents l) 0)) (pd_lines inp)"

definition damage_status_name :: "damage_status \<Rightarrow> string" where
  "damage_status_name x = (case x of DAMAGE_DRAFT \<Rightarrow> ''DRAFT'' | DAMAGE_CLOSED \<Rightarrow> ''CLOSED'')"

definition damage_audit :: "jwt_user \<Rightarrow> string \<Rightarrow> string \<Rightarrow> damage_report \<Rightarrow> put_damage_input \<Rightarrow> unit dbprog" where
  "damage_audit user action reservationId x inp =
     audit (bare_audit (Some (u_sub user)) action ''DamageReport'' (dm_id x)
       (JObj [(''reservationId'', JStr reservationId), (''lineCount'', JNum (int (length (pd_lines inp)))),
          (''status'', JStr (damage_status_name (pd_status inp))),
          (''suggestedCaptureCents'', oint (dm_suggestedCaptureCents x))]))"

definition insert_damage :: "damage_report \<Rightarrow> damage_report dbprog" where
  "insert_damage x =
     andDo (asks (\<lambda>d. ensure (\<not> list_ex (\<lambda>y. dm_id y = dm_id x \<or> dm_reservationId y = dm_reservationId x) (d_damages d))
       (Prisma ''P2002'')))
     (andDo (modify (d_damages_update (\<lambda>xs. xs @ [x]))) (ret x))"

definition new_damage :: "reservation \<Rightarrow> string \<Rightarrow> string \<Rightarrow> put_damage_input \<Rightarrow> damage_report" where
  "new_damage r newId userId inp =
     \<lparr>dm_id = newId, dm_companyId = r_companyId r, dm_reservationId = r_id r, dm_status = pd_status inp,
      dm_notes = pd_notes inp, dm_suggestedCaptureCents = pd_suggestedCaptureCents inp,
      dm_createdByUserId = userId, dm_lines = damage_lines_of inp\<rparr>"

definition rewritten_damage :: "put_damage_input \<Rightarrow> damage_report \<Rightarrow> damage_report" where
  "rewritten_damage inp x =
     x\<lparr>dm_status := pd_status inp, dm_notes := pd_notes inp,
       dm_suggestedCaptureCents := pd_suggestedCaptureCents inp, dm_lines := damage_lines_of inp\<rparr>"

definition putDamage :: "ctx \<Rightarrow> jwt_user \<Rightarrow> string \<Rightarrow> string \<Rightarrow> put_damage_input \<Rightarrow> damage_view dbprog" where
  "putDamage ctx user newId reservationId inp =
     bnd (asks (\<lambda>d. andThen (ensure_writer user) (\<lambda>_. ops_reservation d (c_env ctx) user reservationId))) (\<lambda>r.
     bnd (gets (\<lambda>d. find_damage d reservationId)) (\<lambda>existing.
     andDo (asks (\<lambda>_. ensure (amounts_fit inp) (Crash ''integer out of range'')))
     (case existing of
        Some x \<Rightarrow>
          andDo (modify (d_damages_update (update_row dm_id (dm_id x) (rewritten_damage inp))))
          (andDo (damage_audit user ''reservation.damage_report.update'' reservationId (rewritten_damage inp x) inp)
          (gets (\<lambda>d. damage_view_of d (rewritten_damage inp x))))
      | None \<Rightarrow>
          bnd (insert_damage (new_damage r newId (u_sub user) inp)) (\<lambda>x.
          andDo (damage_audit user ''reservation.damage_report.create'' reservationId x inp)
          (gets (\<lambda>d. damage_view_of d x))))))"

section \<open>Photos of a damage\<close>

definition blank_damage :: "reservation \<Rightarrow> string \<Rightarrow> string \<Rightarrow> damage_report" where
  "blank_damage r newId userId =
     \<lparr>dm_id = newId, dm_companyId = r_companyId r, dm_reservationId = r_id r, dm_status = DAMAGE_DRAFT,
      dm_notes = None, dm_suggestedCaptureCents = None, dm_createdByUserId = userId, dm_lines = []\<rparr>"

definition damage_or_draft :: "reservation \<Rightarrow> string \<Rightarrow> string \<Rightarrow> damage_report dbprog" where
  "damage_or_draft r newId userId =
     bnd (gets (\<lambda>d. find_damage d (r_id r))) (\<lambda>existing.
     case existing of Some x \<Rightarrow> ret x | None \<Rightarrow> insert_damage (blank_damage r newId userId))"

definition presignDamagePhoto ::
  "storage \<Rightarrow> ctx \<Rightarrow> jwt_user \<Rightarrow> string \<Rightarrow> string \<Rightarrow> string \<Rightarrow> presign_body \<Rightarrow> (stored_file \<times> string) dbprog" where
  "presignDamagePhoto st ctx user newDamageId newId reservationId b =
     bnd (asks (\<lambda>d.
        andThen (ensure_writer user) (\<lambda>_.
        andThen (ensure (presign_body_ok image_mime b) zod_failed) (\<lambda>_.
        andThen (ensure (isS3Mode (c_env ctx)) presign_off) (\<lambda>_.
        andThen (ensure (pb_mimeType b \<in> set image_mime \<and> \<not> pb_sizeBytes b > max_file_bytes) (BadRequest ''Invalid file'')) (\<lambda>_.
        ops_reservation d (c_env ctx) user reservationId)))))) (\<lambda>r.
     bnd (damage_or_draft r newDamageId (u_sub user)) (\<lambda>x.
     let ph = new_photo r (dm_id x) None ''dmg'' newId (u_sub user) (pb_originalName b) (pb_mimeType b) (pb_sizeBytes b) S3 (c_now ctx)
     in andDo (insert_file damage_photo_table ph)
        (bnd (asks (\<lambda>_. getPresignedPutUrl (c_env ctx) st (sf_storageKey ph) (pb_mimeType b))) (\<lambda>url. ret (ph, url)))))"

definition damage_reservation :: "db \<Rightarrow> stored_file \<Rightarrow> string option" where
  "damage_reservation d ph = map_option dm_reservationId (find_row dm_id (sf_ownerId ph) (d_damages d))"

definition damage_photo_of :: "db \<Rightarrow> string \<Rightarrow> string \<Rightarrow> stored_file result" where
  "damage_photo_of d reservationId photoId =
     (case find_file damage_photo_table d photoId of
        None \<Rightarrow> Inl (NotFound ''Photo not found'')
      | Some ph \<Rightarrow>
          if damage_reservation d ph \<noteq> Some reservationId then Inl (NotFound ''Photo not found'') else Inr ph)"

definition completeDamagePhoto :: "storage \<Rightarrow> ctx \<Rightarrow> jwt_user \<Rightarrow> string \<Rightarrow> string \<Rightarrow> stored_file dbprog" where
  "completeDamagePhoto st ctx user reservationId photoId =
     bnd (asks (\<lambda>d.
        andThen (ensure_writer user) (\<lambda>_.
        andThen (ensure (isS3Mode (c_env ctx)) (BadRequest ''Not in S3 mode'')) (\<lambda>_.
        andThen (ops_reservation d (c_env ctx) user reservationId) (\<lambda>r.
        andThen (damage_photo_of d reservationId photoId) (\<lambda>ph.
        if sf_companyId ph \<noteq> r_companyId r then Inl (NotFound ''Photo not found'') else Inr ph)))))) (\<lambda>ph.
     if sf_storage ph \<noteq> S3 \<or> sf_uploadCompletedAt ph \<noteq> None then ret ph else finish_upload ctx st damage_photo_table ph)"

definition uploadDamagePhotoLocal ::
  "storage \<Rightarrow> ctx \<Rightarrow> jwt_user \<Rightarrow> string \<Rightarrow> string \<Rightarrow> string \<Rightarrow> upload_file option \<Rightarrow> stored_file dbprog" where
  "uploadDamagePhotoLocal st ctx user newDamageId newId reservationId file =
     bnd (asks (\<lambda>d.
        andThen (ensure_writer user) (\<lambda>_.
        andThen (ensure (\<not> isS3Mode (c_env ctx)) no_multipart) (\<lambda>_.
        andThen (case file of None \<Rightarrow> Inl (BadRequest ''Invalid file'')
            | Some f \<Rightarrow> andThen (ensure (\<not> (uf_bytes f < 1 \<or> uf_bytes f > max_file_bytes \<or> uf_mime f \<notin> set image_mime))
                (BadRequest ''Invalid file'')) (\<lambda>_. Inr f)) (\<lambda>f.
        andThen (ops_reservation d (c_env ctx) user reservationId) (\<lambda>r. Inr (f, r))))))) (\<lambda>(f, r).
     bnd (damage_or_draft r newDamageId (u_sub user)) (\<lambda>x.
     let ph = new_photo r (dm_id x) None ''dmg'' newId (u_sub user) (uf_name f) (uf_mime f) (uf_bytes f) LOCAL (c_now ctx)
     in store_upload st damage_photo_table (absPath (c_env ctx) st (sf_storageKey ph)) ph ret))"

definition getDamagePhotoFile ::
  "storage \<Rightarrow> db \<Rightarrow> env \<Rightarrow> jwt_user \<Rightarrow> string \<Rightarrow> string \<Rightarrow> (stored_file \<times> file_source) result" where
  "getDamagePhotoFile st d env user reservationId photoId =
     andThen (ops_reservation d env user reservationId) (\<lambda>_.
     andThen (damage_photo_of d reservationId photoId) (\<lambda>ph.
     andThen (ensure_finished damage_photo_table ph) (\<lambda>_.
     andThen (open_file env st damage_photo_table ph d) (\<lambda>src. Inr (ph, src)))))"

definition removeDamagePhoto :: "storage \<Rightarrow> ctx \<Rightarrow> jwt_user \<Rightarrow> string \<Rightarrow> string \<Rightarrow> unit dbprog" where
  "removeDamagePhoto st ctx user reservationId photoId =
     bnd (asks (\<lambda>d.
        andThen (ensure_writer user) (\<lambda>_.
        andThen (ops_reservation d (c_env ctx) user reservationId) (\<lambda>_.
        damage_photo_of d reservationId photoId)))) (\<lambda>ph.
     remove_stored (c_env ctx) st damage_photo_table ph)"

end
