(* ===== verification/Customer_Documents.thy ===== *)
theory Customer_Documents
  imports Agreement_Files Customers Einvoicing
begin

text \<open>
  The identity documents of a customer (\<open>organization/customer/customer-document.service.ts\<close>): uploads,
  downloads, removal and verification, and the reading of a document by a machine: the queue, the mock and the
  HTTP adapter, the callback of an adapter, and what staff do with a suggestion. The HTTP client, the parser of
  JSON, the signature and the presigned links are parameters. An answer shows a part of the columns of the row;
  here it is the row. The dash in the note of the mock is written as a hyphen, and the text of an exception of a
  library is its code.
\<close>

section \<open>Suggestions\<close>

record ocr_suggestion =
  os_fullName :: "string option"
  os_documentNumber :: "string option"
  os_expiryDate :: "string option"
  os_fiscalCode :: "string option"
  os_note :: "string option"

definition opt_text :: "nat \<Rightarrow> nat \<Rightarrow> string \<Rightarrow> (string \<times> json) list \<Rightarrow> string option option" where
  "opt_text mn mx k fs =
     (case map_of fs k of
        None \<Rightarrow> Some None
      | Some JUndefined \<Rightarrow> Some None
      | Some (JStr x) \<Rightarrow> if mn \<le> length x \<and> length x \<le> mx then Some (Some x) else None
      | Some _ \<Rightarrow> None)"

definition date_shape :: "string \<Rightarrow> bool" where
  "date_shape x \<longleftrightarrow>
     length x = 10 \<and> list_all (\<lambda>i. if i = 4 \<or> i = 7 then x ! i = CHR ''-'' else isDigit (x ! i)) [0..<10]"

definition suggestion_keys :: "string list" where
  "suggestion_keys = [''fullName'', ''documentNumber'', ''expiryDate'', ''fiscalCode'', ''note'']"

definition parse_suggestion :: "json \<Rightarrow> ocr_suggestion option" where
  "parse_suggestion j =
     (case j of
        JObj fs \<Rightarrow>
          if \<not> list_all (\<lambda>f. fst f \<in> set suggestion_keys) fs then None
          else (case (opt_text 1 200 ''fullName'' fs, opt_text 1 80 ''documentNumber'' fs, opt_text 0 10 ''expiryDate'' fs,
                      opt_text 1 32 ''fiscalCode'' fs, opt_text 0 500 ''note'' fs) of
                  (Some a, Some b, Some c, Some d, Some e) \<Rightarrow>
                    if c = None \<or> date_shape (the c)
                    then Some \<lparr>os_fullName = a, os_documentNumber = b, os_expiryDate = c, os_fiscalCode = d, os_note = e\<rparr>
                    else None
                | _ \<Rightarrow> None)
      | _ \<Rightarrow> None)"

definition opt_field :: "string \<Rightarrow> string option \<Rightarrow> (string \<times> json) list" where
  "opt_field k x = (case x of None \<Rightarrow> [] | Some v \<Rightarrow> [(k, JStr v)])"

definition suggestion_json :: "ocr_suggestion \<Rightarrow> json" where
  "suggestion_json x =
     JObj (opt_field ''fullName'' (os_fullName x) @ opt_field ''documentNumber'' (os_documentNumber x) @
       opt_field ''expiryDate'' (os_expiryDate x) @ opt_field ''fiscalCode'' (os_fiscalCode x) @ opt_field ''note'' (os_note x))"

section \<open>The table\<close>

definition cd_finish :: "int \<Rightarrow> time \<Rightarrow> customer_document \<Rightarrow> customer_document" where
  "cd_finish n now x = x\<lparr>cd_sizeBytes := n, cd_uploadCompletedAt := Some now\<rparr>"

definition document_table :: "customer_document file_table" where
  "document_table =
     \<lparr>ft_rows = d_documents, ft_change = d_documents_update, ft_id = cd_id, ft_owner = cd_customerId, ft_key = cd_storageKey,
      ft_storage = cd_storage, ft_completedAt = cd_uploadCompletedAt, ft_bytes = cd_sizeBytes, ft_createdAt = cd_createdAt,
      ft_finish = cd_finish\<rparr>"

lemma document_table_simps [simp]:
  "ft_rows document_table = d_documents" "ft_change document_table = d_documents_update"
  "ft_id document_table = cd_id" "ft_owner document_table = cd_customerId" "ft_key document_table = cd_storageKey"
  "ft_storage document_table = cd_storage" "ft_completedAt document_table = cd_uploadCompletedAt"
  "ft_bytes document_table = cd_sizeBytes" "ft_createdAt document_table = cd_createdAt" "ft_finish document_table = cd_finish"
  by (simp_all add: document_table_def)

interpretation document_files: file_store document_table
  by unfold_locales (simp_all add: cd_finish_def)

definition find_document :: "db \<Rightarrow> string \<Rightarrow> customer_document option" where
  "find_document d i = find_row cd_id i (d_documents d)"

definition write_document :: "string \<Rightarrow> (customer_document \<Rightarrow> customer_document) \<Rightarrow> customer_document dbprog" where
  "write_document i f =
     bnd (asks (\<lambda>d. orElse (find_document d i) (Prisma ''P2025''))) (\<lambda>x.
     andDo (modify (d_documents_update (update_row cd_id i f))) (ret (f x)))"

definition document_found :: "db \<Rightarrow> string \<Rightarrow> string \<Rightarrow> customer_document result" where
  "document_found d customerId documentId = owned_file document_table d customerId documentId ''Document not found''"

section \<open>Configuration\<close>

definition trimmed_setting :: "env \<Rightarrow> string \<Rightarrow> string" where
  "trimmed_setting env k = trim (or_else (env k) [])"

definition ocr_mode :: "env \<Rightarrow> string" where
  "ocr_mode env = toLowerCase (trimmed_setting env ''CUSTOMER_DOCUMENT_OCR_AUTO'')"

definition shouldQueueOcrAfterUpload :: "env \<Rightarrow> bool" where
  "shouldQueueOcrAfterUpload env \<longleftrightarrow> ocr_mode env = ''mock'' \<or> ocr_mode env = ''http''"

definition getOcrHttpVendorLabel :: "env \<Rightarrow> string" where
  "getOcrHttpVendorLabel env =
     (let v = trimmed_setting env ''CUSTOMER_DOCUMENT_OCR_HTTP_VENDOR'' in take 64 (if v = [] then ''HTTP'' else v))"

definition clamped_setting :: "string option \<Rightarrow> int \<Rightarrow> int \<Rightarrow> int \<Rightarrow> int" where
  "clamped_setting raw fallback mn mx = min mx (max mn (or_else (parseInt10 (or_else raw [])) fallback))"

definition getOcrHttpTimeoutMs :: "env \<Rightarrow> int" where
  "getOcrHttpTimeoutMs env = clamped_setting (env ''CUSTOMER_DOCUMENT_OCR_HTTP_TIMEOUT_MS'') 30000 5000 120000"

definition getOcrPresignGetSeconds :: "env \<Rightarrow> int" where
  "getOcrPresignGetSeconds env = clamped_setting (env ''CUSTOMER_DOCUMENT_OCR_HTTP_PRESIGN_GET_SECONDS'') 300 60 3600"

definition getOcrIncludePresignedGet :: "env \<Rightarrow> bool" where
  "getOcrIncludePresignedGet env \<longleftrightarrow>
     toLowerCase (trimmed_setting env ''CUSTOMER_DOCUMENT_OCR_HTTP_INCLUDE_PRESIGNED_GET'') \<in> {''1'', ''true'', ''yes''}"

section \<open>The queue\<close>

definition queued :: "customer_document \<Rightarrow> customer_document" where
  "queued x = x\<lparr>cd_ocrStatus := OCR_PENDING, cd_ocrSuggestion := None, cd_ocrCompletedAt := None, cd_ocrVendor := None,
     cd_ocrError := None\<rparr>"

definition maybeQueuePendingOcr :: "env \<Rightarrow> string \<Rightarrow> unit dbprog" where
  "maybeQueuePendingOcr env i =
     (if \<not> shouldQueueOcrAfterUpload env then ret ()
      else bnd (gets (\<lambda>d. find_document d i)) (\<lambda>x.
        case x of
          None \<Rightarrow> ret ()
        | Some x \<Rightarrow>
            if cd_uploadCompletedAt x = None \<or> cd_ocrAppliedAt x \<noteq> None then ret ()
            else andDo (write_document i queued) (ret ())))"

section \<open>Uploads\<close>

definition document_list :: "db \<Rightarrow> env \<Rightarrow> jwt_user \<Rightarrow> string \<Rightarrow> customer_document list result" where
  "document_list d env user customerId =
     andThen (visible_customer d env user customerId) (\<lambda>_. Inr (listed_files document_table customerId d))"

definition document_key :: "customer \<Rightarrow> string \<Rightarrow> string \<Rightarrow> string \<Rightarrow> string" where
  "document_key c newId originalName mime =
     cu_companyId c @ ''/customers/'' @ cu_id c @ ''/'' @ newId @ extFromNameOrMime originalName mime"

definition new_document ::
  "customer \<Rightarrow> string \<Rightarrow> string \<Rightarrow> document_type \<Rightarrow> string \<Rightarrow> string \<Rightarrow> int \<Rightarrow> time option \<Rightarrow> attachment_storage \<Rightarrow> time \<Rightarrow>
     customer_document" where
  "new_document c newId userId docType originalName mime bytes retentionUntil place now =
     \<lparr>cd_id = newId, cd_companyId = cu_companyId c, cd_customerId = cu_id c, cd_docType = docType, cd_storage = place,
      cd_uploadCompletedAt = (if place = LOCAL then Some now else None), cd_retentionUntil = retentionUntil,
      cd_verifiedAt = None, cd_verifiedByUserId = None, cd_originalName = originalName, cd_mimeType = mime,
      cd_sizeBytes = bytes, cd_storageKey = document_key c newId originalName mime, cd_uploadedByUserId = Some userId,
      cd_ocrStatus = OCR_NONE, cd_ocrSuggestion = None, cd_ocrCompletedAt = None, cd_ocrVendor = None, cd_ocrError = None,
      cd_ocrAppliedAt = None, cd_ocrAppliedByUserId = None, cd_createdAt = now\<rparr>"

definition reread_document :: "string \<Rightarrow> customer_document dbprog" where
  "reread_document i = asks (\<lambda>d. orElse (find_document d i) (Prisma ''P2025''))"

definition queue_and_reread :: "env \<Rightarrow> customer_document \<Rightarrow> customer_document dbprog" where
  "queue_and_reread env x = andDo (maybeQueuePendingOcr env (cd_id x)) (reread_document (cd_id x))"

definition document_upload ::
  "storage \<Rightarrow> ctx \<Rightarrow> jwt_user \<Rightarrow> string \<Rightarrow> string \<Rightarrow> upload_file option \<Rightarrow> document_type \<Rightarrow> time option \<Rightarrow>
     customer_document dbprog" where
  "document_upload st ctx user newId customerId file docType retentionUntil =
     bnd (asks (\<lambda>d.
        andThen (check_local_file (c_env ctx) document_mime document_mime_msg file) (\<lambda>f.
        andThen (ensure_writer user) (\<lambda>_.
        andThen (visible_customer d (c_env ctx) user customerId) (\<lambda>c. Inr (f, c)))))) (\<lambda>(f, c).
     let x = new_document c newId (u_sub user) docType (safeOriginalName (uf_name f)) (uf_mime f) (uf_bytes f)
               retentionUntil LOCAL (c_now ctx)
     in store_upload st document_table (absPath (c_env ctx) st (cd_storageKey x)) x (queue_and_reread (c_env ctx)))"

definition document_presign ::
  "storage \<Rightarrow> ctx \<Rightarrow> jwt_user \<Rightarrow> string \<Rightarrow> string \<Rightarrow> presign_body \<Rightarrow> document_type \<Rightarrow> time option \<Rightarrow>
     (customer_document \<times> string) dbprog" where
  "document_presign st ctx user newId customerId b docType retentionUntil =
     bnd (asks (\<lambda>d.
        andThen (ensure (isS3Mode (c_env ctx)) (BadRequest ''Presigned upload is only available when STORAGE_MODE=s3'')) (\<lambda>_.
        andThen (ensure (pb_mimeType b \<in> set document_mime) (BadRequest document_mime_msg)) (\<lambda>_.
        andThen (ensure_writer user) (\<lambda>_.
        visible_customer d (c_env ctx) user customerId))))) (\<lambda>c.
     let x = new_document c newId (u_sub user) docType (safeOriginalName (pb_originalName b)) (pb_mimeType b)
               (pb_sizeBytes b) retentionUntil S3 (c_now ctx)
     in andDo (insert_file document_table x)
        (bnd (asks (\<lambda>_. getPresignedPutUrl (c_env ctx) st (cd_storageKey x) (pb_mimeType b))) (\<lambda>url. ret (x, url))))"

definition document_complete :: "storage \<Rightarrow> ctx \<Rightarrow> jwt_user \<Rightarrow> string \<Rightarrow> string \<Rightarrow> customer_document dbprog" where
  "document_complete st ctx user customerId documentId =
     bnd (asks (\<lambda>d.
        andThen (ensure (isS3Mode (c_env ctx)) (BadRequest ''Not in S3 mode'')) (\<lambda>_.
        andThen (visible_customer d (c_env ctx) user customerId) (\<lambda>_.
        andThen (ensure_writer user) (\<lambda>_.
        andThen (document_found d customerId documentId) (\<lambda>x.
        andThen (ensure (cd_storage x = S3) (BadRequest ''Not a presigned S3 document'')) (\<lambda>_. Inr x))))))) (\<lambda>x.
     if cd_uploadCompletedAt x \<noteq> None then ret x
     else bnd (finish_upload ctx st document_table x) (queue_and_reread (c_env ctx)))"

section \<open>Reading, removing, verifying\<close>

definition document_json :: "customer_document \<Rightarrow> json" where
  "document_json x =
     JObj [(''customerId'', JStr (cd_customerId x)), (''companyId'', JStr (cd_companyId x)),
       (''originalName'', JStr (cd_originalName x))]"

definition document_download ::
  "storage \<Rightarrow> ctx \<Rightarrow> jwt_user \<Rightarrow> string \<Rightarrow> string \<Rightarrow> (customer_document \<times> file_source) dbprog" where
  "document_download st ctx user customerId documentId =
     bnd (asks (\<lambda>d.
        andThen (visible_customer d (c_env ctx) user customerId) (\<lambda>_.
        andThen (document_found d customerId documentId) (\<lambda>x.
        andThen (ensure_finished document_table x) (\<lambda>_. Inr x))))) (\<lambda>x.
     andDo (audit (audit_entry ctx (Some (u_sub user)) ''customer_document.download'' ''CustomerDocument'' (cd_id x) (document_json x)))
     (bnd (asks (open_file (c_env ctx) st document_table x)) (\<lambda>src. ret (x, src))))"

definition document_to_change :: "db \<Rightarrow> env \<Rightarrow> jwt_user \<Rightarrow> string \<Rightarrow> string \<Rightarrow> (customer \<times> customer_document) result" where
  "document_to_change d env user customerId documentId =
     andThen (ensure_writer user) (\<lambda>_.
     andThen (visible_customer d env user customerId) (\<lambda>c.
     andThen (document_found d customerId documentId) (\<lambda>x. Inr (c, x))))"

definition document_remove :: "storage \<Rightarrow> ctx \<Rightarrow> jwt_user \<Rightarrow> string \<Rightarrow> string \<Rightarrow> unit dbprog" where
  "document_remove st ctx user customerId documentId =
     bnd (asks (\<lambda>d. document_to_change d (c_env ctx) user customerId documentId)) (\<lambda>(_, x).
     remove_stored (c_env ctx) st document_table x)"

definition setVerification :: "ctx \<Rightarrow> jwt_user \<Rightarrow> string \<Rightarrow> string \<Rightarrow> bool \<Rightarrow> customer_document dbprog" where
  "setVerification ctx user customerId documentId verified =
     bnd (asks (\<lambda>d.
        andThen (document_to_change d (c_env ctx) user customerId documentId) (\<lambda>(_, x).
        andThen (ensure (cd_uploadCompletedAt x \<noteq> None)
          (BadRequest ''Document upload is not complete; finish upload before verification'')) (\<lambda>_. Inr x)))) (\<lambda>x.
     bnd (write_document documentId (\<lambda>y. y\<lparr>cd_verifiedAt := (if verified then Some (c_now ctx) else None),
            cd_verifiedByUserId := (if verified then Some (u_sub user) else None)\<rparr>)) (\<lambda>updated.
     andDo (audit (bare_audit (Some (u_sub user))
        (if verified then ''customer_document.verify'' else ''customer_document.unverify'') ''CustomerDocument'' documentId
        (document_json x)))
     (ret updated)))"

end
