(* ===== verification/Document_Ocr.thy ===== *)
theory Document_Ocr
  imports Customer_Documents
begin

text \<open>
  How a machine reads the documents of customers (second half of
  \<open>organization/customer/customer-document.service.ts\<close> and
  \<open>internal/customer-document-ocr-cron.service.ts\<close>): the mock, the HTTP adapter, the batches of the
  worker, the callback of an adapter, and what staff do with a suggestion.
\<close>

section \<open>The mock\<close>

definition add_utc_years :: "int \<Rightarrow> time \<Rightarrow> time" where
  "add_utc_years n t =
     (case ymd (day_of t) of (y, m, dd) \<Rightarrow>
        (day_from_year (y + n) + days_before_month (leap_year (y + n)) m + dd - 1) * ms_per_day + t mod ms_per_day)"

definition name_words :: "string \<Rightarrow> string list" where
  "name_words x = filter (\<lambda>w. w \<noteq> []) (split_on CHR '' '' (map (\<lambda>c. if isSpace c then CHR '' '' else c) (trim x)))"

definition mock_name :: "string \<Rightarrow> string" where
  "mock_name x =
     (case name_words x of
        w # v # ws \<Rightarrow> joinWith '' '' ((v # ws) @ [w])
      | _ \<Rightarrow> trim x @ '' [demo]'')"

definition mock_note :: string where
  "mock_note = ''Mock OCR (G3) - not a real extraction; staff must verify and apply fields deliberately.''"

definition mock_base :: "time \<Rightarrow> customer_document \<Rightarrow> customer \<Rightarrow> ocr_suggestion" where
  "mock_base now x c =
     \<lparr>os_fullName = (if cd_docType x \<noteq> OTHER_DOCUMENT then Some (mock_name (cu_name c)) else None),
      os_documentNumber = Some (''MOCK-'' @ toUpperCase (take 10 (filter (\<lambda>h. h \<noteq> CHR ''-'') (cd_id x)))),
      os_expiryDate = Some (take 10 (toISOString (add_utc_years 5 now))),
      os_fiscalCode = (if trim (or_else (cu_fiscalCode c) []) = [] then Some ''RSSMRA80A01H501U'' else None),
      os_note = Some mock_note\<rparr>"

definition mockOcrSuggestion :: "time \<Rightarrow> customer_document \<Rightarrow> customer \<Rightarrow> ocr_suggestion result" where
  "mockOcrSuggestion now x c = orElse (parse_suggestion (suggestion_json (mock_base now x c))) zod_failed"

section \<open>Storing a result\<close>

definition ready_row :: "time \<Rightarrow> string \<Rightarrow> ocr_suggestion \<Rightarrow> customer_document \<Rightarrow> customer_document" where
  "ready_row now vendor g x =
     x\<lparr>cd_ocrStatus := OCR_READY, cd_ocrSuggestion := Some (suggestion_json g), cd_ocrCompletedAt := Some now,
       cd_ocrVendor := Some vendor, cd_ocrError := None\<rparr>"

definition failed_row :: "string \<Rightarrow> customer_document \<Rightarrow> customer_document" where
  "failed_row msg x =
     x\<lparr>cd_ocrStatus := OCR_FAILED, cd_ocrError := Some (take 2000 msg), cd_ocrVendor := None, cd_ocrCompletedAt := None,
       cd_ocrSuggestion := None\<rparr>"

text \<open>The column of the vendor holds 64 characters.\<close>

definition vendor_fits :: "string \<Rightarrow> unit result" where
  "vendor_fits vendor = ensure (length vendor \<le> 64) (Prisma ''P2000'')"

definition doc_type_name :: "document_type \<Rightarrow> string" where
  "doc_type_name t =
     (case t of ID_CARD \<Rightarrow> ''ID_CARD'' | DRIVING_LICENSE \<Rightarrow> ''DRIVING_LICENSE'' | PASSPORT \<Rightarrow> ''PASSPORT'' | OTHER_DOCUMENT \<Rightarrow> ''OTHER'')"

definition ocr_metadata :: "customer_document \<Rightarrow> (string \<times> json) list" where
  "ocr_metadata x =
     [(''customerId'', JStr (cd_customerId x)), (''companyId'', JStr (cd_companyId x)), (''docType'', JStr (doc_type_name (cd_docType x)))]"

definition persistVendorOcrResult ::
  "time \<Rightarrow> customer_document \<Rightarrow> json \<Rightarrow> string \<Rightarrow> string option \<Rightarrow> string \<Rightarrow> (string \<times> json) list \<Rightarrow> customer_document dbprog" where
  "persistVendorOcrResult now x raw vendor actor action extra =
     bnd (asks (\<lambda>_. orElse (parse_suggestion raw) zod_failed)) (\<lambda>g.
     andDo (asks (\<lambda>_. vendor_fits vendor))
     (bnd (write_document (cd_id x) (ready_row now vendor g)) (\<lambda>updated.
      andDo (audit (bare_audit actor action ''CustomerDocument'' (cd_id x) (JObj (ocr_metadata x @ extra))))
      (ret updated))))"

definition persistMockOcrResult :: "time \<Rightarrow> customer_document \<Rightarrow> customer \<Rightarrow> string option \<Rightarrow> customer_document dbprog" where
  "persistMockOcrResult now x c actor =
     bnd (asks (\<lambda>_. mockOcrSuggestion now x c)) (\<lambda>g.
     persistVendorOcrResult now x (suggestion_json g) ''MOCK'' actor
       (if truthy actor then ''customer_document.ocr_mock_run'' else ''customer_document.ocr_cron_mock'') [])"

section \<open>The HTTP adapter\<close>

record ocr_lib =
  ol_http :: "int \<Rightarrow> http_post \<Rightarrow> http_answer"
  ol_parse :: "string \<Rightarrow> json option"
  ol_hmac :: "string \<Rightarrow> string \<Rightarrow> string"
  ol_get :: "string \<Rightarrow> int \<Rightarrow> string option"

definition document_url :: "ocr_lib \<Rightarrow> env \<Rightarrow> customer_document \<Rightarrow> string option" where
  "document_url lib env x =
     (if getOcrIncludePresignedGet env \<and> cd_storage x = S3 \<and> isS3Mode env
      then ol_get lib (cd_storageKey x) (getOcrPresignGetSeconds env) else None)"

definition ocr_payload :: "ocr_lib \<Rightarrow> env \<Rightarrow> customer_document \<Rightarrow> customer \<Rightarrow> json" where
  "ocr_payload lib env x c =
     JObj ([(''documentId'', JStr (cd_id x)), (''companyId'', JStr (cd_companyId x)), (''customerId'', JStr (cd_customerId x)),
        (''docType'', JStr (doc_type_name (cd_docType x))), (''originalName'', JStr (cd_originalName x)),
        (''mimeType'', JStr (cd_mimeType x)),
        (''customer'', JObj [(''name'', JStr (cu_name c)),
           (''fiscalCode'', if trim (or_else (cu_fiscalCode c) []) = [] then JNull else ostr (cu_fiscalCode c))])] @
       (if truthy (document_url lib env x) then [(''documentDownloadUrl'', ostr (document_url lib env x))] else []))"

definition ocr_post :: "ocr_lib \<Rightarrow> env \<Rightarrow> time \<Rightarrow> customer_document \<Rightarrow> customer \<Rightarrow> http_post" where
  "ocr_post lib env now x c =
     (let body = stringify (ocr_payload lib env x c); ts = show_int (now div 1000);
          bearer = trimmed_setting env ''CUSTOMER_DOCUMENT_OCR_HTTP_SECRET'';
          hmacSecret = trimmed_setting env ''CUSTOMER_DOCUMENT_OCR_HTTP_HMAC_SECRET''
      in \<lparr>hp_url = trimmed_setting env ''CUSTOMER_DOCUMENT_OCR_HTTP_URL'',
          hp_headers = [(''Content-Type'', ''application/json'')] @
            (if bearer = [] then [] else [(''Authorization'', ''Bearer '' @ bearer)]) @
            (if hmacSecret = [] then []
             else [(''X-CarRental-Ocr-Timestamp'', ts),
                   (''X-CarRental-Ocr-Signature'', ol_hmac lib hmacSecret (ts @ ''.'' @ body))]),
          hp_body = body\<rparr>)"

definition suggestion_part :: "json \<Rightarrow> json" where
  "suggestion_part j =
     (case j of
        JObj fs \<Rightarrow> (case map_of fs ''suggestion'' of None \<Rightarrow> j | Some JNull \<Rightarrow> j | Some JUndefined \<Rightarrow> j | Some v \<Rightarrow> v)
      | JArr xs \<Rightarrow> j
      | _ \<Rightarrow> JObj [])"

definition is_object :: "json \<Rightarrow> bool" where
  "is_object j \<longleftrightarrow> (case j of JObj _ \<Rightarrow> True | _ \<Rightarrow> False)"

definition read_answer :: "ocr_lib \<Rightarrow> http_answer \<Rightarrow> ocr_suggestion result" where
  "read_answer lib answer =
     (case answer of
        FetchFailed msg \<Rightarrow> Inl (Crash msg)
      | Responded status body \<Rightarrow>
          if \<not> (200 \<le> status \<and> status \<le> 299) then Inl (Crash (''OCR HTTP '' @ show_int status @ '': '' @ take 500 body))
          else (case ol_parse lib body of
                  None \<Rightarrow> Inl (Crash ''OCR HTTP response is not JSON'')
                | Some j \<Rightarrow>
                    if \<not> is_object (suggestion_part j) then Inl (Crash ''OCR HTTP response missing suggestion object'')
                    else orElse (parse_suggestion (suggestion_part j)) zod_failed))"

definition callHttpOcrAdapter :: "ocr_lib \<Rightarrow> env \<Rightarrow> time \<Rightarrow> customer_document \<Rightarrow> customer \<Rightarrow> ocr_suggestion result" where
  "callHttpOcrAdapter lib env now x c =
     (if trimmed_setting env ''CUSTOMER_DOCUMENT_OCR_HTTP_URL'' = []
      then Inl (Crash ''CUSTOMER_DOCUMENT_OCR_HTTP_URL is not configured'')
      else read_answer lib (ol_http lib (getOcrHttpTimeoutMs env) (ocr_post lib env now x c)))"

section \<open>The batches of the worker\<close>

fun error_text :: "http_error \<Rightarrow> string" where
  "error_text (BadRequest m) = m"
| "error_text (NotFound m) = m"
| "error_text (Forbidden m) = m"
| "error_text (Conflict m) = m"
| "error_text (Unauthorized m) = m"
| "error_text (ServiceUnavailable m) = m"
| "error_text (Blocked m _) = m"
| "error_text (Prisma m) = m"
| "error_text (Crash m) = m"

definition pending_documents :: "nat \<Rightarrow> db \<Rightarrow> customer_document list" where
  "pending_documents limit d = take limit (sort_key cd_createdAt (filter ocr_waits (d_documents d)))"

text \<open>One row of a batch, as it was read at the start of the batch; the answer says whether it went well.\<close>

definition process_row :: "(customer_document \<Rightarrow> customer \<Rightarrow> customer_document dbprog) \<Rightarrow> customer_document \<Rightarrow> bool dbprog" where
  "process_row run x =
     bnd (gets (\<lambda>d. find_customer d (cd_customerId x))) (\<lambda>c.
     case c of
       None \<Rightarrow> andDo (write_document (cd_id x) (failed_row ''Customer missing for document'')) (ret False)
     | Some c \<Rightarrow>
         catch (andDo (run x c) (ret True))
           (\<lambda>e. andDo (write_document (cd_id x) (failed_row (error_text e))) (ret False)))"

definition mock_row :: "time \<Rightarrow> customer_document \<Rightarrow> customer \<Rightarrow> customer_document dbprog" where
  "mock_row now x c = persistMockOcrResult now x c None"

definition http_row :: "ocr_lib \<Rightarrow> env \<Rightarrow> time \<Rightarrow> customer_document \<Rightarrow> customer \<Rightarrow> customer_document dbprog" where
  "http_row lib env now x c =
     bnd (asks (\<lambda>_. callHttpOcrAdapter lib env now x c)) (\<lambda>g.
     persistVendorOcrResult now x (suggestion_json g) (getOcrHttpVendorLabel env) None ''customer_document.ocr_cron_http'' [])"

definition process_batch ::
  "(customer_document \<Rightarrow> customer \<Rightarrow> customer_document dbprog) \<Rightarrow> nat \<Rightarrow> (nat \<times> nat) dbprog" where
  "process_batch run limit =
     bnd (gets (pending_documents limit)) (\<lambda>rows.
     bnd (mapProg (process_row run) rows) (\<lambda>oks.
     ret (length (filter (\<lambda>ok. ok) oks), length (filter Not oks))))"

definition processPendingOcrMockBatch :: "time \<Rightarrow> nat \<Rightarrow> (nat \<times> nat) dbprog" where
  "processPendingOcrMockBatch now limit = process_batch (mock_row now) limit"

definition processPendingOcrHttpBatch :: "ocr_lib \<Rightarrow> env \<Rightarrow> time \<Rightarrow> nat \<Rightarrow> (nat \<times> nat) dbprog" where
  "processPendingOcrHttpBatch lib env now limit = process_batch (http_row lib env now) limit"

record ocr_batch_result =
  br_processed :: nat
  br_failed :: nat
  br_batchLimit :: int
  br_reason :: "string option"

definition ocr_batch_limit :: "env \<Rightarrow> int" where
  "ocr_batch_limit env = min 100 (max 1 (parseIntEnv (env ''CUSTOMER_DOCUMENT_OCR_CRON_BATCH'') 20 1 100))"

definition processDueBatch :: "ocr_lib \<Rightarrow> ctx \<Rightarrow> ocr_batch_result dbprog" where
  "processDueBatch lib ctx =
     (let env = c_env ctx; limit = ocr_batch_limit env;
          skipped = (\<lambda>why. ret \<lparr>br_processed = 0, br_failed = 0, br_batchLimit = limit, br_reason = Some why\<rparr>)
      in if ocr_mode env \<noteq> ''mock'' \<and> ocr_mode env \<noteq> ''http'' then skipped ''CUSTOMER_DOCUMENT_OCR_AUTO is not mock or http''
         else if ocr_mode env = ''http'' \<and> trimmed_setting env ''CUSTOMER_DOCUMENT_OCR_HTTP_URL'' = []
         then skipped ''CUSTOMER_DOCUMENT_OCR_HTTP_URL is required when CUSTOMER_DOCUMENT_OCR_AUTO=http''
         else bnd (if ocr_mode env = ''mock'' then processPendingOcrMockBatch (c_now ctx) (nat limit)
                   else processPendingOcrHttpBatch lib env (c_now ctx) (nat limit)) (\<lambda>(p, f).
              ret \<lparr>br_processed = p, br_failed = f, br_batchLimit = limit, br_reason = None\<rparr>))"

section \<open>What staff do\<close>

definition runMockOcr :: "ctx \<Rightarrow> jwt_user \<Rightarrow> string \<Rightarrow> string \<Rightarrow> customer_document dbprog" where
  "runMockOcr ctx user customerId documentId =
     bnd (asks (\<lambda>d.
        andThen (document_to_change d (c_env ctx) user customerId documentId) (\<lambda>(c, x).
        andThen (ensure (cd_uploadCompletedAt x \<noteq> None)
          (BadRequest ''Document upload is not complete; finish upload before running OCR'')) (\<lambda>_.
        andThen (ensure (cd_ocrAppliedAt x = None) (BadRequest ''OCR was already applied for this document'')) (\<lambda>_.
        Inr (c, x)))))) (\<lambda>(c, x).
     persistMockOcrResult (c_now ctx) x c (Some (u_sub user)))"

definition dismissed :: "customer_document \<Rightarrow> customer_document" where
  "dismissed x = x\<lparr>cd_ocrStatus := OCR_NONE, cd_ocrSuggestion := None, cd_ocrCompletedAt := None, cd_ocrVendor := None,
     cd_ocrError := None\<rparr>"

definition dismissOcrSuggestion :: "ctx \<Rightarrow> jwt_user \<Rightarrow> string \<Rightarrow> string \<Rightarrow> customer_document dbprog" where
  "dismissOcrSuggestion ctx user customerId documentId =
     bnd (asks (\<lambda>d.
        andThen (document_to_change d (c_env ctx) user customerId documentId) (\<lambda>(_, x).
        andThen (ensure (cd_ocrAppliedAt x = None) (BadRequest ''Cannot dismiss OCR after it was applied'')) (\<lambda>_. Inr x)))) (\<lambda>x.
     bnd (write_document documentId dismissed) (\<lambda>updated.
     andDo (audit (bare_audit (Some (u_sub user)) ''customer_document.ocr_dismiss'' ''CustomerDocument'' documentId
        (JObj [(''customerId'', JStr customerId), (''companyId'', JStr (cd_companyId x))])))
     (ret updated)))"

record apply_body =
  ab_applyName :: bool
  ab_applyFiscalCode :: bool
  ab_appendDetailsToNotes :: bool

definition applyCustomerDocumentOcrBodySchema :: "apply_body \<Rightarrow> bool" where
  "applyCustomerDocumentOcrBodySchema b \<longleftrightarrow> ab_applyName b \<or> ab_applyFiscalCode b \<or> ab_appendDetailsToNotes b"

definition applied_name :: "apply_body \<Rightarrow> ocr_suggestion \<Rightarrow> string option result" where
  "applied_name b g =
     (if \<not> ab_applyName b then Inr None
      else if trim (or_else (os_fullName g) []) = [] then Inl (BadRequest ''Suggested full name is missing'')
      else Inr (Some (trim (the (os_fullName g)))))"

definition applied_code :: "apply_body \<Rightarrow> ocr_suggestion \<Rightarrow> string option result" where
  "applied_code b g =
     (if \<not> ab_applyFiscalCode b then Inr None
      else if trim (or_else (os_fiscalCode g) []) = [] then Inl (BadRequest ''Suggested fiscal code is missing'')
      else Inr (Some (toUpperCase (trim (the (os_fiscalCode g))))))"

definition detail_bits :: "ocr_suggestion \<Rightarrow> string list" where
  "detail_bits g =
     (if truthy (os_documentNumber g) then [''doc# '' @ the (os_documentNumber g)] else []) @
     (if truthy (os_expiryDate g) then [''exp '' @ the (os_expiryDate g)] else [])"

definition applied_notes :: "time \<Rightarrow> apply_body \<Rightarrow> ocr_suggestion \<Rightarrow> string option result" where
  "applied_notes now b g =
     (if \<not> ab_appendDetailsToNotes b then Inr None
      else if detail_bits g = [] then Inl (BadRequest ''No document number or expiry in suggestion to append'')
      else Inr (Some (''[OCR '' @ take 10 (toISOString now) @ ''] '' @ joinWith ''; '' (detail_bits g))))"

definition with_ocr :: "customer \<Rightarrow> string option \<Rightarrow> string option \<Rightarrow> string option \<Rightarrow> customer \<Rightarrow> customer" where
  "with_ocr read nm fcode notes c =
     c\<lparr>cu_name := or_else nm (cu_name c),
       cu_fiscalCode := (case fcode of None \<Rightarrow> cu_fiscalCode c | Some f \<Rightarrow> Some f),
       cu_notes := (case notes of
          None \<Rightarrow> cu_notes c
        | Some n \<Rightarrow> let cur = trim (or_else (cu_notes read) []) in Some (if cur = [] then n else cur @ [CHR 0x0A] @ n))\<rparr>"

definition check_apply ::
  "db \<Rightarrow> ctx \<Rightarrow> jwt_user \<Rightarrow> string \<Rightarrow> string \<Rightarrow> apply_body \<Rightarrow>
     (customer \<times> customer_document \<times> string option \<times> string option \<times> string option) result" where
  "check_apply d ctx user customerId documentId b =
     andThen (ensure_writer user) (\<lambda>_.
     andThen (ensure (applyCustomerDocumentOcrBodySchema b) zod_failed) (\<lambda>_.
     andThen (document_to_change d (c_env ctx) user customerId documentId) (\<lambda>(c, x).
     andThen (ensure (cd_ocrStatus x = OCR_READY \<and> cd_ocrSuggestion x \<noteq> None) (BadRequest ''No OCR suggestion to apply'')) (\<lambda>_.
     andThen (ensure (cd_ocrAppliedAt x = None) (BadRequest ''OCR suggestion was already applied'')) (\<lambda>_.
     andThen (orElse (parse_suggestion (case cd_ocrSuggestion x of Some (JObj fs) \<Rightarrow> JObj fs | Some (JArr xs) \<Rightarrow> JArr xs | _ \<Rightarrow> JObj []))
       zod_failed) (\<lambda>g.
     andThen (applied_name b g) (\<lambda>nm.
     andThen (applied_code b g) (\<lambda>fcode.
     andThen (applied_notes (c_now ctx) b g) (\<lambda>notes.
     andThen (ensure (nm \<noteq> None \<or> fcode \<noteq> None \<or> notes \<noteq> None) (BadRequest ''Nothing to apply'')) (\<lambda>_.
     Inr (c, x, nm, fcode, notes)))))))))))"

definition applied_row :: "time \<Rightarrow> string \<Rightarrow> customer_document \<Rightarrow> customer_document" where
  "applied_row now userId x = x\<lparr>cd_ocrAppliedAt := Some now, cd_ocrAppliedByUserId := Some userId\<rparr>"

definition applyOcrSuggestion :: "ctx \<Rightarrow> jwt_user \<Rightarrow> string \<Rightarrow> string \<Rightarrow> apply_body \<Rightarrow> customer_document dbprog" where
  "applyOcrSuggestion ctx user customerId documentId b =
     bnd (asks (\<lambda>d. check_apply d ctx user customerId documentId b)) (\<lambda>(c, x, nm, fcode, notes).
     andDo (transaction
        (andDo (asks (\<lambda>d. ensure (find_customer d customerId \<noteq> None) (Prisma ''P2025'')))
        (andDo (modify (d_customers_update (update_row cu_id customerId (with_ocr c nm fcode notes))))
        (write_document documentId (applied_row (c_now ctx) (u_sub user))))))
     (bnd (reread_document documentId) (\<lambda>updated.
     andDo (audit (bare_audit (Some (u_sub user)) ''customer_document.ocr_apply'' ''CustomerDocument'' documentId
        (JObj [(''customerId'', JStr customerId), (''companyId'', JStr (cd_companyId x)),
           (''applied'', JObj [(''applyName'', JBool (ab_applyName b)), (''applyFiscalCode'', JBool (ab_applyFiscalCode b)),
              (''appendDetailsToNotes'', JBool (ab_appendDetailsToNotes b))])])))
     (ret updated))))"

section \<open>The callback of an adapter\<close>

record async_body =
  ay_documentId :: string
  ay_vendor :: "string option"
  ay_suggestion :: "json option"
  ay_error :: "string option"

definition async_error :: "async_body \<Rightarrow> string" where
  "async_error b = trim (or_else (ay_error b) [])"

definition customerDocumentOcrAsyncCompletionBodySchema :: "async_body \<Rightarrow> bool" where
  "customerDocumentOcrAsyncCompletionBodySchema b \<longleftrightarrow>
     (case ay_vendor b of None \<Rightarrow> True | Some v \<Rightarrow> 1 \<le> length v \<and> length v \<le> 120) \<and>
     (case ay_suggestion b of None \<Rightarrow> True | Some j \<Rightarrow> parse_suggestion j \<noteq> None) \<and>
     length (or_else (ay_error b) []) \<le> 2000 \<and> (async_error b \<noteq> []) \<noteq> (ay_suggestion b \<noteq> None)"

definition ocr_status_name :: "ocr_status \<Rightarrow> string" where
  "ocr_status_name x =
     (case x of OCR_NONE \<Rightarrow> ''NONE'' | OCR_PENDING \<Rightarrow> ''PENDING'' | OCR_READY \<Rightarrow> ''READY'' | OCR_FAILED \<Rightarrow> ''FAILED'')"

definition check_async :: "db \<Rightarrow> async_body \<Rightarrow> customer_document result" where
  "check_async d b =
     andThen (orElse (find_document d (ay_documentId b)) (NotFound ''Document not found'')) (\<lambda>x.
     andThen (ensure (cd_uploadCompletedAt x \<noteq> None) (BadRequest ''Document upload is not complete'')) (\<lambda>_.
     andThen (ensure (cd_ocrAppliedAt x = None) (BadRequest ''OCR was already applied for this document'')) (\<lambda>_.
     andThen (ensure (cd_ocrStatus x = OCR_PENDING)
       (Conflict (''Document OCR status is '' @ ocr_status_name (cd_ocrStatus x) @ ''; async callback only accepts PENDING''))) (\<lambda>_.
     Inr x))))"

definition async_vendor :: "async_body \<Rightarrow> string" where
  "async_vendor b = trim (or_else (ay_vendor b) [])"

definition async_failed_row :: "time \<Rightarrow> async_body \<Rightarrow> customer_document \<Rightarrow> customer_document" where
  "async_failed_row now b x =
     x\<lparr>cd_ocrStatus := OCR_FAILED, cd_ocrError := Some (take 2000 (async_error b)),
       cd_ocrVendor := (if async_vendor b = [] then None else Some (async_vendor b)), cd_ocrCompletedAt := Some now,
       cd_ocrSuggestion := None\<rparr>"

definition completeOcrFromAsyncWorker :: "ctx \<Rightarrow> async_body \<Rightarrow> bool dbprog" where
  "completeOcrFromAsyncWorker ctx b =
     bnd (asks (\<lambda>d. check_async d b)) (\<lambda>x.
     if async_error b \<noteq> [] then
       andDo (asks (\<lambda>_. vendor_fits (async_vendor b)))
       (andDo (write_document (cd_id x) (async_failed_row (c_now ctx) b))
       (andDo (audit (bare_audit None ''customer_document.ocr_async_callback'' ''CustomerDocument'' (cd_id x)
          (JObj (ocr_metadata x @ [(''outcome'', JStr ''FAILED'')]))))
       (ret False)))
     else
       andDo (persistVendorOcrResult (c_now ctx) x (or_else (ay_suggestion b) JUndefined)
          (if async_vendor b = [] then ''ASYNC_CALLBACK'' else async_vendor b) None ''customer_document.ocr_async_callback''
          [(''outcome'', JStr ''READY'')])
       (ret True))"

section \<open>The door of the worker\<close>

text \<open>\<open>internal/internal-cron.controller.ts\<close>: the routes of the worker ask for a secret of at least 16 characters.\<close>

definition cron_authorized :: "env \<Rightarrow> string option \<Rightarrow> unit result" where
  "cron_authorized env authorization =
     (let secret = trimmed_setting env ''WORKER_INTERNAL_SECRET''
      in if secret = [] \<or> length secret < 16 then Inl (Unauthorized ''Unauthorized'')
         else if trim (or_else authorization []) \<noteq> ''Bearer '' @ secret then Inl (Unauthorized ''Unauthorized'') else Inr ())"

definition cron_ocr_callback :: "ctx \<Rightarrow> string option \<Rightarrow> async_body \<Rightarrow> bool dbprog" where
  "cron_ocr_callback ctx authorization b =
     andDo (asks (\<lambda>_. cron_authorized (c_env ctx) authorization))
     (andDo (asks (\<lambda>_. ensure (customerDocumentOcrAsyncCompletionBodySchema b) zod_failed))
     (completeOcrFromAsyncWorker ctx b))"

definition cron_ocr :: "ocr_lib \<Rightarrow> ctx \<Rightarrow> string option \<Rightarrow> ocr_batch_result dbprog" where
  "cron_ocr lib ctx authorization =
     andDo (asks (\<lambda>_. cron_authorized (c_env ctx) authorization)) (processDueBatch lib ctx)"

end
