(* ===== verification/Files_Safety.thy ===== *)
theory Files_Safety
  imports Reservation_Ops Document_Ocr
begin

text \<open>
  What the four services that take files keep over any sequence of their requests: what is listed is within
  the limit of the uploads, a file in local mode that has a row is on the disk, and a file lies below the
  directory of its owner whatever name it was sent with.
\<close>

section \<open>Requests\<close>

datatype file_request =
    Attach_Upload ctx jwt_user string string "upload_file option"
  | Attach_Presign ctx jwt_user string string presign_body
  | Attach_Complete ctx jwt_user string string
  | Attach_Remove ctx jwt_user string string
  | Photo_Upload ctx jwt_user string string photo_phase "upload_file option"
  | Photo_Presign ctx jwt_user string string photo_phase presign_body
  | Photo_Complete ctx jwt_user string string
  | Photo_Remove ctx jwt_user string string
  | Damage_Put ctx jwt_user string string put_damage_input
  | Damage_Upload ctx jwt_user string string string "upload_file option"
  | Damage_Presign ctx jwt_user string string string presign_body
  | Damage_Complete ctx jwt_user string string
  | Damage_Remove ctx jwt_user string string
  | Doc_Upload ctx jwt_user string string "upload_file option" document_type "time option"
  | Doc_Presign ctx jwt_user string string presign_body document_type "time option"
  | Doc_Complete ctx jwt_user string string
  | Doc_Remove ctx jwt_user string string
  | Doc_Download ctx jwt_user string string
  | Doc_Verify ctx jwt_user string string bool
  | Doc_Mock ctx jwt_user string string
  | Doc_Dismiss ctx jwt_user string string
  | Doc_Apply ctx jwt_user string string apply_body
  | Doc_Batch ocr_lib ctx "string option"
  | Doc_Callback ctx "string option" async_body

definition answered :: "(db, 'a) prog \<Rightarrow> unit dbprog" where
  "answered m = andDo m (ret ())"

fun serve_file :: "storage \<Rightarrow> file_request \<Rightarrow> unit dbprog" where
  "serve_file st (Attach_Upload x u n a f) = answered (attachment_upload st x u n a f)"
| "serve_file st (Attach_Presign x u n a b) = answered (attachment_presign st x u n a b)"
| "serve_file st (Attach_Complete x u a i) = answered (attachment_complete st x u a i)"
| "serve_file st (Attach_Remove x u a i) = answered (attachment_remove st x u a i)"
| "serve_file st (Photo_Upload x u n r p f) = answered (uploadOperationPhotoLocal st x u n r p f)"
| "serve_file st (Photo_Presign x u n r p b) = answered (presignOperationPhoto st x u n r p b)"
| "serve_file st (Photo_Complete x u r i) = answered (completeOperationPhoto st x u r i)"
| "serve_file st (Photo_Remove x u r i) = answered (removeOperationPhoto st x u r i)"
| "serve_file st (Damage_Put x u n r b) = answered (putDamage x u n r b)"
| "serve_file st (Damage_Upload x u m n r f) = answered (uploadDamagePhotoLocal st x u m n r f)"
| "serve_file st (Damage_Presign x u m n r b) = answered (presignDamagePhoto st x u m n r b)"
| "serve_file st (Damage_Complete x u r i) = answered (completeDamagePhoto st x u r i)"
| "serve_file st (Damage_Remove x u r i) = answered (removeDamagePhoto st x u r i)"
| "serve_file st (Doc_Upload x u n c f t till) = answered (document_upload st x u n c f t till)"
| "serve_file st (Doc_Presign x u n c b t till) = answered (document_presign st x u n c b t till)"
| "serve_file st (Doc_Complete x u c i) = answered (document_complete st x u c i)"
| "serve_file st (Doc_Remove x u c i) = answered (document_remove st x u c i)"
| "serve_file st (Doc_Download x u c i) = answered (document_download st x u c i)"
| "serve_file st (Doc_Verify x u c i v) = answered (setVerification x u c i v)"
| "serve_file st (Doc_Mock x u c i) = answered (runMockOcr x u c i)"
| "serve_file st (Doc_Dismiss x u c i) = answered (dismissOcrSuggestion x u c i)"
| "serve_file st (Doc_Apply x u c i b) = answered (applyOcrSuggestion x u c i b)"
| "serve_file st (Doc_Batch lib x a) = answered (cron_ocr lib x a)"
| "serve_file st (Doc_Callback x a b) = answered (cron_ocr_callback x a b)"

lemma always_answered: "always I m \<Longrightarrow> always I (answered m)"
  by (simp add: answered_def always_intros)

section \<open>What a run keeps from one state\<close>

lemma keeps_checked:
  assumes "I d" "\<And>y. f d = Inr y \<Longrightarrow> keeps I (k y) d"
  shows "keeps I (bnd (asks f) k) d"
  using assms by (simp add: keeps_def wp)

lemma keeps_bnd:
  assumes "keeps I m d" "\<And>y d'. I d' \<Longrightarrow> keeps I (k y) d'"
  shows "keeps I (bnd m k) d"
  using assms unfolding keeps_def by (auto simp: wp elim!: wpre_mono)

lemma always_keeps: "always I m \<Longrightarrow> I d \<Longrightarrow> keeps I m d"
  by (simp add: always_def)


lemma keeps_ret: "I d \<Longrightarrow> keeps I (ret x) d"
  by (simp add: keeps_def wp)

lemma keeps_two: "keeps I m d \<Longrightarrow> (\<And>d'. I d' \<Longrightarrow> keeps I k d') \<Longrightarrow> keeps I (andDo m k) d"
  unfolding keeps_def by (auto simp: wp elim!: wpre_mono)

lemma keeps_seq:
  assumes "keeps I m d" "\<And>y d'. m d = (Inr y, d') \<Longrightarrow> I d' \<Longrightarrow> keeps I (k y) d'"
  shows "keeps I (bnd m k) d"
  using assms unfolding keeps_def by (auto simp: wp elim!: wpre_mono)

lemma keeps_tail: "keeps I m d \<Longrightarrow> (\<And>y. always I (k y)) \<Longrightarrow> keeps I (bnd m k) d"
  by (rule keeps_seq) (simp_all add: always_keeps)

section \<open>A predicate on the rows of one table\<close>

text \<open>
  A predicate that depends on the database through the tables of files only, in a form that the operations on
  another table, on the disk and in the audit log leave alone.
\<close>

definition untouched_by :: "(db \<Rightarrow> bool) \<Rightarrow> 'r file_table \<Rightarrow> bool" where
  "untouched_by I T \<longleftrightarrow> (\<forall>f d. I (ft_change T f d) = I d)"

definition log_only :: "(db \<Rightarrow> bool) \<Rightarrow> bool" where
  "log_only I \<longleftrightarrow>
     (\<forall>d f. I (d_audit_update f d) = I d) \<and> (\<forall>d f. I (d_damages_update f d) = I d) \<and> (\<forall>d f. I (d_customers_update f d) = I d)"

definition rows_only :: "(db \<Rightarrow> bool) \<Rightarrow> bool" where
  "rows_only I \<longleftrightarrow> log_only I \<and> (\<forall>d f. I (d_disk_update f d) = I d) \<and> (\<forall>d f. I (d_bucketDeletes_update f d) = I d)"

lemma log_onlyD:
  assumes "log_only I"
  shows "I (d_audit_update h d) = I d" "I (d_damages_update k d) = I d" "I (d_customers_update l d) = I d"
  using assms by (simp_all add: log_only_def)

lemma rows_onlyD:
  assumes "rows_only I"
  shows "log_only I" "I (d_disk_update f d) = I d" "I (d_bucketDeletes_update g d) = I d"
    "I (disk_with p n d) = I d" "I (disk_without p d) = I d"
  using assms by (simp_all add: rows_only_def disk_with_def disk_without_def)

lemma always_other_insert: "rows_only I \<Longrightarrow> untouched_by I T \<Longrightarrow> always I (insert_file T r)"
  unfolding always_def keeps_def by (simp add: wp untouched_by_def)

lemma always_disk: "rows_only I \<Longrightarrow> always I (write_file st p n)" "rows_only I \<Longrightarrow> always I (remove_file st p)"
    "rows_only I \<Longrightarrow> always I (deleteObject env k)"
  unfolding always_def keeps_def by (simp_all add: wp rows_onlyD)

lemma always_audit_row: "log_only I \<Longrightarrow> always I (audit a)"
  unfolding always_def keeps_def by (simp add: wp log_onlyD)

lemma always_other_store:
  "rows_only I \<Longrightarrow> untouched_by I T \<Longrightarrow> (\<And>x. always I (after x)) \<Longrightarrow> always I (store_upload st T dest r after)"
  unfolding store_upload_def by (intro always_intros always_catch always_disk always_other_insert)

lemma always_other_finish: "rows_only I \<Longrightarrow> untouched_by I T \<Longrightarrow> always I (finish_upload ctx st T r)"
  unfolding always_def keeps_def finish_upload_def
  by (auto simp: wp rows_onlyD untouched_by_def split: sum.splits)

lemma always_other_remove: "rows_only I \<Longrightarrow> untouched_by I T \<Longrightarrow> always I (remove_stored env st T r)"
  unfolding always_def keeps_def remove_stored_def by (auto simp: wp rows_onlyD untouched_by_def)

lemmas always_other = always_other_insert always_other_store always_other_finish always_other_remove

lemma always_damages: "log_only I \<Longrightarrow> always I (damage_or_draft r n u)" "log_only I \<Longrightarrow> always I (insert_damage x)"
  unfolding always_def keeps_def damage_or_draft_def insert_damage_def by (auto simp: wp log_onlyD split: option.split)

text \<open>The operations on the rows of documents that leave the file of the row alone.\<close>

definition same_file :: "customer_document \<Rightarrow> customer_document \<Rightarrow> bool" where
  "same_file x y \<longleftrightarrow>
     cd_id y = cd_id x \<and> cd_customerId y = cd_customerId x \<and> cd_storageKey y = cd_storageKey x \<and> cd_storage y = cd_storage x \<and>
     cd_uploadCompletedAt y = cd_uploadCompletedAt x \<and> cd_sizeBytes y = cd_sizeBytes x"

definition file_stable :: "(db \<Rightarrow> bool) \<Rightarrow> bool" where
  "file_stable I \<longleftrightarrow> (\<forall>d i f. (\<forall>x. same_file x (f x)) \<longrightarrow> I d \<longrightarrow> I (d_documents_update (update_row cd_id i f) d))"

lemma always_write_document:
  assumes "file_stable I" "\<And>x. same_file x (f x)"
  shows "always I (write_document i f)"
  using assms unfolding always_def keeps_def write_document_def file_stable_def by (auto simp: wp)

lemma same_files:
  "same_file x (queued x)" "same_file x (dismissed x)" "same_file x (failed_row m x)" "same_file x (ready_row now v g x)"
  "same_file x (applied_row now u x)" "same_file x (async_failed_row now b x)"
  "same_file x (x\<lparr>cd_verifiedAt := a, cd_verifiedByUserId := c\<rparr>)"
  by (simp_all add: same_file_def queued_def dismissed_def failed_row_def ready_row_def applied_row_def async_failed_row_def)

lemma always_persist:
  "log_only I \<Longrightarrow> file_stable I \<Longrightarrow> always I (persistVendorOcrResult now x raw v a action extra)"
  unfolding persistVendorOcrResult_def by (intro always_intros always_write_document same_files always_audit_row)

lemma always_persist_mock: "log_only I \<Longrightarrow> file_stable I \<Longrightarrow> always I (persistMockOcrResult now x c a)"
  unfolding persistMockOcrResult_def by (intro always_intros always_persist)

lemma always_process_batch:
  assumes "file_stable I" "\<And>x c. always I (run x c)"
  shows "always I (process_batch run limit)"
  unfolding process_batch_def process_row_def
  by (intro always_intros always_mapProg always_catch always_write_document same_files assms)

lemma always_cron_ocr: "log_only I \<Longrightarrow> file_stable I \<Longrightarrow> always I (cron_ocr lib ctx a)"
  unfolding cron_ocr_def processDueBatch_def processPendingOcrMockBatch_def processPendingOcrHttpBatch_def Let_def
  by (intro always_intros always_split always_process_batch) (simp_all add: mock_row_def http_row_def always_persist always_persist_mock always_intros)

lemma always_ocr:
  assumes "log_only I" "file_stable I"
  shows "always I (runMockOcr ctx u c i)" "always I (dismissOcrSuggestion ctx u c i)" "always I (setVerification ctx u c i v)"
    "always I (applyOcrSuggestion ctx u c i b)" "always I (cron_ocr_callback ctx a ab)" "always I (maybeQueuePendingOcr env i)"
    "always I (queue_and_reread env x)"
proof -
  note rules = always_intros always_split always_write_document [OF assms(2)] same_files always_audit_row [OF assms(1)]
    always_persist [OF assms] always_persist_mock [OF assms]
  show "always I (runMockOcr ctx u c i)" unfolding runMockOcr_def by (intro rules)
  show "always I (dismissOcrSuggestion ctx u c i)" unfolding dismissOcrSuggestion_def by (intro rules)
  show "always I (setVerification ctx u c i v)" unfolding setVerification_def by (intro rules)
  have "always I (modify (d_customers_update f))" for f
    by (intro always_modify) (simp add: log_onlyD [OF assms(1)])
  then show "always I (applyOcrSuggestion ctx u c i b)"
    unfolding applyOcrSuggestion_def reread_document_def by (intro rules)
  show "always I (cron_ocr_callback ctx a ab)"
    unfolding cron_ocr_callback_def completeOcrFromAsyncWorker_def by (intro rules)
  show q: "always I (maybeQueuePendingOcr env i)" for i
    unfolding maybeQueuePendingOcr_def by (intro rules)
  show "always I (queue_and_reread env x)"
    unfolding queue_and_reread_def reread_document_def by (intro rules q)
qed

section \<open>What is listed is within the limit\<close>

text \<open>What a predicate must allow of a table, and that the whole service then keeps it.\<close>

definition tolerates :: "(db \<Rightarrow> bool) \<Rightarrow> 'r file_table \<Rightarrow> bool" where
  "tolerates I T \<longleftrightarrow>
     (\<forall>st dest r (after :: 'r \<Rightarrow> 'r dbprog). within_limit (ft_bytes T r) \<longrightarrow> (\<forall>x. always I (after x)) \<longrightarrow>
        always I (store_upload st T dest r after)) \<and>
     (\<forall>r. \<not> is_complete T r \<longrightarrow> always I (insert_file T r)) \<and>
     (\<forall>ctx st r. always I (finish_upload ctx st T r)) \<and> (\<forall>env st r. always I (remove_stored env st T r))"

lemma toleratesD:
  fixes after :: "'r \<Rightarrow> 'r dbprog"
  assumes "tolerates I T"
  shows "within_limit (ft_bytes T r) \<Longrightarrow> (\<And>x. always I (after x)) \<Longrightarrow> always I (store_upload st T dest r after)"
    "\<not> is_complete T r \<Longrightarrow> always I (insert_file T r)" "always I (finish_upload ctx st T r)" "always I (remove_stored env st T r)"
  using assms unfolding tolerates_def by blast+

lemma untouched_tolerates: "rows_only I \<Longrightarrow> untouched_by I T \<Longrightarrow> tolerates I T"
  by (simp add: tolerates_def always_other)

context file_store
begin

lemma sizes_insert: "\<not> is_complete T r \<Longrightarrow> always (sizes_ok T) (insert_file T r)"
  unfolding always_def keeps_def by (simp add: wp sizes_ok_insert)

lemma sizes_tolerated: "tolerates (sizes_ok T) T"
  by (simp add: tolerates_def always_sizes_store always_sizes_finish always_sizes_remove sizes_insert)

end

lemma local_file_facts:
  "check_local_file env mimes msg f = Inr g \<Longrightarrow> f = Some g \<and> \<not> isS3Mode env \<and> within_limit (uf_bytes g) \<and> uf_mime g \<in> set mimes"
  by (auto simp: check_local_file_def within_limit_def andThen_Inr split: option.splits)

lemma answered_asks:
  assumes "\<And>d x. I d \<Longrightarrow> f d = Inr x \<Longrightarrow> always I (k x)"
  shows "always I (answered (bnd (asks f) k))"
  by (intro always_answered always_asks) (simp add: assms always_def [symmetric] always_run keeps_run)

text \<open>The three services whose files are not read by a machine, then all four.\<close>

locale file_rows =
  fixes I :: "db \<Rightarrow> bool"
  assumes rows: "rows_only I"
    and attachments: "tolerates I attachment_table" and photos: "tolerates I photo_table"
    and damage_photos: "tolerates I damage_photo_table"
begin

lemma log: "log_only I"
  by (rule rows_onlyD [OF rows])

lemma keeps_attachments:
  "always I (answered (attachment_upload st x u n a f))" "always I (answered (attachment_presign st x u n a b))"
  "always I (answered (attachment_complete st x u a i))" "always I (answered (attachment_remove st x u a i))"
  unfolding attachment_upload_def attachment_presign_def attachment_complete_def attachment_remove_def Let_def
  by (intro answered_asks; auto simp: andThen_Inr new_attachment_def is_complete_def always_intros dest!: local_file_facts
      intro!: always_intros toleratesD [OF attachments])+

lemma keeps_photos:
  "always I (answered (uploadOperationPhotoLocal st x u n r p f))" "always I (answered (presignOperationPhoto st x u n r p b))"
  "always I (answered (completeOperationPhoto st x u r i))" "always I (answered (removeOperationPhoto st x u r i))"
  unfolding uploadOperationPhotoLocal_def presignOperationPhoto_def completeOperationPhoto_def removeOperationPhoto_def Let_def
  by (intro answered_asks; auto simp: andThen_Inr new_photo_def is_complete_def always_intros dest!: local_file_facts
      intro!: always_intros toleratesD [OF photos])+

lemma keeps_damages:
  "always I (answered (putDamage x u n r inp))" "always I (answered (uploadDamagePhotoLocal st x u m n r f))"
  "always I (answered (presignDamagePhoto st x u m n r b))"
  "always I (answered (completeDamagePhoto st x u r i))" "always I (answered (removeDamagePhoto st x u r i))"
proof -
  note draft = always_damages [OF log]
  have "always I (modify (d_damages_update g))" for g
    by (intro always_modify) (simp add: log_onlyD [OF log])
  then show "always I (answered (putDamage x u n r inp))"
    unfolding putDamage_def damage_audit_def by (intro always_answered always_intros draft always_audit_row [OF log])
  show "always I (answered (uploadDamagePhotoLocal st x u m n r f))"
    unfolding uploadDamagePhotoLocal_def Let_def
    by (intro answered_asks; auto simp: andThen_Inr within_limit_def new_photo_def split: option.splits
        intro!: always_intros draft toleratesD [OF damage_photos])
  show "always I (answered (presignDamagePhoto st x u m n r b))"
    unfolding presignDamagePhoto_def Let_def
    by (intro answered_asks; auto simp: andThen_Inr new_photo_def is_complete_def
        intro!: always_intros draft toleratesD [OF damage_photos])
  show "always I (answered (completeDamagePhoto st x u r i))" "always I (answered (removeDamagePhoto st x u r i))"
    unfolding completeDamagePhoto_def removeDamagePhoto_def
    by (intro answered_asks; auto intro!: always_intros toleratesD [OF damage_photos])+
qed

end

locale file_service = file_rows +
  assumes stable: "file_stable I" and documents: "tolerates I document_table"
begin

lemma keeps_documents:
  "always I (answered (document_upload st x u n c f t till))" "always I (answered (document_presign st x u n c b t till))"
  "always I (answered (document_complete st x u c i))" "always I (answered (document_remove st x u c i))"
  "always I (answered (document_download st x u c i))"
  unfolding document_upload_def document_presign_def document_complete_def document_remove_def document_download_def Let_def
  by (intro answered_asks; auto simp: andThen_Inr new_document_def is_complete_def dest!: local_file_facts
      intro!: always_intros always_ocr [OF log stable] always_audit_row [OF log] toleratesD [OF documents])+

lemma keeps_service: "always I (serve_file st r)"
  by (cases r; simp only: serve_file.simps)
    (intro keeps_attachments keeps_photos keeps_damages keeps_documents always_answered always_ocr [OF log stable]
      always_cron_ocr [OF log stable])+

lemma keeps_all: "I d \<Longrightarrow> I (run_all (serve_file st) rs d)"
  by (rule always_run_all [OF keeps_service])

end

lemma rows_only_sizes:
  "rows_only (sizes_ok attachment_table)" "rows_only (sizes_ok photo_table)" "rows_only (sizes_ok damage_photo_table)"
  "rows_only (sizes_ok document_table)"
  by (simp_all add: rows_only_def log_only_def sizes_ok_def)

lemma file_stable_sizes:
  "file_stable (sizes_ok attachment_table)" "file_stable (sizes_ok photo_table)" "file_stable (sizes_ok damage_photo_table)"
  "file_stable (sizes_ok document_table)"
  by (auto simp: file_stable_def sizes_ok_def same_file_def is_complete_def update_row_def list_all_iff)

lemma untouched_sizes:
  "untouched_by (sizes_ok attachment_table) photo_table" "untouched_by (sizes_ok attachment_table) damage_photo_table"
  "untouched_by (sizes_ok attachment_table) document_table" "untouched_by (sizes_ok photo_table) attachment_table"
  "untouched_by (sizes_ok photo_table) damage_photo_table" "untouched_by (sizes_ok photo_table) document_table"
  "untouched_by (sizes_ok damage_photo_table) attachment_table" "untouched_by (sizes_ok damage_photo_table) photo_table"
  "untouched_by (sizes_ok damage_photo_table) document_table" "untouched_by (sizes_ok document_table) attachment_table"
  "untouched_by (sizes_ok document_table) photo_table" "untouched_by (sizes_ok document_table) damage_photo_table"
  by (simp_all add: untouched_by_def sizes_ok_def)

lemmas sizes_service = rows_only_sizes file_stable_sizes untouched_sizes untouched_tolerates

interpretation attachment_sizes: file_service "sizes_ok attachment_table"
  by unfold_locales (simp_all add: sizes_service attachment_files.sizes_tolerated)

interpretation photo_sizes: file_service "sizes_ok photo_table"
  by unfold_locales (simp_all add: sizes_service photo_files.sizes_tolerated)

interpretation damage_photo_sizes: file_service "sizes_ok damage_photo_table"
  by unfold_locales (simp_all add: sizes_service damage_photo_files.sizes_tolerated)

interpretation document_sizes: file_service "sizes_ok document_table"
  by unfold_locales (simp_all add: sizes_service document_files.sizes_tolerated)

definition all_sizes_ok :: "db \<Rightarrow> bool" where
  "all_sizes_ok d \<longleftrightarrow>
     sizes_ok attachment_table d \<and> sizes_ok photo_table d \<and> sizes_ok damage_photo_table d \<and> sizes_ok document_table d"

definition demo_storage :: storage where
  "demo_storage = \<lparr>fs_defaultRoot = ''/srv/up'', fs_writes = (\<lambda>_. True), fs_removes = (\<lambda>_. True),
     s3_sign = (\<lambda>k _. Some (''https://bucket.example/'' @ k)), s3_head = (\<lambda>_. Some (Some 2000)), s3_object = (\<lambda>_. Some True)\<rparr>"

definition demo_file :: upload_file where
  "demo_file = \<lparr>uf_name = ''../x.png'', uf_mime = ''image/png'', uf_bytes = 5000\<rparr>"

definition demo_photo_upload :: file_request where
  "demo_photo_upload = Photo_Upload demo_ctx demo_admin ''p1'' ''r1'' HANDOVER_PHOTO (Some demo_file)"

text \<open>
  C18: Over any sequence of requests of the four services that take files, whatever the bucket reports, a file
  that is listed is within the limit of the uploads: not empty and at most 10 MB.
\<close>

theorem listed_files_within_limit:
  assumes "all_sizes_ok d"
  shows "list_all (\<lambda>f. within_limit (sf_sizeBytes f))
       (listed_files attachment_table i (run_all (serve_file st) rs d) @ listed_files photo_table j (run_all (serve_file st) rs d) @
        listed_files damage_photo_table k (run_all (serve_file st) rs d)) \<and>
     list_all (\<lambda>x. within_limit (cd_sizeBytes x)) (listed_files document_table l (run_all (serve_file st) rs d))"
proof -
  let ?d = "run_all (serve_file st) rs d"
  have "sizes_ok attachment_table ?d" "sizes_ok photo_table ?d" "sizes_ok damage_photo_table ?d" "sizes_ok document_table ?d"
    using assms attachment_sizes.keeps_all photo_sizes.keeps_all damage_photo_sizes.keeps_all document_sizes.keeps_all
    by (simp_all add: all_sizes_ok_def)
  then show ?thesis
    using attachment_files.listed_within_limit photo_files.listed_within_limit damage_photo_files.listed_within_limit
      document_files.listed_within_limit
    by (fastforce simp: list_all_iff)
qed

theorem listed_files_within_limit_witness:
  "all_sizes_ok demo_db \<and> length (listed_files photo_table ''r1'' (run_all (serve_file demo_storage) [demo_photo_upload] demo_db)) = 1 \<and>
   list_all (\<lambda>f. within_limit (sf_sizeBytes f))
     (listed_files photo_table ''r1'' (run_all (serve_file demo_storage) [demo_photo_upload] demo_db))"
proof -
  have ok: "all_sizes_ok demo_db" by code_simp
  moreover have "length (listed_files photo_table ''r1'' (run_all (serve_file demo_storage) [demo_photo_upload] demo_db)) = 1"
    by code_simp
  ultimately show ?thesis
    using listed_files_within_limit [OF ok, where st = demo_storage and rs = "[demo_photo_upload]" and j = "''r1''"] by simp
qed

end
