(* ===== verification/Files_Present.thy ===== *)
theory Files_Present
  imports Files_Safety
begin

text \<open>
  A file in local mode that has a row is on the disk, over any sequence of requests of the four services: no
  upload overwrites the file of another, and no removal takes another file along. New ids are fresh, as the
  runtime promises of \<open>randomUUID\<close>, and ids are plain segments of a path.
\<close>

section \<open>The files of the four tables\<close>

definition local_keys :: "'r file_table \<Rightarrow> db \<Rightarrow> string list" where
  "local_keys T d = map (ft_key T) (filter (\<lambda>r. ft_storage T r = LOCAL) (ft_rows T d))"

definition local_files :: "db \<Rightarrow> string list" where
  "local_files d =
     local_keys attachment_table d @ local_keys photo_table d @ local_keys damage_photo_table d @ local_keys document_table d"

definition files_there :: "env \<Rightarrow> storage \<Rightarrow> db \<Rightarrow> bool" where
  "files_there env st d \<longleftrightarrow>
     distinct (local_files d) \<and> list_all clean_key (local_files d) \<and>
     list_all (\<lambda>k. on_disk d (absPath env st k)) (local_files d)"

lemma local_keys_frames [simp]:
  "local_keys attachment_table (d_photos_update f d) = local_keys attachment_table d"
  "local_keys attachment_table (d_damagePhotos_update f d) = local_keys attachment_table d"
  "local_keys attachment_table (d_documents_update g d) = local_keys attachment_table d"
  "local_keys photo_table (d_attachments_update f d) = local_keys photo_table d"
  "local_keys photo_table (d_damagePhotos_update f d) = local_keys photo_table d"
  "local_keys photo_table (d_documents_update g d) = local_keys photo_table d"
  "local_keys damage_photo_table (d_attachments_update f d) = local_keys damage_photo_table d"
  "local_keys damage_photo_table (d_photos_update f d) = local_keys damage_photo_table d"
  "local_keys damage_photo_table (d_documents_update g d) = local_keys damage_photo_table d"
  "local_keys document_table (d_attachments_update f d) = local_keys document_table d"
  "local_keys document_table (d_photos_update f d) = local_keys document_table d"
  "local_keys document_table (d_damagePhotos_update f d) = local_keys document_table d"
  by (simp_all add: local_keys_def)

lemma local_files_frames [simp]:
  "local_files (d_disk_update f d) = local_files d" "local_files (d_bucketDeletes_update g d) = local_files d"
  "local_files (d_audit_update h d) = local_files d" "local_files (d_damages_update k d) = local_files d"
  "local_files (d_customers_update l d) = local_files d" "local_files (disk_with p n d) = local_files d"
  "local_files (disk_without p d) = local_files d"
  by (simp_all add: local_files_def local_keys_def disk_with_def disk_without_def)

lemma on_disk_frames [simp]:
  "on_disk (d_bucketDeletes_update g d) p = on_disk d p" "on_disk (d_audit_update h d) p = on_disk d p"
  "on_disk (d_damages_update k d) p = on_disk d p" "on_disk (d_customers_update l d) p = on_disk d p"
  by (simp_all add: on_disk_def)

lemma files_there_log: "log_only (files_there env st)"
  by (simp add: log_only_def files_there_def)

lemma files_there_bucket [simp]: "files_there env st (d_bucketDeletes_update g d) = files_there env st d"
  by (simp add: files_there_def)

lemma files_there_with: "files_there env st d \<Longrightarrow> files_there env st (disk_with p n d)"
  by (auto simp: files_there_def on_disk_with list_all_iff)

text \<open>A file that no row stands for may go.\<close>

lemma files_there_without:
  assumes "files_there env st d" "clean_key k" "k \<notin> set (local_files d)"
  shows "files_there env st (disk_without (absPath env st k) d)"
proof -
  have "absPath env st x \<noteq> absPath env st k" if "x \<in> set (local_files d)" for x
    using that assms absPath_inj by (metis files_there_def list_all_iff)
  then show ?thesis using assms(1) by (simp add: files_there_def on_disk_without list_all_iff)
qed

section \<open>One of the four tables\<close>

locale file_part = file_store T for T :: "'r file_table" +
  fixes before after :: "db \<Rightarrow> string list"
  assumes split: "local_files d = before d @ local_keys T d @ after d"
    and others: "before (ft_change T f d) = before d" "after (ft_change T f d) = after d"
      "before (d_disk_update g d) = before d" "after (d_disk_update g d) = after d"
begin

lemma disk_same: "on_disk (ft_change T f d) p = on_disk d p"
  by (simp add: on_disk_def disk_change)

lemma there_insert:
  assumes "files_there env st d" "clean_key (ft_key T r)" "ft_key T r \<notin> set (local_files d)"
    and "ft_storage T r = LOCAL \<Longrightarrow> on_disk d (absPath env st (ft_key T r))"
  shows "files_there env st (ft_change T (\<lambda>rs. rs @ [r]) d)"
proof (cases "ft_storage T r = LOCAL")
  case True
  then have "local_keys T (ft_change T (\<lambda>rs. rs @ [r]) d) = local_keys T d @ [ft_key T r]"
    by (simp add: local_keys_def rows_change)
  then show ?thesis
    using assms True by (auto simp: files_there_def split others disk_same list_all_iff)
next
  case False
  then have "local_keys T (ft_change T (\<lambda>rs. rs @ [r]) d) = local_keys T d"
    by (simp add: local_keys_def rows_change)
  then show ?thesis using assms(1) by (simp add: files_there_def split others disk_same)
qed

lemma keeps_insert_s3:
  assumes "files_there env st d" "ft_storage T r = S3"
  shows "keeps (files_there env st) (insert_file T r) d"
proof -
  have "local_keys T (ft_change T (\<lambda>rs. rs @ [r]) d) = local_keys T d"
    using assms(2) by (simp add: local_keys_def rows_change)
  then show ?thesis
    using assms(1) by (simp add: keeps_def wp files_there_def split others disk_same)
qed

lemma keys_delete:
  "local_keys T (ft_change T (delete_row (ft_id T) i) d) =
     map (ft_key T) (filter (\<lambda>r. ft_id T r \<noteq> i) (filter (\<lambda>r. ft_storage T r = LOCAL) (ft_rows T d)))"
  by (simp add: local_keys_def rows_change delete_row_def conj_commute)

lemma there_delete:
  assumes "files_there env st d"
  shows "files_there env st (ft_change T (delete_row (ft_id T) i) d)"
proof -
  have "set (local_keys T (ft_change T (delete_row (ft_id T) i) d)) \<subseteq> set (local_keys T d)"
    by (auto simp: keys_delete) (simp add: local_keys_def)
  moreover have "distinct (local_keys T (ft_change T (delete_row (ft_id T) i) d))" if "distinct (local_keys T d)"
    unfolding keys_delete by (rule distinct_map_filter) (use that in \<open>simp only: local_keys_def\<close>)
  ultimately show ?thesis
    using assms by (auto simp: files_there_def split others disk_same list_all_iff)
qed

text \<open>When a row goes, the file of no other row had its key.\<close>

lemma key_gone:
  assumes "files_there env st d" "r \<in> set (ft_rows T d)" "ft_storage T r = LOCAL"
  shows "clean_key (ft_key T r) \<and> ft_key T r \<notin> set (local_files (ft_change T (delete_row (ft_id T) (ft_id T r)) d))"
proof -
  have r: "ft_key T r \<in> set (local_keys T d)" using assms(2,3) by (simp add: local_keys_def)
  have dist: "distinct (before d @ local_keys T d @ after d)" and "clean_key (ft_key T r)"
    using assms(1) r by (auto simp: files_there_def split list_all_iff)
  moreover have "ft_key T r \<notin> set (local_keys T (ft_change T (delete_row (ft_id T) (ft_id T r)) d))"
  proof
    assume "ft_key T r \<in> set (local_keys T (ft_change T (delete_row (ft_id T) (ft_id T r)) d))"
    then obtain x where x: "x \<in> set (filter (\<lambda>r. ft_storage T r = LOCAL) (ft_rows T d))" "ft_id T x \<noteq> ft_id T r"
        "ft_key T x = ft_key T r"
      by (auto simp: keys_delete)
    have "inj_on (ft_key T) (set (filter (\<lambda>r. ft_storage T r = LOCAL) (ft_rows T d)))"
      using dist by (simp add: local_keys_def distinct_map)
    then have "x = r" by (rule inj_onD) (use x assms(2,3) in auto)
    then show False using x(2) by simp
  qed
  ultimately show ?thesis using r by (auto simp: split others)
qed

lemma keeps_store:
  assumes "files_there env st d" "ft_storage T r = LOCAL" "clean_key (ft_key T r)" "ft_key T r \<notin> set (local_files d)"
    and "\<And>d'. files_there env st d' \<Longrightarrow> find_file T d' (ft_id T r) = Some r \<Longrightarrow> wpre (k r) (\<lambda>_. files_there env st) (\<lambda>_ _. False) d'"
  shows "keeps (files_there env st) (store_upload st T (absPath env st (ft_key T r)) r k) d"
proof -
  let ?p = "absPath env st (ft_key T r)"
  let ?d = "disk_with ?p (ft_bytes T r) d"
  have w: "files_there env st ?d" by (rule files_there_with) (rule assms(1))
  have "files_there env st (ft_change T (\<lambda>rs. rs @ [r]) ?d)"
    by (rule there_insert) (use w assms(2-4) in \<open>simp_all add: on_disk_with\<close>)
  moreover have "find_file T (ft_change T (\<lambda>rs. rs @ [r]) ?d) (ft_id T r) = Some r" if "\<not> has_twin T r ?d"
  proof -
    have "find_row (ft_id T) (ft_id T r) (ft_rows T d) = None"
      using that by (auto simp: has_twin_def list_ex_iff find_row_def find_None_iff)
    then show ?thesis by (simp add: find_file_def frames tables)
  qed
  ultimately have k: "wpre (k r) (\<lambda>_. files_there env st) (\<lambda>_ _. False) (ft_change T (\<lambda>rs. rs @ [r]) ?d)" if "\<not> has_twin T r ?d"
    using that assms(5) by blast
  have "files_there env st (disk_without ?p ?d)"
    by (rule files_there_without) (use w assms(3,4) in simp_all)
  then show ?thesis
    using k w assms(1) unfolding keeps_def store_upload_def
    by (auto simp: wp elim!: wpre_mono)
qed

lemma keeps_store_at:
  assumes "files_there env st d" "key = ft_key T r" "ft_storage T r = LOCAL" "clean_key key" "key \<notin> set (local_files d)"
    and "\<And>d'. files_there env st d' \<Longrightarrow> find_file T d' (ft_id T r) = Some r \<Longrightarrow> wpre (k r) (\<lambda>_. files_there env st) (\<lambda>_ _. False) d'"
  shows "keeps (files_there env st) (store_upload st T (absPath env st key) r k) d"
  using keeps_store assms by blast

lemma keeps_finish:
  assumes "files_there env st d"
  shows "keeps (files_there env st) (finish_upload ctx st' T r) d"
proof -
  have "local_keys T (ft_change T (update_row (ft_id T) i (ft_finish T n now)) d) = local_keys T d" for i n now
    by (simp add: local_keys_def rows_change update_row_def filter_map comp_def finish_keeps if_distrib [of "ft_storage T"]
        if_distrib [of "ft_key T"] cong: if_cong)
  then have "files_there env st (ft_change T (update_row (ft_id T) i (ft_finish T n now)) d)" for i n now
    using assms by (simp add: files_there_def split others disk_same)
  then show ?thesis
    using assms unfolding keeps_def finish_upload_def
    by (auto simp: wp there_delete split: sum.splits)
qed

lemma keeps_remove:
  assumes "files_there env st d" "find_file T d i = Some r"
  shows "keeps (files_there env st) (remove_stored env st T r) d"
proof -
  let ?f = "delete_row (ft_id T) (ft_id T r)"
  have r: "r \<in> set (ft_rows T d)" "ft_id T r = i"
    using assms(2) rows.find_Some by (auto simp: find_file_def)
  have del: "files_there env st (ft_change T ?f d)" by (rule there_delete) (rule assms(1))
  have swap: "local_files (ft_change T f (disk_without p d)) = local_files (ft_change T f d)" for f p
    by (simp add: split others local_keys_def frames disk_without_def)
  have "files_there env st (ft_change T ?f (disk_without (absPath env st (ft_key T r)) d))" if "ft_storage T r = LOCAL"
    using files_there_without [OF del, of "ft_key T r"] key_gone [OF assms(1) r(1) that]
    by (simp add: files_there_def swap disk_same on_disk_without)
  then show ?thesis
    using assms r del unfolding keeps_def remove_stored_def
    by (cases "ft_storage T r") (auto simp: wp find_file_def frames there_delete)
qed

lemma local_opens:
  assumes "files_there env st d"
  shows "list_all (\<lambda>r. open_file env st T r d = Inr (Disk_File (absPath env st (ft_key T r))))
    (filter (\<lambda>r. ft_storage T r = LOCAL) (ft_rows T d))"
  using assms by (simp add: files_there_def split open_file_def local_keys_def list_all_iff)

end

interpretation attachment_part: file_part attachment_table "\<lambda>_. []"
    "\<lambda>d. local_keys photo_table d @ local_keys damage_photo_table d @ local_keys document_table d"
  by unfold_locales (simp_all add: local_files_def local_keys_def)

interpretation photo_part: file_part photo_table "local_keys attachment_table"
    "\<lambda>d. local_keys damage_photo_table d @ local_keys document_table d"
  by unfold_locales (simp_all add: local_files_def local_keys_def)

interpretation damage_photo_part: file_part damage_photo_table
    "\<lambda>d. local_keys attachment_table d @ local_keys photo_table d" "local_keys document_table"
  by unfold_locales (simp_all add: local_files_def local_keys_def)

interpretation document_part: file_part document_table
    "\<lambda>d. local_keys attachment_table d @ local_keys photo_table d @ local_keys damage_photo_table d" "\<lambda>_. []"
  by unfold_locales (simp_all add: local_files_def local_keys_def)

section \<open>The requests\<close>

text \<open>Ids are plain, and a new id starts the name of no file yet.\<close>

definition ids_plain :: "db \<Rightarrow> bool" where
  "ids_plain d \<longleftrightarrow>
     list_all (\<lambda>a. plain (ra_id a) \<and> plain (ra_companyId a)) (d_agreements d) \<and>
     list_all (\<lambda>r. plain (r_id r) \<and> plain (r_companyId r)) (d_reservations d) \<and>
     list_all (\<lambda>c. plain (cu_id c) \<and> plain (cu_companyId c)) (d_customers d)"

definition fresh_id :: "string \<Rightarrow> db \<Rightarrow> bool" where
  "fresh_id i d \<longleftrightarrow> plain i \<and> list_all (\<lambda>k. \<not> startsWith i (last (split_on CHR ''/'' k))) (local_files d)"

lemma last_segment: "CHR ''/'' \<notin> set y \<Longrightarrow> last (split_on CHR ''/'' (x @ ''/'' @ y)) = y"
  by (simp add: split_on_append_sep split_on_none)

lemma fresh_key:
  assumes "fresh_id i d" "plain (i @ e)"
  shows "x @ ''/'' @ i @ e \<notin> set (local_files d)"
proof
  assume "x @ ''/'' @ i @ e \<in> set (local_files d)"
  then have "\<not> startsWith i (last (split_on CHR ''/'' (x @ ''/'' @ (i @ e))))"
    using assms(1) by (auto simp: fresh_id_def list_all_iff)
  then show False
    using assms(2) last_segment [of "i @ e" x] by (simp add: plain_def startsWith_def)
qed

lemma attachment_key_fresh:
  assumes "fresh_id n d" "plain (ra_id a)" "plain (ra_companyId a)"
  shows "clean_key (attachment_key a n nm m) \<and> attachment_key a n nm m \<notin> set (local_files d)"
proof -
  have p: "plain (n @ extFromNameOrMime nm m)" using assms(1) by (simp add: fresh_id_def extension_plain)
  show ?thesis
    using fresh_key [OF assms(1) p, of "ra_companyId a @ ''/'' @ ra_id a"] p assms(2,3)
    unfolding attachment_key_def by (simp add: clean_key_append [simplified] clean_key_plain)
qed

lemma document_key_fresh:
  assumes "fresh_id n d" "plain (cu_id c)" "plain (cu_companyId c)"
  shows "clean_key (document_key c n nm m) \<and> document_key c n nm m \<notin> set (local_files d)"
proof -
  have p: "plain (n @ extFromNameOrMime nm m)" using assms(1) by (simp add: fresh_id_def extension_plain)
  have k: "document_key c n nm m = (cu_companyId c @ ''/'' @ ''customers'' @ ''/'' @ cu_id c) @ ''/'' @ n @ extFromNameOrMime nm m"
    by (simp add: document_key_def)
  have "plain ''customers''" by (simp add: plain_def)
  then show ?thesis
    using fresh_key [OF assms(1) p, of "cu_companyId c @ ''/'' @ ''customers'' @ ''/'' @ cu_id c"] p assms(2,3) unfolding k
    by (simp only: clean_key_append clean_key_plain append_assoc simp_thms)
qed

lemma photo_key_fresh:
  assumes "fresh_id n d" "plain (r_id r)" "plain (r_companyId r)" "plain dir"
  shows "clean_key (sf_storageKey (new_photo r own ph dir n u nm m b pl now)) \<and>
     sf_storageKey (new_photo r own ph dir n u nm m b pl now) \<notin> set (local_files d)"
proof -
  have p: "plain (n @ extFromMime m)" using assms(1) by (simp add: fresh_id_def extension_plain)
  have k: "sf_storageKey (new_photo r own ph dir n u nm m b pl now) =
      (r_companyId r @ ''/'' @ ''reservation-ops'' @ ''/'' @ r_id r @ ''/'' @ dir) @ ''/'' @ n @ extFromMime m"
    by (simp add: new_photo_def)
  have "plain ''reservation-ops''" by (simp add: plain_def)
  then show ?thesis
    using fresh_key [OF assms(1) p, of "r_companyId r @ ''/'' @ ''reservation-ops'' @ ''/'' @ r_id r @ ''/'' @ dir"] p assms(2-4)
    unfolding k by (simp only: clean_key_append clean_key_plain append_assoc simp_thms)
qed

lemma keeps_answered: "keeps I m d \<Longrightarrow> keeps I (answered m) d"
  by (simp add: answered_def keeps_andDo_ret)

text \<open>What the checks of an upload establish of the owner of the file.\<close>

lemma find_row_in: "find_row key i rs = Some r \<Longrightarrow> r \<in> set rs"
  by (auto simp: find_row_def find_Some_iff)

lemma agreement_owner:
  "ids_plain d \<Longrightarrow> agreement_row d env u i = Inr (a, r) \<Longrightarrow> plain (ra_id a) \<and> plain (ra_companyId a)"
  by (auto simp: agreement_row_def Let_def find_agreement_booking_def andThen_Inr ids_plain_def list_all_iff find_agreement_def
      split: option.splits dest!: find_row_in)

lemma customer_owner:
  "ids_plain d \<Longrightarrow> visible_customer d env u i = Inr c \<Longrightarrow> plain (cu_id c) \<and> plain (cu_companyId c)"
  by (auto simp: visible_customer_def Let_def andThen_Inr ids_plain_def list_all_iff find_customer_def dest!: find_row_in)

lemma booking_owner:
  "ids_plain d \<Longrightarrow> ops_reservation d env u i = Inr r \<Longrightarrow> plain (r_id r) \<and> plain (r_companyId r)"
  by (auto simp: ops_reservation_def Let_def andThen_Inr ids_plain_def list_all_iff find_reservation_def dest!: find_row_in)

lemma wpre_ret_there: "I d \<Longrightarrow> wpre (ret x) (\<lambda>_. I) E d"
  by (simp add: wp)

lemma there_attach:
  assumes "files_there env st d" "ids_plain d" "fresh_id n d" "c_env x = env"
  shows "keeps (files_there env st) (attachment_upload st x u n a f) d"
  unfolding attachment_upload_def
proof (rule keeps_checked, rule assms(1), clarify)
  fix g b
  assume "andThen (check_local_file (c_env x) document_mime document_mime_msg f) (\<lambda>f.
      andThen (check_attachable d (c_env x) u a) (\<lambda>a. Inr (f, a))) = Inr (g, b)"
  then obtain r where "agreement_row d (c_env x) u a = Inr (b, r)"
    by (auto simp: andThen_Inr check_attachable_def)
  from agreement_owner [OF assms(2) this]
  have own: "plain (ra_id b)" "plain (ra_companyId b)" by auto
  show "keeps (files_there env st)
      (let r = new_attachment b n (u_sub u) (safeOriginalName (uf_name g)) (uf_mime g) (uf_bytes g) LOCAL (c_now x)
       in store_upload st attachment_table (absPath (c_env x) st (sf_storageKey r)) r ret) d"
    unfolding Let_def assms(4)
    by (rule attachment_part.keeps_store_at)
      (use assms(1) attachment_key_fresh [OF assms(3) own] in \<open>simp_all add: new_attachment_def wpre_ret_there\<close>)
qed


lemma there_operation_photo:
  assumes "files_there env st d" "ids_plain d" "fresh_id n d" "c_env x = env"
  shows "keeps (files_there env st) (uploadOperationPhotoLocal st x u n i p f) d"
  unfolding uploadOperationPhotoLocal_def
proof (rule keeps_checked, rule assms(1), clarify)
  fix g r
  assume "andThen (ensure_writer u) (\<lambda>_.
      andThen (check_local_file (c_env x) image_mime image_mime_msg f) (\<lambda>f.
      andThen (ops_reservation d (c_env x) u i) (\<lambda>r. Inr (f, r)))) = Inr (g, r)"
  then have "ops_reservation d (c_env x) u i = Inr r"
    by (auto simp: andThen_Inr)
  from booking_owner [OF assms(2) this]
  have own: "plain (r_id r)" "plain (r_companyId r)" by auto
  have dir: "plain ''op''" by (simp add: plain_def)
  show "keeps (files_there env st)
      (let ph = new_photo r i (Some p) ''op'' n (u_sub u) (uf_name g) (uf_mime g) (uf_bytes g) LOCAL (c_now x)
       in store_upload st photo_table (absPath (c_env x) st (sf_storageKey ph)) ph ret) d"
    unfolding Let_def assms(4)
    by (rule photo_part.keeps_store_at)
      (use assms(1) photo_key_fresh [OF assms(3) own dir] in \<open>simp_all add: new_photo_def wpre_ret_there\<close>)
qed

lemma there_damage_photo:
  assumes "files_there env st d" "ids_plain d" "fresh_id n d" "c_env x = env"
  shows "keeps (files_there env st) (uploadDamagePhotoLocal st x u m n i f) d"
  unfolding uploadDamagePhotoLocal_def
proof (rule keeps_checked, rule assms(1), clarify)
  fix g r
  assume "andThen (ensure_writer u) (\<lambda>_.
      andThen (ensure (\<not> isS3Mode (c_env x)) no_multipart) (\<lambda>_.
      andThen (case f of None \<Rightarrow> Inl (BadRequest ''Invalid file'')
          | Some f \<Rightarrow> andThen (ensure (\<not> (uf_bytes f < 1 \<or> uf_bytes f > max_file_bytes \<or> uf_mime f \<notin> set image_mime))
              (BadRequest ''Invalid file'')) (\<lambda>_. Inr f)) (\<lambda>f.
      andThen (ops_reservation d (c_env x) u i) (\<lambda>r. Inr (f, r))))) = Inr (g, r)"
  then have "ops_reservation d (c_env x) u i = Inr r"
    by (auto simp: andThen_Inr)
  from booking_owner [OF assms(2) this]
  have own: "plain (r_id r)" "plain (r_companyId r)" by auto
  have dir: "plain ''dmg''" by (simp add: plain_def)
  have store: "keeps (files_there env st)
      (store_upload st damage_photo_table (absPath env st (sf_storageKey ph)) ph ret) d'"
    if "ph = new_photo r k None ''dmg'' n (u_sub u) (uf_name g) (uf_mime g) (uf_bytes g) LOCAL (c_now x)"
      "files_there env st d'" "local_files d' = local_files d" for ph k d'
    by (rule damage_photo_part.keeps_store_at)
      (use that photo_key_fresh [OF assms(3) own dir] in \<open>simp_all add: new_photo_def wpre_ret_there\<close>)
  have draft: "keeps (\<lambda>d'. files_there env st d' \<and> local_files d' = local_files d) (damage_or_draft r m (u_sub u)) d"
    using assms(1) by (auto simp: keeps_def wp damage_or_draft_def insert_damage_def files_there_def split: option.split)
  show "keeps (files_there env st)
      (bnd (damage_or_draft r m (u_sub u)) (\<lambda>y.
         let ph = new_photo r (dm_id y) None ''dmg'' n (u_sub u) (uf_name g) (uf_mime g) (uf_bytes g) LOCAL (c_now x)
         in store_upload st damage_photo_table (absPath (c_env x) st (sf_storageKey ph)) ph ret)) d"
    unfolding Let_def assms(4)
    using draft by (auto simp: keeps_def wp elim!: wpre_mono intro!: store [unfolded keeps_def, OF refl])
qed

lemma wpre_queue_there:
  assumes "file_stable I" "I d" "find_document d (cd_id x) = Some x"
  shows "wpre (queue_and_reread env x) (\<lambda>_. I) (\<lambda>_ _. False) d"
proof -
  have "I (d_documents_update (update_row cd_id (cd_id x) queued) d)"
    using assms(1,2) by (auto simp: file_stable_def same_files)
  moreover have "find_document (d_documents_update (update_row cd_id (cd_id x) queued) d) (cd_id x) \<noteq> None"
    using assms(3) by (simp add: find_document_def tables queued_def)
  ultimately show ?thesis
    using assms(2,3) by (auto simp: queue_and_reread_def maybeQueuePendingOcr_def reread_document_def write_document_def wp split: option.split)
qed


lemma file_stable_there: "file_stable (files_there env st)"
proof -
  have "local_keys document_table (d_documents_update (update_row cd_id i f) d) = local_keys document_table d"
    if "\<And>x. same_file x (f x)" for i f d
    using that
    by (simp add: local_keys_def update_row_def filter_map comp_def same_file_def if_distrib [of cd_storage] if_distrib [of cd_storageKey]
        cong: if_cong)
  then show ?thesis by (auto simp: file_stable_def files_there_def local_files_def on_disk_def)
qed

lemma there_document:
  assumes "files_there env st d" "ids_plain d" "fresh_id n d" "c_env x = env"
  shows "keeps (files_there env st) (document_upload st x u n i f t till) d"
  unfolding document_upload_def
proof (rule keeps_checked, rule assms(1), clarify)
  fix g c
  assume "andThen (check_local_file (c_env x) document_mime document_mime_msg f) (\<lambda>f.
      andThen (ensure_writer u) (\<lambda>_.
      andThen (visible_customer d (c_env x) u i) (\<lambda>c. Inr (f, c)))) = Inr (g, c)"
  then have "visible_customer d (c_env x) u i = Inr c"
    by (auto simp: andThen_Inr)
  from customer_owner [OF assms(2) this]
  have own: "plain (cu_id c)" "plain (cu_companyId c)" by auto
  show "keeps (files_there env st)
      (let y = new_document c n (u_sub u) t (safeOriginalName (uf_name g)) (uf_mime g) (uf_bytes g) till LOCAL (c_now x)
       in store_upload st document_table (absPath (c_env x) st (cd_storageKey y)) y (queue_and_reread (c_env x))) d"
    unfolding Let_def assms(4)
    by (rule document_part.keeps_store_at)
      (use assms(1) document_key_fresh [OF assms(3) own] in
        \<open>simp_all add: new_document_def wpre_queue_there file_stable_there find_file_def find_document_def\<close>)
qed


text \<open>The other requests add no file in local mode.\<close>

lemma owned_found: "owned_file T d o' i msg = Inr r \<Longrightarrow> find_file T d i = Some r"
  by (auto simp: owned_file_def split: option.splits if_splits)

lemma damage_photo_found: "damage_photo_of d i j = Inr r \<Longrightarrow> find_file damage_photo_table d j = Some r"
  by (auto simp: damage_photo_of_def split: option.splits if_splits)

lemma keeps_link: "I d \<Longrightarrow> keeps I (bnd (asks f) (\<lambda>url. ret (g url))) d"
  by (simp add: keeps_def wp)

lemma there_attachments:
  assumes "files_there env st d" "c_env x = env"
  shows "keeps (files_there env st) (attachment_presign st x u n a b) d"
    "keeps (files_there env st) (attachment_complete st x u a i) d"
    "keeps (files_there env st) (attachment_remove st x u a i) d"
  unfolding attachment_presign_def attachment_complete_def attachment_remove_def Let_def assms(2)
  by ((rule keeps_checked, rule assms(1)); auto simp: andThen_Inr new_attachment_def keeps_ret assms(1)
      dest!: owned_found intro!: keeps_two keeps_link attachment_part.keeps_insert_s3 attachment_part.keeps_finish
        attachment_part.keeps_remove)+

lemma there_photos:
  assumes "files_there env st d" "c_env x = env"
  shows "keeps (files_there env st) (presignOperationPhoto st x u n a p b) d"
    "keeps (files_there env st) (completeOperationPhoto st x u a i) d"
    "keeps (files_there env st) (removeOperationPhoto st x u a i) d"
  unfolding presignOperationPhoto_def completeOperationPhoto_def removeOperationPhoto_def Let_def assms(2)
  by ((rule keeps_checked, rule assms(1)); auto simp: andThen_Inr new_photo_def keeps_ret assms(1)
      dest!: owned_found intro!: keeps_two keeps_link photo_part.keeps_insert_s3 photo_part.keeps_finish photo_part.keeps_remove)+

lemma there_damages:
  assumes "files_there env st d" "c_env x = env"
  shows "keeps (files_there env st) (presignDamagePhoto st x u m n a b) d"
    "keeps (files_there env st) (completeDamagePhoto st x u a i) d"
    "keeps (files_there env st) (removeDamagePhoto st x u a i) d"
    "keeps (files_there env st) (putDamage x u n a inp) d"
proof -
  note draft = always_damages [OF files_there_log, THEN always_keeps]
  show "keeps (files_there env st) (presignDamagePhoto st x u m n a b) d"
    unfolding presignDamagePhoto_def Let_def assms(2)
    by ((rule keeps_checked, rule assms(1)); auto simp: new_photo_def assms(1)
      intro!: keeps_bnd [OF draft(1)] keeps_two keeps_link damage_photo_part.keeps_insert_s3)
  show "keeps (files_there env st) (completeDamagePhoto st x u a i) d"
    "keeps (files_there env st) (removeDamagePhoto st x u a i) d"
    unfolding completeDamagePhoto_def removeDamagePhoto_def Let_def assms(2)
    by ((rule keeps_checked, rule assms(1)); auto simp: andThen_Inr keeps_ret assms(1) split: if_splits
      dest!: damage_photo_found intro!: damage_photo_part.keeps_finish damage_photo_part.keeps_remove)+
  have "always (files_there env st) (modify (d_damages_update g))" for g
    by (intro always_modify) (simp add: log_onlyD [OF files_there_log])
  then have "always (files_there env st) (putDamage x u n a inp)"
    unfolding putDamage_def damage_audit_def
    by (intro always_intros always_damages [OF files_there_log] always_audit_row [OF files_there_log])
  then show "keeps (files_there env st) (putDamage x u n a inp) d" by (rule always_keeps) (rule assms(1))
qed

lemma there_documents:
  assumes "files_there env st d" "c_env x = env"
  shows "keeps (files_there env st) (document_presign st x u n c b t till) d"
    "keeps (files_there env st) (document_complete st x u c i) d"
    "keeps (files_there env st) (document_remove st x u c i) d"
    "keeps (files_there env st) (document_download st x u c i) d"
proof -
  note stable = file_stable_there files_there_log
  show "keeps (files_there env st) (document_presign st x u n c b t till) d"
    "keeps (files_there env st) (document_remove st x u c i) d"
    "keeps (files_there env st) (document_complete st x u c i) d"
    unfolding document_presign_def document_remove_def document_complete_def Let_def assms(2)
    by ((rule keeps_checked, rule assms(1)); auto simp: andThen_Inr new_document_def keeps_ret assms(1) document_to_change_def document_found_def
      dest!: owned_found intro!: keeps_two keeps_link document_part.keeps_insert_s3 document_part.keeps_remove
        keeps_bnd [OF document_part.keeps_finish] always_keeps [OF always_ocr(7) [OF files_there_log file_stable_there]])+
  have "always (files_there env st) (document_download st x u c i)"
    unfolding document_download_def by (intro always_intros always_audit_row [OF files_there_log])
  then show "keeps (files_there env st) (document_download st x u c i) d" by (rule always_keeps) (rule assms(1))
qed

section \<open>Sequences of requests\<close>

fun request_env :: "file_request \<Rightarrow> env" where
  "request_env (Attach_Upload x u n a f) = c_env x"
| "request_env (Attach_Presign x u n a b) = c_env x"
| "request_env (Attach_Complete x u a i) = c_env x"
| "request_env (Attach_Remove x u a i) = c_env x"
| "request_env (Photo_Upload x u n r p f) = c_env x"
| "request_env (Photo_Presign x u n r p b) = c_env x"
| "request_env (Photo_Complete x u r i) = c_env x"
| "request_env (Photo_Remove x u r i) = c_env x"
| "request_env (Damage_Put x u n r b) = c_env x"
| "request_env (Damage_Upload x u m n r f) = c_env x"
| "request_env (Damage_Presign x u m n r b) = c_env x"
| "request_env (Damage_Complete x u r i) = c_env x"
| "request_env (Damage_Remove x u r i) = c_env x"
| "request_env (Doc_Upload x u n c f t till) = c_env x"
| "request_env (Doc_Presign x u n c b t till) = c_env x"
| "request_env (Doc_Complete x u c i) = c_env x"
| "request_env (Doc_Remove x u c i) = c_env x"
| "request_env (Doc_Download x u c i) = c_env x"
| "request_env (Doc_Verify x u c i v) = c_env x"
| "request_env (Doc_Mock x u c i) = c_env x"
| "request_env (Doc_Dismiss x u c i) = c_env x"
| "request_env (Doc_Apply x u c i b) = c_env x"
| "request_env (Doc_Batch lib x a) = c_env x"
| "request_env (Doc_Callback x a b) = c_env x"

fun new_file_ids :: "file_request \<Rightarrow> string list" where
  "new_file_ids (Attach_Upload x u n a f) = [n]"
| "new_file_ids (Photo_Upload x u n r p f) = [n]"
| "new_file_ids (Damage_Upload x u m n r f) = [n]"
| "new_file_ids (Doc_Upload x u n c f t till) = [n]"
| "new_file_ids _ = []"

text \<open>A step: a request of the process with this configuration, with ids that are new.\<close>

definition well_posed :: "env \<Rightarrow> file_request \<Rightarrow> db \<Rightarrow> bool" where
  "well_posed env r d \<longleftrightarrow> request_env r = env \<and> ids_plain d \<and> list_all (\<lambda>i. fresh_id i d) (new_file_ids r)"

inductive served :: "env \<Rightarrow> storage \<Rightarrow> db \<Rightarrow> db \<Rightarrow> bool" for env st where
  served_none: "served env st d d"
| served_one: "served env st d d' \<Longrightarrow> well_posed env r d' \<Longrightarrow> served env st d (snd (serve_file st r d'))"

lemma there_serve:
  assumes "files_there env st d" "well_posed env r d"
  shows "keeps (files_there env st) (serve_file st r) d"
proof -
  note stable = files_there_log file_stable_there
  show ?thesis
    using assms
    by (cases r; simp add: well_posed_def)
      (intro keeps_answered there_attach there_operation_photo there_damage_photo there_document there_attachments there_photos
         there_damages there_documents always_keeps [OF always_ocr(1) [OF stable]] always_keeps [OF always_ocr(2) [OF stable]]
         always_keeps [OF always_ocr(3) [OF stable]] always_keeps [OF always_ocr(4) [OF stable]]
         always_keeps [OF always_ocr(5) [OF stable]] always_keeps [OF always_cron_ocr [OF stable]]; simp)+
qed

lemma there_served: "served env st d d' \<Longrightarrow> files_there env st d \<Longrightarrow> files_there env st d'"
  by (induction rule: served.induct) (simp_all add: there_serve [unfolded keeps_run])


section \<open>No file goes missing\<close>

definition demo_served :: db where
  "demo_served = snd (serve_file demo_storage demo_photo_upload demo_db)"

text \<open>
  C12: After any sequence of requests of the four services, with new ids for the uploads, every file in local
  mode that has a row can be opened under the path of its key: no upload overwrites the file of another, no
  cleanup after a failure and no removal takes another file along.
\<close>

theorem local_files_never_missing:
  assumes "files_there env st d" "served env st d d'"
  shows "list_all (\<lambda>r. open_file env st attachment_table r d' = Inr (Disk_File (absPath env st (sf_storageKey r))))
       (filter (\<lambda>r. sf_storage r = LOCAL) (d_attachments d')) \<and>
     list_all (\<lambda>r. open_file env st photo_table r d' = Inr (Disk_File (absPath env st (sf_storageKey r))))
       (filter (\<lambda>r. sf_storage r = LOCAL) (d_photos d')) \<and>
     list_all (\<lambda>r. open_file env st damage_photo_table r d' = Inr (Disk_File (absPath env st (sf_storageKey r))))
       (filter (\<lambda>r. sf_storage r = LOCAL) (d_damagePhotos d')) \<and>
     list_all (\<lambda>r. open_file env st document_table r d' = Inr (Disk_File (absPath env st (cd_storageKey r))))
       (filter (\<lambda>r. cd_storage r = LOCAL) (d_documents d'))"
proof -
  have "files_there env st d'" using there_served assms by blast
  then show ?thesis
    using attachment_part.local_opens photo_part.local_opens damage_photo_part.local_opens document_part.local_opens
    by simp
qed

theorem local_files_never_missing_witness:
  "map sf_id (d_photos demo_served) = [''p1''] \<and>
   list_all (\<lambda>r. open_file (c_env demo_ctx) demo_storage photo_table r demo_served =
       Inr (Disk_File (absPath (c_env demo_ctx) demo_storage (sf_storageKey r))))
     (filter (\<lambda>r. sf_storage r = LOCAL) (d_photos demo_served))"
proof -
  have there: "files_there (c_env demo_ctx) demo_storage demo_db" by code_simp
  have "ids_plain demo_db" by code_simp
  moreover have "fresh_id ''p1'' demo_db" by code_simp
  ultimately have "well_posed (c_env demo_ctx) demo_photo_upload demo_db"
    by (simp add: well_posed_def demo_photo_upload_def)
  then have "served (c_env demo_ctx) demo_storage demo_db demo_served"
    unfolding demo_served_def by (intro served_one served_none)
  note opens = local_files_never_missing [OF there this]
  have "map sf_id (d_photos demo_served) = [''p1'']" by code_simp
  then show ?thesis using opens by blast
qed

end
