(* ===== verification/Ocr_Safety.thy ===== *)
theory Ocr_Safety
  imports Files_Safety
begin

text \<open>
  What the columns of a machine reading mean: which of them are set in which state, and that a stored
  suggestion has the shape of the schema, whatever falls between the reading of a batch and the answers to its rows.
  When the batches run undisturbed, moreover only a suggestion that is ready was applied. And what happens when
  an answer comes late.
\<close>

section \<open>A stored suggestion has the shape of the schema\<close>

lemma opt_text_bounds:
  "opt_text mn mx k fs = Some a \<Longrightarrow> a = None \<or> mn \<le> length (the a) \<and> length (the a) \<le> mx"
  by (auto simp: opt_text_def split: option.splits json.splits if_splits)

definition text_ok :: "nat \<Rightarrow> nat \<Rightarrow> string option \<Rightarrow> bool" where
  "text_ok mn mx v \<longleftrightarrow> v = None \<or> mn \<le> length (the v) \<and> length (the v) \<le> mx"

definition suggestion_ok :: "ocr_suggestion \<Rightarrow> bool" where
  "suggestion_ok g \<longleftrightarrow>
     text_ok 1 200 (os_fullName g) \<and> text_ok 1 80 (os_documentNumber g) \<and> text_ok 0 10 (os_expiryDate g) \<and>
     text_ok 1 32 (os_fiscalCode g) \<and> text_ok 0 500 (os_note g) \<and>
     (os_expiryDate g = None \<or> date_shape (the (os_expiryDate g)))"

lemma parsed_parts:
  assumes "parse_suggestion (JObj fs) = Some g"
  shows "opt_text 1 200 ''fullName'' fs = Some (os_fullName g) \<and> opt_text 1 80 ''documentNumber'' fs = Some (os_documentNumber g) \<and>
    opt_text 0 10 ''expiryDate'' fs = Some (os_expiryDate g) \<and> opt_text 1 32 ''fiscalCode'' fs = Some (os_fiscalCode g) \<and>
    opt_text 0 500 ''note'' fs = Some (os_note g) \<and> (os_expiryDate g = None \<or> date_shape (the (os_expiryDate g)))"
  using assms unfolding parse_suggestion_def
  by (cases "opt_text 1 200 ''fullName'' fs"; cases "opt_text 1 80 ''documentNumber'' fs"; cases "opt_text 0 10 ''expiryDate'' fs";
      cases "opt_text 1 32 ''fiscalCode'' fs"; cases "opt_text 0 500 ''note'' fs"; force split: if_splits)

lemma parsed_ok: "parse_suggestion j = Some g \<Longrightarrow> suggestion_ok g"
proof (cases j)
  case (JObj fs)
  assume "parse_suggestion j = Some g"
  from parsed_parts [OF this [unfolded JObj]] show ?thesis
    using opt_text_bounds unfolding suggestion_ok_def text_ok_def by blast
qed (simp_all add: parse_suggestion_def)

lemma opt_text_field:
  "opt_text mn mx k (opt_field k v @ fs) =
     (if v = None then opt_text mn mx k fs else if text_ok mn mx v then Some v else None)"
  "k \<noteq> k' \<Longrightarrow> opt_text mn mx k (opt_field k' v @ fs) = opt_text mn mx k fs"
  "opt_text mn mx k [] = Some None"
  by (auto simp: opt_text_def opt_field_def text_ok_def split: option.split)

lemma suggestion_round_trip:
  assumes "suggestion_ok g"
  shows "parse_suggestion (suggestion_json g) = Some g"
proof -
  have keys: "k \<in> set suggestion_keys \<Longrightarrow> list_all (\<lambda>f. fst f \<in> set suggestion_keys) (opt_field k v)" for k v
    by (simp add: opt_field_def split: option.split)
  let ?fs = "opt_field ''fullName'' (os_fullName g) @ opt_field ''documentNumber'' (os_documentNumber g) @
       opt_field ''expiryDate'' (os_expiryDate g) @ opt_field ''fiscalCode'' (os_fiscalCode g) @ opt_field ''note'' (os_note g) @ []"
  have "''fullName'' \<in> set suggestion_keys" "''documentNumber'' \<in> set suggestion_keys" "''expiryDate'' \<in> set suggestion_keys"
    "''fiscalCode'' \<in> set suggestion_keys" "''note'' \<in> set suggestion_keys"
    by (simp_all add: suggestion_keys_def)
  then have "list_all (\<lambda>f. fst f \<in> set suggestion_keys) ?fs"
    by (simp only: list_all_append keys list.pred_inject simp_thms)
  moreover have "opt_text 1 200 ''fullName'' ?fs = Some (os_fullName g)" "opt_text 1 80 ''documentNumber'' ?fs = Some (os_documentNumber g)"
    "opt_text 0 10 ''expiryDate'' ?fs = Some (os_expiryDate g)" "opt_text 1 32 ''fiscalCode'' ?fs = Some (os_fiscalCode g)"
    "opt_text 0 500 ''note'' ?fs = Some (os_note g)"
    using assms by (simp_all add: opt_text_field suggestion_ok_def del: append_Nil2)
  moreover have "os_expiryDate g = None \<or> date_shape (the (os_expiryDate g))"
    using assms by (simp add: suggestion_ok_def)
  ultimately show ?thesis
    unfolding parse_suggestion_def suggestion_json_def by simp
qed


section \<open>Which columns are set in which state\<close>

definition ocr_columns :: "customer_document \<Rightarrow> bool" where
  "ocr_columns x \<longleftrightarrow>
     (case cd_ocrStatus x of
        OCR_NONE \<Rightarrow> cd_ocrSuggestion x = None \<and> cd_ocrCompletedAt x = None \<and> cd_ocrVendor x = None \<and> cd_ocrError x = None
      | OCR_PENDING \<Rightarrow> cd_ocrSuggestion x = None \<and> cd_ocrCompletedAt x = None \<and> cd_ocrVendor x = None \<and> cd_ocrError x = None
      | OCR_READY \<Rightarrow> cd_ocrSuggestion x \<noteq> None \<and> parse_suggestion (the (cd_ocrSuggestion x)) \<noteq> None \<and>
          cd_ocrCompletedAt x \<noteq> None \<and> cd_ocrVendor x \<noteq> None \<and> cd_ocrError x = None
      | OCR_FAILED \<Rightarrow> cd_ocrSuggestion x = None \<and> cd_ocrError x \<noteq> None) \<and>
     length (or_else (cd_ocrVendor x) []) \<le> 64 \<and> length (or_else (cd_ocrError x) []) \<le> 2000"

text \<open>When nothing comes between: only a complete upload is read, and only what is ready was applied.\<close>

definition ocr_ok :: "customer_document \<Rightarrow> bool" where
  "ocr_ok x \<longleftrightarrow> ocr_columns x \<and> (cd_ocrStatus x = OCR_NONE \<or> cd_uploadCompletedAt x \<noteq> None) \<and>
     (cd_ocrAppliedAt x = None \<or> cd_ocrStatus x = OCR_READY)"

definition readings :: "(customer_document \<Rightarrow> bool) \<Rightarrow> db \<Rightarrow> bool" where
  "readings P d \<longleftrightarrow> distinct (map cd_id (d_documents d)) \<and> list_all P (d_documents d)"

lemma readings_rows: "rows_only (readings P)"
  by (simp add: rows_only_def log_only_def readings_def)

lemma readings_frame [simp]: "readings P (d_damages_update f d) = readings P d" "readings P (d_customers_update g d) = readings P d"
    "readings P (d_audit_update h d) = readings P d" "readings P (d_disk_update k d) = readings P d"
  by (simp_all add: readings_def)

interpretation reading_rows: file_rows "readings P" for P
  by unfold_locales (simp_all add: readings_rows untouched_tolerates untouched_by_def readings_def)

lemma readings_found: "readings P d \<Longrightarrow> find_document d i = Some x \<Longrightarrow> P x \<and> cd_id x = i \<and> x \<in> set (d_documents d)"
  by (auto simp: readings_def find_document_def find_row_def find_Some_iff list_all_iff)

lemma found_self: "readings P d \<Longrightarrow> find_document d i = Some x \<Longrightarrow> find_document d (cd_id x) = Some x"
  by (auto dest: readings_found)

lemma readings_write:
  assumes "readings P d" "find_document d i = Some x" "P (f x)" "\<And>y. cd_id (f y) = cd_id y"
  shows "readings P (d_documents_update (update_row cd_id i f) d)"
proof -
  have x: "x \<in> set (d_documents d)" "cd_id x = i" using readings_found assms(1,2) by blast+
  have "y = x" if "y \<in> set (d_documents d)" "cd_id y = i" for y
    using assms(1) x that by (auto simp: readings_def distinct_map dest: inj_onD)
  moreover have "map cd_id (update_row cd_id i f (d_documents d)) = map cd_id (d_documents d)"
    using assms(4) by (simp add: update_row_def)
  ultimately have "distinct (map cd_id (update_row cd_id i f (d_documents d)))"
    and "\<forall>y\<in>set (d_documents d). cd_id y = i \<longrightarrow> y = x"
    using assms(1) by (simp_all only: readings_def) blast+
  then show ?thesis
    using assms(1,3) by (auto simp: readings_def list_all_iff) (auto simp: update_row_def)
qed

lemma ocr_write:
  assumes "readings P d" "\<And>x. find_document d i = Some x \<Longrightarrow> P (f x)" "\<And>y. cd_id (f y) = cd_id y"
  shows "keeps (readings P) (write_document i f) d"
  using assms by (auto simp: keeps_def wp write_document_def intro: readings_write)

lemmas ocr_rows_set = queued_def dismissed_def failed_row_def ready_row_def applied_row_def async_failed_row_def

lemma ocr_ids [simp]:
  "cd_id (queued x) = cd_id x" "cd_id (dismissed x) = cd_id x" "cd_id (failed_row m x) = cd_id x"
  "cd_id (ready_row now v g x) = cd_id x" "cd_id (applied_row now u x) = cd_id x" "cd_id (async_failed_row now b x) = cd_id x"
  by (simp_all add: ocr_rows_set)

lemma ocr_columns_written:
  "ocr_columns (queued x)" "ocr_columns (dismissed x)" "ocr_columns (failed_row m x)"
  "length v \<le> 64 \<Longrightarrow> suggestion_ok g \<Longrightarrow> ocr_columns (ready_row now v g x)"
  "ocr_columns x \<Longrightarrow> ocr_columns (applied_row now u x)"
  "length (async_vendor b) \<le> 64 \<Longrightarrow> ocr_columns (async_failed_row now b x)"
  "ocr_columns (x\<lparr>cd_verifiedAt := a1, cd_verifiedByUserId := b1\<rparr>) = ocr_columns x"
  "ocr_columns (cd_finish n now x) = ocr_columns x" "ocr_columns (new_document c k u t nm m l till pl now)"
  by (auto simp: ocr_columns_def ocr_rows_set suggestion_round_trip or_else_def cd_finish_def new_document_def split: ocr_status.splits)

lemma ocr_log: "log_only (readings P)"
  by (rule rows_onlyD [OF readings_rows])

lemma keeps_transaction: "keeps I m d \<Longrightarrow> I d \<Longrightarrow> keeps I (transaction m) d"
  by (auto simp: keeps_run transaction_def split: prod.splits sum.splits)

lemma found_document: "document_found d c i = Inr x \<Longrightarrow> find_document d i = Some x"
  by (auto simp: document_found_def owned_file_def find_file_def find_document_def split: option.splits if_splits)

lemma changed_document: "document_to_change d env u c i = Inr (cu, x) \<Longrightarrow> find_document d i = Some x"
  by (auto simp: document_to_change_def andThen_Inr dest: found_document)

text \<open>
  What the requests ask of a predicate on a document: that the rows they write satisfy it, under what they have checked.
\<close>

locale reading_rule =
  fixes P :: "customer_document \<Rightarrow> bool"
  assumes queued: "cd_uploadCompletedAt x \<noteq> None \<Longrightarrow> cd_ocrAppliedAt x = None \<Longrightarrow> P (queued x)"
    and dismissed: "cd_ocrAppliedAt x = None \<Longrightarrow> P (dismissed x)"
    and ready: "cd_uploadCompletedAt x \<noteq> None \<Longrightarrow> length v \<le> 64 \<Longrightarrow> suggestion_ok g \<Longrightarrow> P (ready_row now v g x)"
    and applied: "P x \<Longrightarrow> cd_ocrStatus x = OCR_READY \<Longrightarrow> P (applied_row now u x)"
    and async_failed: "cd_uploadCompletedAt x \<noteq> None \<Longrightarrow> cd_ocrAppliedAt x = None \<Longrightarrow> length (async_vendor b) \<le> 64 \<Longrightarrow>
      P (async_failed_row now b x)"
    and verified: "P (x\<lparr>cd_verifiedAt := a1, cd_verifiedByUserId := b1\<rparr>) = P x"
    and finished: "P x \<Longrightarrow> P (cd_finish n now x)"
    and inserted: "P (new_document c k u t nm m l till pl now)"
begin

lemmas written = queued dismissed ready applied async_failed

lemma ocr_persist:
  assumes "readings P d" "\<And>y. find_document d (cd_id x) = Some y \<Longrightarrow> cd_uploadCompletedAt y \<noteq> None"
  shows "keeps (readings P) (persistVendorOcrResult now x raw v a action extra) d"
  unfolding persistVendorOcrResult_def vendor_fits_def andDo_def
  by (rule keeps_checked, rule assms(1), rule keeps_checked, rule assms(1), rule keeps_tail)
    (auto simp: assms parsed_ok written intro!: ocr_write always_intros always_audit_row ocr_log)

lemma ocr_persist_mock:
  assumes "readings P d" "\<And>y. find_document d (cd_id x) = Some y \<Longrightarrow> cd_uploadCompletedAt y \<noteq> None"
  shows "keeps (readings P) (persistMockOcrResult now x c a) d"
  unfolding persistMockOcrResult_def
  by (rule keeps_checked, rule assms(1), rule ocr_persist) (simp_all add: assms)

lemma ocr_queue: "always (readings P) (queue_and_reread env x)"
proof -
  have "keeps (readings P) (maybeQueuePendingOcr env i) d" if "readings P d" for i d
    unfolding maybeQueuePendingOcr_def
    using that by (auto simp: keeps_def wp write_document_def intro!: readings_write written)
  then show ?thesis
    unfolding queue_and_reread_def reread_document_def by (intro always_intros) (simp add: always_def)
qed

lemma ocr_staff:
  assumes "readings P d"
  shows "keeps (readings P) (runMockOcr x u c i) d" "keeps (readings P) (dismissOcrSuggestion x u c i) d"
    "keeps (readings P) (setVerification x u c i v) d" "keeps (readings P) (applyOcrSuggestion x u c i b) d"
proof -
  note tail = always_intros always_audit_row [OF ocr_log]
  show "keeps (readings P) (runMockOcr x u c i) d"
    unfolding runMockOcr_def
    by (rule keeps_checked, rule assms)
      (auto simp: andThen_Inr dest!: changed_document dest: found_self [OF assms] intro!: ocr_persist_mock assms)
  show "keeps (readings P) (dismissOcrSuggestion x u c i) d"
    unfolding dismissOcrSuggestion_def
    by (rule keeps_checked, rule assms)
      (auto simp: andThen_Inr assms written dest!: changed_document intro!: keeps_tail ocr_write tail)
  show "keeps (readings P) (setVerification x u c i v) d"
    unfolding setVerification_def
    by (rule keeps_checked, rule assms)
      (auto simp: andThen_Inr assms verified dest!: changed_document readings_found [OF assms] intro!: keeps_tail ocr_write tail)
  show "keeps (readings P) (applyOcrSuggestion x u c i b) d"
    unfolding applyOcrSuggestion_def
  proof (rule keeps_checked, rule assms, clarify)
    fix cu y nm fcode nts
    assume "check_apply d x u c i b = Inr (cu, y, nm, fcode, nts)"
    then have y: "find_document d i = Some y" "cd_ocrStatus y = OCR_READY"
      by (auto simp: check_apply_def andThen_Inr dest!: changed_document)
    have "find_document (d_customers_update f d) i = Some y" for f using y(1) by (simp add: find_document_def)
    then have wr: "keeps (readings P) (write_document i (applied_row (c_now x) (u_sub u))) (d_customers_update f d)" for f
      using y readings_found [OF assms y(1)] assms by (intro ocr_write) (simp_all add: written)
    have "keeps (readings P) (transaction
        (andDo (asks (\<lambda>d. ensure (find_customer d c \<noteq> None) (Prisma ''P2025'')))
        (andDo (modify (d_customers_update (update_row cu_id c (with_ocr cu nm fcode nts))))
        (write_document i (applied_row (c_now x) (u_sub u)))))) d"
      by (rule keeps_transaction) (use wr assms in \<open>auto simp: keeps_def wp\<close>)
    then show "keeps (readings P) (andDo (transaction
        (andDo (asks (\<lambda>d. ensure (find_customer d c \<noteq> None) (Prisma ''P2025'')))
        (andDo (modify (d_customers_update (update_row cu_id c (with_ocr cu nm fcode nts))))
        (write_document i (applied_row (c_now x) (u_sub u))))))
       (bnd (reread_document i) (\<lambda>updated.
       andDo (audit (bare_audit (Some (u_sub u)) ''customer_document.ocr_apply'' ''CustomerDocument'' i
          (JObj [(''customerId'', JStr c), (''companyId'', JStr (cd_companyId y)),
             (''applied'', JObj [(''applyName'', JBool (ab_applyName b)), (''applyFiscalCode'', JBool (ab_applyFiscalCode b)),
                (''appendDetailsToNotes'', JBool (ab_appendDetailsToNotes b))])])))
       (ret updated)))) d"
      unfolding andDo_def reread_document_def by (rule keeps_tail) (intro tail [unfolded andDo_def])
  qed
qed

lemma ocr_callback:
  assumes "readings P d"
  shows "keeps (readings P) (cron_ocr_callback ctx a b) d"
proof -
  have "keeps (readings P) (completeOcrFromAsyncWorker ctx b) d"
    unfolding completeOcrFromAsyncWorker_def
  proof (rule keeps_checked, rule assms)
    fix x
    assume "check_async d b = Inr x"
    then have x: "find_document d (cd_id x) = Some x" "cd_uploadCompletedAt x \<noteq> None" "cd_ocrAppliedAt x = None"
      using found_self [OF assms] by (auto simp: check_async_def andThen_Inr)
    have "keeps (readings P) (bnd (write_document (cd_id x) (async_failed_row (c_now ctx) b)) (\<lambda>_. andDo (audit y) (ret z))) d"
      if "length (async_vendor b) \<le> 64" for y z
      using that x by (auto intro!: keeps_tail ocr_write assms written always_intros always_audit_row ocr_log)
    moreover have "keeps (readings P) (andDo (persistVendorOcrResult (c_now ctx) x r v p q e) (ret z)) d" for r v p q e z
      using ocr_persist [OF assms, of x] x by (auto simp: andDo_def intro!: keeps_tail always_intros)
    ultimately show "keeps (readings P) (if async_error b \<noteq> [] then
       andDo (asks (\<lambda>_. vendor_fits (async_vendor b)))
       (andDo (write_document (cd_id x) (async_failed_row (c_now ctx) b))
       (andDo (audit (bare_audit None ''customer_document.ocr_async_callback'' ''CustomerDocument'' (cd_id x)
          (JObj (ocr_metadata x @ [(''outcome'', JStr ''FAILED'')]))))
       (ret False)))
     else
       andDo (persistVendorOcrResult (c_now ctx) x (or_else (ay_suggestion b) JUndefined)
          (if async_vendor b = [] then ''ASYNC_CALLBACK'' else async_vendor b) None ''customer_document.ocr_async_callback''
          [(''outcome'', JStr ''READY'')])
       (ret True)) d"
      using assms by (auto simp: andDo_def vendor_fits_def intro!: keeps_checked)
  qed
  then show ?thesis
    unfolding cron_ocr_callback_def andDo_def by (intro keeps_checked assms)
qed

lemma ocr_insert:
  assumes "readings P d" "P x" "\<not> has_twin document_table x d"
  shows "readings P (d_documents_update (\<lambda>xs. xs @ [x]) d)"
  using assms by (auto simp: readings_def has_twin_def list_ex_iff)

lemma ocr_insert_file: "P x \<Longrightarrow> always (readings P) (insert_file document_table x)"
  by (auto simp: always_def keeps_def wp intro: ocr_insert)

lemma ocr_delete: "readings P d \<Longrightarrow> readings P (d_documents_update (delete_row cd_id i) d)"
  by (auto simp: readings_def delete_row_def list_all_iff intro: distinct_map_filter)

lemma ocr_finish: "always (readings P) (finish_upload ctx st document_table x)"
proof -
  have "readings P (d_documents_update (update_row cd_id i (cd_finish n now)) d)" if "readings P d" for n now i d
    using that finished
    by (auto simp: readings_def update_row_def list_all_iff comp_def cd_finish_def if_distrib [of cd_id] cong: if_cong)
  then show ?thesis
    by (auto simp: always_def keeps_def finish_upload_def wp ocr_delete rows_onlyD [OF readings_rows] split: sum.splits)
qed

lemma ocr_remove: "always (readings P) (remove_stored env st document_table x)"
  by (auto simp: always_def keeps_def remove_stored_def wp ocr_delete rows_onlyD [OF readings_rows])

lemma ocr_documents:
  "always (readings P) (document_upload st x u n c f t till)" "always (readings P) (document_presign st x u n c b t till)"
  "always (readings P) (document_complete st x u c i)" "always (readings P) (document_remove st x u c i)"
  "always (readings P) (document_download st x u c i)"
  unfolding document_upload_def document_presign_def document_complete_def document_remove_def document_download_def
    store_upload_def
  by (intro always_intros always_split always_catch always_disk [OF readings_rows] ocr_insert_file inserted ocr_queue ocr_finish
      ocr_remove always_audit_row [OF ocr_log])+

lemma serves:
  assumes "\<And>lib ctx a. always (readings P) (cron_ocr lib ctx a)"
  shows "always (readings P) (serve_file st r)"
  using ocr_staff ocr_callback
  by (cases r; simp only: serve_file.simps)
    (intro reading_rows.keeps_attachments reading_rows.keeps_photos reading_rows.keeps_damages always_answered ocr_documents assms;
      simp add: always_def)+

end

interpretation undisturbed: reading_rule ocr_ok
  by unfold_locales (auto simp: ocr_ok_def ocr_columns_written, auto simp: ocr_rows_set cd_finish_def new_document_def)

interpretation columns: reading_rule ocr_columns
  by unfold_locales (auto simp: ocr_columns_written)

section \<open>Undisturbed batches\<close>

lemma ocr_ok_failed: "cd_uploadCompletedAt x \<noteq> None \<Longrightarrow> cd_ocrAppliedAt x = None \<Longrightarrow> ocr_ok (failed_row m x)"
  by (simp add: ocr_ok_def ocr_columns_written) (simp add: failed_row_def)

text \<open>A batch works on the rows as they were read: none of them was applied, and nothing in the batch applies one.\<close>

definition batch_inv :: "string list \<Rightarrow> db \<Rightarrow> bool" where
  "batch_inv ids d \<longleftrightarrow>
     readings ocr_ok d \<and>
     list_all (\<lambda>x. cd_id x \<in> set ids \<longrightarrow> cd_uploadCompletedAt x \<noteq> None \<and> cd_ocrAppliedAt x = None) (d_documents d)"

lemma batch_write:
  assumes "batch_inv ids d" "i \<in> set ids"
    and "\<And>x. cd_uploadCompletedAt x \<noteq> None \<Longrightarrow> cd_ocrAppliedAt x = None \<Longrightarrow> ocr_ok (f x)"
    and "\<And>x. cd_id (f x) = cd_id x \<and> cd_uploadCompletedAt (f x) = cd_uploadCompletedAt x \<and> cd_ocrAppliedAt (f x) = cd_ocrAppliedAt x"
  shows "keeps (batch_inv ids) (write_document i f) d"
proof -
  have "ocr_ok (f x)" if "find_document d i = Some x" for x
    using assms(1-3) readings_found [OF _ that] by (auto simp: batch_inv_def list_all_iff)
  then have "keeps (readings ocr_ok) (write_document i f) d"
    using assms(1,4) by (intro ocr_write) (simp_all add: batch_inv_def)
  then show ?thesis
    using assms(1,4) by (auto simp: keeps_def wp write_document_def batch_inv_def update_row_def list_all_iff)
qed


lemma batch_log: "log_only (batch_inv ids)"
  by (simp add: log_only_def batch_inv_def)

lemma keeps_caught: "keeps I m d \<Longrightarrow> (\<And>e d'. I d' \<Longrightarrow> keeps I (h e) d') \<Longrightarrow> keeps I (catch m h) d"
  unfolding keeps_def by (auto simp: wp elim!: wpre_mono)

lemma batch_persist:
  assumes "batch_inv ids d" "cd_id x \<in> set ids"
  shows "keeps (batch_inv ids) (persistVendorOcrResult now x raw v a action extra) d"
  unfolding persistVendorOcrResult_def vendor_fits_def andDo_def
  by (rule keeps_checked, rule assms(1), rule keeps_checked, rule assms(1), rule keeps_tail)
    (auto simp: assms parsed_ok undisturbed.written ocr_ok_failed ready_row_def [of now v] intro!: batch_write always_intros always_audit_row batch_log
       undisturbed.ready [unfolded ready_row_def])

lemma batch_row:
  assumes "batch_inv ids d" "cd_id x \<in> set ids"
    and "\<And>c d'. batch_inv ids d' \<Longrightarrow> keeps (batch_inv ids) (run x c) d'"
  shows "keeps (batch_inv ids) (process_row run x) d"
proof -
  have bad: "keeps (batch_inv ids) (andDo (write_document (cd_id x) (failed_row m)) (ret False)) d'" if "batch_inv ids d'" for m d'
    unfolding andDo_def using that assms(2)
    by (intro keeps_tail always_simps batch_write) (auto simp: undisturbed.written ocr_ok_failed failed_row_def [of m] intro: ocr_ok_failed [unfolded failed_row_def])
  have good: "keeps (batch_inv ids) (andDo (run x c) (ret True)) d" for c
    unfolding andDo_def by (intro keeps_tail always_simps assms(3) assms(1))
  have "keeps (batch_inv ids) (gets (\<lambda>d. find_customer d (cd_customerId x))) d" using assms(1) by (simp add: keeps_def wp)
  then show ?thesis
    unfolding process_row_def
    by (rule keeps_bnd) (auto split: option.split intro!: bad keeps_caught, auto simp: andDo_def intro!: keeps_tail always_simps assms(3))
qed

lemma keeps_weaken: "keeps J m d \<Longrightarrow> (\<And>d'. J d' \<Longrightarrow> I d') \<Longrightarrow> keeps I m d"
  by (simp add: keeps_run)

lemma ocr_batch:
  assumes "readings ocr_ok d" "\<And>ids x c d'. batch_inv ids d' \<Longrightarrow> cd_id x \<in> set ids \<Longrightarrow> keeps (batch_inv ids) (run x c) d'"
  shows "keeps (readings ocr_ok) (process_batch run limit) d"
proof -
  let ?rows = "pending_documents limit d"
  let ?ids = "map cd_id ?rows"
  have rows: "set ?rows \<subseteq> {x \<in> set (d_documents d). ocr_waits x}"
    by (auto simp: pending_documents_def dest: in_set_takeD)
  have "cd_uploadCompletedAt x \<noteq> None \<and> cd_ocrAppliedAt x = None"
    if x: "x \<in> set (d_documents d)" "cd_id x \<in> set ?ids" for x
  proof -
    obtain y where y: "y \<in> set (d_documents d)" "ocr_waits y" "cd_id y = cd_id x" using x(2) rows by auto
    then have "y = x" using assms(1) x(1) by (auto simp: readings_def distinct_map dest: inj_onD)
    then show ?thesis using y(2) by (simp add: ocr_waits_def)
  qed
  then have b: "batch_inv ?ids d" using assms(1) by (simp add: batch_inv_def list_all_iff)
  have "keeps (batch_inv ?ids) (mapProg (process_row run) ?rows) d"
    by (rule keeps_mapProg) (auto intro!: batch_row assms(2) b)
  then have "keeps (readings ocr_ok) (mapProg (process_row run) ?rows) d" by (rule keeps_weaken) (simp add: batch_inv_def)
  then show ?thesis
    unfolding process_batch_def by (simp add: keeps_def wp)
qed

lemma ocr_cron: "always (readings ocr_ok) (cron_ocr lib ctx a)"
proof -
  have "always (readings ocr_ok) (process_batch (mock_row now) limit)" for now limit
    unfolding always_def mock_row_def persistMockOcrResult_def
    by (intro allI impI ocr_batch keeps_checked batch_persist)
  moreover have "always (readings ocr_ok) (process_batch (http_row lib env now) limit)" for env now limit
    unfolding always_def http_row_def by (intro allI impI ocr_batch keeps_checked batch_persist)
  ultimately show ?thesis
    unfolding cron_ocr_def processDueBatch_def processPendingOcrMockBatch_def processPendingOcrHttpBatch_def Let_def
    by (intro always_intros always_split)
qed


text \<open>
  With batches that nothing comes between, over any sequence of requests of the four services, batches and callbacks,
  only a complete upload is read, and only a suggestion that is ready was applied.
\<close>

lemma ocr_undisturbed:
  assumes "distinct (map cd_id (d_documents d))" "list_all ocr_ok (d_documents d)"
  shows "list_all ocr_ok (d_documents (run_all (serve_file st) rs d))"
proof -
  have "readings ocr_ok (run_all (serve_file st) rs d)"
    by (rule always_run_all [OF undisturbed.serves [OF ocr_cron]]) (simp add: readings_def assms)
  then show ?thesis by (simp add: readings_def)
qed

section \<open>A late answer\<close>

text \<open>
  The batch reads its rows once and then waits for the adapter; what it writes does not look at the row again.
  When the callback was faster and staff have applied the suggestion, the answer of the adapter replaces the
  suggestion and the row still says it was applied. A failure even marks an applied document as failed.
\<close>

lemma adapter_answer_ok: "callHttpOcrAdapter lib env now x c = Inr g \<Longrightarrow> suggestion_ok g"
  by (auto simp: callHttpOcrAdapter_def read_answer_def parsed_ok split: if_splits http_answer.splits option.splits)

lemma vendor_label_fits: "length (getOcrHttpVendorLabel env) \<le> 64"
  by (simp add: getOcrHttpVendorLabel_def Let_def)

lemma late_answer_rewrites_applied:
  assumes "find_document d (cd_id x) = Some y" "find_customer d (cd_customerId x) = Some c"
    and "callHttpOcrAdapter lib env now x c = Inr g"
  shows "fst (process_row (http_row lib env now) x d) = Inr True \<and>
    find_document (snd (process_row (http_row lib env now) x d)) (cd_id x) =
      Some (ready_row now (getOcrHttpVendorLabel env) g y)"
proof -
  have "wpre (process_row (http_row lib env now) x)
      (\<lambda>ok d'. ok \<and> find_document d' (cd_id x) = Some (ready_row now (getOcrHttpVendorLabel env) g y)) (\<lambda>_ _. False) d"
    using assms vendor_label_fits [of env] adapter_answer_ok [OF assms(3)]
    by (simp add: process_row_def http_row_def persistVendorOcrResult_def write_document_def wp vendor_fits_def
        suggestion_round_trip find_document_def tables)
  then show ?thesis by (auto simp: wpre_def split: prod.splits sum.splits)
qed

lemma late_failure_marks_applied:
  assumes "find_document d (cd_id x) = Some y" "find_customer d (cd_customerId x) = Some c" "cd_ocrAppliedAt y \<noteq> None"
    and "callHttpOcrAdapter lib env now x c = Inl e"
  shows "find_document (snd (process_row (http_row lib env now) x d)) (cd_id x) = Some (failed_row (error_text e) y) \<and>
    \<not> ocr_ok (failed_row (error_text e) y)"
proof -
  have "wpre (process_row (http_row lib env now) x)
      (\<lambda>_ d'. find_document d' (cd_id x) = Some (failed_row (error_text e) y)) (\<lambda>_ _. False) d"
    using assms(1,2,4) by (simp add: process_row_def http_row_def write_document_def wp find_document_def tables)
  moreover have "\<not> ocr_ok (failed_row (error_text e) y)" using assms(3) by (simp add: ocr_ok_def failed_row_def)
  ultimately show ?thesis by (auto simp: wpre_def split: prod.splits sum.splits)
qed

section \<open>Whatever comes between\<close>

text \<open>
  The steps as they really interleave: a batch reads its rows, and each of its rows is answered and written later, by
  the mock or by the adapter, with any request of the services, batch or callback in between.
\<close>

lemma columns_write:
  assumes "\<And>x. ocr_columns x \<Longrightarrow> ocr_columns (f x)" "\<And>x. cd_id (f x) = cd_id x"
  shows "always (readings ocr_columns) (write_document i f)"
  unfolding always_def using assms readings_found by (blast intro: ocr_write)

lemma columns_persist: "always (readings ocr_columns) (persistVendorOcrResult now x raw v a action extra)"
  unfolding persistVendorOcrResult_def vendor_fits_def andDo_def always_def
  by (intro allI impI keeps_checked keeps_tail; assumption?)
    (auto simp: parsed_ok ocr_columns_written intro!: always_keeps [OF columns_write] always_intros always_audit_row ocr_log)

lemma columns_row:
  assumes "\<And>c. always (readings ocr_columns) (run x c)"
  shows "always (readings ocr_columns) (process_row run x)"
  unfolding process_row_def
  by (intro always_intros always_option always_catch assms columns_write; simp add: ocr_columns_written)

lemma columns_rows:
  "always (readings ocr_columns) (process_row (mock_row now) x)" "always (readings ocr_columns) (process_row (http_row lib env now) x)"
  unfolding mock_row_def persistMockOcrResult_def http_row_def
  by (intro columns_row always_intros columns_persist)+

lemma columns_cron: "always (readings ocr_columns) (cron_ocr lib ctx a)"
  unfolding cron_ocr_def processDueBatch_def processPendingOcrMockBatch_def processPendingOcrHttpBatch_def process_batch_def Let_def
  by (intro always_intros always_split always_mapProg columns_rows)

inductive ocr_step :: "storage \<Rightarrow> db \<times> customer_document list \<Rightarrow> db \<times> customer_document list \<Rightarrow> bool" for st where
  serves: "ocr_step st (d, waiting) (snd (serve_file st r d), waiting)"
| reads: "ocr_step st (d, waiting) (d, pending_documents limit d @ waiting)"
| mocks: "x \<in> set waiting \<Longrightarrow> ocr_step st (d, waiting) (snd (process_row (mock_row now) x d), remove1 x waiting)"
| answers: "x \<in> set waiting \<Longrightarrow> ocr_step st (d, waiting) (snd (process_row (http_row lib env now) x d), remove1 x waiting)"

lemma ocr_steps_columns: "(ocr_step st)\<^sup>*\<^sup>* s1 s2 \<Longrightarrow> readings ocr_columns (fst s1) \<Longrightarrow> readings ocr_columns (fst s2)"
proof (induction rule: rtranclp_induct)
  case (step y z)
  from step.hyps(2) step.IH [OF step.prems] show ?case
    by cases (simp_all add: always_run [OF columns.serves [OF columns_cron]] always_run [OF columns_rows(1)] always_run [OF columns_rows(2)])
qed

definition demo_queue_db :: db where
  "demo_queue_db = demo_db\<lparr>d_documents := map queued (d_documents demo_db)\<rparr>"

definition demo_dismiss :: file_request where
  "demo_dismiss = Doc_Dismiss demo_ctx demo_admin ''c1'' ''d1''"

text \<open>
  C13: Whatever requests of the four services are served in whatever order, batches and callbacks of an adapter
  included, and however late the answers to the rows a batch has read are written, with other requests, batches and
  callbacks in between, the columns of a machine reading agree with its state: a suggestion is stored exactly
  while the reading is ready, it always parses under the schema, a vendor and a time are there when it is ready, an error
  exactly when it failed, and vendor and error fit their columns.
\<close>

theorem ocr_columns_agree:
  assumes "(ocr_step st)\<^sup>*\<^sup>* (d, []) (d', waiting)"
    and "distinct (map cd_id (d_documents d))" "list_all ocr_columns (d_documents d)"
  shows "list_all ocr_columns (d_documents d')"
  using ocr_steps_columns [OF assms(1)] assms(2,3) by (simp add: readings_def)

text \<open>The suggestion of the first document is dismissed while the adapter, which is not configured, has it.\<close>

definition demo_ocr_lib :: ocr_lib where
  "demo_ocr_lib = \<lparr>ol_http = (\<lambda>_ _. FetchFailed ''timeout''), ol_parse = (\<lambda>_. None), ol_hmac = (\<lambda>_ _. []), ol_get = (\<lambda>_ _. None)\<rparr>"

definition demo_dismissed :: db where
  "demo_dismissed = snd (serve_file demo_storage demo_dismiss demo_queue_db)"

definition demo_answered :: db where
  "demo_answered = snd (process_row (http_row demo_ocr_lib demo_env demo_now) (hd (pending_documents 20 demo_queue_db)) demo_dismissed)"

theorem ocr_columns_agree_witness:
  "map cd_ocrStatus (d_documents demo_dismissed) = [OCR_NONE, OCR_PENDING] \<and>
   map cd_ocrStatus (d_documents demo_answered) = [OCR_FAILED, OCR_PENDING] \<and> list_all ocr_columns (d_documents demo_answered)"
proof -
  let ?rows = "pending_documents 20 demo_queue_db"
  have start: "distinct (map cd_id (d_documents demo_queue_db))" "list_all ocr_columns (d_documents demo_queue_db)" by code_simp+
  have states: "map cd_ocrStatus (d_documents demo_dismissed) = [OCR_NONE, OCR_PENDING]"
    "map cd_ocrStatus (d_documents demo_answered) = [OCR_FAILED, OCR_PENDING]" by code_simp+
  have "?rows \<noteq> []" by code_simp
  then have first: "hd ?rows \<in> set (?rows @ [])" by simp
  have "(ocr_step demo_storage)\<^sup>*\<^sup>* (demo_queue_db, []) (demo_answered, remove1 (hd ?rows) (?rows @ []))"
    using reads [of demo_storage demo_queue_db "[]" 20]
      serves [of demo_storage demo_queue_db "?rows @ []" demo_dismiss, folded demo_dismissed_def]
      answers [OF first, of demo_storage demo_dismissed demo_ocr_lib demo_env demo_now, folded demo_answered_def]
    by (meson converse_rtranclp_into_rtranclp r_into_rtranclp)
  then show ?thesis using ocr_columns_agree start states by blast
qed

end
