(* ===== verification/Batch_Once.thy ===== *)
theory Batch_Once
  imports Schema Always
begin

text \<open>
  Jobs that read their rows once and then work on one row after the other: what a job counts for a row grows
  at most once, when working on a row notes in the row that it was done and a noted row is not ready again.
\<close>

locale once_per_row =
  fixes rows :: "db \<Rightarrow> 'r list" and key :: "'r \<Rightarrow> string" and ready :: "'r \<Rightarrow> bool"
    and tally :: "string \<Rightarrow> db \<Rightarrow> nat" and noted :: "string \<Rightarrow> db \<Rightarrow> bool" and run :: "'r \<Rightarrow> bool dbprog"
  assumes answers: "isInr (fst (run r d))"
    and keys: "map key (rows (snd (run r d))) = map key (rows d)"
    and others: "w \<in> set (rows d) \<Longrightarrow> key w \<noteq> key r \<Longrightarrow> w \<in> set (rows (snd (run r d)))"
    and elsewhere: "key r \<noteq> i \<Longrightarrow> tally i (snd (run r d)) = tally i d \<and> (noted i d \<longrightarrow> noted i (snd (run r d)))"
    and counted: "distinct (map key (rows d)) \<Longrightarrow> r \<in> set (rows d) \<Longrightarrow>
      tally (key r) (snd (run r d)) = tally (key r) d \<and> (noted (key r) d \<longrightarrow> noted (key r) (snd (run r d))) \<or>
      tally (key r) (snd (run r d)) = Suc (tally (key r) d) \<and> noted (key r) (snd (run r d))"
    and fresh: "r \<in> set (rows d) \<Longrightarrow> ready r \<Longrightarrow> \<not> noted (key r) d"
begin

definition once :: "nat \<Rightarrow> string \<Rightarrow> db \<Rightarrow> bool" where
  "once k i d \<longleftrightarrow> distinct (map key (rows d)) \<and> (tally i d \<le> k \<or> (tally i d = Suc k \<and> noted i d))"

lemma once_row:
  assumes "once k i d" "r \<in> set (rows d)" "ready r"
  shows "once k i (snd (run r d))"
  using assms keys [of r d] elsewhere [of r i d] counted [of d r] fresh [OF assms(2,3)]
  by (cases "key r = i") (auto simp: once_def)

lemma once_batch:
  assumes "distinct (map key rs)" "set rs \<subseteq> set (rows d)" "list_all ready rs" "once k i d"
  shows "once k i (snd (mapProg run rs d))"
  using assms
proof (induction rs arbitrary: d)
  case (Cons r rs)
  obtain ok d' where run: "run r d = (Inr ok, d')" using answers [of r d] isInr_pair by blast
  have "set rs \<subseteq> set (rows d')"
  proof
    fix x
    assume "x \<in> set rs"
    then have "key x \<in> set (map key rs)" "x \<in> set (rows d)" using Cons.prems(2) by auto
    then have "x \<in> set (rows d)" "key x \<noteq> key r" using Cons.prems(1) by auto
    then show "x \<in> set (rows d')" using others [of x d r] run by simp
  qed
  moreover have "once k i d'" using once_row [OF Cons.prems(4), of r] Cons.prems(2,3) run by simp
  ultimately have "once k i (snd (mapProg run rs d'))" using Cons.prems(1,3) by (intro Cons.IH) simp_all
  then show ?case by (auto simp: run bnd_def ret_def split: prod.split sum.split)
qed simp

lemma once_start: "distinct (map key (rows d)) \<Longrightarrow> once (tally i d) i d"
  by (simp add: once_def)

lemma once_end: "once k i d \<Longrightarrow> tally i d \<le> Suc k"
  by (auto simp: once_def)

end

text \<open>What changes the rows with one key only.\<close>

lemma row_after:
  assumes "w \<in> set (update_row key j f rs)" "\<And>x. key (f x) = key x" "key w = i"
  obtains w0 where "w0 \<in> set rs" "key w0 = i" "w = (if i = j then f w0 else w0)"
proof -
  obtain w0 where w0: "w0 \<in> set rs" "w = (if key w0 = j then f w0 else w0)"
    using assms(1) by (auto simp: update_row_def)
  moreover have "key w0 = i" using w0(2) assms(2,3) by (auto split: if_splits)
  ultimately show ?thesis using that by blast
qed

lemma rows_after_others: "w \<in> set rs \<Longrightarrow> key w \<noteq> j \<Longrightarrow> w \<in> set (update_row key j f rs)"
  by (force simp: update_row_def)

lemma keys_after: "(\<And>x. key (f x) = key x) \<Longrightarrow> map key (update_row key j f rs) = map key rs"
  by (simp add: update_row_def)

end
