(* ===== verification/Service_Due.thy ===== *)
theory Service_Due
  imports Auth Batch_Once Fleet_Blocks Partner_Webhook "HOL-Library.Multiset"
begin

text \<open>
  Automatic service blocks (\<open>internal/service-due-block.service.ts\<close>): a vehicle whose mileage has reached
  the next service is taken off the calendar once per service mileage. The order of the vehicles is by the time
  of their last change, a column the model does not have: \<open>order\<close> is a parameter. The sign in the
  reason is written as its three bytes.
\<close>

section \<open>Which vehicles\<close>

definition serviceDueAutoBlocksEnabled :: "env \<Rightarrow> bool" where
  "serviceDueAutoBlocksEnabled env = flag_on env ''SERVICE_DUE_AUTO_BLOCKS''"

definition service_watched :: "vehicle \<Rightarrow> bool" where
  "service_watched v \<longleftrightarrow>
     v_status v \<noteq> OUT_OF_FLEET \<and> v_nextServiceDueOdometerKm v \<noteq> None \<and> v_autoServiceBlockHours v \<noteq> None"

definition service_ready :: "vehicle \<Rightarrow> bool" where
  "service_ready v \<longleftrightarrow>
     (case v_nextServiceDueOdometerKm v of
        None \<Rightarrow> False
      | Some km \<Rightarrow> v_autoServiceBlockHours v \<noteq> None \<and> v_odometerKm v \<ge> km \<and> v_serviceDueAutoBlockedForKm v \<noteq> Some km)"

definition service_limit :: "env \<Rightarrow> int" where
  "service_limit env = min 200 (max 1 (parseIntEnv (env ''SERVICE_DUE_BLOCK_BATCH_LIMIT'') 50 1 200))"

definition service_batch :: "(vehicle list \<Rightarrow> vehicle list) \<Rightarrow> nat \<Rightarrow> db \<Rightarrow> vehicle list" where
  "service_batch order limit d = take limit (filter service_ready (take 800 (order (filter service_watched (d_vehicles d)))))"

section \<open>One vehicle\<close>

definition service_prefix :: string where
  "service_prefix = ''[auto-service-due]''"

definition service_reason :: "int \<Rightarrow> vehicle \<Rightarrow> string" where
  "service_reason km v =
     service_prefix @ '' due'' @ [CHR 0xE2, CHR 0x89, CHR 0xA5] @ show_int km @ ''km odo='' @ show_int (v_odometerKm v) @
     '' plate='' @ v_licensePlate v"

definition open_service_block :: "db \<Rightarrow> string \<Rightarrow> time \<Rightarrow> bool" where
  "open_service_block d vehicleId now \<longleftrightarrow>
     list_ex (\<lambda>b. cb_vehicleId b = vehicleId \<and> cb_type b = BLOCK_MAINTENANCE \<and>
       startsWith service_prefix (or_else (cb_reason b) []) \<and> cb_endsAt b > now) (d_blocks d)"

definition running_returns :: "db \<Rightarrow> string \<Rightarrow> time \<Rightarrow> time list" where
  "running_returns d vehicleId now =
     sort (map r_returnAt (filter (\<lambda>r. r_vehicleId r = vehicleId \<and> active_status (r_status r) \<and>
       r_pickupAt r \<le> now \<and> r_returnAt r > now) (d_reservations d)))"

definition service_start :: "db \<Rightarrow> string \<Rightarrow> time \<Rightarrow> time" where
  "service_start d vehicleId now =
     (case running_returns d vehicleId now of t # _ \<Rightarrow> if t > now then t else now | [] \<Rightarrow> now)"

definition service_block :: "string \<Rightarrow> time \<Rightarrow> int \<Rightarrow> int \<Rightarrow> vehicle \<Rightarrow> calendar_block" where
  "service_block newId startsAt hours km v =
     \<lparr>cb_id = newId, cb_vehicleId = v_id v, cb_startsAt = startsAt, cb_endsAt = startsAt + hours * 60 * 60 * 1000,
      cb_type = BLOCK_MAINTENANCE, cb_reason = Some (service_reason km v)\<rparr>"

definition blocked_for :: "int \<Rightarrow> vehicle \<Rightarrow> vehicle" where
  "blocked_for km v = v\<lparr>v_serviceDueAutoBlockedForKm := Some km\<rparr>"

definition write_service_block :: "calendar_block \<Rightarrow> int \<Rightarrow> unit dbprog" where
  "write_service_block b km =
     transaction
       (andDo (asks (\<lambda>d. ensure (find_block d (cb_id b) = None) (Prisma ''P2002'')))
       (andDo (asks (\<lambda>d. ensure (find_vehicle d (cb_vehicleId b) \<noteq> None) (Prisma ''P2003'')))
       (andDo (modify (d_blocks_update (\<lambda>bs. bs @ [b])))
       (modify (d_vehicles_update (update_row v_id (cb_vehicleId b) (blocked_for km)))))))"

definition block_for_service :: "(string \<Rightarrow> string) \<Rightarrow> time \<Rightarrow> vehicle \<Rightarrow> bool dbprog" where
  "block_for_service newId now v =
     (case (v_nextServiceDueOdometerKm v, v_autoServiceBlockHours v) of
        (Some km, Some hours) \<Rightarrow>
          if hours < 1 \<or> hours > 336 then ret False
          else bnd (gets (\<lambda>d. (open_service_block d (v_id v) now, service_start d (v_id v) now))) (\<lambda>(opened, startsAt).
            if opened then ret False
            else let b = service_block (newId (v_id v)) startsAt hours km v in
              if cb_endsAt b \<le> cb_startsAt b then ret False
              else catch (andDo (write_service_block b km) (ret True)) (\<lambda>_. ret False))
      | _ \<Rightarrow> ret False)"

record service_due_result =
  sr_created :: nat
  sr_examined :: nat
  sr_skipped :: "string option"

definition processDueAutoBlocks ::
  "(vehicle list \<Rightarrow> vehicle list) \<Rightarrow> (string \<Rightarrow> string) \<Rightarrow> ctx \<Rightarrow> service_due_result dbprog" where
  "processDueAutoBlocks order newId ctx =
     (if \<not> serviceDueAutoBlocksEnabled (c_env ctx)
      then ret \<lparr>sr_created = 0, sr_examined = 0, sr_skipped = Some ''SERVICE_DUE_AUTO_BLOCKS_off''\<rparr>
      else bnd (gets (service_batch order (nat (service_limit (c_env ctx))))) (\<lambda>batch.
           bnd (mapProg (block_for_service newId (c_now ctx)) batch) (\<lambda>oks.
           ret \<lparr>sr_created = length (filter (\<lambda>ok. ok) oks), sr_examined = length batch, sr_skipped = None\<rparr>)))"


section \<open>What one vehicle gets\<close>

lemma write_service_block_ok:
  "wpre (write_service_block b km) Q E d =
     (if find_block d (cb_id b) = None \<and> find_vehicle d (cb_vehicleId b) \<noteq> None
      then Q () (d_vehicles_update (update_row v_id (cb_vehicleId b) (blocked_for km)) (d_blocks_update (\<lambda>bs. bs @ [b]) d))
      else if find_block d (cb_id b) \<noteq> None then E (Prisma ''P2002'') d else E (Prisma ''P2003'') d)"
  by (auto simp: write_service_block_def wp)

text \<open>A step for a vehicle: nothing, or one block for its service mileage, which is noted with the vehicle.\<close>

definition service_step :: "time \<Rightarrow> vehicle \<Rightarrow> db \<Rightarrow> db \<Rightarrow> bool" where
  "service_step now v d d' \<longleftrightarrow>
     d' = d \<or>
     (\<exists>b km. v_nextServiceDueOdometerKm v = Some km \<and> cb_vehicleId b = v_id v \<and> cb_type b = BLOCK_MAINTENANCE \<and>
        cb_startsAt b = service_start d (v_id v) now \<and>
        v_autoServiceBlockHours v = Some ((cb_endsAt b - cb_startsAt b) div 3600000) \<and> cb_startsAt b < cb_endsAt b \<and>
        d' = d_vehicles_update (update_row v_id (v_id v) (blocked_for km)) (d_blocks_update (\<lambda>bs. bs @ [b]) d))"

lemma block_for_service_step:
  "isInr (fst (block_for_service newId now v d)) \<and> service_step now v d (snd (block_for_service newId now v d))"
proof -
  have "wpre (block_for_service newId now v) (\<lambda>_ d'. service_step now v d d') (\<lambda>_ _. False) d"
  proof (cases "v_nextServiceDueOdometerKm v"; cases "v_autoServiceBlockHours v")
    fix km hours
    assume v: "v_nextServiceDueOdometerKm v = Some km" "v_autoServiceBlockHours v = Some hours"
    let ?b = "service_block (newId (v_id v)) (service_start d (v_id v) now) hours km v"
    have "service_step now v d (d_vehicles_update (update_row v_id (v_id v) (blocked_for km)) (d_blocks_update (\<lambda>bs. bs @ [?b]) d))"
      if "1 \<le> hours"
      unfolding service_step_def
      by (rule disjI2, rule exI [of _ ?b], rule exI [of _ km]) (use v that in \<open>simp add: service_block_def\<close>)
    moreover have "service_step now v d d" by (simp add: service_step_def)
    ultimately show ?thesis
      using v by (auto simp: block_for_service_def wp write_service_block_ok Let_def service_block_def)
  qed (simp_all add: block_for_service_def wp service_step_def)
  then show ?thesis by (auto simp: wpre_def split: prod.splits sum.splits)
qed

lemma hd_sorted_le: "sorted ys \<Longrightarrow> t \<in> set ys \<Longrightarrow> hd ys \<le> t"
  by (cases ys) auto

text \<open>A block begins when the rental that is under way is back, or at once.\<close>

lemma service_start_least:
  assumes "r \<in> set (d_reservations d)" "r_vehicleId r = i" "active_status (r_status r)" "r_pickupAt r \<le> now" "r_returnAt r > now"
  shows "service_start d i now \<le> r_returnAt r \<and> now < service_start d i now"
proof -
  let ?ts = "running_returns d i now"
  have r: "r_returnAt r \<in> set ?ts" using assms by (auto simp: running_returns_def)
  have "hd ?ts \<le> r_returnAt r" by (rule hd_sorted_le [OF _ r]) (simp add: running_returns_def)
  moreover have "now < hd ?ts"
  proof -
    have "hd ?ts \<in> set ?ts" using r by (cases ?ts) simp_all
    then show ?thesis by (auto simp: running_returns_def)
  qed
  moreover have "service_start d i now = hd ?ts" using calculation(2) r by (cases ?ts) (simp_all add: service_start_def)
  ultimately show ?thesis by simp
qed

lemma service_start_later: "now \<le> service_start d i now"
  by (simp add: service_start_def split: list.split)

section \<open>One block per service mileage\<close>

definition blocks_of :: "string \<Rightarrow> db \<Rightarrow> nat" where
  "blocks_of i d = length (filter (\<lambda>b. cb_vehicleId b = i) (d_blocks d))"

definition noted :: "string \<Rightarrow> db \<Rightarrow> bool" where
  "noted i d \<longleftrightarrow>
     list_all (\<lambda>v. v_id v = i \<longrightarrow> v_nextServiceDueOdometerKm v \<noteq> None \<and> v_serviceDueAutoBlockedForKm v = v_nextServiceDueOdometerKm v)
       (d_vehicles d)"

lemma noted_elsewhere:
  assumes "i \<noteq> j" "noted i d"
  shows "noted i (d_vehicles_update (update_row v_id j (blocked_for km)) (d_blocks_update g d))"
  unfolding noted_def list_all_iff
proof (intro ballI impI)
  fix w
  assume w: "w \<in> set (d_vehicles (d_vehicles_update (update_row v_id j (blocked_for km)) (d_blocks_update g d)))" "v_id w = i"
  then have "w \<in> set (update_row v_id j (blocked_for km) (d_vehicles d))" by simp
  from row_after [OF this _ w(2)] obtain w0 where "w0 \<in> set (d_vehicles d)" "v_id w0 = i" "w = (if i = j then blocked_for km w0 else w0)"
    by (auto simp: blocked_for_def)
  then show "v_nextServiceDueOdometerKm w \<noteq> None \<and> v_serviceDueAutoBlockedForKm w = v_nextServiceDueOdometerKm w"
    using assms by (auto simp: noted_def list_all_iff)
qed

lemma noted_now:
  assumes "v_nextServiceDueOdometerKm v = Some km" "v \<in> set (d_vehicles d)" "distinct (map v_id (d_vehicles d))"
  shows "noted (v_id v) (d_vehicles_update (update_row v_id (v_id v) (blocked_for km)) (d_blocks_update g d))"
  unfolding noted_def list_all_iff
proof (intro ballI impI)
  fix w
  assume w: "w \<in> set (d_vehicles (d_vehicles_update (update_row v_id (v_id v) (blocked_for km)) (d_blocks_update g d)))" "v_id w = v_id v"
  then have "w \<in> set (update_row v_id (v_id v) (blocked_for km) (d_vehicles d))" by simp
  from row_after [OF this _ w(2)] obtain w0 where w0: "w0 \<in> set (d_vehicles d)" "v_id w0 = v_id v" "w = blocked_for km w0"
    by (auto simp: blocked_for_def)
  then have "w0 = v" using assms(2,3) by (auto simp: distinct_map dest: inj_onD)
  then show "v_nextServiceDueOdometerKm w \<noteq> None \<and> v_serviceDueAutoBlockedForKm w = v_nextServiceDueOdometerKm w"
    using w0(3) assms(1) by (simp add: blocked_for_def)
qed

lemma step_facts:
  assumes "service_step now v d d'"
  shows "map v_id (d_vehicles d') = map v_id (d_vehicles d)"
    "w \<in> set (d_vehicles d) \<Longrightarrow> v_id w \<noteq> v_id v \<Longrightarrow> w \<in> set (d_vehicles d')"
    "v_id v \<noteq> i \<Longrightarrow> blocks_of i d' = blocks_of i d \<and> (noted i d \<longrightarrow> noted i d')"
    "distinct (map v_id (d_vehicles d)) \<Longrightarrow> v \<in> set (d_vehicles d) \<Longrightarrow>
      blocks_of (v_id v) d' = blocks_of (v_id v) d \<and> (noted (v_id v) d \<longrightarrow> noted (v_id v) d') \<or>
      blocks_of (v_id v) d' = Suc (blocks_of (v_id v) d) \<and> noted (v_id v) d'"
proof -
  consider "d' = d" | b km where "v_nextServiceDueOdometerKm v = Some km" "cb_vehicleId b = v_id v"
      "d' = d_vehicles_update (update_row v_id (v_id v) (blocked_for km)) (d_blocks_update (\<lambda>bs. bs @ [b]) d)"
    using assms by (auto simp: service_step_def)
  note step = this
  have "v_id (blocked_for km x) = v_id x" for km x by (simp add: blocked_for_def)
  then show "map v_id (d_vehicles d') = map v_id (d_vehicles d)"
    by (cases rule: step) (simp_all add: keys_after)
  show "w \<in> set (d_vehicles d) \<Longrightarrow> v_id w \<noteq> v_id v \<Longrightarrow> w \<in> set (d_vehicles d')"
    by (cases rule: step) (simp_all add: rows_after_others)
  show "v_id v \<noteq> i \<Longrightarrow> blocks_of i d' = blocks_of i d \<and> (noted i d \<longrightarrow> noted i d')"
    by (cases rule: step) (simp_all add: noted_elsewhere blocks_of_def)
  show "distinct (map v_id (d_vehicles d)) \<Longrightarrow> v \<in> set (d_vehicles d) \<Longrightarrow>
      blocks_of (v_id v) d' = blocks_of (v_id v) d \<and> (noted (v_id v) d \<longrightarrow> noted (v_id v) d') \<or>
      blocks_of (v_id v) d' = Suc (blocks_of (v_id v) d) \<and> noted (v_id v) d'"
    by (cases rule: step) (simp_all add: noted_now blocks_of_def)
qed

interpretation service_rows: once_per_row d_vehicles v_id service_ready blocks_of noted "block_for_service newId now" for newId now
proof
  fix i r w d
  note step = step_facts [OF conjunct2 [OF block_for_service_step [of newId now r d]]]
  show "isInr (fst (block_for_service newId now r d))" using block_for_service_step by blast
  show "map v_id (d_vehicles (snd (block_for_service newId now r d))) = map v_id (d_vehicles d)" by (rule step(1))
  show "w \<in> set (d_vehicles d) \<Longrightarrow> v_id w \<noteq> v_id r \<Longrightarrow> w \<in> set (d_vehicles (snd (block_for_service newId now r d)))" by (rule step(2))
  show "v_id r \<noteq> i \<Longrightarrow> blocks_of i (snd (block_for_service newId now r d)) = blocks_of i d \<and>
      (noted i d \<longrightarrow> noted i (snd (block_for_service newId now r d)))" by (rule step(3))
  show "distinct (map v_id (d_vehicles d)) \<Longrightarrow> r \<in> set (d_vehicles d) \<Longrightarrow>
      blocks_of (v_id r) (snd (block_for_service newId now r d)) = blocks_of (v_id r) d \<and>
        (noted (v_id r) d \<longrightarrow> noted (v_id r) (snd (block_for_service newId now r d))) \<or>
      blocks_of (v_id r) (snd (block_for_service newId now r d)) = Suc (blocks_of (v_id r) d) \<and>
        noted (v_id r) (snd (block_for_service newId now r d))" by (rule step(4))
  show "r \<in> set (d_vehicles d) \<Longrightarrow> service_ready r \<Longrightarrow> \<not> noted (v_id r) d"
    by (auto simp: noted_def service_ready_def list_all_iff split: option.splits)
qed

definition permutes_rows :: "(vehicle list \<Rightarrow> vehicle list) \<Rightarrow> bool" where
  "permutes_rows order \<longleftrightarrow> (\<forall>vs. mset (order vs) = mset vs)"

lemma service_batch_rows:
  assumes "permutes_rows order" "distinct (map v_id (d_vehicles d))"
  shows "distinct (map v_id (service_batch order n d)) \<and> set (service_batch order n d) \<subseteq> set (d_vehicles d) \<and>
    list_all service_ready (service_batch order n d)"
proof -
  let ?vs = "order (filter service_watched (d_vehicles d))"
  have m: "mset ?vs = mset (filter service_watched (d_vehicles d))" using assms(1) by (simp add: permutes_rows_def)
  then have "mset (map v_id ?vs) = mset (map v_id (filter service_watched (d_vehicles d)))" by simp
  moreover have "distinct (map v_id (filter service_watched (d_vehicles d)))" using assms(2) by (rule distinct_map_filter)
  ultimately have "distinct (map v_id ?vs)" by (metis mset_eq_imp_distinct_iff)
  then have "distinct (map v_id (service_batch order n d))"
    unfolding service_batch_def by (metis distinct_take distinct_map_filter take_map)
  moreover have "set ?vs \<subseteq> set (d_vehicles d)" using m by (metis filter_is_subset mset_eq_setD)
  ultimately show ?thesis
    unfolding service_batch_def by (auto simp: list_all_iff dest!: in_set_takeD)
qed

lemma once_run:
  assumes "permutes_rows order" "service_rows.once k i d"
  shows "service_rows.once k i (snd (processDueAutoBlocks order newId ctx d))"
proof -
  let ?vs = "service_batch order (nat (service_limit (c_env ctx))) d"
  have "service_rows.once k i (snd (mapProg (block_for_service newId (c_now ctx)) ?vs d))"
    using service_batch_rows [OF assms(1), of d] assms(2) by (intro service_rows.once_batch) (auto simp: service_rows.once_def)
  then show ?thesis
    using assms(2) by (auto simp: processDueAutoBlocks_def bnd_def gets_def ret_def split: prod.split sum.split)
qed


section \<open>The theorems\<close>

type_synonym service_run = "(vehicle list \<Rightarrow> vehicle list) \<times> (string \<Rightarrow> string) \<times> ctx"

fun serve_service :: "service_run \<Rightarrow> unit dbprog" where
  "serve_service (order, newId, ctx) = andDo (processDueAutoBlocks order newId ctx) (ret ())"

definition demo_due_vehicle :: vehicle where
  "demo_due_vehicle = demo_vehicle\<lparr>v_nextServiceDueOdometerKm := Some 100, v_autoServiceBlockHours := Some 24\<rparr>"

definition demo_due_db :: db where
  "demo_due_db = demo_db\<lparr>d_vehicles := [demo_due_vehicle, demo_vehicle2],
     d_blocks := [\<lparr>cb_id = ''b1'', cb_vehicleId = ''v1'', cb_startsAt = day_at 0, cb_endsAt = day_at 1, cb_type = BLOCK_HOLD, cb_reason = None\<rparr>]\<rparr>"

definition demo_service_ctx :: ctx where
  "demo_service_ctx = demo_ctx\<lparr>c_env := (\<lambda>x. if x = ''SERVICE_DUE_AUTO_BLOCKS'' then Some ''1'' else None)\<rparr>"

definition demo_service_run :: service_run where
  "demo_service_run = ((\<lambda>vs. vs), (\<lambda>i. ''s-'' @ i), demo_service_ctx)"

text \<open>
  C16: However often the job runs, whatever the order, the clock and the settings, a vehicle whose service
  mileage nobody changes gets at most one automatic block.
\<close>

theorem service_block_once:
  assumes "distinct (map v_id (d_vehicles d))" "list_all (\<lambda>r. permutes_rows (fst r)) rs"
  shows "blocks_of i (run_all serve_service rs d) \<le> Suc (blocks_of i d)"
proof -
  have "always (service_rows.once (blocks_of i d) i) (serve_service r)" if "r \<in> set rs" for r
  proof -
    obtain order newId ctx where r: "r = (order, newId, ctx)" by (cases r)
    have "permutes_rows order" using assms(2) that by (auto simp: list_all_iff r)
    from once_run [OF this] have "always (service_rows.once (blocks_of i d) i) (processDueAutoBlocks order newId ctx)"
      by (simp add: always_def keeps_run)
    then show ?thesis by (simp add: r always_ret_unit)
  qed
  then have "service_rows.once (blocks_of i d) i (run_all serve_service rs d)"
    by (rule always_run_list) (use assms(1) in \<open>simp_all add: service_rows.once_start\<close>)
  then show ?thesis by (rule service_rows.once_end)
qed

theorem service_block_once_witness:
  "blocks_of ''v1'' demo_due_db = 1 \<and> blocks_of ''v1'' (run_all serve_service [demo_service_run, demo_service_run] demo_due_db) = 2"
proof -
  have ids: "distinct (map v_id (d_vehicles demo_due_db))" by code_simp
  have "permutes_rows (fst demo_service_run)" by (simp add: permutes_rows_def demo_service_run_def)
  then have runs: "list_all (\<lambda>r. permutes_rows (fst r)) [demo_service_run, demo_service_run]" by simp
  have one: "blocks_of ''v1'' demo_due_db = 1" by code_simp
  have "2 \<le> blocks_of ''v1'' (run_all serve_service [demo_service_run, demo_service_run] demo_due_db)" by code_simp
  then show ?thesis using service_block_once [OF ids runs, of "''v1''"] one by simp
qed

text \<open>The block is not checked against the other blocks of the vehicle, as every other block is.\<close>

lemma automatic_block_overlaps:
  "map (\<lambda>b. (cb_startsAt b, cb_endsAt b)) (d_blocks (run_all serve_service [demo_service_run] demo_due_db)) =
     [(day_at 0, day_at 1), (day_at 0, day_at 1)]"
  by code_simp

text \<open>
  The 800 vehicles that changed last are taken before those are left out that need nothing: a vehicle that is
  overdue and stands still is not looked at while 800 others change more often.
\<close>

lemma busy_fleet_starves_overdue:
  assumes "list_all (\<lambda>v. \<not> service_ready v) (take 800 (order (filter service_watched (d_vehicles d))))"
    "serviceDueAutoBlocksEnabled (c_env ctx)"
  shows "processDueAutoBlocks order newId ctx d = (Inr \<lparr>sr_created = 0, sr_examined = 0, sr_skipped = None\<rparr>, d)"
proof -
  have "filter service_ready (take 800 (order (filter service_watched (d_vehicles d)))) = []"
    using assms(1) by (simp add: filter_empty_conv list_all_iff)
  then show ?thesis using assms(2) by (simp add: processDueAutoBlocks_def service_batch_def bnd_def gets_def ret_def)
qed

end
