(* ===== verification/Rent_Reminder.thy ===== *)
theory Rent_Reminder
  imports Auth Batch_Once Partner_Webhook Fixtures "HOL-Library.Multiset"
begin

text \<open>
  The reminder of an unpaid booking (\<open>internal/rent-reminder.service.ts\<close> with the mail of
  \<open>mail/mail.service.ts\<close>): one mail per booking of the web site that is not paid, old enough and far enough
  ahead. Whether the transport takes a mail is the parameter \<open>deliver\<close>.
\<close>

section \<open>Settings\<close>

definition remindersFlagOn :: "env \<Rightarrow> bool" where
  "remindersFlagOn env = flag_on env ''EMAIL_RENT_PAYMENT_REMINDERS''"

definition reminder_limit :: "env \<Rightarrow> int" where
  "reminder_limit env = min 500 (max 1 (parseIntEnv (env ''RENT_REMINDER_BATCH_LIMIT'') 25 1 500))"

definition reminder_age_hours :: "env \<Rightarrow> int" where
  "reminder_age_hours env = max 1 (parseIntEnv (env ''RENT_REMINDER_MIN_RESERVATION_AGE_HOURS'') 12 1 720)"

definition reminder_lead_hours :: "env \<Rightarrow> int" where
  "reminder_lead_hours env = max 1 (parseIntEnv (env ''RENT_REMINDER_MIN_LEAD_HOURS_BEFORE_PICKUP'') 24 1 720)"

section \<open>Which bookings\<close>

definition reminder_due :: "env \<Rightarrow> time \<Rightarrow> reservation \<Rightarrow> bool" where
  "reminder_due env now r \<longleftrightarrow>
     r_source r = PUBLIC_WEB \<and> r_paidAt r = None \<and> r_rentPaymentReminderSentAt r = None \<and> r_publicViewToken r \<noteq> None \<and>
     r_status r \<in> {QUOTE, PENDING_PAYMENT} \<and> r_totalCents r \<noteq> None \<and> the (r_totalCents r) \<ge> 1 \<and>
     r_createdAt r \<le> now - reminder_age_hours env * 60 * 60 * 1000 \<and>
     r_pickupAt r \<ge> now + reminder_lead_hours env * 60 * 60 * 1000"

definition reminder_batch :: "env \<Rightarrow> time \<Rightarrow> db \<Rightarrow> reservation list" where
  "reminder_batch env now d =
     take (nat (reminder_limit env)) (sort_key r_createdAt (filter (reminder_due env now) (d_reservations d)))"

section \<open>The mail\<close>

definition bookingViewUrl :: "env \<Rightarrow> string option \<Rightarrow> string option" where
  "bookingViewUrl env publicViewToken =
     (let t = trim (or_else publicViewToken []) in
      if t = [] \<or> public_base_url env = [] then None
      else Some (public_base_url env @ ''/booking/view?token='' @ encodeURIComponent t))"

definition reminder_mail :: "string \<Rightarrow> string \<Rightarrow> string \<Rightarrow> mail" where
  "reminder_mail to' reservationId url =
     \<lparr>m_kind = ''rentPaymentReminder'', m_to = to', m_reservationId = reservationId, m_link = Some url\<rparr>"

definition sendRentPaymentReminderEmail :: "(mail \<Rightarrow> bool) \<Rightarrow> ctx \<Rightarrow> string \<Rightarrow> reservation \<Rightarrow> bool dbprog" where
  "sendRentPaymentReminderEmail deliver ctx to' r =
     (if \<not> c_mailOn ctx \<or> \<not> remindersFlagOn (c_env ctx) \<or> CHR ''@'' \<notin> set to' \<or> trimmed_env (c_env ctx) ''SMTP_FROM'' = []
      then ret False
      else case bookingViewUrl (c_env ctx) (r_publicViewToken r) of
             None \<Rightarrow> ret False
           | Some url \<Rightarrow>
               if deliver (reminder_mail to' (r_id r) url)
               then andDo (send_mail (reminder_mail to' (r_id r) url)) (ret True)
               else throw (Crash ''sendMail''))"

section \<open>The batch\<close>

definition mark_reminded :: "time \<Rightarrow> string \<Rightarrow> nat dbprog" where
  "mark_reminded now i =
     bnd (gets (\<lambda>d. length (filter (\<lambda>r. r_id r = i \<and> r_rentPaymentReminderSentAt r = None) (d_reservations d)))) (\<lambda>n.
     andDo (modify (d_reservations_update (map (\<lambda>r. if r_id r = i \<and> r_rentPaymentReminderSentAt r = None
       then stamped now (\<lambda>r. r\<lparr>r_rentPaymentReminderSentAt := Some now\<rparr>) r else r))))
     (ret n))"

definition remind_one :: "(mail \<Rightarrow> bool) \<Rightarrow> ctx \<Rightarrow> reservation \<Rightarrow> bool dbprog" where
  "remind_one deliver ctx r =
     (let email = toLowerCase (trim (r_customerEmail r)) in
      if CHR ''@'' \<notin> set email \<or> \<not> truthy (r_publicViewToken r) then ret False
      else catch (bnd (sendRentPaymentReminderEmail deliver ctx email r) (\<lambda>didSend.
             if \<not> didSend then ret False
             else bnd (mark_reminded (c_now ctx) (r_id r)) (\<lambda>n. ret (n = 1))))
           (\<lambda>_. ret False))"

record reminder_result =
  rr_sent :: nat
  rr_examined :: nat
  rr_skipped :: "string option"

definition processDueReminders :: "(mail \<Rightarrow> bool) \<Rightarrow> ctx \<Rightarrow> reminder_result dbprog" where
  "processDueReminders deliver ctx =
     (if \<not> c_mailOn ctx then ret \<lparr>rr_sent = 0, rr_examined = 0, rr_skipped = Some ''smtp_disabled''\<rparr>
      else if \<not> remindersFlagOn (c_env ctx)
      then ret \<lparr>rr_sent = 0, rr_examined = 0, rr_skipped = Some ''EMAIL_RENT_PAYMENT_REMINDERS_off''\<rparr>
      else bnd (gets (reminder_batch (c_env ctx) (c_now ctx))) (\<lambda>batch.
           bnd (mapProg (remind_one deliver ctx) batch) (\<lambda>oks.
           ret \<lparr>rr_sent = length (filter (\<lambda>ok. ok) oks), rr_examined = length batch, rr_skipped = None\<rparr>)))"

section \<open>What one booking gets\<close>

definition marked :: "time \<Rightarrow> string \<Rightarrow> db \<Rightarrow> db" where
  "marked now i = d_reservations_update (map (\<lambda>r. if r_id r = i \<and> r_rentPaymentReminderSentAt r = None
     then stamped now (\<lambda>r. r\<lparr>r_rentPaymentReminderSentAt := Some now\<rparr>) r else r))"

definition reminder_step :: "time \<Rightarrow> reservation \<Rightarrow> db \<Rightarrow> db \<Rightarrow> bool" where
  "reminder_step now r d d' \<longleftrightarrow>
     d' = d \<or> (\<exists>to' url. d' = marked now (r_id r) (d_mails_update (\<lambda>ms. ms @ [reminder_mail to' (r_id r) url]) d))"

lemma remind_one_step: "isInr (fst (remind_one deliver ctx r d)) \<and> reminder_step (c_now ctx) r d (snd (remind_one deliver ctx r d))"
proof -
  have "wpre (remind_one deliver ctx r) (\<lambda>_ d'. reminder_step (c_now ctx) r d d') (\<lambda>_ _. False) d"
    by (auto simp: remind_one_def sendRentPaymentReminderEmail_def mark_reminded_def wp Let_def reminder_step_def marked_def
        split: option.split)
  then show ?thesis by (auto simp: wpre_def split: prod.splits sum.splits)
qed

definition reminders_of :: "string \<Rightarrow> db \<Rightarrow> nat" where
  "reminders_of i d = length (filter (\<lambda>m. m_kind m = ''rentPaymentReminder'' \<and> m_reservationId m = i) (d_mails d))"

definition reminded :: "string \<Rightarrow> db \<Rightarrow> bool" where
  "reminded i d \<longleftrightarrow> list_all (\<lambda>r. r_id r = i \<longrightarrow> r_rentPaymentReminderSentAt r \<noteq> None) (d_reservations d)"

lemma reminder_facts:
  assumes "reminder_step now r d d'"
  shows "map r_id (d_reservations d') = map r_id (d_reservations d)"
    "w \<in> set (d_reservations d) \<Longrightarrow> r_id w \<noteq> r_id r \<Longrightarrow> w \<in> set (d_reservations d')"
    "r_id r \<noteq> i \<Longrightarrow> reminders_of i d' = reminders_of i d \<and> (reminded i d \<longrightarrow> reminded i d')"
    "reminders_of (r_id r) d' = reminders_of (r_id r) d \<and> (reminded (r_id r) d \<longrightarrow> reminded (r_id r) d') \<or>
      reminders_of (r_id r) d' = Suc (reminders_of (r_id r) d) \<and> reminded (r_id r) d'"
proof -
  consider "d' = d" | to' url where "d' = marked now (r_id r) (d_mails_update (\<lambda>ms. ms @ [reminder_mail to' (r_id r) url]) d)"
    using assms by (auto simp: reminder_step_def)
  note step = this
  have same: "(if r_id x = r_id r \<and> r_rentPaymentReminderSentAt x = None
     then stamped now (\<lambda>r. r\<lparr>r_rentPaymentReminderSentAt := Some now\<rparr>) x else x) = x" if "r_id x \<noteq> r_id r" for x
    using that by simp
  show "map r_id (d_reservations d') = map r_id (d_reservations d)"
    by (cases rule: step) (simp_all add: marked_def stamped_def)
  show "w \<in> set (d_reservations d) \<Longrightarrow> r_id w \<noteq> r_id r \<Longrightarrow> w \<in> set (d_reservations d')"
    by (cases rule: step) (force simp: marked_def)+
  show "r_id r \<noteq> i \<Longrightarrow> reminders_of i d' = reminders_of i d \<and> (reminded i d \<longrightarrow> reminded i d')"
    by (cases rule: step)
      (auto simp: marked_def reminders_of_def reminder_mail_def reminded_def list_all_iff stamped_def split: if_splits)
  show "reminders_of (r_id r) d' = reminders_of (r_id r) d \<and> (reminded (r_id r) d \<longrightarrow> reminded (r_id r) d') \<or>
      reminders_of (r_id r) d' = Suc (reminders_of (r_id r) d) \<and> reminded (r_id r) d'"
    by (cases rule: step)
      (auto simp: marked_def reminders_of_def reminder_mail_def reminded_def list_all_iff stamped_def)
qed

interpretation reminder_rows: once_per_row d_reservations r_id "reminder_due env now" reminders_of reminded "remind_one deliver ctx"
  for env now deliver ctx
proof
  fix i r w d
  note step = reminder_facts [OF conjunct2 [OF remind_one_step [of deliver ctx r d]]]
  show "isInr (fst (remind_one deliver ctx r d))" using remind_one_step by blast
  show "map r_id (d_reservations (snd (remind_one deliver ctx r d))) = map r_id (d_reservations d)" by (rule step(1))
  show "w \<in> set (d_reservations d) \<Longrightarrow> r_id w \<noteq> r_id r \<Longrightarrow> w \<in> set (d_reservations (snd (remind_one deliver ctx r d)))" by (rule step(2))
  show "r_id r \<noteq> i \<Longrightarrow> reminders_of i (snd (remind_one deliver ctx r d)) = reminders_of i d \<and>
      (reminded i d \<longrightarrow> reminded i (snd (remind_one deliver ctx r d)))" by (rule step(3))
  show "reminders_of (r_id r) (snd (remind_one deliver ctx r d)) = reminders_of (r_id r) d \<and>
        (reminded (r_id r) d \<longrightarrow> reminded (r_id r) (snd (remind_one deliver ctx r d))) \<or>
      reminders_of (r_id r) (snd (remind_one deliver ctx r d)) = Suc (reminders_of (r_id r) d) \<and>
        reminded (r_id r) (snd (remind_one deliver ctx r d))" by (rule step(4))
  show "r \<in> set (d_reservations d) \<Longrightarrow> reminder_due env now r \<Longrightarrow> \<not> reminded (r_id r) d"
    by (auto simp: reminded_def reminder_due_def list_all_iff)
qed

lemma reminder_batch_rows:
  assumes "distinct (map r_id (d_reservations d))"
  shows "distinct (map r_id (reminder_batch env now d)) \<and> set (reminder_batch env now d) \<subseteq> set (d_reservations d) \<and>
    list_all (reminder_due env now) (reminder_batch env now d)"
proof -
  let ?rs = "sort_key r_createdAt (filter (reminder_due env now) (d_reservations d))"
  have "mset (map r_id ?rs) = mset (map r_id (filter (reminder_due env now) (d_reservations d)))" by simp
  moreover have "distinct (map r_id (filter (reminder_due env now) (d_reservations d)))" using assms by (rule distinct_map_filter)
  ultimately have "distinct (map r_id ?rs)" by (metis mset_eq_imp_distinct_iff)
  then have "distinct (map r_id (reminder_batch env now d))"
    unfolding reminder_batch_def by (metis distinct_take take_map)
  then show ?thesis unfolding reminder_batch_def by (auto simp: list_all_iff dest!: in_set_takeD)
qed

lemma reminder_run:
  assumes "reminder_rows.once k i d"
  shows "reminder_rows.once k i (snd (processDueReminders deliver ctx d))"
proof -
  let ?rs = "reminder_batch (c_env ctx) (c_now ctx) d"
  have "reminder_rows.once k i (snd (mapProg (remind_one deliver ctx) ?rs d))"
    using reminder_batch_rows [of d] assms by (intro reminder_rows.once_batch) (auto simp: reminder_rows.once_def)
  then show ?thesis
    using assms by (auto simp: processDueReminders_def bnd_def gets_def ret_def split: prod.split sum.split)
qed


section \<open>The theorems\<close>

definition serve_reminders :: "(mail \<Rightarrow> bool) \<times> ctx \<Rightarrow> unit dbprog" where
  "serve_reminders run = andDo (processDueReminders (fst run) (snd run)) (ret ())"

definition demo_reminder_ctx :: ctx where
  "demo_reminder_ctx = demo_ctx\<lparr>c_env := (\<lambda>x. if x = ''EMAIL_RENT_PAYMENT_REMINDERS'' then Some ''yes''
     else if x = ''APP_PUBLIC_BASE_URL'' then Some ''https://a'' else if x = ''SMTP_FROM'' then Some ''x@a'' else None)\<rparr>"

definition demo_quote :: reservation where
  "demo_quote = demo_reservation\<lparr>r_id := ''q1'', r_source := PUBLIC_WEB, r_status := QUOTE, r_publicViewToken := Some ''t'',
     r_createdAt := demo_now - 172800000\<rparr>"

definition demo_reminder_db :: db where
  "demo_reminder_db = demo_db\<lparr>d_reservations := [demo_reservation, demo_quote]\<rparr>"

definition demo_reminder_run :: "(mail \<Rightarrow> bool) \<times> ctx" where
  "demo_reminder_run = ((\<lambda>_. True), demo_reminder_ctx)"

text \<open>
  However often the job runs, at whatever times and with whatever luck of the transport, the customer of a
  booking gets at most one reminder.
\<close>

theorem reminder_sent_once:
  assumes "distinct (map r_id (d_reservations d))"
  shows "reminders_of i (run_all serve_reminders runs d) \<le> Suc (reminders_of i d)"
proof -
  have "always (reminder_rows.once (reminders_of i d) i) (serve_reminders run)" for run
    unfolding serve_reminders_def by (rule always_ret_unit) (simp add: always_def keeps_run reminder_run)
  then have "reminder_rows.once (reminders_of i d) i (run_all serve_reminders runs d)"
    by (rule always_run_all) (rule reminder_rows.once_start [OF assms])
  then show ?thesis by (rule reminder_rows.once_end)
qed

theorem reminder_sent_once_witness:
  "reminders_of ''q1'' demo_reminder_db = 0 \<and>
   reminders_of ''q1'' (run_all serve_reminders [demo_reminder_run, demo_reminder_run] demo_reminder_db) = 1"
proof -
  have ids: "distinct (map r_id (d_reservations demo_reminder_db))" by code_simp
  have none: "reminders_of ''q1'' demo_reminder_db = 0" by code_simp
  have "1 \<le> reminders_of ''q1'' (run_all serve_reminders [demo_reminder_run, demo_reminder_run] demo_reminder_db)" by code_simp
  then show ?thesis using reminder_sent_once [OF ids, of "''q1''" "[demo_reminder_run, demo_reminder_run]"] none by simp
qed

text \<open>
  The mail goes out before the booking is marked: two runs that overlap, both with the booking in their batch,
  remind the customer twice.
\<close>

lemma overlapping_runs_remind_twice:
  "reminders_of ''q1'' (snd (andDo (remind_one (\<lambda>_. True) demo_reminder_ctx demo_quote)
     (remind_one (\<lambda>_. True) demo_reminder_ctx demo_quote) demo_reminder_db)) = 2"
  by code_simp

text \<open>Only a booking that is due is reminded of.\<close>

lemma not_due_not_reminded:
  assumes "list_all (\<lambda>r. r_id r = i \<longrightarrow> \<not> reminder_due (c_env ctx) (c_now ctx) r) (d_reservations d)"
  shows "reminders_of i (snd (processDueReminders deliver ctx d)) = reminders_of i d"
proof -
  have "keeps (\<lambda>d'. reminders_of i d' = reminders_of i d) (mapProg (remind_one deliver ctx) (reminder_batch (c_env ctx) (c_now ctx) d)) d"
  proof (rule keeps_mapProg)
    fix r d'
    assume "r \<in> set (reminder_batch (c_env ctx) (c_now ctx) d)" "reminders_of i d' = reminders_of i d"
    moreover from this(1) have "r_id r \<noteq> i"
      using assms by (auto simp: reminder_batch_def list_all_iff dest!: in_set_takeD)
    ultimately show "keeps (\<lambda>d'. reminders_of i d' = reminders_of i d) (remind_one deliver ctx r) d'"
      using reminder_rows.elsewhere [of r i deliver ctx d'] by (simp add: keeps_run)
  qed simp
  then show ?thesis
    by (auto simp: keeps_run processDueReminders_def bnd_def gets_def ret_def split: prod.split sum.split)
qed

end
