(* ===== verification/Retention.thy ===== *)
theory Retention
  imports Customer_Documents "HOL-Library.Multiset"
begin

text \<open>
  The retention of identity documents (\<open>worker/src/purge-retention.ts\<close> and \<open>purgeRetentionOnce\<close> of
  \<open>worker/src/main.ts\<close>): an idle worker deletes the file and the row of what is past its date. Whether the
  bucket takes a delete is the parameter \<open>deletes\<close>.
\<close>

section \<open>One document\<close>

definition deleteBlob :: "storage \<Rightarrow> (string \<Rightarrow> bool) \<Rightarrow> env \<Rightarrow> customer_document \<Rightarrow> unit dbprog" where
  "deleteBlob st deletes env x =
     (if cd_storage x = S3 then
        (if \<not> isS3Mode env then throw (Crash ''S3 not configured'')
         else if \<not> deletes (cd_storageKey x) then throw (Crash ''DeleteObject'')
         else deleteObject env (cd_storageKey x))
      else remove_file st (absPath env st (cd_storageKey x)))"

definition purge_row :: "storage \<Rightarrow> (string \<Rightarrow> bool) \<Rightarrow> env \<Rightarrow> customer_document \<Rightarrow> bool dbprog" where
  "purge_row st deletes env x =
     bnd (catch (andDo (deleteBlob st deletes env x) (ret True)) (\<lambda>_. ret (cd_storage x \<noteq> S3))) (\<lambda>goOn.
     if \<not> goOn then ret False else andDo (delete_file_row document_table (cd_id x)) (ret True))"

section \<open>A batch\<close>

text \<open>The rows the worker asks for: past their date, and with their file in place.\<close>

definition retention_expired :: "time \<Rightarrow> customer_document \<Rightarrow> bool" where
  "retention_expired now x \<longleftrightarrow>
     (case cd_retentionUntil x of None \<Rightarrow> False | Some t \<Rightarrow> t \<le> now) \<and> is_complete document_table x"

definition purge_batch :: "time \<Rightarrow> nat \<Rightarrow> db \<Rightarrow> customer_document list" where
  "purge_batch now n d = take n (sort_key (\<lambda>x. the (cd_retentionUntil x)) (filter (retention_expired now) (d_documents d)))"

definition purgeExpiredCustomerDocuments ::
  "storage \<Rightarrow> (string \<Rightarrow> bool) \<Rightarrow> env \<Rightarrow> time \<Rightarrow> int \<Rightarrow> nat dbprog" where
  "purgeExpiredCustomerDocuments st deletes env now batchSize =
     (if batchSize < 1 then ret 0
      else bnd (gets (purge_batch now (nat batchSize))) (\<lambda>rows.
           bnd (mapProg (purge_row st deletes env) rows) (\<lambda>oks. ret (length (filter (\<lambda>ok. ok) oks)))))"

definition parseNonNegIntEnv :: "string option \<Rightarrow> int \<Rightarrow> int" where
  "parseNonNegIntEnv s def =
     (if \<not> truthy s then def
      else case parseInt10 (the s) of None \<Rightarrow> def | Some n \<Rightarrow> if n \<ge> 0 then n else def)"

definition purge_size :: "env \<Rightarrow> int" where
  "purge_size env = parseNonNegIntEnv (env ''WORKER_RETENTION_PURGE_BATCH'') 25"

definition purgeRetentionOnce :: "storage \<Rightarrow> (string \<Rightarrow> bool) \<Rightarrow> env \<Rightarrow> time \<Rightarrow> unit dbprog" where
  "purgeRetentionOnce st deletes env now =
     (if purge_size env < 1 then ret ()
      else catch (andDo (purgeExpiredCustomerDocuments st deletes env now (purge_size env)) (ret ())) (\<lambda>_. ret ()))"

section \<open>What a batch removes\<close>

definition deletable :: "(string \<Rightarrow> bool) \<Rightarrow> env \<Rightarrow> customer_document \<Rightarrow> bool" where
  "deletable deletes env x \<longleftrightarrow> cd_storage x = S3 \<longrightarrow> isS3Mode env \<and> deletes (cd_storageKey x)"

definition without_ids :: "string set \<Rightarrow> customer_document list \<Rightarrow> customer_document list" where
  "without_ids ids = filter (\<lambda>x. cd_id x \<notin> ids)"

lemma documents_disk_ops [simp]:
  "d_documents (disk_without p d) = d_documents d" "d_documents (d_bucketDeletes_update g d) = d_documents d"
  by (simp_all add: disk_without_def)

lemma purge_row_removes:
  assumes "deletable deletes env x" "x \<in> set (d_documents d)"
  shows "fst (purge_row st deletes env x d) = Inr True \<and>
    d_documents (snd (purge_row st deletes env x d)) = without_ids {cd_id x} (d_documents d)"
proof -
  have found: "find_file document_table e (cd_id x) \<noteq> None" if "d_documents e = d_documents d" for e
    using assms(2) that by (auto simp: find_file_def find_row_def find_None_iff)
  have "wpre (purge_row st deletes env x) (\<lambda>ok d'. ok \<and> d_documents d' = without_ids {cd_id x} (d_documents d)) (\<lambda>_ _. False) d"
    using assms(1) found
    by (cases "cd_storage x") (auto simp: purge_row_def deleteBlob_def wp deletable_def without_ids_def delete_row_def)
  then show ?thesis by (auto simp: wpre_def split: prod.splits sum.splits)
qed

lemma purge_rows_remove:
  assumes "list_all (deletable deletes env) xs" "distinct (map cd_id xs)" "set xs \<subseteq> set (d_documents d)"
  shows "isInr (fst (mapProg (purge_row st deletes env) xs d)) \<and>
    d_documents (snd (mapProg (purge_row st deletes env) xs d)) = without_ids (set (map cd_id xs)) (d_documents d)"
  using assms
proof (induction xs arbitrary: d)
  case Nil
  then show ?case by (simp add: without_ids_def ret_def)
next
  case (Cons x xs)
  obtain d' where run: "purge_row st deletes env x d = (Inr True, d')" and d': "d_documents d' = without_ids {cd_id x} (d_documents d)"
    using purge_row_removes [of deletes env x d st] Cons.prems by (cases "purge_row st deletes env x d") auto
  have "set xs \<subseteq> set (d_documents d')"
    using Cons.prems(2,3) by (auto simp: d' without_ids_def) (metis imageI)
  then have "isInr (fst (mapProg (purge_row st deletes env) xs d')) \<and>
      d_documents (snd (mapProg (purge_row st deletes env) xs d')) = without_ids (set (map cd_id xs)) (d_documents d')"
    using Cons.prems by (intro Cons.IH) simp_all
  then show ?case
    by (auto simp: run bnd_def ret_def d' without_ids_def isInr_iff conj_commute split: prod.splits)
qed


section \<open>Nothing that is past its date stays\<close>

definition expired_count :: "time \<Rightarrow> db \<Rightarrow> nat" where
  "expired_count t d = length (filter (retention_expired t) (d_documents d))"

lemma take_low:
  "sorted (map f xs) \<Longrightarrow> filter (\<lambda>x. f x \<le> t) (take n xs) = take n (filter (\<lambda>x. f x \<le> (t :: int)) xs)"
proof (induction xs arbitrary: n)
  case (Cons x xs)
  show ?case
  proof (cases "f x \<le> t")
    case True
    then show ?thesis using Cons by (cases n) simp_all
  next
    case False
    then have "filter (\<lambda>y. f y \<le> t) xs = []" using Cons.prems by (auto simp: filter_empty_conv)
    moreover have "filter (\<lambda>y. f y \<le> t) (take m xs) = []" for m
      using calculation by (auto simp: filter_empty_conv dest: in_set_takeD)
    ultimately show ?thesis using False by (cases n) simp_all
  qed
qed simp

text \<open>What was past its date earlier comes first in a later batch.\<close>

lemma earlier_first:
  assumes "t \<le> now"
  shows "filter (retention_expired t) (purge_batch now n d) =
    take n (sort_key (\<lambda>x. the (cd_retentionUntil x)) (filter (retention_expired t) (d_documents d)))"
proof -
  let ?f = "\<lambda>x. the (cd_retentionUntil x)"
  let ?xs = "sort_key ?f (filter (retention_expired now) (d_documents d))"
  have low: "retention_expired t x \<longleftrightarrow> ?f x \<le> t" if "retention_expired now x" for x
    using that assms by (auto simp: retention_expired_def split: option.splits)
  have "filter (retention_expired t) ys = filter (\<lambda>x. ?f x \<le> t) ys" if "set ys \<subseteq> set ?xs" for ys
    by (rule filter_cong) (use that low in auto)
  then have "filter (retention_expired t) (take n ?xs) = filter (\<lambda>x. ?f x \<le> t) (take n ?xs)"
    by (metis set_take_subset)
  also have "\<dots> = take n (filter (\<lambda>x. ?f x \<le> t) ?xs)" by (rule take_low) simp
  also have "\<dots> = take n (sort_key ?f (filter (\<lambda>x. ?f x \<le> t) (filter (retention_expired now) (d_documents d))))"
    by (simp only: filter_sort)
  also have "filter (\<lambda>x. ?f x \<le> t) (filter (retention_expired now) (d_documents d)) = filter (retention_expired t) (d_documents d)"
    using low assms by (auto simp: retention_expired_def intro!: filter_cong split: option.splits)
  finally show ?thesis by (simp add: purge_batch_def)
qed

lemma purge_batch_rows:
  assumes "distinct (map cd_id (d_documents d))"
  shows "distinct (map cd_id (purge_batch now n d)) \<and> set (purge_batch now n d) \<subseteq> set (d_documents d)"
proof -
  let ?xs = "sort_key (\<lambda>x. the (cd_retentionUntil x)) (filter (retention_expired now) (d_documents d))"
  have "mset (map cd_id ?xs) = mset (map cd_id (filter (retention_expired now) (d_documents d)))" by simp
  moreover have "distinct (map cd_id (filter (retention_expired now) (d_documents d)))" using assms by (rule distinct_map_filter)
  ultimately have "distinct (map cd_id ?xs)" by (metis mset_eq_imp_distinct_iff)
  then have "distinct (map cd_id (purge_batch now n d))" unfolding purge_batch_def by (metis distinct_take take_map)
  then show ?thesis by (auto simp: purge_batch_def dest: in_set_takeD)
qed

lemma expired_after_batch:
  assumes "distinct (map cd_id (d_documents d))" "t \<le> now"
  shows "length (filter (retention_expired t) (without_ids (set (map cd_id (purge_batch now n d))) (d_documents d))) =
    expired_count t d - n"
proof -
  let ?E = "filter (retention_expired t) (d_documents d)" and ?rows = "purge_batch now n d"
  let ?in = "\<lambda>x. cd_id x \<in> set (map cd_id ?rows)"
  have inj: "inj_on cd_id (set (d_documents d))" and dist: "distinct (d_documents d)" using assms(1) by (simp_all add: distinct_map)
  have "?in x \<longleftrightarrow> x \<in> set ?rows" if "x \<in> set (d_documents d)" for x
    using inj that purge_batch_rows [OF assms(1), of now n] by (auto dest: inj_onD)
  then have "set (filter ?in ?E) = set (filter (retention_expired t) ?rows)"
    using purge_batch_rows [OF assms(1), of now n] by auto
  then have "set (filter ?in ?E) = set (take n (sort_key (\<lambda>x. the (cd_retentionUntil x)) ?E))"
    by (simp only: earlier_first [OF assms(2)])
  then have "card (set (filter ?in ?E)) = card (set (take n (sort_key (\<lambda>x. the (cd_retentionUntil x)) ?E)))"
    by (rule arg_cong)
  moreover have "distinct (filter ?in ?E)" "distinct (take n (sort_key (\<lambda>x. the (cd_retentionUntil x)) ?E))"
    using dist by (rule distinct_filter [OF distinct_filter], simp)
  ultimately have "length (filter ?in ?E) = min (length ?E) n"
    by (simp only: distinct_card length_take length_sort min.commute)
  moreover have "length ?E = length (filter ?in ?E) + length (filter (\<lambda>x. \<not> ?in x) ?E)"
    by (rule sum_length_filter_compl [symmetric])
  moreover have "filter (retention_expired t) (without_ids (set (map cd_id ?rows)) (d_documents d)) = filter (\<lambda>x. \<not> ?in x) ?E"
    by (simp add: without_ids_def conj_commute)
  ultimately show ?thesis by (simp add: expired_count_def)
qed

definition purge_ready :: "(string \<Rightarrow> bool) \<Rightarrow> env \<Rightarrow> db \<Rightarrow> bool" where
  "purge_ready deletes env d \<longleftrightarrow> distinct (map cd_id (d_documents d)) \<and> list_all (deletable deletes env) (d_documents d)"

lemma purge_round:
  assumes "purge_ready deletes env d" "\<not> purge_size env < 1"
  shows "d_documents (snd (purgeRetentionOnce st deletes env now d)) =
    without_ids (set (map cd_id (purge_batch now (nat (purge_size env)) d))) (d_documents d)"
proof -
  let ?rows = "purge_batch now (nat (purge_size env)) d"
  have dist: "distinct (map cd_id (d_documents d))" using assms(1) by (simp add: purge_ready_def)
  have "list_all (deletable deletes env) ?rows"
    using assms(1) purge_batch_rows [OF dist] by (auto simp: purge_ready_def list_all_iff)
  from purge_rows_remove [OF this] purge_batch_rows [OF dist]
  have "d_documents (snd (mapProg (purge_row st deletes env) ?rows d)) = without_ids (set (map cd_id ?rows)) (d_documents d)"
    by blast
  moreover have "snd (purgeRetentionOnce st deletes env now d) = snd (mapProg (purge_row st deletes env) ?rows d)"
    using assms(2) by (auto simp: purgeRetentionOnce_def purgeExpiredCustomerDocuments_def catch_def andDo_def bnd_def gets_def
        ret_def split: prod.splits sum.splits)
  ultimately show ?thesis by simp
qed

lemma purge_once:
  assumes "purge_ready deletes env d" "t \<le> now"
  shows "expired_count t (snd (purgeRetentionOnce st deletes env now d)) = expired_count t d - nat (purge_size env) \<and>
    purge_ready deletes env (snd (purgeRetentionOnce st deletes env now d))"
proof (cases "purge_size env < 1")
  case False
  have dist: "distinct (map cd_id (d_documents d))" using assms(1) by (simp add: purge_ready_def)
  show ?thesis
    using purge_round [OF assms(1) False, of st now] expired_after_batch [OF dist assms(2), of "nat (purge_size env)"] assms(1)
    by (auto simp: expired_count_def purge_ready_def without_ids_def list_all_iff intro: distinct_map_filter)
qed (use assms in \<open>simp add: purgeRetentionOnce_def ret_def\<close>)


definition demo_purge_env :: env where
  "demo_purge_env x = (if x = ''WORKER_RETENTION_PURGE_BATCH'' then Some ''1'' else None)"

definition demo_purge_db :: db where
  "demo_purge_db = demo_db\<lparr>d_documents := map (\<lambda>x. x\<lparr>cd_storage := LOCAL, cd_retentionUntil := Some (demo_now - 1)\<rparr>) (d_documents demo_db)\<rparr>"

definition demo_broken_disk :: storage where
  "demo_broken_disk = \<lparr>fs_defaultRoot = ''/srv'', fs_writes = (\<lambda>_. True), fs_removes = (\<lambda>_. False),
     s3_sign = (\<lambda>_ _. None), s3_head = (\<lambda>_. None), s3_object = (\<lambda>_. None)\<rparr>"

text \<open>
  C14: As long as the bucket takes its deletes, every document whose file has arrived and whose date is past at
  some time is gone after as many idle rounds of the worker as their number takes with the size of a batch,
  whenever these rounds are and whatever expires in the meantime; a disk that refuses is no obstacle. Documents
  whose upload to the bucket was never completed are not looked at.
\<close>

theorem expired_documents_purged:
  assumes "distinct (map cd_id (d_documents d))" "list_all (deletable deletes env) (d_documents d)"
    and "list_all (\<lambda>now. t \<le> now) rounds" "expired_count t d \<le> length rounds * nat (purge_size env)"
  shows "expired_count t (run_all (purgeRetentionOnce st deletes env) rounds d) = 0"
proof -
  have "purge_ready deletes env d" using assms(1,2) by (simp add: purge_ready_def)
  then show ?thesis
    using assms(3,4)
  proof (induction rounds arbitrary: d)
    case (Cons now rounds)
    have now: "t \<le> now" using Cons.prems(2) by simp
    let ?d = "snd (purgeRetentionOnce st deletes env now d)"
    have "expired_count t ?d = expired_count t d - nat (purge_size env)" "purge_ready deletes env ?d"
      using purge_once [OF Cons.prems(1) now, of st] by blast+
    then show ?case using Cons.prems(2,3) Cons.IH [of ?d] by simp
  qed simp
qed

theorem expired_documents_purged_witness:
  "expired_count demo_now demo_purge_db = 2 \<and>
   expired_count demo_now (run_all (purgeRetentionOnce demo_broken_disk (\<lambda>_. False) demo_purge_env) [demo_now, demo_now + 1] demo_purge_db) = 0"
proof -
  have two: "expired_count demo_now demo_purge_db = 2" by code_simp
  have ids: "distinct (map cd_id (d_documents demo_purge_db))" by code_simp
  have del: "list_all (deletable (\<lambda>_. False) demo_purge_env) (d_documents demo_purge_db)" by code_simp
  have later: "list_all (\<lambda>now. demo_now \<le> now) [demo_now, demo_now + 1]" by simp
  have "purge_size demo_purge_env = 1" by code_simp
  then have "expired_count demo_now demo_purge_db \<le> length [demo_now, demo_now + 1] * nat (purge_size demo_purge_env)" using two by simp
  from expired_documents_purged [OF ids del later this] two show ?thesis by blast
qed

text \<open>Only what is past its date goes.\<close>

lemma purge_keeps_the_rest:
  assumes "purge_ready deletes env d" "x \<in> set (d_documents d)" "\<not> retention_expired now x"
  shows "x \<in> set (d_documents (snd (purgeRetentionOnce st deletes env now d)))"
proof (cases "purge_size env < 1")
  case False
  let ?rows = "purge_batch now (nat (purge_size env)) d"
  have dist: "distinct (map cd_id (d_documents d))" using assms(1) by (simp add: purge_ready_def)
  have sub: "set ?rows \<subseteq> set (d_documents d)" using purge_batch_rows [OF dist] by blast
  have "cd_id x \<notin> set (map cd_id ?rows)"
  proof
    assume "cd_id x \<in> set (map cd_id ?rows)"
    then obtain y where y: "y \<in> set ?rows" "cd_id y = cd_id x" by auto
    then have "y = x" using sub dist assms(2) by (auto simp: distinct_map dest: inj_onD)
    then show False using y(1) assms(3) by (auto simp: purge_batch_def dest: in_set_takeD)
  qed
  then show ?thesis using purge_round [OF assms(1) False, of st now] assms(2) by (simp add: without_ids_def)
qed (use assms in \<open>simp add: purgeRetentionOnce_def ret_def\<close>)

text \<open>An upload to the bucket that was never completed stays for good, its date notwithstanding.\<close>

lemma unfinished_upload_stays:
  assumes "purge_ready deletes env d" "x \<in> set (d_documents d)" "cd_storage x = S3" "cd_uploadCompletedAt x = None"
  shows "x \<in> set (d_documents (snd (purgeRetentionOnce st deletes env now d)))"
proof -
  have "\<not> retention_expired now x" using assms(3,4) by (simp add: retention_expired_def is_complete_def document_table_def)
  then show ?thesis using purge_keeps_the_rest assms(1,2) by blast
qed

text \<open>A document whose file the bucket does not give up is read again first in every round: a batch of such
  documents keeps every later one from being deleted.\<close>

lemma stuck_bucket_starves:
  assumes "list_all (\<lambda>x. cd_storage x = S3 \<and> \<not> deletable deletes env x) (purge_batch now (nat (purge_size env)) d)"
  shows "purgeRetentionOnce st deletes env now d = (Inr (), d)"
proof -
  have row: "purge_row st deletes env x e = (Inr False, e)" if "cd_storage x = S3" "\<not> deletable deletes env x" for x e
    using that by (auto simp: purge_row_def deleteBlob_def deletable_def bnd_def catch_def andDo_def throw_def ret_def)
  have "isInr (fst (mapProg (purge_row st deletes env) xs e)) \<and> snd (mapProg (purge_row st deletes env) xs e) = e"
    if "list_all (\<lambda>x. cd_storage x = S3 \<and> \<not> deletable deletes env x) xs" for xs e
    using that by (induction xs) (auto simp: row bnd_def ret_def isInr_iff split: prod.splits sum.splits)
  from this [OF assms, of d] show ?thesis
    by (auto simp: purgeRetentionOnce_def purgeExpiredCustomerDocuments_def catch_def andDo_def bnd_def gets_def ret_def isInr_iff
        split: prod.splits sum.splits)
qed

end
