(* ===== verification/Worker_Loop.thy ===== *)
theory Worker_Loop
  imports Cargos Files_Safety Service_Due Rent_Reminder Retention
begin

text \<open>
  The loop of the worker (\<open>worker/src/main.ts\<close>) and the doors of the API it knocks at
  (\<open>internal/internal-cron.controller.ts\<close>): one police notification after the other, and when there is none
  the purge and the four jobs of the API, each at its own interval. The network is the parameter
  \<open>reaches\<close>; the answers of the API are only logged.
\<close>

section \<open>The doors of the API\<close>

definition cron_reminders :: "(mail \<Rightarrow> bool) \<Rightarrow> ctx \<Rightarrow> string option \<Rightarrow> reminder_result dbprog" where
  "cron_reminders deliver ctx authorization =
     andDo (asks (\<lambda>_. cron_authorized (c_env ctx) authorization)) (processDueReminders deliver ctx)"

definition cron_service_blocks ::
  "(vehicle list \<Rightarrow> vehicle list) \<Rightarrow> (string \<Rightarrow> string) \<Rightarrow> ctx \<Rightarrow> string option \<Rightarrow> service_due_result dbprog" where
  "cron_service_blocks order newId ctx authorization =
     andDo (asks (\<lambda>_. cron_authorized (c_env ctx) authorization)) (processDueAutoBlocks order newId ctx)"

definition cron_webhooks ::
  "http_client \<Rightarrow> (string \<Rightarrow> string \<Rightarrow> string) \<Rightarrow> ctx \<Rightarrow> string option \<Rightarrow> batch_tally dbprog" where
  "cron_webhooks http hmac ctx authorization =
     andDo (asks (\<lambda>_. cron_authorized (c_env ctx) authorization))
       (bnd (gets (processDueDeliveriesBatch http hmac (c_env ctx) (c_now ctx))) (\<lambda>(tally, posts, d).
        andDo (modify (\<lambda>_. d)) (ret tally)))"

record api_world =
  aw_ctx :: ctx
  aw_deliver :: "mail \<Rightarrow> bool"
  aw_order :: "vehicle list \<Rightarrow> vehicle list"
  aw_newId :: "string \<Rightarrow> string"
  aw_ocr :: ocr_lib
  aw_http :: http_client
  aw_hmac :: "string \<Rightarrow> string \<Rightarrow> string"

section \<open>The knocks\<close>

datatype cron_job = RENT_REMINDERS | SERVICE_BLOCKS | DOCUMENT_OCR | PARTNER_WEBHOOKS

fun job_setting :: "cron_job \<Rightarrow> string \<times> int" where
  "job_setting RENT_REMINDERS = (''WORKER_RENT_REMINDER_INTERVAL_MS'', 900000)"
| "job_setting SERVICE_BLOCKS = (''WORKER_SERVICE_DUE_INTERVAL_MS'', 3600000)"
| "job_setting DOCUMENT_OCR = (''WORKER_CUSTOMER_DOCUMENT_OCR_INTERVAL_MS'', 0)"
| "job_setting PARTNER_WEBHOOKS = (''WORKER_PARTNER_WEBHOOK_INTERVAL_MS'', 0)"

fun job_path :: "cron_job \<Rightarrow> string" where
  "job_path RENT_REMINDERS = ''rent-payment-reminders''"
| "job_path SERVICE_BLOCKS = ''service-due-maintenance-blocks''"
| "job_path DOCUMENT_OCR = ''customer-document-ocr''"
| "job_path PARTNER_WEBHOOKS = ''partner-webhook-deliveries''"

definition job_interval :: "env \<Rightarrow> cron_job \<Rightarrow> int" where
  "job_interval env j = (case job_setting j of (k, def) \<Rightarrow> parseNonNegIntEnv (env k) def)"

definition worker_secret :: "env \<Rightarrow> string" where
  "worker_secret env = trimmed_setting env ''WORKER_INTERNAL_SECRET''"

definition job_url :: "env \<Rightarrow> cron_job \<Rightarrow> string" where
  "job_url env j =
     (let raw = (case env ''WORKER_API_BASE_URL'' of None \<Rightarrow> ''http://127.0.0.1:3000/v1'' | Some u \<Rightarrow> trim u);
          base = (if raw \<noteq> [] \<and> last raw = CHR ''/'' then butlast raw else raw)
      in base @ ''/internal/cron/'' @ job_path j)"

definition job_due :: "env \<Rightarrow> cron_job \<Rightarrow> time \<Rightarrow> time \<Rightarrow> bool" where
  "job_due env j lastTick now \<longleftrightarrow>
     \<not> job_interval env j < 1 \<and> worker_secret env \<noteq> [] \<and> \<not> length (worker_secret env) < 16 \<and>
     \<not> now - lastTick < job_interval env j"

definition job_header :: "env \<Rightarrow> string" where
  "job_header env = ''Bearer '' @ worker_secret env"

fun api_door :: "api_world \<Rightarrow> cron_job \<Rightarrow> string option \<Rightarrow> unit dbprog" where
  "api_door w RENT_REMINDERS a = andDo (cron_reminders (aw_deliver w) (aw_ctx w) a) (ret ())"
| "api_door w SERVICE_BLOCKS a = andDo (cron_service_blocks (aw_order w) (aw_newId w) (aw_ctx w) a) (ret ())"
| "api_door w DOCUMENT_OCR a = andDo (cron_ocr (aw_ocr w) (aw_ctx w) a) (ret ())"
| "api_door w PARTNER_WEBHOOKS a = andDo (cron_webhooks (aw_http w) (aw_hmac w) (aw_ctx w) a) (ret ())"

text \<open>What the process remembers of its jobs: when each was due last, and, to reason about, the requests it has sent.\<close>

record worker_memory =
  wm_ticks :: "cron_job \<Rightarrow> time"
  wm_knocks :: "(cron_job \<times> time) list"

definition tick :: "cron_job \<Rightarrow> time \<Rightarrow> worker_memory \<times> db \<Rightarrow> worker_memory \<times> db" where
  "tick j now s = ((fst s)\<lparr>wm_ticks := (wm_ticks (fst s))(j := now)\<rparr>, snd s)"

text \<open>A request goes out; the API serves it when the network lets it through.\<close>

definition knock ::
  "env \<Rightarrow> (cron_job \<Rightarrow> bool) \<Rightarrow> api_world \<Rightarrow> time \<Rightarrow> cron_job \<Rightarrow> worker_memory \<times> db \<Rightarrow> worker_memory \<times> db" where
  "knock env reaches api now j s =
     ((fst s)\<lparr>wm_knocks := wm_knocks (fst s) @ [(j, now)]\<rparr>,
      if reaches j then snd (api_door api j (Some (job_header env)) (snd s)) else snd s)"

text \<open>One visit of a job in the loop: when it is due, the time is noted first and then the request goes out.\<close>

definition maybe_trigger ::
  "env \<Rightarrow> (cron_job \<Rightarrow> bool) \<Rightarrow> api_world \<Rightarrow> time \<Rightarrow> cron_job \<Rightarrow> worker_memory \<times> db \<Rightarrow> worker_memory \<times> db" where
  "maybe_trigger env reaches api now j s =
     (if \<not> job_due env j (wm_ticks (fst s) j) now then s else knock env reaches api now j (tick j now s))"

section \<open>The loop\<close>

record worker_world =
  ww_cargos :: cargos_http
  ww_storage :: storage
  ww_deletes :: "string \<Rightarrow> bool"
  ww_reaches :: "cron_job \<Rightarrow> bool"
  ww_api :: api_world
  ww_now :: "cron_job \<Rightarrow> time"
  ww_time :: time

definition jobs_in_order :: "cron_job list" where
  "jobs_in_order = [RENT_REMINDERS, SERVICE_BLOCKS, DOCUMENT_OCR, PARTNER_WEBHOOKS]"

definition worker_turn :: "env \<Rightarrow> worker_world \<Rightarrow> worker_memory \<times> db \<Rightarrow> worker_memory \<times> db" where
  "worker_turn env w s =
     (case processOne (ww_cargos w) env (ww_time w) (snd s) of
        (True, d) \<Rightarrow> (fst s, d)
      | (False, d) \<Rightarrow>
          fold (\<lambda>j. maybe_trigger env (ww_reaches w) (ww_api w) (ww_now w j) j) jobs_in_order
            (fst s, snd (purgeRetentionOnce (ww_storage w) (ww_deletes w) env (ww_time w) d)))"

section \<open>The sleep\<close>

text \<open>
  The long sleep in pieces of 200 ms: \<open>running i\<close> is what the flag says at the \<open>i\<close>-th look. The answer is how
  many pieces were slept and how long they were together.
\<close>

function sleepInterruptible :: "(nat \<Rightarrow> bool) \<Rightarrow> nat \<Rightarrow> int \<Rightarrow> nat \<times> int" where
  "sleepInterruptible running i left =
     (if left > 0 \<and> running i
      then case sleepInterruptible running (Suc i) (left - min 200 left) of
             (n, slept) \<Rightarrow> (Suc n, min 200 left + slept)
      else (0, 0))"
  by pat_completeness auto
termination by (relation "measure (\<lambda>(running, i, left). nat left)") auto

declare sleepInterruptible.simps [simp del]

lemma sleep_from:
  assumes "0 \<le> ms" "sleepInterruptible running i ms = (n, slept)"
  shows "0 \<le> slept \<and> slept \<le> ms \<and> slept \<le> 200 * int n \<and> 200 * int n < ms + 200 \<and>
    list_all running [i..<i + n] \<and> (slept = ms \<or> \<not> running (i + n))"
  using assms
proof (induction running i ms arbitrary: n slept rule: sleepInterruptible.induct)
  case (1 running i left)
  show ?case
  proof (cases "left > 0 \<and> running i")
    case True
    obtain m t where rest: "sleepInterruptible running (Suc i) (left - min 200 left) = (m, t)" by fastforce
    then have "sleepInterruptible running i left = (Suc m, min 200 left + t)"
      using True by (subst sleepInterruptible.simps) simp
    then have n: "n = Suc m" "slept = min 200 left + t" using 1(3) by simp_all
    have ih: "0 \<le> t \<and> t \<le> left - min 200 left \<and> t \<le> 200 * int m \<and> 200 * int m < left - min 200 left + 200 \<and>
        list_all running [Suc i..<Suc i + m] \<and> (t = left - min 200 left \<or> \<not> running (Suc i + m))"
      by (rule 1(1) [OF True _ rest]) simp
    have "[i..<i + n] = i # [Suc i..<Suc i + m]" by (simp add: n upt_conv_Cons del: upt_Suc)
    moreover have "200 * int n < left + 200"
    proof (cases "left \<le> 200")
      case True
      then have "sleepInterruptible running (Suc i) (left - min 200 left) = (0, 0)"
        by (subst sleepInterruptible.simps) (simp add: min_def)
      then have "m = 0" using rest by simp
      then show ?thesis using n True \<open>left > 0 \<and> running i\<close> by simp
    qed (use ih n in \<open>simp add: min_def\<close>)
    ultimately show ?thesis using ih True n by (auto simp: min_def split: if_splits)
  next
    case False
    then have "sleepInterruptible running i left = (0, 0)" by (subst sleepInterruptible.simps) auto
    then have "n = 0" "slept = 0" using 1(3) by simp_all
    then show ?thesis using False 1(2) by auto
  qed
qed

section \<open>The doors and the knocks fit\<close>

lemma trim_starts: "c \<noteq> [] \<Longrightarrow> \<not> isSpace (hd c) \<Longrightarrow> trim x \<noteq> [] \<Longrightarrow> trim (c @ trim x) = c @ trim x"
proof -
  assume c: "c \<noteq> []" "\<not> isSpace (hd c)" and x: "trim x \<noteq> []"
  let ?r = "dropWhile isSpace (rev (dropWhile isSpace x))"
  have "?r \<noteq> []" using x by (simp add: trim_def)
  then obtain y ys where r: "?r = y # ys" "\<not> isSpace y" by (metis hd_dropWhile list.collapse)
  have "dropWhile isSpace (c @ trim x) = c @ trim x" using c by (cases c) simp_all
  moreover have "rev (c @ trim x) = y # ys @ rev c" using r(1) by (simp add: trim_def)
  moreover have "dropWhile isSpace (y # ys @ rev c) = y # ys @ rev c" using r(2) by simp
  ultimately show ?thesis by (metis rev_rev_ident trim_def)
qed

lemma header_trimmed: "worker_secret env \<noteq> [] \<Longrightarrow> trim (job_header env) = job_header env"
proof -
  assume s: "worker_secret env \<noteq> []"
  have "\<not> isSpace (hd ''Bearer '')" by code_simp
  then show ?thesis
    using trim_starts [of "''Bearer ''" "or_else (env ''WORKER_INTERNAL_SECRET'') []"] s
    by (simp add: job_header_def worker_secret_def trimmed_setting_def)
qed

text \<open>
  The knock of the worker opens the doors of the API exactly when the shared secret has 16 characters, and
  nothing but this header opens them.
\<close>

theorem worker_opens_doors:
  "(cron_authorized env (Some (job_header env)) = Inr () \<longleftrightarrow> 16 \<le> length (worker_secret env)) \<and>
   (cron_authorized env a = Inr () \<longrightarrow> trim (or_else a []) = job_header env) \<and>
   (job_due env j t now \<longrightarrow> cron_authorized env (Some (job_header env)) = Inr ())"
proof -
  have "cron_authorized env (Some (job_header env)) = Inr () \<longleftrightarrow> 16 \<le> length (worker_secret env)"
    using header_trimmed [of env] by (auto simp: cron_authorized_def Let_def worker_secret_def job_header_def or_else_def)
  moreover have "trim (or_else a []) = job_header env" if "cron_authorized env a = Inr ()"
    using that by (simp add: cron_authorized_def Let_def job_header_def worker_secret_def split: if_splits)
  ultimately show ?thesis by (auto simp: job_due_def)
qed

section \<open>How often a job runs\<close>

definition knocks_of :: "cron_job \<Rightarrow> worker_memory \<Rightarrow> time list" where
  "knocks_of j m = map snd (filter (\<lambda>k. fst k = j) (wm_knocks m))"

text \<open>The requests of a job so far, after a time \<open>t0\<close> it was due at, are spaced and end with the time that is noted.\<close>

definition spaced :: "env \<Rightarrow> cron_job \<Rightarrow> time \<Rightarrow> worker_memory \<Rightarrow> bool" where
  "spaced env j t0 m \<longleftrightarrow>
     successively (\<lambda>a b. a + job_interval env j \<le> b) (t0 # knocks_of j m) \<and> last (t0 # knocks_of j m) = wm_ticks m j"

lemma trigger_spaced:
  assumes "spaced env j t0 (fst s)"
  shows "spaced env j t0 (fst (maybe_trigger env reaches api now i s))"
proof (cases "job_due env i (wm_ticks (fst s) i) now \<and> i = j")
  case True
  then have due: "job_due env j (wm_ticks (fst s) j) now" and i: "i = j" by auto
  then have "last (t0 # knocks_of j (fst s)) + job_interval env j \<le> now"
    using assms by (simp add: spaced_def job_due_def)
  moreover have "knocks_of j (fst (maybe_trigger env reaches api now i s)) = knocks_of j (fst s) @ [now]"
    using due by (simp add: i maybe_trigger_def knock_def tick_def knocks_of_def)
  moreover have "wm_ticks (fst (maybe_trigger env reaches api now i s)) j = now"
    using due by (simp add: i maybe_trigger_def knock_def tick_def)
  moreover have "successively (\<lambda>a b. a + job_interval env j \<le> b) ((t0 # knocks_of j (fst s)) @ [now])"
    using assms calculation(1) unfolding successively_append_iff by (simp add: spaced_def)
  ultimately show ?thesis by (simp add: spaced_def)
next
  case False
  then have "knocks_of j (fst (maybe_trigger env reaches api now i s)) = knocks_of j (fst s)"
    "wm_ticks (fst (maybe_trigger env reaches api now i s)) j = wm_ticks (fst s) j"
    by (auto simp: maybe_trigger_def knock_def tick_def knocks_of_def)
  then show ?thesis using assms by (simp add: spaced_def)
qed

lemma turn_spaced:
  assumes "spaced env j t0 (fst s)"
  shows "spaced env j t0 (fst (worker_turn env w s))"
proof -
  obtain did d where "processOne (ww_cargos w) env (ww_time w) (snd s) = (did, d)" by fastforce
  then show ?thesis using assms by (cases did) (simp_all add: worker_turn_def jobs_in_order_def trigger_spaced)
qed

text \<open>
  C17: However the turns of the worker fall, whatever the clock does and whether the network works or fails, two
  requests that go out to the same job of the API are at least its interval apart, and so is the first from the
  time the job was noted before.
\<close>

theorem jobs_keep_their_interval:
  assumes "wm_knocks (fst s) = []"
  shows "successively (\<lambda>a b. a + job_interval env j \<le> b)
    (wm_ticks (fst s) j # knocks_of j (fst (fold (worker_turn env) ws s)))"
proof -
  have "spaced env j (wm_ticks (fst s) j) (fst s)" using assms by (simp add: spaced_def knocks_of_def)
  then have "spaced env j (wm_ticks (fst s) j) (fst (fold (worker_turn env) ws s))"
    by (induction ws arbitrary: s rule: rev_induct) (simp_all add: turn_spaced)
  then show ?thesis by (simp add: spaced_def)
qed

section \<open>What the loop leaves alone\<close>

definition bookings_as :: "db \<Rightarrow> db \<Rightarrow> bool" where
  "bookings_as e d \<longleftrightarrow> d_mails d = d_mails e \<and> d_reservations d = d_reservations e"

lemma bookings_as_self [simp]: "bookings_as e e"
  by (simp add: bookings_as_def)

lemma bookings_as_frames [simp]:
  "bookings_as e (d_cargos_update f d) = bookings_as e d" "bookings_as e (d_deliveries_update g d) = bookings_as e d"
  "bookings_as e (d_documents_update h d) = bookings_as e d" "bookings_as e (d_disk_update k d) = bookings_as e d"
  "bookings_as e (d_bucketDeletes_update l d) = bookings_as e d" "bookings_as e (d_vehicles_update p d) = bookings_as e d"
  "bookings_as e (d_blocks_update q d) = bookings_as e d" "bookings_as e (d_audit_update r d) = bookings_as e d"
  by (simp_all add: bookings_as_def)

lemma cargos_leave: "bookings_as e (snd (processOne http env now d)) = bookings_as e d"
proof -
  have "bookings_as e (update_submission now i f d') = bookings_as e d'" for i f d'
    by (simp add: update_submission_def)
  moreover have "bookings_as e (lock_submission now i d) = bookings_as e d" for i by (simp add: lock_submission_def)
  ultimately show ?thesis
    using run_adapter_once by (auto simp: processOne_def split: option.split) (metis)+
qed

lemma deliveries_leave: "bookings_as e (snd (snd (processDueDeliveriesBatch http hmac env now d))) = bookings_as e d"
proof -
  have u: "bookings_as e (update_delivery now i f d') = bookings_as e d'" for i f d' by (simp add: update_delivery_def)
  have failed: "bookings_as e (snd (delivery_failed now row st msg d')) = bookings_as e d'" for row st msg d'
    by (simp add: delivery_failed_def Let_def u)
  have one: "bookings_as e (snd (snd (deliverOne http hmac now i d'))) = bookings_as e d'" for i d'
    unfolding deliverOne_def Let_def
    by (simp add: u failed case_prod_beta split: option.split http_outcome.split)
  have "bookings_as e (snd (snd (delivery_loop http hmac now n t d'))) = bookings_as e d'" for n t d'
  proof (induction n arbitrary: t d')
    case (Suc n)
    show ?case
    proof (cases "due_deliveries now d'")
      case (Cons w ws)
      then show ?thesis by (simp add: case_prod_beta Suc one u)
    qed simp
  qed simp
  then show ?thesis by (simp add: processDueDeliveriesBatch_def release_stale_def)
qed

lemma purge_leaves: "always (bookings_as e) (purgeRetentionOnce st deletes env now)"
proof -
  have "always (bookings_as e) (delete_file_row document_table i)" for i
    by (auto simp: always_def keeps_def wp)
  moreover have "always (bookings_as e) (deleteBlob st deletes env x)" for x
    by (auto simp: always_def keeps_def wp deleteBlob_def disk_without_def)
  ultimately show ?thesis
    unfolding purgeRetentionOnce_def purgeExpiredCustomerDocuments_def purge_row_def
    by (intro always_intros always_catch always_mapProg)
qed

lemma service_leaves: "always (bookings_as e) (cron_service_blocks order newId ctx a)"
proof -
  have "always (bookings_as e) (block_for_service newId now v)" for now v
    unfolding always_def keeps_run
  proof (intro allI impI)
    fix d
    assume "bookings_as e d"
    then show "bookings_as e (snd (block_for_service newId now v d))"
      using conjunct2 [OF block_for_service_step [of newId now v d]] by (auto simp: service_step_def)
  qed
  then show ?thesis
    unfolding cron_service_blocks_def processDueAutoBlocks_def by (intro always_intros always_mapProg)
qed

lemma webhooks_leave: "always (bookings_as e) (cron_webhooks http hmac ctx a)"
  unfolding always_def keeps_run
proof (intro allI impI)
  fix d
  assume d: "bookings_as e d"
  obtain t p d' where run: "processDueDeliveriesBatch http hmac (c_env ctx) (c_now ctx) d = (t, p, d')" by (rule prod_cases3)
  then have "bookings_as e d'" using deliveries_leave [of e http hmac "c_env ctx" "c_now ctx" d] d by simp
  then show "bookings_as e (snd (cron_webhooks http hmac ctx a d))"
    using d by (auto simp: cron_webhooks_def andDo_def bnd_def asks_def gets_def modify_def ret_def run split: sum.split)
qed

section \<open>The whole loop reminds once\<close>

text \<open>A predicate on the mails and the bookings is kept by a turn when the reminders keep it.\<close>

lemma kept_by_leaving: "always (bookings_as d) m \<Longrightarrow> (\<And>e. bookings_as d e \<Longrightarrow> I e = I d) \<Longrightarrow> I d \<Longrightarrow> I (snd (m d))"
  using always_run [of "bookings_as d" m d] by simp

lemma ocr_leaves: "always (bookings_as e) (cron_ocr lib ctx a)"
  by (rule always_cron_ocr) (simp_all add: log_only_def file_stable_def, simp_all add: bookings_as_def)

lemma door_keeps:
  assumes "\<And>d e. bookings_as d e \<Longrightarrow> I e = I d" "\<And>(w :: api_world) a. always I (cron_reminders (aw_deliver w) (aw_ctx w) a)" "I d"
  shows "I (snd (api_door w j a d))"
proof (cases j)
  case RENT_REMINDERS
  have "always I (api_door w RENT_REMINDERS a)" unfolding api_door.simps by (rule always_ret_unit) (rule assms(2))
  then show ?thesis using RENT_REMINDERS assms(3) by (metis always_run)
next
  case SERVICE_BLOCKS
  have "always (bookings_as d) (api_door w SERVICE_BLOCKS a)" by (simp add: service_leaves always_ret_unit)
  then show ?thesis using SERVICE_BLOCKS kept_by_leaving [where I = I] assms(1,3) by blast
next
  case DOCUMENT_OCR
  have "always (bookings_as d) (api_door w DOCUMENT_OCR a)" by (simp add: ocr_leaves always_ret_unit)
  then show ?thesis using DOCUMENT_OCR kept_by_leaving [where I = I] assms(1,3) by blast
next
  case PARTNER_WEBHOOKS
  have "always (bookings_as d) (api_door w PARTNER_WEBHOOKS a)" by (simp add: webhooks_leave always_ret_unit)
  then show ?thesis using PARTNER_WEBHOOKS kept_by_leaving [where I = I] assms(1,3) by blast
qed

lemma turn_keeps:
  assumes "\<And>d e. bookings_as d e \<Longrightarrow> I e = I d" "\<And>(w :: api_world) a. always I (cron_reminders (aw_deliver w) (aw_ctx w) a)" "I (snd s)"
  shows "I (snd (worker_turn env w s))"
proof -
  obtain did d where run: "processOne (ww_cargos w) env (ww_time w) (snd s) = (did, d)" by fastforce
  have d: "I d" using assms(1,3) cargos_leave [of "snd s" "ww_cargos w" env "ww_time w" "snd s"] run by simp
  have "I (snd (maybe_trigger env reaches api now j t))" if "I (snd t)" for reaches api now j t
    using that door_keeps [of I, OF assms(1) assms(2) that] by (simp add: maybe_trigger_def knock_def tick_def)
  moreover have "I (snd (purgeRetentionOnce (ww_storage w) (ww_deletes w) env (ww_time w) d))"
    using kept_by_leaving [OF purge_leaves] assms(1) d by blast
  ultimately show ?thesis using d by (cases did) (simp_all add: worker_turn_def run jobs_in_order_def)
qed

definition demo_api :: api_world where
  "demo_api = \<lparr>aw_ctx = demo_reminder_ctx\<lparr>c_env := (\<lambda>x. if x = ''WORKER_INTERNAL_SECRET'' then Some ''0123456789abcdef''
       else c_env demo_reminder_ctx x)\<rparr>, aw_deliver = (\<lambda>_. True), aw_order = (\<lambda>vs. vs), aw_newId = (\<lambda>i. i),
     aw_ocr = \<lparr>ol_http = (\<lambda>_ _. FetchFailed []), ol_parse = (\<lambda>_. None), ol_hmac = (\<lambda>_ _. []), ol_get = (\<lambda>_ _. None)\<rparr>,
     aw_http = (\<lambda>_ _ _ _. HttpFailed []), aw_hmac = (\<lambda>_ _. [])\<rparr>"

definition demo_world :: "time \<Rightarrow> worker_world" where
  "demo_world t = \<lparr>ww_cargos = (\<lambda>_ _ _. HttpFailed []), ww_storage = demo_broken_disk, ww_deletes = (\<lambda>_. True),
     ww_reaches = (\<lambda>_. True), ww_api = demo_api, ww_now = (\<lambda>_. t), ww_time = t\<rparr>"

definition demo_turns :: "db" where
  "demo_turns = snd (fold (worker_turn (c_env (aw_ctx demo_api))) [demo_world demo_now, demo_world (demo_now + 900000)]
     (\<lparr>wm_ticks = (\<lambda>_. 0), wm_knocks = []\<rparr>, demo_reminder_db))"

text \<open>
  C15: However many turns the worker makes, whatever its network, the adapters, the transport and the clock do,
  the customer of a booking gets at most one reminder.
\<close>

theorem worker_reminds_once:
  assumes "distinct (map r_id (d_reservations (snd s)))"
  shows "reminders_of i (snd (fold (worker_turn env) ws s)) \<le> Suc (reminders_of i (snd s))"
proof -
  let ?I = "reminder_rows.once (reminders_of i (snd s)) i"
  have frame: "?I e = ?I d" if "bookings_as d e" for d e
    using that by (simp add: reminder_rows.once_def reminders_of_def reminded_def bookings_as_def)
  have "always ?I (cron_reminders (aw_deliver w) (aw_ctx w) a)" for w :: api_world and a
    unfolding cron_reminders_def by (intro always_intros) (simp add: always_def keeps_run reminder_run)
  from turn_keeps [where I = ?I, OF frame this]
  have "?I (snd (fold (worker_turn env) ws t))" if "?I (snd t)" for t
    using that by (induction ws arbitrary: t) simp_all
  then have "?I (snd (fold (worker_turn env) ws s))" using reminder_rows.once_start [OF assms] by blast
  then show ?thesis by (rule reminder_rows.once_end)
qed

theorem worker_reminds_once_witness:
  "reminders_of ''q1'' demo_reminder_db = 0 \<and> reminders_of ''q1'' demo_turns = 1"
proof -
  have ids: "distinct (map r_id (d_reservations (snd (\<lparr>wm_ticks = (\<lambda>_. 0), wm_knocks = []\<rparr>, demo_reminder_db))))" by code_simp
  have none: "reminders_of ''q1'' demo_reminder_db = 0" by code_simp
  have "1 \<le> reminders_of ''q1'' demo_turns" by code_simp
  moreover have "reminders_of ''q1'' demo_turns \<le> Suc (reminders_of ''q1'' demo_reminder_db)"
    using worker_reminds_once [OF ids, where i = "''q1''" and env = "c_env (aw_ctx demo_api)"
        and ws = "[demo_world demo_now, demo_world (demo_now + 900000)]"]
    unfolding demo_turns_def by (simp only: snd_conv)
  ultimately show ?thesis using none by simp
qed

text \<open>Three turns without a network, the second too early for another reminder run.\<close>

definition offline_start :: "worker_memory \<times> db" where
  "offline_start = (\<lparr>wm_ticks = (\<lambda>_. 0), wm_knocks = []\<rparr>, demo_reminder_db)"

definition offline_turns :: "worker_world list" where
  "offline_turns = map (\<lambda>t. (demo_world t)\<lparr>ww_reaches := (\<lambda>_. False)\<rparr>) [demo_now, demo_now + 1000, demo_now + 900000]"

definition demo_offline :: worker_memory where
  "demo_offline = fst (fold (worker_turn (c_env (aw_ctx demo_api))) offline_turns offline_start)"

theorem jobs_keep_their_interval_witness:
  "knocks_of RENT_REMINDERS demo_offline = [demo_now, demo_now + 900000] \<and>
   successively (\<lambda>a b. a + 900000 \<le> b) (0 # knocks_of RENT_REMINDERS demo_offline)"
proof -
  have gap: "job_interval (c_env (aw_ctx demo_api)) RENT_REMINDERS = 900000" by code_simp
  have start: "wm_knocks (fst offline_start) = []" "wm_ticks (fst offline_start) RENT_REMINDERS = 0" by (simp_all add: offline_start_def)
  have "knocks_of RENT_REMINDERS demo_offline = [demo_now, demo_now + 900000]" by code_simp
  moreover note jobs_keep_their_interval [OF start(1), of "c_env (aw_ctx demo_api)" RENT_REMINDERS offline_turns,
    folded demo_offline_def, unfolded gap start(2)]
  ultimately show ?thesis by blast
qed

end
