(* ===== verification/Spec2Isabelle.thy ===== *)
theory Spec2Isabelle
  imports Italian_Fiscal Fleet_Blocks Fleet_Vehicles Booking_Safety Invoices Agreements Staff_Safety Partner_Keys_Safety Einvoicing_Safety Customers_Safety Files_Present Ocr_Safety Worker_Loop
begin

text \<open>
  \<^bold>\<open>A verification library for the car rental platform.\<close>

  The program is a TypeScript monorepo: a NestJS API (\<open>src/apps/api/src\<close>) over a PostgreSQL database
  (\<open>src/apps/api/prisma/schema.prisma\<close>), a worker process (\<open>src/apps/worker/src\<close>), schemas and pure functions
  shared by all (\<open>src/packages/shared/src\<close>) and a web application. Staff of a company book vehicles at a desk,
  partners book over an API with keys, customers book on a public site; payments go through Stripe, invoices through
  an exchange system (SDI), and rentals are reported to the police system CaRGOS by a queue. The library models the
  services of the API and the worker, which hold the logic; the references to files below are relative to \<open>src\<close>.

  \<^bold>\<open>How the code is modelled.\<close>
  The database is one record \<open>db\<close> with a list per table (\<open>Schema\<close>, from \<open>schema.prisma\<close>), each row a record
  with the columns the services use; \<open>d_audit\<close>, \<open>d_mails\<close>, \<open>d_stripeCalls\<close>, \<open>d_disk\<close> and
  \<open>d_bucketDeletes\<close> hold what handlers send out: audit rows, mails, requests to Stripe, files and deletes. A
  handler is a program of \<open>Prelude\<close>: a function from a state to an answer or an HTTP error, and the new
  state. Statements run in the order of the code, every \<open>throw\<close>, guard and early return is a branch, what was
  written before a \<open>throw\<close> stays unless a \<open>transaction\<close> takes it back. What the row writers refuse beyond the code
  is what the schema promises of the database: unique keys (\<open>P2002\<close>), missing rows (\<open>P2025\<close>) and widths of columns
  (\<open>P2000\<close>). Validation of bodies by the shared schemas is a predicate or a parser. The time, the environment, whether
  mail is on, the address of the caller are in \<open>ctx\<close>; fresh identifiers and tokens, hashes, signatures, one-time codes,
  the parser of JSON texts, HTTP clients, the Stripe client and the bucket are parameters. A handler runs undisturbed
  unless its theory says otherwise; where the order of statements of several requests matters, it is a step relation
  whose steps are single statements (\<open>cargos_step\<close>, \<open>sdi_step\<close>, \<open>ocr_step\<close>). Times are integers, milliseconds since the
  epoch; money is integer cents; texts are ASCII (\<open>trim\<close>, case, \<open>parseInt\<close> on code units); address masks are 32 bit
  words.

  \<^bold>\<open>Foundations.\<close>
  \<^item> \<open>Prelude\<close>: errors, programs and their weakest preconditions (the collection \<open>wp\<close> drives most proofs), tables as
    keyed lists (\<open>tables\<close>), JSON. \<open>Always\<close>: predicates every program keeps, by its structure (\<open>always_intros\<close>), and
    sequences of requests (\<open>run_all\<close>). \<open>Row_Changes\<close>: what a write to one row does to a table as a multiset.
    \<open>Batch_Once\<close>: the contract of jobs that mark their rows (locale \<open>once_per_row\<close>).
  \<^item> \<open>Js_Date\<close>, \<open>Js_Text\<close>: calendar, ISO texts, string functions of the language; \<open>four_digit_year\<close> bounds them where
    texts are compared (years 0 to 9999).
  \<^item> \<open>Schema\<close>: tables (locale \<open>table\<close>, interpreted for each table). \<open>Fixtures\<close>: a small company for concrete runs.
  \<^item> \<open>Company_Access\<close> (\<open>auth/company-access.ts\<close>, \<open>auth/roles.guard.ts\<close>): which company and branch a user may see. Its
    locale \<open>guarded_rows\<close> says what a lookup by identifier guarantees and is interpreted on the lookups of
    bookings, vehicles, blocks, invoices and agreements.

  \<^bold>\<open>Fleet and prices.\<close>
  \<^item> \<open>Schedule\<close> (\<open>fleet/intervals.ts\<close>): half open windows and the locale \<open>schedule\<close> of a calendar with a check before
    every insert. \<open>Fleet_Blocks\<close> (\<open>fleet/calendar-block\<close>) and \<open>Booking_Calendar\<close> (the checks of
    \<open>reservation.service.ts\<close> and \<open>fleet/availability\<close>) interpret it: blocks do not come to overlap (C36), listing and check
    agree (C27). \<open>Fleet_Vehicles\<close>: vehicles and classes with their seasonal prices.
  \<^item> \<open>Class_Rent\<close> (\<open>rental-days.ts\<close>, \<open>class-rent.ts\<close>): billed days and the rent of a class against a declarative
    specification (C37, C38). \<open>Rates\<close> (\<open>pricing/rate.service.ts\<close>): quotes. \<open>Italian_Fiscal\<close>: fiscal identifiers.

  \<^bold>\<open>Bookings\<close> (\<open>reservation/reservation.service.ts\<close>).
  \<^item> \<open>Reservation_Core\<close>, \<open>Reservation_Update\<close>: the desk. An update is planned against the state (\<open>update_plan\<close>) and then
    written; \<open>Handover\<close> has the gates of handover, return and mail (C35). A reactivated booking can double book (C40).
  \<^item> \<open>Reservation_Partner\<close>: partners, with idempotency keys (C26). \<open>Partner_Webhook\<close>: the queue of events for partners,
    its retries and the requests it sends (C39).
  \<^item> \<open>Reservation_Public\<close>, \<open>Magic_Link\<close>, \<open>Sms\<close>: quotes and baskets of the public site (C30, C33), signed links to a
    booking (C34), text messages.
  \<^item> \<open>Payments\<close> (\<open>payments/payments.service.ts\<close>): checkouts, deposits, refunds and the webhook as a machine per booking
    (C28), idempotent events (C29), captures (C31), refunds and their ledger (C32).
  \<^item> \<open>Booking_Safety\<close>: all channels together over sequences of requests: no double bookings (C1), no foreign company (C2).

  \<^bold>\<open>Documents of a rental.\<close>
  \<^item> \<open>Invoices\<close> (\<open>invoice\<close>): drafts, issue, void, credit notes; fiscal numbers without gaps (C5), credits within the
    invoice (C19). \<open>Agreements\<close> (\<open>rental-agreement\<close>): drafts, signing, voiding (C6).
  \<^item> \<open>Cargos\<close> (\<open>integrations/cargos\<close> and the queue of the worker): lookup, insert, lock, transmission, recovery; the
    worker drains its queue (C3; a number of rounds above the attempts left in the queue is enough), one sender per row
    (C4). \<open>Einvoicing\<close>, \<open>Einvoicing_Safety\<close> (\<open>integrations/sdi\<close>): hand-over in its three statements, answer and callback
    (C7, C8).
  \<^item> \<open>File_Store\<close>, \<open>Agreement_Files\<close>, \<open>Reservation_Ops\<close>, \<open>Customer_Documents\<close>: the four services that take files, over a
    shared contract (locale \<open>file_store\<close>); \<open>Files_Safety\<close>, \<open>Files_Present\<close>: limits (C18) and that a listed file is
    there (C12), by the locales \<open>file_rows\<close>, \<open>file_service\<close> and \<open>file_part\<close>.
  \<^item> \<open>Document_Ocr\<close>, \<open>Ocr_Safety\<close>: machine readings of documents; the columns agree with the state however batches,
    callbacks and staff interleave (C13; locale \<open>reading_rule\<close>, interpreted for the columns and for undisturbed batches).

  \<^bold>\<open>People.\<close>
  \<^item> \<open>Customers\<close>, \<open>Customers_Safety\<close> (\<open>organization/customer\<close>): records, merge (C10), anonymisation for good (C9).
  \<^item> \<open>Auth\<close>, \<open>Auth_Safety\<close> (\<open>auth\<close>): sign-in, second factor, locks (C20), links (C22); the runs of C21 record what each
    request signs. \<open>Staff\<close>, \<open>Staff_Safety\<close> (\<open>organization/staff\<close>): accounts; a company keeps an administrator (C11).
  \<^item> \<open>Ip_Allowlist\<close>, \<open>Partner_Access\<close>, \<open>Partner_Keys_Safety\<close> (\<open>partner\<close>): address lists (C25), the guard (C23), revoked
    keys (C24).

  \<^bold>\<open>The worker\<close> (\<open>src/apps/worker\<close> and \<open>internal\<close>).
  \<^item> \<open>Service_Due\<close> (C16), \<open>Rent_Reminder\<close>, \<open>Retention\<close> (C14) and \<open>Worker_Loop\<close>: turns of the loop, intervals and doors of
    the API (C15, C17). Batches terminate by their lists; the pieces of the long sleep by what is left of it.

  \<^bold>\<open>What is assumed.\<close> The theorems say it: keyed tables at the start, fresh identifiers, tokens that are not forged, a
  bucket that takes deletes, requests that do not overlap. Where such an assumption can fail in the code, a lemma
  shows the bad run: \<open>reactivation_double_books\<close>, \<open>overlapping_requests_queue_twice\<close>,
  \<open>overlapping_requests_hand_over_twice\<close>, \<open>late_answer_hands_over_twice\<close>, \<open>late_failure_marks_applied\<close>,
  \<open>overlapping_runs_remind_twice\<close>, \<open>simultaneous_demotions_leave_none\<close>, \<open>stuck_bucket_starves\<close>,
  \<open>automatic_block_overlaps\<close>, \<open>created_in_progress_without_gate\<close>, \<open>refund_missing_from_ledger\<close>.

  \<^bold>\<open>What is not modelled.\<close> Controllers and modules (routing; the services are called directly), companies and stations
  (settings written one row at a time), reports (read only, partly raw SQL), the listing of the audit log, texts of mails,
  the layout of documents, probes and counters, and the web application. Of modelled services: the reconciliation export
  of payments, the body of the CaRGOS request, delays that hide timing, logs. Not in the model of the language:
  characters outside ASCII, and rounding of numbers beyond the exact integers.
\<close>

end
